(* ===== verification/Schemii_Prelude.thy ===== *)
theory Schemii_Prelude
  imports
    Complex_Main
    "HOL-Library.AList"
    "HOL-Library.Char_ord"
    "HOL-Library.List_Lexorder"
    "HOL-Library.Product_Lexorder"
    "HOL-Library.Option_ord"
    "HOL-Library.Sublist"
begin

text \<open>
  Shared vocabulary of the development: the Python values and standard-library operations the
  modelled code uses, with the generic facts the component theories rely on.

  \<^item> A Python \<open>str\<close> is the list of bytes of its UTF-8 encoding (\<^typ>\<open>string\<close>). Equality,
    concatenation, substring tests for ASCII patterns and \<open>len(s.encode("utf-8"))\<close> are exact, and
    the byte-wise lexicographic order is the code-point order of \<open>sorted\<close>. Case mapping
    (\<open>lower\<close>, \<open>casefold\<close>) is modelled on ASCII letters, bytes outside ASCII are left as they are.
  \<^item> A \<open>dict\<close> whose iteration order matters is an association list with distinct keys:
    \<^const>\<open>map_of\<close> reads, \<^const>\<open>AList.update\<close> assigns (in place for a present key, at the end
    for a new one, as Python does), \<^const>\<open>AList.delete\<close> removes.
  \<^item> A raised exception is the left injection of a sum, a validator that only raises or returns
    \<open>None\<close> is an optional error.
  \<^item> Instants are integers (microseconds since the epoch, UTC).
\<close>

named_theorems py_simps \<open>characteristic equations of the Python operations\<close>
named_theorems result_simps \<open>inversion of successful results\<close>

type_synonym ('e, 'a) result = "'e + 'a"
type_synonym ('k, 'v) dict = "('k \<times> 'v) list"
type_synonym instant = int

section \<open>Results and validators\<close>

definition result_bind :: "('e, 'a) result \<Rightarrow> ('a \<Rightarrow> ('e, 'b) result) \<Rightarrow> ('e, 'b) result" where
  "result_bind r f = (case r of Inl e \<Rightarrow> Inl e | Inr a \<Rightarrow> f a)"

text \<open>\<open>first_error\<close> runs validators in order and reports the first raised error.\<close>

fun first_error :: "'e option list \<Rightarrow> 'e option" where
  "first_error [] = None"
| "first_error (None # es) = first_error es"
| "first_error (Some e # es) = Some e"

definition raise_if :: "bool \<Rightarrow> 'e \<Rightarrow> 'e option" where
  "raise_if b e = (if b then Some e else None)"

definition raise_unless :: "bool \<Rightarrow> 'e \<Rightarrow> 'e option" where
  "raise_unless b e = (if b then None else Some e)"

text \<open>Running a statement after a validator: the validator's error, or the statement's result.\<close>

definition after_check :: "'e option \<Rightarrow> ('e, 'a) result \<Rightarrow> ('e, 'a) result" where
  "after_check c r = (case c of Some e \<Rightarrow> Inl e | None \<Rightarrow> r)"

section \<open>Dictionaries\<close>

definition dict_wf :: "('k, 'v) dict \<Rightarrow> bool" where
  "dict_wf d = distinct (map fst d)"

definition dict_keys :: "('k, 'v) dict \<Rightarrow> 'k list" where
  "dict_keys d = map fst d"

definition dict_values :: "('k, 'v) dict \<Rightarrow> 'v list" where
  "dict_values d = map snd d"

definition dict_get :: "('k, 'v) dict \<Rightarrow> 'k \<Rightarrow> 'v \<Rightarrow> 'v" where
  "dict_get d k v = (case map_of d k of Some w \<Rightarrow> w | None \<Rightarrow> v)"

definition setdefault :: "('k, 'v) dict \<Rightarrow> 'k \<Rightarrow> 'v \<Rightarrow> ('k, 'v) dict" where
  "setdefault d k v = (if map_of d k = None then AList.update k v d else d)"

text \<open>\<open>{key(x): x for x in xs}\<close>: a later element replaces the value of an earlier one.\<close>

definition dict_by :: "('a \<Rightarrow> 'k) \<Rightarrow> 'a list \<Rightarrow> ('k, 'a) dict" where
  "dict_by key xs = foldl (\<lambda>d x. AList.update (key x) x d) [] xs"

section \<open>Lists and sets\<close>

definition sorted_set :: "'a::linorder list \<Rightarrow> 'a list" where
  "sorted_set xs = sort (remdups xs)"

text \<open>\<open>list(dict.fromkeys(xs))\<close>: duplicates are dropped, first occurrences keep their place.\<close>

fun dedupe :: "'a list \<Rightarrow> 'a list" where
  "dedupe [] = []"
| "dedupe (x # xs) = x # filter (\<lambda>y. y \<noteq> x) (dedupe xs)"

definition pop_at :: "nat \<Rightarrow> 'a list \<Rightarrow> 'a list" where
  "pop_at n xs = take n xs @ drop (Suc n) xs"

definition insert_at :: "nat \<Rightarrow> 'a \<Rightarrow> 'a list \<Rightarrow> 'a list" where
  "insert_at n x xs = take n xs @ x # drop n xs"

text \<open>\<open>next((i for i, v in enumerate(xs) if p(v)), None)\<close>\<close>

fun index_where :: "('a \<Rightarrow> bool) \<Rightarrow> 'a list \<Rightarrow> nat option" where
  "index_where p [] = None"
| "index_where p (x # xs) = (if p x then Some 0 else map_option Suc (index_where p xs))"

section \<open>Strings\<close>

definition lower_char :: "char \<Rightarrow> char" where
  "lower_char c = (if 65 \<le> (of_char c :: nat) \<and> (of_char c :: nat) \<le> 90
                   then char_of ((of_char c :: nat) + 32) else c)"

definition lower :: "string \<Rightarrow> string" where
  "lower s = map lower_char s"

definition casefold :: "string \<Rightarrow> string" where
  "casefold s = map lower_char s"

fun upper_digit :: "nat \<Rightarrow> char" where
  "upper_digit n = char_of (48 + n)"

function nat_str :: "nat \<Rightarrow> string" where
  "nat_str n = (if n < 10 then [upper_digit n] else nat_str (n div 10) @ [upper_digit (n mod 10)])"
  by pat_completeness auto
termination by (relation "measure id") auto

definition int_str :: "int \<Rightarrow> string" where
  "int_str i = (if i < 0 then ''-'' @ nat_str (nat (- i)) else nat_str (nat i))"

fun join :: "string \<Rightarrow> string list \<Rightarrow> string" where
  "join sep [] = []"
| "join sep [s] = s"
| "join sep (s # t # ss) = s @ sep @ join sep (t # ss)"

text \<open>\<open>s.replace(c, r)\<close> for a one-byte pattern.\<close>

definition replace_char :: "char \<Rightarrow> string \<Rightarrow> string \<Rightarrow> string" where
  "replace_char c r s = concat (map (\<lambda>d. if d = c then r else [d]) s)"

text \<open>\<open>len\<close> of a \<open>str\<close> counts characters: the bytes that are not continuation bytes of an encoding.\<close>

definition char_count :: "string \<Rightarrow> nat" where
  "char_count s = length (filter (\<lambda>c. \<not> (128 \<le> (of_char c :: nat) \<and> (of_char c :: nat) < 192)) s)"

text \<open>The UTF-8 encodings of the characters \<open>str.isspace\<close> accepts, which \<open>str.strip\<close> removes.\<close>

definition whitespace :: "string list" where
  "whitespace =
     [[CHR 0x09], [CHR 0x0A], [CHR 0x0B], [CHR 0x0C], [CHR 0x0D], [CHR 0x1C], [CHR 0x1D], [CHR 0x1E], [CHR 0x1F], [CHR 0x20],
      [CHR 0xC2, CHR 0x85], [CHR 0xC2, CHR 0xA0], [CHR 0xE1, CHR 0x9A, CHR 0x80],
      [CHR 0xE2, CHR 0x80, CHR 0x80], [CHR 0xE2, CHR 0x80, CHR 0x81], [CHR 0xE2, CHR 0x80, CHR 0x82], [CHR 0xE2, CHR 0x80, CHR 0x83],
      [CHR 0xE2, CHR 0x80, CHR 0x84], [CHR 0xE2, CHR 0x80, CHR 0x85], [CHR 0xE2, CHR 0x80, CHR 0x86], [CHR 0xE2, CHR 0x80, CHR 0x87],
      [CHR 0xE2, CHR 0x80, CHR 0x88], [CHR 0xE2, CHR 0x80, CHR 0x89], [CHR 0xE2, CHR 0x80, CHR 0x8A], [CHR 0xE2, CHR 0x80, CHR 0xA8],
      [CHR 0xE2, CHR 0x80, CHR 0xA9], [CHR 0xE2, CHR 0x80, CHR 0xAF], [CHR 0xE2, CHR 0x81, CHR 0x9F], [CHR 0xE3, CHR 0x80, CHR 0x80]]"

function strip_left :: "string list \<Rightarrow> string \<Rightarrow> string" where
  "strip_left ws s = (case List.find (\<lambda>w. w \<noteq> [] \<and> prefix w s) ws of
      None \<Rightarrow> s | Some w \<Rightarrow> strip_left ws (drop (length w) s))"
  by pat_completeness auto
termination
  by (relation "measure (\<lambda>(ws, s). length s)") (auto simp: find_Some_iff prefix_def)

definition strip :: "string \<Rightarrow> string" where
  "strip s = rev (strip_left (map rev whitespace) (rev (strip_left whitespace s)))"

definition rstrip :: "string \<Rightarrow> string" where
  "rstrip s = rev (strip_left (map rev whitespace) (rev s))"

definition rstrip_char :: "char \<Rightarrow> string \<Rightarrow> string" where
  "rstrip_char c s = rev (dropWhile (\<lambda>d. d = c) (rev s))"

definition contains :: "string \<Rightarrow> string \<Rightarrow> bool" where
  "contains p s = sublist p s"

text \<open>\<open>s.split(c)\<close> for a one-byte separator: always at least one part.\<close>

fun split_on :: "char \<Rightarrow> string \<Rightarrow> string list" where
  "split_on c [] = [[]]"
| "split_on c (d # s) = (if d = c then [] # split_on c s
     else (case split_on c s of [] \<Rightarrow> [[d]] | p # ps \<Rightarrow> (d # p) # ps))"

declare nat_str.simps [simp del] strip_left.simps [simp del]

section \<open>Facts\<close>

lemma result_bind_Inr [simp]: "result_bind (Inr a) f = f a"
  and result_bind_Inl [simp]: "result_bind (Inl e) f = Inl e"
  by (simp_all add: result_bind_def)

lemma result_bind_eq_Inr [result_simps]:
  "result_bind r f = Inr b \<longleftrightarrow> (\<exists>a. r = Inr a \<and> f a = Inr b)"
  by (cases r) auto

lemma after_check_eq_Inr [result_simps]:
  "after_check c r = Inr b \<longleftrightarrow> c = None \<and> r = Inr b"
  by (cases c) (auto simp: after_check_def)

lemma after_check_simps [simp]:
  "after_check None r = r" "after_check (Some e) r = Inl e"
  by (simp_all add: after_check_def)

lemma raise_if_eq_None [simp]: "raise_if b e = None \<longleftrightarrow> \<not> b"
  and raise_unless_eq_None [simp]: "raise_unless b e = None \<longleftrightarrow> b"
  and raise_if_eq_Some [simp]: "raise_if b e = Some e' \<longleftrightarrow> b \<and> e' = e"
  and raise_unless_eq_Some [simp]: "raise_unless b e = Some e' \<longleftrightarrow> \<not> b \<and> e' = e"
  by (auto simp: raise_if_def raise_unless_def)

lemma first_error_None [simp]: "first_error es = None \<longleftrightarrow> (\<forall>e\<in>set es. e = None)"
  by (induction es rule: first_error.induct) auto

lemma first_error_append [simp]:
  "first_error (es @ fs) = (case first_error es of None \<Rightarrow> first_error fs | Some e \<Rightarrow> Some e)"
  by (induction es rule: first_error.induct) auto

lemma first_error_Some_mem: "first_error es = Some e \<Longrightarrow> Some e \<in> set es"
  by (induction es rule: first_error.induct) auto

lemma map_of_update [simp]: "map_of (AList.update k v d) = (map_of d)(k \<mapsto> v)"
  by (rule update_conv')

lemma map_of_delete [simp]: "map_of (AList.delete k d) = (map_of d)(k := None)"
  by (rule delete_conv')

lemma dict_wf_Nil [simp]: "dict_wf []"
  by (simp add: dict_wf_def)

lemma dict_wf_update [simp]: "dict_wf d \<Longrightarrow> dict_wf (AList.update k v d)"
  by (simp add: dict_wf_def distinct_update)

lemma dict_wf_delete [simp]: "dict_wf d \<Longrightarrow> dict_wf (AList.delete k d)"
  by (simp add: dict_wf_def distinct_delete)

lemma length_update_present:
  "map_of d k \<noteq> None \<Longrightarrow> length (AList.update k v d) = length d"
  by (induction d) (auto split: if_splits)

lemma length_update_absent:
  "map_of d k = None \<Longrightarrow> length (AList.update k v d) = Suc (length d)"
  by (induction d) (auto split: if_splits)

lemma length_update_le: "length (AList.update k v d) \<le> Suc (length d)"
  by (cases "map_of d k = None") (simp_all add: length_update_absent length_update_present)

lemma setdefault_get [simp]:
  "map_of (setdefault d k v) k' = (if k' = k then Some (dict_get d k v) else map_of d k')"
  by (auto simp: setdefault_def dict_get_def split: option.splits)

lemma dict_wf_setdefault [simp]: "dict_wf d \<Longrightarrow> dict_wf (setdefault d k v)"
  by (simp add: setdefault_def)

lemma set_sorted_set [simp]: "set (sorted_set xs) = set xs"
  and distinct_sorted_set [simp]: "distinct (sorted_set xs)"
  and sorted_sorted_set [simp]: "sorted (sorted_set xs)"
  by (simp_all add: sorted_set_def)

lemma set_dedupe [simp]: "set (dedupe xs) = set xs"
  by (induction xs) auto

lemma distinct_dedupe [simp]: "distinct (dedupe xs)"
  by (induction xs) auto

lemma index_where_Some:
  "index_where p xs = Some i \<longleftrightarrow> i < length xs \<and> p (xs ! i) \<and> (\<forall>j<i. \<not> p (xs ! j))"
proof (induction xs arbitrary: i)
  case Nil
  then show ?case by simp
next
  case (Cons x xs)
  show ?case
  proof (cases i)
    case 0
    then show ?thesis by simp
  next
    case (Suc k)
    have "(\<forall>j<Suc k. \<not> p ((x # xs) ! j)) \<longleftrightarrow> \<not> p x \<and> (\<forall>j<k. \<not> p (xs ! j))"
      by (auto simp: less_Suc_eq_0_disj)
    with Suc Cons.IH show ?thesis by auto
  qed
qed

lemma index_where_None: "index_where p xs = None \<longleftrightarrow> (\<forall>x\<in>set xs. \<not> p x)"
  by (induction xs) auto

lemma foldl_update_map_of:
  "map_of (foldl (\<lambda>d x. AList.update (key x) x d) d xs) k =
     (case List.find (\<lambda>x. key x = k) (rev xs) of Some x \<Rightarrow> Some x | None \<Rightarrow> map_of d k)"
proof (induction xs arbitrary: d)
  case Nil
  then show ?case by simp
next
  case (Cons x xs)
  have "List.find P (ys @ [x]) = (case List.find P ys of Some y \<Rightarrow> Some y | None \<Rightarrow> if P x then Some x else None)"
    for P and ys :: "'a list"
    by (induction ys) auto
  with Cons.IH show ?case by (auto split: option.splits)
qed

lemma dict_by_get:
  "map_of (dict_by key xs) k = List.find (\<lambda>x. key x = k) (rev xs)"
  by (simp add: dict_by_def foldl_update_map_of split: option.splits)

lemma dict_by_Some: "map_of (dict_by key xs) k = Some x \<Longrightarrow> x \<in> set xs \<and> key x = k"
  by (auto simp: dict_by_get find_Some_iff) (metis length_rev nth_mem set_rev)

lemma dict_by_None: "map_of (dict_by key xs) k = None \<longleftrightarrow> k \<notin> key ` set xs"
  by (auto simp: dict_by_get find_None_iff)

lemma dict_wf_dict_by [simp]: "dict_wf (dict_by key xs)"
proof -
  have "dict_wf d \<Longrightarrow> dict_wf (foldl (\<lambda>d x. AList.update (key x) x d) d xs)" for d
    by (induction xs arbitrary: d) auto
  then show ?thesis by (simp add: dict_by_def)
qed

lemma fst_set_dict_by: "fst ` set (dict_by key xs) = key ` set xs"
proof -
  have "k \<in> fst ` set (dict_by key xs) \<longleftrightarrow> map_of (dict_by key xs) k \<noteq> None" for k
    by (metis map_of_eq_None_iff)
  then show ?thesis by (auto simp: dict_by_None)
qed


lemma update_new: "k \<notin> fst ` set d \<Longrightarrow> AList.update k v d = d @ [(k, v)]"
  by (induction d) auto

lemma set_update_subset: "set (AList.update k v d) \<subseteq> insert (k, v) (set d)"
  by (induction d) auto

lemma dict_by_distinct: "distinct (map key xs) \<Longrightarrow> dict_by key xs = map (\<lambda>x. (key x, x)) xs"
proof (induction xs rule: rev_induct)
  case (snoc x xs)
  then have "key x \<notin> fst ` set (map (\<lambda>x. (key x, x)) xs)" by auto
  with snoc show ?case by (simp add: dict_by_def update_new)
qed (simp add: dict_by_def)

lemma dict_by_find:
  assumes "distinct (map key xs)" "x \<in> set xs"
  shows "map_of (dict_by key xs) (key x) = Some x"
proof -
  have "map_of (map (\<lambda>x. (key x, x)) xs) (key x) = Some x"
    using assms by (intro map_of_is_SomeI) (auto simp: comp_def)
  with assms show ?thesis by (simp add: dict_by_distinct)
qed

lemma find_unique:
  assumes "x \<in> set xs" "P x" "\<And>y. y \<in> set xs \<Longrightarrow> P y \<Longrightarrow> y = x"
  shows "List.find P xs = Some x"
proof (cases "List.find P xs")
  case None
  with assms(1,2) show ?thesis by (auto simp: find_None_iff)
next
  case (Some y)
  then have "y \<in> set xs \<and> P y" by (auto simp: find_Some_iff)
  with Some assms(3) show ?thesis by simp
qed

end
