(* ===== verification/Json_Value.thy ===== *)
theory Json_Value
  imports Schemii_Prelude
begin

text \<open>
  JSON-compatible Python values: the documents \<open>model_dump(mode="json")\<close> produces, Python's
  \<open>==\<close> on them, and the serialisation \<open>json.dumps\<close> used for fingerprints.

  An object is the insertion-ordered association list of a \<open>dict\<close>. \<open>py_eq\<close> is Python's equality:
  it ignores the order of object keys and identifies \<open>True\<close> with 1 and \<open>False\<close> with 0. The
  documents of this program hold no floating point numbers.
\<close>

datatype json =
    JNull
  | JBool bool
  | JInt int
  | JStr string
  | JList "json list"
  | JObj "(string \<times> json) list"

lemma size_json_member [simp]: "x \<in> set xs \<Longrightarrow> size x < size (JList xs)"
  by (induction xs) auto

lemma size_json_value [simp]: "kv \<in> set kvs \<Longrightarrow> size (snd kv) < size (JObj kvs)"
  by (induction kvs) (auto simp: less_Suc_eq_le)

lemma size_json_lookup [simp]: "map_of kvs k = Some v \<Longrightarrow> size v < size (JObj kvs)"
  using size_json_value[of "(k, v)" kvs] by (auto dest: map_of_SomeD)

lemma size_json_tail [simp]: "size (JList xs) < size (JList (x # xs))"
  by simp

function (sequential) py_eq :: "json \<Rightarrow> json \<Rightarrow> bool" where
  "py_eq JNull JNull = True"
| "py_eq (JBool a) (JBool b) = (a = b)"
| "py_eq (JBool a) (JInt n) = (n = of_bool a)"
| "py_eq (JInt n) (JBool a) = (n = of_bool a)"
| "py_eq (JInt m) (JInt n) = (m = n)"
| "py_eq (JStr s) (JStr t) = (s = t)"
| "py_eq (JList []) (JList []) = True"
| "py_eq (JList (x # xs)) (JList (y # ys)) = (py_eq x y \<and> py_eq (JList xs) (JList ys))"
| "py_eq (JObj xs) (JObj ys) =
     (length xs = length ys \<and>
      (\<forall>kv\<in>set xs. case map_of ys (fst kv) of None \<Rightarrow> False | Some w \<Rightarrow> py_eq (snd kv) w))"
| "py_eq _ _ = False"
  by pat_completeness auto
termination
  by (relation "measure (\<lambda>(a, b). size a)") (auto simp del: json.size)

text \<open>Well-formed documents: object keys are distinct at every level.\<close>

fun json_wf :: "json \<Rightarrow> bool" where
  "json_wf (JList xs) = (\<forall>x\<in>set xs. json_wf x)"
| "json_wf (JObj kvs) = (distinct (map fst kvs) \<and> (\<forall>kv\<in>set kvs. json_wf (snd kv)))"
| "json_wf _ = True"

section \<open>Serialisation\<close>

fun hex_digit :: "nat \<Rightarrow> char" where
  "hex_digit n = (if n < 10 then char_of (48 + n) else char_of (87 + n))"

fun escape_char :: "char \<Rightarrow> string" where
  "escape_char c =
     (let n = (of_char c :: nat) in
      if n = 34 then [char_of (92::nat), char_of (34::nat)]
      else if n = 92 then [char_of (92::nat), char_of (92::nat)]
      else if n = 10 then char_of (92::nat) # ''n''
      else if n = 13 then char_of (92::nat) # ''r''
      else if n = 9 then char_of (92::nat) # ''t''
      else if n = 12 then char_of (92::nat) # ''f''
      else if n = 8 then char_of (92::nat) # ''b''
      else if n < 32 then char_of (92::nat) # ''u00'' @ [hex_digit (n div 16), hex_digit (n mod 16)]
      else [c])"

definition dump_string :: "string \<Rightarrow> string" where
  "dump_string s = [char_of (34::nat)] @ concat (map escape_char s) @ [char_of (34::nat)]"

text \<open>
  \<open>json.dumps(v, ensure_ascii=False, separators=(",", ":"), sort_keys=True)\<close>.
\<close>

function dumps :: "json \<Rightarrow> string" where
  "dumps JNull = ''null''"
| "dumps (JBool b) = (if b then ''true'' else ''false'')"
| "dumps (JInt i) = int_str i"
| "dumps (JStr s) = dump_string s"
| "dumps (JList xs) = ''['' @ join '','' (map dumps xs) @ '']''"
| "dumps (JObj kvs) =
     ''{'' @ join '','' (map (\<lambda>kv. dump_string (fst kv) @ '':'' @ dumps (snd kv)) (sort_key fst kvs)) @ ''}''"
  by pat_completeness auto
termination
  by (relation "measure size") (auto simp del: json.size)

text \<open>
  \<open>json.dumps(v, ensure_ascii=False, indent=2, sort_keys=True)\<close>: one item per line, two more
  spaces of indentation per level, empty containers on one line.
\<close>

definition newline :: string where
  "newline = [char_of (10::nat)]"

function dumps_indent :: "nat \<Rightarrow> json \<Rightarrow> string" where
  "dumps_indent n JNull = ''null''"
| "dumps_indent n (JBool b) = (if b then ''true'' else ''false'')"
| "dumps_indent n (JInt i) = int_str i"
| "dumps_indent n (JStr s) = dump_string s"
| "dumps_indent n (JList xs) =
     (if xs = [] then ''[]''
      else ''['' @ newline @ replicate (n + 2) CHR '' ''
           @ join ('','' @ newline @ replicate (n + 2) CHR '' '') (map (dumps_indent (n + 2)) xs)
           @ newline @ replicate n CHR '' '' @ '']'')"
| "dumps_indent n (JObj kvs) =
     (if kvs = [] then ''{}''
      else ''{'' @ newline @ replicate (n + 2) CHR '' ''
           @ join ('','' @ newline @ replicate (n + 2) CHR '' '')
               (map (\<lambda>kv. dump_string (fst kv) @ '': '' @ dumps_indent (n + 2) (snd kv)) (sort_key fst kvs))
           @ newline @ replicate n CHR '' '' @ ''}'')"
  by pat_completeness auto
termination
  by (relation "measure (size \<circ> snd)") (auto simp del: json.size)

section \<open>Facts about equality\<close>

lemma py_eq_list: "py_eq (JList xs) (JList ys) = list_all2 py_eq xs ys"
proof (induction xs arbitrary: ys)
  case Nil
  then show ?case by (cases ys) auto
next
  case (Cons x xs)
  then show ?case by (cases ys) auto
qed

lemma json_induct_wf [case_names Null Bool Int Str List Obj]:
  assumes "P JNull" "\<And>b. P (JBool b)" "\<And>i. P (JInt i)" "\<And>s. P (JStr s)"
    and "\<And>xs. (\<And>x. x \<in> set xs \<Longrightarrow> P x) \<Longrightarrow> P (JList xs)"
    and "\<And>kvs. (\<And>k v. (k, v) \<in> set kvs \<Longrightarrow> P v) \<Longrightarrow> P (JObj kvs)"
  shows "P j"
proof (induction j)
  case (JList xs)
  then show ?case by (rule assms(5))
next
  case (JObj kvs)
  show ?case
  proof (rule assms(6))
    fix k v
    assume m: "(k, v) \<in> set kvs"
    have "v \<in> Basic_BNFs.snds (k, v)" by simp
    with JObj m show "P v" by blast
  qed
qed (auto intro: assms)

lemma py_eq_refl: "json_wf j \<Longrightarrow> py_eq j j"
proof (induction j rule: json_induct_wf)
  case (List xs)
  then show ?case by (simp add: py_eq_list list_all2_same)
next
  case (Obj kvs)
  have "map_of kvs (fst kv) = Some (snd kv)" if "kv \<in> set kvs" for kv
    using that Obj.prems by (cases kv) auto
  with Obj show ?case by fastforce
qed auto

text \<open>Two well-formed objects with the same keys and equal values are equal.\<close>

lemma py_eq_objI:
  assumes "distinct (map fst xs)" "distinct (map fst ys)"
    and "\<And>k. rel_option py_eq (map_of xs k) (map_of ys k)"
  shows "py_eq (JObj xs) (JObj ys)"
proof -
  have "set (map fst xs) = set (map fst ys)"
  proof (intro set_eqI)
    fix k
    have "map_of xs k = None \<longleftrightarrow> map_of ys k = None"
      using assms(3)[of k] by (cases "map_of xs k"; cases "map_of ys k") auto
    then show "k \<in> set (map fst xs) \<longleftrightarrow> k \<in> set (map fst ys)"
      by (simp add: map_of_eq_None_iff)
  qed
  then have len: "length xs = length ys"
    using assms(1,2) by (metis distinct_card length_map)
  have "case map_of ys (fst kv) of None \<Rightarrow> False | Some w \<Rightarrow> py_eq (snd kv) w" if "kv \<in> set xs" for kv
  proof -
    have "map_of xs (fst kv) = Some (snd kv)" using that assms(1) by (cases kv) auto
    with assms(3)[of "fst kv"] show ?thesis by (auto simp: option_rel_Some1)
  qed
  with len show ?thesis by simp
qed

end
