(* ===== verification/Design_Model.thy ===== *)
theory Design_Model
  imports Json_Value
begin

text \<open>
  The desired-design document (\<open>schemii/designs/models.py\<close>): one record per Pydantic model, one
  constructor per literal, in the order of the source. Field names carry a prefix because record
  fields are global; the JSON documents below use the names of the source.

  \<open>model_dump(mode="json")\<close> of each model is a function to \<^typ>\<open>json\<close>. Its argument \<open>key\<close> is the
  identity for a dump by field names and pydantic's \<open>to_camel\<close> for a dump by alias.
\<close>

section \<open>Types\<close>

datatype type_kind = EnumType | DomainType

record design_domain_check =
  dc_name :: "string option"
  dc_expression :: string

record design_type =
  ty_id :: string
  ty_name :: string
  ty_kind :: type_kind
  ty_enum_values :: "string list"
  ty_base_type :: "string option"
  ty_default_expression :: "string option"
  ty_not_null :: bool
  ty_checks :: "design_domain_check list"
  ty_collation :: "string option"
  ty_definition :: string

section \<open>Tables\<close>

datatype identity_kind = Always | ByDefault

record design_column =
  col_id :: string
  col_name :: string
  col_data_type :: string
  col_nullable :: bool
  col_default_expression :: "string option"
  col_identity :: "identity_kind option"
  col_generated_expression :: "string option"
  col_generated_source_column_ids :: "string list"

datatype key_kind = PrimaryKey | UniqueKey

record design_key =
  key_id :: string
  key_name :: string
  key_kind :: key_kind
  key_column_ids :: "string list"

record design_check =
  chk_id :: string
  chk_name :: string
  chk_expression :: string
  chk_column_ids :: "string list"

record design_index =
  idx_id :: string
  idx_name :: string
  idx_method :: string
  idx_column_ids :: "string list"
  idx_include_column_ids :: "string list"
  idx_expression :: "string option"
  idx_expression_source_column_ids :: "string list"
  idx_predicate :: "string option"
  idx_predicate_column_ids :: "string list"
  idx_unique :: bool

record design_table =
  tbl_id :: string
  tbl_name :: string
  tbl_columns :: "design_column list"
  tbl_keys :: "design_key list"
  tbl_checks :: "design_check list"
  tbl_indexes :: "design_index list"

section \<open>Relationships, routines, triggers, views\<close>

datatype referential_action = NoAction | Restrict | Cascade | SetNull | SetDefault

record design_relationship =
  rel_id :: string
  rel_name :: string
  rel_source_table_id :: string
  rel_source_column_ids :: "string list"
  rel_target_table_id :: string
  rel_target_column_ids :: "string list"
  rel_on_update :: referential_action
  rel_on_delete :: referential_action
  rel_deferrable :: bool
  rel_initially_deferred :: bool

datatype routine_kind = FunctionRoutine | ProcedureRoutine

record design_function =
  fn_id :: string
  fn_name :: string
  fn_kind :: routine_kind
  fn_arguments :: string
  fn_identity_arguments :: string
  fn_return_type :: "string option"
  fn_language :: string
  fn_definition :: string

datatype trigger_timing = BeforeEvent | AfterEvent | InsteadOfEvent
datatype trigger_event = InsertEvent | UpdateEvent | DeleteEvent | TruncateEvent
datatype trigger_orientation = PerRow | PerStatement

record design_trigger =
  trg_id :: string
  trg_name :: string
  trg_relation_name :: string
  trg_timing :: trigger_timing
  trg_events :: "trigger_event list"
  trg_orientation :: trigger_orientation
  trg_function_name :: string
  trg_function_arguments :: "string list"
  trg_update_columns :: "string list"
  trg_referenced_columns :: "string list"
  trg_when_expression :: "string option"
  trg_transition_relations :: "string list"
  trg_constraint :: bool
  trg_deferrable :: bool
  trg_initially_deferred :: bool
  trg_definition :: string

datatype view_kind = OrdinaryView | MaterializedView

record design_view =
  view_id :: string
  view_name :: string
  view_kind :: view_kind
  view_definition :: string
  view_populate_on_create :: "bool option"

text \<open>\<open>valid_population_intent\<close> of \<open>DesignView\<close>; \<^const>\<open>Inl\<close> is its \<open>ValueError\<close>.\<close>

definition valid_population_intent :: "design_view \<Rightarrow> (unit, design_view) result" where
  "valid_population_intent v =
     (if view_kind v = OrdinaryView \<and> view_populate_on_create v \<noteq> None then Inl ()
      else if view_kind v = MaterializedView \<and> view_populate_on_create v = None
        then Inr (v\<lparr>view_populate_on_create := Some True\<rparr>)
      else Inr v)"

record design_content =
  content_types :: "design_type list"
  content_tables :: "design_table list"
  content_relationships :: "design_relationship list"
  content_functions :: "design_function list"
  content_views :: "design_view list"
  content_triggers :: "design_trigger list"

definition empty_design_content :: design_content where
  "empty_design_content = \<lparr>content_types = [], content_tables = [], content_relationships = [],
     content_functions = [], content_views = [], content_triggers = []\<rparr>"

section \<open>Designs and layouts\<close>

record schemii_design =
  ds_workspace_id :: string
  ds_revision :: nat
  ds_content :: design_content
  ds_fingerprint :: string

record design_replace =
  dr_expected_design_revision :: nat
  dr_content :: design_content
  dr_history_group_id :: "string option"

datatype layer = TablesLayer | ViewsLayer

record object_position =
  pos_object_id :: string
  pos_layer :: layer
  pos_x :: rat
  pos_y :: rat

type_synonym layout_content = "object_position list"

text \<open>\<open>SchemiiDesignLayoutContent(objects=...)\<close> with its \<open>unique_objects\<close> validator.\<close>

definition layout_content_of :: "object_position list \<Rightarrow> (unit, layout_content) result" where
  "layout_content_of objects =
     (let object_ids = map pos_object_id objects in
      if length object_ids \<noteq> length (remdups object_ids) then Inl () else Inr objects)"

record design_layout =
  ly_workspace_id :: string
  ly_revision :: nat
  ly_design_revision :: nat
  ly_content :: layout_content

record layout_replace =
  lr_expected_layout_revision :: nat
  lr_expected_design_revision :: nat
  lr_content :: layout_content

section \<open>JSON documents\<close>

definition json_opt :: "('a \<Rightarrow> json) \<Rightarrow> 'a option \<Rightarrow> json" where
  "json_opt f v = (case v of None \<Rightarrow> JNull | Some x \<Rightarrow> f x)"

definition json_strs :: "string list \<Rightarrow> json" where
  "json_strs xs = JList (map JStr xs)"

fun type_kind_text :: "type_kind \<Rightarrow> string" where
  "type_kind_text EnumType = ''enum''"
| "type_kind_text DomainType = ''domain''"

fun identity_text :: "identity_kind \<Rightarrow> string" where
  "identity_text Always = ''always''"
| "identity_text ByDefault = ''by_default''"

fun key_kind_text :: "key_kind \<Rightarrow> string" where
  "key_kind_text PrimaryKey = ''primary''"
| "key_kind_text UniqueKey = ''unique''"

fun action_text :: "referential_action \<Rightarrow> string" where
  "action_text NoAction = ''NO ACTION''"
| "action_text Restrict = ''RESTRICT''"
| "action_text Cascade = ''CASCADE''"
| "action_text SetNull = ''SET NULL''"
| "action_text SetDefault = ''SET DEFAULT''"

fun routine_kind_text :: "routine_kind \<Rightarrow> string" where
  "routine_kind_text FunctionRoutine = ''function''"
| "routine_kind_text ProcedureRoutine = ''procedure''"

fun timing_text :: "trigger_timing \<Rightarrow> string" where
  "timing_text BeforeEvent = ''before''"
| "timing_text AfterEvent = ''after''"
| "timing_text InsteadOfEvent = ''instead_of''"

fun event_text :: "trigger_event \<Rightarrow> string" where
  "event_text InsertEvent = ''insert''"
| "event_text UpdateEvent = ''update''"
| "event_text DeleteEvent = ''delete''"
| "event_text TruncateEvent = ''truncate''"

fun orientation_text :: "trigger_orientation \<Rightarrow> string" where
  "orientation_text PerRow = ''row''"
| "orientation_text PerStatement = ''statement''"

fun view_kind_text :: "view_kind \<Rightarrow> string" where
  "view_kind_text OrdinaryView = ''view''"
| "view_kind_text MaterializedView = ''materialized_view''"

definition domain_check_document :: "(string \<Rightarrow> string) \<Rightarrow> design_domain_check \<Rightarrow> json" where
  "domain_check_document key c = JObj
     [(key ''name'', json_opt JStr (dc_name c)), (key ''expression'', JStr (dc_expression c))]"

definition type_document :: "(string \<Rightarrow> string) \<Rightarrow> design_type \<Rightarrow> json" where
  "type_document key t = JObj
     [(key ''id'', JStr (ty_id t)), (key ''name'', JStr (ty_name t)),
      (key ''kind'', JStr (type_kind_text (ty_kind t))),
      (key ''enum_values'', json_strs (ty_enum_values t)),
      (key ''base_type'', json_opt JStr (ty_base_type t)),
      (key ''default_expression'', json_opt JStr (ty_default_expression t)),
      (key ''not_null'', JBool (ty_not_null t)),
      (key ''checks'', JList (map (domain_check_document key) (ty_checks t))),
      (key ''collation'', json_opt JStr (ty_collation t)),
      (key ''definition'', JStr (ty_definition t))]"

definition column_document :: "(string \<Rightarrow> string) \<Rightarrow> design_column \<Rightarrow> json" where
  "column_document key c = JObj
     [(key ''id'', JStr (col_id c)), (key ''name'', JStr (col_name c)),
      (key ''data_type'', JStr (col_data_type c)), (key ''nullable'', JBool (col_nullable c)),
      (key ''default_expression'', json_opt JStr (col_default_expression c)),
      (key ''identity'', json_opt (\<lambda>i. JStr (identity_text i)) (col_identity c)),
      (key ''generated_expression'', json_opt JStr (col_generated_expression c)),
      (key ''generated_source_column_ids'', json_strs (col_generated_source_column_ids c))]"

definition key_document :: "(string \<Rightarrow> string) \<Rightarrow> design_key \<Rightarrow> json" where
  "key_document key k = JObj
     [(key ''id'', JStr (key_id k)), (key ''name'', JStr (key_name k)),
      (key ''kind'', JStr (key_kind_text (key_kind k))),
      (key ''column_ids'', json_strs (key_column_ids k))]"

definition check_document :: "(string \<Rightarrow> string) \<Rightarrow> design_check \<Rightarrow> json" where
  "check_document key c = JObj
     [(key ''id'', JStr (chk_id c)), (key ''name'', JStr (chk_name c)),
      (key ''expression'', JStr (chk_expression c)),
      (key ''column_ids'', json_strs (chk_column_ids c))]"

definition index_document :: "(string \<Rightarrow> string) \<Rightarrow> design_index \<Rightarrow> json" where
  "index_document key i = JObj
     [(key ''id'', JStr (idx_id i)), (key ''name'', JStr (idx_name i)),
      (key ''method'', JStr (idx_method i)), (key ''column_ids'', json_strs (idx_column_ids i)),
      (key ''include_column_ids'', json_strs (idx_include_column_ids i)),
      (key ''expression'', json_opt JStr (idx_expression i)),
      (key ''expression_source_column_ids'', json_strs (idx_expression_source_column_ids i)),
      (key ''predicate'', json_opt JStr (idx_predicate i)),
      (key ''predicate_column_ids'', json_strs (idx_predicate_column_ids i)),
      (key ''unique'', JBool (idx_unique i))]"

definition table_document :: "(string \<Rightarrow> string) \<Rightarrow> design_table \<Rightarrow> json" where
  "table_document key t = JObj
     [(key ''id'', JStr (tbl_id t)), (key ''name'', JStr (tbl_name t)),
      (key ''columns'', JList (map (column_document key) (tbl_columns t))),
      (key ''keys'', JList (map (key_document key) (tbl_keys t))),
      (key ''checks'', JList (map (check_document key) (tbl_checks t))),
      (key ''indexes'', JList (map (index_document key) (tbl_indexes t)))]"

definition relationship_document :: "(string \<Rightarrow> string) \<Rightarrow> design_relationship \<Rightarrow> json" where
  "relationship_document key r = JObj
     [(key ''id'', JStr (rel_id r)), (key ''name'', JStr (rel_name r)),
      (key ''source_table_id'', JStr (rel_source_table_id r)),
      (key ''source_column_ids'', json_strs (rel_source_column_ids r)),
      (key ''target_table_id'', JStr (rel_target_table_id r)),
      (key ''target_column_ids'', json_strs (rel_target_column_ids r)),
      (key ''on_update'', JStr (action_text (rel_on_update r))),
      (key ''on_delete'', JStr (action_text (rel_on_delete r))),
      (key ''deferrable'', JBool (rel_deferrable r)),
      (key ''initially_deferred'', JBool (rel_initially_deferred r))]"

definition function_document :: "(string \<Rightarrow> string) \<Rightarrow> design_function \<Rightarrow> json" where
  "function_document key f = JObj
     [(key ''id'', JStr (fn_id f)), (key ''name'', JStr (fn_name f)),
      (key ''kind'', JStr (routine_kind_text (fn_kind f))),
      (key ''arguments'', JStr (fn_arguments f)),
      (key ''identity_arguments'', JStr (fn_identity_arguments f)),
      (key ''return_type'', json_opt JStr (fn_return_type f)),
      (key ''language'', JStr (fn_language f)), (key ''definition'', JStr (fn_definition f))]"

definition view_document :: "(string \<Rightarrow> string) \<Rightarrow> design_view \<Rightarrow> json" where
  "view_document key v = JObj
     [(key ''id'', JStr (view_id v)), (key ''name'', JStr (view_name v)),
      (key ''kind'', JStr (view_kind_text (view_kind v))),
      (key ''definition'', JStr (view_definition v)),
      (key ''populate_on_create'', json_opt JBool (view_populate_on_create v))]"

definition trigger_document :: "(string \<Rightarrow> string) \<Rightarrow> design_trigger \<Rightarrow> json" where
  "trigger_document key t = JObj
     [(key ''id'', JStr (trg_id t)), (key ''name'', JStr (trg_name t)),
      (key ''relation_name'', JStr (trg_relation_name t)),
      (key ''timing'', JStr (timing_text (trg_timing t))),
      (key ''events'', json_strs (map event_text (trg_events t))),
      (key ''orientation'', JStr (orientation_text (trg_orientation t))),
      (key ''function_name'', JStr (trg_function_name t)),
      (key ''function_arguments'', json_strs (trg_function_arguments t)),
      (key ''update_columns'', json_strs (trg_update_columns t)),
      (key ''referenced_columns'', json_strs (trg_referenced_columns t)),
      (key ''when_expression'', json_opt JStr (trg_when_expression t)),
      (key ''transition_relations'', json_strs (trg_transition_relations t)),
      (key ''constraint'', JBool (trg_constraint t)), (key ''deferrable'', JBool (trg_deferrable t)),
      (key ''initially_deferred'', JBool (trg_initially_deferred t)),
      (key ''definition'', JStr (trg_definition t))]"

definition content_document :: "(string \<Rightarrow> string) \<Rightarrow> design_content \<Rightarrow> json" where
  "content_document key c = JObj
     [(key ''types'', JList (map (type_document key) (content_types c))),
      (key ''tables'', JList (map (table_document key) (content_tables c))),
      (key ''relationships'', JList (map (relationship_document key) (content_relationships c))),
      (key ''functions'', JList (map (function_document key) (content_functions c))),
      (key ''views'', JList (map (view_document key) (content_views c))),
      (key ''triggers'', JList (map (trigger_document key) (content_triggers c)))]"

section \<open>Facts\<close>

lemma json_wf_opt [simp]: "(\<And>x. json_wf (f x)) \<Longrightarrow> json_wf (json_opt f v)"
  by (cases v) (auto simp: json_opt_def)

lemma json_wf_strs [simp]: "json_wf (json_strs xs)"
  by (auto simp: json_strs_def)

lemmas document_defs = domain_check_document_def type_document_def column_document_def key_document_def
  check_document_def index_document_def table_document_def relationship_document_def
  function_document_def view_document_def trigger_document_def content_document_def

text \<open>Distinct field names give well-formed documents; \<open>inj key\<close> holds for both dump modes.\<close>

lemma documents_wf:
  assumes "inj key"
  shows "json_wf (type_document key ty)" "json_wf (column_document key c)" "json_wf (key_document key k)"
    "json_wf (check_document key h)" "json_wf (index_document key i)" "json_wf (table_document key t)"
    "json_wf (relationship_document key r)" "json_wf (function_document key f)"
    "json_wf (view_document key v)" "json_wf (trigger_document key g)"
  using assms by (auto simp: document_defs inj_eq)

lemma content_document_wf: "inj key \<Longrightarrow> json_wf (content_document key content)"
  by (auto simp: content_document_def inj_eq documents_wf)

end
