(* ===== verification/Postgres_Catalog.thy ===== *)
theory Postgres_Catalog
  imports Design_Model
begin

text \<open>
  Catalog snapshots of a PostgreSQL namespace (\<open>common/postgres/models.py\<close>): one record per Pydantic
  model, the model validators, the canonical document and its fingerprint. The hash is a parameter.
\<close>

section \<open>Columns and constraints\<close>

datatype generated_kind = StoredGenerated | VirtualGenerated

record pg_column =
  pgc_name :: string
  pgc_ordinal :: nat
  pgc_data_type :: string
  pgc_nullable :: bool
  pgc_default_expression :: "string option"
  pgc_identity :: "identity_kind option"
  pgc_generated :: "generated_kind option"
  pgc_collation_schema :: "string option"
  pgc_collation_name :: "string option"

definition require_complete_collation :: "pg_column \<Rightarrow> string option" where
  "require_complete_collation c =
     raise_if ((pgc_collation_schema c = None) \<noteq> (pgc_collation_name c = None))
       ''column collation must contain both schema and name''"

text \<open>\<open>PostgresPrimaryKey\<close>, \<open>PostgresUniqueConstraint\<close> and \<open>PostgresExclusionConstraint\<close> have the same fields.\<close>

record pg_key =
  pgk_name :: string
  pgk_table :: string
  pgk_columns :: "string list"
  pgk_definition :: string
  pgk_validated :: bool
  pgk_deferrable :: bool
  pgk_initially_deferred :: bool

text \<open>\<open>PostgresCheckConstraint\<close> and \<open>PostgresNotNullConstraint\<close> have the same fields.\<close>

record pg_check =
  pgh_name :: string
  pgh_table :: string
  pgh_columns :: "string list"
  pgh_definition :: string
  pgh_validated :: bool

record pg_index =
  pgi_name :: string
  pgi_table :: string
  pgi_definition :: string
  pgi_method :: string
  pgi_unique :: bool
  pgi_valid :: bool
  pgi_predicate :: "string option"

datatype trigger_enabled = EnabledOrigin | EnabledDisabled | EnabledReplica | EnabledAlways

record pg_trigger =
  pgt_name :: string
  pgt_table :: string
  pgt_definition :: string
  pgt_enabled :: trigger_enabled

datatype match_type = MatchFull | MatchPartial | MatchSimple

record pg_relationship =
  pgr_name :: string
  pgr_source_namespace :: string
  pgr_source_table :: string
  pgr_source_columns :: "string list"
  pgr_target_namespace :: string
  pgr_target_table :: string
  pgr_target_columns :: "string list"
  pgr_definition :: string
  pgr_on_update :: referential_action
  pgr_on_delete :: referential_action
  pgr_match_type :: match_type
  pgr_validated :: bool
  pgr_deferrable :: bool
  pgr_initially_deferred :: bool

definition require_matching_column_counts :: "pg_relationship \<Rightarrow> string option" where
  "require_matching_column_counts r =
     raise_if (length (pgr_source_columns r) \<noteq> length (pgr_target_columns r))
       ''foreign-key column counts must match''"

section \<open>Objects and catalogs\<close>

record pg_function =
  pgf_namespace :: string
  pgf_name :: string
  pgf_kind :: routine_kind
  pgf_identity_arguments :: string
  pgf_arguments :: string
  pgf_return_type :: "string option"
  pgf_language :: string
  pgf_definition :: string

record pg_type =
  pgy_namespace :: string
  pgy_name :: string
  pgy_kind :: type_kind
  pgy_definition :: string

record pg_view =
  pgv_namespace :: string
  pgv_name :: string
  pgv_columns :: "pg_column list"
  pgv_query_definition :: string

record pg_materialized_view = pg_view +
  pgv_populated :: bool

datatype table_kind = OrdinaryTable | PartitionedTable

record pg_table =
  pgb_namespace :: string
  pgb_name :: string
  pgb_kind :: table_kind
  pgb_is_partition :: bool
  pgb_partition_key :: "string option"
  pgb_columns :: "pg_column list"
  pgb_primary_key :: "pg_key option"
  pgb_unique_constraints :: "pg_key list"
  pgb_checks :: "pg_check list"
  pgb_not_null_constraints :: "pg_check list"
  pgb_exclusion_constraints :: "pg_key list"
  pgb_indexes :: "pg_index list"
  pgb_triggers :: "pg_trigger list"

record pg_catalog_content =
  cat_database :: string
  cat_namespace :: string
  cat_server_version :: string
  cat_server_version_num :: nat
  cat_server_timezone :: string
  cat_types :: "pg_type list"
  cat_tables :: "pg_table list"
  cat_relationships :: "pg_relationship list"
  cat_functions :: "pg_function list"
  cat_views :: "pg_view list"
  cat_materialized_views :: "pg_materialized_view list"

record pg_catalog = pg_catalog_content +
  cat_captured_at :: instant
  cat_fingerprint :: string

section \<open>The canonical document\<close>

fun generated_text :: "generated_kind \<Rightarrow> string" where
  "generated_text StoredGenerated = ''stored''"
| "generated_text VirtualGenerated = ''virtual''"

fun enabled_text :: "trigger_enabled \<Rightarrow> string" where
  "enabled_text EnabledOrigin = ''origin''"
| "enabled_text EnabledDisabled = ''disabled''"
| "enabled_text EnabledReplica = ''replica''"
| "enabled_text EnabledAlways = ''always''"

fun match_text :: "match_type \<Rightarrow> string" where
  "match_text MatchFull = ''FULL''"
| "match_text MatchPartial = ''PARTIAL''"
| "match_text MatchSimple = ''SIMPLE''"

fun table_kind_text :: "table_kind \<Rightarrow> string" where
  "table_kind_text OrdinaryTable = ''table''"
| "table_kind_text PartitionedTable = ''partitioned_table''"

definition pg_column_document :: "pg_column \<Rightarrow> json" where
  "pg_column_document c = JObj
     [(''name'', JStr (pgc_name c)), (''ordinal'', JInt (int (pgc_ordinal c))),
      (''data_type'', JStr (pgc_data_type c)), (''nullable'', JBool (pgc_nullable c)),
      (''default_expression'', json_opt JStr (pgc_default_expression c)),
      (''identity'', json_opt (JStr \<circ> identity_text) (pgc_identity c)),
      (''generated'', json_opt (JStr \<circ> generated_text) (pgc_generated c)),
      (''collation_schema'', json_opt JStr (pgc_collation_schema c)),
      (''collation_name'', json_opt JStr (pgc_collation_name c))]"

definition pg_key_document :: "pg_key \<Rightarrow> json" where
  "pg_key_document k = JObj
     [(''name'', JStr (pgk_name k)), (''table'', JStr (pgk_table k)),
      (''columns'', json_strs (pgk_columns k)), (''definition'', JStr (pgk_definition k)),
      (''validated'', JBool (pgk_validated k)), (''deferrable'', JBool (pgk_deferrable k)),
      (''initially_deferred'', JBool (pgk_initially_deferred k))]"

definition pg_check_document :: "pg_check \<Rightarrow> json" where
  "pg_check_document c = JObj
     [(''name'', JStr (pgh_name c)), (''table'', JStr (pgh_table c)),
      (''columns'', json_strs (pgh_columns c)), (''definition'', JStr (pgh_definition c)),
      (''validated'', JBool (pgh_validated c))]"

definition pg_index_document :: "pg_index \<Rightarrow> json" where
  "pg_index_document i = JObj
     [(''name'', JStr (pgi_name i)), (''table'', JStr (pgi_table i)),
      (''definition'', JStr (pgi_definition i)), (''method'', JStr (pgi_method i)),
      (''unique'', JBool (pgi_unique i)), (''valid'', JBool (pgi_valid i)),
      (''predicate'', json_opt JStr (pgi_predicate i))]"

definition pg_trigger_document :: "pg_trigger \<Rightarrow> json" where
  "pg_trigger_document t = JObj
     [(''name'', JStr (pgt_name t)), (''table'', JStr (pgt_table t)),
      (''definition'', JStr (pgt_definition t)), (''enabled'', JStr (enabled_text (pgt_enabled t)))]"

definition pg_relationship_document :: "pg_relationship \<Rightarrow> json" where
  "pg_relationship_document r = JObj
     [(''name'', JStr (pgr_name r)), (''source_namespace'', JStr (pgr_source_namespace r)),
      (''source_table'', JStr (pgr_source_table r)), (''source_columns'', json_strs (pgr_source_columns r)),
      (''target_namespace'', JStr (pgr_target_namespace r)), (''target_table'', JStr (pgr_target_table r)),
      (''target_columns'', json_strs (pgr_target_columns r)), (''definition'', JStr (pgr_definition r)),
      (''on_update'', JStr (action_text (pgr_on_update r))),
      (''on_delete'', JStr (action_text (pgr_on_delete r))),
      (''match_type'', JStr (match_text (pgr_match_type r))), (''validated'', JBool (pgr_validated r)),
      (''deferrable'', JBool (pgr_deferrable r)),
      (''initially_deferred'', JBool (pgr_initially_deferred r))]"

definition pg_function_document :: "pg_function \<Rightarrow> json" where
  "pg_function_document f = JObj
     [(''namespace'', JStr (pgf_namespace f)), (''name'', JStr (pgf_name f)),
      (''kind'', JStr (routine_kind_text (pgf_kind f))),
      (''identity_arguments'', JStr (pgf_identity_arguments f)), (''arguments'', JStr (pgf_arguments f)),
      (''return_type'', json_opt JStr (pgf_return_type f)), (''language'', JStr (pgf_language f)),
      (''definition'', JStr (pgf_definition f))]"

definition pg_type_document :: "pg_type \<Rightarrow> json" where
  "pg_type_document t = JObj
     [(''namespace'', JStr (pgy_namespace t)), (''name'', JStr (pgy_name t)),
      (''kind'', JStr (type_kind_text (pgy_kind t))), (''definition'', JStr (pgy_definition t))]"

definition pg_view_fields :: "('a) pg_view_scheme \<Rightarrow> (string \<times> json) list" where
  "pg_view_fields v =
     [(''namespace'', JStr (pgv_namespace v)), (''name'', JStr (pgv_name v)),
      (''columns'', JList (map pg_column_document (pgv_columns v))),
      (''query_definition'', JStr (pgv_query_definition v))]"

definition pg_materialized_view_document :: "pg_materialized_view \<Rightarrow> json" where
  "pg_materialized_view_document v = JObj (pg_view_fields v @ [(''populated'', JBool (pgv_populated v))])"

definition pg_table_document :: "pg_table \<Rightarrow> json" where
  "pg_table_document t = JObj
     [(''namespace'', JStr (pgb_namespace t)), (''name'', JStr (pgb_name t)),
      (''kind'', JStr (table_kind_text (pgb_kind t))), (''is_partition'', JBool (pgb_is_partition t)),
      (''partition_key'', json_opt JStr (pgb_partition_key t)),
      (''columns'', JList (map pg_column_document (pgb_columns t))),
      (''primary_key'', json_opt pg_key_document (pgb_primary_key t)),
      (''unique_constraints'', JList (map pg_key_document (pgb_unique_constraints t))),
      (''checks'', JList (map pg_check_document (pgb_checks t))),
      (''not_null_constraints'', JList (map pg_check_document (pgb_not_null_constraints t))),
      (''exclusion_constraints'', JList (map pg_key_document (pgb_exclusion_constraints t))),
      (''indexes'', JList (map pg_index_document (pgb_indexes t))),
      (''triggers'', JList (map pg_trigger_document (pgb_triggers t)))]"

definition catalog_payload :: "'a pg_catalog_content_scheme \<Rightarrow> json" where
  "catalog_payload c = JObj
     [(''database'', JStr (cat_database c)), (''namespace'', JStr (cat_namespace c)),
      (''server_version'', JStr (cat_server_version c)),
      (''server_version_num'', JInt (int (cat_server_version_num c))),
      (''server_timezone'', JStr (cat_server_timezone c)),
      (''types'', JList (map pg_type_document (cat_types c))),
      (''tables'', JList (map pg_table_document (cat_tables c))),
      (''relationships'', JList (map pg_relationship_document (cat_relationships c))),
      (''functions'', JList (map pg_function_document (cat_functions c))),
      (''views'', JList (map (\<lambda>v. JObj (pg_view_fields v)) (cat_views c))),
      (''materialized_views'', JList (map pg_materialized_view_document (cat_materialized_views c)))]"

definition catalog_digest :: "(string \<Rightarrow> string) \<Rightarrow> 'a pg_catalog_content_scheme \<Rightarrow> string" where
  "catalog_digest sha256 c = sha256 (dumps (catalog_payload c))"

definition require_matching_fingerprint :: "(string \<Rightarrow> string) \<Rightarrow> pg_catalog \<Rightarrow> string option" where
  "require_matching_fingerprint sha256 c =
     raise_if (cat_fingerprint c \<noteq> catalog_digest sha256 c) ''fingerprint does not match the catalog''"

definition compute_catalog_fingerprint :: "(string \<Rightarrow> string) \<Rightarrow> pg_catalog \<Rightarrow> string" where
  "compute_catalog_fingerprint sha256 c = catalog_digest sha256 c"

definition build_postgres_catalog ::
  "(string \<Rightarrow> string) \<Rightarrow> pg_catalog_content \<Rightarrow> instant \<Rightarrow> (string, pg_catalog) result" where
  "build_postgres_catalog sha256 content captured_at =
     (let catalog = pg_catalog_content.extend content
            \<lparr>cat_captured_at = captured_at, cat_fingerprint = catalog_digest sha256 content\<rparr>
      in after_check (require_matching_fingerprint sha256 catalog) (Inr catalog))"

section \<open>Properties\<close>

lemma payload_extend [simp]: "catalog_payload (pg_catalog_content.extend c x) = catalog_payload (c :: pg_catalog_content)"
  by (simp add: catalog_payload_def pg_catalog_content.defs)

text \<open>The payload leaves out the capture time and the fingerprint itself, and nothing else.\<close>

lemma payload_fingerprint [simp]:
  "catalog_payload (c\<lparr>cat_fingerprint := f\<rparr>) = catalog_payload c"
  "catalog_payload (c\<lparr>cat_captured_at := i\<rparr>) = catalog_payload c"
  by (simp_all add: catalog_payload_def)

text \<open>
  A built catalog always passes its own fingerprint validation, keeps every field it was built
  from, and its fingerprint is independent of the capture time, so two snapshots of an unchanged
  namespace are recognised as the same catalog.
\<close>

theorem built_catalog_valid:
  "\<exists>catalog. build_postgres_catalog sha256 content captured_at = Inr catalog
     \<and> require_matching_fingerprint sha256 catalog = None
     \<and> pg_catalog_content.truncate catalog = content
     \<and> cat_captured_at catalog = captured_at
     \<and> cat_fingerprint catalog = compute_catalog_fingerprint sha256 (catalog\<lparr>cat_captured_at := later\<rparr>)"
  by (simp add: build_postgres_catalog_def require_matching_fingerprint_def catalog_digest_def
      compute_catalog_fingerprint_def after_check_def raise_if_def Let_def)
     (simp add: pg_catalog_content.defs)

end
