(* ===== verification/Migration_Model.thy ===== *)
theory Migration_Model
  imports Postgres_Catalog
begin

text \<open>
  The contracts of migration planning, drift and execution (\<open>schemii/migrations/models.py\<close>): one
  record per Pydantic model and one datatype per literal, with the cross-field validators. A
  validator returns the message of the \<open>ValueError\<close> it raises. Values of type \<open>Any\<close> are JSON.
\<close>

section \<open>Literals\<close>

datatype plan_status = PlanReviewable | PlanBlocked | PlanExpired | PlanClaimed | PlanResolved

datatype drift_status = NoDrift | CompatibleDrift | ConflictingDrift

datatype execution_status =
  Reserved | Applying | Succeeded | Failed | Uncertain | ReconciliationRequired

datatype object_kind =
    SchemaObject | TypeObject | TableObject | ColumnObject | ConstraintObject | IndexObject
  | RelationshipObject | FunctionObject | ProcedureObject | ViewObject | MaterializedViewObject
  | TriggerObject

datatype commit_outcome = Committed | RolledBack | OutcomeUncertain

datatype sync_status = SyncPending | SyncSucceeded | SyncConflict | SyncFailed

datatype conversion_strategy = StrictConversion | CustomConversion

datatype change_operation = ObjectAdded | ObjectRemoved | ObjectChanged | ObjectRenamed

datatype conflict_category = DirectConflict | StructuralConflict | DependencyConflict | OpaqueConflict

datatype resolution_choice = PullLive | KeepDesign

section \<open>Column type conversions\<close>

record conversion_request =
  cr_column_id :: string
  cr_target_type :: string

record conversion_analysis =
  ca_requires_conversion :: bool
  ca_source_type :: "string option"
  ca_target_type :: string
  ca_reason :: string

record conversion_choice =
  cc_column_id :: string
  cc_strategy :: conversion_strategy
  cc_expression :: "string option"

definition explicit_expression :: "conversion_choice \<Rightarrow> string option" where
  "explicit_expression c = first_error
     [raise_if (cc_strategy c = CustomConversion \<and> strip (case cc_expression c of None \<Rightarrow> '''' | Some e \<Rightarrow> e) = '''')
        ''a custom conversion requires a USING expression'',
      raise_if (cc_strategy c = StrictConversion \<and> cc_expression c \<noteq> None)
        ''the server supplies the strict conversion expression'']"

record type_conversion =
  tc_column_id :: string
  tc_table_id :: string
  tc_table_name :: string
  tc_column_name :: string
  tc_source_type :: string
  tc_target_type :: string
  tc_reason :: string
  tc_default_expression :: string
  tc_strategy :: "conversion_strategy option"
  tc_expression :: "string option"
  tc_validation_error :: "string option"

section \<open>Plans\<close>

record plan_create =
  pc_expected_workspace_revision :: nat
  pc_expected_design_revision :: nat
  pc_expected_catalog_fingerprint :: "string option"
  pc_allow_destructive :: bool
  pc_column_type_conversions :: "conversion_choice list"
  pc_rebuild_table_ids :: "string list option"

definition unique_rebuild_tables :: "plan_create \<Rightarrow> string option" where
  "unique_rebuild_tables r = first_error
     [raise_unless (distinct (map cc_column_id (pc_column_type_conversions r)))
        ''each column may have one conversion choice'',
      raise_unless (case pc_rebuild_table_ids r of None \<Rightarrow> True | Some ids \<Rightarrow> distinct ids)
        ''each table may be selected for physical reordering once'']"

record migration_warning =
  mw_code :: string
  mw_message :: string
  mw_object_path :: "string option"

record external_change =
  xc_id :: string
  xc_object_kind :: object_kind
  xc_object_path :: string
  xc_operation :: change_operation
  xc_summary :: string
  xc_baseline_value :: json
  xc_live_value :: json

record migration_conflict =
  mc_id :: string
  mc_category :: conflict_category
  mc_object_kind :: object_kind
  mc_object_path :: string
  mc_summary :: string
  mc_baseline_value :: json
  mc_design_value :: json
  mc_live_value :: json
  mc_affected_objects :: "string list"
  mc_allowed_resolutions :: "resolution_choice list"

record migration_step =
  st_index :: nat
  st_object_kind :: object_kind
  st_object_path :: string
  st_operation :: string
  st_sql :: string
  st_destructive :: bool
  st_requires_lock :: bool
  st_data_movement :: bool

record column_order_rebuild =
  ob_table_id :: string
  ob_table_name :: string
  ob_current_order :: "string list"
  ob_desired_order :: "string list"
  ob_selected :: bool
  ob_eligible :: bool
  ob_contains_data :: bool
  ob_blocking_reasons :: "string list"

record migration_plan =
  mp_id :: string
  mp_workspace_id :: string
  mp_status :: plan_status
  mp_workspace_revision :: nat
  mp_design_revision :: nat
  mp_design_fingerprint :: string
  mp_baseline_revision :: nat
  mp_catalog_fingerprint :: string
  mp_merged_design_fingerprint :: string
  mp_review_digest :: string
  mp_drift_status :: drift_status
  mp_complete :: bool
  mp_apply_capable :: bool
  mp_destructive :: bool
  mp_column_type_conversions :: "type_conversion list"
  mp_requires_external_change_acknowledgement :: bool
  mp_column_order_rebuilds :: "column_order_rebuild list"
  mp_steps :: "migration_step list"
  mp_external_changes :: "external_change list"
  mp_conflicts :: "migration_conflict list"
  mp_warnings :: "migration_warning list"
  mp_blocking_differences :: "migration_warning list"
  mp_created_at :: instant
  mp_expires_at :: instant

section \<open>Drift resolution and executions\<close>

record conflict_resolution =
  cs_conflict_id :: string
  cs_resolution :: resolution_choice

record drift_resolution_request =
  rr_expected_design_revision :: nat
  rr_review_digest :: string
  rr_resolutions :: "conflict_resolution list"

definition unique_conflicts :: "drift_resolution_request \<Rightarrow> string option" where
  "unique_conflicts r = raise_unless (distinct (map cs_conflict_id (rr_resolutions r)))
     ''each migration conflict may be resolved once''"

record drift_resolution =
  dv_id :: string
  dv_plan_id :: string
  dv_workspace_id :: string
  dv_design_revision :: nat
  dv_design_fingerprint :: string
  dv_baseline_revision :: nat
  dv_catalog_fingerprint :: string
  dv_incorporated_external_changes :: "external_change list"
  dv_created_at :: instant

record execution_create =
  xr_review_digest :: string
  xr_confirm_destructive :: bool
  xr_confirm_external_changes :: bool

record migration_execution =
  mx_id :: string
  mx_plan_id :: string
  mx_workspace_id :: string
  mx_revision :: nat
  mx_status :: execution_status
  mx_completed_step_count :: nat
  mx_transaction_id :: "string option"
  mx_commit_outcome :: "commit_outcome option"
  mx_sync_status :: "sync_status option"
  mx_error_code :: "string option"
  mx_error_message :: "json option"
  mx_reconcile_required :: bool
  mx_recovery_available_at :: "instant option"
  mx_created_at :: instant
  mx_updated_at :: instant

fun status_text :: "execution_status \<Rightarrow> string" where
  "status_text Reserved = ''reserved''"
| "status_text Applying = ''applying''"
| "status_text Succeeded = ''succeeded''"
| "status_text Failed = ''failed''"
| "status_text Uncertain = ''uncertain''"
| "status_text ReconciliationRequired = ''reconciliation_required''"

end
