(* ===== verification/History_Retention.thy ===== *)
theory History_Retention
  imports Schemii_Prelude
begin

text \<open>
  Grouped undo and redo over a bounded design history
  (\<open>schemii/designs/history_retention.py\<close>).

  The \<open>HistoryEntry\<close> protocol is an extensible record: the functions below apply to every entry type
  that has an id, a parent and an operation group, as \<open>HistoryEntryRef\<close> (the record itself) and the
  entries of the design repositories (extensions of it). An index loop that counts downwards is a
  recursion on the index.
\<close>

section \<open>Definitions\<close>

record history_ref =
  entry_id :: int
  parent_id :: "int option"
  operation_group_id :: "string option"

definition max_retained_history_actions :: nat where
  "max_retained_history_actions = 100"

definition max_retained_history_transitions :: nat where
  "max_retained_history_transitions = max_retained_history_actions * 2"

text \<open>\<open>entry.operation_group_id or f"entry:{entry.id}"\<close>: an empty group id is no group id.\<close>

definition history_group :: "'a history_ref_scheme \<Rightarrow> string" where
  "history_group entry = (case operation_group_id entry of
      None \<Rightarrow> ''entry:'' @ int_str (entry_id entry)
    | Some g \<Rightarrow> if g = [] then ''entry:'' @ int_str (entry_id entry) else g)"

lemma history_group_cong:
  "entry_id a = entry_id b \<Longrightarrow> operation_group_id a = operation_group_id b \<Longrightarrow> history_group a = history_group b"
  by (simp add: history_group_def split: option.splits)

text \<open>\<open>while index > 0 and history_group(entries[index]) == group: index -= 1\<close>\<close>

fun skip_group :: "'a history_ref_scheme list \<Rightarrow> string \<Rightarrow> nat \<Rightarrow> nat" where
  "skip_group entries grp 0 = 0"
| "skip_group entries grp (Suc index) =
     (if history_group (entries ! Suc index) = grp then skip_group entries grp index else Suc index)"

text \<open>The outer loop of \<open>history_boundary_index\<close>; the first argument is the number of actions left.\<close>

fun boundary_loop :: "nat \<Rightarrow> 'a history_ref_scheme list \<Rightarrow> nat \<Rightarrow> nat" where
  "boundary_loop 0 entries index = index"
| "boundary_loop (Suc actions) entries index =
     (if index = 0 then 0
      else boundary_loop actions entries (skip_group entries (history_group (entries ! index)) index))"

definition history_boundary_index :: "'a history_ref_scheme list \<Rightarrow> nat \<Rightarrow> int" where
  "history_boundary_index entries retained_limit =
     (if entries = [] then -1 else int (boundary_loop retained_limit entries (length entries - 1)))"

text \<open>\<open>while target + 1 < len(entries) and history_group(entries[target + 1]) == group: target += 1\<close>\<close>

function skip_group_forward :: "'a history_ref_scheme list \<Rightarrow> string \<Rightarrow> nat \<Rightarrow> nat" where
  "skip_group_forward entries grp target =
     (if target + 1 < length entries \<and> history_group (entries ! (target + 1)) = grp
      then skip_group_forward entries grp (target + 1) else target)"
  by pat_completeness auto
termination
  by (relation "measure (\<lambda>(entries, grp, target). length entries - target)") auto

datatype history_direction = Undo | Redo

definition history_target_index ::
  "'a history_ref_scheme list \<Rightarrow> nat \<Rightarrow> history_direction \<Rightarrow> nat option" where
  "history_target_index entries cursor_index action =
     (if action = Undo then
        (if cursor_index = 0 then None
         else
           (let target = skip_group entries (history_group (entries ! cursor_index)) (cursor_index - 1) in
            if history_boundary_index entries max_retained_history_actions \<le> int target
            then Some target else None))
      else if length entries \<le> cursor_index + 1 then None
      else Some (skip_group_forward entries (history_group (entries ! (cursor_index + 1))) (cursor_index + 1)))"

fun compact_loop :: "'a history_ref_scheme list \<Rightarrow> 'a history_ref_scheme list \<Rightarrow> 'a history_ref_scheme list" where
  "compact_loop compacted [] = compacted"
| "compact_loop compacted (entry # entries) =
     (if 1 < length compacted \<and> history_group (last compacted) = history_group entry
      then compact_loop (butlast compacted @ [entry]) entries
      else compact_loop (compacted @ [entry]) entries)"

definition retained_history_entries ::
  "'a history_ref_scheme list \<Rightarrow> nat \<Rightarrow> 'a history_ref_scheme list" where
  "retained_history_entries entries retained_limit =
     (case entries of [] \<Rightarrow> []
      | first # rest \<Rightarrow>
          (let compacted = compact_loop [first] rest;
               boundary = history_boundary_index compacted retained_limit
           in if boundary = 0 then compacted else compacted ! 0 # drop (nat boundary) compacted))"

declare skip_group_forward.simps [simp del]

section \<open>The history as a stack of actions\<close>

text \<open>
  The entries after the first one, newest first, form a stack of runs: entries of one group that
  follow each other are one action. \<open>undo_step\<close> drops the newest action, \<open>actions\<close> keeps the newest
  entry of each.
\<close>

fun undo_step :: "'a history_ref_scheme list \<Rightarrow> 'a history_ref_scheme list" where
  "undo_step [] = []"
| "undo_step (e # q) = dropWhile (\<lambda>f. history_group f = history_group e) q"

function actions :: "'a history_ref_scheme list \<Rightarrow> 'a history_ref_scheme list" where
  "actions [] = []"
| "actions (e # q) = e # actions (dropWhile (\<lambda>f. history_group f = history_group e) q)"
  by pat_completeness auto
termination
  by (relation "measure length") (auto simp: length_dropWhile_le le_imp_less_Suc)

lemma actions_undo_step: "actions (undo_step q) = tl (actions q)"
  by (cases q) auto

lemma actions_Nil [simp]: "actions q = [] \<longleftrightarrow> q = []"
  by (cases q) auto

lemma hd_actions: "q \<noteq> [] \<Longrightarrow> hd (actions q) = hd q"
  by (cases q) auto

lemma set_actions: "set (actions q) \<subseteq> set q"
  by (induction q rule: actions.induct) (auto dest: set_dropWhileD)

lemma actions_undo_steps: "actions ((undo_step ^^ k) q) = drop k (actions q)"
  by (induction k) (simp_all add: actions_undo_step drop_Suc tl_drop)

lemma dropWhile_fixed: "(ys \<noteq> [] \<Longrightarrow> \<not> P (hd ys)) \<Longrightarrow> dropWhile P ys = ys"
  by (cases ys) auto

lemma actions_dropWhile:
  "dropWhile (\<lambda>f. history_group f = g) (take n (actions (dropWhile (\<lambda>f. history_group f = g) q)))
   = take n (actions (dropWhile (\<lambda>f. history_group f = g) q))"
proof (rule dropWhile_fixed)
  let ?d = "dropWhile (\<lambda>f. history_group f = g) q"
  assume n: "take n (actions ?d) \<noteq> []"
  then have d: "?d \<noteq> []" by (metis actions_Nil take_Nil)
  have "hd (take n (actions ?d)) = hd ?d" using n d by (metis hd_actions hd_take neq0_conv take_0)
  with hd_dropWhile[OF d] show "\<not> history_group (hd (take n (actions ?d))) = g" by simp
qed

lemma actions_dropWhile_all:
  "dropWhile (\<lambda>f. history_group f = g) (actions (dropWhile (\<lambda>f. history_group f = g) q))
   = actions (dropWhile (\<lambda>f. history_group f = g) q)"
  using actions_dropWhile[of g "length (actions (dropWhile (\<lambda>f. history_group f = g) q))" q] by simp

lemma undo_step_actions: "undo_step (actions q) = actions (undo_step q)"
  by (cases q) (simp_all add: actions_dropWhile_all)

lemma actions_actions [simp]: "actions (actions q) = actions q"
  by (induction q rule: actions.induct) (simp_all add: actions_dropWhile_all)

text \<open>No two neighbours of the action stack share a group.\<close>

lemma undo_steps_actions: "(undo_step ^^ k) (actions q) = drop k (actions q)"
proof -
  have "(undo_step ^^ k) (actions q) = actions ((undo_step ^^ k) q)"
    by (induction k arbitrary: q) (simp_all add: undo_step_actions)
  then show ?thesis by (simp add: actions_undo_steps)
qed


lemma actions_take [simp]: "actions (take n (actions q)) = take n (actions q)"
proof (induction q arbitrary: n rule: actions.induct)
  case (2 e q)
  then show ?case by (cases n) (simp_all add: actions_dropWhile)
qed simp

lemma undo_step_suffix: "\<exists>p. q = p @ undo_step q"
proof (cases q)
  case (Cons e r)
  then have "q = (e # takeWhile (\<lambda>f. history_group f = history_group e) r) @ undo_step q" by simp
  then show ?thesis by blast
qed simp

lemma undo_steps_suffix: "\<exists>p. q = p @ (undo_step ^^ k) q"
proof (induction k)
  case (Suc k)
  then show ?case using undo_step_suffix[of "(undo_step ^^ k) q"] by (metis append.assoc comp_apply funpow.simps(2))
qed simp

lemma undo_step_shorter: "q \<noteq> [] \<Longrightarrow> length (undo_step q) < length q"
  by (cases q) (simp_all add: length_dropWhile_le le_imp_less_Suc)

lemma undo_steps_antimono: "j \<le> k \<Longrightarrow> length ((undo_step ^^ k) q) \<le> length ((undo_step ^^ j) q)"
proof (induction k)
  case (Suc k)
  have "length ((undo_step ^^ Suc k) q) \<le> length ((undo_step ^^ k) q)"
    using undo_step_shorter[of "(undo_step ^^ k) q"] by (cases "(undo_step ^^ k) q = []") auto
  with Suc show ?case by (cases "j = Suc k") auto
qed simp

section \<open>The index functions on the stack\<close>

definition stack_at :: "'a history_ref_scheme list \<Rightarrow> nat \<Rightarrow> 'a history_ref_scheme list" where
  "stack_at es c = rev (take c (tl es))"

lemma skip_group_dropWhile:
  "i < length es \<Longrightarrow> skip_group es g i = length (dropWhile (\<lambda>f. history_group f = g) (stack_at es i))"
proof (induction es g i rule: skip_group.induct)
  case (2 es g i)
  then have "take (Suc i) (tl es) = take i (tl es) @ [es ! Suc i]"
    by (cases es) (auto simp: take_Suc_conv_app_nth)
  with 2 show ?case by (auto simp: stack_at_def)
qed (simp add: stack_at_def)

lemma stack_at_Suc: "Suc i < length es \<Longrightarrow> stack_at es (Suc i) = es ! Suc i # stack_at es i"
  by (cases es) (auto simp: stack_at_def take_Suc_conv_app_nth)

lemma stack_at_Nil [simp]: "c < length es \<Longrightarrow> stack_at es c = [] \<longleftrightarrow> c = 0"
  by (cases es) (auto simp: stack_at_def)

lemma length_stack_at: "c < length es \<Longrightarrow> length (stack_at es c) = c"
  by (simp add: stack_at_def)

lemma undo_target_stack:
  assumes "0 < c" "c < length es"
  shows "skip_group es (history_group (es ! c)) (c - Suc 0) = length (undo_step (stack_at es c))"
    and "skip_group es (history_group (es ! c)) c = length (undo_step (stack_at es c))"
proof -
  obtain i where c: "c = Suc i" using assms(1) by (cases c) auto
  show "skip_group es (history_group (es ! c)) (c - Suc 0) = length (undo_step (stack_at es c))"
    using assms by (simp add: c skip_group_dropWhile stack_at_Suc)
  then show "skip_group es (history_group (es ! c)) c = length (undo_step (stack_at es c))"
    by (simp add: c)
qed

text \<open>The stack at the index an undo lands on is the undone stack.\<close>

lemma stack_at_length:
  assumes "c < length es" "stack_at es c = p @ q"
  shows "stack_at es (length q) = q"
proof -
  have eq: "take c (tl es) = rev q @ rev p" using assms(2) by (simp add: stack_at_def rev_swap)
  have "length q \<le> c" using arg_cong[OF eq, of length] by simp
  then have "take (length q) (tl es) = take (length q) (take c (tl es))" by (simp add: min_absorb1)
  with eq have "take (length q) (tl es) = rev q" by simp
  then show ?thesis by (simp add: stack_at_def)
qed

lemma boundary_loop_stack:
  "c < length es \<Longrightarrow> boundary_loop n es c = length ((undo_step ^^ n) (stack_at es c))"
proof (induction n es c rule: boundary_loop.induct)
  case (2 n es c)
  have nil: "(undo_step ^^ k) [] = []" for k by (induction k) auto
  let ?q = "undo_step (stack_at es c)"
  show ?case
  proof (cases "c = 0")
    case True
    with "2.prems" show ?thesis by (simp add: stack_at_def nil)
  next
    case False
    have len: "length ?q < length es" using "2.prems" False undo_step_shorter[of "stack_at es c"]
      by (simp add: length_stack_at)
    have "stack_at es (length ?q) = ?q"
      using undo_step_suffix[of "stack_at es c"] stack_at_length[OF "2.prems"] by blast
    with 2 False len show ?thesis by (simp add: undo_target_stack funpow_swap1)
  qed
qed (simp add: length_stack_at)

lemma compact_loop_actions:
  "compact_loop (e # rev (actions q)) es = e # rev (actions (rev es @ q))"
proof (induction es arbitrary: q)
  case (Cons f es)
  show ?case
  proof (cases q)
    case Nil
    then show ?thesis using Cons[of "[f]"] by simp
  next
    case (Cons g r)
    then have "compact_loop (e # rev (actions q)) (f # es) = compact_loop (e # rev (actions (f # q))) es"
      by (cases "history_group g = history_group f")
        (simp_all add: butlast_append)
    with Cons.IH[of "f # q"] show ?thesis by simp
  qed
qed simp


lemma compact_all: "compact_loop [e] es = e # rev (actions (rev es))"
  using compact_loop_actions[of e "[]" es] by simp

text \<open>What is kept: the first entry and the newest entry of the last \<open>limit + 1\<close> actions.\<close>

lemma retained_eq:
  "retained_history_entries (e # es) limit = e # rev (take (Suc limit) (actions (rev es)))"
proof -
  let ?A = "actions (rev es)"
  let ?c = "e # rev ?A"
  have stack: "stack_at ?c (length ?c - Suc 0) = ?A" by (simp add: stack_at_def)
  have "boundary_loop limit ?c (length ?c - Suc 0) = length ((undo_step ^^ limit) ?A)"
    using boundary_loop_stack[of "length ?c - Suc 0" ?c limit] stack by simp
  then have b: "history_boundary_index ?c limit = int (length ?A - limit)"
    by (simp add: history_boundary_index_def undo_steps_actions)
  show ?thesis
  proof (cases "length ?A \<le> limit")
    case True
    then show ?thesis by (simp add: retained_history_entries_def compact_all b)
  next
    case False
    then obtain d where d: "length ?A - limit = Suc d" by (cases "length ?A - limit") auto
    then have "Suc limit = length ?A - d" by simp
    then have "drop d (rev ?A) = rev (take (Suc limit) ?A)" by (simp add: drop_rev)
    with False d show ?thesis
      by (simp add: retained_history_entries_def compact_all b nat_add_distrib)
  qed
qed

lemma retained_Nil [simp]: "retained_history_entries [] limit = []"
  by (simp add: retained_history_entries_def)

lemma retained_nonempty [simp]: "retained_history_entries es limit = [] \<longleftrightarrow> es = []"
  by (cases es) (simp_all add: retained_eq)

lemma retained_length: "length (retained_history_entries es limit) \<le> limit + 2"
  by (cases es) (simp_all add: retained_eq)

lemma retained_first: "es \<noteq> [] \<Longrightarrow> hd (retained_history_entries es limit) = hd es"
  by (cases es) (simp_all add: retained_eq)

lemma retained_last: "es \<noteq> [] \<Longrightarrow> last (retained_history_entries es limit) = last es"
proof (cases es)
  case (Cons e r)
  show ?thesis
  proof (cases "r = []")
    case False
    then have "take (Suc limit) (actions (rev r)) \<noteq> []" "hd (actions (rev r)) = last r"
      by (simp_all add: hd_actions hd_rev)
    then show ?thesis using False Cons by (simp add: last_rev retained_eq)
  qed (simp add: Cons retained_eq)
qed simp

lemma retained_subset: "set (retained_history_entries es limit) \<subseteq> set es"
proof (cases es)
  case (Cons e r)
  then show ?thesis using set_actions[of "rev r"] set_take_subset[of "Suc limit" "actions (rev r)"]
    by (auto simp: retained_eq)
qed simp

lemma distinct_map_actions: "distinct (map f q) \<Longrightarrow> distinct (map f (actions q))"
proof (induction q rule: actions.induct)
  case (2 e q)
  let ?d = "dropWhile (\<lambda>f. history_group f = history_group e) q"
  have "distinct (map f ?d)" using "2.prems" by (simp add: dropWhile_eq_drop drop_map[symmetric] distinct_drop)
  moreover have "set (actions ?d) \<subseteq> set q" using set_actions[of ?d] by (auto dest: set_dropWhileD)
  ultimately show ?case using 2 by auto
qed simp

lemma distinct_retained:
  assumes "distinct (map f es)"
  shows "distinct (map f (retained_history_entries es limit))"
proof (cases es)
  case (Cons e r)
  have "distinct (map f (rev r))" using assms Cons by (simp add: rev_map[symmetric])
  then have "distinct (map f (take (Suc limit) (actions (rev r))))"
    by (simp add: distinct_map_actions flip: take_map)
  moreover have "f e \<notin> f ` set (take (Suc limit) (actions (rev r)))"
    using assms Cons set_take_subset[of "Suc limit" "actions (rev r)"] set_actions[of "rev r"] by auto
  ultimately show ?thesis by (simp add: Cons retained_eq rev_map[symmetric])
qed simp

section \<open>Undo over the retained history\<close>

text \<open>The index reached by \<open>k\<close> undos from the tip of the history, if the code allows them.\<close>

fun undo_walk :: "'a history_ref_scheme list \<Rightarrow> nat \<Rightarrow> nat option" where
  "undo_walk es 0 = (if es = [] then None else Some (length es - Suc 0))"
| "undo_walk es (Suc k) = (case undo_walk es k of None \<Rightarrow> None | Some c \<Rightarrow> history_target_index es c Undo)"

definition undo_entry :: "'a history_ref_scheme list \<Rightarrow> nat \<Rightarrow> 'a history_ref_scheme option" where
  "undo_entry es k = map_option (\<lambda>c. es ! c) (undo_walk es k)"

lemma undo_at_root [simp]: "history_target_index es 0 Undo = None"
  by (simp add: history_target_index_def)

lemma undo_target:
  assumes "c < length es"
  shows "history_target_index es c Undo =
    (if c = 0 \<or> length (undo_step (stack_at es c))
         < length ((undo_step ^^ max_retained_history_actions) (stack_at es (length es - Suc 0)))
     then None else Some (length (undo_step (stack_at es c))))"
proof -
  have "history_boundary_index es n = int (length ((undo_step ^^ n) (stack_at es (length es - Suc 0))))" for n
    using assms boundary_loop_stack[of "length es - Suc 0" es n] by (auto simp: history_boundary_index_def)
  with assms show ?thesis by (auto simp: history_target_index_def undo_target_stack Let_def)
qed

lemma undo_walk_steps:
  assumes "es \<noteq> []"
  defines "q \<equiv> stack_at es (length es - Suc 0)"
  shows "undo_walk es k =
    (if k \<le> max_retained_history_actions \<and> k \<le> length (actions q)
     then Some (length ((undo_step ^^ k) q)) else None)"
proof (induction k)
  case 0
  have "length q = length es - Suc 0" using assms by (simp add: length_stack_at)
  with assms(1) show ?case by simp
next
  case (Suc k)
  show ?case
  proof (cases "k \<le> max_retained_history_actions \<and> k \<le> length (actions q)")
    case False
    with Suc show ?thesis by auto
  next
    case True
    let ?s = "(undo_step ^^ k) q"
    have tip: "length es - Suc 0 < length es" using assms(1) by simp
    obtain p where p: "q = p @ ?s" using undo_steps_suffix by blast
    have at: "stack_at es (length ?s) = ?s" using stack_at_length[OF tip] p q_def by metis
    have "length ?s \<le> length q" using arg_cong[OF p, of length] by simp
    also have "\<dots> = length es - Suc 0" using assms by (simp add: length_stack_at)
    finally have lt: "length ?s < length es" using tip by linarith
    have empty: "?s = [] \<longleftrightarrow> \<not> k < length (actions q)"
      using actions_undo_steps[of k q] by (metis actions_Nil drop_eq_Nil linorder_not_less)
    have blocked: "length (undo_step ?s) < length ((undo_step ^^ max_retained_history_actions) q)
        \<longleftrightarrow> k = max_retained_history_actions" if "?s \<noteq> []"
      using True undo_steps_antimono[of "Suc k" max_retained_history_actions q] undo_step_shorter[OF that]
      by (cases "k = max_retained_history_actions") auto
    have "undo_walk es (Suc k) = history_target_index es (length ?s) Undo" using True Suc by simp
    also have "\<dots> = (if ?s = [] \<or> k = max_retained_history_actions then None else Some (length (undo_step ?s)))"
      using blocked by (cases "?s = []") (simp_all add: undo_target[OF lt] at flip: q_def)
    finally show ?thesis using True empty by auto
  qed
qed

lemma undo_entry_actions:
  "undo_entry (e # es) k =
    (if max_retained_history_actions < k then None
     else if k < length (actions (rev es)) then Some (actions (rev es) ! k)
     else if k = length (actions (rev es)) then Some e else None)"
proof -
  have q: "stack_at (e # es) (length (e # es) - Suc 0) = rev es" by (simp add: stack_at_def)
  let ?A = "actions (rev es)" and ?s = "(undo_step ^^ k) (rev es)"
  obtain p where "rev es = p @ ?s" using undo_steps_suffix[of "rev es" k] by auto
  then have "es = rev ?s @ rev p" by (metis rev_append rev_rev_ident)
  then have nth: "(e # es) ! length ?s = (if ?s = [] then e else hd ?s)"
    by (cases ?s) (auto simp: nth_append)
  have drop: "actions ?s = drop k ?A" by (simp add: actions_undo_steps)
  then have "?s = [] \<longleftrightarrow> length ?A \<le> k" by (metis actions_Nil drop_eq_Nil)
  moreover have "hd ?s = ?A ! k" if "k < length ?A"
    using that drop calculation by (metis hd_actions hd_drop_conv_nth linorder_not_less)
  ultimately show ?thesis
    using nth undo_walk_steps[of "e # es" k, unfolded q] by (auto simp: undo_entry_def simp del: funpow.simps)
qed

text \<open>
  Pruning keeps the immutable first entry and the newest entry of each of the last
  \<open>limit + 1\<close> actions, in order, and nothing else; in particular at most \<open>limit + 2\<close> entries.
\<close>

theorem retained_bounded:
  assumes "entries \<noteq> []"
  shows "retained_history_entries entries limit
           = hd entries # rev (take (Suc limit) (actions (rev (tl entries))))
         \<and> length (retained_history_entries entries limit) \<le> limit + 2
         \<and> hd (retained_history_entries entries limit) = hd entries
         \<and> last (retained_history_entries entries limit) = last entries"
  using assms by (simp add: retained_first retained_length retained_last)
    (cases entries; simp add: retained_eq)

theorem retained_bounded_witness:
  "retained_history_entries
      [\<lparr>entry_id = 1, parent_id = None, operation_group_id = None\<rparr>,
       \<lparr>entry_id = 2, parent_id = Some 1, operation_group_id = Some ''g''\<rparr>,
       \<lparr>entry_id = 3, parent_id = Some 2, operation_group_id = Some ''g''\<rparr>] 1
   = [\<lparr>entry_id = 1, parent_id = None, operation_group_id = None\<rparr>,
      \<lparr>entry_id = 3, parent_id = Some 2, operation_group_id = Some ''g''\<rparr>]"
  using retained_bounded[of "[\<lparr>entry_id = 1, parent_id = None, operation_group_id = None\<rparr>,
       \<lparr>entry_id = 2, parent_id = Some 1, operation_group_id = Some ''g''\<rparr>,
       \<lparr>entry_id = 3, parent_id = Some 2, operation_group_id = Some ''g''\<rparr>]" 1]
  by (simp add: history_group_def)

text \<open>
  C26. Pruning does not change undo: from the newest entry, every number of successive undos reaches
  the same entry in the complete and in the pruned history, and is refused in the one exactly when it
  is refused in the other.
\<close>

theorem retained_keeps_undo:
  "undo_entry (retained_history_entries entries max_retained_history_actions) k = undo_entry entries k"
proof (cases entries)
  case (Cons e es)
  let ?m = max_retained_history_actions
  have "actions (take (Suc ?m) (actions (rev es))) = take (Suc ?m) (actions (rev es))" by simp
  then show ?thesis
    using Cons by (auto simp: retained_eq undo_entry_actions min_def)
qed simp


section \<open>Redo\<close>

text \<open>A cursor that stands on the newest entry of an action, as every cursor of the repository does.\<close>

definition action_end :: "'a history_ref_scheme list \<Rightarrow> nat \<Rightarrow> bool" where
  "action_end es c = (c < length es \<and> (c = 0 \<or> c + 1 = length es
     \<or> history_group (es ! c) \<noteq> history_group (es ! (c + 1))))"

lemma skip_group_spec:
  "skip_group es g i \<le> i \<and> (\<forall>k. skip_group es g i < k \<and> k \<le> i \<longrightarrow> history_group (es ! k) = g)
   \<and> (skip_group es g i = 0 \<or> history_group (es ! skip_group es g i) \<noteq> g)"
proof (induction es g i rule: skip_group.induct)
  case (2 es g i)
  then show ?case by (auto simp: le_Suc_eq)
qed simp

lemma skip_group_forward_spec:
  assumes "i < length es"
  shows "i \<le> skip_group_forward es g i \<and> skip_group_forward es g i < length es
   \<and> (\<forall>k. i < k \<and> k \<le> skip_group_forward es g i \<longrightarrow> history_group (es ! k) = g)
   \<and> (skip_group_forward es g i + 1 = length es
      \<or> history_group (es ! (skip_group_forward es g i + 1)) \<noteq> g)"
  using assms
proof (induction es g i rule: skip_group_forward.induct)
  case (1 es g i)
  show ?case
  proof (cases "i + 1 < length es \<and> history_group (es ! (i + 1)) = g")
    case True
    have eq: "skip_group_forward es g i = skip_group_forward es g (i + 1)"
      using True by (subst skip_group_forward.simps) simp
    have "k = i + 1 \<or> i + 1 < k" if "i < k" for k using that by linarith
    with 1 True eq show ?thesis by (metis Suc_eq_plus1 Suc_leD)
  next
    case False
    then have "skip_group_forward es g i = i" by (subst skip_group_forward.simps) auto
    with 1 False show ?thesis by auto
  qed
qed

lemma skip_group_forward_unique:
  assumes "i \<le> c" "c < length es" "\<forall>k. i < k \<and> k \<le> c \<longrightarrow> history_group (es ! k) = g"
    and "c + 1 = length es \<or> history_group (es ! (c + 1)) \<noteq> g"
  shows "skip_group_forward es g i = c"
proof -
  let ?f = "skip_group_forward es g i"
  have f: "i \<le> ?f" "?f < length es" "\<forall>k. i < k \<and> k \<le> ?f \<longrightarrow> history_group (es ! k) = g"
    "?f + 1 = length es \<or> history_group (es ! (?f + 1)) \<noteq> g"
    using skip_group_forward_spec[of i es g] assms(1,2) by auto
  have "\<not> ?f < c"
  proof
    assume lt: "?f < c"
    with f(1) assms(3) have "history_group (es ! (?f + 1)) = g" by simp
    with f(4) lt assms(2) show False by simp
  qed
  moreover have "\<not> c < ?f"
  proof
    assume lt: "c < ?f"
    with f(3) assms(1) have "history_group (es ! (c + 1)) = g" by simp
    with assms(4) lt f(2) show False by simp
  qed
  ultimately show ?thesis by simp
qed

lemma undo_target_bounds:
  assumes "history_target_index es c Undo = Some t" "c < length es"
  shows "t < c" "\<forall>k. t < k \<and> k \<le> c \<longrightarrow> history_group (es ! k) = history_group (es ! c)"
    "t = 0 \<or> history_group (es ! t) \<noteq> history_group (es ! c)"
    "history_boundary_index es max_retained_history_actions \<le> int t"
proof -
  from assms(1) have c: "c \<noteq> 0" and t: "t = skip_group es (history_group (es ! c)) (c - 1)"
    and b: "history_boundary_index es max_retained_history_actions \<le> int t"
    by (auto simp: history_target_index_def Let_def split: if_splits)
  note spec = skip_group_spec[of es "history_group (es ! c)" "c - 1", folded t]
  have "t \<le> c - 1" using spec by blast
  with c show "t < c" by simp
  show "\<forall>k. t < k \<and> k \<le> c \<longrightarrow> history_group (es ! k) = history_group (es ! c)"
  proof (intro allI impI)
    fix k assume "t < k \<and> k \<le> c"
    then have "k = c \<or> t < k \<and> k \<le> c - 1" by auto
    with spec show "history_group (es ! k) = history_group (es ! c)" by blast
  qed
  show "t = 0 \<or> history_group (es ! t) \<noteq> history_group (es ! c)" using spec by blast
  show "history_boundary_index es max_retained_history_actions \<le> int t" by (fact b)
qed

lemma undo_action_end:
  assumes "history_target_index es c Undo = Some t" "c < length es"
  shows "action_end es t"
proof -
  note b = undo_target_bounds(1-3)[OF assms]
  have "history_group (es ! (t + 1)) = history_group (es ! c)" using b(1) b(2)[rule_format, of "t + 1"] by simp
  with b(1,3) assms(2) show ?thesis by (simp add: action_end_def)
qed

lemma boundary_loop_le: "boundary_loop n es i \<le> i"
proof (induction n es i rule: boundary_loop.induct)
  case (2 n es i)
  then show ?case using skip_group_spec[of es "history_group (es ! i)" i] by (auto intro: order_trans)
qed simp

text \<open>One undo from the tip, when the entry before it belongs to another action.\<close>

lemma undo_from_tip:
  assumes "length es = Suc (Suc c)" "c = 0 \<or> history_group (es ! c) \<noteq> history_group (es ! Suc c)"
  shows "history_target_index es (Suc c) Undo = Some c"
proof -
  have stay: "skip_group es (history_group (es ! Suc c)) c = c" using assms(2) by (cases c) auto
  have "boundary_loop (Suc n) es (Suc c) \<le> c" for n
    using boundary_loop_le[of n es c] stay by simp
  moreover obtain n where "max_retained_history_actions = Suc n"
    by (cases max_retained_history_actions) (auto simp: max_retained_history_actions_def)
  ultimately have "boundary_loop max_retained_history_actions es (Suc c) \<le> c" by metis
  then have "history_boundary_index es max_retained_history_actions \<le> int c"
    using assms(1) by (auto simp: history_boundary_index_def simp del: boundary_loop.simps)
  then show ?thesis using stay by (simp add: history_target_index_def)
qed

lemma redo_target_bounds:
  assumes "history_target_index es c Redo = Some t"
  shows "c < t" "t < length es" "action_end es t"
    "\<forall>k. c < k \<and> k \<le> t \<longrightarrow> history_group (es ! k) = history_group (es ! (c + 1))"
proof -
  from assms have c: "c + 1 < length es"
    and t: "t = skip_group_forward es (history_group (es ! (c + 1))) (c + 1)"
    by (auto simp: history_target_index_def split: if_splits)
  note spec = skip_group_forward_spec[OF c, of "history_group (es ! (c + 1))", folded t]
  show "c < t" "t < length es" using spec by linarith+
  show eq: "\<forall>k. c < k \<and> k \<le> t \<longrightarrow> history_group (es ! k) = history_group (es ! (c + 1))"
  proof (intro allI impI)
    fix k assume "c < k \<and> k \<le> t"
    then have "k = c + 1 \<or> c + 1 < k \<and> k \<le> t" by auto
    with spec show "history_group (es ! k) = history_group (es ! (c + 1))" by blast
  qed
  have "history_group (es ! t) = history_group (es ! (c + 1))" using eq[rule_format, of t] \<open>c < t\<close> by simp
  with spec \<open>t < length es\<close> show "action_end es t" unfolding action_end_def by metis
qed

lemma redo_inverts_undo:
  assumes "action_end entries cursor" "history_target_index entries cursor Undo = Some target"
  shows "history_target_index entries target Redo = Some cursor"
proof -
  have c: "cursor < length entries" using assms(1) by (simp add: action_end_def)
  note b = undo_target_bounds[OF assms(2) c]
  have g: "history_group (entries ! (target + 1)) = history_group (entries ! cursor)"
    using b(1) b(2)[rule_format, of "target + 1"] by simp
  have "cursor \<noteq> 0" using b(1) by auto
  then have "cursor + 1 = length entries \<or> history_group (entries ! (cursor + 1)) \<noteq> history_group (entries ! cursor)"
    using assms(1) by (auto simp: action_end_def)
  then have "skip_group_forward entries (history_group (entries ! cursor)) (target + 1) = cursor"
    using b(1) c by (intro skip_group_forward_unique allI impI) (auto intro!: b(2)[rule_format])
  with g b(1) c show ?thesis by (simp add: history_target_index_def)
qed

text \<open>
  Redo undoes undo: from a cursor on the newest entry of an action, if undo moves to \<open>target\<close>,
  then redo from \<open>target\<close> is available and moves back to the cursor.
\<close>

theorem redo_after_undo:
  assumes "action_end entries cursor" "history_target_index entries cursor Undo = Some target"
  shows "history_target_index entries target Redo = Some cursor"
  using assms by (rule redo_inverts_undo)

theorem redo_after_undo_witness:
  "history_target_index
     [\<lparr>entry_id = 1, parent_id = None, operation_group_id = None\<rparr>,
      \<lparr>entry_id = 2, parent_id = Some 1, operation_group_id = Some ''g''\<rparr>,
      \<lparr>entry_id = 3, parent_id = Some 2, operation_group_id = Some ''g''\<rparr>] 0 Redo = Some 2"
  by (rule redo_after_undo) (code_simp, code_simp)

lemma undo_inverts_redo:
  assumes "action_end entries cursor" "history_target_index entries cursor Redo = Some target"
    and "history_boundary_index entries max_retained_history_actions \<le> int cursor"
  shows "history_target_index entries target Undo = Some cursor"
proof -
  note b = redo_target_bounds[OF assms(2)]
  have gt: "history_group (entries ! target) = history_group (entries ! (cursor + 1))" using b(1) b(4)[rule_format, of target] by simp
  let ?s = "skip_group entries (history_group (entries ! target)) (target - 1)"
  note spec = skip_group_spec[of entries "history_group (entries ! target)" "target - 1"]
  have le: "?s \<le> target" using spec by linarith
  have "?s \<le> cursor"
  proof (rule ccontr)
    assume n: "\<not> ?s \<le> cursor"
    then have "history_group (entries ! ?s) = history_group (entries ! target)"
      using b(4)[rule_format, of ?s] n le gt by auto
    with spec n show False by simp
  qed
  moreover have "cursor \<le> ?s"
  proof (rule ccontr)
    assume n: "\<not> cursor \<le> ?s"
    then have "history_group (entries ! cursor) = history_group (entries ! target)"
      using spec b(1) by auto
    moreover have "cursor \<noteq> 0" using n by auto
    ultimately show False using assms(1) b(1,2) gt by (auto simp: action_end_def)
  qed
  ultimately have "?s = cursor" by simp
  then show ?thesis using b(1) assms(3) by (simp add: history_target_index_def Let_def)
qed

text \<open>
  Undo undoes redo: if redo moves from the newest entry of an action inside the retained window
  to \<open>target\<close>, then undo from \<open>target\<close> moves back.
\<close>

theorem undo_after_redo:
  assumes "action_end entries cursor" "history_target_index entries cursor Redo = Some target"
    and "history_boundary_index entries max_retained_history_actions \<le> int cursor"
  shows "history_target_index entries target Undo = Some cursor"
  using assms by (rule undo_inverts_redo)

theorem undo_after_redo_witness:
  "history_target_index
     [\<lparr>entry_id = 1, parent_id = None, operation_group_id = None\<rparr>,
      \<lparr>entry_id = 2, parent_id = Some 1, operation_group_id = Some ''g''\<rparr>,
      \<lparr>entry_id = 3, parent_id = Some 2, operation_group_id = Some ''g''\<rparr>] 2 Undo = Some 0"
  by (rule undo_after_redo) (code_simp, code_simp, code_simp)

end
