(* ===== verification/Design_Validation.thy ===== *)
theory Design_Validation
  imports Design_Model History_Retention "HOL-Library.Multiset"
begin

text \<open>
  Fingerprints and cross-object validation of a desired design
  (\<open>schemii/designs/store.py\<close>: \<open>authored_content_document\<close> to \<open>design_object_ids\<close>).

  Two analyses of SQL text rest on the third-party parsers and are parameters:
  \<open>base_type_name\<close> (\<open>analyze_type_definition(d).base_type_name\<close>) and \<open>query_error\<close> (the message and
  code of the \<open>QueryDefinitionError\<close> that \<open>parse_query_definition\<close> raises, if any); so is \<open>sha256\<close>.
  A statement sequence that only raises is a list of optional errors, of which the first is raised.
\<close>

section \<open>Errors and fingerprints\<close>

datatype design_error =
    DesignValidationError string "(string \<times> json) list"
  | DesignConflictError nat
  | DesignLayoutConflictError nat nat
  | DesignHistoryBoundaryError history_direction
  | DesignMutationBlockedError
  | PythonError string

definition authored_content_document :: "(string \<Rightarrow> string) \<Rightarrow> design_content \<Rightarrow> json" where
  "authored_content_document key content =
     (case content_document key content of
        JObj document \<Rightarrow> JObj
          (AList.update ''triggers''
             (JList (map (\<lambda>t. JObj [(''id'', JStr (trg_id t)), (''definition'', JStr (trg_definition t))])
               (content_triggers content)))
          (AList.update ''functions''
             (JList (map (\<lambda>f. JObj [(''id'', JStr (fn_id f)), (''definition'', JStr (fn_definition f))])
               (content_functions content)))
          (AList.update ''types''
             (JList (map (\<lambda>t. JObj [(''id'', JStr (ty_id t)), (''definition'', JStr (ty_definition t))])
               (content_types content)))
             document)))
      | other \<Rightarrow> other)"

definition canonical_content :: "design_content \<Rightarrow> string" where
  "canonical_content content = dumps (authored_content_document (\<lambda>k. k) content)"

definition design_fingerprint :: "(string \<Rightarrow> string) \<Rightarrow> design_content \<Rightarrow> string" where
  "design_fingerprint sha256 content = sha256 (canonical_content content)"

section \<open>Elementary checks\<close>

definition valid_identifier :: "string \<Rightarrow> string \<Rightarrow> design_error option" where
  "valid_identifier value category =
     raise_if (char_of (0::nat) \<in> set value \<or> length value > 63)
       (DesignValidationError (category @ '' must be a valid PostgreSQL identifier'')
         [(''category'', JStr category), (''name'', JStr value)])"

definition duplicates :: "string list \<Rightarrow> string list" where
  "duplicates values = sort (filter (\<lambda>v. count_list values v > 1) (dedupe values))"

definition unique_check :: "string list \<Rightarrow> string \<Rightarrow> design_error option" where
  "unique_check values category =
     raise_if (duplicates values \<noteq> [])
       (DesignValidationError (category @ '' must be unique'')
         [(''category'', JStr category), (''values'', json_strs (duplicates values))])"

definition safe_fragment :: "string \<Rightarrow> string \<Rightarrow> design_error option" where
  "safe_fragment value category =
     raise_if (char_of (0::nat) \<in> set value \<or> contains '';'' value \<or> contains ''--'' value
               \<or> contains ''/*'' value \<or> contains ''*/'' value)
       (DesignValidationError (category @ '' contains unsupported SQL statement boundaries'')
         [(''category'', JStr category)])"

section \<open>Types in dependency order\<close>

definition dependency_by_name ::
  "(string \<Rightarrow> string option) \<Rightarrow> design_type list \<Rightarrow> (string, string option) dict" where
  "dependency_by_name base_type_name types =
     foldl (\<lambda>d t. AList.update (ty_name t)
              (case base_type_name (ty_definition t) of
                 None \<Rightarrow> None
               | Some b \<Rightarrow> if b \<in> ty_name ` set types then Some b else None) d)
       [] types"

lemma visit_measure:
  assumes "map_of deps name = Some d" "name \<notin> set visiting"
  shows "card (fst ` set deps - insert name (set visiting)) < card (fst ` set deps - set visiting)"
proof (rule psubset_card_mono)
  have "name \<in> fst ` set deps" using assms(1) by (metis map_of_eq_None_iff option.distinct(1))
  with assms(2) show "fst ` set deps - insert name (set visiting) \<subset> fst ` set deps - set visiting" by auto
qed auto

text \<open>
  The nested function \<open>visit\<close>, with the closed-over sets and the result list as arguments; it
  returns the new \<open>visited\<close> and the names in the order their types are appended.
\<close>

function visit ::
  "(string, string option) dict \<Rightarrow> string list \<Rightarrow> string list \<Rightarrow> string list \<Rightarrow> string
   \<Rightarrow> (design_error, string list \<times> string list) result" where
  "visit deps visiting visited ordered name =
     (if name \<in> set visited then Inr (visited, ordered)
      else if name \<in> set visiting then
        Inl (DesignValidationError ''Designed domains cannot contain circular base-type dependencies''
               [(''type'', JStr name)])
      else (case map_of deps name of
          None \<Rightarrow> Inl (PythonError ''KeyError'')
        | Some dependency \<Rightarrow>
            result_bind
              (case dependency of
                 None \<Rightarrow> Inr (visited, ordered)
               | Some d \<Rightarrow> visit deps (name # visiting) visited ordered d)
              (\<lambda>(visited', ordered'). Inr (name # visited', ordered' @ [name]))))"
  by pat_completeness auto
termination
  by (relation "measure (\<lambda>(deps, visiting, visited, ordered, name). card (fst ` set deps - set visiting))")
    (auto simp: visit_measure)

declare visit.simps [simp del]

fun visit_all ::
  "(string, string option) dict \<Rightarrow> string list \<Rightarrow> string list \<Rightarrow> string list
   \<Rightarrow> (design_error, string list) result" where
  "visit_all deps visited ordered [] = Inr ordered"
| "visit_all deps visited ordered (name # names) =
     result_bind (visit deps [] visited ordered name)
       (\<lambda>(visited', ordered'). visit_all deps visited' ordered' names)"

definition design_types_in_dependency_order ::
  "(string \<Rightarrow> string option) \<Rightarrow> design_content \<Rightarrow> (design_error, design_type list) result" where
  "design_types_in_dependency_order base_type_name content =
     (let type_by_name = dict_by ty_name (content_types content);
          deps = dependency_by_name base_type_name (content_types content)
      in result_bind (visit_all deps [] [] (map ty_name (content_types content)))
           (\<lambda>names. Inr (map (\<lambda>n. the (map_of type_by_name n)) names)))"

definition raises :: "('e, 'a) result \<Rightarrow> 'e option" where
  "raises r = (case r of Inl e \<Rightarrow> Some e | Inr _ \<Rightarrow> None)"

section \<open>Table checks\<close>

text \<open>\<open>len(ids) != len(set(ids)) or not set(ids) <= allowed\<close>\<close>

definition bad_refs :: "string list \<Rightarrow> string list \<Rightarrow> bool" where
  "bad_refs ids allowed = (\<not> distinct ids \<or> \<not> set ids \<subseteq> set allowed)"

definition count_some :: "bool list \<Rightarrow> nat" where
  "count_some bs = length (filter (\<lambda>b. b) bs)"

definition column_details :: "design_table \<Rightarrow> design_column \<Rightarrow> (string \<times> json) list" where
  "column_details t c = [(''table'', JStr (tbl_name t)), (''column'', JStr (col_name c))]"

definition table_column_ids :: "design_table \<Rightarrow> string list" where
  "table_column_ids t = map col_id (tbl_columns t)"

definition generated_column_ids :: "design_table \<Rightarrow> string list" where
  "generated_column_ids t = map col_id (filter (\<lambda>c. col_generated_expression c \<noteq> None) (tbl_columns t))"

definition check_generated_column :: "design_table \<Rightarrow> design_column \<Rightarrow> design_error option" where
  "check_generated_column t c =
     (case col_generated_expression c of
        Some generated \<Rightarrow>
          first_error
           [raise_if (strip generated = [])
              (DesignValidationError ''Generated expressions cannot be empty'' (column_details t c)),
            safe_fragment generated (''generated expression for '' @ tbl_name t @ ''.'' @ col_name c),
            raise_if (bad_refs (col_generated_source_column_ids c) (table_column_ids t)
                      \<or> col_id c \<in> set (col_generated_source_column_ids c))
              (DesignValidationError ''Generated columns may reference unique sibling columns only''
                 (column_details t c)),
            raise_if (set (col_generated_source_column_ids c) \<inter> set (generated_column_ids t) \<noteq> {})
              (DesignValidationError ''Generated columns cannot reference other generated columns''
                 (column_details t c))]
      | None \<Rightarrow>
          raise_if (col_generated_source_column_ids c \<noteq> [])
            (DesignValidationError ''Generated column dependencies require a generated expression''
               (column_details t c)))"

definition check_column :: "design_table \<Rightarrow> design_column \<Rightarrow> design_error option" where
  "check_column t c = first_error
     [valid_identifier (col_name c) ''column name'',
      safe_fragment (col_data_type c) (''data type for '' @ tbl_name t @ ''.'' @ col_name c),
      raise_if (count_some [col_default_expression c \<noteq> None, col_identity c \<noteq> None,
                            col_generated_expression c \<noteq> None] > 1)
        (DesignValidationError
           ''Columns may have only one default, identity, or generated value behavior'' (column_details t c)),
      raise_if (col_identity c \<noteq> None \<and> col_nullable c)
        (DesignValidationError ''Identity columns must be non-nullable'' (column_details t c)),
      (case col_default_expression c of None \<Rightarrow> None
       | Some d \<Rightarrow> first_error
           [raise_if (strip d = [])
              (DesignValidationError ''Default expressions cannot be empty'' (column_details t c)),
            safe_fragment d (''default for '' @ tbl_name t @ ''.'' @ col_name c)]),
      check_generated_column t c]"

definition check_key :: "design_table \<Rightarrow> design_key \<Rightarrow> design_error option" where
  "check_key t k = first_error
     [valid_identifier (key_name k) ''key constraint name'',
      raise_if (bad_refs (key_column_ids k) (table_column_ids t))
        (DesignValidationError ''Key constraints must reference unique columns on their own table''
           [(''table'', JStr (tbl_name t)), (''constraint'', JStr (key_name k))])]"

definition check_check :: "design_table \<Rightarrow> design_check \<Rightarrow> design_error option" where
  "check_check t c = first_error
     [valid_identifier (chk_name c) ''check constraint name'',
      raise_if (strip (chk_expression c) = [])
        (DesignValidationError ''Check constraint expressions cannot be empty''
           [(''table'', JStr (tbl_name t)), (''constraint'', JStr (chk_name c))]),
      safe_fragment (chk_expression c) (''check constraint '' @ chk_name c),
      raise_if (bad_refs (chk_column_ids c) (table_column_ids t))
        (DesignValidationError ''Check constraints may reference unique columns on their own table only''
           [(''table'', JStr (tbl_name t)), (''constraint'', JStr (chk_name c))])]"

definition index_details :: "design_table \<Rightarrow> design_index \<Rightarrow> (string \<times> json) list" where
  "index_details t i = [(''table'', JStr (tbl_name t)), (''index'', JStr (idx_name i))]"

text \<open>The checks of an index expression and of an index predicate have the same shape.\<close>

definition check_index_expression :: "design_table \<Rightarrow> design_index \<Rightarrow> design_error option" where
  "check_index_expression t i =
     (case idx_expression i of
        Some e \<Rightarrow> first_error
          [raise_if (strip e = [])
             (DesignValidationError ''Index expressions cannot be empty'' (index_details t i)),
           safe_fragment e (''index expression '' @ idx_name i),
           raise_if (bad_refs (idx_expression_source_column_ids i) (table_column_ids t))
             (DesignValidationError ''Index expressions may reference unique columns on their own table only''
                (index_details t i))]
      | None \<Rightarrow>
          raise_if (idx_expression_source_column_ids i \<noteq> [])
            (DesignValidationError ''Index expression dependencies require an index expression''
               (index_details t i)))"

definition check_index_predicate :: "design_table \<Rightarrow> design_index \<Rightarrow> design_error option" where
  "check_index_predicate t i =
     (case idx_predicate i of
        Some p \<Rightarrow> first_error
          [raise_if (strip p = [])
             (DesignValidationError ''Index predicates cannot be empty'' (index_details t i)),
           safe_fragment p (''index predicate '' @ idx_name i),
           raise_if (bad_refs (idx_predicate_column_ids i) (table_column_ids t))
             (DesignValidationError ''Index predicates may reference unique columns on their own table only''
                (index_details t i))]
      | None \<Rightarrow>
          raise_if (idx_predicate_column_ids i \<noteq> [])
            (DesignValidationError ''Index predicate dependencies require an index predicate''
               (index_details t i)))"

definition check_index :: "design_table \<Rightarrow> design_index \<Rightarrow> design_error option" where
  "check_index t i = first_error
     [valid_identifier (idx_name i) ''index name'',
      valid_identifier (idx_method i) ''index method'',
      raise_if (idx_column_ids i = [] \<and> (idx_expression i = None \<or> idx_expression i = Some []))
        (DesignValidationError ''An index requires columns or an expression'' (index_details t i)),
      raise_if (bad_refs (idx_column_ids i) (table_column_ids t))
        (DesignValidationError ''Indexes may reference unique columns on their own table only''
           (index_details t i)),
      raise_if (bad_refs (idx_include_column_ids i) (table_column_ids t)
                \<or> set (idx_include_column_ids i) \<inter> set (idx_column_ids i) \<noteq> {})
        (DesignValidationError
           ''Included index columns must be unique local columns and cannot be key columns''
           (index_details t i)),
      check_index_expression t i,
      check_index_predicate t i]"

definition check_table :: "design_table \<Rightarrow> design_error option" where
  "check_table t = first_error
     ([valid_identifier (tbl_name t) ''table name'',
       unique_check (map col_name (tbl_columns t)) (''columns in '' @ tbl_name t)]
      @ map (check_column t) (tbl_columns t)
      @ [unique_check (map key_name (tbl_keys t) @ map chk_name (tbl_checks t))
           (''constraints in '' @ tbl_name t),
         raise_if (count_some (map (\<lambda>k. key_kind k = PrimaryKey) (tbl_keys t)) > 1)
           (DesignValidationError ''A table may have only one primary key'' [(''table'', JStr (tbl_name t))])]
      @ map (check_key t) (tbl_keys t)
      @ map (check_check t) (tbl_checks t)
      @ [unique_check (map idx_name (tbl_indexes t)) (''indexes in '' @ tbl_name t)]
      @ map (check_index t) (tbl_indexes t))"

definition table_object_ids :: "design_table \<Rightarrow> string list" where
  "table_object_ids t = tbl_id t # map col_id (tbl_columns t) @ map key_id (tbl_keys t)
     @ map chk_id (tbl_checks t) @ map idx_id (tbl_indexes t)"

section \<open>Checks across tables\<close>

definition check_relationship ::
  "(string, design_table) dict \<Rightarrow> (string \<times> string) list \<Rightarrow> design_relationship \<Rightarrow> design_error option" where
  "check_relationship table_by_id relationship_names r =
     (case (map_of table_by_id (rel_source_table_id r), map_of table_by_id (rel_target_table_id r)) of
        (Some src, Some target) \<Rightarrow> first_error
          [raise_if ((tbl_id src, rel_name r) \<in> set relationship_names)
             (DesignValidationError ''Relationship names must be unique on their source table''
                [(''category'', JStr ''relationship names''), (''table'', JStr (tbl_name src)),
                 (''name'', JStr (rel_name r))]),
           raise_if (length (rel_source_column_ids r) \<noteq> length (rel_target_column_ids r)
                     \<or> \<not> distinct (rel_source_column_ids r) \<or> \<not> distinct (rel_target_column_ids r)
                     \<or> \<not> set (rel_source_column_ids r) \<subseteq> set (table_column_ids src)
                     \<or> \<not> set (rel_target_column_ids r) \<subseteq> set (table_column_ids target))
             (DesignValidationError
                ''Relationship columns must be unique, paired, and owned by their referenced tables''
                [(''relationship'', JStr (rel_name r))]),
           raise_unless (rel_target_column_ids r \<in> set (map key_column_ids (tbl_keys target)))
             (DesignValidationError ''Relationship targets must match a primary or unique key''
                [(''relationship'', JStr (rel_name r)), (''targetTable'', JStr (tbl_name target))]),
           raise_if (rel_initially_deferred r \<and> \<not> rel_deferrable r)
             (DesignValidationError ''An initially deferred relationship must be deferrable''
                [(''relationship'', JStr (rel_name r))]),
           valid_identifier (rel_name r) ''relationship name'']
      | _ \<Rightarrow> Some (DesignValidationError ''Relationships must reference tables in this design''
                [(''relationship'', JStr (rel_name r))]))"

text \<open>The loop adds \<open>(source.id, relationship.name)\<close>; \<open>source.id\<close> is the id it was found by.\<close>

fun check_relationships ::
  "(string, design_table) dict \<Rightarrow> (string \<times> string) list \<Rightarrow> design_relationship list \<Rightarrow> design_error option" where
  "check_relationships table_by_id relationship_names [] = None"
| "check_relationships table_by_id relationship_names (r # rs) = first_error
     [check_relationship table_by_id relationship_names r,
      check_relationships table_by_id ((rel_source_table_id r, rel_name r) # relationship_names) rs]"

definition routine_signature :: "design_function \<Rightarrow> string" where
  "routine_signature f = fn_name f @ ''('' @ fn_identity_arguments f @ '')''"

definition check_view :: "(string \<Rightarrow> (string \<times> string) option) \<Rightarrow> design_view \<Rightarrow> design_error option" where
  "check_view query_error v = first_error
     [valid_identifier (view_name v) ''view name'',
      (case query_error (view_definition v) of None \<Rightarrow> None
       | Some (message, code) \<Rightarrow>
           Some (DesignValidationError message [(''view'', JStr (view_name v)), (''reason'', JStr code)]))]"

datatype design_relation = TableRelation design_table | ViewRelation design_view

definition relation_by_name :: "design_content \<Rightarrow> (string, design_relation) dict" where
  "relation_by_name content =
     foldl (\<lambda>d v. AList.update (view_name v) (ViewRelation v) d)
       (foldl (\<lambda>d t. AList.update (tbl_name t) (TableRelation t) d) [] (content_tables content))
       (content_views content)"

text \<open>
  A single-part function name is looked up as a no-argument routine. \<open>routine.return_type.lower()\<close>
  fails with an \<open>AttributeError\<close> on a function without a return type.
\<close>

definition check_trigger_function :: "design_content \<Rightarrow> design_trigger \<Rightarrow> design_error option" where
  "check_trigger_function content t =
     (case split_on CHR ''.'' (trg_function_name t) of
        [part] \<Rightarrow>
          (case map_of (dict_by (\<lambda>f. (fn_name f, fn_identity_arguments f)) (content_functions content)) (part, []) of
             None \<Rightarrow> None
           | Some routine \<Rightarrow>
               (let err = DesignValidationError
                     ''A designed trigger function must be a no-argument function returning trigger''
                     [(''trigger'', JStr (trg_name t)), (''function'', JStr (trg_function_name t))]
                in if fn_kind routine \<noteq> FunctionRoutine then Some err
                   else (case fn_return_type routine of
                       None \<Rightarrow> Some (PythonError ''AttributeError'')
                     | Some rt \<Rightarrow> raise_if (lower rt \<noteq> ''trigger'') err)))
      | _ \<Rightarrow> None)"

definition check_trigger :: "design_content \<Rightarrow> design_trigger \<Rightarrow> design_error option" where
  "check_trigger content t = first_error
     [valid_identifier (trg_name t) ''trigger name'',
      (case map_of (relation_by_name content) (trg_relation_name t) of
         None \<Rightarrow> Some (DesignValidationError ''Triggers must target a table or view in this design''
                    [(''trigger'', JStr (trg_name t)), (''relation'', JStr (trg_relation_name t))])
       | Some relation \<Rightarrow> first_error
           [raise_if (trg_timing t = InsteadOfEvent \<and> (case relation of TableRelation _ \<Rightarrow> True | _ \<Rightarrow> False))
              (DesignValidationError ''INSTEAD OF triggers must target a designed view''
                 [(''trigger'', JStr (trg_name t)), (''relation'', JStr (trg_relation_name t))]),
            raise_if ((case relation of ViewRelation _ \<Rightarrow> True | _ \<Rightarrow> False)
                      \<and> trg_timing t \<noteq> InsteadOfEvent \<and> trg_orientation t = PerRow)
              (DesignValidationError ''Row-level triggers on designed views must use INSTEAD OF''
                 [(''trigger'', JStr (trg_name t)), (''relation'', JStr (trg_relation_name t))]),
            raise_if (trg_timing t = InsteadOfEvent \<and> trg_orientation t \<noteq> PerRow)
              (DesignValidationError ''INSTEAD OF triggers must run for each row''
                 [(''trigger'', JStr (trg_name t))]),
            raise_if (TruncateEvent \<in> set (trg_events t) \<and> trg_orientation t = PerRow)
              (DesignValidationError ''TRUNCATE triggers must run for each statement''
                 [(''trigger'', JStr (trg_name t))]),
            (case relation of
               TableRelation table \<Rightarrow>
                 (let unknown = sorted_set (filter (\<lambda>c. c \<notin> col_name ` set (tbl_columns table))
                                              (trg_referenced_columns t))
                  in raise_if (unknown \<noteq> [])
                       (DesignValidationError ''Trigger column references must exist on the target table''
                          [(''trigger'', JStr (trg_name t)), (''relation'', JStr (trg_relation_name t)),
                           (''columns'', json_strs unknown)]))
             | ViewRelation _ \<Rightarrow> None),
            check_trigger_function content t])]"

definition all_object_ids :: "design_content \<Rightarrow> string list" where
  "all_object_ids content =
     map ty_id (content_types content)
     @ concat (map table_object_ids (content_tables content))
     @ map rel_id (content_relationships content)
     @ map fn_id (content_functions content)
     @ map view_id (content_views content)
     @ map trg_id (content_triggers content)"

definition check_type_names :: "design_type \<Rightarrow> design_error option" where
  "check_type_names t = first_error
     (valid_identifier (ty_name t) ''type name''
      # map (\<lambda>c. case dc_name c of None \<Rightarrow> None
                 | Some n \<Rightarrow> valid_identifier n ''domain constraint name'') (ty_checks t))"

definition validate_design_content ::
  "(string \<Rightarrow> string option) \<Rightarrow> (string \<Rightarrow> (string \<times> string) option) \<Rightarrow> design_content \<Rightarrow> design_error option" where
  "validate_design_content base_type_name query_error content = first_error
     ([unique_check (map ty_name (content_types content)) ''type names'',
       unique_check (map ty_name (content_types content) @ map tbl_name (content_tables content)
                     @ map view_name (content_views content)) ''type, table, and view names'']
      @ map check_type_names (content_types content)
      @ [raises (design_types_in_dependency_order base_type_name content)]
      @ map check_table (content_tables content)
      @ [check_relationships (dict_by tbl_id (content_tables content)) [] (content_relationships content),
         unique_check (map routine_signature (content_functions content)) ''routine signatures'']
      @ map (\<lambda>f. first_error [valid_identifier (fn_name f) ''routine name'',
                              valid_identifier (fn_language f) ''routine language'']) (content_functions content)
      @ map (check_view query_error) (content_views content)
      @ [unique_check (map (\<lambda>t. trg_relation_name t @ ''.'' @ trg_name t) (content_triggers content))
           ''trigger names per relation'']
      @ map (check_trigger content) (content_triggers content)
      @ [unique_check (all_object_ids content) ''design object IDs''])"

definition design_object_ids :: "design_content \<Rightarrow> (string, layer) dict" where
  "design_object_ids content =
     foldl (\<lambda>d v. AList.update (view_id v) ViewsLayer d)
       (foldl (\<lambda>d t. AList.update (tbl_id t) TablesLayer d) [] (content_tables content))
       (content_views content)"

section \<open>Dependency order\<close>

text \<open>Every name comes after the name it depends on.\<close>

definition deps_first :: "(string, string option) dict \<Rightarrow> string list \<Rightarrow> bool" where
  "deps_first deps ns = (\<forall>i<length ns. \<forall>d. map_of deps (ns ! i) = Some (Some d) \<longrightarrow> d \<in> set (take i ns))"

lemma deps_first_Nil [simp]: "deps_first deps []"
  by (simp add: deps_first_def)

lemma deps_first_snoc:
  "deps_first deps (ns @ [n]) \<longleftrightarrow>
     deps_first deps ns \<and> (\<forall>d. map_of deps n = Some (Some d) \<longrightarrow> d \<in> set ns)"
proof -
  have "(\<forall>i<length (ns @ [n]). \<forall>d. map_of deps ((ns @ [n]) ! i) = Some (Some d) \<longrightarrow> d \<in> set (take i (ns @ [n]))) \<longleftrightarrow>
      (\<forall>i<length ns. \<forall>d. map_of deps (ns ! i) = Some (Some d) \<longrightarrow> d \<in> set (take i ns))
      \<and> (\<forall>d. map_of deps n = Some (Some d) \<longrightarrow> d \<in> set ns)"
    by (auto simp: less_Suc_eq nth_append)
  then show ?thesis by (simp add: deps_first_def)
qed

definition visit_inv :: "(string, string option) dict \<Rightarrow> string list \<Rightarrow> string list \<Rightarrow> bool" where
  "visit_inv deps visited ordered =
     (visited = rev ordered \<and> distinct ordered \<and> deps_first deps ordered \<and> (\<forall>n\<in>set ordered. map_of deps n \<noteq> None))"

lemma visit_step:
  assumes "visit deps visiting visited ordered name = Inr (visited', ordered')"
    and "visit_inv deps visited ordered"
  shows "visit_inv deps visited' ordered' \<and> set ordered \<subseteq> set ordered' \<and> name \<in> set ordered'
    \<and> set ordered' \<inter> set visiting \<subseteq> set ordered"
  using assms
proof (induction deps visiting visited ordered name arbitrary: visited' ordered' rule: visit.induct)
  case (1 deps visiting visited ordered name)
  show ?case
  proof (cases "name \<in> set visited")
    case True
    with 1 show ?thesis by (auto simp: visit.simps visit_inv_def)
  next
    case new: False
    have not_visiting: "name \<notin> set visiting" using "1.prems"(1) new by (auto simp: visit.simps)
    with "1.prems"(1) new obtain dep where dep: "map_of deps name = Some dep"
      by (auto simp: visit.simps split: option.splits)
    show ?thesis
    proof (cases dep)
      case None
      with "1.prems" new not_visiting dep show ?thesis
        by (auto simp: visit.simps visit_inv_def deps_first_snoc)
    next
      case (Some d)
      with "1.prems"(1) new not_visiting dep obtain v1 o1 where
        v1: "visit deps (name # visiting) visited ordered d = Inr (v1, o1)"
          and out: "visited' = name # v1" "ordered' = o1 @ [name]"
        by (subst (asm) visit.simps) (auto simp: result_simps)
      note IH = "1.IH"[OF new not_visiting dep Some v1 "1.prems"(2)]
      have "name \<notin> set o1" using IH new "1.prems"(2) by (auto simp: visit_inv_def)
      with IH out dep Some not_visiting show ?thesis
        by (auto simp: visit_inv_def deps_first_snoc)
    qed
  qed
qed

lemma visit_all_step:
  assumes "visit_all deps visited ordered names = Inr out" "visit_inv deps visited ordered"
  shows "distinct out \<and> deps_first deps out \<and> set names \<union> set ordered \<subseteq> set out \<and> (\<forall>n\<in>set out. map_of deps n \<noteq> None)"
  using assms
proof (induction names arbitrary: visited ordered)
  case Nil
  then show ?case by (auto simp: visit_inv_def)
next
  case (Cons n ns)
  then obtain v1 o1 where v1: "visit deps [] visited ordered n = Inr (v1, o1)"
    and rest: "visit_all deps v1 o1 ns = Inr out"
    by (auto simp: result_simps)
  with visit_step[OF v1] Cons show ?case by fastforce
qed

lemma dependency_by_name_None: "map_of (dependency_by_name f ts) n = None \<longleftrightarrow> n \<notin> ty_name ` set ts"
proof -
  have "map_of (foldl (\<lambda>d t. AList.update (ty_name t) (g t) d) d0 ts) n = None
      \<longleftrightarrow> map_of d0 n = None \<and> n \<notin> ty_name ` set ts"
    for g :: "design_type \<Rightarrow> string option" and d0
    by (induction ts arbitrary: d0) auto
  then show ?thesis by (simp add: dependency_by_name_def)
qed

lemma dependency_by_name_get:
  assumes "distinct (map ty_name ts)" "t \<in> set ts"
  shows "map_of (dependency_by_name f ts) (ty_name t) =
    Some (case f (ty_definition t) of None \<Rightarrow> None | Some b \<Rightarrow> if b \<in> ty_name ` set ts then Some b else None)"
proof -
  have "map_of (foldl (\<lambda>d t. AList.update (ty_name t) (g t) d) d0 us) (ty_name t) = Some (g t)"
    if "distinct (map ty_name us)" "t \<in> set us" for g :: "design_type \<Rightarrow> string option" and d0 us
    using that
  proof (induction us rule: rev_induct)
    case (snoc u us)
    then show ?case by (cases "t = u") (auto simp: rev_image_eqI)
  qed simp
  from this[OF assms] show ?thesis by (simp add: dependency_by_name_def)
qed

text \<open>
  When ordering succeeds, the result holds every designed type exactly once and each domain
  comes after the designed type it is based on.
\<close>

theorem types_in_dependency_order:
  assumes "design_types_in_dependency_order base_type_name content = Inr types"
    and "distinct (map ty_name (content_types content))"
  shows "mset types = mset (content_types content)
    \<and> (\<forall>i<length types. \<forall>b. base_type_name (ty_definition (types ! i)) = Some b
         \<and> b \<in> ty_name ` set (content_types content) \<longrightarrow> b \<in> ty_name ` set (take i types))"
proof -
  let ?ts = "content_types content" and ?deps = "dependency_by_name base_type_name (content_types content)"
  from assms(1) obtain names where names: "visit_all ?deps [] [] (map ty_name ?ts) = Inr names"
    and tys: "types = map (\<lambda>n. the (map_of (dict_by ty_name ?ts) n)) names"
    by (auto simp: design_types_in_dependency_order_def Let_def result_simps)
  have inv: "distinct names" "deps_first ?deps names" "set names = ty_name ` set ?ts"
    using visit_all_step[OF names] by (auto simp: visit_inv_def dependency_by_name_None)
  have find: "the (map_of (dict_by ty_name ?ts) (ty_name t)) = t" if "t \<in> set ?ts" for t
    using dict_by_find[OF assms(2) that] by simp
  have set_types: "set types = set ?ts"
    unfolding tys using inv(3) find by force
  have names_eq: "map ty_name types = names"
    unfolding tys map_map by (rule map_idI) (use inv(3) find in fastforce)
  have "distinct types" using inv(1) names_eq by (metis distinct_map)
  moreover have "distinct ?ts" using assms(2) by (simp add: distinct_map)
  ultimately have "mset types = mset ?ts" using set_types by (simp add: set_eq_iff_mset_eq_distinct)
  moreover have "b \<in> ty_name ` set (take i types)"
    if "i < length types" "base_type_name (ty_definition (types ! i)) = Some b" "b \<in> ty_name ` set ?ts" for i b
  proof -
    have "types ! i \<in> set ?ts" using that(1) set_types nth_mem by blast
    then have "map_of ?deps (ty_name (types ! i)) = Some (Some b)"
      using dependency_by_name_get[OF assms(2), of "types ! i" base_type_name] that(2,3) by simp
    then have "b \<in> set (take i names)" using inv(2) that(1) names_eq by (auto simp: deps_first_def)
    then show ?thesis by (simp add: take_map flip: names_eq)
  qed
  ultimately show ?thesis by blast
qed


theorem types_in_dependency_order_witness:
  "design_types_in_dependency_order (\<lambda>d. if d = ''D'' then Some ''e'' else None)
     (empty_design_content\<lparr>content_types :=
       [\<lparr>ty_id = ''1'', ty_name = ''d'', ty_kind = DomainType, ty_enum_values = [], ty_base_type = Some ''e'',
         ty_default_expression = None, ty_not_null = False, ty_checks = [], ty_collation = None, ty_definition = ''D''\<rparr>,
        \<lparr>ty_id = ''2'', ty_name = ''e'', ty_kind = EnumType, ty_enum_values = [''x''], ty_base_type = None,
         ty_default_expression = None, ty_not_null = False, ty_checks = [], ty_collation = None, ty_definition = ''E''\<rparr>]\<rparr>)
   = Inr
       [\<lparr>ty_id = ''2'', ty_name = ''e'', ty_kind = EnumType, ty_enum_values = [''x''], ty_base_type = None,
         ty_default_expression = None, ty_not_null = False, ty_checks = [], ty_collation = None, ty_definition = ''E''\<rparr>,
        \<lparr>ty_id = ''1'', ty_name = ''d'', ty_kind = DomainType, ty_enum_values = [], ty_base_type = Some ''e'',
         ty_default_expression = None, ty_not_null = False, ty_checks = [], ty_collation = None, ty_definition = ''D''\<rparr>]"
  (is "?run = Inr ?out")
proof -
  have run: ?thesis
    by (simp add: design_types_in_dependency_order_def dependency_by_name_def dict_by_def visit.simps
        empty_design_content_def)
  show ?thesis
    using types_in_dependency_order[OF run] run by (simp add: empty_design_content_def)
qed

text \<open>The base-type relation between the names of designed types.\<close>

definition base_rel :: "(string, string option) dict \<Rightarrow> (string \<times> string) set" where
  "base_rel deps = {(a, b). map_of deps a = Some (Some b)}"

lemma visit_error:
  assumes "visit deps visiting visited ordered name = Inl e"
    and "\<forall>m\<in>set visiting. (m, name) \<in> (base_rel deps)\<^sup>+"
    and "\<forall>a b. (a, b) \<in> base_rel deps \<longrightarrow> map_of deps b \<noteq> None" "map_of deps name \<noteq> None"
  shows "\<exists>n. (n, n) \<in> (base_rel deps)\<^sup>+ \<and>
    e = DesignValidationError ''Designed domains cannot contain circular base-type dependencies'' [(''type'', JStr n)]"
  using assms
proof (induction deps visiting visited ordered name rule: visit.induct)
  case (1 deps visiting visited ordered name)
  have new: "name \<notin> set visited" using "1.prems"(1) by (auto simp: visit.simps)
  show ?case
  proof (cases "name \<in> set visiting")
    case True
    with "1.prems" new show ?thesis by (auto simp: visit.simps)
  next
    case False
    obtain dep where dep: "map_of deps name = Some dep" using "1.prems"(4) by blast
    with "1.prems"(1) new False obtain d where d: "dep = Some d"
      by (subst (asm) visit.simps) (auto split: option.splits)
    have err: "visit deps (name # visiting) visited ordered d = Inl e"
      using "1.prems"(1) new False dep d
      by (subst (asm) visit.simps) (auto simp: result_bind_def split: sum.splits)
    have step: "(name, d) \<in> base_rel deps" using dep d by (simp add: base_rel_def)
    have "\<forall>m\<in>set (name # visiting). (m, d) \<in> (base_rel deps)\<^sup>+"
      using "1.prems"(2) step by (auto intro: trancl_into_trancl)
    from "1.IH"[OF new False dep d err this "1.prems"(3)] "1.prems"(3) step show ?thesis by blast
  qed
qed

lemma visit_all_error:
  assumes "visit_all deps visited ordered names = Inl e"
    and "\<forall>a b. (a, b) \<in> base_rel deps \<longrightarrow> map_of deps b \<noteq> None" "\<forall>n\<in>set names. map_of deps n \<noteq> None"
  shows "\<exists>n. (n, n) \<in> (base_rel deps)\<^sup>+ \<and>
    e = DesignValidationError ''Designed domains cannot contain circular base-type dependencies'' [(''type'', JStr n)]"
  using assms
proof (induction names arbitrary: visited ordered)
  case (Cons n ns)
  show ?case
  proof (cases "visit deps [] visited ordered n")
    case (Inl e')
    with Cons.prems visit_error[OF Inl] show ?thesis by simp
  next
    case (Inr vo)
    with Cons show ?thesis by (cases vo) auto
  qed
qed simp

lemma deps_first_acyclic:
  assumes "deps_first deps names" "\<forall>n. map_of deps n \<noteq> None \<longrightarrow> n \<in> set names"
  shows "acyclic (base_rel deps)"
proof -
  define idx where "idx n = the (index_where (\<lambda>v. v = n) names)" for n
  have idx: "idx n < length names \<and> names ! idx n = n \<and> (\<forall>j<idx n. names ! j \<noteq> n)" if "n \<in> set names" for n
  proof (cases "index_where (\<lambda>v. v = n) names")
    case None
    with that show ?thesis by (auto simp: index_where_None)
  next
    case (Some i)
    then have "idx n = i" by (simp add: idx_def)
    with Some[unfolded index_where_Some] show ?thesis by simp
  qed
  have "idx b < idx a" if "(a, b) \<in> base_rel deps" for a b
  proof -
    have a: "map_of deps a = Some (Some b)" using that by (simp add: base_rel_def)
    with assms(2) have ia: "idx a < length names" "names ! idx a = a" using idx by auto
    with assms(1) a have "b \<in> set (take (idx a) names)" by (auto simp: deps_first_def)
    then obtain j where j: "j < idx a" "names ! j = b" "j < length names" by (auto simp: in_set_conv_nth)
    then have "b \<in> set names" by auto
    then have "\<forall>j<idx b. names ! j \<noteq> b" using idx by blast
    with j(2) have "idx b \<le> j" using linorder_not_less by blast
    with j show ?thesis by simp
  qed
  then have "base_rel deps \<subseteq> (measure idx)\<inverse>" by auto
  moreover have "acyclic ((measure idx)\<inverse>)" by (simp add: wf_acyclic)
  ultimately show ?thesis by (rule acyclic_subset[rotated])
qed

lemma base_rel_closed:
  assumes "(a, b) \<in> base_rel (dependency_by_name f ts)"
  shows "map_of (dependency_by_name f ts) b \<noteq> None"
proof -
  define g where "g t = (case f (ty_definition t) of None \<Rightarrow> None
     | Some b \<Rightarrow> if b \<in> ty_name ` set ts then Some b else None)" for t :: design_type
  have "map_of (foldl (\<lambda>d t. AList.update (ty_name t) (g t) d) [] us) a = Some (Some b) \<Longrightarrow> b \<in> ty_name ` set ts" for us
    by (induction us rule: rev_induct) (auto simp: g_def split: if_splits option.splits)
  from this[of ts] assms have "b \<in> ty_name ` set ts"
    by (simp add: base_rel_def dependency_by_name_def g_def)
  then show ?thesis by (simp add: dependency_by_name_None)
qed

text \<open>
  C35. Ordering succeeds exactly for designs whose base-type dependencies have no cycle.
\<close>

theorem types_order_total:
  "(\<exists>types. design_types_in_dependency_order base_type_name content = Inr types)
     \<longleftrightarrow> acyclic (base_rel (dependency_by_name base_type_name (content_types content)))"
proof -
  let ?deps = "dependency_by_name base_type_name (content_types content)"
  let ?run = "visit_all ?deps [] [] (map ty_name (content_types content))"
  have names: "\<forall>n\<in>set (map ty_name (content_types content)). map_of ?deps n \<noteq> None"
    by (auto simp: dependency_by_name_None)
  have "(\<exists>types. design_types_in_dependency_order base_type_name content = Inr types) \<longleftrightarrow> (\<exists>out. ?run = Inr out)"
    by (auto simp: design_types_in_dependency_order_def Let_def result_simps)
  also have "\<dots> \<longleftrightarrow> acyclic (base_rel ?deps)"
  proof
    assume "\<exists>out. ?run = Inr out"
    then obtain out where out: "?run = Inr out" by blast
    show "acyclic (base_rel ?deps)"
      using visit_all_step[OF out] by (intro deps_first_acyclic) (auto simp: visit_inv_def dependency_by_name_None)
  next
    assume ac: "acyclic (base_rel ?deps)"
    show "\<exists>out. ?run = Inr out"
    proof (cases ?run)
      case (Inl e)
      with visit_all_error[OF Inl _ names] base_rel_closed ac show ?thesis by (auto simp: acyclic_def)
    qed blast
  qed
  finally show ?thesis .
qed


section \<open>Referential integrity of validated designs\<close>

lemma duplicates_Nil [simp]: "duplicates xs = [] \<longleftrightarrow> distinct xs"
proof -
  have "duplicates xs = [] \<longleftrightarrow> (\<forall>v\<in>set xs. count_list xs v \<le> 1)"
    by (auto simp: duplicates_def filter_empty_conv linorder_not_less simp flip: set_empty2)
  also have "\<dots> \<longleftrightarrow> distinct xs"
  proof
    show "\<forall>v\<in>set xs. count_list xs v \<le> 1 \<Longrightarrow> distinct xs"
    proof (induction xs)
      case (Cons x xs)
      have "count_list xs x = 0" using Cons.prems by auto
      moreover have "\<forall>v\<in>set xs. count_list xs v \<le> 1"
      proof
        fix v assume "v \<in> set xs"
        then have "count_list (x # xs) v \<le> 1" using Cons.prems by (intro bspec[OF Cons.prems]) simp
        then show "count_list xs v \<le> 1" by (simp split: if_splits)
      qed
      ultimately show ?case using Cons.IH by (simp add: count_list_0_iff)
    qed simp
  next
    assume "distinct xs"
    then show "\<forall>v\<in>set xs. count_list xs v \<le> 1"
      by (induction xs) (auto simp: count_notin)
  qed
  finally show ?thesis .
qed

lemma unique_check_None [simp]: "unique_check xs category = None \<longleftrightarrow> distinct xs"
  by (simp add: unique_check_def)

text \<open>Every column id a table object mentions is a column of its own table.\<close>

definition table_references_resolved :: "design_table \<Rightarrow> bool" where
  "table_references_resolved t =
     (distinct (map col_name (tbl_columns t))
      \<and> (\<forall>c\<in>set (tbl_columns t). set (col_generated_source_column_ids c)
            \<subseteq> set (table_column_ids t) - set (generated_column_ids t) - {col_id c})
      \<and> (\<forall>k\<in>set (tbl_keys t). set (key_column_ids k) \<subseteq> set (table_column_ids t))
      \<and> (\<forall>c\<in>set (tbl_checks t). set (chk_column_ids c) \<subseteq> set (table_column_ids t))
      \<and> (\<forall>i\<in>set (tbl_indexes t). set (idx_column_ids i @ idx_include_column_ids i
            @ idx_expression_source_column_ids i @ idx_predicate_column_ids i) \<subseteq> set (table_column_ids t)))"

definition relationship_resolved :: "design_content \<Rightarrow> design_relationship \<Rightarrow> bool" where
  "relationship_resolved content r =
     (\<exists>src\<in>set (content_tables content). \<exists>target\<in>set (content_tables content).
        tbl_id src = rel_source_table_id r \<and> tbl_id target = rel_target_table_id r
        \<and> length (rel_source_column_ids r) = length (rel_target_column_ids r)
        \<and> set (rel_source_column_ids r) \<subseteq> set (table_column_ids src)
        \<and> (\<exists>k\<in>set (tbl_keys target). key_column_ids k = rel_target_column_ids r))"

definition trigger_resolved :: "design_content \<Rightarrow> design_trigger \<Rightarrow> bool" where
  "trigger_resolved content t =
     ((\<exists>v\<in>set (content_views content). view_name v = trg_relation_name t)
      \<or> (\<exists>tb\<in>set (content_tables content). tbl_name tb = trg_relation_name t
           \<and> trg_timing t \<noteq> InsteadOfEvent
           \<and> set (trg_referenced_columns t) \<subseteq> col_name ` set (tbl_columns tb)))"

lemma check_column_sources:
  "check_column t c = None \<Longrightarrow> set (col_generated_source_column_ids c)
     \<subseteq> set (table_column_ids t) - set (generated_column_ids t) - {col_id c}"
  by (cases "col_generated_expression c")
    (auto simp: check_column_def check_generated_column_def bad_refs_def)

lemma check_index_columns:
  "check_index t i = None \<Longrightarrow> set (idx_column_ids i @ idx_include_column_ids i
     @ idx_expression_source_column_ids i @ idx_predicate_column_ids i) \<subseteq> set (table_column_ids t)"
  by (cases "idx_expression i"; cases "idx_predicate i")
    (simp_all add: check_index_def check_index_expression_def check_index_predicate_def bad_refs_def)

lemma check_table_resolved:
  assumes "check_table t = None"
  shows "table_references_resolved t"
  unfolding table_references_resolved_def
proof (intro conjI ballI)
  note t = assms[unfolded check_table_def first_error_None]
  show "distinct (map col_name (tbl_columns t))" using t by simp
  show "set (col_generated_source_column_ids c)
      \<subseteq> set (table_column_ids t) - set (generated_column_ids t) - {col_id c}" if "c \<in> set (tbl_columns t)" for c
    by (rule check_column_sources) (use t that in auto)
  show "set (idx_column_ids i @ idx_include_column_ids i @ idx_expression_source_column_ids i
      @ idx_predicate_column_ids i) \<subseteq> set (table_column_ids t)" if "i \<in> set (tbl_indexes t)" for i
    by (rule check_index_columns) (use t that in auto)
  show "set (key_column_ids k) \<subseteq> set (table_column_ids t)" if "k \<in> set (tbl_keys t)" for k
  proof -
    have "check_key t k = None" using t that by auto
    then show ?thesis by (simp add: check_key_def bad_refs_def)
  qed
  show "set (chk_column_ids c) \<subseteq> set (table_column_ids t)" if "c \<in> set (tbl_checks t)" for c
  proof -
    have "check_check t c = None" using t that by auto
    then show ?thesis by (simp add: check_check_def bad_refs_def)
  qed
qed

lemma check_relationship_resolved:
  assumes "check_relationship (dict_by tbl_id (content_tables content)) seen r = None"
  shows "relationship_resolved content r"
proof -
  from assms obtain src target where
    "map_of (dict_by tbl_id (content_tables content)) (rel_source_table_id r) = Some src"
    "map_of (dict_by tbl_id (content_tables content)) (rel_target_table_id r) = Some target"
    by (auto simp: check_relationship_def split: option.splits)
  with assms dict_by_Some[OF this(1)] dict_by_Some[OF this(2)] show ?thesis
    unfolding relationship_resolved_def
    by (intro bexI[of _ src] bexI[of _ target]) (auto simp: check_relationship_def)
qed

lemma check_relationships_resolved:
  "check_relationships (dict_by tbl_id (content_tables content)) seen rs = None \<Longrightarrow>
   r \<in> set rs \<Longrightarrow> relationship_resolved content r"
  by (induction rs arbitrary: seen) (auto intro: check_relationship_resolved)

lemma relation_by_name_Some:
  assumes "map_of (relation_by_name content) n = Some r"
  shows "(case r of TableRelation t \<Rightarrow> t \<in> set (content_tables content) \<and> tbl_name t = n
                  | ViewRelation v \<Rightarrow> v \<in> set (content_views content) \<and> view_name v = n)"
proof -
  have t: "map_of (foldl (\<lambda>d t. AList.update (tbl_name t) (TableRelation t) d) [] ts) n = Some r \<Longrightarrow>
      (\<exists>t\<in>set ts. r = TableRelation t \<and> tbl_name t = n)" for ts :: "design_table list"
    by (induction ts rule: rev_induct) (auto split: if_splits)
  have "map_of (foldl (\<lambda>d v. AList.update (view_name v) (ViewRelation v) d) d0 vs) n = Some r \<Longrightarrow>
      map_of d0 n = Some r \<or> (\<exists>v\<in>set vs. r = ViewRelation v \<and> view_name v = n)" for d0 and vs :: "design_view list"
    by (induction vs rule: rev_induct) (auto split: if_splits)
  with t assms show ?thesis by (fastforce simp: relation_by_name_def)
qed

lemma check_trigger_resolved: "check_trigger content t = None \<Longrightarrow> trigger_resolved content t"
proof -
  assume c: "check_trigger content t = None"
  then obtain r where r: "map_of (relation_by_name content) (trg_relation_name t) = Some r"
    by (auto simp: check_trigger_def split: option.splits)
  show ?thesis
  proof (cases r)
    case (TableRelation tb)
    have "sorted_set (filter (\<lambda>c. c \<notin> col_name ` set (tbl_columns tb)) (trg_referenced_columns t)) = []"
      using c r TableRelation by (simp add: check_trigger_def Let_def)
    then have "set (trg_referenced_columns t) \<subseteq> col_name ` set (tbl_columns tb)"
      by (metis (mono_tags, lifting) filter_empty_conv set_empty set_sorted_set subsetI)
    with c r TableRelation relation_by_name_Some[OF r] show ?thesis
      by (auto simp: trigger_resolved_def check_trigger_def)
  next
    case (ViewRelation v)
    with relation_by_name_Some[OF r] show ?thesis by (auto simp: trigger_resolved_def)
  qed
qed

text \<open>
  C28. A design that passes validation is referentially complete: all object ids are distinct; types,
  tables and views have distinct names; keys, checks, indexes and generated columns mention columns
  of their own table only, and generated columns never depend on generated columns; every
  relationship joins two tables of the design, with paired columns, onto a key of its target; every
  trigger is on a relation of the design, and the types can be ordered by dependency. The function a
  trigger calls may be outside the design.
\<close>

theorem validated_design_resolved:
  assumes "validate_design_content base_type_name query_error content = None"
  shows "distinct (all_object_ids content)
    \<and> distinct (map ty_name (content_types content) @ map tbl_name (content_tables content)
                @ map view_name (content_views content))
    \<and> (\<forall>t\<in>set (content_tables content). table_references_resolved t)
    \<and> (\<forall>r\<in>set (content_relationships content). relationship_resolved content r)
    \<and> (\<forall>t\<in>set (content_triggers content). trigger_resolved content t)
    \<and> (\<forall>v\<in>set (content_views content). query_error (view_definition v) = None)
    \<and> (\<exists>types. design_types_in_dependency_order base_type_name content = Inr types)"
proof (intro conjI ballI)
  note v = assms[unfolded validate_design_content_def first_error_None]
  show "distinct (all_object_ids content)" using v by simp
  show "distinct (map ty_name (content_types content) @ map tbl_name (content_tables content)
                @ map view_name (content_views content))" using v by simp
  show "table_references_resolved t" if "t \<in> set (content_tables content)" for t
    using v that by (intro check_table_resolved) auto
  show "relationship_resolved content r" if "r \<in> set (content_relationships content)" for r
    using v that by (intro check_relationships_resolved[of content "[]"]) auto
  show "trigger_resolved content t" if "t \<in> set (content_triggers content)" for t
    using v that by (intro check_trigger_resolved) auto
  show "query_error (view_definition w) = None" if w: "w \<in> set (content_views content)" for w
  proof -
    have "check_view query_error w = None" using v w by auto
    then show ?thesis by (auto simp: check_view_def split: option.splits)
  qed
  have "raises (design_types_in_dependency_order base_type_name content) = None" using v by simp
  then show "\<exists>types. design_types_in_dependency_order base_type_name content = Inr types"
    by (auto simp: raises_def split: sum.splits)
qed

theorem validated_design_resolved_witness:
  "table_references_resolved
      \<lparr>tbl_id = ''t'', tbl_name = ''a'', tbl_columns =
          [\<lparr>col_id = ''c'', col_name = ''x'', col_data_type = ''integer'', col_nullable = False,
            col_default_expression = None, col_identity = None, col_generated_expression = None,
            col_generated_source_column_ids = []\<rparr>],
        tbl_keys = [\<lparr>key_id = ''k'', key_name = ''pk'', key_kind = PrimaryKey, key_column_ids = [''c'']\<rparr>],
        tbl_checks = [], tbl_indexes = []\<rparr>"
  (is "table_references_resolved ?t")
proof -
  have "validate_design_content (\<lambda>_. None) (\<lambda>_. None) (empty_design_content\<lparr>content_tables := [?t]\<rparr>) = None"
    by code_simp
  from validated_design_resolved[OF this] show ?thesis by simp
qed

end
