(* ===== verification/Deletion_Impact.thy ===== *)
theory Deletion_Impact
  imports Design_Validation
begin

text \<open>
  Deletion consequences of desired-schema objects (\<open>schemii/designs/deletion_impact.py\<close>): the
  inventory of objects and dependents, the preflight tree shown before a deletion, and the check of
  a design transition.

  Parameters: \<open>analyze\<close> is \<open>analyze_query_definition(definition, relations, ...)\<close>, reduced to the
  sources and columns the code reads, with \<^const>\<open>None\<close> for a \<open>QueryDefinitionError\<close>; \<open>set_iter\<close> is
  the iteration order of a Python set of strings, which the language leaves open. A set is a list
  without duplicates.
\<close>

section \<open>Inventory\<close>

record inv_object =
  ob_object_id :: string
  ob_kind :: string
  ob_name :: string
  ob_consequence :: string
  ob_severity :: string
  ob_context :: "string option"
  ob_table_id :: "string option"
  ob_table_name :: "string option"

record inventory =
  inv_objects :: "(string, inv_object) dict"
  inv_dependents :: "(string, string list) dict"

definition inv_add :: "inv_object \<Rightarrow> inventory \<Rightarrow> inventory" where
  "inv_add item iv = iv\<lparr>
     inv_objects := AList.update (ob_object_id item) item (inv_objects iv),
     inv_dependents := setdefault (inv_dependents iv) (ob_object_id item) []\<rparr>"

definition inv_link :: "string \<Rightarrow> string \<Rightarrow> inventory \<Rightarrow> inventory" where
  "inv_link target_id dependent_id iv =
     (if target_id \<noteq> dependent_id then
        (let deps = dict_get (inv_dependents iv) target_id [] in
         iv\<lparr>inv_dependents := AList.update target_id
               (if dependent_id \<in> set deps then deps else deps @ [dependent_id]) (inv_dependents iv)\<rparr>)
      else iv)"

definition inv_links :: "string list \<Rightarrow> string \<Rightarrow> inventory \<Rightarrow> inventory" where
  "inv_links target_ids dependent_id iv = foldl (\<lambda>i t. inv_link t dependent_id i) iv target_ids"

definition dquote :: char where
  "dquote = char_of (34::nat)"

text \<open>\<open>value.rsplit(".", 1)[-1].strip().strip('"')\<close>\<close>

definition strip_char :: "char \<Rightarrow> string \<Rightarrow> string" where
  "strip_char c s = rev (dropWhile (\<lambda>d. d = c) (rev (dropWhile (\<lambda>d. d = c) s)))"

definition routine_name :: "string \<Rightarrow> string" where
  "routine_name value = strip_char dquote (strip (last (split_on CHR ''.'' value)))"

section \<open>Mentions of a type\<close>

text \<open>
  The pattern of the substitution is an opening quote, one or more units (a character other than a
  quote, or a doubled quote), a closing quote. \<open>quoted_units\<close> splits the text after an opening quote
  greedily into units; \<open>quoted_match\<close> then backs off, as the regular expression does, to the last
  place where a closing quote follows at least one unit.
\<close>

fun quoted_units :: "string \<Rightarrow> string list" where
  "quoted_units [] = []"
| "quoted_units [c] = (if c = dquote then [] else [[c]])"
| "quoted_units (c # d # s) =
     (if c \<noteq> dquote then [c] # quoted_units (d # s)
      else if d = dquote then [c, d] # quoted_units s
      else [])"

fun back_off :: "string list \<Rightarrow> string \<Rightarrow> (string list \<times> string) option" where
  "back_off [] rest = None"
| "back_off (u # units) rest =
     (case rest of
        [] \<Rightarrow> back_off units (u @ rest)
      | c # rest' \<Rightarrow> if c = dquote then Some (rev (u # units), rest') else back_off units (u @ rest))"

definition quoted_match :: "string \<Rightarrow> (string \<times> string) option" where
  "quoted_match s =
     (let units = quoted_units s in
      map_option (\<lambda>(us, rest). (concat (map (\<lambda>u. if u = [dquote, dquote] then [dquote] else u) us), rest))
        (back_off (rev units) (drop (length (concat units)) s)))"

lemma back_off_length:
  "back_off units rest = Some (us, rest') \<Longrightarrow> length rest' < length (concat units) + length rest"
  by (induction units rest rule: back_off.induct) (auto split: list.splits if_splits)

lemma quoted_units_prefix: "\<exists>r. s = concat (quoted_units s) @ r"
  by (induction s rule: quoted_units.induct) auto

lemma quoted_match_length:
  assumes "quoted_match s = Some (t, rest)"
  shows "length rest < length s"
proof -
  obtain r where r: "s = concat (quoted_units s) @ r" using quoted_units_prefix by blast
  have "length (concat (rev us)) = length (concat us)" for us :: "string list"
    by (induction us) auto
  moreover have "length s = length (concat (quoted_units s)) + length r"
    using arg_cong[OF r, of length] by simp
  ultimately show ?thesis
    using assms by (auto simp: quoted_match_def Let_def dest!: back_off_length)
qed

function unquote :: "string \<Rightarrow> string" where
  "unquote [] = []"
| "unquote (c # s) =
     (if c = dquote then
        (case quoted_match s of
           None \<Rightarrow> c # unquote s
         | Some (t, rest) \<Rightarrow> t @ unquote rest)
      else c # unquote s)"
  by pat_completeness auto
termination
  by (relation "measure length") (auto dest: quoted_match_length)

definition word_char :: "char \<Rightarrow> bool" where
  "word_char c = (let n = (of_char c :: nat) in
     (65 \<le> n \<and> n \<le> 90) \<or> (97 \<le> n \<and> n \<le> 122) \<or> (48 \<le> n \<and> n \<le> 57) \<or> c = CHR ''_'' \<or> c = CHR ''$'')"

text \<open>The name occurs, ignoring case, with no word character right before or after it.\<close>

definition occurs_as_word :: "string \<Rightarrow> string \<Rightarrow> bool" where
  "occurs_as_word name text =
     (\<exists>i\<in>set [0..<Suc (length text)].
        i + length name \<le> length text
        \<and> lower (take (length name) (drop i text)) = lower name
        \<and> (i = 0 \<or> \<not> word_char (text ! (i - 1)))
        \<and> (i + length name = length text \<or> \<not> word_char (text ! (i + length name))))"

definition mentions_type :: "string option \<Rightarrow> string \<Rightarrow> bool" where
  "mentions_type value type_name =
     (case value of None \<Rightarrow> False
      | Some v \<Rightarrow> if v = [] then False else occurs_as_word type_name (unquote v))"

section \<open>Building the inventory\<close>

definition middle_dot :: string where
  "middle_dot = [char_of (194::nat), char_of (183::nat)]"

definition right_arrow :: string where
  "right_arrow = [char_of (226::nat), char_of (134::nat), char_of (146::nat)]"

type_synonym query_relation = "string \<times> string \<times> string \<times> (string \<times> string) list"

definition query_relations :: "design_content \<Rightarrow> query_relation list" where
  "query_relations content =
     map (\<lambda>t. (''desired'', tbl_name t, ''table'',
                map (\<lambda>c. (col_name c, col_data_type c)) (tbl_columns t))) (content_tables content)
     @ map (\<lambda>v. (''desired'', view_name v, view_kind_text (view_kind v), [])) (content_views content)"

definition type_object :: "design_type \<Rightarrow> inv_object" where
  "type_object t = \<lparr>ob_object_id = ty_id t, ob_kind = ''type'', ob_name = ty_name t,
     ob_consequence = ''Applying this change removes the '' @ type_kind_text (ty_kind t) @ '' type contract.'',
     ob_severity = ''integrity'', ob_context = Some (type_kind_text (ty_kind t)),
     ob_table_id = None, ob_table_name = None\<rparr>"

definition table_object :: "design_table \<Rightarrow> inv_object" where
  "table_object t = \<lparr>ob_object_id = tbl_id t, ob_kind = ''table'', ob_name = tbl_name t,
     ob_consequence = ''Applying this change drops the table and permanently deletes data stored in its ''
       @ nat_str (length (tbl_columns t)) @ '' column(s).'',
     ob_severity = ''data_loss'', ob_context = Some (nat_str (length (tbl_columns t)) @ '' columns''),
     ob_table_id = Some (tbl_id t), ob_table_name = Some (tbl_name t)\<rparr>"

definition column_object :: "design_table \<Rightarrow> design_column \<Rightarrow> inv_object" where
  "column_object t c = \<lparr>ob_object_id = col_id c, ob_kind = ''column'', ob_name = col_name c,
     ob_consequence = ''Applying this change permanently deletes the data stored in ''
       @ tbl_name t @ ''.'' @ col_name c @ ''.'',
     ob_severity = ''data_loss'', ob_context = Some (tbl_name t),
     ob_table_id = Some (tbl_id t), ob_table_name = Some (tbl_name t)\<rparr>"

definition key_label :: "design_key \<Rightarrow> string" where
  "key_label k = (if key_kind k = PrimaryKey then ''Primary key'' else ''Unique key'')"

definition key_object :: "design_table \<Rightarrow> design_key \<Rightarrow> inv_object" where
  "key_object t k = \<lparr>ob_object_id = key_id k, ob_kind = ''key'', ob_name = key_name k,
     ob_consequence = ''Applying this change removes '' @ lower (key_label k) @ '' enforcement from ''
       @ tbl_name t @ ''.'',
     ob_severity = ''integrity'',
     ob_context = Some (tbl_name t @ '' '' @ middle_dot @ '' '' @ key_label k),
     ob_table_id = Some (tbl_id t), ob_table_name = Some (tbl_name t)\<rparr>"

definition check_object :: "design_table \<Rightarrow> design_check \<Rightarrow> inv_object" where
  "check_object t c = \<lparr>ob_object_id = chk_id c, ob_kind = ''check'', ob_name = chk_name c,
     ob_consequence = ''Applying this change stops PostgreSQL from enforcing this check on ''
       @ tbl_name t @ ''.'',
     ob_severity = ''integrity'', ob_context = Some (tbl_name t),
     ob_table_id = Some (tbl_id t), ob_table_name = Some (tbl_name t)\<rparr>"

definition index_object :: "design_table \<Rightarrow> design_index \<Rightarrow> inv_object" where
  "index_object t i = \<lparr>ob_object_id = idx_id i, ob_kind = ''index'', ob_name = idx_name i,
     ob_consequence =
       (if idx_unique i
        then ''Applying this change removes uniqueness enforcement and its access path from '' @ tbl_name t @ ''.''
        else ''Applying this change removes a query access path from '' @ tbl_name t
             @ ''; affected queries may become slower.''),
     ob_severity = (if idx_unique i then ''integrity'' else ''performance''), ob_context = Some (tbl_name t),
     ob_table_id = Some (tbl_id t), ob_table_name = Some (tbl_name t)\<rparr>"

definition add_table :: "inventory \<Rightarrow> design_table \<Rightarrow> inventory" where
  "add_table iv t =
     (let iv = inv_add (table_object t) iv;
          iv = foldl (\<lambda>iv c.
                  let iv = inv_add (column_object t c) iv
                  in if length (tbl_columns t) = 1 then inv_link (col_id c) (tbl_id t) iv else iv)
                iv (tbl_columns t);
          iv = foldl (\<lambda>iv k.
                  inv_links (key_column_ids k) (key_id k)
                    (inv_link (tbl_id t) (key_id k) (inv_add (key_object t k) iv)))
                iv (tbl_keys t);
          iv = foldl (\<lambda>iv c.
                  inv_links (chk_column_ids c) (chk_id c)
                    (inv_link (tbl_id t) (chk_id c) (inv_add (check_object t c) iv)))
                iv (tbl_checks t);
          iv = foldl (\<lambda>iv i.
                  inv_links (dedupe (idx_column_ids i @ idx_include_column_ids i
                      @ idx_expression_source_column_ids i @ idx_predicate_column_ids i)) (idx_id i)
                    (inv_link (tbl_id t) (idx_id i) (inv_add (index_object t i) iv)))
                iv (tbl_indexes t)
      in foldl (\<lambda>iv c. inv_links (col_generated_source_column_ids c) (col_id c) iv) iv (tbl_columns t))"

definition add_relationship ::
  "(string, design_table) dict \<Rightarrow> inventory \<Rightarrow> design_relationship \<Rightarrow> inventory" where
  "add_relationship tables_by_id iv r =
     (let src = the (map_of tables_by_id (rel_source_table_id r));
          target = the (map_of tables_by_id (rel_target_table_id r));
          iv = inv_add \<lparr>ob_object_id = rel_id r, ob_kind = ''relationship'', ob_name = rel_name r,
              ob_consequence = ''Applying this change stops PostgreSQL from enforcing the reference from ''
                @ tbl_name src @ '' to '' @ tbl_name target @ ''.'',
              ob_severity = ''integrity'',
              ob_context = Some (tbl_name src @ '' '' @ right_arrow @ '' '' @ tbl_name target),
              ob_table_id = Some (tbl_id src), ob_table_name = Some (tbl_name src)\<rparr> iv;
          iv = inv_link (tbl_id src) (rel_id r) iv;
          iv = inv_links (rel_source_column_ids r) (rel_id r) iv;
          iv = inv_links (rel_target_column_ids r) (rel_id r) iv
      in inv_link (case List.find (\<lambda>k. key_column_ids k = rel_target_column_ids r) (tbl_keys target) of
                     Some k \<Rightarrow> key_id k | None \<Rightarrow> tbl_id target) (rel_id r) iv)"

definition add_routine :: "inventory \<Rightarrow> design_function \<Rightarrow> inventory" where
  "add_routine iv f = inv_add \<lparr>ob_object_id = fn_id f, ob_kind = ''routine'', ob_name = routine_signature f,
     ob_consequence = ''Applying this change removes the callable '' @ routine_kind_text (fn_kind f) @ '' interface.'',
     ob_severity = ''behavior'', ob_context = Some (fn_language f), ob_table_id = None, ob_table_name = None\<rparr> iv"

definition add_view :: "inventory \<Rightarrow> design_view \<Rightarrow> inventory" where
  "add_view iv v = (let materialized = (view_kind v = MaterializedView) in
     inv_add \<lparr>ob_object_id = view_id v, ob_kind = ''view'', ob_name = view_name v,
     ob_consequence =
       (if materialized
        then ''Applying this change drops the materialized view and permanently deletes its stored result data.''
        else ''Applying this change removes the view interface from PostgreSQL.''),
     ob_severity = (if materialized then ''data_loss'' else ''behavior''),
     ob_context = Some (if materialized then ''Materialized view'' else ''View''),
     ob_table_id = None, ob_table_name = None\<rparr> iv)"

text \<open>\<open>relations_by_name\<close> and \<open>relation_ids\<close>: views override tables of the same name.\<close>

definition relation_ids :: "design_content \<Rightarrow> (string, string) dict" where
  "relation_ids content =
     foldl (\<lambda>d v. AList.update (view_name v) (view_id v) d)
       (foldl (\<lambda>d t. AList.update (tbl_name t) (tbl_id t) d) [] (content_tables content))
       (content_views content)"

definition add_trigger :: "design_content \<Rightarrow> inventory \<Rightarrow> design_trigger \<Rightarrow> inventory" where
  "add_trigger content iv g =
     (let target_id = (case map_of (relation_ids content) (trg_relation_name g) of
                         Some i \<Rightarrow> if i = [] then None else Some i | None \<Rightarrow> None);
          target = (case target_id of None \<Rightarrow> None
                    | Some i \<Rightarrow> map_of (dict_by tbl_id (content_tables content)) i);
          iv = inv_add \<lparr>ob_object_id = trg_id g, ob_kind = ''trigger'', ob_name = trg_name g,
              ob_consequence = ''Applying this change stops the automatic behavior on ''
                @ trg_relation_name g @ ''.'',
              ob_severity = ''behavior'', ob_context = Some (trg_relation_name g),
              ob_table_id = map_option tbl_id target, ob_table_name = map_option tbl_name target\<rparr> iv;
          iv = (case target_id of None \<Rightarrow> iv | Some i \<Rightarrow> inv_link i (trg_id g) iv);
          iv = (case List.find (\<lambda>f. fn_name f = routine_name (trg_function_name g)) (content_functions content) of
                   None \<Rightarrow> iv | Some f \<Rightarrow> inv_link (fn_id f) (trg_id g) iv)
      in case target of
           None \<Rightarrow> iv
         | Some t \<Rightarrow> inv_links
             (dedupe (map col_id (filter (\<lambda>c. col_name c \<in> set (trg_update_columns g @ trg_referenced_columns g))
                (tbl_columns t)))) (trg_id g) iv)"

definition column_ids_by_name :: "design_content \<Rightarrow> ((string \<times> string), string) dict" where
  "column_ids_by_name content =
     foldl (\<lambda>d t. foldl (\<lambda>d c. AList.update (tbl_name t, col_name c) (col_id c) d) d (tbl_columns t))
       [] (content_tables content)"

type_synonym query_sources = "(string \<times> string list) list"

definition link_source ::
  "design_content \<Rightarrow> design_view \<Rightarrow> inventory \<Rightarrow> (string \<times> string list) \<Rightarrow> inventory" where
  "link_source content v iv source =
     (let iv = (case map_of (relation_ids content) (fst source) of
                   Some i \<Rightarrow> if i \<noteq> [] then inv_link i (view_id v) iv else iv | None \<Rightarrow> iv)
      in foldl (\<lambda>iv column.
           case map_of (column_ids_by_name content) (fst source, column) of
             Some i \<Rightarrow> if i \<noteq> [] then inv_link i (view_id v) iv else iv | None \<Rightarrow> iv)
         iv (snd source))"

definition link_view ::
  "(string \<Rightarrow> query_relation list \<Rightarrow> query_sources option) \<Rightarrow> design_content \<Rightarrow> inventory \<Rightarrow> design_view \<Rightarrow> inventory" where
  "link_view analyze content iv v =
     (case analyze (view_definition v) (query_relations content) of
        None \<Rightarrow> iv
      | Some sources \<Rightarrow> foldl (link_source content v) iv sources)"

definition link_type :: "design_content \<Rightarrow> inventory \<Rightarrow> design_type \<Rightarrow> inventory" where
  "link_type content iv ty =
     (let iv = foldl (\<lambda>iv t. foldl (\<lambda>iv c.
                  if mentions_type (Some (col_data_type c)) (ty_name ty) then inv_link (ty_id ty) (col_id c) iv else iv)
                  iv (tbl_columns t)) iv (content_tables content);
          iv = foldl (\<lambda>iv d.
                  if ty_id d \<noteq> ty_id ty \<and> mentions_type (ty_base_type d) (ty_name ty)
                  then inv_link (ty_id ty) (ty_id d) iv else iv) iv (content_types content)
      in foldl (\<lambda>iv f.
           if mentions_type (Some (fn_arguments f)) (ty_name ty) \<or> mentions_type (fn_return_type f) (ty_name ty)
           then inv_link (ty_id ty) (fn_id f) iv else iv) iv (content_functions content))"

definition build_inventory ::
  "(string \<Rightarrow> query_relation list \<Rightarrow> query_sources option) \<Rightarrow> design_content \<Rightarrow> inventory" where
  "build_inventory analyze content =
     (let iv = \<lparr>inv_objects = [], inv_dependents = []\<rparr>;
          iv = foldl (\<lambda>iv t. inv_add (type_object t) iv) iv (content_types content);
          iv = foldl add_table iv (content_tables content);
          iv = foldl (add_relationship (dict_by tbl_id (content_tables content))) iv (content_relationships content);
          iv = foldl add_routine iv (content_functions content);
          iv = foldl add_view iv (content_views content);
          iv = foldl (add_trigger content) iv (content_triggers content);
          iv = foldl (link_view analyze content) iv (content_views content)
      in foldl (link_type content) iv (content_types content))"

text \<open>A relationship to a missing table is a \<open>KeyError\<close>; nothing else in \<open>_inventory\<close> fails.\<close>

definition inventory_of ::
  "(string \<Rightarrow> query_relation list \<Rightarrow> query_sources option) \<Rightarrow> design_content \<Rightarrow> (design_error, inventory) result" where
  "inventory_of analyze content =
     (if \<forall>r\<in>set (content_relationships content).
           rel_source_table_id r \<in> tbl_id ` set (content_tables content)
           \<and> rel_target_table_id r \<in> tbl_id ` set (content_tables content)
      then Inr (build_inventory analyze content)
      else Inl (PythonError ''KeyError''))"

section \<open>Preflight and transition check\<close>

datatype impact_node = ImpactNode inv_object "impact_node list"

definition dependents_of :: "inventory \<Rightarrow> string \<Rightarrow> string list" where
  "dependents_of iv object_id = dict_get (inv_dependents iv) object_id []"

definition object_of :: "inventory \<Rightarrow> string \<Rightarrow> inv_object" where
  "object_of iv object_id = the (map_of (inv_objects iv) object_id)"

text \<open>The first argument is the depth that is left, 32 at the start.\<close>

fun impact_tree ::
  "nat \<Rightarrow> (string list \<Rightarrow> string list) \<Rightarrow> inventory \<Rightarrow> string \<Rightarrow> string list \<Rightarrow> impact_node" where
  "impact_tree 0 set_iter iv object_id trail = ImpactNode (object_of iv object_id) []"
| "impact_tree (Suc depth) set_iter iv object_id trail =
     ImpactNode (object_of iv object_id)
       (map (\<lambda>d. impact_tree depth set_iter iv d (object_id # trail))
         (sort_key (\<lambda>d. (ob_kind (object_of iv d), casefold (ob_name (object_of iv d))))
           (set_iter (filter (\<lambda>d. d \<notin> set (object_id # trail)) (dependents_of iv object_id)))))"

fun impact_children :: "impact_node \<Rightarrow> impact_node list" where
  "impact_children (ImpactNode item children) = children"

fun impact_object :: "impact_node \<Rightarrow> inv_object" where
  "impact_object (ImpactNode item children) = item"

record deletion_impact =
  di_design_revision :: nat
  di_target :: impact_node
  di_blocked :: bool
  di_dependents :: "impact_node list"

datatype impact_error = DesignObjectNotFoundError string | ImpactFailure design_error

definition design_deletion_impact ::
  "(string list \<Rightarrow> string list) \<Rightarrow> (string \<Rightarrow> query_relation list \<Rightarrow> query_sources option)
   \<Rightarrow> design_content \<Rightarrow> nat \<Rightarrow> string \<Rightarrow> (impact_error, deletion_impact) result" where
  "design_deletion_impact set_iter analyze content design_revision object_id =
     (case inventory_of analyze content of
        Inl e \<Rightarrow> Inl (ImpactFailure e)
      | Inr iv \<Rightarrow>
          if map_of (inv_objects iv) object_id = None then Inl (DesignObjectNotFoundError object_id)
          else (let target = impact_tree 32 set_iter iv object_id []
                in Inr \<lparr>di_design_revision = design_revision,
                        di_target = ImpactNode (impact_object target) [],
                        di_blocked = (impact_children target \<noteq> []),
                        di_dependents = impact_children target\<rparr>))"

definition left_quote :: string where
  "left_quote = [char_of (226::nat), char_of (128::nat), char_of (156::nat)]"

definition right_quote :: string where
  "right_quote = [char_of (226::nat), char_of (128::nat), char_of (157::nat)]"

definition transition_blockers :: "inventory \<Rightarrow> inventory \<Rightarrow> string \<Rightarrow> string list" where
  "transition_blockers old new object_id =
     filter (\<lambda>d. d \<in> fst ` set (inv_objects new)) (dependents_of old object_id)"

definition transition_message ::
  "(string list \<Rightarrow> string list) \<Rightarrow> inventory \<Rightarrow> string \<Rightarrow> string list \<Rightarrow> string" where
  "transition_message set_iter old object_id blockers =
     (let target = object_of old object_id;
          quoted = (\<lambda>o'. ob_kind o' @ '' '' @ left_quote @ ob_name o' @ right_quote);
          names = join '', '' (map (\<lambda>d. quoted (object_of old d))
                    (sort_key (\<lambda>d. casefold (ob_name (object_of old d))) (set_iter blockers)))
      in ''Delete or update '' @ names @ '' before deleting '' @ quoted target @ ''.'')"

text \<open>\<^const>\<open>Some\<close> is the message of the \<open>ValueError\<close>.\<close>

definition check_transition ::
  "(string list \<Rightarrow> string list) \<Rightarrow> inventory \<Rightarrow> inventory \<Rightarrow> string option" where
  "check_transition set_iter old new =
     (let removed = sorted_set (filter (\<lambda>i. i \<notin> fst ` set (inv_objects new)) (dict_keys (inv_objects old)))
      in first_error (map (\<lambda>object_id.
           let blockers = transition_blockers old new object_id
           in raise_if (blockers \<noteq> []) (transition_message set_iter old object_id blockers)) removed))"

definition validate_design_transition ::
  "(string list \<Rightarrow> string list) \<Rightarrow> (string \<Rightarrow> query_relation list \<Rightarrow> query_sources option)
   \<Rightarrow> design_content \<Rightarrow> design_content \<Rightarrow> (design_error, string option) result" where
  "validate_design_transition set_iter analyze before after =
     result_bind (inventory_of analyze before) (\<lambda>old.
       result_bind (inventory_of analyze after) (\<lambda>new. Inr (check_transition set_iter old new)))"

section \<open>The inventory is closed\<close>

text \<open>
  \<open>good S iv\<close>: every dependent recorded in \<open>iv\<close> is an object other than the one it depends on, and
  the ids in \<open>S\<close> are objects. The loops of \<open>_inventory\<close> only ever extend \<open>S\<close>.
\<close>

definition inv_closed :: "inventory \<Rightarrow> bool" where
  "inv_closed iv = (\<forall>t d. d \<in> set (dependents_of iv t) \<longrightarrow> map_of (inv_objects iv) d \<noteq> None \<and> d \<noteq> t)"

definition good :: "string set \<Rightarrow> inventory \<Rightarrow> bool" where
  "good S iv = (inv_closed iv \<and> (\<forall>d\<in>S. map_of (inv_objects iv) d \<noteq> None))"

named_theorems good_intros \<open>preservation of the inventory invariant\<close>

lemma good_mono: "good S iv \<Longrightarrow> T \<subseteq> S \<Longrightarrow> good T iv"
  by (auto simp: good_def)

lemma good_add: "good S iv \<Longrightarrow> good (insert (ob_object_id item) S) (inv_add item iv)"
  by (auto simp: good_def inv_closed_def inv_add_def dependents_of_def dict_get_def split: option.splits if_splits)

lemma good_add_eq [good_intros]: "ob_object_id item = i \<Longrightarrow> good S iv \<Longrightarrow> good (insert i S) (inv_add item iv)"
  using good_add by blast

lemma object_ids [simp]:
  "ob_object_id (type_object ty) = ty_id ty" "ob_object_id (table_object t) = tbl_id t"
  "ob_object_id (column_object t c) = col_id c" "ob_object_id (key_object t k) = key_id k"
  "ob_object_id (check_object t h) = chk_id h" "ob_object_id (index_object t i) = idx_id i"
  by (simp_all add: type_object_def table_object_def column_object_def key_object_def
      check_object_def index_object_def)

lemma good_link [good_intros]: "d \<in> S \<Longrightarrow> good S iv \<Longrightarrow> good S (inv_link t d iv)"
  by (auto simp: good_def inv_closed_def inv_link_def dependents_of_def dict_get_def Let_def
      split: option.splits if_splits)

lemma good_foldl:
  assumes "\<And>x iv. x \<in> set xs \<Longrightarrow> good S iv \<Longrightarrow> good S (f iv x)" "good S iv"
  shows "good S (foldl f iv xs)"
  using assms by (induction xs arbitrary: iv) auto

lemma good_foldl_add:
  assumes "\<And>x S iv. x \<in> set xs \<Longrightarrow> S0 \<subseteq> S \<Longrightarrow> good S iv \<Longrightarrow> good (S \<union> g x) (f iv x)" "good S0 iv"
  shows "good (S0 \<union> \<Union> (g ` set xs)) (foldl f iv xs)"
proof -
  have "good (S \<union> \<Union> (g ` set ys)) (foldl f iv' ys)"
    if "set ys \<subseteq> set xs" "S0 \<subseteq> S" "good S iv'" for ys S iv'
    using that
  proof (induction ys arbitrary: S iv')
    case (Cons y ys)
    from Cons.prems have "good (S \<union> g y) (f iv' y)" by (intro assms(1)) auto
    with Cons.IH[of "S \<union> g y" "f iv' y"] Cons.prems show ?case by (simp add: Un_assoc le_supI1)
  qed simp
  from this[of xs S0 iv] assms(2) show ?thesis by simp
qed

lemma good_links [good_intros]: "d \<in> S \<Longrightarrow> good S iv \<Longrightarrow> good S (inv_links ts d iv)"
  unfolding inv_links_def by (rule good_foldl) (auto intro: good_link)

lemma good_add_table:
  assumes "good S iv"
  shows "good (S \<union> set (table_object_ids t)) (add_table iv t)"
proof -
  define i0 where "i0 = inv_add (table_object t) iv"
  define i1 where "i1 = foldl (\<lambda>iv c. let iv = inv_add (column_object t c) iv
      in if length (tbl_columns t) = 1 then inv_link (col_id c) (tbl_id t) iv else iv) i0 (tbl_columns t)"
  define i2 where "i2 = foldl (\<lambda>iv k. inv_links (key_column_ids k) (key_id k)
      (inv_link (tbl_id t) (key_id k) (inv_add (key_object t k) iv))) i1 (tbl_keys t)"
  define i3 where "i3 = foldl (\<lambda>iv c. inv_links (chk_column_ids c) (chk_id c)
      (inv_link (tbl_id t) (chk_id c) (inv_add (check_object t c) iv))) i2 (tbl_checks t)"
  define i4 where "i4 = foldl (\<lambda>iv i. inv_links (dedupe (idx_column_ids i @ idx_include_column_ids i
      @ idx_expression_source_column_ids i @ idx_predicate_column_ids i)) (idx_id i)
      (inv_link (tbl_id t) (idx_id i) (inv_add (index_object t i) iv))) i3 (tbl_indexes t)"
  have out: "add_table iv t =
      foldl (\<lambda>iv c. inv_links (col_generated_source_column_ids c) (col_id c) iv) i4 (tbl_columns t)"
    by (simp add: add_table_def i0_def i1_def i2_def i3_def i4_def Let_def)
  let ?S0 = "insert (tbl_id t) S"
  have "good ?S0 i0" using assms by (auto simp: i0_def intro!: good_intros)
  then have "good (?S0 \<union> \<Union> ((\<lambda>c. {col_id c}) ` set (tbl_columns t))) i1"
    unfolding i1_def
    by (intro good_foldl_add) (auto simp: Let_def intro!: good_intros)
  then have "good (?S0 \<union> \<Union> ((\<lambda>c. {col_id c}) ` set (tbl_columns t)) \<union> \<Union> ((\<lambda>k. {key_id k}) ` set (tbl_keys t))) i2"
    unfolding i2_def
    by (intro good_foldl_add) (auto intro!: good_intros)
  then have "good (?S0 \<union> \<Union> ((\<lambda>c. {col_id c}) ` set (tbl_columns t)) \<union> \<Union> ((\<lambda>k. {key_id k}) ` set (tbl_keys t))
      \<union> \<Union> ((\<lambda>k. {chk_id k}) ` set (tbl_checks t))) i3"
    unfolding i3_def
    by (intro good_foldl_add) (auto intro!: good_intros)
  then have "good (?S0 \<union> \<Union> ((\<lambda>c. {col_id c}) ` set (tbl_columns t)) \<union> \<Union> ((\<lambda>k. {key_id k}) ` set (tbl_keys t))
      \<union> \<Union> ((\<lambda>k. {chk_id k}) ` set (tbl_checks t)) \<union> \<Union> ((\<lambda>k. {idx_id k}) ` set (tbl_indexes t))) i4"
    unfolding i4_def
    by (intro good_foldl_add) (auto intro!: good_intros)
  then have "good (S \<union> set (table_object_ids t)) i4"
    by (rule good_mono) (auto simp: table_object_ids_def)
  then show ?thesis
    unfolding out by (rule good_foldl[rotated]) (auto simp: table_object_ids_def intro!: good_intros)
qed


definition content_object_ids :: "design_content \<Rightarrow> string set" where
  "content_object_ids content = set (all_object_ids content)"

lemma good_build_inventory: "good (content_object_ids content) (build_inventory analyze content)"
proof -
  let ?c = content and ?tb = "dict_by tbl_id (content_tables content)"
  define i1 where "i1 = foldl (\<lambda>iv t. inv_add (type_object t) iv)
      \<lparr>inv_objects = [], inv_dependents = []\<rparr> (content_types ?c)"
  define i2 where "i2 = foldl add_table i1 (content_tables ?c)"
  define i3 where "i3 = foldl (add_relationship ?tb) i2 (content_relationships ?c)"
  define i4 where "i4 = foldl add_routine i3 (content_functions ?c)"
  define i5 where "i5 = foldl add_view i4 (content_views ?c)"
  define i6 where "i6 = foldl (add_trigger ?c) i5 (content_triggers ?c)"
  define i7 where "i7 = foldl (link_view analyze ?c) i6 (content_views ?c)"
  have out: "build_inventory analyze ?c = foldl (link_type ?c) i7 (content_types ?c)"
    by (simp add: build_inventory_def i1_def i2_def i3_def i4_def i5_def i6_def i7_def Let_def)
  have "good {} \<lparr>inv_objects = [], inv_dependents = []\<rparr>"
    by (simp add: good_def inv_closed_def dependents_of_def dict_get_def)
  then have "good ({} \<union> \<Union> ((\<lambda>t. {ty_id t}) ` set (content_types ?c))) i1"
    unfolding i1_def by (intro good_foldl_add) (auto intro!: good_intros)
  then have "good ({} \<union> \<Union> ((\<lambda>t. {ty_id t}) ` set (content_types ?c))
      \<union> \<Union> ((\<lambda>t. set (table_object_ids t)) ` set (content_tables ?c))) i2"
    unfolding i2_def by (intro good_foldl_add good_add_table)
  then have "good ({} \<union> \<Union> ((\<lambda>t. {ty_id t}) ` set (content_types ?c))
      \<union> \<Union> ((\<lambda>t. set (table_object_ids t)) ` set (content_tables ?c))
      \<union> \<Union> ((\<lambda>r. {rel_id r}) ` set (content_relationships ?c))) i3"
    unfolding i3_def by (intro good_foldl_add) (auto simp: add_relationship_def Let_def intro!: good_intros)
  then have "good ({} \<union> \<Union> ((\<lambda>t. {ty_id t}) ` set (content_types ?c))
      \<union> \<Union> ((\<lambda>t. set (table_object_ids t)) ` set (content_tables ?c))
      \<union> \<Union> ((\<lambda>r. {rel_id r}) ` set (content_relationships ?c))
      \<union> \<Union> ((\<lambda>f. {fn_id f}) ` set (content_functions ?c))) i4"
    unfolding i4_def by (intro good_foldl_add) (auto simp: add_routine_def intro!: good_intros)
  then have "good ({} \<union> \<Union> ((\<lambda>t. {ty_id t}) ` set (content_types ?c))
      \<union> \<Union> ((\<lambda>t. set (table_object_ids t)) ` set (content_tables ?c))
      \<union> \<Union> ((\<lambda>r. {rel_id r}) ` set (content_relationships ?c))
      \<union> \<Union> ((\<lambda>f. {fn_id f}) ` set (content_functions ?c))
      \<union> \<Union> ((\<lambda>v. {view_id v}) ` set (content_views ?c))) i5"
    unfolding i5_def by (intro good_foldl_add) (auto simp: add_view_def Let_def intro!: good_intros)
  then have "good ({} \<union> \<Union> ((\<lambda>t. {ty_id t}) ` set (content_types ?c))
      \<union> \<Union> ((\<lambda>t. set (table_object_ids t)) ` set (content_tables ?c))
      \<union> \<Union> ((\<lambda>r. {rel_id r}) ` set (content_relationships ?c))
      \<union> \<Union> ((\<lambda>f. {fn_id f}) ` set (content_functions ?c))
      \<union> \<Union> ((\<lambda>v. {view_id v}) ` set (content_views ?c))
      \<union> \<Union> ((\<lambda>g. {trg_id g}) ` set (content_triggers ?c))) i6"
    unfolding i6_def
    by (intro good_foldl_add) (auto simp: add_trigger_def Let_def intro!: good_intros split: option.splits)
  then have i6: "good (content_object_ids ?c) i6"
    by (rule good_mono) (auto simp: content_object_ids_def all_object_ids_def)
  have "good (content_object_ids ?c) i7"
    unfolding i7_def
  proof (rule good_foldl[OF _ i6])
    fix v iv assume v: "v \<in> set (content_views ?c)" "good (content_object_ids ?c) iv"
    then have id: "view_id v \<in> content_object_ids ?c" by (auto simp: content_object_ids_def all_object_ids_def)
    show "good (content_object_ids ?c) (link_view analyze ?c iv v)"
      unfolding link_view_def link_source_def Let_def using id v(2)
      by (auto intro!: good_foldl good_intros split: option.splits)
  qed
  then show ?thesis
    unfolding out
  proof (rule good_foldl[rotated])
    fix ty iv assume "good (content_object_ids ?c) iv"
    moreover have "col_id c \<in> content_object_ids ?c" if "t \<in> set (content_tables ?c)" "c \<in> set (tbl_columns t)" for t c
      using that by (auto simp: content_object_ids_def all_object_ids_def table_object_ids_def)
    moreover have "ty_id d \<in> content_object_ids ?c" if "d \<in> set (content_types ?c)" for d
      using that by (auto simp: content_object_ids_def all_object_ids_def)
    moreover have "fn_id f \<in> content_object_ids ?c" if "f \<in> set (content_functions ?c)" for f
      using that by (auto simp: content_object_ids_def all_object_ids_def)
    ultimately show "good (content_object_ids ?c) (link_type ?c iv ty)"
      unfolding link_type_def Let_def by (auto intro!: good_foldl good_intros)
  qed
qed

lemma inventory_closed: "inventory_of analyze content = Inr iv \<Longrightarrow> inv_closed iv"
  using good_build_inventory[of content analyze] by (auto simp: inventory_of_def good_def split: if_splits)

section \<open>What the checks guarantee\<close>

definition dependency_rel :: "inventory \<Rightarrow> (string \<times> string) set" where
  "dependency_rel iv = {(t, d). d \<in> set (dependents_of iv t)}"

lemma transition_None:
  "check_transition set_iter old new = None \<longleftrightarrow>
     (\<forall>i d. map_of (inv_objects old) i \<noteq> None \<and> map_of (inv_objects new) i = None
        \<and> (i, d) \<in> dependency_rel old \<longrightarrow> map_of (inv_objects new) d = None)"
  by (simp add: check_transition_def transition_blockers_def dependency_rel_def dict_keys_def Let_def
      map_of_eq_None_iff filter_empty_conv) blast

lemma validate_transition_Inr:
  "validate_design_transition set_iter analyze before after = Inr r \<longleftrightarrow>
     (\<exists>old new. inventory_of analyze before = Inr old \<and> inventory_of analyze after = Inr new
        \<and> check_transition set_iter old new = r)"
  by (auto simp: validate_design_transition_def result_simps)

text \<open>
  C29. An accepted transition removes whole dependency cones: if an object of the old design is gone
  from the new one, then so is everything that depended on it, directly or through other objects.
\<close>

theorem accepted_transition_closed:
  assumes "validate_design_transition set_iter analyze before after = Inr None"
    and "inventory_of analyze before = Inr old" "inventory_of analyze after = Inr new"
    and "map_of (inv_objects old) removed \<noteq> None" "map_of (inv_objects new) removed = None"
    and "(removed, dep_id) \<in> (dependency_rel old)\<^sup>+"
  shows "map_of (inv_objects old) dep_id \<noteq> None \<and> map_of (inv_objects new) dep_id = None"
proof -
  have check: "check_transition set_iter old new = None"
    using assms(1-3) by (auto simp: validate_transition_Inr)
  from assms(6) show ?thesis
  proof (induction rule: trancl_induct)
    case (base d)
    then show ?case using check assms(4,5) inventory_closed[OF assms(2)]
      by (auto simp: transition_None inv_closed_def dependency_rel_def)
  next
    case (step d e)
    then show ?case using check inventory_closed[OF assms(2)]
      by (auto simp: transition_None inv_closed_def dependency_rel_def)
  qed
qed

text \<open>
  C34. The preflight agrees with the check that is enforced on save: for a change that removes exactly
  one object, saving is accepted if and only if the preflight of that object reports no dependents.
\<close>

theorem preflight_agrees_with_transition:
  assumes "inventory_of analyze before = Inr old" "inventory_of analyze after = Inr new"
    and "dom (map_of (inv_objects old)) - dom (map_of (inv_objects new)) = {object_id}"
    and "\<And>xs. set (set_iter xs) = set xs"
  shows "\<exists>impact. design_deletion_impact set_iter analyze before revision object_id = Inr impact
    \<and> (validate_design_transition set_iter analyze before after = Inr None \<longleftrightarrow> \<not> di_blocked impact)"
proof -
  have present: "map_of (inv_objects old) object_id \<noteq> None" and gone: "map_of (inv_objects new) object_id = None"
    using assms(3) by auto
  have closed: "map_of (inv_objects old) d \<noteq> None \<and> d \<noteq> t" if "d \<in> set (dependents_of old t)" for d t
    using inventory_closed[OF assms(1)] that by (auto simp: inv_closed_def)
  have survives: "map_of (inv_objects new) d \<noteq> None" if "d \<in> set (dependents_of old object_id)" for d
    using closed[OF that] assms(3) by auto
  have "check_transition set_iter old new = None \<longleftrightarrow> dependents_of old object_id = []"
  proof
    assume c: "check_transition set_iter old new = None"
    have "d \<notin> set (dependents_of old object_id)" for d
      using survives[of d] gone present c[unfolded transition_None] by (auto simp: dependency_rel_def)
    then show "dependents_of old object_id = []" by (metis list.set_intros(1) neq_Nil_conv)
  next
    assume none: "dependents_of old object_id = []"
    have "i = object_id" if "map_of (inv_objects old) i \<noteq> None" "map_of (inv_objects new) i = None" for i
      using that assms(3) by auto
    with none show "check_transition set_iter old new = None"
      unfolding transition_None dependency_rel_def by fastforce
  qed
  moreover have "impact_children (impact_tree 32 set_iter old object_id []) = [] \<longleftrightarrow> dependents_of old object_id = []"
  proof -
    have ne: "set_iter xs = [] \<longleftrightarrow> xs = []" for xs using assms(4)[of xs] by (metis set_empty)
    have "filter (\<lambda>d. d \<noteq> object_id) (dependents_of old object_id) = dependents_of old object_id"
      using closed[of _ object_id] by (simp add: filter_id_conv)
    moreover have "sort_key f xs = [] \<longleftrightarrow> xs = []" for f :: "string \<Rightarrow> string \<times> string" and xs
      by (metis length_0_conv length_sort)
    moreover have "(32 :: nat) = Suc 31" by simp
    ultimately show ?thesis by (simp only: impact_tree.simps impact_children.simps) (simp add: ne)
  qed
  ultimately show ?thesis
    using assms(1,2) present by (auto simp: design_deletion_impact_def validate_transition_Inr Let_def)
qed


text \<open>A design with one table, one column and a primary key, and the same design without the key.\<close>

definition sample_table :: design_table where
  "sample_table = \<lparr>tbl_id = ''t'', tbl_name = ''a'',
     tbl_columns = [\<lparr>col_id = ''c'', col_name = ''x'', col_data_type = ''integer'', col_nullable = False,
        col_default_expression = None, col_identity = None, col_generated_expression = None,
        col_generated_source_column_ids = []\<rparr>],
     tbl_keys = [\<lparr>key_id = ''k'', key_name = ''pk'', key_kind = PrimaryKey, key_column_ids = [''c'']\<rparr>],
     tbl_checks = [], tbl_indexes = []\<rparr>"

definition sample_content :: design_content where
  "sample_content = empty_design_content\<lparr>content_tables := [sample_table]\<rparr>"

theorem accepted_transition_closed_witness:
  "map_of (inv_objects (build_inventory (\<lambda>_ _. None) sample_content)) ''t'' \<noteq> None
   \<and> map_of (inv_objects (build_inventory (\<lambda>_ _. None) empty_design_content)) ''t'' = None"
proof (rule accepted_transition_closed[where removed = "''c''" and set_iter = "\<lambda>xs. xs"])
  show "validate_design_transition (\<lambda>xs. xs) (\<lambda>_ _. None) sample_content empty_design_content = Inr None"
    by code_simp
  show "(''c'', ''t'') \<in> (dependency_rel (build_inventory (\<lambda>_ _. None) sample_content))\<^sup>+"
    by (rule r_into_trancl) (simp add: dependency_rel_def, code_simp)
qed (code_simp+)

theorem preflight_agrees_with_transition_witness:
  "\<exists>impact. design_deletion_impact (\<lambda>xs. xs) (\<lambda>_ _. None) sample_content 1 ''k'' = Inr impact
    \<and> (validate_design_transition (\<lambda>xs. xs) (\<lambda>_ _. None) sample_content
         (empty_design_content\<lparr>content_tables := [sample_table\<lparr>tbl_keys := []\<rparr>]\<rparr>) = Inr None
       \<longleftrightarrow> \<not> di_blocked impact)"
proof (rule preflight_agrees_with_transition)
  show "inventory_of (\<lambda>_ _. None) sample_content = Inr (build_inventory (\<lambda>_ _. None) sample_content)"
    by (simp add: inventory_of_def sample_content_def empty_design_content_def)
  show "inventory_of (\<lambda>_ _. None) (empty_design_content\<lparr>content_tables := [sample_table\<lparr>tbl_keys := []\<rparr>]\<rparr>)
      = Inr (build_inventory (\<lambda>_ _. None) (empty_design_content\<lparr>content_tables := [sample_table\<lparr>tbl_keys := []\<rparr>]\<rparr>))"
    by (simp add: inventory_of_def empty_design_content_def)
  have "map fst (inv_objects (build_inventory (\<lambda>_ _. None) sample_content)) = [''t'', ''c'', ''k'']"
    by code_simp
  moreover have "map fst (inv_objects (build_inventory (\<lambda>_ _. None)
      (empty_design_content\<lparr>content_tables := [sample_table\<lparr>tbl_keys := []\<rparr>]\<rparr>))) = [''t'', ''c'']"
    by code_simp
  ultimately show "dom (map_of (inv_objects (build_inventory (\<lambda>_ _. None) sample_content)))
      - dom (map_of (inv_objects (build_inventory (\<lambda>_ _. None)
          (empty_design_content\<lparr>content_tables := [sample_table\<lparr>tbl_keys := []\<rparr>]\<rparr>)))) = {''k''}"
    by (simp add: dom_map_of_conv_image_fst flip: set_map)
qed simp

end
