(* ===== verification/Design_History.thy ===== *)
theory Design_History
  imports Design_Validation
begin

text \<open>
  Semantic summaries of design changes (\<open>schemii/designs/history.py\<close>). Objects are compared by
  Python's \<open>==\<close> on their JSON documents (\<^const>\<open>py_eq\<close>). As in the deletion preflight, \<open>set_iter\<close> is
  the iteration order of a set of ids, which decides between objects of the same kind and name.
\<close>

section \<open>Definitions\<close>

record history_object =
  ho_kind :: string
  ho_name :: string
  ho_value :: json

datatype change_operation = Added | Removed | Changed | Renamed

record change_item =
  ci_operation :: change_operation
  ci_kind :: string
  ci_name :: string
  ci_previous_name :: "string option"

record change_summary =
  cs_title :: string
  cs_change_count :: nat
  cs_changes :: "change_item list"

definition history_entry_of :: "string \<Rightarrow> string \<Rightarrow> json \<Rightarrow> history_object" where
  "history_entry_of kind name val = \<lparr>ho_kind = kind, ho_name = name, ho_value = val\<rparr>"

text \<open>The assignments \<open>objects[...] = _HistoryObject(...)\<close> for one table, in order.\<close>

definition table_history :: "design_table \<Rightarrow> (string \<times> history_object) list" where
  "table_history t =
     (tbl_id t, history_entry_of ''table'' (tbl_name t)
        (JObj [(''name'', JStr (tbl_name t)),
               (''columnOrder'', json_strs (map col_id (tbl_columns t))),
               (''keyOrder'', json_strs (map key_id (tbl_keys t))),
               (''checkOrder'', json_strs (map chk_id (tbl_checks t))),
               (''indexOrder'', json_strs (map idx_id (tbl_indexes t)))]))
     # map (\<lambda>c. (col_id c, history_entry_of ''column'' (tbl_name t @ ''.'' @ col_name c) (column_document id c)))
         (tbl_columns t)
     @ map (\<lambda>k. (key_id k, history_entry_of ''key'' (key_name k) (key_document id k))) (tbl_keys t)
     @ map (\<lambda>c. (chk_id c, history_entry_of ''check'' (chk_name c) (check_document id c))) (tbl_checks t)
     @ map (\<lambda>i. (idx_id i, history_entry_of ''index'' (idx_name i) (index_document id i))) (tbl_indexes t)"

definition history_assignments :: "design_content \<Rightarrow> (string \<times> history_object) list" where
  "history_assignments content =
     map (\<lambda>t. (ty_id t, history_entry_of ''type'' (ty_name t) (type_document id t))) (content_types content)
     @ concat (map table_history (content_tables content))
     @ map (\<lambda>r. (rel_id r, history_entry_of ''relationship'' (rel_name r) (relationship_document id r)))
         (content_relationships content)
     @ map (\<lambda>f. (fn_id f, history_entry_of ''routine'' (routine_signature f) (function_document id f)))
         (content_functions content)
     @ map (\<lambda>v. (view_id v, history_entry_of ''view'' (view_name v) (view_document id v))) (content_views content)
     @ map (\<lambda>t. (trg_id t, history_entry_of ''trigger'' (trg_name t) (trigger_document id t)))
         (content_triggers content)"

definition history_objects :: "design_content \<Rightarrow> (string, history_object) dict" where
  "history_objects content = foldl (\<lambda>d kv. AList.update (fst kv) (snd kv) d) [] (history_assignments content)"

definition history_object_at :: "(string, history_object) dict \<Rightarrow> string \<Rightarrow> history_object" where
  "history_object_at objects i = the (map_of objects i)"

definition change_order ::
  "(string list \<Rightarrow> string list) \<Rightarrow> (string, history_object) dict \<Rightarrow> string list \<Rightarrow> string list" where
  "change_order set_iter objects ids =
     sort_key (\<lambda>i. (ho_kind (history_object_at objects i), casefold (ho_name (history_object_at objects i))))
       (set_iter ids)"

definition shared_change ::
  "(string, history_object) dict \<Rightarrow> (string, history_object) dict \<Rightarrow> string \<Rightarrow> change_item list" where
  "shared_change old new i =
     (let previous = history_object_at old i; current = history_object_at new i in
      if py_eq (ho_value previous) (ho_value current) \<and> ho_name previous = ho_name current then []
      else if ho_name previous \<noteq> ho_name current then
        [\<lparr>ci_operation = Renamed, ci_kind = ho_kind current, ci_name = ho_name current,
          ci_previous_name = Some (ho_name previous)\<rparr>]
      else [\<lparr>ci_operation = Changed, ci_kind = ho_kind current, ci_name = ho_name current,
             ci_previous_name = None\<rparr>])"

definition design_changes ::
  "(string list \<Rightarrow> string list) \<Rightarrow> (string, history_object) dict \<Rightarrow> (string, history_object) dict \<Rightarrow> change_item list" where
  "design_changes set_iter old new =
     map (\<lambda>i. \<lparr>ci_operation = Removed, ci_kind = ho_kind (history_object_at old i),
               ci_name = ho_name (history_object_at old i), ci_previous_name = None\<rparr>)
       (change_order set_iter old (filter (\<lambda>i. i \<notin> set (dict_keys new)) (dict_keys old)))
     @ map (\<lambda>i. \<lparr>ci_operation = Added, ci_kind = ho_kind (history_object_at new i),
               ci_name = ho_name (history_object_at new i), ci_previous_name = None\<rparr>)
       (change_order set_iter new (filter (\<lambda>i. i \<notin> set (dict_keys old)) (dict_keys new)))
     @ concat (map (shared_change old new)
         (change_order set_iter new (filter (\<lambda>i. i \<in> set (dict_keys new)) (dict_keys old))))"

fun verb :: "change_operation \<Rightarrow> string" where
  "verb Added = ''Create''"
| "verb Removed = ''Delete''"
| "verb Changed = ''Update''"
| "verb Renamed = ''Rename''"

definition change_title :: "change_item list \<Rightarrow> string" where
  "change_title changes =
     (case changes of
        [] \<Rightarrow> ''No schema changes''
      | first # rest \<Rightarrow>
          if rest = [] then
            (if ci_operation first = Renamed then
               ''Rename '' @ ci_kind first @ '' ''
               @ (case ci_previous_name first of None \<Rightarrow> ''None'' | Some n \<Rightarrow> n) @ '' to '' @ ci_name first
             else verb (ci_operation first) @ '' '' @ ci_kind first @ '' '' @ ci_name first)
          else verb (ci_operation first) @ '' '' @ ci_kind first @ '' '' @ ci_name first
               @ '' and '' @ nat_str (length changes - 1) @ '' related change(s)'')"

definition design_change_summary ::
  "(string list \<Rightarrow> string list) \<Rightarrow> design_content \<Rightarrow> design_content \<Rightarrow> change_summary" where
  "design_change_summary set_iter before after =
     (let changes = design_changes set_iter (history_objects before) (history_objects after)
      in \<lparr>cs_title = change_title changes, cs_change_count = length changes, cs_changes = changes\<rparr>)"

section \<open>Facts\<close>

text \<open>The ids whose object differs between two designs.\<close>

definition changed_ids ::
  "(string, history_object) dict \<Rightarrow> (string, history_object) dict \<Rightarrow> string set" where
  "changed_ids old new = {i. case (map_of old i, map_of new i) of
      (None, None) \<Rightarrow> False
    | (Some p, Some c) \<Rightarrow> \<not> (py_eq (ho_value p) (ho_value c) \<and> ho_name p = ho_name c)
    | _ \<Rightarrow> True}"

lemma dict_wf_assignments: "dict_wf (foldl (\<lambda>d kv. AList.update (fst kv) (snd kv) d) [] xs)"
  by (induction xs rule: rev_induct) auto

lemma history_objects_wf [simp]: "dict_wf (history_objects content)"
  by (simp add: history_objects_def dict_wf_assignments)

lemma map_of_history_objects:
  "map_of (history_objects content) = map_of (rev (history_assignments content))"
proof -
  have "map_of (foldl (\<lambda>d kv. AList.update (fst kv) (snd kv) d) [] xs) = map_of (rev xs)"
    for xs :: "(string \<times> history_object) list"
    by (induction xs rule: rev_induct) (auto simp: fun_eq_iff)
  then show ?thesis by (simp add: history_objects_def)
qed

lemma length_change_order:
  assumes "\<And>xs. mset (set_iter xs) = mset xs"
  shows "length (change_order set_iter objects ids) = length ids"
    and "mset (change_order set_iter objects ids) = mset ids"
  using assms by (simp_all add: change_order_def) (metis assms mset_eq_length)

lemma length_filter_keys:
  assumes "dict_wf d"
  shows "length (filter P (dict_keys d)) = card {i. map_of d i \<noteq> None \<and> P i}"
proof -
  have "distinct (filter P (dict_keys d))" using assms by (simp add: dict_wf_def dict_keys_def)
  moreover have "set (filter P (dict_keys d)) = {i. map_of d i \<noteq> None \<and> P i}"
    by (auto simp: dict_keys_def map_of_eq_None_iff)
  ultimately show ?thesis by (metis distinct_card)
qed

lemma length_shared_change:
  "length (shared_change old new i) =
     (if py_eq (ho_value (history_object_at old i)) (ho_value (history_object_at new i))
         \<and> ho_name (history_object_at old i) = ho_name (history_object_at new i) then 0 else 1)"
  by (simp add: shared_change_def Let_def)

lemma sum_list_perm:
  fixes f :: "'a \<Rightarrow> nat"
  assumes "mset xs = mset ys"
  shows "sum_list (map f xs) = sum_list (map f ys)"
proof -
  have "sum_mset (mset (map f xs)) = sum_mset (mset (map f ys))" using assms by simp
  then show ?thesis unfolding sum_mset_sum_list .
qed

lemma length_filter_sum: "sum_list (map (\<lambda>i. if P i then 0 else 1) xs) = length (filter (\<lambda>i. \<not> P i) xs)"
  by (induction xs) auto

lemma length_design_changes:
  assumes "\<And>xs. mset (set_iter xs) = mset xs" "dict_wf old" "dict_wf new"
  shows "length (design_changes set_iter old new) = card (changed_ids old new)"
proof -
  let ?rem = "{i. map_of old i \<noteq> None \<and> map_of new i = None}"
  let ?add = "{i. map_of new i \<noteq> None \<and> map_of old i = None}"
  let ?same = "\<lambda>i. py_eq (ho_value (history_object_at old i)) (ho_value (history_object_at new i))
         \<and> ho_name (history_object_at old i) = ho_name (history_object_at new i)"
  let ?chg = "{i. map_of old i \<noteq> None \<and> map_of new i \<noteq> None \<and> \<not> ?same i}"
  let ?ids = "filter (\<lambda>i. i \<in> set (dict_keys new)) (dict_keys old)"
  have keys: "i \<in> set (dict_keys d) \<longleftrightarrow> map_of d i \<noteq> None" for i and d :: "(string, history_object) dict"
    by (simp add: dict_keys_def map_of_eq_None_iff)
  have "length (concat (map (shared_change old new) (change_order set_iter new ?ids)))
      = sum_list (map (\<lambda>i. if ?same i then 0 else 1) (change_order set_iter new ?ids))"
    by (simp add: length_concat comp_def length_shared_change)
  also have "\<dots> = sum_list (map (\<lambda>i. if ?same i then 0 else 1) ?ids)"
    by (rule sum_list_perm) (rule length_change_order(2)[OF assms(1)])
  also have "\<dots> = length (filter (\<lambda>i. \<not> ?same i) ?ids)"
    by (rule length_filter_sum)
  also have "\<dots> = card ?chg"
    using length_filter_keys[OF assms(2), of "\<lambda>i. map_of new i \<noteq> None \<and> \<not> ?same i"]
    by (simp add: keys conj_commute)
  finally have "length (design_changes set_iter old new) = card ?rem + card ?add + card ?chg"
    using length_filter_keys[OF assms(2), of "\<lambda>i. map_of new i = None"]
      length_filter_keys[OF assms(3), of "\<lambda>i. map_of old i = None"]
    by (simp add: design_changes_def length_change_order(1)[OF assms(1)] keys)
  also have "\<dots> = card (?rem \<union> ?add \<union> ?chg)"
  proof -
    have fin: "finite {i. map_of d i \<noteq> None}" for d :: "(string, history_object) dict"
      using finite_dom_map_of[of d] by (simp add: dom_def)
    have "finite ?rem" "finite ?add" "finite ?chg"
      by (auto intro: finite_subset[OF _ fin[of old]] finite_subset[OF _ fin[of new]])
    then show ?thesis by (subst card_Un_disjoint; (subst card_Un_disjoint)?; auto)
  qed
  also have "?rem \<union> ?add \<union> ?chg = changed_ids old new"
    by (auto simp: changed_ids_def history_object_at_def split: option.splits)
  finally show ?thesis .
qed


lemma history_values_wf:
  assumes "map_of (history_objects content) i = Some ob"
  shows "json_wf (ho_value ob)"
proof -
  have "(i, ob) \<in> set (history_assignments content)"
    using assms by (auto simp: map_of_history_objects dest: map_of_SomeD)
  then show ?thesis
    by (auto simp: history_assignments_def table_history_def history_entry_of_def documents_wf)
qed

lemma change_title_empty: "change_title changes = ''No schema changes'' \<longleftrightarrow> changes = []"
proof (cases changes)
  case (Cons c cs)
  then show ?thesis by (cases "ci_operation c") (auto simp: change_title_def)
qed (simp add: change_title_def)

text \<open>
  A change summary counts exactly the objects that differ: removed, added, renamed or changed
  in value; and it is titled "No schema changes" exactly when there are none.
\<close>

theorem change_summary_counts:
  assumes "\<And>xs. mset (set_iter xs) = mset xs"
  shows "cs_change_count (design_change_summary set_iter before after)
           = card (changed_ids (history_objects before) (history_objects after))
    \<and> (cs_title (design_change_summary set_iter before after) = ''No schema changes''
         \<longleftrightarrow> changed_ids (history_objects before) (history_objects after) = {})"
proof -
  let ?c = "design_changes set_iter (history_objects before) (history_objects after)"
  have len: "length ?c = card (changed_ids (history_objects before) (history_objects after))"
    using assms by (intro length_design_changes) auto
  have "changed_ids (history_objects before) (history_objects after)
      \<subseteq> dom (map_of (history_objects before)) \<union> dom (map_of (history_objects after))"
    by (auto simp: changed_ids_def split: option.splits)
  then have "finite (changed_ids (history_objects before) (history_objects after))"
    by (rule finite_subset) (simp add: finite_dom_map_of)
  with len show ?thesis
    by (auto simp: design_change_summary_def Let_def change_title_empty simp flip: length_0_conv)
qed

theorem change_summary_counts_witness:
  "cs_change_count (design_change_summary (\<lambda>xs. xs) empty_design_content
      (empty_design_content\<lparr>content_views := [\<lparr>view_id = ''v'', view_name = ''n'', view_kind = OrdinaryView,
         view_definition = ''SELECT 1'', view_populate_on_create = None\<rparr>]\<rparr>)) = 1
   \<and> card (changed_ids (history_objects empty_design_content)
      (history_objects (empty_design_content\<lparr>content_views := [\<lparr>view_id = ''v'', view_name = ''n'',
         view_kind = OrdinaryView, view_definition = ''SELECT 1'', view_populate_on_create = None\<rparr>]\<rparr>))) = 1"
  (is "cs_change_count (design_change_summary ?i ?e ?c) = 1 \<and> _")
proof -
  have "cs_change_count (design_change_summary ?i ?e ?c) = 1" by code_simp
  with change_summary_counts[of ?i ?e ?c] show ?thesis by simp
qed

lemma changed_ids_same: "changed_ids (history_objects content) (history_objects content) = {}"
  by (auto simp: changed_ids_def intro: py_eq_refl history_values_wf split: option.splits)

end
