(* ===== verification/History_Pruning.thy ===== *)
theory History_Pruning
  imports History_Retention "HOL-Library.Multiset"
begin

text \<open>
  Linked history chains and the pruning of the durable history
  (\<open>prune_postgres_history\<close> in \<open>schemii/designs/history_retention.py\<close>).

  The three history tables are lists of rows; the statements the function executes are their effect
  on the rows, with the foreign keys of \<open>0007_design_history.sql\<close>: an update or a delete that violates one
  raises, and deletes cascade to the state and the transitions. The rows of the recursive query come back
  in an order PostgreSQL does not promise, so that order is a parameter. The loops over parent links run
  on fuel, the number of entries; \<^const>\<open>None\<close> stands for a loop that does not end or an exception.
\<close>

section \<open>Definitions\<close>

text \<open>A chain: every entry's parent is the entry before it.\<close>

fun linked :: "int option \<Rightarrow> 'a history_ref_scheme list \<Rightarrow> bool" where
  "linked prev [] = True"
| "linked prev (e # es) = (parent_id e = prev \<and> linked (Some (entry_id e)) es)"

definition entry_ids :: "'a history_ref_scheme list \<Rightarrow> int list" where
  "entry_ids es = map entry_id es"

definition chain_wf :: "'a history_ref_scheme list \<Rightarrow> bool" where
  "chain_wf es = (es \<noteq> [] \<and> linked None es \<and> distinct (entry_ids es))"

text \<open>\<open>while current is not None: entry = by_id[current]; chain.append(entry); current = entry.parent_id\<close>\<close>

fun walk_parents :: "nat \<Rightarrow> (int, 'a history_ref_scheme) dict \<Rightarrow> int option \<Rightarrow> 'a history_ref_scheme list option" where
  "walk_parents fuel by_id None = Some []"
| "walk_parents 0 by_id (Some i) = None"
| "walk_parents (Suc fuel) by_id (Some i) =
     (case map_of by_id i of None \<Rightarrow> None
      | Some entry \<Rightarrow> map_option (Cons entry) (walk_parents fuel by_id (parent_id entry)))"

text \<open>The retained entries, each linked to the one before it.\<close>

fun relink :: "int option \<Rightarrow> 'a history_ref_scheme list \<Rightarrow> 'a history_ref_scheme list" where
  "relink prev [] = []"
| "relink prev (e # es) = e\<lparr>parent_id := prev\<rparr> # relink (Some (entry_id e)) es"

record history_row = history_ref +
  row_owner :: string
  row_workspace :: string

record history_transition =
  ht_id :: int
  ht_owner :: string
  ht_workspace :: string
  ht_from :: int
  ht_to :: int

text \<open>The state row of a workspace holds the identifiers of the cursor entry and of the active tip.\<close>

record history_db =
  db_entries :: "history_row list"
  db_state :: "((string \<times> string) \<times> (int \<times> int)) list"
  db_transitions :: "history_transition list"

definition entry_ref :: "'a history_ref_scheme \<Rightarrow> history_ref" where
  "entry_ref r = \<lparr>entry_id = entry_id r, parent_id = parent_id r, operation_group_id = operation_group_id r\<rparr>"

text \<open>The recursive query: the active tip and then parent after parent (\<open>id\<close> is the primary key).\<close>

fun cte_chain :: "nat \<Rightarrow> history_row list \<Rightarrow> int option \<Rightarrow> history_row list" where
  "cte_chain fuel rows None = []"
| "cte_chain 0 rows (Some i) = []"
| "cte_chain (Suc fuel) rows (Some i) =
     (case List.find (\<lambda>r. entry_id r = i) rows of None \<Rightarrow> []
      | Some r \<Rightarrow> r # cte_chain fuel rows (parent_id r))"

text \<open>The loop that follows parents in \<open>by_id\<close>; a parent outside of it ends the chain.\<close>

fun follow_known :: "nat \<Rightarrow> (int, history_ref) dict \<Rightarrow> history_ref \<Rightarrow> history_ref list option" where
  "follow_known 0 by_id current = None"
| "follow_known (Suc fuel) by_id current =
     (case parent_id current of None \<Rightarrow> Some [current]
      | Some p \<Rightarrow> (case map_of by_id p of None \<Rightarrow> Some [current]
          | Some next_entry \<Rightarrow> map_option (Cons current) (follow_known fuel by_id next_entry)))"

definition rebuild_chain :: "history_ref list \<Rightarrow> history_ref list option" where
  "rebuild_chain rows =
     (let by_id = dict_by entry_id rows;
          parent_ids = [p. Some p \<leftarrow> map parent_id (dict_values by_id)]
      in case List.find (\<lambda>e. entry_id e \<notin> set parent_ids) (dict_values by_id) of
           None \<Rightarrow> None
         | Some tip \<Rightarrow> map_option rev (follow_known (length by_id) by_id tip))"

definition in_workspace :: "string \<Rightarrow> string \<Rightarrow> history_row \<Rightarrow> bool" where
  "in_workspace owner_id workspace_id r = (row_owner r = owner_id \<and> row_workspace r = workspace_id)"

text \<open>An \<open>UPDATE\<close> of the parent; a new parent that is not an entry violates the foreign key \<open>parent_id\<close>.\<close>

definition set_parent ::
  "string \<Rightarrow> string \<Rightarrow> int option \<Rightarrow> int \<Rightarrow> history_row list \<Rightarrow> history_row list option" where
  "set_parent owner_id workspace_id previous i rows =
     (if list_ex (\<lambda>r. in_workspace owner_id workspace_id r \<and> entry_id r = i) rows
         \<and> (case previous of None \<Rightarrow> False | Some p \<Rightarrow> p \<notin> set (entry_ids rows))
      then None
      else Some (map (\<lambda>r. if in_workspace owner_id workspace_id r \<and> entry_id r = i then r\<lparr>parent_id := previous\<rparr> else r) rows))"

fun link_retained ::
  "string \<Rightarrow> string \<Rightarrow> int option \<Rightarrow> history_ref list \<Rightarrow> history_row list \<Rightarrow> history_row list option" where
  "link_retained owner_id workspace_id previous [] rows = Some rows"
| "link_retained owner_id workspace_id previous (e # es) rows =
     Option.bind (if parent_id e \<noteq> previous then set_parent owner_id workspace_id previous (entry_id e) rows else Some rows)
       (link_retained owner_id workspace_id (Some (entry_id e)) es)"

definition obsolete :: "string \<Rightarrow> string \<Rightarrow> int list \<Rightarrow> history_row \<Rightarrow> bool" where
  "obsolete owner_id workspace_id retained_ids r = (in_workspace owner_id workspace_id r \<and> entry_id r \<notin> set retained_ids)"

definition detach_obsolete :: "string \<Rightarrow> string \<Rightarrow> int list \<Rightarrow> history_row list \<Rightarrow> history_row list" where
  "detach_obsolete owner_id workspace_id retained_ids rows =
     map (\<lambda>r. if obsolete owner_id workspace_id retained_ids r then r\<lparr>parent_id := None\<rparr> else r) rows"

text \<open>
  The foreign key \<open>parent_id ... ON DELETE RESTRICT\<close>, row by row: an entry is deleted only when no other
  entry that is still there refers to it, whatever order the rows are deleted in.
\<close>

fun delete_entries :: "history_row list \<Rightarrow> history_row list \<Rightarrow> history_row list option" where
  "delete_entries [] rows = Some rows"
| "delete_entries (d # ds) rows =
     (let rest = filter (\<lambda>r. entry_id r \<noteq> entry_id d) rows in
      if list_ex (\<lambda>r. parent_id r = Some (entry_id d)) rest then None else delete_entries ds rest)"

text \<open>The foreign keys \<open>ON DELETE CASCADE\<close>: state rows and transitions of deleted entries go with them.\<close>

definition cascade :: "int set \<Rightarrow> history_db \<Rightarrow> history_db" where
  "cascade deleted db = db\<lparr>
     db_state := filter (\<lambda>(_, cursor, tip). cursor \<notin> deleted \<and> tip \<notin> deleted) (db_state db),
     db_transitions := filter (\<lambda>t. ht_from t \<notin> deleted \<and> ht_to t \<notin> deleted) (db_transitions db)\<rparr>"

definition delete_obsolete :: "string \<Rightarrow> string \<Rightarrow> int list \<Rightarrow> history_db \<Rightarrow> history_db option" where
  "delete_obsolete owner_id workspace_id retained_ids db =
     (let gone = filter (obsolete owner_id workspace_id retained_ids) (db_entries db) in
      map_option (\<lambda>rows. cascade (entry_id ` set gone) (db\<lparr>db_entries := rows\<rparr>)) (delete_entries gone (db_entries db)))"

definition of_workspace :: "string \<Rightarrow> string \<Rightarrow> history_transition \<Rightarrow> bool" where
  "of_workspace owner_id workspace_id t = (ht_owner t = owner_id \<and> ht_workspace t = workspace_id)"

text \<open>\<open>ORDER BY id DESC OFFSET n\<close>: all but the \<open>n\<close> newest transitions of the workspace are deleted.\<close>

definition older :: "nat \<Rightarrow> history_transition list \<Rightarrow> int list" where
  "older n ts = drop n (rev (sort (map ht_id ts)))"

definition delete_transitions ::
  "string \<Rightarrow> string \<Rightarrow> nat \<Rightarrow> history_transition list \<Rightarrow> history_transition list" where
  "delete_transitions owner_id workspace_id n ts =
     filter (\<lambda>t. ht_id t \<notin> set (older n (filter (of_workspace owner_id workspace_id) ts))) ts"

definition prune_postgres_history ::
  "(history_row list \<Rightarrow> history_row list) \<Rightarrow> string \<Rightarrow> string \<Rightarrow> nat \<Rightarrow> history_db \<Rightarrow> history_db option" where
  "prune_postgres_history order owner_id workspace_id retained_limit db =
     (let rows = order (cte_chain (length (db_entries db)) (db_entries db)
                          (map_option snd (map_of (db_state db) (owner_id, workspace_id))))
      in if rows = [] then Some db
         else Option.bind (rebuild_chain (map entry_ref rows)) (\<lambda>chain.
           let retained = retained_history_entries chain retained_limit;
               retained_ids = entry_ids retained in
           Option.bind (link_retained owner_id workspace_id None retained (db_entries db)) (\<lambda>linked.
             map_option (\<lambda>db1. db1\<lparr>db_transitions := delete_transitions owner_id workspace_id (retained_limit * 2) (db_transitions db1)\<rparr>)
               (delete_obsolete owner_id workspace_id retained_ids
                 (db\<lparr>db_entries := detach_obsolete owner_id workspace_id retained_ids linked\<rparr>)))))"

section \<open>Chains\<close>

lemma linked_snoc:
  "linked prev (es @ [e]) \<longleftrightarrow>
     linked prev es \<and> parent_id e = (if es = [] then prev else Some (entry_id (last es)))"
  by (induction prev es rule: linked.induct) auto

lemma entry_ids_simps [simp]:
  "entry_ids [] = []" "entry_ids (e # es) = entry_id e # entry_ids es"
  "entry_ids (es @ fs) = entry_ids es @ entry_ids fs" "length (entry_ids es) = length es"
  "entry_ids (rev es) = rev (entry_ids es)"
  by (simp_all add: entry_ids_def rev_map)

lemma linked_relink [simp]: "linked prev (relink prev es)"
  by (induction es arbitrary: prev) auto

lemma relink_Nil [simp]: "relink prev es = [] \<longleftrightarrow> es = []"
  by (cases es) auto

lemma entry_ids_relink [simp]: "entry_ids (relink prev es) = entry_ids es"
  by (induction es arbitrary: prev) auto

lemma length_relink [simp]: "length (relink prev es) = length es"
  by (induction es arbitrary: prev) auto

lemma history_group_relink [simp]: "history_group (e\<lparr>parent_id := p\<rparr>) = history_group e"
  by (simp add: history_group_def split: option.splits)

lemma relink_nth_group: "i < length es \<Longrightarrow> history_group (relink prev es ! i) = history_group (es ! i)"
  by (induction es arbitrary: prev i) (auto simp: nth_Cons split: nat.splits)

lemma walk_parents_linked:
  "linked None es \<Longrightarrow> \<forall>e\<in>set es. map_of by_id (entry_id e) = Some e \<Longrightarrow> length es \<le> fuel \<Longrightarrow>
   walk_parents fuel by_id (if es = [] then None else Some (entry_id (last es))) = Some (rev es)"
proof (induction es arbitrary: fuel rule: rev_induct)
  case (snoc e es)
  then obtain f where f: "fuel = Suc f" by (cases fuel) auto
  from snoc.prems have "linked None es" "parent_id e = (if es = [] then None else Some (entry_id (last es)))"
    by (simp_all add: linked_snoc)
  with snoc f show ?case by simp
qed simp

text \<open>A complete chain read back from an indexed store.\<close>

lemma walk_parents_chain:
  assumes "chain_wf es" "\<forall>e\<in>set es. map_of by_id (entry_id e) = Some e" "length es \<le> fuel"
  shows "walk_parents fuel by_id (Some (entry_id (last es))) = Some (rev es)"
  using walk_parents_linked[of es by_id fuel] assms by (simp add: chain_wf_def)


section \<open>Pruning the durable history\<close>

lemma entry_ref_simps [simp]:
  "entry_id (entry_ref r) = entry_id r" "parent_id (entry_ref r) = parent_id r"
  "operation_group_id (entry_ref r) = operation_group_id r" "history_group (entry_ref r) = history_group r"
  by (simp_all add: entry_ref_def history_group_def split: option.splits)

lemma entry_ids_ref [simp]: "entry_ids (map entry_ref es) = entry_ids es"
  by (simp add: entry_ids_def)

lemma linked_ref [simp]: "linked prev (map entry_ref es) = linked prev es"
  by (induction prev es rule: linked.induct) auto

lemma relink_ref: "relink prev (map entry_ref es) = map entry_ref (relink prev es)"
  by (induction es arbitrary: prev) (auto simp: entry_ref_def)

lemma actions_ref: "actions (map entry_ref q) = map entry_ref (actions q)"
  by (induction q rule: actions.induct) (simp_all add: dropWhile_map comp_def)

lemma retained_ref:
  "retained_history_entries (map entry_ref es) limit = map entry_ref (retained_history_entries es limit)"
proof (cases es)
  case (Cons e r)
  have "actions (rev (map entry_ref r)) = map entry_ref (actions (rev r))"
    by (simp add: rev_map actions_ref)
  then show ?thesis by (simp add: Cons retained_eq take_map rev_map)
qed simp

lemma cte_chain_linked:
  "linked None es \<Longrightarrow> distinct (entry_ids rows) \<Longrightarrow> set es \<subseteq> set rows \<Longrightarrow> length es \<le> fuel \<Longrightarrow>
   cte_chain fuel rows (if es = [] then None else Some (entry_id (last es))) = rev es"
proof (induction es arbitrary: fuel rule: rev_induct)
  case (snoc e es)
  then obtain f where f: "fuel = Suc f" by (cases fuel) auto
  from snoc.prems have p: "linked None es" "parent_id e = (if es = [] then None else Some (entry_id (last es)))"
    by (simp_all add: linked_snoc)
  have "List.find (\<lambda>r. entry_id r = entry_id e) rows = Some e"
    using snoc.prems(2,3) by (intro find_unique) (auto simp: entry_ids_def dest: distinct_map[THEN iffD1] inj_onD)
  with snoc f p show ?case by simp
qed simp

lemma follow_known_linked:
  "linked None (es @ [e]) \<Longrightarrow> \<forall>x\<in>set (es @ [e]). map_of by_id (entry_id x) = Some x \<Longrightarrow> length es < fuel \<Longrightarrow>
   follow_known fuel by_id e = Some (rev (es @ [e]))"
proof (induction es arbitrary: e fuel rule: rev_induct)
  case Nil
  then show ?case by (cases fuel) auto
next
  case (snoc f es)
  then obtain n where n: "fuel = Suc n" by (cases fuel) auto
  from snoc.prems(1) have "linked None (es @ [f])" "parent_id e = Some (entry_id f)"
    by (simp_all only: linked_snoc) simp_all
  with snoc n show ?case by simp
qed

lemma chain_parents:
  "linked prev es \<Longrightarrow> parent_id ` set es = (if es = [] then {} else insert prev (Some ` set (entry_ids (butlast es))))"
  by (induction prev es rule: linked.induct) auto

text \<open>The rows of a chain, in any order, are put back into the order of the chain.\<close>

lemma rebuild_chain_any_order:
  assumes "chain_wf cs" "mset fs = mset cs"
  shows "rebuild_chain fs = Some cs"
proof -
  obtain es e where cs: "cs = es @ [e]" using assms(1) by (metis append_butlast_last_id chain_wf_def)
  have set_eq: "set fs = set cs" and len: "length fs = length cs"
    using assms(2) by (metis set_mset_mset, metis size_mset)
  have d: "distinct (map entry_id fs)"
    using assms by (metis chain_wf_def entry_ids_def mset_map mset_eq_imp_distinct_iff)
  have vals: "dict_values (dict_by entry_id fs) = fs"
    by (simp add: dict_by_distinct[OF d] dict_values_def comp_def)
  have dlen: "length (dict_by entry_id fs) = length fs" by (simp add: dict_by_distinct[OF d])
  let ?parents = "[p. Some p \<leftarrow> map parent_id fs]"
  have "set ?parents = {p. Some p \<in> parent_id ` set fs}" by (auto simp: image_iff split: option.splits)
  also have "\<dots> = set (entry_ids es)"
    using chain_parents[of None cs] assms(1) by (auto simp: chain_wf_def set_eq cs)
  finally have parents: "set ?parents = set (entry_ids es)" .
  have "List.find (\<lambda>x. entry_id x \<notin> set ?parents) fs = Some e"
  proof (rule find_unique)
    show "e \<in> set fs" using set_eq cs by simp
    show "entry_id e \<notin> set ?parents" using assms(1) cs parents by (simp add: chain_wf_def)
    show "y = e" if "y \<in> set fs" "entry_id y \<notin> set ?parents" for y
      using that set_eq cs parents by (auto simp: entry_ids_def)
  qed
  moreover have "follow_known (length (dict_by entry_id fs)) (dict_by entry_id fs) e = Some (rev (es @ [e]))"
    using assms(1) d cs len dlen set_eq by (intro follow_known_linked) (auto simp: chain_wf_def intro!: dict_by_find)
  ultimately show ?thesis by (simp add: rebuild_chain_def vals cs)
qed


text \<open>The new parents of the retained entries, and the rows with these parents.\<close>

definition new_parents :: "int option \<Rightarrow> 'a history_ref_scheme list \<Rightarrow> (int \<times> int option) list" where
  "new_parents prev rs = map (\<lambda>e. (entry_id e, parent_id e)) (relink prev rs)"

definition with_parent :: "(int \<times> int option) list \<Rightarrow> 'a history_ref_scheme \<Rightarrow> 'a history_ref_scheme" where
  "with_parent ps r = (case map_of ps (entry_id r) of None \<Rightarrow> r | Some p \<Rightarrow> r\<lparr>parent_id := p\<rparr>)"

lemma new_parents_simps [simp]:
  "new_parents prev [] = []"
  "new_parents prev (e # es) = (entry_id e, prev) # new_parents (Some (entry_id e)) es"
  "new_parents prev (map entry_ref es) = new_parents prev es"
  by (simp_all add: new_parents_def relink_ref comp_def)

lemma fst_new_parents [simp]: "map fst (new_parents prev rs) = entry_ids rs"
  by (induction rs arbitrary: prev) auto

lemma new_parents_dom: "map_of (new_parents prev rs) i = None \<longleftrightarrow> i \<notin> set (entry_ids rs)"
  by (metis fst_new_parents list.set_map map_of_eq_None_iff)

lemma relink_with_parent:
  "distinct (entry_ids rs) \<Longrightarrow> relink prev rs = map (with_parent (new_parents prev rs)) rs"
proof (induction rs arbitrary: prev)
  case (Cons e rs)
  have "with_parent ((entry_id e, prev) # ps) r = with_parent ps r" if "r \<in> set rs" for r ps
    using Cons.prems imageI[OF that, of entry_id] by (auto simp: with_parent_def entry_ids_def)
  with Cons show ?case by (simp add: with_parent_def)
qed simp

lemma with_parent_same:
  "parent_id r = p \<Longrightarrow> r\<lparr>parent_id := p\<rparr> = r" for r :: "'a history_ref_scheme"
  by (cases r) auto

lemma link_retained_rows:
  assumes "distinct (entry_ids rs)" "set (entry_ids rs) \<subseteq> set (entry_ids rows)" "\<And>p. prev = Some p \<Longrightarrow> p \<in> set (entry_ids rows)"
    and "\<forall>e\<in>set rs. \<forall>r\<in>set rows. in_workspace ow ws r \<and> entry_id r = entry_id e \<longrightarrow> parent_id r = parent_id e"
  shows "link_retained ow ws prev rs rows =
     Some (map (\<lambda>r. if in_workspace ow ws r then with_parent (new_parents prev rs) r else r) rows)"
  using assms
proof (induction rs arbitrary: prev rows)
  case Nil
  then show ?case by (simp add: with_parent_def cong: if_cong)
next
  case (Cons e rs)
  define rows' where "rows' = map (\<lambda>r. if in_workspace ow ws r \<and> entry_id r = entry_id e then r\<lparr>parent_id := prev\<rparr> else r) rows"
  have ids: "entry_ids rows' = entry_ids rows" by (simp add: entry_ids_def rows'_def)
  have rows': "(if parent_id e \<noteq> prev then set_parent ow ws prev (entry_id e) rows else Some rows) = Some rows'"
  proof (cases "parent_id e = prev")
    case True
    have "r\<lparr>parent_id := prev\<rparr> = r" if "r \<in> set rows" "in_workspace ow ws r" "entry_id r = entry_id e" for r
      using that Cons.prems(4) True by (intro with_parent_same) simp
    then have "rows' = rows" by (auto simp: rows'_def intro: map_idI)
    with True show ?thesis by simp
  qed (use Cons.prems(3) in \<open>auto simp: set_parent_def rows'_def split: option.splits\<close>)
  have "\<forall>f\<in>set rs. \<forall>r\<in>set rows'. in_workspace ow ws r \<and> entry_id r = entry_id f \<longrightarrow> parent_id r = parent_id f"
  proof (intro ballI impI)
    fix f r assume f: "f \<in> set rs" and r: "r \<in> set rows'" "in_workspace ow ws r \<and> entry_id r = entry_id f"
    have "entry_id r \<noteq> entry_id e" using Cons.prems(1) r(2) imageI[OF f, of entry_id] by (auto simp: entry_ids_def)
    with r(1) have "r \<in> set rows" by (auto simp: rows'_def split: if_splits)
    with Cons.prems(4) f r(2) show "parent_id r = parent_id f" by simp
  qed
  with Cons.IH[of rows' "Some (entry_id e)"] Cons.prems(1,2) ids rows'
  have "link_retained ow ws prev (e # rs) rows =
     Some (map (\<lambda>r. if in_workspace ow ws r then with_parent (new_parents (Some (entry_id e)) rs) r else r) rows')"
    by simp
  also have "\<dots> = Some (map (\<lambda>r. if in_workspace ow ws r then with_parent (new_parents prev (e # rs)) r else r) rows)"
  proof -
    have "map_of (new_parents (Some (entry_id e)) rs) (entry_id e) = None"
      using Cons.prems(1) by (simp add: new_parents_dom)
    then show ?thesis
      by (auto simp: rows'_def with_parent_def in_workspace_def)
  qed
  finally show ?case .
qed

lemma in_workspace_with_parent [simp]: "in_workspace ow ws (with_parent ps r) = in_workspace ow ws r"
  by (auto simp: in_workspace_def with_parent_def split: option.splits)

lemma entry_id_with_parent [simp]: "entry_id (with_parent ps r) = entry_id r"
  by (auto simp: with_parent_def split: option.splits)

lemma in_workspace_row_parent: "in_workspace ow ws (r\<lparr>parent_id := p\<rparr>) = in_workspace ow ws r"
  by (simp add: in_workspace_def)


text \<open>An entry nothing refers to can be deleted, and so can any number of them.\<close>

lemma delete_entries_unreferenced:
  "\<forall>r\<in>set rows. \<forall>p. parent_id r = Some p \<longrightarrow> p \<notin> entry_id ` set ds \<Longrightarrow>
   delete_entries ds rows = Some (filter (\<lambda>r. entry_id r \<notin> entry_id ` set ds) rows)"
proof (induction ds arbitrary: rows)
  case (Cons d ds)
  have "\<not> list_ex (\<lambda>r. parent_id r = Some (entry_id d)) (filter (\<lambda>r. entry_id r \<noteq> entry_id d) rows)"
    using Cons.prems by (auto simp: list_ex_iff)
  moreover have "filter (\<lambda>r. entry_id r \<noteq> entry_id d \<and> entry_id r \<notin> entry_id ` set ds) rows
      = filter (\<lambda>r. entry_id r \<notin> entry_id ` set (d # ds)) rows" by (rule filter_cong) auto
  moreover have "delete_entries ds (filter (\<lambda>r. entry_id r \<noteq> entry_id d) rows)
      = Some (filter (\<lambda>r. entry_id r \<noteq> entry_id d \<and> entry_id r \<notin> entry_id ` set ds) rows)"
    using Cons.prems by (subst Cons.IH) (auto simp: conj_commute)
  ultimately show ?case by (simp add: Let_def)
qed simp

text \<open>
  References stay within their workspace: parents, the cursor and the tip of the state, and both ends of a
  transition are entries of the same workspace. Every write of the program keeps it so.
\<close>

definition entry_of :: "history_row list \<Rightarrow> string \<Rightarrow> string \<Rightarrow> int \<Rightarrow> bool" where
  "entry_of rows ow ws i = (\<exists>r\<in>set rows. in_workspace ow ws r \<and> entry_id r = i)"

definition own_references :: "history_db \<Rightarrow> bool" where
  "own_references db =
     ((\<forall>r\<in>set (db_entries db). \<forall>p. parent_id r = Some p \<longrightarrow> entry_of (db_entries db) (row_owner r) (row_workspace r) p)
      \<and> (\<forall>((ow, ws), cursor, tip)\<in>set (db_state db). entry_of (db_entries db) ow ws cursor \<and> entry_of (db_entries db) ow ws tip)
      \<and> (\<forall>t\<in>set (db_transitions db). entry_of (db_entries db) (ht_owner t) (ht_workspace t) (ht_from t)
           \<and> entry_of (db_entries db) (ht_owner t) (ht_workspace t) (ht_to t)))"

text \<open>The rows left in a workspace, and those of all other workspaces.\<close>

definition adjusted :: "string \<Rightarrow> string \<Rightarrow> 'a history_ref_scheme list \<Rightarrow> history_row \<Rightarrow> history_row" where
  "adjusted ow ws rs r = (if in_workspace ow ws r
     then if entry_id r \<in> set (entry_ids rs) then with_parent (new_parents None rs) r else r\<lparr>parent_id := None\<rparr> else r)"

lemma adjusted_simps [simp]:
  "entry_id (adjusted ow ws rs r) = entry_id r" "in_workspace o' w' (adjusted ow ws rs r) = in_workspace o' w' r"
  "obsolete o' w' ids (adjusted ow ws rs r) = obsolete o' w' ids r"
  "\<not> in_workspace ow ws r \<Longrightarrow> adjusted ow ws rs r = r"
  by (simp_all add: adjusted_def obsolete_def in_workspace_row_parent)

lemma new_parents_ids: "map_of (new_parents prev rs) i = Some (Some p) \<Longrightarrow> prev = Some p \<or> p \<in> set (entry_ids rs)"
  by (induction rs arbitrary: prev) (auto split: if_splits)

lemma linked_and_detached:
  fixes rows :: "history_row list"
  assumes "distinct (entry_ids rows)" "set rs \<subseteq> set rows" "distinct (entry_ids rs)"
  shows "map_option (detach_obsolete ow ws (entry_ids rs)) (link_retained ow ws None (map entry_ref rs) rows)
    = Some (map (adjusted ow ws rs) rows)"
proof -
  have same: "r = e" if "r \<in> set rows" "e \<in> set rs" "entry_id r = entry_id e" for r e
    using that assms(1,2) by (auto simp: entry_ids_def dest: distinct_map[THEN iffD1] inj_onD)
  have "link_retained ow ws None (map entry_ref rs) rows =
      Some (map (\<lambda>r. if in_workspace ow ws r then with_parent (new_parents None rs) r else r) rows)"
  proof (subst link_retained_rows)
    show "set (entry_ids (map entry_ref rs)) \<subseteq> set (entry_ids rows)" using assms(2) by (auto simp: entry_ids_def)
    show "\<forall>e\<in>set (map entry_ref rs). \<forall>r\<in>set rows. in_workspace ow ws r \<and> entry_id r = entry_id e \<longrightarrow> parent_id r = parent_id e"
      using same by fastforce
  qed (use assms(3) in simp_all)
  then show ?thesis
    by (auto simp: detach_obsolete_def adjusted_def obsolete_def in_workspace_row_parent)
       (auto simp: with_parent_def new_parents_dom split: option.splits)
qed

lemma adjusted_parent:
  assumes "own_references db" "r \<in> set (db_entries db)" "parent_id (adjusted ow ws rs r) = Some p" "distinct (entry_ids (db_entries db))"
    and "set (entry_ids rs) \<subseteq> set (entry_ids (db_entries db))" "q \<in> set (db_entries db)" "obsolete ow ws (entry_ids rs) q"
  shows "p \<noteq> entry_id q"
proof (cases "in_workspace ow ws r")
  case True
  have "p \<in> set (entry_ids rs)" if "entry_id r \<in> set (entry_ids rs)"
    using assms(3) that True new_parents_ids[of None rs "entry_id r" p]
    by (auto simp: adjusted_def with_parent_def new_parents_dom split: option.splits)
  moreover have "entry_id r \<in> set (entry_ids rs)" using assms(3) True by (auto simp: adjusted_def split: if_splits)
  ultimately show ?thesis using assms(7) by (auto simp: obsolete_def)
next
  case False
  then have "entry_of (db_entries db) (row_owner r) (row_workspace r) p"
    using assms(1-3) by (simp add: own_references_def)
  then obtain s where s: "s \<in> set (db_entries db)" "row_owner s = row_owner r" "row_workspace s = row_workspace r" "entry_id s = p"
    by (auto simp: entry_of_def in_workspace_def)
  have "s \<noteq> q" using s False assms(7) by (auto simp: in_workspace_def obsolete_def)
  with s(1,4) assms(4,6) show ?thesis by (auto simp: entry_ids_def distinct_map dest: inj_onD)
qed

lemma same_workspace_ids:
  assumes "distinct (entry_ids rows)" "entry_of rows ow ws i" "q \<in> set rows" "entry_id q = i"
  shows "in_workspace ow ws q"
  using assms by (auto simp: entry_of_def entry_ids_def distinct_map dest: inj_onD)

lemma delete_obsolete_rows:
  assumes "own_references db" "distinct (entry_ids (db_entries db))" "set rs \<subseteq> set (db_entries db)"
    and "\<forall>r\<in>set rs. in_workspace ow ws r"
  defines "gone \<equiv> entry_id ` set (filter (obsolete ow ws (entry_ids rs)) (db_entries db))"
  shows "delete_obsolete ow ws (entry_ids rs) (db\<lparr>db_entries := map (adjusted ow ws rs) (db_entries db)\<rparr>) =
    Some (cascade gone (db\<lparr>db_entries := map (adjusted ow ws rs) (filter (\<lambda>r. \<not> obsolete ow ws (entry_ids rs) r) (db_entries db))\<rparr>))"
proof -
  let ?rows = "map (adjusted ow ws rs) (db_entries db)" and ?gone = "filter (obsolete ow ws (entry_ids rs)) (db_entries db)"
  have g: "filter (obsolete ow ws (entry_ids rs)) ?rows = map (adjusted ow ws rs) ?gone"
    by (simp add: filter_map comp_def)
  have "delete_entries (map (adjusted ow ws rs) ?gone) ?rows
      = Some (filter (\<lambda>r. entry_id r \<notin> entry_id ` set (map (adjusted ow ws rs) ?gone)) ?rows)"
    by (rule delete_entries_unreferenced)
       (use adjusted_parent[OF assms(1) _ _ assms(2)] assms(3) in \<open>fastforce simp: entry_ids_def\<close>)
  also have "\<dots> = Some (map (adjusted ow ws rs) (filter (\<lambda>r. \<not> obsolete ow ws (entry_ids rs) r) (db_entries db)))"
    using assms(2) by (auto simp: filter_map comp_def image_image entry_ids_def distinct_map obsolete_def intro!: arg_cong[where f = "map _"] filter_cong dest: inj_onD)
  finally show ?thesis by (simp add: delete_obsolete_def g gone_def image_image)
qed

lemma newest_length: "distinct (map ht_id ts) \<Longrightarrow> length (filter (\<lambda>t. ht_id t \<notin> set (older n ts)) ts) \<le> n"
proof -
  assume d: "distinct (map ht_id ts)"
  let ?s = "rev (sort (map ht_id ts))"
  have s: "distinct ?s" "set ?s = ht_id ` set ts" using d by simp_all
  have "ht_id ` set (filter (\<lambda>t. ht_id t \<notin> set (older n ts)) ts) \<subseteq> set (take n ?s)"
  proof
    fix i assume "i \<in> ht_id ` set (filter (\<lambda>t. ht_id t \<notin> set (older n ts)) ts)"
    then have "i \<in> set (take n ?s @ drop n ?s)" "i \<notin> set (drop n ?s)" using s(2) by (auto simp: older_def)
    then show "i \<in> set (take n ?s)" unfolding set_append by blast
  qed
  then have "card (ht_id ` set (filter (\<lambda>t. ht_id t \<notin> set (older n ts)) ts)) \<le> card (set (take n ?s))" by (intro card_mono) auto
  also have "\<dots> \<le> n" by (rule order_trans[OF card_length]) simp
  also have "card (ht_id ` set (filter (\<lambda>t. ht_id t \<notin> set (older n ts)) ts)) = length (filter (\<lambda>t. ht_id t \<notin> set (older n ts)) ts)"
    using distinct_card[of "map ht_id (filter (\<lambda>t. ht_id t \<notin> set (older n ts)) ts)"] d by (simp add: distinct_map_filter)
  finally show ?thesis .
qed

text \<open>Deleting old transitions of a workspace leaves those of the others alone.\<close>

lemma delete_transitions_parts:
  assumes "distinct (map ht_id ts)"
  shows "filter (\<lambda>t. \<not> of_workspace ow ws t) (delete_transitions ow ws n ts) = filter (\<lambda>t. \<not> of_workspace ow ws t) ts"
    and "filter (of_workspace ow ws) (delete_transitions ow ws n ts)
      = filter (\<lambda>t. ht_id t \<notin> set (older n (filter (of_workspace ow ws) ts))) (filter (of_workspace ow ws) ts)"
proof -
  have "ht_id t \<notin> set (older n (filter (of_workspace ow ws) ts))" if "t \<in> set ts" "\<not> of_workspace ow ws t" for t
  proof
    assume "ht_id t \<in> set (older n (filter (of_workspace ow ws) ts))"
    then have "ht_id t \<in> ht_id ` set (filter (of_workspace ow ws) ts)" using set_drop_subset by (fastforce simp: older_def)
    with that assms show False by (auto simp: distinct_map dest: inj_onD)
  qed
  then show "filter (\<lambda>t. \<not> of_workspace ow ws t) (delete_transitions ow ws n ts) = filter (\<lambda>t. \<not> of_workspace ow ws t) ts"
    by (auto simp: delete_transitions_def intro!: filter_cong)
qed (simp add: delete_transitions_def conj_commute)

text \<open>What the deletion of obsolete entries leaves, for a workspace whose references are its own.\<close>

lemma cascade_parts:
  fixes ow ws :: string and ids :: "int list" and db :: history_db
  defines "gone \<equiv> entry_id ` set (filter (obsolete ow ws ids) (db_entries db))"
  assumes "own_references db" "distinct (entry_ids (db_entries db))" "distinct (map fst (db_state db))"
    and "map_of (db_state db) (ow, ws) = Some (cursor, tip)" "cursor \<in> set ids" "tip \<in> set ids"
  shows "db_state (cascade gone db) = db_state db"
    and "filter (\<lambda>t. \<not> of_workspace ow ws t) (db_transitions (cascade gone db)) = filter (\<lambda>t. \<not> of_workspace ow ws t) (db_transitions db)"
    and "filter (of_workspace ow ws) (db_transitions (cascade gone db))
      = filter (\<lambda>t. of_workspace ow ws t \<and> ht_from t \<in> set ids \<and> ht_to t \<in> set ids) (db_transitions db)"
proof -
  have own: "i \<in> gone \<longleftrightarrow> (o', w') = (ow, ws) \<and> i \<notin> set ids" if e: "entry_of (db_entries db) o' w' i" for o' w' i
  proof -
    obtain q where q: "q \<in> set (db_entries db)" "in_workspace o' w' q" "entry_id q = i" using e by (auto simp: entry_of_def)
    have u: "q' = q" if "q' \<in> set (db_entries db)" "entry_id q' = i" for q'
      using that q assms(3) by (auto simp: entry_ids_def distinct_map dest: inj_onD)
    have "i \<in> gone \<longleftrightarrow> (\<exists>q'\<in>set (db_entries db). obsolete ow ws ids q' \<and> entry_id q' = i)"
      unfolding gone_def by (auto simp: image_iff)
    also have "\<dots> \<longleftrightarrow> obsolete ow ws ids q" using u q(1,3) by blast
    finally show ?thesis using q(2,3) by (auto simp: obsolete_def in_workspace_def)
  qed
  have "cursor' \<notin> gone \<and> tip' \<notin> gone" if s: "((o', w'), cursor', tip') \<in> set (db_state db)" for o' w' cursor' tip'
  proof -
    have "entry_of (db_entries db) o' w' cursor'" "entry_of (db_entries db) o' w' tip'" using assms(2) s by (auto simp: own_references_def)
    moreover have "(o', w') = (ow, ws) \<Longrightarrow> cursor' = cursor \<and> tip' = tip" using s assms(4,5) by auto
    ultimately show ?thesis using own assms(6,7) by blast
  qed
  then show "db_state (cascade gone db) = db_state db" by (auto simp: cascade_def intro!: filter_True)
  have ends: "entry_of (db_entries db) (ht_owner t) (ht_workspace t) (ht_from t)" "entry_of (db_entries db) (ht_owner t) (ht_workspace t) (ht_to t)"
    if "t \<in> set (db_transitions db)" for t using assms(2) that by (auto simp: own_references_def)
  show "filter (\<lambda>t. \<not> of_workspace ow ws t) (db_transitions (cascade gone db)) = filter (\<lambda>t. \<not> of_workspace ow ws t) (db_transitions db)"
    unfolding cascade_def using own[OF ends(1)] own[OF ends(2)] by (auto simp: of_workspace_def intro!: filter_cong)
  show "filter (of_workspace ow ws) (db_transitions (cascade gone db))
      = filter (\<lambda>t. of_workspace ow ws t \<and> ht_from t \<in> set ids \<and> ht_to t \<in> set ids) (db_transitions db)"
    unfolding cascade_def using own[OF ends(1)] own[OF ends(2)] by (auto simp: of_workspace_def intro!: filter_cong)
qed

lemma pruned_entries:
  fixes rows :: "history_row list"
  assumes "distinct (entry_ids rows)" "set rs \<subseteq> set rows" "\<forall>r\<in>set rs. in_workspace ow ws r" "distinct (entry_ids rs)"
  defines "out \<equiv> map (adjusted ow ws rs) (filter (\<lambda>r. \<not> obsolete ow ws (entry_ids rs) r) rows)"
  shows "set (filter (in_workspace ow ws) out) = set (relink None rs)"
    and "filter (\<lambda>r. \<not> in_workspace ow ws r) out = filter (\<lambda>r. \<not> in_workspace ow ws r) rows"
proof -
  have same: "r = e" if "r \<in> set rows" "e \<in> set rs" "entry_id r = entry_id e" for r e
    using that assms(1,2) by (auto simp: entry_ids_def dest: distinct_map[THEN iffD1] inj_onD)
  have "filter (in_workspace ow ws) out =
      map (adjusted ow ws rs) (filter (\<lambda>r. in_workspace ow ws r \<and> entry_id r \<in> set (entry_ids rs)) rows)"
    unfolding out_def by (induction rows) (auto simp: obsolete_def)
  also have "\<dots> = map (with_parent (new_parents None rs)) (filter (\<lambda>r. in_workspace ow ws r \<and> entry_id r \<in> set (entry_ids rs)) rows)"
    by (rule map_cong) (auto simp: adjusted_def)
  finally have ws: "filter (in_workspace ow ws) out =
      map (with_parent (new_parents None rs)) (filter (\<lambda>r. in_workspace ow ws r \<and> entry_id r \<in> set (entry_ids rs)) rows)" .
  have "set (filter (\<lambda>r. in_workspace ow ws r \<and> entry_id r \<in> set (entry_ids rs)) rows) = set rs"
    using assms(2,3) same by (auto simp: entry_ids_def)
  then show "set (filter (in_workspace ow ws) out) = set (relink None rs)"
    unfolding relink_with_parent[OF assms(4)] ws set_map by (rule arg_cong)
  show "filter (\<lambda>r. \<not> in_workspace ow ws r) out = filter (\<lambda>r. \<not> in_workspace ow ws r) rows"
    unfolding out_def by (induction rows) (auto simp: obsolete_def)
qed

lemma retained_rows:
  assumes "chain_wf es" "set es \<subseteq> set rows" "\<forall>e\<in>set es. in_workspace ow ws e"
  shows "set (retained_history_entries es limit) \<subseteq> set rows" "\<forall>r\<in>set (retained_history_entries es limit). in_workspace ow ws r"
    "distinct (entry_ids (retained_history_entries es limit))" "entry_id (last es) \<in> set (entry_ids (retained_history_entries es limit))"
proof -
  have es: "es \<noteq> []" "distinct (map entry_id es)" using assms(1) by (auto simp: chain_wf_def entry_ids_def)
  show "set (retained_history_entries es limit) \<subseteq> set rows" "\<forall>r\<in>set (retained_history_entries es limit). in_workspace ow ws r"
    "distinct (entry_ids (retained_history_entries es limit))"
    using retained_subset[of es limit] assms(2,3) distinct_retained[OF es(2)] by (auto simp: entry_ids_def)
  have "retained_history_entries es limit \<noteq> []" "last (retained_history_entries es limit) = last es"
    using retained_last[OF es(1), of limit] es(1) by auto
  then have "last es \<in> set (retained_history_entries es limit)" using last_in_set by metis
  then show "entry_id (last es) \<in> set (entry_ids (retained_history_entries es limit))" by (simp add: entry_ids_def)
qed

text \<open>The run of the statements: no foreign key is violated.\<close>

lemma prune_run:
  fixes limit :: nat
  assumes "chain_wf es" "set es \<subseteq> set (db_entries db)" "distinct (entry_ids (db_entries db))"
    and "\<forall>e\<in>set es. in_workspace ow ws e" "own_references db"
    and "map_of (db_state db) (ow, ws) = Some (cursor, entry_id (last es))" "\<And>rows. mset (order rows) = mset rows"
  defines "rs \<equiv> retained_history_entries es limit"
  defines "db1 \<equiv> cascade (entry_id ` set (filter (obsolete ow ws (entry_ids rs)) (db_entries db)))
    (db\<lparr>db_entries := map (adjusted ow ws rs) (filter (\<lambda>r. \<not> obsolete ow ws (entry_ids rs) r) (db_entries db))\<rparr>)"
  shows "prune_postgres_history order ow ws limit db =
      Some (db1\<lparr>db_transitions := delete_transitions ow ws (limit * 2) (db_transitions db1)\<rparr>)"
proof -
  have es: "es \<noteq> []" "linked None es" "distinct (entry_ids es)" using assms(1) by (auto simp: chain_wf_def)
  have "length es \<le> length (db_entries db)"
    using es(3) assms(2,3) by (metis card_mono distinct_card distinct_map entry_ids_def finite_set)
  then have cte: "cte_chain (length (db_entries db)) (db_entries db) (Some (entry_id (last es))) = rev es"
    using cte_chain_linked[of es "db_entries db" "length (db_entries db)"] es assms(2,3) by simp
  have ne: "order (rev es) \<noteq> []" using assms(7)[of "rev es"] es(1) by auto
  have rebuilt: "rebuild_chain (map entry_ref (order (rev es))) = Some (map entry_ref es)"
    using es assms(7)[of "rev es"] by (intro rebuild_chain_any_order) (simp_all add: chain_wf_def)
  note rs = retained_rows[OF assms(1,2,4), of limit, folded rs_def]
  obtain linked where linked: "link_retained ow ws None (map entry_ref rs) (db_entries db) = Some linked"
    "detach_obsolete ow ws (entry_ids rs) linked = map (adjusted ow ws rs) (db_entries db)"
    using linked_and_detached[OF assms(3) rs(1,3), of ow ws] by auto
  have "retained_history_entries (map entry_ref es) limit = map entry_ref rs" by (simp add: retained_ref rs_def)
  then show ?thesis
    using delete_obsolete_rows[OF assms(5,3) rs(1,2)] ne
    by (simp add: prune_postgres_history_def assms(6) cte rebuilt linked db1_def Let_def)
qed

text \<open>
  C27. Pruning the durable history. For a workspace whose active entries form a chain, whatever order
  the database returns them in, and whose cursor is on a retained entry, in a database whose rows refer
  to entries of their own workspace, \<open>prune_postgres_history\<close> violates no foreign key and succeeds. The entries left for the workspace are exactly the retained
  ones, relinked into one complete chain of at most \<open>limit + 2\<close> entries with the same tip; its
  transitions are the newest \<open>2 * limit\<close> of those between retained entries. The state of every workspace
  and the entries and transitions of every other workspace are as they were.
\<close>

theorem prune_postgres_history_correct:
  assumes "chain_wf es" "set es \<subseteq> set (db_entries db)" "distinct (entry_ids (db_entries db))"
    and "\<forall>e\<in>set es. in_workspace ow ws e"
    and "distinct (map fst (db_state db))" "distinct (map ht_id (db_transitions db))" "own_references db"
    and "map_of (db_state db) (ow, ws) = Some (cursor, entry_id (last es))"
    and "cursor \<in> set (entry_ids (retained_history_entries es limit))"
    and "\<And>rows. mset (order rows) = mset rows"
  shows "\<exists>db'. prune_postgres_history order ow ws limit db = Some db'
    \<and> set (filter (in_workspace ow ws) (db_entries db')) = set (relink None (retained_history_entries es limit))
    \<and> filter (\<lambda>r. \<not> in_workspace ow ws r) (db_entries db') = filter (\<lambda>r. \<not> in_workspace ow ws r) (db_entries db)
    \<and> chain_wf (relink None (retained_history_entries es limit))
    \<and> entry_id (last (relink None (retained_history_entries es limit))) = entry_id (last es)
    \<and> length (relink None (retained_history_entries es limit)) \<le> limit + 2
    \<and> db_state db' = db_state db
    \<and> filter (\<lambda>t. \<not> of_workspace ow ws t) (db_transitions db') = filter (\<lambda>t. \<not> of_workspace ow ws t) (db_transitions db)
    \<and> (let kept = filter (\<lambda>t. of_workspace ow ws t \<and> ht_from t \<in> set (entry_ids (retained_history_entries es limit))
             \<and> ht_to t \<in> set (entry_ids (retained_history_entries es limit))) (db_transitions db)
       in filter (of_workspace ow ws) (db_transitions db') = filter (\<lambda>t. ht_id t \<notin> set (older (limit * 2) kept)) kept
          \<and> length (filter (of_workspace ow ws) (db_transitions db')) \<le> limit * 2)"
proof -
  let ?rs = "retained_history_entries es limit"
  let ?gone = "entry_id ` set (filter (obsolete ow ws (entry_ids ?rs)) (db_entries db))"
  let ?rows = "map (adjusted ow ws ?rs) (filter (\<lambda>r. \<not> obsolete ow ws (entry_ids ?rs) r) (db_entries db))"
  let ?db1 = "cascade ?gone (db\<lparr>db_entries := ?rows\<rparr>)"
  let ?kept = "filter (\<lambda>t. of_workspace ow ws t \<and> ht_from t \<in> set (entry_ids ?rs) \<and> ht_to t \<in> set (entry_ids ?rs)) (db_transitions db)"
  note rs = retained_rows[OF assms(1,2,4), of limit]
  note parts = cascade_parts[OF assms(7,3,5,8,9) rs(4)] and rows = pruned_entries[OF assms(3) rs(1-3)]
  define db' where "db' = ?db1\<lparr>db_transitions := delete_transitions ow ws (limit * 2) (db_transitions ?db1)\<rparr>"
  have run: "prune_postgres_history order ow ws limit db = Some db'" unfolding db'_def by (rule prune_run[OF assms(1-4,7,8,10)])
  have d1: "db_entries db' = ?rows" "db_state db' = db_state db"
    "db_transitions db' = delete_transitions ow ws (limit * 2) (db_transitions (cascade ?gone db))"
    using parts(1) by (simp_all add: db'_def cascade_def)
  have "distinct (map ht_id (db_transitions (cascade ?gone db)))" using assms(6) by (simp add: cascade_def distinct_map_filter)
  note old = delete_transitions_parts[OF this, of ow ws "limit * 2", unfolded parts]
  have new: "length (filter (\<lambda>t. ht_id t \<notin> set (older (limit * 2) ?kept)) ?kept) \<le> limit * 2"
    by (rule newest_length) (rule distinct_map_filter[OF assms(6)])
  have es: "es \<noteq> []" using assms(1) by (simp add: chain_wf_def)
  have last_id: "entry_id (last (relink prev xs)) = entry_id (last xs)" if "xs \<noteq> []" for xs :: "history_row list" and prev
    using that by (induction xs arbitrary: prev) auto
  have chain: "chain_wf (relink None ?rs)" "entry_id (last (relink None ?rs)) = entry_id (last es)" "length (relink None ?rs) \<le> limit + 2"
    using es rs(3) retained_last[OF es, of limit] retained_length[of es limit] last_id[of ?rs] by (simp_all add: chain_wf_def)
  show ?thesis unfolding Let_def
    by (rule exI[of _ db'], intro conjI) (simp_all only: run d1 rows chain old new)
qed

theorem prune_postgres_history_correct_witness:
  "\<exists>db'. prune_postgres_history rev ''o'' ''w'' 1
     \<lparr>db_entries = [\<lparr>entry_id = 4, parent_id = Some 3, operation_group_id = None, row_owner = ''o'', row_workspace = ''w''\<rparr>,
        \<lparr>entry_id = 3, parent_id = Some 2, operation_group_id = None, row_owner = ''o'', row_workspace = ''w''\<rparr>,
        \<lparr>entry_id = 2, parent_id = Some 1, operation_group_id = None, row_owner = ''o'', row_workspace = ''w''\<rparr>,
        \<lparr>entry_id = 1, parent_id = None, operation_group_id = None, row_owner = ''o'', row_workspace = ''w''\<rparr>],
      db_state = [((''o'', ''w''), 4, 4)],
      db_transitions = [\<lparr>ht_id = 1, ht_owner = ''o'', ht_workspace = ''w'', ht_from = 2, ht_to = 1\<rparr>]\<rparr> = Some db'
   \<and> db_state db' = [((''o'', ''w''), 4, 4)] \<and> filter (of_workspace ''o'' ''w'') (db_transitions db') = []"
  (is "\<exists>db'. prune_postgres_history rev ''o'' ''w'' 1 ?db = Some db' \<and> _")
proof -
  let ?es = "rev (db_entries ?db)"
  have retained: "entry_ids (retained_history_entries ?es 1) = [1, 3, 4]" by code_simp
  have w: "chain_wf ?es" "set ?es \<subseteq> set (db_entries ?db)" "distinct (entry_ids (db_entries ?db))"
    "\<forall>e\<in>set ?es. in_workspace ''o'' ''w'' e" "distinct (map fst (db_state ?db))" "distinct (map ht_id (db_transitions ?db))"
    "map_of (db_state ?db) (''o'', ''w'') = Some (4, entry_id (last ?es))"
    by (auto simp: chain_wf_def in_workspace_def)
  have "own_references ?db" by (auto simp: own_references_def entry_of_def in_workspace_def)
  from prune_postgres_history_correct[OF w(1-6) this w(7), of 1 rev] retained show ?thesis by (auto simp: of_workspace_def)
qed

end
