(* ===== verification/Json_Delta.thy ===== *)
theory Json_Delta
  imports Json_Value
begin

text \<open>
  Structural deltas between JSON documents: \<open>common/json_delta.py\<close> computes them for the undo and
  redo previews of the design history, \<open>common/web/assets/json-delta.js\<close> applies them in the
  browser. The lists the Python code appends to are returned (\<open>append_delta\<close> yields the operations
  \<open>_append_delta\<close> appends); a thrown JavaScript error is \<^const>\<open>None\<close>.
\<close>

section \<open>Computing a delta\<close>

datatype seg = Key string | Idx nat

datatype delta_op =
    OpRemove "seg list"
  | OpAdd "seg list" json
  | OpReplace "seg list" json

fun is_object :: "json \<Rightarrow> bool" where
  "is_object (JObj _) = True"
| "is_object _ = False"

fun is_string :: "json \<Rightarrow> bool" where
  "is_string (JStr _) = True"
| "is_string _ = False"

text \<open>\<open>value.get("id")\<close>; an absent key and a non-object give \<^const>\<open>None\<close>.\<close>

fun get_id :: "json \<Rightarrow> json option" where
  "get_id (JObj kvs) = map_of kvs ''id''"
| "get_id _ = None"

definition has_stable_object_ids :: "json list \<Rightarrow> bool" where
  "has_stable_object_ids values =
     (let ids = map get_id (filter is_object values) in
      length ids = length values
      \<and> (\<forall>v\<in>set ids. case v of None \<Rightarrow> False | Some w \<Rightarrow> is_string w)
      \<and> distinct ids)"

text \<open>\<open>sorted(before.keys() - after.keys())\<close> and its two companions.\<close>

definition removed_keys :: "(string, json) dict \<Rightarrow> (string, json) dict \<Rightarrow> string list" where
  "removed_keys bs as = sorted_set (filter (\<lambda>k. k \<notin> set (map fst as)) (map fst bs))"

definition added_keys :: "(string, json) dict \<Rightarrow> (string, json) dict \<Rightarrow> string list" where
  "added_keys bs as = sorted_set (filter (\<lambda>k. k \<notin> set (map fst bs)) (map fst as))"

definition shared_keys :: "(string, json) dict \<Rightarrow> (string, json) dict \<Rightarrow> string list" where
  "shared_keys bs as = sorted_set (filter (\<lambda>k. k \<in> set (map fst as)) (map fst bs))"

text \<open>The first loop of \<open>_append_identified_list_delta\<close>: it walks the indices downwards.\<close>

fun remove_stale :: "json option list \<Rightarrow> seg list \<Rightarrow> nat \<Rightarrow> json list \<Rightarrow> delta_op list \<times> json list" where
  "remove_stale desired path 0 working = ([], working)"
| "remove_stale desired path (Suc i) working =
     (if get_id (working ! i) \<in> set desired then remove_stale desired path i working
      else (case remove_stale desired path i (pop_at i working) of
              (ops, w) \<Rightarrow> (OpRemove (path @ [Idx i]) # ops, w)))"

lemma size_json_enumerate:
  "iba \<in> set (enumerate n (zip bs as)) \<Longrightarrow> size (snd (snd iba)) < size (JList as)"
  by (metis enumerate_eq_zip in_set_zipE prod.collapse set_zip_rightD size_json_member)

lemma size_json_head: "Suc (2 * size x) < 2 * size (JList (x # xs))"
  by simp

function append_delta :: "json \<Rightarrow> json \<Rightarrow> seg list \<Rightarrow> delta_op list"
  and identified_loop :: "json list \<Rightarrow> nat \<Rightarrow> json list \<Rightarrow> seg list \<Rightarrow> delta_op list" where
  "append_delta before after path =
     (if py_eq before after then []
      else case before of
        JObj bs \<Rightarrow>
          (case after of
             JObj as \<Rightarrow>
               map (\<lambda>k. OpRemove (path @ [Key k])) (removed_keys bs as)
               @ concat (map (\<lambda>k. case map_of as k of None \<Rightarrow> [] | Some v \<Rightarrow> [OpAdd (path @ [Key k]) v])
                   (added_keys bs as))
               @ concat (map (\<lambda>k. case map_of bs k of None \<Rightarrow> []
                     | Some b \<Rightarrow> (case map_of as k of None \<Rightarrow> [] | Some a \<Rightarrow> append_delta b a (path @ [Key k])))
                   (shared_keys bs as))
           | _ \<Rightarrow> [OpReplace path after])
      | JList bs \<Rightarrow>
          (case after of
             JList as \<Rightarrow>
               if has_stable_object_ids bs \<and> has_stable_object_ids as then
                 (case remove_stale (map get_id as) path (length bs) bs of
                    (ops, working) \<Rightarrow> ops @ identified_loop working 0 as path)
               else if length bs = length as then
                 concat (map (\<lambda>iba. append_delta (fst (snd iba)) (snd (snd iba)) (path @ [Idx (fst iba)]))
                   (enumerate 0 (zip bs as)))
               else [OpReplace path after]
           | _ \<Rightarrow> [OpReplace path after])
      | _ \<Rightarrow> [OpReplace path after])"
| "identified_loop working target_index [] path = []"
| "identified_loop working target_index (target # rest) path =
     (case index_where (\<lambda>v. get_id v = get_id target) working of
        None \<Rightarrow>
          OpAdd (path @ [Idx target_index]) target
          # identified_loop (insert_at target_index target working) (Suc target_index) rest path
      | Some current_index \<Rightarrow>
          if current_index \<noteq> target_index then
            OpRemove (path @ [Idx current_index]) # OpAdd (path @ [Idx target_index]) target
            # identified_loop (insert_at target_index target (pop_at current_index working))
                (Suc target_index) rest path
          else
            append_delta (working ! target_index) target (path @ [Idx target_index])
            @ identified_loop (working[target_index := target]) (Suc target_index) rest path)"
  by pat_completeness auto
termination
  by (relation "measure (case_sum (\<lambda>(b, a, p). 2 * size a + 1) (\<lambda>(w, t, r, p). 2 * size (JList r)))")
    (auto simp: size_json_enumerate size_json_head simp del: json.size)

definition json_delta :: "json \<Rightarrow> json \<Rightarrow> delta_op list" where
  "json_delta before after = append_delta before after []"

section \<open>Applying a delta\<close>

definition unsafe_keys :: "string list" where
  "unsafe_keys = [''__proto__'', ''constructor'', ''prototype'']"

fun assert_segment :: "seg \<Rightarrow> bool" where
  "assert_segment (Idx n) = (n < 2 ^ 53)"
| "assert_segment (Key k) = (k \<notin> set unsafe_keys)"

fun property_name :: "seg \<Rightarrow> string" where
  "property_name (Key k) = k"
| "property_name (Idx n) = nat_str n"

text \<open>
  \<open>parent[segment]\<close> for a segment that is \<open>in\<close> the parent. A number indexes an object by its
  decimal name, a decimal name indexes an array.
\<close>

fun array_index :: "nat \<Rightarrow> seg \<Rightarrow> nat option" where
  "array_index len (Idx n) = (if n < len then Some n else None)"
| "array_index len (Key k) = List.find (\<lambda>i. nat_str i = k) [0..<len]"

fun js_child :: "json \<Rightarrow> seg \<Rightarrow> json option" where
  "js_child (JObj kvs) s = map_of kvs (property_name s)"
| "js_child (JList xs) s = map_option (\<lambda>i. xs ! i) (array_index (length xs) s)"
| "js_child _ s = None"

fun js_set_child :: "json \<Rightarrow> seg \<Rightarrow> json \<Rightarrow> json" where
  "js_set_child (JObj kvs) s v = JObj (AList.update (property_name s) v kvs)"
| "js_set_child (JList xs) s v =
     (case array_index (length xs) s of None \<Rightarrow> JList xs | Some i \<Rightarrow> JList (xs[i := v]))"
| "js_set_child j s v = j"

text \<open>\<open>parentAt\<close> walks to the parent, which the caller then mutates in place.\<close>

fun modify_at :: "seg list \<Rightarrow> (json \<Rightarrow> json option) \<Rightarrow> json \<Rightarrow> json option" where
  "modify_at [] f j = f j"
| "modify_at (s # ss) f j =
     (if assert_segment s then
        (case js_child j s of None \<Rightarrow> None
         | Some c \<Rightarrow> (case modify_at ss f c of None \<Rightarrow> None | Some c' \<Rightarrow> Some (js_set_child j s c')))
      else None)"

fun op_path :: "delta_op \<Rightarrow> seg list" where
  "op_path (OpRemove p) = p"
| "op_path (OpAdd p v) = p"
| "op_path (OpReplace p v) = p"

fun apply_in_parent :: "delta_op \<Rightarrow> seg \<Rightarrow> json \<Rightarrow> json option" where
  "apply_in_parent op key (JList xs) =
     (case key of Key _ \<Rightarrow> None
      | Idx n \<Rightarrow>
          if length xs < n then None
          else (case op of
              OpAdd _ v \<Rightarrow> Some (JList (insert_at n v xs))
            | OpRemove _ \<Rightarrow> if n < length xs then Some (JList (pop_at n xs)) else None
            | OpReplace _ v \<Rightarrow> if n < length xs then Some (JList (xs[n := v])) else None))"
| "apply_in_parent op key (JObj kvs) =
     (case op of
        OpRemove _ \<Rightarrow> Some (JObj (AList.delete (property_name key) kvs))
      | OpAdd _ v \<Rightarrow> Some (JObj (AList.update (property_name key) v kvs))
      | OpReplace _ v \<Rightarrow> Some (JObj (AList.update (property_name key) v kvs)))"
| "apply_in_parent op key _ = None"

definition apply_op :: "json \<Rightarrow> delta_op \<Rightarrow> json option" where
  "apply_op doc op =
     (if op_path op = [] then
        (case op of OpRemove _ \<Rightarrow> None | OpAdd _ v \<Rightarrow> Some v | OpReplace _ v \<Rightarrow> Some v)
      else if assert_segment (last (op_path op)) then
        modify_at (butlast (op_path op)) (apply_in_parent op (last (op_path op))) doc
      else None)"

fun apply_json_delta :: "json \<Rightarrow> delta_op list \<Rightarrow> json option" where
  "apply_json_delta value [] = Some value"
| "apply_json_delta value (op # ops) =
     (case apply_op value op of None \<Rightarrow> None | Some v \<Rightarrow> apply_json_delta v ops)"

text \<open>
  Documents whose keys and indices the browser accepts: no key is one of the prototype-polluting
  names and no array is longer than the largest safe integer.
\<close>

fun js_safe :: "json \<Rightarrow> bool" where
  "js_safe (JList xs) = (length xs < 2 ^ 53 \<and> (\<forall>x\<in>set xs. js_safe x))"
| "js_safe (JObj kvs) = (\<forall>kv\<in>set kvs. fst kv \<notin> set unsafe_keys \<and> js_safe (snd kv))"
| "js_safe _ = True"

section \<open>Shapes of a delta\<close>

declare append_delta.simps [simp del] py_eq.simps(9) [simp del]

lemma append_delta_equal [simp]: "py_eq b a \<Longrightarrow> append_delta b a p = []"
  by (simp add: append_delta.simps)

lemma append_delta_objects:
  "\<not> py_eq (JObj bs) (JObj as) \<Longrightarrow> append_delta (JObj bs) (JObj as) p =
     map (\<lambda>k. OpRemove (p @ [Key k])) (removed_keys bs as)
     @ concat (map (\<lambda>k. case map_of as k of None \<Rightarrow> [] | Some v \<Rightarrow> [OpAdd (p @ [Key k]) v]) (added_keys bs as))
     @ concat (map (\<lambda>k. case map_of bs k of None \<Rightarrow> []
           | Some b \<Rightarrow> (case map_of as k of None \<Rightarrow> [] | Some a \<Rightarrow> append_delta b a (p @ [Key k])))
         (shared_keys bs as))"
  by (subst append_delta.simps) (auto simp del: py_eq.simps)

lemma append_delta_identified:
  "\<not> py_eq (JList bs) (JList as) \<Longrightarrow> has_stable_object_ids bs \<Longrightarrow> has_stable_object_ids as \<Longrightarrow>
   append_delta (JList bs) (JList as) p =
     (case remove_stale (map get_id as) p (length bs) bs of
        (ops, working) \<Rightarrow> ops @ identified_loop working 0 as p)"
  by (subst append_delta.simps) (auto simp del: py_eq.simps)

lemma append_delta_positional:
  "\<not> py_eq (JList bs) (JList as) \<Longrightarrow> \<not> (has_stable_object_ids bs \<and> has_stable_object_ids as) \<Longrightarrow>
   length bs = length as \<Longrightarrow>
   append_delta (JList bs) (JList as) p =
     concat (map (\<lambda>iba. append_delta (fst (snd iba)) (snd (snd iba)) (p @ [Idx (fst iba)]))
       (enumerate 0 (zip bs as)))"
  by (subst append_delta.simps) (auto simp del: py_eq.simps)

fun comparable :: "json \<Rightarrow> json \<Rightarrow> bool" where
  "comparable (JObj bs) (JObj as) = True"
| "comparable (JList bs) (JList as) =
     ((has_stable_object_ids bs \<and> has_stable_object_ids as) \<or> length bs = length as)"
| "comparable _ _ = False"

lemma append_delta_replace:
  "\<not> py_eq b a \<Longrightarrow> \<not> comparable b a \<Longrightarrow> append_delta b a p = [OpReplace p a]"
  by (subst append_delta.simps) (auto split: json.splits)

lemmas append_delta_cases = append_delta_objects append_delta_identified append_delta_positional
  append_delta_replace

section \<open>Displacing operations below a segment\<close>

fun prefix_op :: "seg list \<Rightarrow> delta_op \<Rightarrow> delta_op" where
  "prefix_op p (OpRemove q) = OpRemove (p @ q)"
| "prefix_op p (OpAdd q v) = OpAdd (p @ q) v"
| "prefix_op p (OpReplace q v) = OpReplace (p @ q) v"

lemma remove_stale_prefix:
  "remove_stale desired (p @ q) n w =
     map_prod (map (prefix_op p)) id (remove_stale desired q n w)"
  by (induction desired q n w rule: remove_stale.induct) (auto split: prod.splits)

lemma mem_shared_keys [simp]: "k \<in> set (shared_keys bs as) \<longleftrightarrow> k \<in> fst ` set bs \<and> k \<in> fst ` set as"
  and mem_added_keys [simp]: "k \<in> set (added_keys bs as) \<longleftrightarrow> k \<notin> fst ` set bs \<and> k \<in> fst ` set as"
  and mem_removed_keys [simp]: "k \<in> set (removed_keys bs as) \<longleftrightarrow> k \<in> fst ` set bs \<and> k \<notin> fst ` set as"
  by (auto simp: shared_keys_def added_keys_def removed_keys_def)

lemma delta_shapes:
  obtains (obj) bs as where "b = JObj bs" "a = JObj as"
    | (ident) bs as where "b = JList bs" "a = JList as"
        "has_stable_object_ids bs" "has_stable_object_ids as"
    | (pos) bs as where "b = JList bs" "a = JList as" "length bs = length as"
        "\<not> (has_stable_object_ids bs \<and> has_stable_object_ids as)"
    | (rep) "\<not> comparable b a"
  by (cases b; cases a) auto

lemma delta_prefix:
  "append_delta b a (p @ q) = map (prefix_op p) (append_delta b a q)"
  "identified_loop w t r (p @ q) = map (prefix_op p) (identified_loop w t r q)"
proof (induction b a q and w t r q rule: append_delta_identified_loop.induct)
  case (1 before after path)
  show ?case
  proof (cases "py_eq before after")
    case True
    then show ?thesis by simp
  next
    case neq: False
    note IH = "1.IH"[OF neq]
    show ?thesis
    proof (cases before after rule: delta_shapes)
      case (obj bs as)
      have IHk: "append_delta b a (p @ path @ [Key k]) = map (prefix_op p) (append_delta b a (path @ [Key k]))"
        if "k \<in> set (shared_keys bs as)" "map_of bs k = Some b" "map_of as k = Some a" for k b a
        using IH(3)[OF obj that] by simp
      show ?thesis
        using neq IHk unfolding obj
        by (auto simp: append_delta_objects map_concat comp_def split: option.splits
            intro!: arg_cong2[where f="(@)"] arg_cong[where f=concat] map_cong)
    next
      case (ident bs as)
      obtain ops w' where r: "remove_stale (map get_id as) path (length bs) bs = (ops, w')"
        by fastforce
      show ?thesis
        using neq IH(1)[OF ident(1,2) _ r[symmetric]] ident(3,4) unfolding ident(1,2)
        by (simp add: append_delta_identified remove_stale_prefix r)
    next
      case (pos bs as)
      then show ?thesis
        using neq IH(2)[OF pos(1,2)] 
        by (auto simp: append_delta_positional map_concat comp_def intro!: arg_cong[where f=concat] map_cong)
    next
      case rep
      then show ?thesis using neq by (simp add: append_delta_replace)
    qed
  qed
next
  case (3 working target_index target rest path)
  then show ?case by (auto split: option.splits)
qed auto

text \<open>Only \<open>replace\<close> is ever emitted for the very value the delta starts from.\<close>

fun inner_op :: "delta_op \<Rightarrow> bool" where
  "inner_op (OpReplace p v) = True"
| "inner_op (OpRemove p) = (p \<noteq> [])"
| "inner_op (OpAdd p v) = (p \<noteq> [])"

lemma inner_remove_stale: "\<forall>op\<in>set (fst (remove_stale desired p n w)). inner_op op"
  by (induction desired p n w rule: remove_stale.induct) (auto split: prod.splits)

lemma inner_delta:
  "\<forall>op\<in>set (append_delta b a q). inner_op op"
  "\<forall>op\<in>set (identified_loop w t r q). inner_op op"
proof (induction b a q and w t r q rule: append_delta_identified_loop.induct)
  case (1 before after path)
  show ?case
  proof (cases "py_eq before after")
    case True
    then show ?thesis by simp
  next
    case neq: False
    note IH = "1.IH"[OF neq]
    show ?thesis
    proof (cases before after rule: delta_shapes)
      case (obj bs as)
      have "inner_op op" if "k \<in> set (shared_keys bs as)" "Some b = map_of bs k" "Some a = map_of as k"
          "op \<in> set (append_delta b a (path @ [Key k]))" for k b a op
        using IH(3)[OF obj that(1) that(2,3)[symmetric]] that(4) by blast
      with neq show ?thesis unfolding obj
        by (auto simp: append_delta_objects simp del: mem_shared_keys split: option.splits)
    next
      case (ident bs as)
      obtain ops w' where r: "remove_stale (map get_id as) path (length bs) bs = (ops, w')"
        by fastforce
      show ?thesis
        using neq IH(1)[OF ident(1,2) _ r[symmetric]] ident(3,4)
          inner_remove_stale[of "map get_id as" path "length bs" bs] unfolding ident(1,2)
        by (auto simp: append_delta_identified r)
    next
      case (pos bs as)
      then show ?thesis
        using neq IH(2)[OF pos(1,2)] by (auto simp: append_delta_positional)
    next
      case rep
      then show ?thesis using neq by (simp add: append_delta_replace)
    qed
  qed
next
  case (3 working target_index target rest path)
  then show ?case by (auto split: option.splits)
qed auto

text \<open>A segment that names an existing member in the member's own notation.\<close>

fun member_seg :: "json \<Rightarrow> seg \<Rightarrow> bool" where
  "member_seg (JObj kvs) (Key k) = (map_of kvs k \<noteq> None)"
| "member_seg (JList xs) (Idx n) = (n < length xs)"
| "member_seg _ _ = False"

lemma update_same: "map_of kvs k = Some v \<Longrightarrow> AList.update k v kvs = kvs"
  by (induction kvs) auto

lemma js_set_same: "member_seg j s \<Longrightarrow> js_child j s = Some c \<Longrightarrow> js_set_child j s c = j"
  by (cases j; cases s) (auto simp: update_same)

lemma js_child_set [simp]: "member_seg j s \<Longrightarrow> js_child (js_set_child j s v) s = Some v"
  by (cases j; cases s) auto

lemma member_seg_set [simp]: "member_seg j s \<Longrightarrow> member_seg (js_set_child j s v) s"
  by (cases j; cases s) auto

lemma js_set_set [simp]:
  "member_seg j s \<Longrightarrow> js_set_child (js_set_child j s v) s w = js_set_child j s w"
  by (cases j; cases s) auto

lemma op_path_prefix [simp]: "op_path (prefix_op p op) = p @ op_path op"
  by (cases op) auto

lemma apply_in_parent_prefix [simp]: "apply_in_parent (prefix_op p op) = apply_in_parent op"
proof (intro ext)
  fix s j
  show "apply_in_parent (prefix_op p op) s j = apply_in_parent op s j"
    by (cases j; cases op; cases s) auto
qed

lemma apply_op_prefix:
  assumes "member_seg j s" "assert_segment s" "js_child j s = Some c" "inner_op op" "apply_op c op = Some c'"
  shows "apply_op j (prefix_op [s] op) = Some (js_set_child j s c')"
proof (cases "op_path op = []")
  case True
  with assms(4,5) obtain v where "op = OpReplace [] v" "c' = v"
    by (cases op) (auto simp: apply_op_def)
  with assms(1,2) show ?thesis by (cases j; cases s) (auto simp: apply_op_def)
next
  case False
  with assms show ?thesis by (auto simp: apply_op_def split: if_splits)
qed

lemma apply_delta_prefix:
  assumes "member_seg j s" "assert_segment s" "js_child j s = Some c"
    and "\<forall>op\<in>set ops. inner_op op" "apply_json_delta c ops = Some c'"
  shows "apply_json_delta j (map (prefix_op [s]) ops) = Some (js_set_child j s c')"
  using assms
proof (induction ops arbitrary: j c)
  case Nil
  then show ?case by (simp add: js_set_same)
next
  case (Cons op ops)
  from Cons.prems(5) obtain c1 where c1: "apply_op c op = Some c1" "apply_json_delta c1 ops = Some c'"
    by (auto split: option.splits)
  have "apply_op j (prefix_op [s] op) = Some (js_set_child j s c1)"
    using Cons.prems c1(1) by (intro apply_op_prefix) auto
  moreover have "apply_json_delta (js_set_child j s c1) (map (prefix_op [s]) ops)
      = Some (js_set_child (js_set_child j s c1) s c')"
    using Cons.prems c1(2) by (intro Cons.IH) auto
  ultimately show ?case using Cons.prems(1) by simp
qed

lemma apply_delta_append:
  "apply_json_delta j (xs @ ys) =
     (case apply_json_delta j xs of None \<Rightarrow> None | Some k \<Rightarrow> apply_json_delta k ys)"
  by (induction xs arbitrary: j) (auto split: option.splits)

text \<open>A sub-delta below one member replaces that member by the sub-delta's result.\<close>

lemma apply_sub_delta:
  assumes "member_seg j s" "assert_segment s" "js_child j s = Some b"
    and "apply_json_delta b (append_delta b a []) = Some r"
  shows "apply_json_delta j (append_delta b a [s]) = Some (js_set_child j s r)"
proof -
  have "append_delta b a [s] = map (prefix_op [s]) (append_delta b a [])"
    using delta_prefix(1)[of b a "[s]" "[]"] by simp
  with apply_delta_prefix[OF assms(1-3) inner_delta(1) assms(4)] show ?thesis by simp
qed


section \<open>The round trip\<close>

definition patches :: "json \<Rightarrow> json \<Rightarrow> bool" where
  "patches b a = (\<exists>r. apply_json_delta b (append_delta b a []) = Some r \<and> py_eq r a)"

definition safe_key :: "string \<Rightarrow> bool" where
  "safe_key k = (k \<notin> set unsafe_keys)"

lemma apply_removes:
  assumes "dict_wf kvs" "\<forall>k\<in>set ks. safe_key k"
  shows "\<exists>kvs'. apply_json_delta (JObj kvs) (map (\<lambda>k. OpRemove [Key k]) ks) = Some (JObj kvs') \<and> dict_wf kvs'
    \<and> map_of kvs' = (\<lambda>k. if k \<in> set ks then None else map_of kvs k)"
  using assms
proof (induction ks arbitrary: kvs)
  case Nil
  then show ?case by simp
next
  case (Cons k ks)
  have "apply_op (JObj kvs) (OpRemove [Key k]) = Some (JObj (AList.delete k kvs))"
    using Cons.prems by (simp add: apply_op_def safe_key_def)
  with Cons.IH[of "AList.delete k kvs"] Cons.prems show ?case by (auto simp: fun_eq_iff)
qed

lemma apply_adds:
  assumes "dict_wf kvs" "\<forall>k\<in>set ks. safe_key k \<and> map_of as k \<noteq> None"
  shows "\<exists>kvs'. apply_json_delta (JObj kvs)
      (concat (map (\<lambda>k. case map_of as k of None \<Rightarrow> [] | Some v \<Rightarrow> [OpAdd [Key k] v]) ks)) = Some (JObj kvs')
    \<and> dict_wf kvs' \<and> map_of kvs' = (\<lambda>k. if k \<in> set ks then map_of as k else map_of kvs k)"
  using assms
proof (induction ks arbitrary: kvs)
  case Nil
  then show ?case by simp
next
  case (Cons k ks)
  then obtain v where v: "map_of as k = Some v" by auto
  have "apply_op (JObj kvs) (OpAdd [Key k] v) = Some (JObj (AList.update k v kvs))"
    using Cons.prems by (simp add: apply_op_def safe_key_def)
  with v Cons.IH[of "AList.update k v kvs"] Cons.prems show ?case by (auto simp: fun_eq_iff)
qed

lemma apply_shared:
  assumes "dict_wf kvs" "distinct ks"
    and "\<forall>k\<in>set ks. safe_key k \<and> map_of kvs k = map_of bs k
       \<and> (\<exists>b a. map_of bs k = Some b \<and> map_of as k = Some a \<and> patches b a)"
  shows "\<exists>kvs'. apply_json_delta (JObj kvs)
      (concat (map (\<lambda>k. case map_of bs k of None \<Rightarrow> []
           | Some b \<Rightarrow> (case map_of as k of None \<Rightarrow> [] | Some a \<Rightarrow> append_delta b a [Key k])) ks)) = Some (JObj kvs')
    \<and> dict_wf kvs' \<and> (\<forall>k. if k \<in> set ks then rel_option py_eq (map_of kvs' k) (map_of as k)
                        else map_of kvs' k = map_of kvs k)"
  using assms
proof (induction ks arbitrary: kvs)
  case Nil
  then show ?case by simp
next
  case (Cons k ks)
  then obtain b a r where k: "map_of bs k = Some b" "map_of as k = Some a" "map_of kvs k = Some b"
      "apply_json_delta b (append_delta b a []) = Some r" "py_eq r a"
    by (fastforce simp: patches_def)
  have "apply_json_delta (JObj kvs) (append_delta b a [Key k]) = Some (js_set_child (JObj kvs) (Key k) r)"
    using k Cons.prems by (intro apply_sub_delta) (auto simp: safe_key_def)
  then have step: "apply_json_delta (JObj kvs) (append_delta b a [Key k]) = Some (JObj (AList.update k r kvs))"
    by simp
  obtain kvs' where kvs': "apply_json_delta (JObj (AList.update k r kvs))
      (concat (map (\<lambda>k. case map_of bs k of None \<Rightarrow> []
           | Some b \<Rightarrow> (case map_of as k of None \<Rightarrow> [] | Some a \<Rightarrow> append_delta b a [Key k])) ks)) = Some (JObj kvs')"
      "dict_wf kvs'" "\<And>l. if l \<in> set ks then rel_option py_eq (map_of kvs' l) (map_of as l)
                        else map_of kvs' l = map_of (AList.update k r kvs) l"
    using Cons.IH[of "AList.update k r kvs"] Cons.prems by force
  show ?case
  proof (intro exI conjI allI)
    show "apply_json_delta (JObj kvs)
      (concat (map (\<lambda>k. case map_of bs k of None \<Rightarrow> []
           | Some b \<Rightarrow> (case map_of as k of None \<Rightarrow> [] | Some a \<Rightarrow> append_delta b a [Key k])) (k # ks))) = Some (JObj kvs')"
      using step kvs'(1) k by (simp add: apply_delta_append)
    show "dict_wf kvs'" by fact
    show "if l \<in> set (k # ks) then rel_option py_eq (map_of kvs' l) (map_of as l)
          else map_of kvs' l = map_of kvs l" for l
      using kvs'(3)[of l] k Cons.prems by (auto split: if_splits)
  qed
qed

lemma safe_member: "js_safe (JObj kvs) \<Longrightarrow> k \<in> fst ` set kvs \<Longrightarrow> safe_key k"
  by (auto simp: safe_key_def)

lemma patches_objects:
  assumes "json_wf (JObj bs)" "json_wf (JObj as)" "js_safe (JObj bs)" "js_safe (JObj as)"
    and "\<And>k b a. map_of bs k = Some b \<Longrightarrow> map_of as k = Some a \<Longrightarrow> patches b a"
  shows "patches (JObj bs) (JObj as)"
proof (cases "py_eq (JObj bs) (JObj as)")
  case True
  then show ?thesis by (simp add: patches_def)
next
  case False
  have wf: "dict_wf bs" "dict_wf as" using assms(1,2) by (auto simp: dict_wf_def)
  have "\<forall>k\<in>set (removed_keys bs as). safe_key k" using safe_member[OF assms(3)] by auto
  from apply_removes[OF wf(1) this] obtain k1 where
    k1: "apply_json_delta (JObj bs) (map (\<lambda>k. OpRemove [Key k]) (removed_keys bs as)) = Some (JObj k1)"
      "dict_wf k1" "map_of k1 = (\<lambda>k. if k \<in> set (removed_keys bs as) then None else map_of bs k)"
    by blast
  have "\<forall>k\<in>set (added_keys bs as). safe_key k \<and> map_of as k \<noteq> None"
    using safe_member[OF assms(4)] by (auto simp: map_of_eq_None_iff)
  from apply_adds[OF k1(2) this] obtain k2 where
    k2: "apply_json_delta (JObj k1)
        (concat (map (\<lambda>k. case map_of as k of None \<Rightarrow> [] | Some v \<Rightarrow> [OpAdd [Key k] v]) (added_keys bs as))) = Some (JObj k2)"
      "dict_wf k2" "map_of k2 = (\<lambda>k. if k \<in> set (added_keys bs as) then map_of as k else map_of k1 k)"
    by blast
  have "distinct (shared_keys bs as)" by (simp add: shared_keys_def)
  moreover have "\<forall>k\<in>set (shared_keys bs as). safe_key k \<and> map_of k2 k = map_of bs k
       \<and> (\<exists>b a. map_of bs k = Some b \<and> map_of as k = Some a \<and> patches b a)"
  proof
    fix k assume k: "k \<in> set (shared_keys bs as)"
    then obtain b a where "map_of bs k = Some b" "map_of as k = Some a"
      by (metis map_of_eq_None_iff mem_shared_keys not_None_eq)
    with assms(5) k safe_member[OF assms(3)] show "safe_key k \<and> map_of k2 k = map_of bs k
       \<and> (\<exists>b a. map_of bs k = Some b \<and> map_of as k = Some a \<and> patches b a)"
      by (auto simp: k1(3) k2(3))
  qed
  ultimately obtain k3 where
    k3: "apply_json_delta (JObj k2)
      (concat (map (\<lambda>k. case map_of bs k of None \<Rightarrow> []
           | Some b \<Rightarrow> (case map_of as k of None \<Rightarrow> [] | Some a \<Rightarrow> append_delta b a [Key k])) (shared_keys bs as)))
        = Some (JObj k3)"
      "dict_wf k3" "\<And>k. if k \<in> set (shared_keys bs as) then rel_option py_eq (map_of k3 k) (map_of as k)
                        else map_of k3 k = map_of k2 k"
    using apply_shared[OF k2(2)] by blast
  have "rel_option py_eq (map_of k3 k) (map_of as k)" for k
  proof (cases "k \<in> set (shared_keys bs as)")
    case True
    with k3(3)[of k] show ?thesis by simp
  next
    case notin: False
    have "rel_option py_eq (map_of as k) (map_of as k)"
      using assms(2) by (cases "map_of as k") (fastforce dest!: map_of_SomeD intro: py_eq_refl)+
    moreover have "map_of k3 k = map_of as k"
      using k3(3)[of k] notin
      by (cases "map_of bs k"; cases "map_of as k")
        (simp_all add: k2(3) k1(3) map_of_eq_None_iff flip: map_of_eq_None_iff)
    ultimately show ?thesis by simp
  qed
  then have "py_eq (JObj k3) (JObj as)"
    using k3(2) wf(2) by (intro py_eq_objI) (auto simp: dict_wf_def)
  with False k1(1) k2(1) k3(1) show ?thesis
    by (simp add: patches_def append_delta_objects apply_delta_append cong: option.case_cong map_cong)
qed


lemma patches_positions:
  assumes "list_all2 patches bs as" "length done + length bs < 2 ^ 53"
  shows "\<exists>rs. apply_json_delta (JList (done @ bs))
      (concat (map (\<lambda>iba. append_delta (fst (snd iba)) (snd (snd iba)) [Idx (fst iba)])
        (enumerate (length done) (zip bs as)))) = Some (JList (done @ rs))
    \<and> list_all2 py_eq rs as"
  using assms
proof (induction bs as arbitrary: "done" rule: list_all2_induct)
  case Nil
  then show ?case by simp
next
  case (Cons b bs a as)
  then obtain r where r: "apply_json_delta b (append_delta b a []) = Some r" "py_eq r a"
    by (auto simp: patches_def)
  have "apply_json_delta (JList (done @ b # bs)) (append_delta b a [Idx (length done)])
      = Some (js_set_child (JList (done @ b # bs)) (Idx (length done)) r)"
    using r Cons.prems by (intro apply_sub_delta) auto
  then have "apply_json_delta (JList (done @ b # bs)) (append_delta b a [Idx (length done)])
      = Some (JList ((done @ [r]) @ bs))"
    by simp
  with Cons.IH[of "done @ [r]"] Cons.prems r(2) show ?case
    by (auto simp: apply_delta_append)
qed

lemma remove_stale_result:
  "n \<le> length w \<Longrightarrow> snd (remove_stale desired p n w) =
     filter (\<lambda>v. get_id v \<in> set desired) (take n w) @ drop n w"
proof (induction desired p n w rule: remove_stale.induct)
  case (2 desired path i working)
  have "drop i working = working ! i # drop (Suc i) working" "take (Suc i) working = take i working @ [working ! i]"
    using "2.prems" by (simp_all add: Cons_nth_drop_Suc take_Suc_conv_app_nth)
  moreover have "take i (pop_at i working) = take i working" "drop i (pop_at i working) = drop (Suc i) working"
    using "2.prems" by (simp_all add: pop_at_def)
  moreover have "i \<le> length (pop_at i working)" using "2.prems" by (simp add: pop_at_def)
  ultimately show ?case using 2 by (auto split: prod.splits)
qed simp

lemma remove_stale_apply:
  "n \<le> length w \<Longrightarrow> length w < 2 ^ 53 \<Longrightarrow>
   apply_json_delta (JList w) (fst (remove_stale desired [] n w)) =
     Some (JList (snd (remove_stale desired [] n w)))"
proof (induction desired "[] :: seg list" n w rule: remove_stale.induct)
  case (2 desired i working)
  have "apply_op (JList working) (OpRemove [Idx i]) = Some (JList (pop_at i working))"
    using "2.prems" by (simp add: apply_op_def)
  moreover have "length (pop_at i working) = length working - 1" using "2.prems" by (simp add: pop_at_def)
  ultimately show ?case using 2 by (auto split: prod.splits)
qed simp

lemma index_where_append_None:
  "\<forall>x\<in>set xs. \<not> P x \<Longrightarrow> index_where P (xs @ ys) = map_option (\<lambda>i. length xs + i) (index_where P ys)"
  by (cases "index_where P ys"; induction xs) auto

lemma identified_apply:
  assumes "\<And>x b. x \<in> set rest \<Longrightarrow> json_wf b \<Longrightarrow> js_safe b \<Longrightarrow> patches b x"
    and "\<forall>x\<in>set rest. json_wf x" "\<forall>x\<in>set W. json_wf x \<and> js_safe x"
    and "list_all2 py_eq D' D" "distinct (map get_id (D @ rest))" "distinct (map get_id W)"
    and "set (map get_id W) \<subseteq> set (map get_id rest)" "length D + length rest < 2 ^ 53"
  shows "\<exists>L. apply_json_delta (JList (D' @ W)) (identified_loop (D @ W) (length D) rest []) = Some (JList L)
    \<and> list_all2 py_eq L (D @ rest)"
  using assms
proof (induction rest arbitrary: D D' W)
  case Nil
  then show ?case by simp
next
  case (Cons x rest)
  have len: "length D' = length D" using Cons.prems(4) by (rule list_all2_lengthD)
  have x: "py_eq x x" using Cons.prems(2) by (simp add: py_eq_refl)
  have idx: "index_where (\<lambda>v. get_id v = get_id x) (D @ W)
      = map_option (\<lambda>i. length D + i) (index_where (\<lambda>v. get_id v = get_id x) W)"
  proof (intro index_where_append_None ballI)
    fix v
    assume "v \<in> set D"
    then have "get_id v \<in> get_id ` set D" by (rule imageI)
    with Cons.prems(5) show "get_id v \<noteq> get_id x" by auto
  qed
  have next_step: "\<exists>L. apply_json_delta (JList ((D' @ [r]) @ W')) (identified_loop ((D @ [x]) @ W') (length (D @ [x])) rest []) = Some (JList L)
      \<and> list_all2 py_eq L ((D @ [x]) @ rest)"
    if "py_eq r x" "set W' \<subseteq> set W" "distinct (map get_id W')" "get_id x \<notin> get_id ` set W'" for r W'
  proof (rule Cons.IH)
    have "get_id ` set W' \<subseteq> get_id ` set W" using that(2) by (rule image_mono)
    also have "\<dots> \<subseteq> insert (get_id x) (get_id ` set rest)" using Cons.prems(7) by simp
    finally show "set (map get_id W') \<subseteq> set (map get_id rest)" using that(4) by (simp add: subset_insert)
  qed (use that Cons.prems in \<open>auto intro: list_all2_appendI\<close>)
  show ?case
  proof (cases "index_where (\<lambda>v. get_id v = get_id x) W")
    case None
    then have "get_id x \<notin> get_id ` set W" by (auto simp: index_where_None)
    with next_step[OF x, of W] Cons.prems(6) idx None len Cons.prems(8) show ?thesis
      by (simp add: apply_op_def insert_at_def)
  next
    case (Some i)
    then have i: "i < length W" "get_id (W ! i) = get_id x" by (auto simp: index_where_Some)
    have split: "W = take i W @ W ! i # drop (Suc i) W" using i by (simp add: id_take_nth_drop)
    define W' where "W' = pop_at i W"
    have d: "distinct (map get_id (take i W @ W ! i # drop (Suc i) W))" using Cons.prems(6) split by simp
    then have W': "set W' \<subseteq> set W" "distinct (map get_id W')" "get_id x \<notin> get_id ` set W'"
      using set_take_subset[of i W] set_drop_subset[of "Suc i" W] i(2)
      by (auto simp: W'_def pop_at_def)
    have card: "length W \<le> Suc (length rest)"
    proof -
      have "length W = card (set (map get_id W))" using Cons.prems(6) by (metis distinct_card length_map)
      also have "\<dots> \<le> card (set (map get_id (x # rest)))" using Cons.prems(7) by (intro card_mono) auto
      also have "\<dots> \<le> Suc (length rest)" by (metis card_length length_map length_Cons)
      finally show ?thesis .
    qed
    show ?thesis
    proof (cases "i = 0")
      case True
      then obtain w where w: "W = w # W'" using i by (cases W) (auto simp: W'_def pop_at_def)
      then have "patches w x" using Cons.prems(1,3) by simp
      then obtain r where r: "apply_json_delta w (append_delta w x []) = Some r" "py_eq r x"
        by (auto simp: patches_def)
      have "apply_json_delta (JList (D' @ W)) (append_delta w x [Idx (length D)])
          = Some (js_set_child (JList (D' @ W)) (Idx (length D)) r)"
        using r w len Cons.prems(8) by (intro apply_sub_delta) (auto simp: nth_append)
      then have "apply_json_delta (JList (D' @ W)) (append_delta w x [Idx (length D)])
          = Some (JList (D' @ r # W'))"
        using w len by (simp add: list_update_append)
      with next_step[OF r(2) W'] idx Some True w show ?thesis
        by (simp add: apply_delta_append list_update_append nth_append)
    next
      case False
      have "pop_at (length D + i) (D @ W) = D @ W'" "pop_at (length D + i) (D' @ W) = D' @ W'"
        using len by (simp_all add: W'_def pop_at_def)
      with next_step[OF x W'] False idx Some len i(1) card Cons.prems(8) show ?thesis
        by (simp add: apply_op_def insert_at_def)
    qed
  qed
qed


lemma stable_ids_distinct: "has_stable_object_ids xs \<Longrightarrow> distinct (map get_id xs)"
proof -
  assume h: "has_stable_object_ids xs"
  then have "length (filter is_object xs) = length xs" by (simp add: has_stable_object_ids_def Let_def)
  then have "filter is_object xs = xs" by (metis filter_True length_filter_less less_irrefl)
  with h show ?thesis by (simp add: has_stable_object_ids_def Let_def)
qed

lemma patches_replace: "\<not> comparable b a \<Longrightarrow> json_wf a \<Longrightarrow> patches b a"
  by (cases "py_eq b a") (simp_all add: patches_def append_delta_replace apply_op_def py_eq_refl)

lemma patches_lists:
  assumes "json_wf (JList bs)" "json_wf (JList as)" "js_safe (JList bs)" "js_safe (JList as)"
    and IH: "\<And>b a. a \<in> set as \<Longrightarrow> json_wf b \<Longrightarrow> js_safe b \<Longrightarrow> patches b a"
    and neq: "\<not> py_eq (JList bs) (JList as)"
  shows "patches (JList bs) (JList as)"
proof (cases "JList bs" "JList as" rule: delta_shapes)
  case (ident bs' as')
  then have st: "has_stable_object_ids bs" "has_stable_object_ids as" by auto
  define W where "W = filter (\<lambda>v. get_id v \<in> set (map get_id as)) bs"
  obtain ops where ops: "remove_stale (map get_id as) [] (length bs) bs = (ops, W)"
    using remove_stale_result[of "length bs" bs "map get_id as" "[]"]
    by (cases "remove_stale (map get_id as) [] (length bs) bs") (auto simp: W_def)
  have "apply_json_delta (JList bs) ops = Some (JList W)"
    using remove_stale_apply[of "length bs" bs "map get_id as"] assms(3) ops by simp
  moreover have "\<exists>L. apply_json_delta (JList ([] @ W)) (identified_loop ([] @ W) (length ([] :: json list)) as []) = Some (JList L)
      \<and> list_all2 py_eq L ([] @ as)"
    by (rule identified_apply[of as W "[]" "[]"])
      (use assms st stable_ids_distinct in \<open>auto simp: W_def distinct_map_filter\<close>)
  ultimately show ?thesis
    using neq st by (auto simp: patches_def append_delta_identified ops apply_delta_append py_eq_list)
next
  case (pos bs' as')
  then have "list_all2 patches bs as" using IH assms(1,3) by (auto simp: list_all2_conv_all_nth)
  from patches_positions[OF this, of "[]"] show ?thesis
    using neq pos assms(3) by (auto simp: patches_def append_delta_positional py_eq_list)
next
  case rep
  then show ?thesis using assms(2) by (rule patches_replace)
qed auto

lemma patches_all:
  "json_wf b \<Longrightarrow> js_safe b \<Longrightarrow> json_wf a \<Longrightarrow> js_safe a \<Longrightarrow> patches b a"
proof (induction a arbitrary: b rule: json_induct_wf)
  case (List as)
  show ?case
  proof (cases "\<exists>bs. b = JList bs")
    case True
    then obtain bs where b: "b = JList bs" by blast
    show ?thesis
    proof (cases "py_eq b (JList as)")
      case True
      then show ?thesis by (simp add: patches_def)
    next
      case False
      with List b show ?thesis by (auto intro!: patches_lists)
    qed
  next
    case False
    then have "\<not> comparable b (JList as)" by (cases b) auto
    then show ?thesis using List.prems(3) by (rule patches_replace)
  qed
next
  case (Obj as)
  show ?case
  proof (cases "\<exists>bs. b = JObj bs")
    case True
    then obtain bs where b: "b = JObj bs" by blast
    have "patches x y" if "map_of bs k = Some x" "map_of as k = Some y" for k x y
      using Obj that[THEN map_of_SomeD] b by fastforce
    with Obj.prems b show ?thesis by (auto intro!: patches_objects)
  next
    case False
    then have "\<not> comparable b (JObj as)" by (cases b) auto
    then show ?thesis using Obj.prems(3) by (rule patches_replace)
  qed
qed (auto intro: patches_replace)

text \<open>
  C2. For any two JSON documents the browser can address, applying the operations of
  \<open>json_delta(before, after)\<close> to \<open>before\<close> never throws and gives a document equal to \<open>after\<close>,
  with nested objects, lists reconciled by identity (removals, moves, insertions, in-place changes),
  positional lists and replacements.
\<close>

theorem json_delta_round_trip:
  assumes "json_wf before" "js_safe before" "json_wf after" "js_safe after"
  shows "\<exists>r. apply_json_delta before (json_delta before after) = Some r \<and> py_eq r after"
  using patches_all[OF assms] by (simp add: patches_def json_delta_def)

theorem json_delta_round_trip_witness:
  "\<exists>r. apply_json_delta
       (JObj [(''tables'', JList [JObj [(''id'', JStr ''t1''), (''name'', JStr ''a'')],
                                  JObj [(''id'', JStr ''t2''), (''name'', JStr ''b'')]]), (''old'', JNull)])
       (json_delta
          (JObj [(''tables'', JList [JObj [(''id'', JStr ''t1''), (''name'', JStr ''a'')],
                                     JObj [(''id'', JStr ''t2''), (''name'', JStr ''b'')]]), (''old'', JNull)])
          (JObj [(''tables'', JList [JObj [(''id'', JStr ''t2''), (''name'', JStr ''c'')],
                                     JObj [(''id'', JStr ''t3''), (''name'', JStr ''d'')]]), (''new'', JInt 1)])) = Some r
   \<and> py_eq r (JObj [(''tables'', JList [JObj [(''id'', JStr ''t2''), (''name'', JStr ''c'')],
                                     JObj [(''id'', JStr ''t3''), (''name'', JStr ''d'')]]), (''new'', JInt 1)])"
  by (rule json_delta_round_trip) (simp_all add: unsafe_keys_def)

text \<open>
  The delta of two such documents is empty exactly when Python considers them equal: an undo
  or redo preview without operations means that nothing changes.
\<close>

theorem json_delta_empty:
  assumes "json_wf before" "js_safe before" "json_wf after" "js_safe after"
  shows "json_delta before after = [] \<longleftrightarrow> py_eq before after"
proof
  assume "json_delta before after = []"
  with patches_all[OF assms] show "py_eq before after" by (simp add: patches_def json_delta_def)
qed (simp add: json_delta_def)

theorem json_delta_empty_witness:
  "json_delta (JObj [(''a'', JInt 1), (''b'', JNull)]) (JObj [(''b'', JNull), (''a'', JInt 1)]) = []
   \<longleftrightarrow> py_eq (JObj [(''a'', JInt 1), (''b'', JNull)]) (JObj [(''b'', JNull), (''a'', JInt 1)])"
  by (rule json_delta_empty) (simp_all add: unsafe_keys_def)

end
