(* ===== verification/Design_Store.thy ===== *)
theory Design_Store
  imports Design_Validation Deletion_Impact Design_History History_Pruning Json_Delta
begin

text \<open>
  The in-memory desired-design repository (\<open>InMemoryDesignRepository\<close> and \<open>_history_state\<close> in
  \<open>schemii/designs/store.py\<close>): one record field per dictionary of the class, one function per method.

  A method returns its result or the exception it raises together with the repository, because some
  methods change the repository before they raise. Copies (\<open>model_copy(deep=True)\<close>) are the values
  themselves, and the lock makes each method one atomic step. What a method takes from its
  surroundings (hash, clock, SQL analysers, set iteration order, the mutation guard) is in
  \<open>design_env\<close>.
\<close>

section \<open>State\<close>

type_synonym ws_key = "string \<times> string"

record memory_entry = history_ref +
  source_design_revision :: nat
  operation_kind :: string
  entry_content :: design_content
  created_at :: instant

record design_repo =
  repo_designs :: "(ws_key, schemii_design) dict"
  repo_layouts :: "(ws_key, design_layout) dict"
  repo_history :: "(ws_key, (int, memory_entry) dict) dict"
  repo_history_state :: "(ws_key, int \<times> int) dict"
  repo_position_memory :: "(ws_key, (string, object_position) dict) dict"
  repo_next_history_id :: int
  repo_history_action_limit :: nat

record design_env =
  env_sha256 :: "string \<Rightarrow> string"
  env_base_type_name :: "string \<Rightarrow> string option"
  env_query_error :: "string \<Rightarrow> (string \<times> string) option"
  env_analyze :: "string \<Rightarrow> query_relation list \<Rightarrow> query_sources option"
  env_set_iter :: "string list \<Rightarrow> string list"
  env_to_camel :: "string \<Rightarrow> string"
  env_guard :: "string \<Rightarrow> string \<Rightarrow> bool"
  env_now :: instant

type_synonym 'a repo_call = "design_repo \<Rightarrow> (design_error, 'a) result \<times> design_repo"

definition new_design_repo :: "nat \<Rightarrow> (unit, design_repo) result" where
  "new_design_repo history_action_limit =
     (if history_action_limit < 1 then Inl ()
      else Inr \<lparr>repo_designs = [], repo_layouts = [], repo_history = [], repo_history_state = [],
                repo_position_memory = [], repo_next_history_id = 1,
                repo_history_action_limit = history_action_limit\<rparr>)"

definition env_validate :: "design_env \<Rightarrow> design_content \<Rightarrow> design_error option" where
  "env_validate env content = validate_design_content (env_base_type_name env) (env_query_error env) content"

definition env_fingerprint :: "design_env \<Rightarrow> design_content \<Rightarrow> string" where
  "env_fingerprint env content = design_fingerprint (env_sha256 env) content"

section \<open>Reading\<close>

definition repo_design :: "design_env \<Rightarrow> ws_key \<Rightarrow> design_repo \<Rightarrow> schemii_design" where
  "repo_design env key repo =
     (case map_of (repo_designs repo) key of
        Some d \<Rightarrow> d
      | None \<Rightarrow> \<lparr>ds_workspace_id = snd key, ds_revision = 0, ds_content = empty_design_content,
                 ds_fingerprint = env_fingerprint env empty_design_content\<rparr>)"

definition repo_layout :: "ws_key \<Rightarrow> nat \<Rightarrow> design_repo \<Rightarrow> design_layout" where
  "repo_layout key design_revision repo =
     (case map_of (repo_layouts repo) key of
        Some l \<Rightarrow> l
      | None \<Rightarrow> \<lparr>ly_workspace_id = snd key, ly_revision = 0, ly_design_revision = design_revision,
                 ly_content = []\<rparr>)"

definition design_get :: "design_env \<Rightarrow> ws_key \<Rightarrow> schemii_design repo_call" where
  "design_get env key repo = (Inr (repo_design env key repo), repo)"

definition get_layout :: "design_env \<Rightarrow> ws_key \<Rightarrow> design_layout repo_call" where
  "get_layout env key repo =
     (Inr (repo_layout key (ds_revision (repo_design env key repo)) repo), repo)"

section \<open>History\<close>

definition new_history_entry ::
  "design_env \<Rightarrow> ws_key \<Rightarrow> int option \<Rightarrow> nat \<Rightarrow> string \<Rightarrow> string option \<Rightarrow> design_content
   \<Rightarrow> design_repo \<Rightarrow> memory_entry \<times> design_repo" where
  "new_history_entry env key parent revision kind group_id content repo =
     (let entry = \<lparr>entry_id = repo_next_history_id repo, parent_id = parent, operation_group_id = group_id,
                   source_design_revision = revision, operation_kind = kind, entry_content = content,
                   created_at = env_now env\<rparr>;
          entries = dict_get (repo_history repo) key []
      in (entry, repo\<lparr>
            repo_next_history_id := repo_next_history_id repo + 1,
            repo_history := AList.update key (AList.update (entry_id entry) entry entries) (repo_history repo)\<rparr>))"

definition ensure_history :: "design_env \<Rightarrow> ws_key \<Rightarrow> schemii_design \<Rightarrow> design_repo \<Rightarrow> design_repo" where
  "ensure_history env key design repo =
     (if map_of (repo_history_state repo) key \<noteq> None then repo
      else (case new_history_entry env key None (ds_revision design) ''initial'' None (ds_content design) repo of
          (entry, repo) \<Rightarrow> repo\<lparr>
            repo_history_state := AList.update key (entry_id entry, entry_id entry) (repo_history_state repo),
            repo_position_memory := setdefault (repo_position_memory repo) key []\<rparr>))"

text \<open>
  \<^const>\<open>None\<close>: a \<open>KeyError\<close>, a \<open>StopIteration\<close>, or a parent cycle; the fuel is the number of
  stored entries.
\<close>

definition active_chain :: "ws_key \<Rightarrow> design_repo \<Rightarrow> (memory_entry list \<times> nat) option" where
  "active_chain key repo =
     (case map_of (repo_history_state repo) key of None \<Rightarrow> None
      | Some (cursor_id, tip_id) \<Rightarrow>
          (case map_of (repo_history repo) key of None \<Rightarrow> None
           | Some by_id \<Rightarrow>
               (case walk_parents (length by_id) by_id (Some tip_id) of None \<Rightarrow> None
                | Some chain \<Rightarrow>
                    map_option (\<lambda>index. (rev chain, index))
                      (index_where (\<lambda>entry. entry_id entry = cursor_id) (rev chain)))))"

definition prune_history :: "ws_key \<Rightarrow> design_repo \<Rightarrow> design_repo option" where
  "prune_history key repo =
     (case active_chain key repo of None \<Rightarrow> None
      | Some (entries, _) \<Rightarrow>
          (let retained = retained_history_entries entries (repo_history_action_limit repo)
           in Some (repo\<lparr>repo_history := AList.update key (dict_by entry_id (relink None retained))
                           (repo_history repo)\<rparr>)))"

section \<open>Layout\<close>

definition position_allowed :: "design_content \<Rightarrow> object_position \<Rightarrow> bool" where
  "position_allowed content p = (map_of (design_object_ids content) (pos_object_id p) = Some (pos_layer p))"

definition layer_text :: "layer \<Rightarrow> string" where
  "layer_text l = (case l of TablesLayer \<Rightarrow> ''tables'' | ViewsLayer \<Rightarrow> ''views'')"

definition check_positions :: "string \<Rightarrow> design_content \<Rightarrow> layout_content \<Rightarrow> design_error option" where
  "check_positions message content objects = first_error
     (map (\<lambda>p. raise_unless (position_allowed content p)
        (DesignValidationError message
           [(''objectId'', JStr (pos_object_id p)), (''layer'', JStr (layer_text (pos_layer p)))])) objects)"

definition advanced_positions :: "ws_key \<Rightarrow> schemii_design \<Rightarrow> design_repo \<Rightarrow> object_position list" where
  "advanced_positions key design repo =
     (let current = repo_layout key (ds_revision design - 1) repo;
          objects = filter (position_allowed (ds_content design)) (ly_content current);
          retained_ids = map pos_object_id objects
      in objects @ map snd (filter (\<lambda>(object_id, position).
           object_id \<notin> set retained_ids
           \<and> map_of (design_object_ids (ds_content design)) object_id = Some (pos_layer position))
         (dict_get (repo_position_memory repo) key [])))"

definition advance_layout :: "ws_key \<Rightarrow> schemii_design \<Rightarrow> unit repo_call" where
  "advance_layout key design repo =
     (let current = repo_layout key (ds_revision design - 1) repo in
      case layout_content_of (advanced_positions key design repo) of
        Inl _ \<Rightarrow> (Inl (PythonError ''ValueError''), repo)
      | Inr content \<Rightarrow>
          (Inr (), repo\<lparr>repo_layouts := AList.update key
             \<lparr>ly_workspace_id = snd key, ly_revision = ly_revision current + 1,
              ly_design_revision = ds_revision design, ly_content = content\<rparr> (repo_layouts repo)\<rparr>))"

definition replace_layout :: "design_env \<Rightarrow> ws_key \<Rightarrow> layout_replace \<Rightarrow> design_layout repo_call" where
  "replace_layout env key request repo =
     (let design = repo_design env key repo;
          current = repo_layout key (ds_revision design) repo in
      if ly_revision current \<noteq> lr_expected_layout_revision request
         \<or> ds_revision design \<noteq> lr_expected_design_revision request
      then (Inl (DesignLayoutConflictError (ly_revision current) (ds_revision design)), repo)
      else (case check_positions ''Layout positions must reference a design object on its correct layer''
                   (ds_content design) (lr_content request) of
          Some e \<Rightarrow> (Inl e, repo)
        | None \<Rightarrow>
            (let revised = \<lparr>ly_workspace_id = snd key, ly_revision = ly_revision current + 1,
                   ly_design_revision = ds_revision design, ly_content = lr_content request\<rparr>;
                 memory = foldl (\<lambda>m p. AList.update (pos_object_id p) p m)
                   (dict_get (repo_position_memory repo) key []) (ly_content revised)
             in (Inr revised, repo\<lparr>
                   repo_layouts := AList.update key revised (repo_layouts repo),
                   repo_position_memory := AList.update key memory (repo_position_memory repo)\<rparr>))))"

section \<open>Changing designs\<close>

definition guard_mutation :: "design_env \<Rightarrow> ws_key \<Rightarrow> string \<Rightarrow> design_error option" where
  "guard_mutation env key kind =
     raise_if (kind \<noteq> ''checkpoint'' \<and> env_guard env (fst key) (snd key)) DesignMutationBlockedError"

definition design_initialize ::
  "design_env \<Rightarrow> ws_key \<Rightarrow> design_content \<Rightarrow> layout_content \<Rightarrow> (schemii_design \<times> design_layout) repo_call" where
  "design_initialize env key content layout repo =
     (case first_error [env_validate env content,
            check_positions ''Initial layout positions must reference imported design objects'' content layout] of
        Some e \<Rightarrow> (Inl e, repo)
      | None \<Rightarrow>
          (case map_of (repo_designs repo) key of
             Some current \<Rightarrow> (Inl (DesignConflictError (ds_revision current)), repo)
           | None \<Rightarrow>
               (let design = \<lparr>ds_workspace_id = snd key, ds_revision = 1, ds_content = content,
                      ds_fingerprint = env_fingerprint env content\<rparr>;
                    saved_layout = \<lparr>ly_workspace_id = snd key, ly_revision = 1, ly_design_revision = 1,
                      ly_content = layout\<rparr>;
                    repo1 = repo\<lparr>repo_designs := AList.update key design (repo_designs repo),
                                 repo_layouts := AList.update key saved_layout (repo_layouts repo)\<rparr>
                in case new_history_entry env key None (ds_revision design) ''initial'' None (ds_content design) repo1 of
                     (entry, repo2) \<Rightarrow>
                       (Inr (design, saved_layout), repo2\<lparr>
                          repo_history_state := AList.update key (entry_id entry, entry_id entry)
                            (repo_history_state repo2),
                          repo_position_memory := AList.update key (dict_by pos_object_id layout)
                            (repo_position_memory repo2)\<rparr>))))"

definition discard_initialization :: "ws_key \<Rightarrow> unit repo_call" where
  "discard_initialization key repo =
     (Inr (), repo\<lparr>
        repo_designs := AList.delete key (repo_designs repo),
        repo_layouts := AList.delete key (repo_layouts repo),
        repo_history := AList.delete key (repo_history repo),
        repo_history_state := AList.delete key (repo_history_state repo),
        repo_position_memory := AList.delete key (repo_position_memory repo)\<rparr>)"

text \<open>The part of \<open>replace\<close> after its checks: the new revision, its history entry, pruning, layout.\<close>

definition commit_replace ::
  "design_env \<Rightarrow> ws_key \<Rightarrow> design_replace \<Rightarrow> string \<Rightarrow> schemii_design \<Rightarrow> schemii_design repo_call" where
  "commit_replace env key request kind current repo =
     (let revised = \<lparr>ds_workspace_id = snd key, ds_revision = ds_revision current + 1,
            ds_content = dr_content request, ds_fingerprint = env_fingerprint env (dr_content request)\<rparr>;
          repo1 = repo\<lparr>repo_designs := AList.update key revised (repo_designs repo)\<rparr>
      in case map_of (repo_history_state repo1) key of
           None \<Rightarrow> (Inl (PythonError ''KeyError''), repo1)
         | Some (cursor_id, _) \<Rightarrow>
             (case new_history_entry env key (Some cursor_id) (ds_revision revised) kind
                     (dr_history_group_id request) (ds_content revised) repo1 of
                (entry, repo2) \<Rightarrow>
                  (let repo3 = repo2\<lparr>repo_history_state := AList.update key (entry_id entry, entry_id entry)
                                 (repo_history_state repo2)\<rparr>
                   in case prune_history key repo3 of
                        None \<Rightarrow> (Inl (PythonError ''KeyError''), repo3)
                      | Some repo4 \<Rightarrow>
                          (case advance_layout key revised repo4 of
                             (Inl e, repo5) \<Rightarrow> (Inl e, repo5)
                           | (Inr _, repo5) \<Rightarrow> (Inr revised, repo5)))))"

definition replace_design ::
  "design_env \<Rightarrow> ws_key \<Rightarrow> design_replace \<Rightarrow> string \<Rightarrow> schemii_design repo_call" where
  "replace_design env key request kind repo =
     (case first_error [env_validate env (dr_content request), guard_mutation env key kind] of
        Some e \<Rightarrow> (Inl e, repo)
      | None \<Rightarrow>
          (let current = repo_design env key repo;
               repo1 = ensure_history env key current repo
           in if ds_revision current \<noteq> dr_expected_design_revision request
              then (Inl (DesignConflictError (ds_revision current)), repo1)
              else if kind = ''edit'' \<and> ds_fingerprint current = env_fingerprint env (dr_content request)
              then (Inr current, repo1)
              else (case validate_design_transition (env_set_iter env) (env_analyze env)
                           (ds_content current) (dr_content request) of
                  Inl e \<Rightarrow> (Inl e, repo1)
                | Inr (Some message) \<Rightarrow>
                    (Inl (DesignValidationError message [(''reason'', JStr ''dependent_object'')]), repo1)
                | Inr None \<Rightarrow> commit_replace env key request kind current repo1)))"

definition move_history ::
  "design_env \<Rightarrow> ws_key \<Rightarrow> nat \<Rightarrow> history_direction \<Rightarrow> schemii_design repo_call" where
  "move_history env key expected action repo =
     (case guard_mutation env key ''edit'' of
        Some e \<Rightarrow> (Inl e, repo)
      | None \<Rightarrow>
          (let current = repo_design env key repo in
           if ds_revision current \<noteq> expected then (Inl (DesignConflictError (ds_revision current)), repo)
           else (let repo1 = ensure_history env key current repo in
             case active_chain key repo1 of
               None \<Rightarrow> (Inl (PythonError ''KeyError''), repo1)
             | Some (entries, cursor_index) \<Rightarrow>
                 (case history_target_index entries cursor_index action of
                    None \<Rightarrow> (Inl (DesignHistoryBoundaryError action), repo1)
                  | Some target_index \<Rightarrow>
                      (let target = entries ! target_index in
                       case env_validate env (entry_content target) of
                         Some e \<Rightarrow> (Inl e, repo1)
                       | None \<Rightarrow>
                           (let revised = \<lparr>ds_workspace_id = snd key, ds_revision = ds_revision current + 1,
                                  ds_content = entry_content target,
                                  ds_fingerprint = env_fingerprint env (entry_content target)\<rparr>;
                                tip_id = snd (the (map_of (repo_history_state repo1) key));
                                repo2 = repo1\<lparr>
                                  repo_designs := AList.update key revised (repo_designs repo1),
                                  repo_history_state := AList.update key (entry_id target, tip_id)
                                    (repo_history_state repo1)\<rparr>
                            in case advance_layout key revised repo2 of
                                 (Inl e, repo3) \<Rightarrow> (Inl e, repo3)
                               | (Inr _, repo3) \<Rightarrow> (Inr revised, repo3)))))))"

definition design_undo :: "design_env \<Rightarrow> ws_key \<Rightarrow> nat \<Rightarrow> schemii_design repo_call" where
  "design_undo env key expected = move_history env key expected Undo"

definition design_redo :: "design_env \<Rightarrow> ws_key \<Rightarrow> nat \<Rightarrow> schemii_design repo_call" where
  "design_redo env key expected = move_history env key expected Redo"

definition initial_content :: "design_env \<Rightarrow> ws_key \<Rightarrow> (nat \<times> design_content) repo_call" where
  "initial_content env key repo =
     (let repo1 = ensure_history env key (repo_design env key repo) repo in
      case active_chain key repo1 of
        Some (first # _, _) \<Rightarrow> (Inr (source_design_revision first, entry_content first), repo1)
      | _ \<Rightarrow> (Inl (PythonError ''IndexError''), repo1))"

section \<open>History state\<close>

datatype baseline_kind = WorkspaceStart | PostgresqlBaseline

record history_baseline =
  hb_kind :: baseline_kind
  hb_id :: string
  hb_revision :: nat
  hb_design_revision :: nat
  hb_label :: string
  hb_fingerprint :: string
  hb_complete :: bool

record history_action =
  ha_title :: string
  ha_change_count :: nat
  ha_crosses_baseline :: bool
  ha_delta :: "delta_op list"

record design_history_state =
  hs_design_revision :: nat
  hs_can_undo :: bool
  hs_can_redo :: bool
  hs_undo :: "history_action option"
  hs_redo :: "history_action option"
  hs_baseline :: history_baseline
  hs_can_reset_to_baseline :: bool
  hs_reset_blocked_reason :: "string option"

definition history_action_for ::
  "design_env \<Rightarrow> memory_entry list \<Rightarrow> nat \<Rightarrow> nat option \<Rightarrow> nat \<Rightarrow> history_direction \<Rightarrow> history_action" where
  "history_action_for env entries cursor_index baseline_index target_index direction =
     (let before_index = (if direction = Undo then target_index else cursor_index);
          after_index = (if direction = Undo then cursor_index else target_index);
          summary = design_change_summary (env_set_iter env)
            (entry_content (entries ! before_index)) (entry_content (entries ! after_index));
          crosses = (case baseline_index of None \<Rightarrow> False
            | Some b \<Rightarrow> if direction = Undo then target_index < b \<and> b \<le> cursor_index
                        else cursor_index < b \<and> b \<le> target_index)
      in \<lparr>ha_title = cs_title summary, ha_change_count = max 1 (cs_change_count summary),
          ha_crosses_baseline = crosses,
          ha_delta = json_delta
            (content_document (env_to_camel env) (entry_content (entries ! cursor_index)))
            (content_document (env_to_camel env) (entry_content (entries ! target_index)))\<rparr>)"

definition history_state_of ::
  "design_env \<Rightarrow> schemii_design \<Rightarrow> memory_entry list \<Rightarrow> nat \<Rightarrow> history_baseline \<Rightarrow> design_history_state" where
  "history_state_of env design entries cursor_index baseline =
     (let undo_index = history_target_index entries cursor_index Undo;
          redo_index = history_target_index entries cursor_index Redo;
          baseline_index = index_where (\<lambda>e. source_design_revision e = hb_design_revision baseline) entries
      in \<lparr>hs_design_revision = ds_revision design,
          hs_can_undo = (undo_index \<noteq> None), hs_can_redo = (redo_index \<noteq> None),
          hs_undo = map_option (\<lambda>t. history_action_for env entries cursor_index baseline_index t Undo) undo_index,
          hs_redo = map_option (\<lambda>t. history_action_for env entries cursor_index baseline_index t Redo) redo_index,
          hs_baseline = baseline,
          hs_can_reset_to_baseline = (hb_complete baseline \<and> ds_fingerprint design \<noteq> hb_fingerprint baseline),
          hs_reset_blocked_reason =
            (if \<not> hb_complete baseline
             then Some ''The current PostgreSQL baseline is incomplete and cannot be restored losslessly.''
             else None)\<rparr>)"

definition repo_history_state_of ::
  "design_env \<Rightarrow> ws_key \<Rightarrow> history_baseline \<Rightarrow> design_history_state repo_call" where
  "repo_history_state_of env key baseline repo =
     (let design = repo_design env key repo;
          repo1 = ensure_history env key design repo in
      case active_chain key repo1 of
        None \<Rightarrow> (Inl (PythonError ''KeyError''), repo1)
      | Some (entries, cursor_index) \<Rightarrow> (Inr (history_state_of env design entries cursor_index baseline), repo1))"

record workspace_snapshot =
  sn_design :: schemii_design
  sn_layout :: design_layout
  sn_history :: design_history_state

text \<open>\<open>DesignWorkspaceSnapshot(...)\<close> with its \<open>one_design_revision\<close> validator.\<close>

definition snapshot_of ::
  "schemii_design \<Rightarrow> design_layout \<Rightarrow> design_history_state \<Rightarrow> (design_error, workspace_snapshot) result" where
  "snapshot_of design layout history =
     (if ds_revision design = ly_design_revision layout \<and> ds_revision design = hs_design_revision history
      then Inr \<lparr>sn_design = design, sn_layout = layout, sn_history = history\<rparr>
      else Inl (PythonError ''ValueError''))"

definition design_snapshot ::
  "design_env \<Rightarrow> ws_key \<Rightarrow> history_baseline \<Rightarrow> workspace_snapshot repo_call" where
  "design_snapshot env key baseline repo =
     (let design = repo_design env key repo;
          repo1 = ensure_history env key design repo in
      case active_chain key repo1 of
        None \<Rightarrow> (Inl (PythonError ''KeyError''), repo1)
      | Some (entries, cursor_index) \<Rightarrow>
          (let layout = repo_layout key (ds_revision design) repo1
           in (snapshot_of design layout (history_state_of env design entries cursor_index baseline), repo1)))"

end
