(* ===== verification/Migration_Repository.thy ===== *)
theory Migration_Repository
  imports Migration_Model Design_Store
begin

text \<open>
  The durable authority of migrations (\<open>schemii/migrations/repository.py\<close>): synchronization
  baselines, reviewed plans, and the executions of plans with their worker leases, as the in-memory
  repository keeps them.

  One record field per dictionary of the class and one function per method; the design repository
  the class holds a reference to is a part of the state. A method returns its result or exception
  and the repository. The clock, the random tokens of new identifiers (the n-th token a method
  draws), the design repository's surroundings and the workspace claim guard are in \<open>migration_env\<close>.
\<close>

section \<open>Records\<close>

record baseline_record =
  bl_id :: string
  bl_owner_id :: string
  bl_workspace_id :: string
  bl_revision :: nat
  bl_predecessor_id :: "string option"
  bl_connection_id :: string
  bl_connection_revision :: nat
  bl_database :: string
  bl_namespace :: string
  bl_design_revision :: nat
  bl_content :: design_content
  bl_catalog :: pg_catalog
  bl_complete :: bool
  bl_issues :: "json list"
  bl_source :: string
  bl_source_execution_id :: "string option"
  bl_created_at :: instant
  bl_connection_owner_id :: "string option"

record plan_authority =
  pa_baseline_content :: design_content
  pa_desired_content :: design_content
  pa_merged_content :: design_content
  pa_live_content :: design_content
  pa_live_catalog :: pg_catalog
  pa_allow_destructive :: bool
  pa_connection_id :: string
  pa_connection_revision :: nat
  pa_database :: string
  pa_namespace :: string
  pa_required_empty_tables :: "string list"
  pa_rebuild_table_ids :: "string list"
  pa_connection_owner_id :: "string option"

record plan_record =
  pl_owner_id :: string
  pl_baseline_id :: string
  pl_plan :: migration_plan
  pl_authority :: plan_authority

type_synonym detail = "(string \<times> json) list"

record execution_record =
  er_owner_id :: string
  er_execution :: migration_execution
  er_confirmed_review_digest :: string
  er_destructive_confirmed :: bool
  er_external_changes_confirmed :: bool
  er_target_identity :: "detail option"
  er_intended_result :: "detail option"
  er_error_detail :: "detail option"
  er_lease_owner :: "string option"
  er_lease_expires_at :: "instant option"

record execution_reservation =
  rs_record :: execution_record
  rs_reserved_now :: bool

datatype work_kind = ExecuteWork | ReconcileWork | SyncWork

record execution_work =
  wk_kind :: work_kind
  wk_record :: execution_record

datatype migration_error =
    MigrationNotFoundError string
  | MigrationConflictError string string detail
  | MigrationValueError string
  | MigrationTypeError
  | MigrationDesignError design_error
  | MigrationGuardError string

section \<open>The execution state machine\<close>

fun legal_execution_transitions :: "execution_status \<Rightarrow> execution_status list" where
  "legal_execution_transitions Reserved = [Applying, Failed]"
| "legal_execution_transitions Applying = [Applying, Succeeded, Failed, Uncertain, ReconciliationRequired]"
| "legal_execution_transitions Uncertain = [Succeeded, Failed, ReconciliationRequired]"
| "legal_execution_transitions ReconciliationRequired = [Succeeded, Failed, ReconciliationRequired]"
| "legal_execution_transitions Succeeded = [Succeeded, ReconciliationRequired]"
| "legal_execution_transitions Failed = []"

definition active_execution_statuses :: "execution_status list" where
  "active_execution_statuses = [Reserved, Applying, Uncertain, ReconciliationRequired]"

definition abandoned_plan_statuses :: "plan_status list" where
  "abandoned_plan_statuses = [PlanReviewable, PlanBlocked, PlanExpired]"

definition unsettled_sync :: "sync_status option \<Rightarrow> bool" where
  "unsettled_sync s = (s \<in> {Some SyncPending, Some SyncFailed})"

definition blocks_lifecycle :: "execution_record \<Rightarrow> bool" where
  "blocks_lifecycle record =
     (let execution = er_execution record in
      mx_status execution \<in> set active_execution_statuses
      \<or> (mx_status execution = Succeeded \<and> mx_commit_outcome execution = Some Committed
         \<and> unsettled_sync (mx_sync_status execution)))"

definition holds_execution_lease :: "execution_status \<Rightarrow> sync_status option \<Rightarrow> bool" where
  "holds_execution_lease status sync =
     (status \<in> {Reserved, Applying} \<or> (status = Succeeded \<and> unsettled_sync sync))"

definition validate_execution_transition ::
  "migration_execution \<Rightarrow> nat \<Rightarrow> execution_status list \<Rightarrow> execution_status \<Rightarrow> migration_error option" where
  "validate_execution_transition current expected_revision allowed_from status = first_error
     [raise_if (mx_revision current \<noteq> expected_revision)
        (MigrationConflictError ''migration_execution_changed''
           ''The migration execution changed in another request''
           [(''currentExecutionRevision'', JInt (int (mx_revision current)))]),
      raise_if (mx_status current \<notin> set allowed_from
                \<or> status \<notin> set (legal_execution_transitions (mx_status current)))
        (MigrationConflictError ''migration_execution_transition_invalid''
           (''Migration execution cannot transition from '' @ status_text (mx_status current) @ '' to ''
            @ status_text status)
           [(''currentStatus'', JStr (status_text (mx_status current))),
            (''requestedStatus'', JStr (status_text status))])]"

definition validate_execution_authorization ::
  "migration_plan \<Rightarrow> string \<Rightarrow> bool \<Rightarrow> bool \<Rightarrow> migration_error option" where
  "validate_execution_authorization plan review_digest confirm_destructive confirm_external_changes = first_error
     [raise_if (review_digest \<noteq> mp_review_digest plan)
        (MigrationConflictError ''migration_review_changed'' ''Migration review digest does not match'' []),
      raise_if (mp_destructive plan \<and> \<not> confirm_destructive)
        (MigrationConflictError ''destructive_confirmation_required''
           ''Destructive changes require confirmation'' []),
      raise_if (mp_requires_external_change_acknowledgement plan \<and> \<not> confirm_external_changes)
        (MigrationConflictError ''external_changes_confirmation_required''
           ''Compatible external changes require acknowledgement'' [])]"

section \<open>State\<close>

record migration_repo =
  mr_designs :: design_repo
  mr_baselines :: "(ws_key, baseline_record list) dict"
  mr_plans :: "(ws_key, plan_record) dict"
  mr_executions :: "(ws_key, execution_record) dict"
  mr_execution_by_plan :: "(ws_key, string) dict"

record migration_env =
  me_design_env :: design_env
  me_claim_guard :: "(string \<Rightarrow> string \<Rightarrow> migration_error option) option"
  me_token :: "nat \<Rightarrow> string"
  me_now :: instant

type_synonym 'a migration_call = "migration_repo \<Rightarrow> (migration_error, 'a) result \<times> migration_repo"

definition new_migration_repo :: "design_repo \<Rightarrow> migration_repo" where
  "new_migration_repo designs = \<lparr>mr_designs = designs, mr_baselines = [], mr_plans = [],
     mr_executions = [], mr_execution_by_plan = []\<rparr>"

text \<open>\<open>with self._workspace_claim_guard(owner, workspace)\<close>, or no guard when none is set.\<close>

definition claim_guard_check :: "migration_env \<Rightarrow> string \<Rightarrow> string \<Rightarrow> migration_error option" where
  "claim_guard_check env owner workspace =
     (case me_claim_guard env of None \<Rightarrow> None | Some guard \<Rightarrow> guard owner workspace)"

section \<open>Baselines\<close>

definition current_baseline :: "ws_key \<Rightarrow> migration_repo \<Rightarrow> baseline_record option" where
  "current_baseline key repo =
     (let rows = dict_get (mr_baselines repo) key [] in if rows = [] then None else Some (last rows))"

definition has_active_execution :: "string \<Rightarrow> string \<Rightarrow> migration_repo \<Rightarrow> bool" where
  "has_active_execution owner workspace repo =
     (\<exists>((candidate_owner, _), record) \<in> set (mr_executions repo). candidate_owner = owner
        \<and> mx_workspace_id (er_execution record) = workspace
        \<and> mx_status (er_execution record) \<in> set active_execution_statuses)"

definition blocks_workspace_lifecycle :: "string \<Rightarrow> string \<Rightarrow> migration_repo \<Rightarrow> bool" where
  "blocks_workspace_lifecycle owner workspace repo =
     (\<exists>((candidate_owner, _), record) \<in> set (mr_executions repo). candidate_owner = owner
        \<and> mx_workspace_id (er_execution record) = workspace \<and> blocks_lifecycle record)"

text \<open>The keyword arguments of \<open>create_baseline\<close>; an absent optional argument is \<^const>\<open>None\<close>.\<close>

record baseline_values =
  bv_owner_id :: string
  bv_workspace_id :: string
  bv_connection_id :: string
  bv_connection_owner_id :: "string option"
  bv_connection_revision :: nat
  bv_database :: string
  bv_namespace :: string
  bv_design_revision :: nat
  bv_content :: design_content
  bv_catalog :: pg_catalog
  bv_complete :: bool
  bv_issues :: "json list"
  bv_source :: string
  bv_expected_predecessor_id :: "string option"
  bv_source_execution_id :: "string option"

text \<open>Python's \<open>a or b\<close> on optional strings: an empty string counts as absent.\<close>

definition or_else :: "string option \<Rightarrow> string \<Rightarrow> string" where
  "or_else a b = (case a of None \<Rightarrow> b | Some s \<Rightarrow> if s = '''' then b else s)"

definition create_baseline :: "migration_env \<Rightarrow> baseline_values \<Rightarrow> baseline_record migration_call" where
  "create_baseline env v repo =
     (let key = (bv_owner_id v, bv_workspace_id v);
          repo1 = repo\<lparr>mr_baselines := setdefault (mr_baselines repo) key []\<rparr>;
          rows = dict_get (mr_baselines repo1) key [];
          predecessor_id = (if rows = [] then None else Some (bl_id (last rows)))
      in if bv_expected_predecessor_id v \<noteq> predecessor_id
         then (Inl (MigrationConflictError ''baseline_changed''
                 ''The workspace synchronization baseline changed''
                 [(''currentBaselineId'', json_opt JStr predecessor_id)]), repo1)
         else (let record = \<lparr>bl_id = ''mbl_'' @ me_token env 0, bl_owner_id = bv_owner_id v,
                 bl_workspace_id = bv_workspace_id v, bl_revision = length rows + 1,
                 bl_predecessor_id = predecessor_id, bl_connection_id = bv_connection_id v,
                 bl_connection_revision = bv_connection_revision v, bl_database = bv_database v,
                 bl_namespace = bv_namespace v, bl_design_revision = bv_design_revision v,
                 bl_content = bv_content v, bl_catalog = bv_catalog v, bl_complete = bv_complete v,
                 bl_issues = bv_issues v, bl_source = bv_source v,
                 bl_source_execution_id = bv_source_execution_id v, bl_created_at = me_now env,
                 bl_connection_owner_id = Some (or_else (bv_connection_owner_id v) (bv_owner_id v))\<rparr>
               in (Inr record,
                   repo1\<lparr>mr_baselines := AList.update key (rows @ [record]) (mr_baselines repo1)\<rparr>)))"

record import_baseline =
  ib_connection_revision :: nat
  ib_content :: design_content
  ib_catalog :: pg_catalog
  ib_complete :: bool
  ib_issues :: "json list"

definition create_import_baseline ::
  "migration_env \<Rightarrow> bool \<Rightarrow> string \<Rightarrow> string \<Rightarrow> string \<Rightarrow> string option \<Rightarrow> string \<Rightarrow> string
   \<Rightarrow> import_baseline \<Rightarrow> baseline_record migration_call" where
  "create_import_baseline env metadata_cursor owner workspace connection connection_owner database namespace
     baseline repo =
     (if metadata_cursor
      then (Inl (MigrationValueError ''In-memory imports cannot join a PostgreSQL transaction''), repo)
      else create_baseline env \<lparr>bv_owner_id = owner, bv_workspace_id = workspace, bv_connection_id = connection,
             bv_connection_owner_id = Some (or_else connection_owner owner),
             bv_connection_revision = ib_connection_revision baseline, bv_database = database,
             bv_namespace = namespace, bv_design_revision = 1, bv_content = ib_content baseline,
             bv_catalog = ib_catalog baseline, bv_complete = ib_complete baseline,
             bv_issues = ib_issues baseline, bv_source = ''import'', bv_expected_predecessor_id = None,
             bv_source_execution_id = None\<rparr> repo)"

section \<open>Plans\<close>

definition abandoned_plan :: "plan_record \<Rightarrow> migration_repo \<Rightarrow> ws_key \<times> plan_record \<Rightarrow> bool" where
  "abandoned_plan record repo kp = (case kp of (key, candidate) \<Rightarrow>
     pl_owner_id candidate = pl_owner_id record
     \<and> mp_status (pl_plan candidate) \<in> set abandoned_plan_statuses
     \<and> mp_expires_at (pl_plan candidate) \<le> mp_created_at (pl_plan record)
     \<and> map_of (mr_execution_by_plan repo) key = None)"

definition create_plan_locked :: "plan_record \<Rightarrow> migration_plan migration_call" where
  "create_plan_locked record repo =
     (if blocks_workspace_lifecycle (pl_owner_id record) (mp_workspace_id (pl_plan record)) repo
      then (Inl (MigrationConflictError ''migration_execution_active''
              ''Finish or reconcile the current migration execution before creating another review'' []), repo)
      else (let kept = filter (\<lambda>kp. \<not> abandoned_plan record repo kp) (mr_plans repo)
            in (Inr (pl_plan record),
                repo\<lparr>mr_plans := AList.update (pl_owner_id record, mp_id (pl_plan record)) record kept\<rparr>)))"

definition create_plan :: "migration_env \<Rightarrow> plan_record \<Rightarrow> migration_plan migration_call" where
  "create_plan env record repo =
     (case claim_guard_check env (pl_owner_id record) (mp_workspace_id (pl_plan record)) of
        Some e \<Rightarrow> (Inl e, repo)
      | None \<Rightarrow> create_plan_locked record repo)"

definition get_plan :: "string \<Rightarrow> string \<Rightarrow> migration_repo \<Rightarrow> (migration_error, plan_record) result" where
  "get_plan owner plan_id repo =
     (case map_of (mr_plans repo) (owner, plan_id) of
        None \<Rightarrow> Inl (MigrationNotFoundError ''Migration plan was not found'')
      | Some record \<Rightarrow> Inr record)"

section \<open>Reserving executions\<close>

definition new_execution :: "migration_env \<Rightarrow> plan_record \<Rightarrow> string \<Rightarrow> instant \<Rightarrow> migration_execution" where
  "new_execution env record plan_id reserved_at =
     \<lparr>mx_id = ''mex_'' @ me_token env 0, mx_plan_id = plan_id,
      mx_workspace_id = mp_workspace_id (pl_plan record), mx_revision = 1, mx_status = Reserved,
      mx_completed_step_count = 0, mx_transaction_id = None, mx_commit_outcome = None,
      mx_sync_status = None, mx_error_code = None, mx_error_message = None, mx_reconcile_required = False,
      mx_recovery_available_at = None, mx_created_at = reserved_at, mx_updated_at = reserved_at\<rparr>"

text \<open>The checks of a reservation after the idempotent read, in the order of the source.\<close>

definition reservation_error :: "string \<Rightarrow> migration_plan \<Rightarrow> instant \<Rightarrow> migration_repo \<Rightarrow> migration_error option" where
  "reservation_error owner plan reserved_at repo = first_error
     [raise_if (blocks_workspace_lifecycle owner (mp_workspace_id plan) repo)
        (MigrationConflictError ''migration_execution_active''
           ''Finish or reconcile the current migration execution before starting another'' []),
      raise_if (mp_expires_at plan \<le> reserved_at)
        (MigrationConflictError ''migration_plan_expired'' ''Refresh the migration review'' []),
      raise_if (mp_status plan \<noteq> PlanReviewable \<or> \<not> mp_apply_capable plan)
        (MigrationConflictError ''migration_plan_not_executable'' ''Migration plan cannot be executed'' [])]"

definition reserved_record ::
  "migration_env \<Rightarrow> string \<Rightarrow> string \<Rightarrow> execution_create \<Rightarrow> instant \<Rightarrow> plan_record \<Rightarrow> execution_record" where
  "reserved_record env owner plan_id request reserved_at record =
     \<lparr>er_owner_id = owner, er_execution = new_execution env record plan_id reserved_at,
      er_confirmed_review_digest = xr_review_digest request,
      er_destructive_confirmed = xr_confirm_destructive request,
      er_external_changes_confirmed = xr_confirm_external_changes request,
      er_target_identity = None, er_intended_result = None, er_error_detail = None,
      er_lease_owner = None, er_lease_expires_at = None\<rparr>"

definition commit_reservation ::
  "migration_env \<Rightarrow> string \<Rightarrow> string \<Rightarrow> execution_create \<Rightarrow> instant \<Rightarrow> plan_record
   \<Rightarrow> execution_reservation migration_call" where
  "commit_reservation env owner plan_id request reserved_at record repo =
     (let execution_record = reserved_record env owner plan_id request reserved_at record;
          execution = er_execution execution_record
      in (Inr \<lparr>rs_record = execution_record, rs_reserved_now = True\<rparr>, repo\<lparr>
            mr_execution_by_plan := AList.update (owner, plan_id) (mx_id execution) (mr_execution_by_plan repo),
            mr_executions := AList.update (owner, mx_id execution) execution_record (mr_executions repo),
            mr_plans := AList.update (owner, plan_id)
              (record\<lparr>pl_plan := (pl_plan record)\<lparr>mp_status := PlanClaimed\<rparr>\<rparr>) (mr_plans repo)\<rparr>))"

definition reserve_execution_locked ::
  "migration_env \<Rightarrow> string \<Rightarrow> string \<Rightarrow> execution_create \<Rightarrow> instant \<Rightarrow> execution_reservation migration_call" where
  "reserve_execution_locked env owner plan_id request reserved_at repo =
     (case get_plan owner plan_id repo of
        Inl e \<Rightarrow> (Inl e, repo)
      | Inr record \<Rightarrow>
          (case validate_execution_authorization (pl_plan record) (xr_review_digest request)
                  (xr_confirm_destructive request) (xr_confirm_external_changes request) of
             Some e \<Rightarrow> (Inl e, repo)
           | None \<Rightarrow>
               (case map_of (mr_execution_by_plan repo) (owner, plan_id) of
                  Some existing_id \<Rightarrow>
                    (case map_of (mr_executions repo) (owner, existing_id) of
                       None \<Rightarrow> (Inl (MigrationNotFoundError ''KeyError''), repo)
                     | Some existing \<Rightarrow> (Inr \<lparr>rs_record = existing, rs_reserved_now = False\<rparr>, repo))
                | None \<Rightarrow>
                    (case reservation_error owner (pl_plan record) reserved_at repo of
                       Some e \<Rightarrow> (Inl e, repo)
                     | None \<Rightarrow> commit_reservation env owner plan_id request reserved_at record repo))))"

definition reserve_execution ::
  "migration_env \<Rightarrow> string \<Rightarrow> string \<Rightarrow> execution_create \<Rightarrow> instant \<Rightarrow> execution_reservation migration_call" where
  "reserve_execution env owner plan_id request reserved_at repo =
     (case get_plan owner plan_id repo of
        Inl e \<Rightarrow> (Inl e, repo)
      | Inr record \<Rightarrow>
          (case claim_guard_check env owner (mp_workspace_id (pl_plan record)) of
             Some e \<Rightarrow> (Inl e, repo)
           | None \<Rightarrow> reserve_execution_locked env owner plan_id request reserved_at repo))"

end
