(* ===== verification/Migration_Leases.thy ===== *)
theory Migration_Leases
  imports Migration_Repository
begin

text \<open>
  The second half of the in-memory migration repository (\<open>schemii/migrations/repository.py\<close>): claiming
  and renewing worker leases, listing executions, execution transitions and drift reconciliation.
\<close>

section \<open>Claiming work\<close>

definition lease_available :: "instant \<Rightarrow> execution_record \<Rightarrow> bool" where
  "lease_available now record = (er_lease_owner record = None
     \<or> (case er_lease_expires_at record of None \<Rightarrow> False | Some expires \<Rightarrow> expires \<le> now))"

definition work_of :: "execution_record \<Rightarrow> (nat \<times> work_kind) option" where
  "work_of record =
     (let execution = er_execution record in
      if mx_status execution = Applying then Some (0, ReconcileWork)
      else if mx_status execution = Reserved then Some (1, ExecuteWork)
      else if mx_status execution = Succeeded \<and> mx_commit_outcome execution = Some Committed
              \<and> unsettled_sync (mx_sync_status execution) then Some (2, SyncWork)
      else None)"

type_synonym claim_key = "nat \<times> instant \<times> string"
type_synonym candidate = "claim_key \<times> execution_record \<times> work_kind"

definition eligible_work :: "instant \<Rightarrow> migration_repo \<Rightarrow> candidate list" where
  "eligible_work claimed_at repo = concat (map (\<lambda>record.
     if \<not> lease_available claimed_at record then []
     else (case work_of record of None \<Rightarrow> []
       | Some (priority, kind) \<Rightarrow>
           [((priority, mx_created_at (er_execution record), mx_id (er_execution record)), record, kind)]))
     (dict_values (mr_executions repo)))"

text \<open>
  \<open>min\<close> on tuples whose fourth component has no order: \<^const>\<open>None\<close> is the \<open>TypeError\<close> of comparing
  two candidates that agree on the first three.
\<close>

fun min_candidate :: "candidate \<Rightarrow> candidate list \<Rightarrow> candidate option" where
  "min_candidate best [] = Some best"
| "min_candidate best (c # cs) =
     (if fst c = fst best then None
      else if fst c < fst best then min_candidate c cs
      else min_candidate best cs)"

definition lease_to :: "string \<Rightarrow> instant \<Rightarrow> instant \<Rightarrow> execution_record \<Rightarrow> execution_record" where
  "lease_to lease_owner lease_expires_at claimed_at current = current\<lparr>
     er_execution := (er_execution current)\<lparr>mx_revision := mx_revision (er_execution current) + 1,
       mx_recovery_available_at := Some lease_expires_at, mx_updated_at := claimed_at\<rparr>,
     er_lease_owner := Some lease_owner, er_lease_expires_at := Some lease_expires_at\<rparr>"

definition claim_next_execution ::
  "instant \<Rightarrow> string \<Rightarrow> instant \<Rightarrow> execution_work option migration_call" where
  "claim_next_execution claimed_at lease_owner lease_expires_at repo =
     (case eligible_work claimed_at repo of
        [] \<Rightarrow> (Inr None, repo)
      | c # cs \<Rightarrow>
          (case min_candidate c cs of
             None \<Rightarrow> (Inl MigrationTypeError, repo)
           | Some ((_, _, execution_id), current, kind) \<Rightarrow>
               (let claimed = lease_to lease_owner lease_expires_at claimed_at current
                in (Inr (Some \<lparr>wk_kind = kind, wk_record = claimed\<rparr>),
                    repo\<lparr>mr_executions :=
                      AList.update (er_owner_id current, execution_id) claimed (mr_executions repo)\<rparr>))))"

definition renewed_record :: "string \<Rightarrow> instant \<Rightarrow> execution_record \<Rightarrow> execution_record" where
  "renewed_record lease_owner lease_expires_at current = current\<lparr>
     er_execution := (er_execution current)\<lparr>mx_recovery_available_at := Some lease_expires_at\<rparr>,
     er_lease_owner := Some lease_owner, er_lease_expires_at := Some lease_expires_at\<rparr>"

definition renew_execution_lease ::
  "ws_key \<Rightarrow> string \<Rightarrow> instant \<Rightarrow> migration_repo \<Rightarrow> bool \<times> migration_repo" where
  "renew_execution_lease key lease_owner lease_expires_at repo =
     (case map_of (mr_executions repo) key of
        None \<Rightarrow> (False, repo)
      | Some current \<Rightarrow>
          if er_lease_owner current \<noteq> Some lease_owner then (False, repo)
          else if mx_status (er_execution current) \<notin> {Reserved, Applying, Succeeded} then (False, repo)
          else (True, repo\<lparr>mr_executions := AList.update key
                 (renewed_record lease_owner lease_expires_at current) (mr_executions repo)\<rparr>))"

section \<open>Reading executions\<close>

definition get_execution :: "ws_key \<Rightarrow> migration_repo \<Rightarrow> (migration_error, execution_record) result" where
  "get_execution key repo =
     (case map_of (mr_executions repo) key of
        None \<Rightarrow> Inl (MigrationNotFoundError ''Migration execution was not found'')
      | Some record \<Rightarrow> Inr record)"

text \<open>\<open>sorted(..., reverse=True)\<close> is stable, so it sorts by the negated instant.\<close>

definition list_executions :: "string \<Rightarrow> string \<Rightarrow> nat \<Rightarrow> migration_repo \<Rightarrow> migration_execution list" where
  "list_executions owner workspace limit repo =
     take limit (sort_key (\<lambda>item. - mx_created_at item)
       (map (er_execution \<circ> snd) (filter (\<lambda>((candidate_owner, _), item).
          candidate_owner = owner \<and> mx_workspace_id (er_execution item) = workspace) (mr_executions repo))))"

text \<open>\<open>datetime.min\<close> as an instant.\<close>

definition datetime_min :: instant where
  "datetime_min = - 62135596800000000"

definition lease_expired :: "instant \<Rightarrow> execution_record \<Rightarrow> bool" where
  "lease_expired stale_at record =
     (case er_lease_expires_at record of None \<Rightarrow> False | Some expires \<Rightarrow> expires \<le> stale_at)"

definition recoverable :: "instant \<Rightarrow> execution_record \<Rightarrow> bool" where
  "recoverable stale_at record =
     (let execution = er_execution record in
      (mx_status execution = Reserved \<and> er_lease_owner record = None)
      \<or> (mx_status execution \<in> {Reserved, Applying} \<and> lease_expired stale_at record)
      \<or> (mx_status execution = Succeeded \<and> mx_commit_outcome execution = Some Committed
         \<and> unsettled_sync (mx_sync_status execution)
         \<and> (er_lease_owner record = None \<or> lease_expired stale_at record)))"

definition list_recoverable_executions :: "instant \<Rightarrow> nat \<Rightarrow> migration_repo \<Rightarrow> execution_record list" where
  "list_recoverable_executions stale_at limit repo =
     take limit (sort_key (\<lambda>item.
        (case er_lease_expires_at item of None \<Rightarrow> datetime_min | Some t \<Rightarrow> t, mx_id (er_execution item)))
       (filter (recoverable stale_at) (dict_values (mr_executions repo))))"

section \<open>Transitions\<close>

datatype 'a setting = UNSET | SetTo 'a

fun setting_or :: "'a \<Rightarrow> 'a setting \<Rightarrow> 'a" where
  "setting_or current UNSET = current"
| "setting_or current (SetTo v) = v"

record execution_change =
  tx_expected_revision :: nat
  tx_allowed_from :: "execution_status list"
  tx_status :: execution_status
  tx_lease_owner :: "string option"
  tx_lease_expires_at :: "instant option"
  tx_recover_expired_before :: "instant option"
  tx_completed_step_count :: "nat setting"
  tx_transaction_id :: "string option setting"
  tx_target_identity :: "detail option setting"
  tx_intended_result :: "detail option setting"
  tx_commit_outcome :: "commit_outcome option setting"
  tx_sync_status :: "sync_status option setting"
  tx_error_code :: "string option setting"
  tx_error_detail :: "detail option setting"

text \<open>\<open>(error_detail or {}).get("message")\<close>\<close>

definition detail_message :: "detail option \<Rightarrow> json option" where
  "detail_message detail =
     (case map_of (case detail of None \<Rightarrow> [] | Some kvs \<Rightarrow> kvs) ''message'' of
        None \<Rightarrow> None | Some JNull \<Rightarrow> None | Some v \<Rightarrow> Some v)"

definition lease_blocks :: "execution_change \<Rightarrow> execution_record \<Rightarrow> migration_error option" where
  "lease_blocks change current =
     (case er_lease_owner current of None \<Rightarrow> None
      | Some holder \<Rightarrow>
          raise_if (tx_lease_owner change \<noteq> Some holder
                    \<and> \<not> (case (tx_recover_expired_before change, er_lease_expires_at current) of
                           (Some before, Some expires) \<Rightarrow> expires \<le> before | _ \<Rightarrow> False))
            (MigrationConflictError ''migration_execution_lease_active''
               ''The migration execution is owned by an active worker lease''
               [(''recoveryAvailableAt'', json_opt JInt (er_lease_expires_at current))]))"

definition change_holds_lease :: "execution_change \<Rightarrow> execution_record \<Rightarrow> bool" where
  "change_holds_lease change current = holds_execution_lease (tx_status change)
     (setting_or (mx_sync_status (er_execution current)) (tx_sync_status change))"

definition changed_execution :: "migration_env \<Rightarrow> execution_change \<Rightarrow> execution_record \<Rightarrow> migration_execution" where
  "changed_execution env change current =
     (let e = er_execution current in e\<lparr>
        mx_revision := mx_revision e + 1,
        mx_status := tx_status change,
        mx_recovery_available_at := (if change_holds_lease change current then tx_lease_expires_at change else None),
        mx_updated_at := me_now env,
        mx_completed_step_count := setting_or (mx_completed_step_count e) (tx_completed_step_count change),
        mx_transaction_id := setting_or (mx_transaction_id e) (tx_transaction_id change),
        mx_commit_outcome := setting_or (mx_commit_outcome e) (tx_commit_outcome change),
        mx_sync_status := setting_or (mx_sync_status e) (tx_sync_status change),
        mx_error_code := setting_or (mx_error_code e) (tx_error_code change),
        mx_reconcile_required := tx_status change \<in> {Uncertain, ReconciliationRequired},
        mx_error_message := (case tx_error_detail change of UNSET \<Rightarrow> mx_error_message e
                             | SetTo detail \<Rightarrow> detail_message detail)\<rparr>)"

definition changed_record :: "migration_env \<Rightarrow> string \<Rightarrow> execution_change \<Rightarrow> execution_record \<Rightarrow> execution_record" where
  "changed_record env owner change current =
     (let holds = change_holds_lease change current in current\<lparr>
        er_owner_id := owner,
        er_execution := changed_execution env change current,
        er_target_identity := setting_or (er_target_identity current) (tx_target_identity change),
        er_intended_result := setting_or (er_intended_result current) (tx_intended_result change),
        er_error_detail := setting_or (er_error_detail current) (tx_error_detail change),
        er_lease_owner := (if holds then tx_lease_owner change else None),
        er_lease_expires_at := (if holds then tx_lease_expires_at change else None)\<rparr>)"

definition transition_execution ::
  "migration_env \<Rightarrow> ws_key \<Rightarrow> execution_change \<Rightarrow> execution_record migration_call" where
  "transition_execution env key change repo =
     (case get_execution key repo of
        Inl e \<Rightarrow> (Inl e, repo)
      | Inr current \<Rightarrow>
          (case first_error
             [validate_execution_transition (er_execution current) (tx_expected_revision change)
                (tx_allowed_from change) (tx_status change),
              lease_blocks change current,
              raise_if (change_holds_lease change current
                        \<and> (tx_lease_owner change = None \<or> tx_lease_expires_at change = None))
                (MigrationValueError ''leased migration execution transitions require an owner and expiry'')] of
             Some e \<Rightarrow> (Inl e, repo)
           | None \<Rightarrow>
               (let record = changed_record env (fst key) change current
                in (Inr record, repo\<lparr>mr_executions := AList.update key record (mr_executions repo)\<rparr>))))"

section \<open>Drift reconciliation\<close>

definition drift_baseline :: "plan_record \<Rightarrow> design_content \<Rightarrow> schemii_design \<Rightarrow> baseline_values" where
  "drift_baseline record live_content design =
     (let owner = pl_owner_id record; authority = pl_authority record in
      \<lparr>bv_owner_id = owner, bv_workspace_id = mp_workspace_id (pl_plan record),
       bv_connection_id = pa_connection_id authority,
       bv_connection_owner_id = Some (or_else (pa_connection_owner_id authority) owner),
       bv_connection_revision = pa_connection_revision authority, bv_database = pa_database authority,
       bv_namespace = pa_namespace authority, bv_design_revision = ds_revision design,
       bv_content = live_content, bv_catalog = pa_live_catalog authority, bv_complete = True,
       bv_issues = [], bv_source = ''drift_reconciliation'',
       bv_expected_predecessor_id = Some (pl_baseline_id record), bv_source_execution_id = None\<rparr>)"

definition reconcile_drift_locked ::
  "migration_env \<Rightarrow> plan_record \<Rightarrow> nat \<Rightarrow> design_content \<Rightarrow> design_content \<Rightarrow> drift_resolution migration_call" where
  "reconcile_drift_locked env record expected_design_revision resolved_content live_content repo =
     (let owner = pl_owner_id record; plan = pl_plan record; authority = pl_authority record in
      if blocks_workspace_lifecycle owner (mp_workspace_id plan) repo
      then (Inl (MigrationConflictError ''migration_execution_active''
              ''Finish or reconcile the current migration execution before resolving drift'' []), repo)
      else (case replace_design (me_design_env env) (owner, mp_workspace_id plan)
              \<lparr>dr_expected_design_revision = expected_design_revision, dr_content = resolved_content,
               dr_history_group_id = None\<rparr> ''checkpoint'' (mr_designs repo) of
          (Inl e, designs) \<Rightarrow> (Inl (MigrationDesignError e), repo\<lparr>mr_designs := designs\<rparr>)
        | (Inr design, designs) \<Rightarrow>
            (case create_baseline env (drift_baseline record live_content design)
                (repo\<lparr>mr_designs := designs\<rparr>) of
               (Inl e, repo2) \<Rightarrow> (Inl e, repo2)
             | (Inr baseline, repo2) \<Rightarrow>
                 (Inr \<lparr>dv_id = ''mdr_'' @ me_token env 1, dv_plan_id = mp_id plan,
                    dv_workspace_id = mp_workspace_id plan, dv_design_revision = ds_revision design,
                    dv_design_fingerprint = ds_fingerprint design, dv_baseline_revision = bl_revision baseline,
                    dv_catalog_fingerprint = cat_fingerprint (pa_live_catalog authority),
                    dv_incorporated_external_changes = mp_external_changes plan, dv_created_at = me_now env\<rparr>,
                  repo2\<lparr>mr_plans := AList.update (owner, mp_id plan)
                    (record\<lparr>pl_plan := plan\<lparr>mp_status := PlanResolved\<rparr>\<rparr>) (mr_plans repo2)\<rparr>))))"

definition reconcile_drift ::
  "migration_env \<Rightarrow> plan_record \<Rightarrow> nat \<Rightarrow> design_content \<Rightarrow> design_content \<Rightarrow> drift_resolution migration_call" where
  "reconcile_drift env record expected_design_revision resolved_content live_content repo =
     (case claim_guard_check env (pl_owner_id record) (mp_workspace_id (pl_plan record)) of
        Some e \<Rightarrow> (Inl e, repo)
      | None \<Rightarrow> reconcile_drift_locked env record expected_design_revision resolved_content live_content repo)"

end
