(* ===== verification/Revision_Control.thy ===== *)
theory Revision_Control
  imports Schemii_Prelude
begin

text \<open>
  Optimistic concurrency control, the contract every versioned resource of the program follows: a
  write names the revision its author read, is refused when the stored revision differs, and
  otherwise stores a value with the next revision (or leaves the value as it is).

  The contract is the locale \<open>versioned_store\<close>; the components that promise it (designs, layouts,
  workspaces, connections, migration executions) interpret it on their own operations.
\<close>

definition run_writes :: "('k \<Rightarrow> 'r \<Rightarrow> 's \<Rightarrow> ('e, 'o) result \<times> 's) \<Rightarrow> ('k \<times> 'r) list \<Rightarrow> 's \<Rightarrow> 's" where
  "run_writes write = fold (\<lambda>(k, r) s. snd (write k r s))"

lemma run_writes_simps [simp]:
  "run_writes write [] s = s"
  "run_writes write ((k, r) # ops) s = run_writes write ops (snd (write k r s))"
  by (simp_all add: run_writes_def)

locale versioned_store =
  fixes valid :: "'s \<Rightarrow> bool"
    and value_at :: "'s \<Rightarrow> 'k \<Rightarrow> 'v option"
    and version :: "'v \<Rightarrow> nat"
    and expected :: "'r \<Rightarrow> nat"
    and "write" :: "'k \<Rightarrow> 'r \<Rightarrow> 's \<Rightarrow> ('e, 'o) result \<times> 's"
  assumes accepted: "valid s \<Longrightarrow> write k r s = (Inr out, s') \<Longrightarrow>
      \<exists>old new. value_at s k = Some old \<and> version old = expected r \<and> value_at s' k = Some new
        \<and> (new = old \<or> version new = Suc (version old))"
    and refused: "valid s \<Longrightarrow> write k r s = (Inl e, s') \<Longrightarrow> value_at s' k = value_at s k"
    and elsewhere: "valid s \<Longrightarrow> k' \<noteq> k \<Longrightarrow> value_at (snd (write k r s)) k' = value_at s k'"
    and stays_valid: "valid s \<Longrightarrow> valid (snd (write k r s))"
begin

lemma write_step:
  assumes "valid s" "value_at s k = Some v"
  shows "\<exists>w. value_at (snd (write k' r s)) k = Some w \<and> (w = v \<or> version w = Suc (version v))"
proof (cases "k' = k")
  case True
  obtain res s' where w: "write k r s = (res, s')" by fastforce
  show ?thesis
    using assms w True accepted[of s k r _ s'] refused[of s k r _ s'] by (cases res) fastforce+
qed (use assms elsewhere in auto)

text \<open>Revisions only grow, and a revision is never used for two different values.\<close>

lemma run_version:
  assumes "valid s" "value_at s k = Some v"
  shows "\<exists>w. value_at (run_writes write ops s) k = Some w \<and> (w = v \<or> version v < version w)"
  using assms
proof (induction ops arbitrary: s v)
  case (Cons op ops)
  obtain k' r where op: "op = (k', r)" by fastforce
  from write_step[OF Cons.prems, of k' r] obtain w where
    w: "value_at (snd (write k' r s)) k = Some w" "w = v \<or> version w = Suc (version v)" by blast
  from Cons.IH[OF stays_valid[OF Cons.prems(1)] w(1)] show ?case
    using w(2) by (fastforce simp: op)
qed simp

lemma run_valid: "valid s \<Longrightarrow> valid (run_writes write ops s)"
  by (induction ops arbitrary: s) (auto simp: stays_valid)

text \<open>An accepted write replaces exactly the value its author read, whatever happened in between.\<close>

lemma no_lost_update:
  assumes "valid s" "value_at s k = Some v" "expected r = version v"
    and "write k r (run_writes write ops s) = (Inr out, s')"
  shows "value_at (run_writes write ops s) k = Some v"
  using run_version[OF assms(1,2), of ops] accepted[OF run_valid[OF assms(1)] assms(4)] assms(3) by auto

text \<open>Of several writes based on the same revision, at most one changes the value.\<close>

lemma one_winner:
  assumes "valid s" "write k r s = (Inr out, s')" "value_at s' k \<noteq> value_at s k" "expected r' = expected r"
  shows "\<exists>e s''. write k r' (run_writes write ops s') = (Inl e, s'')"
proof -
  obtain old new where o: "version old = expected r" "value_at s' k = Some new" "version new = Suc (version old)"
    using accepted[OF assms(1,2)] assms(3) by auto
  have v: "valid s'" using stays_valid[OF assms(1), of k r] assms(2) by simp
  obtain w where w: "value_at (run_writes write ops s') k = Some w" "version new \<le> version w"
    using run_version[OF v o(2), of ops] by auto
  show ?thesis
    using accepted[OF run_valid[OF v]] o w assms(4)
    by (cases "write k r' (run_writes write ops s')" rule: prod.exhaust; cases "fst (write k r' (run_writes write ops s'))") fastforce+
qed

end

end
