(* ===== verification/Lease_Control.thy ===== *)
theory Lease_Control
  imports Schemii_Prelude
begin

text \<open>
  Leases: the contract between a store of work items and the workers that process them. While an
  item is leased and the lease has not expired, no command of anybody else changes the item.

  Commands are checked against the state they run in (\<open>all_allowed\<close>), because new identifiers have to
  be unused at that moment.
\<close>

fun all_allowed :: "('c \<Rightarrow> 's \<Rightarrow> bool) \<Rightarrow> ('c \<Rightarrow> 's \<Rightarrow> 's) \<Rightarrow> 'c list \<Rightarrow> 's \<Rightarrow> bool" where
  "all_allowed allowed step [] s = True"
| "all_allowed allowed step (c # cs) s = (allowed c s \<and> all_allowed allowed step cs (step c s))"

definition run_steps :: "('c \<Rightarrow> 's \<Rightarrow> 's) \<Rightarrow> 'c list \<Rightarrow> 's \<Rightarrow> 's" where
  "run_steps step cs s = fold step cs s"

lemma run_steps_simps [simp]:
  "run_steps step [] s = s"
  "run_steps step (c # cs) s = run_steps step cs (step c s)"
  by (simp_all add: run_steps_def)

text \<open>The invariant rule for sequences of allowed commands.\<close>

lemma run_invariant [consumes 2, case_names step]:
  assumes "all_allowed allowed step cs s" "P s"
    and "\<And>c s. allowed c s \<Longrightarrow> P s \<Longrightarrow> P (step c s)"
  shows "P (run_steps step cs s)"
  using assms(1,2) by (induction cs arbitrary: s) (auto intro: assms(3))

locale leased_store =
  fixes valid :: "'s \<Rightarrow> bool"
    and item_at :: "'s \<Rightarrow> 'k \<Rightarrow> 'v option"
    and lease_of :: "'v \<Rightarrow> ('w \<times> instant) option"
    and step :: "'c \<Rightarrow> 's \<Rightarrow> 's"
    and outsider :: "'k \<Rightarrow> 'w \<Rightarrow> instant \<Rightarrow> 'c \<Rightarrow> 's \<Rightarrow> bool"
  assumes fenced: "valid s \<Longrightarrow> item_at s k = Some v \<Longrightarrow> lease_of v = Some (w, until) \<Longrightarrow>
      outsider k w until c s \<Longrightarrow> item_at (step c s) k = Some v"
    and stays_valid: "valid s \<Longrightarrow> outsider k w until c s \<Longrightarrow> valid (step c s)"
begin

lemma exclusive:
  assumes "valid s" "item_at s k = Some v" "lease_of v = Some (w, until)"
    and "all_allowed (outsider k w until) step cs s"
  shows "item_at (run_steps step cs s) k = Some v"
proof -
  have "valid (run_steps step cs s) \<and> item_at (run_steps step cs s) k = Some v"
    using assms(4)
  proof (rule run_invariant)
    show "valid s \<and> item_at s k = Some v" using assms(1,2) by simp
  qed (use assms(3) in \<open>auto intro: fenced stays_valid\<close>)
  then show ?thesis by simp
qed

end

end
