(* ===== verification/Connection_Store.thy ===== *)
theory Connection_Store
  imports Json_Value Revision_Control Lease_Control "HOL-Library.Multiset"
begin

text \<open>
  Saved PostgreSQL connections: the models of \<open>common/connections/models.py\<close>, the in-memory repository
  of \<open>common/connections/store.py\<close> and the deletion impact of \<open>common/connections/dependencies.py\<close>.

  Profiles carry no credential; the password is kept beside the profile. The clock and the random
  token of a new identifier are arguments. In an update, \<open>Absent\<close> is a field that was not sent.
\<close>

section \<open>Models\<close>

definition schemii_connection_owner_id :: string where
  "schemii_connection_owner_id = ''user_schemii_connection_pool''"

datatype ownership = UserOwned | SchemiiOwned

definition ownership_for_owner :: "string option \<Rightarrow> ownership" where
  "ownership_for_owner owner = (if owner = Some schemii_connection_owner_id then SchemiiOwned else UserOwned)"

definition postgres_identifier :: "string \<Rightarrow> bool" where
  "postgres_identifier value = (char_of (0::nat) \<notin> set value \<and> length value \<le> 63)"

definition bounded_password :: "string \<Rightarrow> bool" where
  "bounded_password value = (length value \<le> 4096)"

datatype ssl_mode = SslDisable | SslAllow | SslPrefer | SslRequire | SslVerifyCa | SslVerifyFull

record connection_metadata =
  cn_name :: string
  cn_host :: string
  cn_port :: nat
  cn_database :: string
  cn_username :: string
  cn_ssl_mode :: ssl_mode
  cn_connect_timeout :: nat

definition valid_host :: "string \<Rightarrow> bool" where
  "valid_host value = (\<not> (contains '','' value \<or> list_ex (\<lambda>w. contains w value) whitespace
     \<or> list_ex (\<lambda>c. (of_char c :: nat) < 32 \<or> (of_char c :: nat) = 127) value))"

text \<open>
  \<open>PostgresConnectionMetadata(...)\<close>: name and host are stripped and bounded in characters, and every field is checked. A failed
  check is Pydantic's \<open>ValidationError\<close>, named by its field.
\<close>

definition validate_metadata :: "connection_metadata \<Rightarrow> (string, connection_metadata) result" where
  "validate_metadata m =
     (let n = m\<lparr>cn_name := strip (cn_name m), cn_host := strip (cn_host m)\<rparr> in
      after_check (first_error
        [raise_if (cn_name n = '''' \<or> 128 < char_count (cn_name n)) ''name'',
         raise_if (cn_host n = '''' \<or> 255 < char_count (cn_host n) \<or> \<not> valid_host (cn_host n)) ''host'',
         raise_unless (1 \<le> cn_port n \<and> cn_port n \<le> 65535) ''port'',
         raise_if (cn_database n = '''' \<or> \<not> postgres_identifier (cn_database n)) ''database'',
         raise_if (cn_username n = '''' \<or> \<not> postgres_identifier (cn_username n)) ''username'',
         raise_unless (1 \<le> cn_connect_timeout n \<and> cn_connect_timeout n \<le> 30) ''connect_timeout'']) (Inr n))"

record connection_create =
  cc_metadata :: connection_metadata
  cc_password :: "string option"

datatype 'a sent = Absent | Sent 'a

fun sent_or :: "'a \<Rightarrow> 'a sent \<Rightarrow> 'a" where
  "sent_or current Absent = current"
| "sent_or current (Sent v) = v"

record connection_update =
  cu_expected_revision :: nat
  cu_name :: "string option sent"
  cu_host :: "string option sent"
  cu_port :: "nat option sent"
  cu_database :: "string option sent"
  cu_username :: "string option sent"
  cu_ssl_mode :: "ssl_mode option sent"
  cu_connect_timeout :: "nat option sent"
  cu_password :: "string option sent"

fun null_sent :: "'a option sent \<Rightarrow> bool" where
  "null_sent (Sent None) = True"
| "null_sent _ = False"

definition null_field :: "connection_update \<Rightarrow> bool" where
  "null_field u = (null_sent (cu_name u) \<or> null_sent (cu_host u) \<or> null_sent (cu_port u) \<or> null_sent (cu_database u)
     \<or> null_sent (cu_username u) \<or> null_sent (cu_ssl_mode u) \<or> null_sent (cu_connect_timeout u))"

definition validate_changes :: "connection_update \<Rightarrow> string option" where
  "validate_changes u = first_error
     [raise_if (cu_name u = Absent \<and> cu_host u = Absent \<and> cu_port u = Absent \<and> cu_database u = Absent
                \<and> cu_username u = Absent \<and> cu_ssl_mode u = Absent \<and> cu_connect_timeout u = Absent
                \<and> cu_password u = Absent)
        ''at least one connection field must be provided'',
      raise_if (null_field u) ''connection fields cannot be null'']"

record connection_profile = connection_metadata +
  cn_id :: string
  cn_owner_id :: "string option"
  cn_ownership :: ownership
  cn_revision :: nat
  cn_credential_stored :: bool
  cn_created_at :: instant
  cn_updated_at :: instant

definition valid_chronology :: "connection_profile \<Rightarrow> string option" where
  "valid_chronology p = first_error
     [raise_if (cn_updated_at p < cn_created_at p) ''updated_at cannot be earlier than created_at'',
      raise_if (cn_ownership p \<noteq> ownership_for_owner (cn_owner_id p)) ''connection ownership does not match its owner'']"

record resolved_connection = connection_metadata +
  rc_id :: string
  rc_owner_id :: "string option"
  rc_ownership :: ownership
  rc_revision :: nat
  rc_password :: "string option"

definition valid_ownership :: "resolved_connection \<Rightarrow> string option" where
  "valid_ownership c = raise_if (rc_ownership c \<noteq> ownership_for_owner (rc_owner_id c))
     ''connection ownership does not match its owner''"

section \<open>Repository\<close>

datatype connection_error =
    ConnectionNotFoundError
  | ConnectionConflictError nat
  | ConnectionLimitError nat
  | ConnectionValidationError string

record connection_record =
  cr_profile :: connection_profile
  cr_password :: "string option"

record connection_repo =
  cn_records :: "(string, (string, connection_record) dict) dict"
  cn_max_connections_per_owner :: nat

type_synonym 'a connection_call = "connection_repo \<Rightarrow> (connection_error, 'a) result \<times> connection_repo"

definition new_connection_repo :: "nat \<Rightarrow> (string, connection_repo) result" where
  "new_connection_repo max_connections =
     (if max_connections < 1 then Inl ''max_connections_per_owner must be positive''
      else Inr \<lparr>cn_records = [], cn_max_connections_per_owner = max_connections\<rparr>)"

definition owner_connections :: "string \<Rightarrow> connection_repo \<Rightarrow> (string, connection_record) dict" where
  "owner_connections owner repo = dict_get (cn_records repo) owner []"

definition connection_record_at :: "connection_repo \<Rightarrow> string \<times> string \<Rightarrow> connection_record option" where
  "connection_record_at repo key = map_of (owner_connections (fst key) repo) (snd key)"

definition put_connection :: "string \<times> string \<Rightarrow> connection_record \<Rightarrow> connection_repo \<Rightarrow> connection_repo" where
  "put_connection key r repo = repo\<lparr>cn_records := AList.update (fst key)
     (AList.update (snd key) r (owner_connections (fst key) repo)) (cn_records repo)\<rparr>"

definition list_connections :: "string \<Rightarrow> connection_repo \<Rightarrow> connection_profile list" where
  "list_connections owner repo = sort_key (\<lambda>p. (casefold (cn_name p), cn_id p))
     (map cr_profile (dict_values (owner_connections owner repo)))"

definition list_for_owners :: "string list \<Rightarrow> connection_repo \<Rightarrow> connection_profile list" where
  "list_for_owners owners repo =
     sort_key (\<lambda>p. (case cn_owner_id p of None \<Rightarrow> '''' | Some owner \<Rightarrow> owner, casefold (cn_name p), cn_id p))
       (concat (map (\<lambda>owner. map cr_profile (dict_values (owner_connections owner repo))) (dedupe owners)))"

definition get_connection :: "string \<times> string \<Rightarrow> connection_repo \<Rightarrow> (connection_error, connection_profile) result" where
  "get_connection key repo =
     (case connection_record_at repo key of None \<Rightarrow> Inl ConnectionNotFoundError | Some r \<Rightarrow> Inr (cr_profile r))"

definition profile_of ::
  "connection_metadata \<Rightarrow> string \<Rightarrow> string option \<Rightarrow> ownership \<Rightarrow> nat \<Rightarrow> bool \<Rightarrow> instant \<Rightarrow> instant \<Rightarrow> connection_profile" where
  "profile_of m connection_id owner own revision stored created updated =
     connection_metadata.extend m \<lparr>cn_id = connection_id, cn_owner_id = owner, cn_ownership = own,
       cn_revision = revision, cn_credential_stored = stored, cn_created_at = created, cn_updated_at = updated\<rparr>"

text \<open>Creation requests were validated when they were parsed; the profile constructor repeats the checks.\<close>

definition create_connection ::
  "string \<Rightarrow> instant \<Rightarrow> string \<Rightarrow> connection_create \<Rightarrow> connection_profile connection_call" where
  "create_connection token now owner request repo =
     (let repo1 = repo\<lparr>cn_records := setdefault (cn_records repo) owner []\<rparr> in
      if length (owner_connections owner repo1) \<ge> cn_max_connections_per_owner repo1
      then (Inl (ConnectionLimitError (cn_max_connections_per_owner repo1)), repo1)
      else (case validate_metadata (cc_metadata request) of
          Inl field \<Rightarrow> (Inl (ConnectionValidationError field), repo1)
        | Inr m \<Rightarrow>
            (let connection_id = ''pg_'' @ token;
                 profile = profile_of m connection_id (Some owner) (ownership_for_owner (Some owner)) 1
                   (cc_password request \<noteq> None) now now
             in case valid_chronology profile of
                  Some e \<Rightarrow> (Inl (ConnectionValidationError e), repo1)
                | None \<Rightarrow> (Inr profile, put_connection (owner, connection_id)
                            \<lparr>cr_profile = profile, cr_password = cc_password request\<rparr> repo1))))"

text \<open>\<open>{**self._metadata(record.profile), **changes}\<close>; sent fields are not null (\<open>validate_changes\<close>).\<close>

text \<open>The stored fields overlaid with the fields that were sent; a null field does not validate.\<close>

definition changed_metadata :: "connection_update \<Rightarrow> connection_profile \<Rightarrow> connection_metadata" where
  "changed_metadata u p =
     \<lparr>cn_name = the (sent_or (Some (cn_name p)) (cu_name u)),
      cn_host = the (sent_or (Some (cn_host p)) (cu_host u)),
      cn_port = the (sent_or (Some (cn_port p)) (cu_port u)),
      cn_database = the (sent_or (Some (cn_database p)) (cu_database u)),
      cn_username = the (sent_or (Some (cn_username p)) (cu_username u)),
      cn_ssl_mode = the (sent_or (Some (cn_ssl_mode p)) (cu_ssl_mode u)),
      cn_connect_timeout = the (sent_or (Some (cn_connect_timeout p)) (cu_connect_timeout u))\<rparr>"

definition update_connection ::
  "instant \<Rightarrow> string \<times> string \<Rightarrow> connection_update \<Rightarrow> connection_profile connection_call" where
  "update_connection now key request repo =
     (case connection_record_at repo key of
        None \<Rightarrow> (Inl ConnectionNotFoundError, repo)
      | Some r \<Rightarrow>
          (let p = cr_profile r in
           if cn_revision p \<noteq> cu_expected_revision request
           then (Inl (ConnectionConflictError (cn_revision p)), repo)
           else if null_field request
           then (Inl (ConnectionValidationError ''connection fields cannot be null''), repo)
           else (case validate_metadata (changed_metadata request p) of
               Inl field \<Rightarrow> (Inl (ConnectionValidationError field), repo)
             | Inr m \<Rightarrow>
                 (let password = sent_or (cr_password r) (cu_password request);
                      updated = profile_of m (cn_id p) (cn_owner_id p) (cn_ownership p) (cn_revision p + 1)
                        (password \<noteq> None) (cn_created_at p) now
                  in case valid_chronology updated of
                       Some e \<Rightarrow> (Inl (ConnectionValidationError e), repo)
                     | None \<Rightarrow> (Inr updated, put_connection key \<lparr>cr_profile = updated, cr_password = password\<rparr> repo)))))"

definition drop_connection :: "string \<times> string \<Rightarrow> connection_repo \<Rightarrow> connection_repo" where
  "drop_connection key repo = repo\<lparr>cn_records := AList.update (fst key)
     (AList.delete (snd key) (owner_connections (fst key) repo)) (cn_records repo)\<rparr>"

definition delete_connection :: "string \<times> string \<Rightarrow> nat \<Rightarrow> unit connection_call" where
  "delete_connection key expected_revision repo =
     (case connection_record_at repo key of
        None \<Rightarrow> (Inl ConnectionNotFoundError, repo)
      | Some r \<Rightarrow>
          if cn_revision (cr_profile r) \<noteq> expected_revision
          then (Inl (ConnectionConflictError (cn_revision (cr_profile r))), repo)
          else (Inr (), drop_connection key repo))"

definition resolve_connection :: "string \<times> string \<Rightarrow> connection_repo \<Rightarrow> (connection_error, resolved_connection) result" where
  "resolve_connection key repo =
     (case connection_record_at repo key of
        None \<Rightarrow> Inl ConnectionNotFoundError
      | Some r \<Rightarrow>
          (let p = cr_profile r in
           case validate_metadata (connection_metadata.truncate p) of
             Inl field \<Rightarrow> Inl (ConnectionValidationError field)
           | Inr m \<Rightarrow>
               (let resolved = connection_metadata.extend m
                  \<lparr>rc_id = cn_id p, rc_owner_id = cn_owner_id p, rc_ownership = cn_ownership p,
                   rc_revision = cn_revision p, rc_password = cr_password r\<rparr>
                in case valid_ownership resolved of
                     Some e \<Rightarrow> Inl (ConnectionValidationError e) | None \<Rightarrow> Inr resolved)))"

section \<open>Deletion impact\<close>

text \<open>
  \<open>ConnectionDependentResource\<close> and \<open>ConnectionDeletionImpact.build\<close>; \<open>asdict\<close> of a resource is an object
  with its fields.
\<close>

record dependent_resource =
  de_provider :: string
  de_kind :: string
  de_resource_id :: string
  de_revision :: nat
  de_name :: string
  de_target :: "string option"
  de_deletion_blocked :: bool
  de_blocking_reason :: "string option"

definition json_option :: "string option \<Rightarrow> json" where
  "json_option v = (case v of None \<Rightarrow> JNull | Some s \<Rightarrow> JStr s)"

definition resource_document :: "dependent_resource \<Rightarrow> json" where
  "resource_document r = JObj
     [(''provider'', JStr (de_provider r)), (''kind'', JStr (de_kind r)), (''resource_id'', JStr (de_resource_id r)),
      (''revision'', JInt (int (de_revision r))), (''name'', JStr (de_name r)), (''target'', json_option (de_target r)),
      (''deletion_blocked'', JBool (de_deletion_blocked r)), (''blocking_reason'', json_option (de_blocking_reason r))]"

record connection_deletion_impact =
  di_connection_id :: string
  di_connection_revision :: nat
  di_dependencies :: "dependent_resource list"
  di_fingerprint :: string

definition resource_key :: "dependent_resource \<Rightarrow> string \<times> string \<times> string" where
  "resource_key r = (de_provider r, de_kind r, de_resource_id r)"

definition build_connection_impact ::
  "(string \<Rightarrow> string) \<Rightarrow> string \<Rightarrow> nat \<Rightarrow> dependent_resource list \<Rightarrow> connection_deletion_impact" where
  "build_connection_impact sha256 connection_id connection_revision dependencies =
     (let ordered = sort_key resource_key dependencies in
      \<lparr>di_connection_id = connection_id, di_connection_revision = connection_revision,
       di_dependencies = ordered,
       di_fingerprint = sha256 (dumps (JObj [(''connectionId'', JStr connection_id),
         (''connectionRevision'', JInt (int connection_revision)),
         (''dependencies'', JList (map resource_document ordered))]))\<rparr>)"

section \<open>Facts about the repository\<close>

lemma record_at_put [simp]:
  "connection_record_at (put_connection key r repo) k = (if k = key then Some r else connection_record_at repo k)"
  by (cases k; cases key)
     (auto simp: connection_record_at_def put_connection_def owner_connections_def dict_get_def split: option.splits)

lemma record_at_drop [simp]:
  "connection_record_at (drop_connection key repo) k = (if k = key then None else connection_record_at repo k)"
  by (cases k; cases key)
     (auto simp: connection_record_at_def drop_connection_def owner_connections_def dict_get_def delete_conv'
       split: option.splits)

lemma record_at_ensure [simp]:
  "connection_record_at (repo\<lparr>cn_records := setdefault (cn_records repo) owner []\<rparr>) k = connection_record_at repo k"
  by (auto simp: connection_record_at_def owner_connections_def dict_get_def setdefault_def split: option.splits)

lemma update_refused: "update_connection now key request repo = (Inl e, repo') \<Longrightarrow> repo' = repo"
  by (auto simp: update_connection_def Let_def split: option.splits if_splits sum.splits)

lemma update_accepted:
  assumes "update_connection now key request repo = (Inr updated, repo')"
  obtains r m where "connection_record_at repo key = Some r"
    "cn_revision (cr_profile r) = cu_expected_revision request"
    "validate_metadata (changed_metadata request (cr_profile r)) = Inr m"
    "updated = profile_of m (cn_id (cr_profile r)) (cn_owner_id (cr_profile r)) (cn_ownership (cr_profile r))
       (cn_revision (cr_profile r) + 1) (sent_or (cr_password r) (cu_password request) \<noteq> None)
       (cn_created_at (cr_profile r)) now"
    "valid_chronology updated = None"
    "repo' = put_connection key \<lparr>cr_profile = updated, cr_password = sent_or (cr_password r) (cu_password request)\<rparr> repo"
  using assms by (auto simp: update_connection_def Let_def split: option.splits if_splits sum.splits)

lemma profile_of_fields [simp]:
  "cn_id (profile_of m i owner own n stored created updated) = i"
  "cn_owner_id (profile_of m i owner own n stored created updated) = owner"
  "cn_ownership (profile_of m i owner own n stored created updated) = own"
  "cn_revision (profile_of m i owner own n stored created updated) = n"
  "cn_credential_stored (profile_of m i owner own n stored created updated) = stored"
  "cn_created_at (profile_of m i owner own n stored created updated) = created"
  "cn_updated_at (profile_of m i owner own n stored created updated) = updated"
  "connection_metadata.truncate (profile_of m i owner own n stored created updated) = m"
  by (simp_all add: profile_of_def connection_metadata.defs)

interpretation connection_revisions: versioned_store "\<lambda>_. True" connection_record_at "cn_revision \<circ> cr_profile"
  cu_expected_revision "update_connection now"
proof unfold_locales
  fix s k r out s'
  assume "update_connection now k r s = (Inr out, s')"
  then show "\<exists>old new. connection_record_at s k = Some old \<and> (cn_revision \<circ> cr_profile) old = cu_expected_revision r
      \<and> connection_record_at s' k = Some new
      \<and> (new = old \<or> (cn_revision \<circ> cr_profile) new = Suc ((cn_revision \<circ> cr_profile) old))"
    by (auto elim!: update_accepted)
next
  fix s k r e s'
  assume "update_connection now k r s = (Inl e, s')"
  then show "connection_record_at s' k = connection_record_at s k" by (auto dest: update_refused)
next
  fix s and k' k :: "string \<times> string" and r
  assume "k' \<noteq> k"
  then show "connection_record_at (snd (update_connection now k r s)) k' = connection_record_at s k'"
    by (cases "update_connection now k r s"; cases "fst (update_connection now k r s)")
       (auto dest: update_refused elim!: update_accepted)
qed simp

text \<open>
  Of two updates of a connection that were based on the same revision, only one is accepted, in
  whatever order and with whatever updates in between: after the first, the second is refused.
\<close>

theorem connection_update_one_winner:
  assumes "update_connection now key first repo = (Inr updated, repo1)"
    and "cu_expected_revision second = cu_expected_revision first"
  shows "\<exists>e repo2. update_connection now key second (run_writes (update_connection now) others repo1) = (Inl e, repo2)"
proof -
  have "connection_record_at repo1 key \<noteq> connection_record_at repo key"
    using assms(1) by (rule update_accepted) (auto simp: fun_upd_def dest: arg_cong[where f = "cn_revision \<circ> cr_profile"])
  from connection_revisions.one_winner[OF TrueI assms(1) this assms(2)] show ?thesis .
qed

text \<open>
  The deletion impact of a connection does not depend on the order in which the products report
  their resources: as long as every resource is reported once, the same resources give the same
  impact, and so the same fingerprint the deletion has to confirm.
\<close>

theorem deletion_impact_order_independent:
  assumes "mset dependencies = mset dependencies'" "distinct (map resource_key dependencies)"
  shows "build_connection_impact sha256 c n dependencies = build_connection_impact sha256 c n dependencies'"
proof -
  let ?xs = "sort_key resource_key dependencies" and ?ys = "sort_key resource_key dependencies'"
  have same: "mset ?xs = mset ?ys" using assms(1) by simp
  have "mset (map resource_key ?xs) = mset (map resource_key dependencies)"
    "mset (map resource_key ?ys) = mset (map resource_key dependencies)" using assms(1) by simp_all
  then have d: "distinct (map resource_key ?xs)" "distinct (map resource_key ?ys)"
    using assms(2) by (metis mset_eq_imp_distinct_iff)+
  have "map resource_key ?xs = map resource_key ?ys"
    by (rule sorted_distinct_set_unique) (use d mset_eq_setD[OF same] in \<open>auto simp: distinct_map\<close>)
  moreover have "inj_on resource_key (set ?xs \<union> set ?ys)"
    using d(1) mset_eq_setD[OF same] by (auto simp: distinct_map)
  ultimately have "?xs = ?ys" by (simp add: inj_on_map_eq_map)
  then show ?thesis by (simp add: build_connection_impact_def)
qed

end
