(* ===== verification/Workspace_Store.thy ===== *)
theory Workspace_Store
  imports Migration_Leases Connection_Store
begin

text \<open>
  Saved workspaces: the models of \<open>schemii/workspaces/models.py\<close> with their cross-field validators and
  the in-memory repository of \<open>schemii/workspaces/store.py\<close>.

  The repository works on the design repository and, for imports, on the migration repository; both
  are in the state \<open>app_state\<close> an operation takes and returns (the design repository is the one the
  migration repository holds). The registered mutation guards, the clock and the random token of a
  new identifier are in \<open>workspace_env\<close>.
\<close>

section \<open>Models\<close>

text \<open>\<open>_identifier\<close>; \<^const>\<open>True\<close> when the value is accepted.\<close>

definition workspace_identifier :: "string \<Rightarrow> bool" where
  "workspace_identifier value = (value \<noteq> '''' \<and> char_of (0::nat) \<notin> set value \<and> length value \<le> 63)"

record table_position =
  tp_name :: string
  tp_x :: rat
  tp_y :: rat

record column_display_order =
  co_name :: string
  co_columns :: "string list"

definition valid_display_order :: "column_display_order \<Rightarrow> bool" where
  "valid_display_order order = (workspace_identifier (co_name order)
     \<and> list_all workspace_identifier (co_columns order) \<and> distinct (co_columns order))"

record import_issue =
  is_category :: string
  is_object_name :: string
  is_reason :: string

record import_summary =
  im_catalog_fingerprint :: string
  im_catalog_captured_at :: instant
  im_complete :: bool
  im_imported_objects :: "(string, nat) dict"
  im_issues :: "import_issue list"

record workspace_create =
  wc_name :: string
  wc_connection_id :: "string option"
  wc_connection_owner_id :: "string option"
  wc_database :: "string option"
  wc_namespace :: "string option"

definition target_complete :: "string option list \<Rightarrow> bool" where
  "target_complete target = (list_ex (\<lambda>v. v \<noteq> None) target \<longrightarrow> list_all (\<lambda>v. v \<noteq> None) target)"

definition complete_optional_target :: "workspace_create \<Rightarrow> string option" where
  "complete_optional_target r =
     raise_unless (target_complete [wc_connection_id r, wc_database r, wc_namespace r])
       ''connectionId, database, and namespace must be supplied together''"

record workspace_rename =
  wn_expected_revision :: nat
  wn_name :: string

record workspace_layout_update =
  wl_expected_revision :: nat
  wl_expected_connection_revision :: nat
  wl_tables :: "table_position list"
  wl_column_orders :: "column_display_order list option"

definition unique_table_names :: "workspace_layout_update \<Rightarrow> string option" where
  "unique_table_names r = first_error
     [raise_unless (distinct (map tp_name (wl_tables r))) ''table positions must have unique names'',
      raise_unless (distinct (map co_name (case wl_column_orders r of None \<Rightarrow> [] | Some os \<Rightarrow> os)))
        ''column display orders must have unique table names'']"

record workspace =
  wk_id :: string
  wk_revision :: nat
  wk_name :: string
  wk_connection_id :: "string option"
  wk_connection_owner_id :: "string option"
  wk_database :: "string option"
  wk_namespace :: "string option"
  wk_tables :: "table_position list"
  wk_column_orders :: "column_display_order list"
  wk_import_summary :: "import_summary option"
  wk_created_at :: instant
  wk_updated_at :: instant

definition valid_workspace :: "workspace \<Rightarrow> string option" where
  "valid_workspace w = first_error
     [raise_if (wk_updated_at w < wk_created_at w) ''updated_at cannot be earlier than created_at'',
      raise_unless (distinct (map tp_name (wk_tables w))) ''workspace table positions must have unique names'',
      raise_unless (distinct (map co_name (wk_column_orders w)))
        ''workspace column display orders must have unique table names'',
      raise_unless (target_complete [wk_connection_id w, wk_database w, wk_namespace w])
        ''workspace PostgreSQL target must be complete or absent'',
      raise_if (wk_import_summary w \<noteq> None \<and> wk_connection_id w = None)
        ''import provenance requires a targeted design workspace'']"

section \<open>State\<close>

datatype workspace_error =
    WorkspaceNotFoundError
  | WorkspaceConflictError nat
  | WorkspaceLimitError string nat
  | WorkspaceStorageUnavailableError string
  | WorkspaceMutationBlockedError string
  | WorkspaceTargetExistsError workspace
  | WorkspaceValueError string
  | WorkspaceDesignError design_error
  | WorkspaceBaselineError migration_error

record workspace_repo =
  wr_records :: "(string, (string, workspace) dict) dict"
  wr_max_workspaces_per_owner :: nat
  wr_max_table_positions_per_owner :: nat
  wr_max_column_display_order_entries_per_owner :: nat
  wr_designs_configured :: bool

definition new_workspace_repo :: "nat \<Rightarrow> nat \<Rightarrow> nat \<Rightarrow> bool \<Rightarrow> (string, workspace_repo) result" where
  "new_workspace_repo max_workspaces max_positions max_entries designs =
     (if max_workspaces < 1 \<or> max_positions < 1 \<or> max_entries < 1
      then Inl ''workspace limits must be positive''
      else Inr \<lparr>wr_records = [], wr_max_workspaces_per_owner = max_workspaces,
             wr_max_table_positions_per_owner = max_positions,
             wr_max_column_display_order_entries_per_owner = max_entries, wr_designs_configured = designs\<rparr>)"

record app_state =
  ap_workspaces :: workspace_repo
  ap_migrations :: migration_repo

text \<open>A registered guard is a bound method: \<open>guard not in self._mutation_guards\<close> compares its identity, the first component.\<close>

type_synonym mutation_guard = "string \<times> (string \<Rightarrow> string \<Rightarrow> bool)"

record workspace_env =
  we_guards :: "mutation_guard list"
  we_migration_env :: migration_env
  we_token :: string
  we_now :: instant

type_synonym 'a workspace_call = "app_state \<Rightarrow> (workspace_error, 'a) result \<times> app_state"

definition owner_records :: "string \<Rightarrow> workspace_repo \<Rightarrow> (string, workspace) dict" where
  "owner_records owner repo = dict_get (wr_records repo) owner []"

definition workspace_record :: "ws_key \<Rightarrow> workspace_repo \<Rightarrow> workspace option" where
  "workspace_record key repo =
     (case map_of (wr_records repo) (fst key) of None \<Rightarrow> None | Some records \<Rightarrow> map_of records (snd key))"

definition put_workspace :: "ws_key \<Rightarrow> workspace \<Rightarrow> workspace_repo \<Rightarrow> workspace_repo" where
  "put_workspace key w repo = repo\<lparr>wr_records :=
     AList.update (fst key) (AList.update (snd key) w (owner_records (fst key) repo)) (wr_records repo)\<rparr>"

definition drop_workspace :: "ws_key \<Rightarrow> workspace_repo \<Rightarrow> workspace_repo" where
  "drop_workspace key repo = repo\<lparr>wr_records :=
     AList.update (fst key) (AList.delete (snd key) (owner_records (fst key) repo)) (wr_records repo)\<rparr>"

definition set_mutation_guard :: "mutation_guard \<Rightarrow> workspace_env \<Rightarrow> workspace_env" where
  "set_mutation_guard guard env = env\<lparr>we_guards := [guard]\<rparr>"

definition add_mutation_guard :: "mutation_guard \<Rightarrow> workspace_env \<Rightarrow> workspace_env" where
  "add_mutation_guard guard env =
     (if fst guard \<in> fst ` set (we_guards env) then env else env\<lparr>we_guards := we_guards env @ [guard]\<rparr>)"

definition mutation_blocked :: "workspace_env \<Rightarrow> string \<Rightarrow> string \<Rightarrow> bool" where
  "mutation_blocked env owner workspace = list_ex (\<lambda>(_, guard). guard owner workspace) (we_guards env)"

text \<open>Entering \<open>execution_claim_guard\<close>: it raises when the workspace does not exist.\<close>

definition execution_claim_guard :: "workspace_repo \<Rightarrow> string \<Rightarrow> string \<Rightarrow> workspace_error option" where
  "execution_claim_guard repo owner workspace =
     (case workspace_record (owner, workspace) repo of None \<Rightarrow> Some WorkspaceNotFoundError | Some _ \<Rightarrow> None)"

section \<open>Reading\<close>

definition list_workspaces :: "string \<Rightarrow> workspace_repo \<Rightarrow> workspace list" where
  "list_workspaces owner repo = sort_key wk_created_at (dict_values (owner_records owner repo))"

definition get_workspace :: "ws_key \<Rightarrow> workspace_repo \<Rightarrow> (workspace_error, workspace) result" where
  "get_workspace key repo =
     (case workspace_record key repo of None \<Rightarrow> Inl WorkspaceNotFoundError | Some w \<Rightarrow> Inr w)"

definition find_by_target :: "string \<Rightarrow> string \<Rightarrow> string \<Rightarrow> string \<Rightarrow> workspace_repo \<Rightarrow> workspace option" where
  "find_by_target owner connection database namespace repo = find (\<lambda>w.
     wk_connection_id w = Some connection \<and> wk_database w = Some database \<and> wk_namespace w = Some namespace)
     (dict_values (owner_records owner repo))"

section \<open>Creating\<close>

record design_bootstrap =
  db_content :: design_content
  db_layout :: layout_content
  db_import_summary :: import_summary

definition new_workspace ::
  "workspace_env \<Rightarrow> workspace_create \<Rightarrow> string option \<Rightarrow> import_summary option \<Rightarrow> workspace" where
  "new_workspace env request connection_owner summary =
     \<lparr>wk_id = ''ws_'' @ we_token env, wk_revision = 1, wk_name = wc_name request,
      wk_connection_id = wc_connection_id request, wk_connection_owner_id = connection_owner,
      wk_database = wc_database request, wk_namespace = wc_namespace request, wk_tables = [],
      wk_column_orders = [], wk_import_summary = summary, wk_created_at = we_now env,
      wk_updated_at = we_now env\<rparr>"

text \<open>\<open>self._records.setdefault(owner_id, {})\<close>\<close>

definition ensure_owner :: "string \<Rightarrow> workspace_repo \<Rightarrow> workspace_repo" where
  "ensure_owner owner repo = repo\<lparr>wr_records := setdefault (wr_records repo) owner []\<rparr>"

definition initialize_design ::
  "workspace_env \<Rightarrow> ws_key \<Rightarrow> design_bootstrap \<Rightarrow> app_state \<Rightarrow> design_error option \<times> app_state" where
  "initialize_design env key bootstrap st =
     (case design_initialize (me_design_env (we_migration_env env)) key (db_content bootstrap) (db_layout bootstrap)
             (mr_designs (ap_migrations st)) of
        (Inl e, designs) \<Rightarrow> (Some e, st\<lparr>ap_migrations := (ap_migrations st)\<lparr>mr_designs := designs\<rparr>\<rparr>)
      | (Inr _, designs) \<Rightarrow> (None, st\<lparr>ap_migrations := (ap_migrations st)\<lparr>mr_designs := designs\<rparr>\<rparr>))"

text \<open>\<open>request.connection_owner_id or (owner_id if request.connection_id else None)\<close>\<close>

definition connection_owner_of :: "string \<Rightarrow> workspace_create \<Rightarrow> string option" where
  "connection_owner_of owner request =
     (if wc_connection_owner_id request \<notin> {None, Some ''''} then wc_connection_owner_id request
      else if wc_connection_id request \<notin> {None, Some ''''} then Some owner else None)"

definition create_workspace ::
  "workspace_env \<Rightarrow> string \<Rightarrow> workspace_create \<Rightarrow> design_bootstrap option \<Rightarrow> workspace workspace_call" where
  "create_workspace env owner request bootstrap st =
     (let repo = ensure_owner owner (ap_workspaces st); st1 = st\<lparr>ap_workspaces := repo\<rparr> in
      if length (owner_records owner repo) \<ge> wr_max_workspaces_per_owner repo
      then (Inl (WorkspaceLimitError ''workspace'' (wr_max_workspaces_per_owner repo)), st1)
      else (let w = new_workspace env request (connection_owner_of owner request) (map_option db_import_summary bootstrap)
            in case valid_workspace w of
                 Some e \<Rightarrow> (Inl (WorkspaceValueError e), st1)
               | None \<Rightarrow>
                   (case bootstrap of
                      None \<Rightarrow> (Inr w, st1\<lparr>ap_workspaces := put_workspace (owner, wk_id w) w repo\<rparr>)
                    | Some b \<Rightarrow>
                        if \<not> wr_designs_configured repo
                        then (Inl (WorkspaceStorageUnavailableError ''Imported workspace persistence is not configured''), st1)
                        else (case initialize_design env (owner, wk_id w) b st1 of
                            (Some e, st2) \<Rightarrow> (Inl (WorkspaceDesignError e), st2)
                          | (None, st2) \<Rightarrow> (Inr w, st2\<lparr>ap_workspaces := put_workspace (owner, wk_id w) w repo\<rparr>)))))"

text \<open>The \<open>except\<close> branch of \<open>create_import\<close>: the workspace record goes, and the design if it was initialized.\<close>

definition roll_back_import :: "ws_key \<Rightarrow> bool \<Rightarrow> app_state \<Rightarrow> app_state" where
  "roll_back_import key initialized st =
     (let st1 = st\<lparr>ap_workspaces := drop_workspace key (ap_workspaces st)\<rparr> in
      if initialized
      then st1\<lparr>ap_migrations := (ap_migrations st1)\<lparr>mr_designs :=
             snd (discard_initialization key (mr_designs (ap_migrations st1)))\<rparr>\<rparr>
      else st1)"

definition store_import ::
  "workspace_env \<Rightarrow> string \<Rightarrow> workspace_create \<Rightarrow> string \<Rightarrow> string \<Rightarrow> string \<Rightarrow> design_bootstrap \<Rightarrow> import_baseline
   \<Rightarrow> workspace \<Rightarrow> workspace workspace_call" where
  "store_import env owner request connection database namespace bootstrap baseline w st =
     (let key = (owner, wk_id w);
          st1 = st\<lparr>ap_workspaces := put_workspace key w (ap_workspaces st)\<rparr>
      in case initialize_design env key bootstrap st1 of
           (Some e, st2) \<Rightarrow> (Inl (WorkspaceDesignError e), roll_back_import key False st2)
         | (None, st2) \<Rightarrow>
             (case create_import_baseline (we_migration_env env) False owner (wk_id w) connection
                     (Some (or_else (wc_connection_owner_id request) owner)) database namespace baseline
                     (ap_migrations st2) of
                (Inl e, migrations) \<Rightarrow>
                  (Inl (WorkspaceBaselineError e), roll_back_import key True (st2\<lparr>ap_migrations := migrations\<rparr>))
              | (Inr _, migrations) \<Rightarrow> (Inr w, st2\<lparr>ap_migrations := migrations\<rparr>)))"

definition create_import ::
  "workspace_env \<Rightarrow> string \<Rightarrow> workspace_create \<Rightarrow> design_bootstrap \<Rightarrow> import_baseline \<Rightarrow> workspace workspace_call" where
  "create_import env owner request bootstrap baseline st =
     (case (wc_connection_id request, wc_database request, wc_namespace request) of
        (Some connection, Some database, Some namespace) \<Rightarrow>
          if \<not> wr_designs_configured (ap_workspaces st)
          then (Inl (WorkspaceStorageUnavailableError ''Imported workspace persistence is not configured''), st)
          else (let repo = ensure_owner owner (ap_workspaces st); st1 = st\<lparr>ap_workspaces := repo\<rparr> in
            case find_by_target owner connection database namespace repo of
              Some existing \<Rightarrow> (Inl (WorkspaceTargetExistsError existing), st1)
            | None \<Rightarrow>
                if length (owner_records owner repo) \<ge> wr_max_workspaces_per_owner repo
                then (Inl (WorkspaceLimitError ''workspace'' (wr_max_workspaces_per_owner repo)), st1)
                else (let w = new_workspace env request (Some (or_else (wc_connection_owner_id request) owner))
                                (Some (db_import_summary bootstrap))
                      in case valid_workspace w of
                           Some e \<Rightarrow> (Inl (WorkspaceValueError e), st1)
                         | None \<Rightarrow> store_import env owner request connection database namespace bootstrap baseline w st1))
      | _ \<Rightarrow> (Inl (WorkspaceValueError ''Imported workspaces require a complete PostgreSQL target''), st))"

section \<open>Changing\<close>

definition rename_workspace :: "workspace_env \<Rightarrow> ws_key \<Rightarrow> workspace_rename \<Rightarrow> workspace workspace_call" where
  "rename_workspace env key request st =
     (case workspace_record key (ap_workspaces st) of
        None \<Rightarrow> (Inl WorkspaceNotFoundError, st)
      | Some current \<Rightarrow>
          if wk_revision current \<noteq> wn_expected_revision request
          then (Inl (WorkspaceConflictError (wk_revision current)), st)
          else (let updated = current\<lparr>wk_name := wn_name request, wk_revision := wk_revision current + 1,
                       wk_updated_at := we_now env\<rparr>
                in (Inr updated, st\<lparr>ap_workspaces := put_workspace key updated (ap_workspaces st)\<rparr>)))"

definition other_workspaces :: "ws_key \<Rightarrow> workspace_repo \<Rightarrow> workspace list" where
  "other_workspaces key repo = map snd (filter (\<lambda>(candidate_id, _). candidate_id \<noteq> snd key) (owner_records (fst key) repo))"

definition order_entries :: "column_display_order list \<Rightarrow> nat" where
  "order_entries orders = sum_list (map (\<lambda>order. length (co_columns order)) orders)"

definition layout_error :: "ws_key \<Rightarrow> workspace_layout_update \<Rightarrow> workspace_repo \<Rightarrow> workspace_error option" where
  "layout_error key request repo = first_error
     [raise_if (sum_list (map (\<lambda>w. length (wk_tables w)) (other_workspaces key repo)) + length (wl_tables request)
                > wr_max_table_positions_per_owner repo)
        (WorkspaceLimitError ''table position'' (wr_max_table_positions_per_owner repo)),
      (case wl_column_orders request of None \<Rightarrow> None
       | Some orders \<Rightarrow>
           raise_if (sum_list (map (\<lambda>w. order_entries (wk_column_orders w)) (other_workspaces key repo))
                     + order_entries orders > wr_max_column_display_order_entries_per_owner repo)
             (WorkspaceLimitError ''column display order entry''
                (wr_max_column_display_order_entries_per_owner repo)))]"

definition update_layout :: "workspace_env \<Rightarrow> ws_key \<Rightarrow> workspace_layout_update \<Rightarrow> workspace workspace_call" where
  "update_layout env key request st =
     (let repo = ap_workspaces st in
      case workspace_record key repo of
        None \<Rightarrow> (Inl WorkspaceNotFoundError, st)
      | Some current \<Rightarrow>
          if wk_revision current \<noteq> wl_expected_revision request
          then (Inl (WorkspaceConflictError (wk_revision current)), st)
          else (case layout_error key request repo of
              Some e \<Rightarrow> (Inl e, st)
            | None \<Rightarrow>
                (let updated = current\<lparr>wk_revision := wk_revision current + 1, wk_tables := wl_tables request,
                       wk_column_orders := (case wl_column_orders request of None \<Rightarrow> wk_column_orders current
                                            | Some orders \<Rightarrow> orders),
                       wk_updated_at := we_now env\<rparr>
                 in (Inr updated, st\<lparr>ap_workspaces := put_workspace key updated repo\<rparr>))))"

definition delete_workspace :: "workspace_env \<Rightarrow> ws_key \<Rightarrow> nat \<Rightarrow> unit workspace_call" where
  "delete_workspace env key expected_revision st =
     (case workspace_record key (ap_workspaces st) of
        None \<Rightarrow> (Inl WorkspaceNotFoundError, st)
      | Some current \<Rightarrow>
          if wk_revision current \<noteq> expected_revision
          then (Inl (WorkspaceConflictError (wk_revision current)), st)
          else if mutation_blocked env (fst key) (snd key)
          then (Inl (WorkspaceMutationBlockedError ''deleted''), st)
          else (let st1 = (if wr_designs_configured (ap_workspaces st)
                     then st\<lparr>ap_migrations := (ap_migrations st)\<lparr>mr_designs :=
                            snd (discard_initialization key (mr_designs (ap_migrations st)))\<rparr>\<rparr>
                     else st)
                in (Inr (), st1\<lparr>ap_workspaces := drop_workspace key (ap_workspaces st1)\<rparr>)))"

section \<open>Connections\<close>

definition workspace_uses :: "string \<Rightarrow> string \<Rightarrow> string \<Rightarrow> workspace \<Rightarrow> bool" where
  "workspace_uses owner connection actor w =
     (wk_connection_id w = Some connection \<and> or_else (wk_connection_owner_id w) actor = owner)"

definition all_workspaces :: "workspace_repo \<Rightarrow> (string \<times> workspace) list" where
  "all_workspaces repo = concat (map (\<lambda>(actor, ws). map (Pair actor) (dict_values ws)) (wr_records repo))"

definition count_for_connection :: "string \<Rightarrow> string \<Rightarrow> workspace_repo \<Rightarrow> nat" where
  "count_for_connection owner connection repo =
     length (filter (\<lambda>(actor, w). workspace_uses owner connection actor w) (all_workspaces repo))"

definition workspace_dependency :: "workspace_env \<Rightarrow> string \<Rightarrow> workspace \<Rightarrow> dependent_resource" where
  "workspace_dependency env actor w =
     (let blocked = mutation_blocked env actor (wk_id w);
          truthy = (\<lambda>v. v \<noteq> None \<and> v \<noteq> Some '''')
      in \<lparr>de_provider = ''schemiiWorkspaces'', de_kind = ''workspace'', de_resource_id = wk_id w,
          de_revision = wk_revision w, de_name = wk_name w,
          de_target = (if truthy (wk_database w) \<and> truthy (wk_namespace w)
                       then Some (the (wk_database w) @ ''.'' @ the (wk_namespace w)) else None),
          de_deletion_blocked = blocked,
          de_blocking_reason = (if blocked then Some ''An active or unreconciled migration must finish first.'' else None)\<rparr>)"

definition dependencies_for_connection ::
  "workspace_env \<Rightarrow> string \<Rightarrow> string \<Rightarrow> workspace_repo \<Rightarrow> dependent_resource list" where
  "dependencies_for_connection env owner connection repo =
     map (\<lambda>(actor, w). workspace_dependency env actor w)
       (filter (\<lambda>(actor, w). workspace_uses owner connection actor w) (all_workspaces repo))"

end
