(* ===== verification/Design_Store_Invariant.thy ===== *)
theory Design_Store_Invariant
  imports Design_Store
begin

text \<open>
  The invariant of the desired-design repository and what follows from it. Everything the repository
  keeps of one workspace is its slice; an operation changes the slice of its own workspace and the
  entry counter only.
\<close>

section \<open>Invariant\<close>

declare split_paired_All [simp del]

definition content_of :: "schemii_design option \<Rightarrow> design_content" where
  "content_of d = (case d of None \<Rightarrow> empty_design_content | Some x \<Rightarrow> ds_content x)"

definition revision_of :: "schemii_design option \<Rightarrow> nat" where
  "revision_of d = (case d of None \<Rightarrow> 0 | Some x \<Rightarrow> ds_revision x)"

text \<open>The stored entries contain the chain \<open>es\<close>, with the cursor at index \<open>i\<close> and the tip at its end.\<close>

definition chain_at :: "(int, memory_entry) dict \<Rightarrow> memory_entry list \<Rightarrow> nat \<Rightarrow> int \<times> int \<Rightarrow> bool" where
  "chain_at by_id es i state =
     (chain_wf es \<and> (\<forall>e\<in>set es. map_of by_id (entry_id e) = Some e)
      \<and> i < length es \<and> state = (entry_id (es ! i), entry_id (last es)))"

definition history_inv ::
  "int \<Rightarrow> schemii_design option \<Rightarrow> (int, memory_entry) dict option \<Rightarrow> (int \<times> int) option \<Rightarrow> bool" where
  "history_inv next_id d h st =
     (case st of
        None \<Rightarrow> d = None \<and> h = None
      | Some state \<Rightarrow> \<exists>by_id es i. h = Some by_id \<and> chain_at by_id es i state \<and> action_end es i
          \<and> entry_content (es ! i) = content_of d
          \<and> (\<forall>j. map_of by_id j \<noteq> None \<longrightarrow> j < next_id))"

definition layout_inv :: "schemii_design option \<Rightarrow> design_layout option \<Rightarrow> bool" where
  "layout_inv d l = (case l of None \<Rightarrow> True
     | Some x \<Rightarrow> ly_design_revision x = revision_of d \<and> distinct (map pos_object_id (ly_content x))
         \<and> (\<forall>p\<in>set (ly_content x). position_allowed (content_of d) p))"

definition memory_inv :: "(string, object_position) dict option \<Rightarrow> bool" where
  "memory_inv m = (case m of None \<Rightarrow> True
     | Some x \<Rightarrow> dict_wf x \<and> (\<forall>jp\<in>set x. pos_object_id (snd jp) = fst jp))"

definition design_inv :: "design_env \<Rightarrow> schemii_design option \<Rightarrow> bool" where
  "design_inv env d = (case d of None \<Rightarrow> True
     | Some x \<Rightarrow> 0 < ds_revision x \<and> ds_fingerprint x = env_fingerprint env (ds_content x))"

definition key_inv :: "design_env \<Rightarrow> design_repo \<Rightarrow> ws_key \<Rightarrow> bool" where
  "key_inv env repo key =
     (history_inv (repo_next_history_id repo) (map_of (repo_designs repo) key)
        (map_of (repo_history repo) key) (map_of (repo_history_state repo) key)
      \<and> layout_inv (map_of (repo_designs repo) key) (map_of (repo_layouts repo) key)
      \<and> memory_inv (map_of (repo_position_memory repo) key)
      \<and> design_inv env (map_of (repo_designs repo) key))"

definition repo_inv :: "design_env \<Rightarrow> design_repo \<Rightarrow> bool" where
  "repo_inv env repo = (\<forall>key. key_inv env repo key)"

text \<open>Two repositories that agree on every workspace but one.\<close>

definition slice where
  "slice r k = (map_of (repo_designs r) k, map_of (repo_layouts r) k, map_of (repo_history r) k,
     map_of (repo_history_state r) k, map_of (repo_position_memory r) k)"

definition same_elsewhere :: "ws_key \<Rightarrow> design_repo \<Rightarrow> design_repo \<Rightarrow> bool" where
  "same_elsewhere key r r' =
     (repo_next_history_id r \<le> repo_next_history_id r' \<and> (\<forall>k. k \<noteq> key \<longrightarrow> slice r' k = slice r k))"

lemma history_inv_mono: "history_inv n d h st \<Longrightarrow> n \<le> m \<Longrightarrow> history_inv m d h st"
  by (fastforce simp: history_inv_def split: option.splits)

lemma repo_inv_frame:
  assumes "repo_inv env r" "same_elsewhere key r r'" "key_inv env r' key"
  shows "repo_inv env r'"
  unfolding repo_inv_def
proof
  fix k
  show "key_inv env r' k"
  proof (cases "k = key")
    case False
    have "key_inv env r k" using assms(1) unfolding repo_inv_def by blast
    moreover have "slice r' k = slice r k" "repo_next_history_id r \<le> repo_next_history_id r'"
      using False assms(2) unfolding same_elsewhere_def by blast+
    ultimately show ?thesis by (auto simp: key_inv_def slice_def intro: history_inv_mono)
  qed (use assms(3) in simp)
qed

lemma same_elsewhere_refl [simp]: "same_elsewhere key r r"
  by (simp add: same_elsewhere_def)

lemma same_elsewhere_trans: "same_elsewhere key r s \<Longrightarrow> same_elsewhere key s t \<Longrightarrow> same_elsewhere key r t"
  unfolding same_elsewhere_def by (elim conjE, intro conjI allI impI) simp_all

lemma repo_design_simps [simp]:
  "ds_content (repo_design env key repo) = content_of (map_of (repo_designs repo) key)"
  "ds_revision (repo_design env key repo) = revision_of (map_of (repo_designs repo) key)"
  by (simp_all add: repo_design_def content_of_def revision_of_def split: option.splits)

section \<open>Chains\<close>

lemma chain_length:
  assumes "chain_at by_id es i state"
  shows "length es \<le> length by_id"
proof -
  have "set (entry_ids es) \<subseteq> fst ` set by_id"
    using assms by (auto simp: chain_at_def entry_ids_def intro: map_of_SomeD[THEN image_eqI[rotated]] dest!: bspec)
  then have "card (set (entry_ids es)) \<le> card (set (map fst by_id))" by (intro card_mono) auto
  also have "\<dots> \<le> length by_id" by (metis card_length length_map)
  finally show ?thesis using assms by (metis chain_at_def chain_wf_def distinct_card entry_ids_simps(4))
qed

lemma active_chain_eq:
  assumes "map_of (repo_history_state repo) key = Some state" "map_of (repo_history repo) key = Some by_id"
    and "chain_at by_id es i state"
  shows "active_chain key repo = Some (es, i)"
proof -
  have walk: "walk_parents (length by_id) by_id (Some (entry_id (last es))) = Some (rev es)"
    using walk_parents_chain chain_length[OF assms(3)] assms(3) by (auto simp: chain_at_def)
  have d: "distinct (map entry_id es)" "i < length es" using assms(3) by (auto simp: chain_at_def chain_wf_def entry_ids_def)
  have "index_where (\<lambda>e. entry_id e = entry_id (es ! i)) es = Some i"
    using d nth_eq_iff_index_eq[OF d(1), of _ i] by (auto simp: index_where_Some)
  with walk assms show ?thesis by (auto simp: active_chain_def chain_at_def)
qed


lemma key_inv_chain:
  assumes "key_inv env repo key" "map_of (repo_history_state repo) key = Some state"
  obtains by_id es i where "map_of (repo_history repo) key = Some by_id" "chain_at by_id es i state"
    "action_end es i" "entry_content (es ! i) = content_of (map_of (repo_designs repo) key)"
    "\<forall>j. map_of by_id j \<noteq> None \<longrightarrow> j < repo_next_history_id repo" "active_chain key repo = Some (es, i)"
proof -
  from assms obtain by_id es i where h: "map_of (repo_history repo) key = Some by_id" "chain_at by_id es i state"
    "action_end es i" "entry_content (es ! i) = content_of (map_of (repo_designs repo) key)"
    "\<forall>j. map_of by_id j \<noteq> None \<longrightarrow> j < repo_next_history_id repo"
    by (auto simp: key_inv_def history_inv_def)
  show thesis by (rule that[OF h(1-4)]) (use h(5) active_chain_eq[OF assms(2) h(1,2)] in auto)
qed

text \<open>Appending an entry at the cursor: the new chain ends with it.\<close>

lemma chain_at_append:
  assumes "chain_at by_id es i state" "\<And>j. map_of by_id j \<noteq> None \<Longrightarrow> j < entry_id e"
    and "parent_id e = Some (entry_id (es ! i))"
  shows "chain_at (AList.update (entry_id e) e by_id) (take (Suc i) es @ [e]) (Suc i) (entry_id e, entry_id e)"
proof -
  let ?p = "take (Suc i) es"
  have es: "linked None es" "distinct (entry_ids es)" "i < length es"
    "\<And>x. x \<in> set es \<Longrightarrow> map_of by_id (entry_id x) = Some x"
    using assms(1) by (auto simp: chain_at_def chain_wf_def)
  have linked_take: "linked prev xs \<Longrightarrow> linked prev (take n xs)" for prev n and xs :: "memory_entry list"
    by (induction prev xs arbitrary: n rule: linked.induct) (auto simp: take_Cons split: nat.splits)
  have last: "last ?p = es ! i" "?p \<noteq> []" using es(3) by (auto simp: take_Suc_conv_app_nth)
  have lt: "entry_id x < entry_id e" if "x \<in> set ?p" for x
    using es(4)[of x] assms(2)[of "entry_id x"] that set_take_subset[of "Suc i" es] by auto
  have "distinct (entry_ids ?p)" using es(2) by (simp add: entry_ids_def distinct_take flip: take_map)
  then have "chain_wf (?p @ [e])"
    using linked_take[OF es(1)] last assms(3) lt by (force simp: chain_wf_def linked_snoc entry_ids_def)
  moreover have "map_of (AList.update (entry_id e) e by_id) (entry_id x) = Some x" if "x \<in> set (?p @ [e])" for x
    using that es(4)[of x] lt[of x] set_take_subset[of "Suc i" es] by auto
  ultimately show ?thesis using es(3) by (simp add: chain_at_def nth_append)
qed

text \<open>Relinking the retained entries: the chain that pruning stores.\<close>

lemma relink_last_content:
  "es \<noteq> [] \<Longrightarrow> entry_id (last (relink prev es)) = entry_id (last es)
     \<and> entry_content (last (relink prev es)) = entry_content (last es)"
  by (induction es arbitrary: prev) auto

lemma chain_at_pruned:
  fixes limit :: nat
  assumes "chain_wf es"
  defines "rs \<equiv> relink None (retained_history_entries es limit)"
  shows "chain_at (dict_by entry_id rs) rs (length rs - 1) (entry_id (last es), entry_id (last es))"
    and "action_end rs (length rs - 1)" and "entry_content (rs ! (length rs - 1)) = entry_content (last es)"
    and "map_of (dict_by entry_id rs) j \<noteq> None \<Longrightarrow> j \<in> set (entry_ids es)"
proof -
  let ?r = "retained_history_entries es limit"
  have es: "es \<noteq> []" "distinct (entry_ids es)" using assms(1) by (auto simp: chain_wf_def)
  have r: "?r \<noteq> []" "distinct (entry_ids ?r)" "last ?r = last es"
    using es distinct_retained[of entry_id es limit] retained_last[OF es(1), of limit] by (auto simp: entry_ids_def)
  have ids: "entry_ids rs = entry_ids ?r" by (simp add: rs_def)
  have wf: "chain_wf rs" using r ids by (auto simp: chain_wf_def rs_def)
  have last: "entry_id (last rs) = entry_id (last es)" "entry_content (last rs) = entry_content (last es)"
    using relink_last_content[OF r(1), of None] r(3) by (simp_all add: rs_def)
  have ne: "rs \<noteq> []" using wf by (simp add: chain_wf_def)
  have "map_of (dict_by entry_id rs) (entry_id x) = Some x" if "x \<in> set rs" for x
    using wf that by (intro dict_by_find) (auto simp: chain_wf_def entry_ids_def)
  then show "chain_at (dict_by entry_id rs) rs (length rs - 1) (entry_id (last es), entry_id (last es))"
    using wf ne last by (simp add: chain_at_def last_conv_nth)
  show "action_end rs (length rs - 1)" using ne by (auto simp: action_end_def)
  show "entry_content (rs ! (length rs - 1)) = entry_content (last es)" using ne last by (simp add: last_conv_nth)
  show "j \<in> set (entry_ids es)" if "map_of (dict_by entry_id rs) j \<noteq> None"
  proof -
    have "j \<in> set (entry_ids ?r)" using that ids by (simp add: dict_by_None entry_ids_def flip: set_map)
    with retained_subset[of es limit] show ?thesis by (auto simp: entry_ids_def)
  qed
qed


section \<open>Steps\<close>

lemma ensure_history_step:
  assumes "key_inv env repo key"
  defines "repo1 \<equiv> ensure_history env key (repo_design env key repo) repo"
  shows "key_inv env repo1 key" "same_elsewhere key repo repo1"
    "repo_designs repo1 = repo_designs repo" "repo_layouts repo1 = repo_layouts repo"
    "map_of (repo_history_state repo1) key \<noteq> None"
    "repo_history_action_limit repo1 = repo_history_action_limit repo"
    "map_of (repo_history_state repo) key \<noteq> None \<Longrightarrow> repo1 = repo"
proof -
  let ?goal = "key_inv env repo1 key \<and> same_elsewhere key repo repo1
    \<and> repo_designs repo1 = repo_designs repo \<and> repo_layouts repo1 = repo_layouts repo
    \<and> map_of (repo_history_state repo1) key \<noteq> None
    \<and> repo_history_action_limit repo1 = repo_history_action_limit repo
    \<and> (map_of (repo_history_state repo) key \<noteq> None \<longrightarrow> repo1 = repo)"
  have ?goal
  proof (cases "map_of (repo_history_state repo) key")
    case (Some st)
    then show ?thesis using assms(1) by (simp add: repo1_def ensure_history_def)
  next
    case None
    define e where "e = \<lparr>entry_id = repo_next_history_id repo, parent_id = None, operation_group_id = None,
      source_design_revision = revision_of (map_of (repo_designs repo) key), operation_kind = ''initial'',
      entry_content = content_of (map_of (repo_designs repo) key), created_at = env_now env\<rparr>"
    have none: "map_of (repo_designs repo) key = None" "map_of (repo_history repo) key = None"
      using assms(1) None by (auto simp: key_inv_def history_inv_def)
    have r1: "repo1 = repo\<lparr>repo_next_history_id := repo_next_history_id repo + 1,
        repo_history := AList.update key (AList.update (entry_id e) e []) (repo_history repo),
        repo_history_state := AList.update key (entry_id e, entry_id e) (repo_history_state repo),
        repo_position_memory := setdefault (repo_position_memory repo) key []\<rparr>"
      using None none(2) by (simp add: repo1_def ensure_history_def new_history_entry_def e_def Let_def dict_get_def)
    have "chain_at [(entry_id e, e)] [e] 0 (entry_id e, entry_id e) \<and> action_end [e] 0"
      by (simp add: chain_at_def chain_wf_def action_end_def e_def)
    then have "history_inv (repo_next_history_id repo1) (map_of (repo_designs repo1) key)
        (map_of (repo_history repo1) key) (map_of (repo_history_state repo1) key)"
      unfolding history_inv_def r1
      by (auto intro!: exI[of _ "[(entry_id e, e)]"] exI[of _ "[e]"] exI[of _ 0] simp: e_def split: if_splits)
    moreover have "memory_inv (map_of (repo_position_memory repo1) key)"
      using assms(1) by (auto simp: r1 key_inv_def memory_inv_def dict_get_def split: option.splits)
    ultimately show ?thesis
      using assms(1) None by (auto simp: r1 key_inv_def same_elsewhere_def slice_def)
  qed
  then show "key_inv env repo1 key" "same_elsewhere key repo repo1"
    "repo_designs repo1 = repo_designs repo" "repo_layouts repo1 = repo_layouts repo"
    "map_of (repo_history_state repo1) key \<noteq> None"
    "repo_history_action_limit repo1 = repo_history_action_limit repo"
    "map_of (repo_history_state repo) key \<noteq> None \<Longrightarrow> repo1 = repo" by auto
qed

lemma map_of_memory:
  assumes "memory_inv m"
  shows "dict_wf (case m of None \<Rightarrow> [] | Some x \<Rightarrow> x)"
    "\<And>jp. jp \<in> set (case m of None \<Rightarrow> [] | Some x \<Rightarrow> x) \<Longrightarrow> pos_object_id (snd jp) = fst jp"
  using assms by (auto simp: memory_inv_def split: option.splits)

text \<open>The positions carried over to a new design revision are unique and all allowed.\<close>

lemma advanced_positions_ok:
  assumes "layout_inv d (map_of (repo_layouts repo) key)" "memory_inv (map_of (repo_position_memory repo) key)"
  shows "distinct (map pos_object_id (advanced_positions key design repo))
    \<and> (\<forall>p\<in>set (advanced_positions key design repo). position_allowed (ds_content design) p)"
proof -
  let ?m = "dict_get (repo_position_memory repo) key []"
  let ?cur = "ly_content (repo_layout key (ds_revision design - 1) repo)"
  let ?kept = "filter (position_allowed (ds_content design)) ?cur"
  let ?P = "\<lambda>(i, p). i \<notin> set (map pos_object_id ?kept)
      \<and> map_of (design_object_ids (ds_content design)) i = Some (pos_layer p)"
  have m: "dict_wf ?m" "\<And>jp. jp \<in> set ?m \<Longrightarrow> pos_object_id (snd jp) = fst jp"
    using map_of_memory[OF assms(2)] by (simp_all add: dict_get_def split: option.splits)
  have cur: "distinct (map pos_object_id ?cur)"
    using assms(1) by (auto simp: layout_inv_def repo_layout_def split: option.splits)
  have out: "advanced_positions key design repo = ?kept @ map snd (filter ?P ?m)"
    by (simp add: advanced_positions_def Let_def)
  have ids: "map pos_object_id (map snd (filter ?P ?m)) = map fst (filter ?P ?m)"
    using m(2) by (auto simp: map_eq_conv)
  have "distinct (map fst (filter ?P ?m))" using m(1) by (simp add: dict_wf_def distinct_map_filter)
  moreover have "distinct (map pos_object_id ?kept)" using cur by (rule distinct_map_filter)
  ultimately have "distinct (map pos_object_id (advanced_positions key design repo))"
    using ids unfolding out by (auto simp del: map_map)
  moreover have "position_allowed (ds_content design) p" if "p \<in> set (advanced_positions key design repo)" for p
    using that m(2) unfolding out by (force simp: position_allowed_def)
  ultimately show ?thesis by blast
qed

lemma advance_layout_step:
  assumes "layout_inv d (map_of (repo_layouts repo) key)" "memory_inv (map_of (repo_position_memory repo) key)"
  shows "\<exists>l. advance_layout key design repo = (Inr (), repo\<lparr>repo_layouts := AList.update key l (repo_layouts repo)\<rparr>)
    \<and> layout_inv (Some design) (Some l) \<and> ly_revision l = ly_revision (repo_layout key (ds_revision design - 1) repo) + 1"
  using advanced_positions_ok[OF assms, of design]
  by (auto simp: advance_layout_def layout_content_of_def Let_def distinct_remdups_id layout_inv_def
      revision_of_def content_of_def)


text \<open>
  Once its checks have passed, \<open>replace\<close> cannot fail any more; the new history consists of the
  retained part of the old chain up to the cursor and the new entry.
\<close>

lemma commit_replace_step:
  assumes "key_inv env repo key" "map_of (repo_history_state repo) key = Some state"
    and "active_chain key repo = Some (es, i)"
    and "current = repo_design env key repo"
  shows "\<exists>repo' revised e. commit_replace env key request kind current repo = (Inr revised, repo')
    \<and> key_inv env repo' key \<and> same_elsewhere key repo repo'
    \<and> map_of (repo_designs repo') key = Some revised
    \<and> ds_revision revised = ds_revision current + 1 \<and> ds_content revised = dr_content request
    \<and> entry_content e = dr_content request \<and> operation_group_id e = dr_history_group_id request
    \<and> entry_id e = repo_next_history_id repo
    \<and> active_chain key repo' = (let rs = relink None (retained_history_entries (take (Suc i) es @ [e])
          (repo_history_action_limit repo)) in Some (rs, length rs - 1))"
proof -
  obtain by_id where h: "map_of (repo_history repo) key = Some by_id" "chain_at by_id es i state"
    "\<forall>j. map_of by_id j \<noteq> None \<longrightarrow> j < repo_next_history_id repo"
    using key_inv_chain[OF assms(1,2)] assms(3) by (metis option.inject prod.inject)
  define n where "n = repo_next_history_id repo"
  define revised where "revised = \<lparr>ds_workspace_id = snd key, ds_revision = ds_revision current + 1,
      ds_content = dr_content request, ds_fingerprint = env_fingerprint env (dr_content request)\<rparr>"
  define e where "e = \<lparr>entry_id = n, parent_id = Some (fst state), operation_group_id = dr_history_group_id request,
      source_design_revision = ds_revision revised, operation_kind = kind, entry_content = dr_content request,
      created_at = env_now env\<rparr>"
  define repo3 where "repo3 = repo\<lparr>repo_designs := AList.update key revised (repo_designs repo),
      repo_next_history_id := n + 1,
      repo_history := AList.update key (AList.update n e by_id) (repo_history repo),
      repo_history_state := AList.update key (n, n) (repo_history_state repo)\<rparr>"
  let ?es = "take (Suc i) es @ [e]"
  define rs where "rs = relink None (retained_history_entries ?es (repo_history_action_limit repo))"
  define repo4 where "repo4 = repo3\<lparr>repo_history := AList.update key (dict_by entry_id rs) (repo_history repo3)\<rparr>"
  have en: "entry_id e = n" "entry_content e = dr_content request" by (simp_all add: e_def)
  have chain3: "chain_at (AList.update n e by_id) ?es (Suc i) (n, n)"
    using chain_at_append[OF h(2), of e] h(2,3) by (simp add: e_def n_def chain_at_def)
  have wf: "chain_wf ?es" using chain3 by (simp add: chain_at_def)
  note pruned = chain_at_pruned[OF wf, of "repo_history_action_limit repo", folded rs_def]
  have "active_chain key repo3 = Some (?es, Suc i)"
    by (rule active_chain_eq[OF _ _ chain3]) (simp_all add: repo3_def)
  then have prune: "prune_history key repo3 = Some repo4"
    by (simp add: prune_history_def repo4_def rs_def Let_def repo3_def)
  have run: "commit_replace env key request kind current repo =
      (case advance_layout key revised repo4 of (Inl x, r) \<Rightarrow> (Inl x, r) | (Inr _, r) \<Rightarrow> (Inr revised, r))"
    using assms(2) h(1) prune
    by (cases state) (simp add: commit_replace_def revised_def new_history_entry_def e_def repo3_def n_def
        Let_def dict_get_def split: prod.splits sum.splits)
  obtain l where l: "advance_layout key revised repo4 = (Inr (), repo4\<lparr>repo_layouts := AList.update key l (repo_layouts repo4)\<rparr>)"
      "layout_inv (Some revised) (Some l)"
    using advance_layout_step[of "map_of (repo_designs repo) key" repo4 key revised] assms(1)
    by (auto simp: key_inv_def repo4_def repo3_def)
  let ?out = "repo4\<lparr>repo_layouts := AList.update key l (repo_layouts repo4)\<rparr>"
  have ids: "j < n + 1" if "map_of (dict_by entry_id rs) j \<noteq> None" for j
  proof -
    have "j = n \<or> j \<in> set (entry_ids (take (Suc i) es))" using pruned(4)[OF that] en by auto
    moreover have "map_of by_id j \<noteq> None" if "j \<in> set (entry_ids (take (Suc i) es))"
      using that h(2) set_take_subset[of "Suc i" es] by (auto simp: chain_at_def entry_ids_def)
    ultimately show ?thesis using h(3) by (force simp: n_def)
  qed
  have inv: "key_inv env ?out key"
    unfolding key_inv_def
  proof (intro conjI)
    show "history_inv (repo_next_history_id ?out) (map_of (repo_designs ?out) key)
        (map_of (repo_history ?out) key) (map_of (repo_history_state ?out) key)"
      using pruned(1-3) ids en unfolding history_inv_def
      by (auto simp: repo4_def repo3_def content_of_def revised_def intro!: exI[of _ "dict_by entry_id rs"])
  qed (use assms(1) l(2) in \<open>auto simp: key_inv_def repo4_def repo3_def design_inv_def revised_def\<close>)
  have "active_chain key ?out = Some (rs, length rs - 1)"
    by (rule active_chain_eq[OF _ _ pruned(1)]) (simp_all add: repo4_def repo3_def en)
  moreover have "same_elsewhere key repo ?out" by (simp add: same_elsewhere_def slice_def repo4_def repo3_def n_def)
  moreover have "map_of (repo_designs ?out) key = Some revised" by (simp add: repo4_def repo3_def)
  ultimately show ?thesis
    using run l(1) inv en unfolding Let_def rs_def
    by (intro exI[of _ ?out] exI[of _ revised] exI[of _ e]) (simp add: revised_def e_def n_def)
qed


lemma replace_design_step:
  assumes "key_inv env repo key"
  shows "key_inv env (snd (replace_design env key request kind repo)) key
    \<and> same_elsewhere key repo (snd (replace_design env key request kind repo))"
proof -
  let ?cur = "repo_design env key repo" and ?r1 = "ensure_history env key (repo_design env key repo) repo"
  note e = ensure_history_step[OF assms]
  obtain state where st: "map_of (repo_history_state ?r1) key = Some state" using e(5) by blast
  obtain es i where chain: "active_chain key ?r1 = Some (es, i)" by (rule key_inv_chain[OF e(1) st])
  have cur: "?cur = repo_design env key ?r1" using e(3) by (simp add: repo_design_def)
  obtain repo' revised where "commit_replace env key request kind ?cur ?r1 = (Inr revised, repo')"
    "key_inv env repo' key" "same_elsewhere key ?r1 repo'"
    using commit_replace_step[OF e(1) st chain cur] by blast
  with assms e(1,2) show ?thesis
    by (auto simp: replace_design_def Let_def intro: same_elsewhere_trans split: option.splits sum.splits)
qed

lemma move_history_success:
  assumes "key_inv env repo key" "move_history env key expected action repo = (Inr revised, repo')"
  shows "key_inv env repo' key \<and> same_elsewhere key repo repo'
    \<and> map_of (repo_designs repo') key = Some revised
    \<and> ds_revision revised = expected + 1
    \<and> (\<exists>es i t. active_chain key (ensure_history env key (repo_design env key repo) repo) = Some (es, i)
        \<and> history_target_index es i action = Some t \<and> ds_content revised = entry_content (es ! t)
        \<and> action_end es i \<and> active_chain key repo' = Some (es, t))"
proof -
  let ?cur = "repo_design env key repo" and ?r1 = "ensure_history env key (repo_design env key repo) repo"
  note e = ensure_history_step[OF assms(1)]
  obtain state where st: "map_of (repo_history_state ?r1) key = Some state" using e(5) by blast
  obtain by_id es i where h: "map_of (repo_history ?r1) key = Some by_id" "chain_at by_id es i state"
    "action_end es i" "entry_content (es ! i) = content_of (map_of (repo_designs ?r1) key)"
    "\<forall>j. map_of by_id j \<noteq> None \<longrightarrow> j < repo_next_history_id ?r1" "active_chain key ?r1 = Some (es, i)"
    by (rule key_inv_chain[OF e(1) st])
  from assms(2) h(6) obtain t where t: "history_target_index es i action = Some t"
    and rev: "ds_revision ?cur = expected"
    by (auto simp: move_history_def Let_def split: option.splits if_splits)
  define revised' where "revised' = \<lparr>ds_workspace_id = snd key, ds_revision = ds_revision ?cur + 1,
      ds_content = entry_content (es ! t), ds_fingerprint = env_fingerprint env (entry_content (es ! t))\<rparr>"
  define r2 where "r2 = ?r1\<lparr>repo_designs := AList.update key revised' (repo_designs ?r1),
      repo_history_state := AList.update key (entry_id (es ! t), snd state) (repo_history_state ?r1)\<rparr>"
  obtain l where l: "advance_layout key revised' r2 = (Inr (), r2\<lparr>repo_layouts := AList.update key l (repo_layouts r2)\<rparr>)"
      "layout_inv (Some revised') (Some l)"
    using advance_layout_step[of "map_of (repo_designs ?r1) key" r2 key revised'] e(1)
    by (auto simp: key_inv_def r2_def)
  have out: "revised = revised'" "repo' = r2\<lparr>repo_layouts := AList.update key l (repo_layouts r2)\<rparr>"
    using assms(2) rev h(6) t st l(1)
    by (auto simp: move_history_def Let_def revised'_def r2_def split: option.splits if_splits)
  have ct: "t < length es" "action_end es t"
    using h(2,3) t undo_target_bounds(1)[of es i t] undo_action_end[of es i t] redo_target_bounds(2,3)[of es i t]
    by (cases action; auto simp: chain_at_def)+
  have chain': "chain_at by_id es t (entry_id (es ! t), snd state)" using h(2) ct by (auto simp: chain_at_def)
  have lookups: "map_of (repo_history repo') key = Some by_id"
    "map_of (repo_history_state repo') key = Some (entry_id (es ! t), snd state)"
    "map_of (repo_designs repo') key = Some revised'" "map_of (repo_layouts repo') key = Some l"
    "map_of (repo_position_memory repo') key = map_of (repo_position_memory ?r1) key"
    "repo_next_history_id repo' = repo_next_history_id ?r1"
    using h(1) by (simp_all add: out r2_def)
  have "key_inv env repo' key"
    using e(1) l(2) chain' ct h(5) unfolding key_inv_def lookups history_inv_def
    by (auto simp: content_of_def revised'_def design_inv_def intro!: exI[of _ es] exI[of _ t])
  moreover have "active_chain key repo' = Some (es, t)"
    by (rule active_chain_eq[OF lookups(2,1) chain'])
  moreover have "same_elsewhere key ?r1 repo'" by (simp add: out r2_def same_elsewhere_def slice_def)
  ultimately show ?thesis
    using e(2) h(3,6) t rev lookups(3) out(1) by (auto simp: revised'_def intro: same_elsewhere_trans)
qed


lemma move_history_step:
  assumes "key_inv env repo key"
  shows "key_inv env (snd (move_history env key expected action repo)) key
    \<and> same_elsewhere key repo (snd (move_history env key expected action repo))"
proof (cases "move_history env key expected action repo")
  case (Pair res repo')
  note e = ensure_history_step[OF assms]
  show ?thesis
  proof (cases res)
    case (Inr revised)
    with move_history_success[OF assms, of expected action revised repo'] Pair show ?thesis by simp
  next
    case (Inl err)
    obtain state where st: "map_of (repo_history_state (ensure_history env key (repo_design env key repo) repo)) key = Some state"
      using e(5) by blast
    obtain es i where chain: "active_chain key (ensure_history env key (repo_design env key repo) repo) = Some (es, i)"
      by (rule key_inv_chain[OF e(1) st])
    have layout: "\<exists>l. advance_layout key d (r\<lparr>repo_designs := ds, repo_history_state := hs\<rparr>) =
        (Inr (), r\<lparr>repo_designs := ds, repo_history_state := hs, repo_layouts := l\<rparr>)"
      if "r = ensure_history env key (repo_design env key repo) repo" for d ds hs r
      using advance_layout_step[of "map_of (repo_designs r) key" "r\<lparr>repo_designs := ds, repo_history_state := hs\<rparr>" key d]
        e(1) by (auto simp: key_inv_def that)
    have "repo' = repo \<or> repo' = ensure_history env key (repo_design env key repo) repo"
      using Pair Inl chain layout[OF refl]
      by (auto simp: move_history_def Let_def split: option.splits if_splits prod.splits sum.splits)
        (metis Pair_inject sum.distinct(1))+
    with Pair e(1,2) assms show ?thesis by auto
  qed
qed

lemma replace_layout_step:
  assumes "key_inv env repo key" "distinct (map pos_object_id (lr_content request))"
  shows "key_inv env (snd (replace_layout env key request repo)) key
    \<and> same_elsewhere key repo (snd (replace_layout env key request repo))"
proof -
  have mem: "dict_wf m \<and> (\<forall>jp\<in>set m. pos_object_id (snd jp) = fst jp) \<Longrightarrow>
      dict_wf (foldl (\<lambda>m p. AList.update (pos_object_id p) p m) m ps)
      \<and> (\<forall>jp\<in>set (foldl (\<lambda>m p. AList.update (pos_object_id p) p m) m ps). pos_object_id (snd jp) = fst jp)"
    for m :: "(string, object_position) dict" and ps
  proof (induction ps arbitrary: m)
    case (Cons p ps)
    have "\<forall>jp\<in>set (AList.update (pos_object_id p) p m). pos_object_id (snd jp) = fst jp"
      using Cons.prems set_update_subset[of "pos_object_id p" p m] by auto
    with Cons.IH[of "AList.update (pos_object_id p) p m"] Cons.prems show ?case by simp
  qed simp
  have "dict_wf (dict_get (repo_position_memory repo) key [])
      \<and> (\<forall>jp\<in>set (dict_get (repo_position_memory repo) key []). pos_object_id (snd jp) = fst jp)"
    using assms(1) by (auto simp: key_inv_def memory_inv_def dict_get_def split: option.splits)
  from mem[OF this] show ?thesis
    using assms
    by (auto simp: replace_layout_def Let_def check_positions_def key_inv_def layout_inv_def memory_inv_def
        same_elsewhere_def slice_def split: option.splits)
qed


lemma initialize_step:
  assumes "key_inv env repo key" "distinct (map pos_object_id layout)"
  shows "key_inv env (snd (design_initialize env key content layout repo)) key
    \<and> same_elsewhere key repo (snd (design_initialize env key content layout repo))"
proof (cases "first_error [env_validate env content,
    check_positions ''Initial layout positions must reference imported design objects'' content layout] = None
    \<and> map_of (repo_designs repo) key = None")
  case False
  then show ?thesis using assms(1)
    by (auto simp: design_initialize_def simp del: first_error_None split: option.splits)
next
  case True
  define n where "n = repo_next_history_id repo"
  define design where "design = \<lparr>ds_workspace_id = snd key, ds_revision = 1, ds_content = content,
      ds_fingerprint = env_fingerprint env content\<rparr>"
  define l where "l = \<lparr>ly_workspace_id = snd key, ly_revision = 1, ly_design_revision = 1, ly_content = layout\<rparr>"
  define e where "e = \<lparr>entry_id = n, parent_id = None, operation_group_id = None, source_design_revision = 1,
      operation_kind = ''initial'', entry_content = content, created_at = env_now env\<rparr>"
  define by_id where "by_id = dict_get (repo_history repo) key []"
  let ?out = "repo\<lparr>repo_designs := AList.update key design (repo_designs repo),
      repo_layouts := AList.update key l (repo_layouts repo), repo_next_history_id := n + 1,
      repo_history := AList.update key (AList.update n e by_id) (repo_history repo),
      repo_history_state := AList.update key (n, n) (repo_history_state repo),
      repo_position_memory := AList.update key (dict_by pos_object_id layout) (repo_position_memory repo)\<rparr>"
  have out: "snd (design_initialize env key content layout repo) = ?out"
    using True by (simp add: design_initialize_def new_history_entry_def Let_def design_def l_def e_def n_def by_id_def
        del: first_error_None)
  have "\<forall>j. map_of by_id j \<noteq> None \<longrightarrow> j < n"
    using assms(1) by (auto simp: key_inv_def history_inv_def by_id_def dict_get_def n_def split: option.splits)
  moreover have "chain_at (AList.update n e by_id) [e] 0 (n, n)" "action_end [e] 0"
    by (simp_all add: chain_at_def chain_wf_def action_end_def e_def)
  ultimately have "history_inv (n + 1) (Some design) (Some (AList.update n e by_id)) (Some (n, n))"
    unfolding history_inv_def
    by (auto intro!: exI[of _ "[e]"] exI[of _ 0] simp: e_def content_of_def design_def split: if_splits)
  moreover have "layout_inv (Some design) (Some l)"
    using True assms(2) by (auto simp: layout_inv_def l_def design_def revision_of_def content_of_def check_positions_def)
  moreover have "memory_inv (Some (dict_by pos_object_id layout))"
    by (auto simp: memory_inv_def dict_by_distinct[OF assms(2)] dict_wf_def comp_def assms(2))
  ultimately show ?thesis
    unfolding out by (auto simp: key_inv_def design_inv_def design_def same_elsewhere_def slice_def n_def)
qed

lemma discard_step:
  "key_inv env (snd (discard_initialization key repo)) key
   \<and> same_elsewhere key repo (snd (discard_initialization key repo))"
  by (auto simp: discard_initialization_def key_inv_def history_inv_def layout_inv_def memory_inv_def
      design_inv_def same_elsewhere_def slice_def)

section \<open>Reachable repositories\<close>

datatype design_command =
    CmdInitialize ws_key design_content layout_content
  | CmdDiscard ws_key
  | CmdReplace ws_key design_replace string
  | CmdMove ws_key nat history_direction
  | CmdReplaceLayout ws_key layout_replace
  | CmdHistory ws_key

fun run_command :: "design_env \<Rightarrow> design_command \<Rightarrow> design_repo \<Rightarrow> design_repo" where
  "run_command env (CmdInitialize key content layout) repo = snd (design_initialize env key content layout repo)"
| "run_command env (CmdDiscard key) repo = snd (discard_initialization key repo)"
| "run_command env (CmdReplace key request kind) repo = snd (replace_design env key request kind repo)"
| "run_command env (CmdMove key expected action) repo = snd (move_history env key expected action repo)"
| "run_command env (CmdReplaceLayout key request) repo = snd (replace_layout env key request repo)"
| "run_command env (CmdHistory key) repo = ensure_history env key (repo_design env key repo) repo"

text \<open>Layouts in requests are \<open>SchemiiDesignLayoutContent\<close> objects, so their ids are unique.\<close>

fun command_ok :: "design_command \<Rightarrow> bool" where
  "command_ok (CmdInitialize key content layout) = distinct (map pos_object_id layout)"
| "command_ok (CmdReplaceLayout key request) = distinct (map pos_object_id (lr_content request))"
| "command_ok _ = True"

text \<open>Any interleaving of requests; clock, guard and analysers may change from one to the next.\<close>

inductive design_reachable :: "(string \<Rightarrow> string) \<Rightarrow> design_repo \<Rightarrow> bool" for sha where
  start: "new_design_repo limit = Inr repo \<Longrightarrow> design_reachable sha repo"
| step: "design_reachable sha repo \<Longrightarrow> env_sha256 env = sha \<Longrightarrow> command_ok cmd \<Longrightarrow>
         design_reachable sha (run_command env cmd repo)"

lemma repo_inv_env: "env_sha256 env = env_sha256 env' \<Longrightarrow> repo_inv env repo = repo_inv env' repo"
  by (simp add: repo_inv_def key_inv_def design_inv_def env_fingerprint_def split: option.splits)

lemma run_command_inv:
  assumes "repo_inv env repo" "command_ok cmd"
  shows "repo_inv env (run_command env cmd repo)"
proof -
  have k: "key_inv env repo key" for key using assms(1) unfolding repo_inv_def by blast
  have frame: "key_inv env r' key \<and> same_elsewhere key repo r' \<Longrightarrow> repo_inv env r'" for key r'
    using repo_inv_frame[OF assms(1)] by blast
  show ?thesis
    using assms(2) frame[OF initialize_step[OF k]] frame[OF discard_step] frame[OF replace_design_step[OF k]]
      frame[OF move_history_step[OF k]] frame[OF replace_layout_step[OF k]]
      frame[OF conjI[OF ensure_history_step(1,2)[OF k]]]
    by (cases cmd) simp_all
qed

lemma reachable_repo_inv:
  "design_reachable sha repo \<Longrightarrow> env_sha256 env = sha \<Longrightarrow> repo_inv env repo"
proof (induction arbitrary: env rule: design_reachable.induct)
  case (start limit repo)
  then show ?case
    by (auto simp: new_design_repo_def repo_inv_def key_inv_def history_inv_def layout_inv_def memory_inv_def
        design_inv_def split: if_splits)
next
  case (step repo env' cmd)
  have "repo_inv env' repo" using step.IH step.hyps(2) by simp
  then have "repo_inv env' (run_command env' cmd repo)" using step.hyps(3) by (rule run_command_inv)
  with step.prems step.hyps(2) show ?case using repo_inv_env[of env env'] by simp
qed


section \<open>What the repository promises\<close>

text \<open>
  C1. In every repository that any sequence of requests can produce, for every workspace: the entry
  at the history cursor holds the current design, the stored layout belongs to the current design
  revision and places each object of the design at most once and on its own layer, and the stored
  fingerprint is the fingerprint of the stored content.
\<close>

theorem repository_consistent:
  assumes "design_reachable (env_sha256 env) repo"
  defines "design \<equiv> \<lambda>key. repo_design env key repo"
  shows "(\<forall>key es i. active_chain key repo = Some (es, i) \<longrightarrow> entry_content (es ! i) = ds_content (design key))
    \<and> (\<forall>key l. map_of (repo_layouts repo) key = Some l \<longrightarrow>
         ly_design_revision l = ds_revision (design key) \<and> distinct (map pos_object_id (ly_content l))
         \<and> (\<forall>p\<in>set (ly_content l). position_allowed (ds_content (design key)) p))
    \<and> (\<forall>key. ds_fingerprint (design key) = env_fingerprint env (ds_content (design key)))"
proof (intro conjI allI impI)
  have inv: "key_inv env repo key" for key
    using reachable_repo_inv[OF assms(1) refl] unfolding repo_inv_def by blast
  fix key
  show "entry_content (es ! i) = ds_content (design key)" if a: "active_chain key repo = Some (es, i)" for es i
  proof -
    obtain state where "map_of (repo_history_state repo) key = Some state"
      using a by (cases "map_of (repo_history_state repo) key") (auto simp: active_chain_def)
    from key_inv_chain[OF inv this] a show ?thesis unfolding design_def by (metis option.inject prod.inject repo_design_simps(1))
  qed
  show "ly_design_revision l = ds_revision (design key)" "distinct (map pos_object_id (ly_content l))"
    "\<forall>p\<in>set (ly_content l). position_allowed (ds_content (design key)) p"
    if "map_of (repo_layouts repo) key = Some l" for l
    using inv[of key] that by (simp_all add: key_inv_def layout_inv_def design_def)
  show "ds_fingerprint (design key) = env_fingerprint env (ds_content (design key))"
    using inv[of key] by (auto simp: key_inv_def design_inv_def design_def repo_design_def content_of_def split: option.splits)
qed

text \<open>
  Reading the snapshot of a workspace of such a repository always succeeds, and the design, the
  layout and the history in it are of one revision.
\<close>

theorem snapshot_succeeds:
  assumes "design_reachable (env_sha256 env) repo"
  shows "\<exists>snap repo'. design_snapshot env key baseline repo = (Inr snap, repo')
    \<and> sn_design snap = repo_design env key repo
    \<and> ly_design_revision (sn_layout snap) = ds_revision (sn_design snap)
    \<and> hs_design_revision (sn_history snap) = ds_revision (sn_design snap)"
proof -
  have inv: "key_inv env repo key" using reachable_repo_inv[OF assms refl] unfolding repo_inv_def by blast
  let ?r1 = "ensure_history env key (repo_design env key repo) repo"
  note e = ensure_history_step[OF inv]
  obtain state where st: "map_of (repo_history_state ?r1) key = Some state" using e(5) by blast
  obtain es i where chain: "active_chain key ?r1 = Some (es, i)" by (rule key_inv_chain[OF e(1) st])
  have "ly_design_revision (repo_layout key (ds_revision (repo_design env key repo)) ?r1) = ds_revision (repo_design env key repo)"
    using inv e(4) by (auto simp: key_inv_def layout_inv_def repo_layout_def split: option.splits)
  with chain show ?thesis by (simp add: design_snapshot_def Let_def snapshot_of_def history_state_of_def)
qed

lemma chain_ensured:
  assumes "key_inv env repo key" "active_chain key repo = Some ei"
  shows "ensure_history env key (repo_design env key repo) repo = repo"
  using ensure_history_step(7)[OF assms(1)] assms(2)
  by (cases "map_of (repo_history_state repo) key") (auto simp: active_chain_def)

lemma ensure_history_chain_content:
  assumes "key_inv env repo key"
    and "active_chain key (ensure_history env key (repo_design env key repo) repo) = Some (es, i)"
  shows "entry_content (es ! i) = content_of (map_of (repo_designs repo) key)"
proof -
  note e = ensure_history_step[OF assms(1)]
  obtain state where st: "map_of (repo_history_state (ensure_history env key (repo_design env key repo) repo)) key = Some state"
    using e(5) by blast
  from key_inv_chain[OF e(1) st] assms(2) e(3) show ?thesis by (metis option.inject prod.inject)
qed

lemma move_history_enabled:
  assumes "key_inv env repo key" "active_chain key repo = Some (es, i)"
    and "history_target_index es i action = Some t" "guard_mutation env key ''edit'' = None"
    and "revision_of (map_of (repo_designs repo) key) = expected"
    and "env_validate env (entry_content (es ! t)) = None"
  shows "\<exists>revised repo'. move_history env key expected action repo = (Inr revised, repo')"
proof -
  have layout: "\<exists>l. advance_layout key d (repo\<lparr>repo_designs := ds, repo_history_state := hs\<rparr>) =
      (Inr (), repo\<lparr>repo_designs := ds, repo_history_state := hs, repo_layouts := l\<rparr>)" for d ds hs
    using advance_layout_step[of "map_of (repo_designs repo) key" "repo\<lparr>repo_designs := ds, repo_history_state := hs\<rparr>" key d]
      assms(1) by (auto simp: key_inv_def)
  show ?thesis
    using assms(2-6) chain_ensured[OF assms(1,2)] layout
    by (auto simp: move_history_def Let_def split: prod.splits sum.splits) (metis Pair_inject sum.distinct(1))+
qed

text \<open>
  C25. Undo followed by redo restores the design: the content is the one before the undo, and the
  revision has advanced by two.
\<close>

theorem undo_then_redo:
  assumes "design_reachable (env_sha256 env) repo"
    and "design_undo env key revision repo = (Inr undone, repo1)"
    and "design_redo env key (revision + 1) repo1 = (res, repo2)"
    and "env_validate env (ds_content (repo_design env key repo)) = None"
  shows "\<exists>redone. res = Inr redone \<and> ds_content redone = ds_content (repo_design env key repo)
    \<and> ds_revision redone = revision + 2"
proof -
  have inv: "key_inv env repo key" using reachable_repo_inv[OF assms(1) refl] unfolding repo_inv_def by blast
  let ?r0 = "ensure_history env key (repo_design env key repo) repo"
  obtain es i t where u: "key_inv env repo1 key" "map_of (repo_designs repo1) key = Some undone"
    "ds_revision undone = revision + 1" "active_chain key ?r0 = Some (es, i)"
    "history_target_index es i Undo = Some t" "action_end es i" "active_chain key repo1 = Some (es, t)"
    using move_history_success[OF inv assms(2)[unfolded design_undo_def]] by blast
  have redo: "history_target_index es t Redo = Some i" using u(5,6) by (rule redo_inverts_undo[rotated])
  have content: "entry_content (es ! i) = ds_content (repo_design env key repo)"
    using ensure_history_chain_content[OF inv u(4)] by simp
  have guard: "guard_mutation env key ''edit'' = None"
    using assms(2) by (auto simp: design_undo_def move_history_def split: option.splits)
  obtain redone repo2' where run: "move_history env key (revision + 1) Redo repo1 = (Inr redone, repo2')"
    using move_history_enabled[OF u(1,7) redo guard] u(2,3) content assms(4) by (auto simp: revision_of_def)
  from move_history_success[OF u(1) run] chain_ensured[OF u(1,7)] u(7) redo
  have "ds_content redone = entry_content (es ! i)" "ds_revision redone = revision + 2" by auto
  with run assms(3) content show ?thesis by (auto simp: design_redo_def)
qed


lemma limit_kept: "repo_history_action_limit (run_command env cmd repo) = repo_history_action_limit repo"
proof -
  have ens: "repo_history_action_limit (ensure_history env key d r) = repo_history_action_limit r" for key d r
    by (simp add: ensure_history_def new_history_entry_def Let_def)
  have lay: "advance_layout key d r = (x, r') \<Longrightarrow> repo_history_action_limit r' = repo_history_action_limit r" for key d r x r'
    by (auto simp: advance_layout_def Let_def split: sum.splits)
  have prune: "prune_history key r = Some r' \<Longrightarrow> repo_history_action_limit r' = repo_history_action_limit r" for key r r'
    by (auto simp: prune_history_def Let_def split: option.splits)
  have commit: "repo_history_action_limit (snd (commit_replace env key request kind d r)) = repo_history_action_limit r"
    for key request kind d r
    by (auto simp: commit_replace_def Let_def new_history_entry_def split: option.splits prod.splits sum.splits
        dest!: prune lay)
  show ?thesis
  proof (cases cmd)
    case (CmdMove key expected action)
    then show ?thesis
      by (auto simp: move_history_def Let_def ens split: option.splits prod.splits sum.splits dest!: lay)
  qed (auto simp: design_initialize_def discard_initialization_def replace_design_def replace_layout_def
      new_history_entry_def Let_def ens commit split: option.splits sum.splits)
qed

lemma reachable_limit: "design_reachable sha repo \<Longrightarrow> 1 \<le> repo_history_action_limit repo"
  by (induction rule: design_reachable.induct) (auto simp: new_design_repo_def limit_kept split: if_splits)


lemma relink_nth_content:
  "k < length es \<Longrightarrow> entry_content (relink prev es ! k) = entry_content (es ! k)"
  by (induction es arbitrary: prev k) (auto simp: nth_Cons split: nat.splits)

text \<open>The entry the new one was appended to survives pruning, right before the new one.\<close>

lemma retained_last_two:
  assumes "i < length es" "1 \<le> limit" "i = 0 \<or> history_group (es ! i) \<noteq> history_group e"
  shows "\<exists>xs. retained_history_entries (take (Suc i) es @ [e]) limit = xs @ [es ! i, e]
    \<and> (xs = [] \<or> history_group (es ! i) \<noteq> history_group e)"
proof -
  obtain f r where es: "es = f # r" using assms(1) by (cases es) auto
  obtain l where l: "limit = Suc l" using assms(2) by (cases limit) auto
  show ?thesis
  proof (cases i)
    case 0
    then show ?thesis using l by (simp add: es retained_eq)
  next
    case (Suc j)
    have "take (Suc j) r = take j r @ [r ! j]" using assms(1) Suc es by (simp add: take_Suc_conv_app_nth)
    moreover have "history_group (r ! j) \<noteq> history_group e" using assms(3) Suc es by auto
    ultimately show ?thesis using l Suc by (simp add: es retained_eq)
  qed
qed

text \<open>
  C24. A saved change can be undone: if \<open>replace\<close> stores a new revision as an action of its own (its
  history group is not the one of the entry it was based on), then undo with the new revision number
  succeeds and brings back the previous content.
\<close>

theorem replace_then_undo:
  assumes "design_reachable (env_sha256 env) repo"
    and "replace_design env key request kind repo = (Inr revised, repo1)"
    and "ds_revision revised = ds_revision (repo_design env key repo) + 1"
    and "active_chain key (ensure_history env key (repo_design env key repo) repo) = Some (es, i)"
    and "history_group \<lparr>entry_id = repo_next_history_id (ensure_history env key (repo_design env key repo) repo),
           parent_id = None, operation_group_id = dr_history_group_id request\<rparr> \<noteq> history_group (es ! i)"
    and "guard_mutation env key ''edit'' = None"
    and "env_validate env (ds_content (repo_design env key repo)) = None"
  shows "\<exists>undone repo2. design_undo env key (ds_revision revised) repo1 = (Inr undone, repo2)
    \<and> ds_content undone = ds_content (repo_design env key repo) \<and> ds_revision undone = ds_revision revised + 1"
proof -
  have inv: "key_inv env repo key" using reachable_repo_inv[OF assms(1) refl] unfolding repo_inv_def by blast
  let ?r = "ensure_history env key (repo_design env key repo) repo" and ?cur = "repo_design env key repo"
  note e = ensure_history_step[OF inv]
  obtain state where st: "map_of (repo_history_state ?r) key = Some state" using e(5) by blast
  have cur: "?cur = repo_design env key ?r" using e(3) by (simp add: repo_design_def)
  obtain repo' revised' x where c: "commit_replace env key request kind ?cur ?r = (Inr revised', repo')"
    "key_inv env repo' key" "map_of (repo_designs repo') key = Some revised'"
    "operation_group_id x = dr_history_group_id request" "entry_id x = repo_next_history_id ?r"
    "active_chain key repo' = (let rs = relink None (retained_history_entries (take (Suc i) es @ [x])
          (repo_history_action_limit ?r)) in Some (rs, length rs - 1))"
    using commit_replace_step[OF e(1) st assms(4) cur] by blast
  have out: "repo1 = repo'" "revised = revised'"
    using assms(2,3) c(1) by (auto simp: replace_design_def Let_def split: option.splits sum.splits if_splits)
  have x: "history_group x \<noteq> history_group (es ! i)"
    using assms(5) c(4,5) history_group_cong[of x "\<lparr>entry_id = repo_next_history_id ?r, parent_id = None,
      operation_group_id = dr_history_group_id request\<rparr>"] by simp
  have i: "i < length es"
    using key_inv_chain[OF e(1) st] assms(4) by (metis chain_at_def option.inject prod.inject)
  let ?ret = "retained_history_entries (take (Suc i) es @ [x]) (repo_history_action_limit ?r)"
  have "1 \<le> repo_history_action_limit ?r" using reachable_limit[OF assms(1)] e(6) by simp
  then obtain xs where xs: "?ret = xs @ [es ! i, x]"
    using retained_last_two[OF i _, of "repo_history_action_limit ?r" x] x by metis
  let ?rs = "relink None ?ret" and ?c = "length xs"
  have len: "length ?rs = Suc (Suc ?c)" using xs by simp
  have groups: "history_group (?rs ! ?c) = history_group (es ! i)" "history_group (?rs ! Suc ?c) = history_group x"
    using relink_nth_group[of ?c ?ret None] relink_nth_group[of "Suc ?c" ?ret None] xs by (simp_all add: nth_append)
  have target: "history_target_index ?rs (Suc ?c) Undo = Some ?c"
    using len groups x by (intro undo_from_tip) auto
  have content: "entry_content (?rs ! ?c) = ds_content ?cur"
    using relink_nth_content[of ?c ?ret None] xs ensure_history_chain_content[OF inv assms(4)] by (simp add: nth_append)
  have chain: "active_chain key repo1 = Some (?rs, Suc ?c)" using c(6) len by (simp add: out)
  have inv1: "key_inv env repo1 key" using c(2) out by simp
  obtain undone repo2 where run: "move_history env key (ds_revision revised) Undo repo1 = (Inr undone, repo2)"
    using move_history_enabled[OF inv1 chain target assms(6)] content assms(7) c(3) out by (auto simp: revision_of_def)
  from move_history_success[OF inv1 run] chain_ensured[OF inv1 chain] chain target content
  have "ds_content undone = ds_content ?cur" "ds_revision undone = ds_revision revised + 1" by auto
  with run show ?thesis by (auto simp: design_undo_def)
qed


section \<open>A concrete run\<close>

text \<open>A workspace that is initialised with one table and then emptied.\<close>

definition sample_env :: design_env where
  "sample_env = \<lparr>env_sha256 = (\<lambda>_. ''f''), env_base_type_name = (\<lambda>_. None), env_query_error = (\<lambda>_. None),
     env_analyze = (\<lambda>_ _. None), env_set_iter = (\<lambda>xs. xs), env_to_camel = (\<lambda>k. k),
     env_guard = (\<lambda>_ _. False), env_now = 0\<rparr>"

definition sample_key :: ws_key where
  "sample_key = (''o'', ''w'')"

definition sample_start :: design_repo where
  "sample_start = \<lparr>repo_designs = [], repo_layouts = [], repo_history = [], repo_history_state = [],
     repo_position_memory = [], repo_next_history_id = 1, repo_history_action_limit = 100\<rparr>"

definition sample_initialized :: design_repo where
  "sample_initialized = run_command sample_env (CmdInitialize sample_key sample_content []) sample_start"

definition sample_request :: design_replace where
  "sample_request = \<lparr>dr_expected_design_revision = 1, dr_content = empty_design_content, dr_history_group_id = None\<rparr>"

definition sample_replaced :: design_repo where
  "sample_replaced = run_command sample_env (CmdReplace sample_key sample_request ''checkpoint'') sample_initialized"

lemma sample_reachable:
  "design_reachable (env_sha256 sample_env) sample_initialized"
  "design_reachable (env_sha256 sample_env) sample_replaced"
proof -
  have "design_reachable (env_sha256 sample_env) sample_start"
    by (rule design_reachable.start[of 100]) (simp add: new_design_repo_def sample_start_def)
  then show i: "design_reachable (env_sha256 sample_env) sample_initialized"
    unfolding sample_initialized_def by (rule design_reachable.step) simp_all
  then show "design_reachable (env_sha256 sample_env) sample_replaced"
    unfolding sample_replaced_def by (rule design_reachable.step) simp_all
qed

theorem repository_consistent_witness:
  "\<forall>key. ds_fingerprint (repo_design sample_env key sample_replaced)
     = env_fingerprint sample_env (ds_content (repo_design sample_env key sample_replaced))"
  using repository_consistent[OF sample_reachable(2)] by blast

theorem snapshot_succeeds_witness:
  "\<exists>snap repo'. design_snapshot sample_env sample_key
      \<lparr>hb_kind = WorkspaceStart, hb_id = ''b'', hb_revision = 0, hb_design_revision = 1, hb_label = ''l'',
       hb_fingerprint = ''f'', hb_complete = True\<rparr> sample_replaced = (Inr snap, repo')
    \<and> sn_design snap = repo_design sample_env sample_key sample_replaced"
  using snapshot_succeeds[OF sample_reachable(2), of sample_key] by blast

theorem undo_then_redo_witness:
  "\<exists>redone. fst (design_redo sample_env sample_key 3 (snd (design_undo sample_env sample_key 2 sample_replaced)))
     = Inr redone \<and> ds_content redone = empty_design_content \<and> ds_revision redone = 4"
proof -
  obtain undone repo1 where u: "design_undo sample_env sample_key 2 sample_replaced = (Inr undone, repo1)"
  proof -
    have "case fst (design_undo sample_env sample_key 2 sample_replaced) of Inl _ \<Rightarrow> False | Inr _ \<Rightarrow> True" by code_simp
    then show thesis using that by (cases "design_undo sample_env sample_key 2 sample_replaced") (auto split: sum.splits)
  qed
  obtain res repo2 where r: "design_redo sample_env sample_key (2 + 1) repo1 = (res, repo2)" by fastforce
  have "env_validate sample_env (ds_content (repo_design sample_env sample_key sample_replaced)) = None" by code_simp
  moreover have "ds_content (repo_design sample_env sample_key sample_replaced) = empty_design_content" by code_simp
  ultimately show ?thesis using undo_then_redo[OF sample_reachable(2) u r] u r by simp
qed

theorem replace_then_undo_witness:
  "\<exists>undone repo2. design_undo sample_env sample_key 2 sample_replaced = (Inr undone, repo2)
    \<and> ds_content undone = sample_content"
proof -
  let ?run = "replace_design sample_env sample_key sample_request ''checkpoint'' sample_initialized"
  have ok: "case fst ?run of Inl _ \<Rightarrow> False | Inr d \<Rightarrow> ds_revision d = 2" by code_simp
  then obtain revised where run: "?run = (Inr revised, sample_replaced)" and rev: "ds_revision revised = 2"
    by (cases ?run) (auto simp: sample_replaced_def split: sum.splits)
  let ?ens = "ensure_history sample_env sample_key (repo_design sample_env sample_key sample_initialized) sample_initialized"
  have chain: "active_chain sample_key ?ens = Some
      ([\<lparr>entry_id = 1, parent_id = None, operation_group_id = None, source_design_revision = 1,
         operation_kind = ''initial'', entry_content = sample_content, created_at = 0\<rparr>], 0)" by code_simp
  have c: "ds_content (repo_design sample_env sample_key sample_initialized) = sample_content"
    "ds_revision (repo_design sample_env sample_key sample_initialized) = 1"
    "env_validate sample_env sample_content = None" "guard_mutation sample_env sample_key ''edit'' = None"
    by code_simp+
  have "history_group \<lparr>entry_id = repo_next_history_id ?ens, parent_id = None,
      operation_group_id = dr_history_group_id sample_request\<rparr> \<noteq> history_group (([\<lparr>entry_id = 1, parent_id = None,
      operation_group_id = None, source_design_revision = 1, operation_kind = ''initial'',
      entry_content = sample_content, created_at = 0\<rparr>]) ! 0)" by code_simp
  from replace_then_undo[OF sample_reachable(1) run _ chain this] rev c show ?thesis by auto
qed

end
