(* ===== verification/Migration_Invariant.thy ===== *)
theory Migration_Invariant
  imports Migration_Leases Design_Store_Invariant
begin

text \<open>
  What the migration repository guarantees along every sequence of operations. The changes an
  operation can make to one execution are the step relation \<open>record_step\<close>; every operation is shown
  to perform such steps only, and the invariants follow by cases over the relation.
\<close>

section \<open>Steps of one execution\<close>

inductive record_step :: "execution_record \<Rightarrow> execution_record \<Rightarrow> bool" where
  claimed: "lease_available now r \<Longrightarrow> work_of r \<noteq> None \<Longrightarrow> record_step r (lease_to w until now r)"
| renewed: "er_lease_owner r = Some w \<Longrightarrow> mx_status (er_execution r) \<in> {Reserved, Applying, Succeeded} \<Longrightarrow>
    record_step r (renewed_record w until r)"
| changed: "validate_execution_transition (er_execution r) (tx_expected_revision change)
      (tx_allowed_from change) (tx_status change) = None \<Longrightarrow>
    lease_blocks change r = None \<Longrightarrow>
    \<not> (change_holds_lease change r \<and> (tx_lease_owner change = None \<or> tx_lease_expires_at change = None)) \<Longrightarrow>
    record_step r (changed_record env (er_owner_id r) change r)"

inductive_cases record_stepE: "record_step r r'"

lemma transition_legal:
  "validate_execution_transition x expected allowed status = None \<Longrightarrow>
   mx_revision x = expected \<and> mx_status x \<in> set allowed \<and> status \<in> set (legal_execution_transitions (mx_status x))"
  by (auto simp: validate_execution_transition_def)

text \<open>The parts of an execution no operation changes.\<close>

definition execution_identity where
  "execution_identity r = (er_owner_id r, mx_id (er_execution r), mx_plan_id (er_execution r),
     mx_workspace_id (er_execution r), mx_created_at (er_execution r), er_confirmed_review_digest r,
     er_destructive_confirmed r, er_external_changes_confirmed r)"

lemmas record_defs = lease_to_def renewed_record_def changed_record_def changed_execution_def Let_def

text \<open>How the three kinds of step set the fields of a record.\<close>

lemma changed_record_fields:
  "mx_revision (er_execution (changed_record env owner change r)) = Suc (mx_revision (er_execution r))"
  "mx_status (er_execution (changed_record env owner change r)) = tx_status change"
  "mx_sync_status (er_execution (changed_record env owner change r)) =
     setting_or (mx_sync_status (er_execution r)) (tx_sync_status change)"
  "mx_commit_outcome (er_execution (changed_record env owner change r)) =
     setting_or (mx_commit_outcome (er_execution r)) (tx_commit_outcome change)"
  "mx_recovery_available_at (er_execution (changed_record env owner change r)) =
     er_lease_expires_at (changed_record env owner change r)"
  "mx_reconcile_required (er_execution (changed_record env owner change r)) =
     (tx_status change \<in> {Uncertain, ReconciliationRequired})"
  "er_lease_owner (changed_record env owner change r) =
     (if change_holds_lease change r then tx_lease_owner change else None)"
  "er_lease_expires_at (changed_record env owner change r) =
     (if change_holds_lease change r then tx_lease_expires_at change else None)"
  by (simp_all add: changed_record_def changed_execution_def Let_def)

lemma record_step_identity: "record_step r r' \<Longrightarrow> execution_identity r' = execution_identity r"
  by (erule record_stepE) (simp_all add: execution_identity_def record_defs)

lemma record_step_revision:
  "record_step r r' \<Longrightarrow> mx_revision (er_execution r') = mx_revision (er_execution r)
     \<or> mx_revision (er_execution r') = Suc (mx_revision (er_execution r))"
  by (erule record_stepE) (simp_all add: record_defs)

lemma record_step_status:
  "record_step r r' \<Longrightarrow> mx_status (er_execution r') = mx_status (er_execution r)
     \<or> mx_status (er_execution r') \<in> set (legal_execution_transitions (mx_status (er_execution r)))"
  by (erule record_stepE) (auto simp: record_defs dest: transition_legal)

lemma failed_final: "record_step r r' \<Longrightarrow> mx_status (er_execution r) \<noteq> Failed"
  by (erule record_stepE) (auto simp: work_of_def Let_def dest: transition_legal)

text \<open>
  A stored execution: its lease is complete and mirrored in the public record, it is leased only while
  it has work left, and it asks for reconciliation exactly in the two statuses that need it.
\<close>

definition execution_ok :: "execution_record \<Rightarrow> bool" where
  "execution_ok r =
     (let x = er_execution r in 1 \<le> mx_revision x
      \<and> (er_lease_owner r = None \<longleftrightarrow> er_lease_expires_at r = None)
      \<and> mx_recovery_available_at x = er_lease_expires_at r
      \<and> (er_lease_owner r \<noteq> None \<longrightarrow> holds_execution_lease (mx_status x) (mx_sync_status x))
      \<and> (mx_reconcile_required x \<longleftrightarrow> mx_status x \<in> {Uncertain, ReconciliationRequired}))"

lemma record_step_ok:
  assumes "record_step r r'" "execution_ok r"
  shows "execution_ok r'"
  using assms(1)
proof cases
  case claimed
  then show ?thesis
    using assms(2) by (simp add: execution_ok_def lease_to_def work_of_def holds_execution_lease_def Let_def split: if_splits)
next
  case renewed
  then show ?thesis using assms(2) by (simp add: execution_ok_def renewed_record_def Let_def)
next
  case changed
  then show ?thesis
    using assms(2) by (auto simp: execution_ok_def changed_record_fields change_holds_lease_def Let_def)
qed

section \<open>Operations perform record steps\<close>

definition execution_at :: "migration_repo \<Rightarrow> ws_key \<Rightarrow> execution_record option" where
  "execution_at repo key = map_of (mr_executions repo) key"

text \<open>Executions are stored under their owner and id, with ids that differ between all of them.\<close>

definition keyed :: "migration_repo \<Rightarrow> bool" where
  "keyed repo = (distinct (map fst (mr_executions repo))
     \<and> distinct (map (snd \<circ> fst) (mr_executions repo))
     \<and> (\<forall>(key, r)\<in>set (mr_executions repo). key = (er_owner_id r, mx_id (er_execution r))))"

lemma keyed_at: "keyed repo \<Longrightarrow> execution_at repo key = Some r \<Longrightarrow> key = (er_owner_id r, mx_id (er_execution r))"
  by (auto simp: keyed_def execution_at_def dest!: map_of_SomeD)

lemma min_candidate_min:
  "min_candidate best cs = Some x \<Longrightarrow> x \<in> set (best # cs) \<and> (\<forall>y\<in>set (best # cs). fst x \<le> fst y)"
proof (induction best cs rule: min_candidate.induct)
  case (2 best c cs)
  then show ?case by (cases "fst c < fst best") (auto split: if_splits dest: order.trans)
qed simp

lemma min_candidate_total:
  "distinct (map fst (best # cs)) \<Longrightarrow> \<exists>x. min_candidate best cs = Some x"
  by (induction best cs rule: min_candidate.induct) auto

lemma eligible_iff:
  "((p, t, i), r, kind) \<in> set (eligible_work now repo) \<longleftrightarrow>
     r \<in> snd ` set (mr_executions repo) \<and> lease_available now r \<and> work_of r = Some (p, kind)
     \<and> t = mx_created_at (er_execution r) \<and> i = mx_id (er_execution r)"
  by (force simp: eligible_work_def dict_values_def split: option.splits if_splits)

lemma keyed_member: "keyed repo \<Longrightarrow> r \<in> snd ` set (mr_executions repo) \<longleftrightarrow>
    execution_at repo (er_owner_id r, mx_id (er_execution r)) = Some r"
  by (force simp: keyed_def execution_at_def image_iff split_beta dest: map_of_SomeD intro!: map_of_is_SomeI)

section \<open>Sequences of operations\<close>

datatype migration_command =
    CreateBaseline baseline_values
  | CreatePlan plan_record
  | Reserve string string execution_create instant
  | Claim instant string instant
  | Renew ws_key string instant
  | Transition ws_key execution_change
  | ReconcileDrift plan_record nat design_content design_content
  | EditDesigns design_command

fun run_migration :: "migration_env \<Rightarrow> migration_command \<Rightarrow> migration_repo \<Rightarrow> migration_repo" where
  "run_migration env (CreateBaseline v) repo = snd (create_baseline env v repo)"
| "run_migration env (CreatePlan record) repo = snd (create_plan env record repo)"
| "run_migration env (Reserve owner plan_id request t) repo = snd (reserve_execution env owner plan_id request t repo)"
| "run_migration env (Claim t w until) repo = snd (claim_next_execution t w until repo)"
| "run_migration env (Renew key w until) repo = snd (renew_execution_lease key w until repo)"
| "run_migration env (Transition key change) repo = snd (transition_execution env key change repo)"
| "run_migration env (ReconcileDrift record n resolved live) repo = snd (reconcile_drift env record n resolved live repo)"
| "run_migration env (EditDesigns cmd) repo = repo\<lparr>mr_designs := run_command (me_design_env env) cmd (mr_designs repo)\<rparr>"

text \<open>Two versions of a plan that differ at most in its status.\<close>

definition same_plan :: "plan_record \<Rightarrow> plan_record \<Rightarrow> bool" where
  "same_plan rec rec' = (rec' = rec\<lparr>pl_plan := (pl_plan rec)\<lparr>mp_status := mp_status (pl_plan rec')\<rparr>\<rparr>)"

lemma same_plan_iff: "same_plan rec rec' \<longleftrightarrow> (\<exists>st. rec' = rec\<lparr>pl_plan := (pl_plan rec)\<lparr>mp_status := st\<rparr>\<rparr>)"
  unfolding same_plan_def
proof
  assume "\<exists>st. rec' = rec\<lparr>pl_plan := (pl_plan rec)\<lparr>mp_status := st\<rparr>\<rparr>"
  then obtain st where "rec' = rec\<lparr>pl_plan := (pl_plan rec)\<lparr>mp_status := st\<rparr>\<rparr>" by blast
  moreover from this have "mp_status (pl_plan rec') = st" by simp
  ultimately show "rec' = rec\<lparr>pl_plan := (pl_plan rec)\<lparr>mp_status := mp_status (pl_plan rec')\<rparr>\<rparr>" by simp
qed blast

lemma same_plan_refl [simp, intro]: "same_plan rec rec"
  unfolding same_plan_iff by (rule exI[of _ "mp_status (pl_plan rec)"]) simp

lemma same_plan_status [simp, intro]: "same_plan rec (rec\<lparr>pl_plan := (pl_plan rec)\<lparr>mp_status := st\<rparr>\<rparr>)"
  unfolding same_plan_iff by blast

lemma same_plan_update: "same_plan rec rec' \<Longrightarrow> same_plan rec (rec'\<lparr>pl_plan := (pl_plan rec')\<lparr>mp_status := st\<rparr>\<rparr>)"
  by (auto simp: same_plan_iff)

text \<open>
  What the callers provide: new identifiers are drawn at random and not in use yet, and drift is
  reconciled for a plan that was read from the repository (its status may have changed since).
\<close>

definition fresh_baseline_id :: "migration_env \<Rightarrow> migration_repo \<Rightarrow> bool" where
  "fresh_baseline_id env repo =
     (\<forall>rows\<in>snd ` set (mr_baselines repo). ''mbl_'' @ me_token env 0 \<notin> bl_id ` set rows)"

fun provided :: "migration_env \<Rightarrow> migration_command \<Rightarrow> migration_repo \<Rightarrow> bool" where
  "provided env (CreateBaseline v) repo = fresh_baseline_id env repo"
| "provided env (CreatePlan record) repo =
     (map_of (mr_plans repo) (pl_owner_id record, mp_id (pl_plan record)) = None)"
| "provided env (Reserve owner plan_id request t) repo =
     (''mex_'' @ me_token env 0 \<notin> snd ` fst ` set (mr_executions repo))"
| "provided env (ReconcileDrift record n resolved live) repo =
     (fresh_baseline_id env repo
      \<and> (case map_of (mr_plans repo) (pl_owner_id record, mp_id (pl_plan record)) of
            None \<Rightarrow> False | Some stored \<Rightarrow> same_plan stored record))"
| "provided env _ repo = True"

inductive migration_reachable ::
  "(migration_env \<Rightarrow> migration_command \<Rightarrow> migration_repo \<Rightarrow> bool) \<Rightarrow> migration_repo \<Rightarrow> bool" for discipline where
  start: "migration_reachable discipline (new_migration_repo designs)"
| step: "migration_reachable discipline repo \<Longrightarrow> provided env cmd repo \<Longrightarrow> discipline env cmd repo \<Longrightarrow>
         migration_reachable discipline (run_migration env cmd repo)"

text \<open>The reservation of a new execution and what was checked for it.\<close>

definition reserves ::
  "migration_env \<Rightarrow> string \<Rightarrow> string \<Rightarrow> execution_create \<Rightarrow> instant \<Rightarrow> plan_record \<Rightarrow> migration_repo \<Rightarrow> bool" where
  "reserves env owner plan_id request t record repo =
     (map_of (mr_plans repo) (owner, plan_id) = Some record
      \<and> validate_execution_authorization (pl_plan record) (xr_review_digest request)
           (xr_confirm_destructive request) (xr_confirm_external_changes request) = None
      \<and> map_of (mr_execution_by_plan repo) (owner, plan_id) = None
      \<and> reservation_error owner (pl_plan record) t repo = None)"

lemma reserve_execution_disj:
  "snd (reserve_execution env owner plan_id request t repo) = repo
   \<or> (\<exists>rec. reserves env owner plan_id request t rec repo
        \<and> reserve_execution env owner plan_id request t repo
            = commit_reservation env owner plan_id request t rec repo)"
proof (cases "map_of (mr_plans repo) (owner, plan_id)")
  case (Some rec)
  then show ?thesis
    by (simp add: reserve_execution_def reserve_execution_locked_def get_plan_def reserves_def split: option.split)
qed (simp add: reserve_execution_def get_plan_def)

lemma reserve_execution_cases:
  obtains (unchanged) "snd (reserve_execution env owner plan_id request t repo) = repo"
  | (reserved) rec where "reserves env owner plan_id request t rec repo"
      "reserve_execution env owner plan_id request t repo = commit_reservation env owner plan_id request t rec repo"
  using reserve_execution_disj by blast

lemma claim_cases:
  obtains (unchanged) "snd (claim_next_execution t w until repo) = repo"
  | (leased) p c i r kind where "((p, c, i), r, kind) \<in> set (eligible_work t repo)"
      "\<forall>y\<in>set (eligible_work t repo). (p, c, i) \<le> fst y"
      "claim_next_execution t w until repo = (Inr (Some \<lparr>wk_kind = kind, wk_record = lease_to w until t r\<rparr>),
         repo\<lparr>mr_executions := AList.update (er_owner_id r, i) (lease_to w until t r) (mr_executions repo)\<rparr>)"
proof (cases "eligible_work t repo")
  case Nil
  then show ?thesis by (intro unchanged) (simp add: claim_next_execution_def)
next
  case (Cons c cs)
  show ?thesis
  proof (cases "min_candidate c cs")
    case None
    then show ?thesis using Cons by (intro unchanged) (simp add: claim_next_execution_def)
  next
    case (Some x)
    obtain p t' i r kind where x: "x = ((p, t', i), r, kind)" by (metis prod.collapse)
    show ?thesis
      by (rule leased[of p t' i r kind])
        (use Some Cons x min_candidate_min[OF Some] in \<open>auto simp: claim_next_execution_def Let_def\<close>)
  qed
qed

text \<open>Every operation leaves an execution alone, takes it one step further, or reserves it.\<close>

definition steps_or_reserves :: "migration_env \<Rightarrow> migration_command \<Rightarrow> migration_repo \<Rightarrow> migration_repo \<Rightarrow> ws_key \<Rightarrow> bool" where
  "steps_or_reserves env cmd repo repo' key =
     (execution_at repo' key = execution_at repo key
      \<or> (\<exists>r r'. execution_at repo key = Some r \<and> execution_at repo' key = Some r' \<and> record_step r r')
      \<or> (\<exists>owner plan_id request t rec. cmd = Reserve owner plan_id request t
           \<and> reserves env owner plan_id request t rec repo
           \<and> key = (owner, ''mex_'' @ me_token env 0) \<and> execution_at repo key = None
           \<and> repo' = snd (commit_reservation env owner plan_id request t rec repo)
           \<and> execution_at repo' key = Some (reserved_record env owner plan_id request t rec)))"

lemma baseline_frame [simp]:
  "mr_executions (snd (create_baseline env v repo)) = mr_executions repo"
  "mr_execution_by_plan (snd (create_baseline env v repo)) = mr_execution_by_plan repo"
  "mr_plans (snd (create_baseline env v repo)) = mr_plans repo"
  "mr_designs (snd (create_baseline env v repo)) = mr_designs repo"
  by (simp_all add: create_baseline_def Let_def)

lemma create_plan_frame [simp]:
  "mr_executions (snd (create_plan env rec repo)) = mr_executions repo"
  "mr_execution_by_plan (snd (create_plan env rec repo)) = mr_execution_by_plan repo"
  "mr_baselines (snd (create_plan env rec repo)) = mr_baselines repo"
  by (simp_all add: create_plan_def create_plan_locked_def Let_def split: option.split)

lemma reconcile_frame [simp]:
  "mr_executions (snd (reconcile_drift env rec n resolved live repo)) = mr_executions repo"
  "mr_execution_by_plan (snd (reconcile_drift env rec n resolved live repo)) = mr_execution_by_plan repo"
proof -
  have "mr_executions r2 = mr_executions r1 \<and> mr_execution_by_plan r2 = mr_execution_by_plan r1"
    if "create_baseline env v r1 = (res, r2)" for v r1 res r2
    using that baseline_frame(1,2)[of env v r1] by simp
  then show "mr_executions (snd (reconcile_drift env rec n resolved live repo)) = mr_executions repo"
    "mr_execution_by_plan (snd (reconcile_drift env rec n resolved live repo)) = mr_execution_by_plan repo"
    by (fastforce simp: reconcile_drift_def reconcile_drift_locked_def Let_def split: option.split prod.split sum.split)+
qed

lemma claim_step:
  assumes "keyed repo"
  shows "steps_or_reserves env cmd repo (snd (claim_next_execution t w until repo)) key"
proof (cases t w until repo rule: claim_cases)
  case (leased p c i r kind)
  then have "execution_at repo (er_owner_id r, i) = Some r" "lease_available t r" "work_of r \<noteq> None"
    using keyed_member[OF assms] by (auto simp: eligible_iff)
  then show ?thesis
    using leased(3) record_step.claimed[of t r w until]
    by (auto simp: steps_or_reserves_def execution_at_def update_Some_unfold)
qed (simp add: steps_or_reserves_def)

lemma renew_step: "steps_or_reserves env cmd repo (snd (renew_execution_lease k w until repo)) key"
  using record_step.renewed[of _ w until]
  by (auto simp: steps_or_reserves_def renew_execution_lease_def execution_at_def split: option.split)

lemma transition_refused: "transition_execution env k change repo = (Inl e, repo') \<Longrightarrow> repo' = repo"
proof -
  have "fst (transition_execution env k change repo) = Inl e \<longrightarrow> snd (transition_execution env k change repo) = repo"
    by (simp add: transition_execution_def Let_def del: first_error_None split: sum.split option.split)
  then show "transition_execution env k change repo = (Inl e, repo') \<Longrightarrow> repo' = repo" by simp
qed

lemma transition_accepted:
  assumes "transition_execution env k change repo = (Inr r', repo')"
  obtains r where "execution_at repo k = Some r" "r' = changed_record env (fst k) change r"
    "validate_execution_transition (er_execution r) (tx_expected_revision change)
       (tx_allowed_from change) (tx_status change) = None"
    "lease_blocks change r = None" "record_step r (changed_record env (er_owner_id r) change r)"
    "repo' = repo\<lparr>mr_executions := AList.update k r' (mr_executions repo)\<rparr>"
proof -
  from assms obtain r where r: "execution_at repo k = Some r" "r' = changed_record env (fst k) change r"
    "validate_execution_transition (er_execution r) (tx_expected_revision change)
       (tx_allowed_from change) (tx_status change) = None"
    "lease_blocks change r = None"
    "\<not> (change_holds_lease change r \<and> (tx_lease_owner change = None \<or> tx_lease_expires_at change = None))"
    "repo' = repo\<lparr>mr_executions := AList.update k r' (mr_executions repo)\<rparr>"
    by (auto simp: transition_execution_def get_execution_def execution_at_def Let_def split: option.splits)
  from record_step.changed[OF r(3,4,5)] r show thesis by (intro that)
qed

lemma transition_step:
  assumes "keyed repo"
  shows "steps_or_reserves env cmd repo (snd (transition_execution env k change repo)) key"
proof (cases "transition_execution env k change repo")
  case (Pair res repo')
  show ?thesis
  proof (cases res)
    case (Inl e)
    then have "repo' = repo" using Pair transition_refused by simp
    then show ?thesis using Pair by (simp add: steps_or_reserves_def)
  next
    case (Inr r')
    with Pair obtain r where "execution_at repo k = Some r" "r' = changed_record env (fst k) change r"
      "record_step r (changed_record env (er_owner_id r) change r)"
      "repo' = repo\<lparr>mr_executions := AList.update k r' (mr_executions repo)\<rparr>"
      by (auto elim: transition_accepted)
    moreover have "snd (transition_execution env k change repo) = repo'" using Pair by simp
    ultimately show ?thesis
      unfolding \<open>snd (transition_execution env k change repo) = repo'\<close>
      using keyed_at[OF assms, of k r] by (auto simp: steps_or_reserves_def execution_at_def)
  qed
qed

lemma run_migration_step:
  assumes "keyed repo" "provided env cmd repo"
  shows "steps_or_reserves env cmd repo (run_migration env cmd repo) key"
proof (cases cmd)
  case (Reserve owner plan_id request t)
  show ?thesis
  proof (cases env owner plan_id request t repo rule: reserve_execution_cases)
    case unchanged
    then show ?thesis by (simp add: Reserve steps_or_reserves_def)
  next
    case (reserved rec)
    have "execution_at repo (owner, ''mex_'' @ me_token env 0) = None"
      using assms(2) by (force simp: Reserve execution_at_def map_of_eq_None_iff image_iff)
    with reserved show ?thesis
      by (auto simp: Reserve steps_or_reserves_def commit_reservation_def Let_def execution_at_def
          reserved_record_def new_execution_def)
  qed
qed (simp_all add: assms(1) claim_step renew_step transition_step, simp_all add: steps_or_reserves_def execution_at_def)

section \<open>Invariants\<close>

text \<open>Identifiers stay unique and every execution is stored under its own.\<close>

lemma keyed_update_old:
  assumes "keyed repo" "execution_at repo key = Some r" "execution_identity r' = execution_identity r"
  shows "keyed (repo\<lparr>mr_executions := AList.update key r' (mr_executions repo)\<rparr>)"
proof -
  have k: "key \<in> fst ` set (mr_executions repo)"
    using assms(2) by (force simp: execution_at_def dest: map_of_SomeD)
  have key: "key = (er_owner_id r', mx_id (er_execution r'))"
    using keyed_at[OF assms(1,2)] assms(3) by (simp add: execution_identity_def)
  have "map fst (AList.update key r' (mr_executions repo)) = map fst (mr_executions repo)"
    using k by (simp add: update_keys)
  moreover from this have "map (snd \<circ> fst) (AList.update key r' (mr_executions repo)) = map (snd \<circ> fst) (mr_executions repo)"
    by (metis map_map)
  ultimately show ?thesis
    using assms(1) key set_update_subset[of key r' "mr_executions repo"] by (fastforce simp: keyed_def)
qed

lemma keyed_update_new:
  assumes "keyed repo" "snd key \<notin> snd ` fst ` set (mr_executions repo)" "key = (er_owner_id r, mx_id (er_execution r))"
  shows "keyed (repo\<lparr>mr_executions := AList.update key r (mr_executions repo)\<rparr>)"
proof -
  have "key \<notin> fst ` set (mr_executions repo)" using assms(2) by auto
  then have "AList.update key r (mr_executions repo) = mr_executions repo @ [(key, r)]"
    by (simp add: update_new)
  moreover from this have "key \<notin> set (map fst (mr_executions repo))"
    "snd key \<notin> set (map (snd \<circ> fst) (mr_executions repo))" using assms(2) by force+
  ultimately show ?thesis using assms(1,3) by (auto simp: keyed_def)
qed

lemma keyed_cong: "mr_executions repo' = mr_executions repo \<Longrightarrow> keyed repo' = keyed repo"
  by (simp add: keyed_def)

lemma reserved_record_fields [simp]:
  "er_owner_id (reserved_record env owner plan_id request t rec) = owner"
  "mx_id (er_execution (reserved_record env owner plan_id request t rec)) = ''mex_'' @ me_token env 0"
  "mx_plan_id (er_execution (reserved_record env owner plan_id request t rec)) = plan_id"
  "mx_workspace_id (er_execution (reserved_record env owner plan_id request t rec)) = mp_workspace_id (pl_plan rec)"
  "er_confirmed_review_digest (reserved_record env owner plan_id request t rec) = xr_review_digest request"
  "er_destructive_confirmed (reserved_record env owner plan_id request t rec) = xr_confirm_destructive request"
  "er_external_changes_confirmed (reserved_record env owner plan_id request t rec) = xr_confirm_external_changes request"
  "mx_status (er_execution (reserved_record env owner plan_id request t rec)) = Reserved"
  "er_lease_owner (reserved_record env owner plan_id request t rec) = None"
  by (simp_all add: reserved_record_def new_execution_def)

lemma commit_reservation_effect:
  "mr_executions (snd (commit_reservation env owner plan_id request t rec repo)) =
     AList.update (owner, ''mex_'' @ me_token env 0) (reserved_record env owner plan_id request t rec) (mr_executions repo)"
  "mr_execution_by_plan (snd (commit_reservation env owner plan_id request t rec repo)) =
     AList.update (owner, plan_id) (''mex_'' @ me_token env 0) (mr_execution_by_plan repo)"
  "mr_plans (snd (commit_reservation env owner plan_id request t rec repo)) =
     AList.update (owner, plan_id) (rec\<lparr>pl_plan := (pl_plan rec)\<lparr>mp_status := PlanClaimed\<rparr>\<rparr>) (mr_plans repo)"
  "mr_baselines (snd (commit_reservation env owner plan_id request t rec repo)) = mr_baselines repo"
  by (simp_all add: commit_reservation_def Let_def)

lemma keyed_run: "keyed repo \<Longrightarrow> provided env cmd repo \<Longrightarrow> keyed (run_migration env cmd repo)"
proof (cases cmd)
  case (Reserve owner plan_id request t)
  assume k: "keyed repo" "provided env cmd repo"
  show ?thesis
  proof (cases env owner plan_id request t repo rule: reserve_execution_cases)
    case (reserved rec)
    from keyed_update_new[OF k(1), of "(owner, ''mex_'' @ me_token env 0)" "reserved_record env owner plan_id request t rec"]
      k(2) reserved(2)
    show ?thesis by (simp add: Reserve keyed_def commit_reservation_effect)
  qed (simp add: Reserve k)
next
  case (Claim t w until)
  assume k: "keyed repo"
  show ?thesis
  proof (cases t w until repo rule: claim_cases)
    case (leased p c i r kind)
    then have "execution_at repo (er_owner_id r, i) = Some r" using keyed_member[OF k] by (auto simp: eligible_iff)
    from keyed_update_old[OF k this] leased(3) show ?thesis
      by (simp add: Claim execution_identity_def lease_to_def)
  qed (simp add: Claim k)
next
  case (Renew key w until)
  assume "keyed repo"
  then show ?thesis
    using keyed_update_old[of repo key]
    by (auto simp: Renew renew_execution_lease_def execution_at_def execution_identity_def renewed_record_def
        split: option.splits)
next
  case (Transition key change)
  assume k: "keyed repo"
  obtain res repo' where tr: "transition_execution env key change repo = (res, repo')" by fastforce
  show ?thesis
  proof (cases res)
    case (Inr r')
    with tr obtain r where r: "execution_at repo key = Some r" "r' = changed_record env (fst key) change r"
      "repo' = repo\<lparr>mr_executions := AList.update key r' (mr_executions repo)\<rparr>"
      "record_step r (changed_record env (er_owner_id r) change r)" by (auto elim: transition_accepted)
    have "run_migration env cmd repo = repo'" by (simp add: Transition tr)
    moreover have "execution_identity r' = execution_identity r"
      using record_step_identity[OF r(4)] keyed_at[OF k r(1)] r(2) by simp
    ultimately show ?thesis using keyed_update_old[OF k r(1)] r(3) by simp
  qed (use tr k in \<open>auto simp: Transition dest!: transition_refused\<close>)
qed (simp_all add: keyed_def)

section \<open>Plans\<close>

lemma map_of_filter_other: "\<not> P (k, v) \<Longrightarrow> distinct (map fst d) \<Longrightarrow> map_of d k = Some v \<Longrightarrow>
    map_of (filter (\<lambda>kp. \<not> P kp) d) k = Some v"
  by (induction d) (auto dest: map_of_SomeD)

lemma reconcile_plans:
  obtains "mr_plans (snd (reconcile_drift env rec n resolved live repo)) = mr_plans repo"
  | "mr_plans (snd (reconcile_drift env rec n resolved live repo)) =
       AList.update (pl_owner_id rec, mp_id (pl_plan rec))
         (rec\<lparr>pl_plan := (pl_plan rec)\<lparr>mp_status := PlanResolved\<rparr>\<rparr>) (mr_plans repo)"
proof -
  have f: "mr_plans r2 = mr_plans r1" if "create_baseline env v r1 = (res, r2)" for v r1 res r2
    using that baseline_frame(3)[of env v r1] by simp
  have "mr_plans (snd (reconcile_drift env rec n resolved live repo)) = mr_plans repo
    \<or> mr_plans (snd (reconcile_drift env rec n resolved live repo)) =
       AList.update (pl_owner_id rec, mp_id (pl_plan rec))
         (rec\<lparr>pl_plan := (pl_plan rec)\<lparr>mp_status := PlanResolved\<rparr>\<rparr>) (mr_plans repo)"
    by (auto simp: reconcile_drift_def reconcile_drift_locked_def Let_def dest!: f split: option.split prod.split sum.split)
  then show thesis using that by blast
qed

text \<open>
  The stored plans: keys are distinct, every execution belongs to exactly one stored plan, which
  still authorises it.
\<close>

definition authorised_by :: "execution_record \<Rightarrow> plan_record \<Rightarrow> bool" where
  "authorised_by r rec =
     (mp_workspace_id (pl_plan rec) = mx_workspace_id (er_execution r)
      \<and> mp_apply_capable (pl_plan rec)
      \<and> validate_execution_authorization (pl_plan rec) (er_confirmed_review_digest r)
           (er_destructive_confirmed r) (er_external_changes_confirmed r) = None)"

definition plans_linked :: "migration_repo \<Rightarrow> bool" where
  "plans_linked repo =
     (distinct (map fst (mr_plans repo))
      \<and> (\<forall>owner x r. execution_at repo (owner, x) = Some r \<longrightarrow>
           map_of (mr_execution_by_plan repo) (owner, mx_plan_id (er_execution r)) = Some x
           \<and> (\<exists>rec. map_of (mr_plans repo) (owner, mx_plan_id (er_execution r)) = Some rec \<and> authorised_by r rec))
      \<and> (\<forall>owner p x. map_of (mr_execution_by_plan repo) (owner, p) = Some x \<longrightarrow>
           (\<exists>r. execution_at repo (owner, x) = Some r \<and> mx_plan_id (er_execution r) = p)))"

lemma authorised_same: "same_plan rec rec' \<Longrightarrow> authorised_by r rec \<Longrightarrow> authorised_by r rec'"
  by (auto simp: same_plan_iff authorised_by_def validate_execution_authorization_def)

lemma authorised_identity: "execution_identity r' = execution_identity r \<Longrightarrow> authorised_by r' rec = authorised_by r rec"
  by (simp add: execution_identity_def authorised_by_def)

text \<open>A stored plan with an execution is never discarded, and only its status can change.\<close>

lemma create_plan_keeps:
  assumes "distinct (map fst (mr_plans repo))" "map_of (mr_execution_by_plan repo) key \<noteq> None"
    and "map_of (mr_plans repo) key = Some stored" "provided env (CreatePlan rec) repo"
  shows "map_of (mr_plans (snd (create_plan env rec repo))) key = Some stored"
proof -
  have "map_of (filter (\<lambda>kp. \<not> abandoned_plan rec repo kp) (mr_plans repo)) key = Some stored"
    using assms(1,2,3) by (intro map_of_filter_other) (auto simp: abandoned_plan_def)
  with assms(3,4) show ?thesis
    by (auto simp: create_plan_def create_plan_locked_def Let_def split: option.split)
qed

lemma plans_kept:
  assumes "distinct (map fst (mr_plans repo))" "provided env cmd repo"
    and "map_of (mr_execution_by_plan repo) key \<noteq> None" "map_of (mr_plans repo) key = Some rec"
  shows "\<exists>rec'. map_of (mr_plans (run_migration env cmd repo)) key = Some rec' \<and> same_plan rec rec'"
proof (cases cmd)
  case (CreatePlan new)
  then show ?thesis using create_plan_keeps[OF assms(1,3,4), of env new] assms(2) by auto
next
  case (Reserve owner plan_id request t)
  then show ?thesis
    using assms(3,4) by (cases env owner plan_id request t repo rule: reserve_execution_cases)
      (auto simp: commit_reservation_effect reserves_def)
next
  case (Claim t w until)
  then show ?thesis using assms(4) by (cases t w until repo rule: claim_cases) auto
next
  case (Renew k w until)
  then show ?thesis using assms(4) by (auto simp: renew_execution_lease_def split: option.split)
next
  case (Transition k change)
  then show ?thesis
    using assms(4) by (cases "transition_execution env k change repo"; cases "fst (transition_execution env k change repo)")
      (auto dest: transition_refused elim: transition_accepted)
next
  case (ReconcileDrift new n resolved live)
  have "same_plan rec (new\<lparr>pl_plan := (pl_plan new)\<lparr>mp_status := st\<rparr>\<rparr>)"
    if "key = (pl_owner_id new, mp_id (pl_plan new))" for st
    using assms(2,4) that by (auto simp: ReconcileDrift intro: same_plan_update)
  with assms(4) show ?thesis
    unfolding ReconcileDrift run_migration.simps
    by (cases env new n resolved live repo rule: reconcile_plans) auto
qed (use assms(4) in auto)

lemma by_plan_cases:
  obtains (same) "mr_execution_by_plan (run_migration env cmd repo) = mr_execution_by_plan repo"
  | (new) owner plan_id request t rec where "cmd = Reserve owner plan_id request t"
      "reserves env owner plan_id request t rec repo"
      "run_migration env cmd repo = snd (commit_reservation env owner plan_id request t rec repo)"
proof (cases cmd)
  case (Reserve owner plan_id request t)
  then show ?thesis
    using that by (cases env owner plan_id request t repo rule: reserve_execution_cases) auto
next
  case (Claim t w until)
  then show ?thesis by (intro same) (cases t w until repo rule: claim_cases, auto)
next
  case (Renew k w until)
  then show ?thesis by (intro same) (auto simp: renew_execution_lease_def split: option.split)
next
  case (Transition k change)
  then show ?thesis
    by (intro same, cases "transition_execution env k change repo"; cases "fst (transition_execution env k change repo)")
      (auto dest: transition_refused elim: transition_accepted)
qed (auto intro: same)

lemma plans_distinct:
  assumes "distinct (map fst (mr_plans repo))"
  shows "distinct (map fst (mr_plans (run_migration env cmd repo)))"
proof (cases cmd)
  case (CreatePlan rec)
  then show ?thesis
    using assms by (auto simp: create_plan_def create_plan_locked_def Let_def distinct_update distinct_map_filter
        split: option.split)
next
  case (Reserve owner plan_id request t)
  then show ?thesis
    using assms by (cases env owner plan_id request t repo rule: reserve_execution_cases)
      (auto simp: commit_reservation_effect distinct_update)
next
  case (Claim t w until)
  then show ?thesis using assms by (cases t w until repo rule: claim_cases) auto
next
  case (Renew k w until)
  then show ?thesis using assms by (auto simp: renew_execution_lease_def split: option.split)
next
  case (Transition k change)
  then show ?thesis
    using assms by (cases "transition_execution env k change repo"; cases "fst (transition_execution env k change repo)")
      (auto dest: transition_refused elim: transition_accepted)
next
  case (ReconcileDrift new n resolved live)
  then show ?thesis
    using assms unfolding ReconcileDrift run_migration.simps
    by (cases env new n resolved live repo rule: reconcile_plans) (auto simp: distinct_update)
qed (use assms in auto)

lemma execution_persists:
  assumes "keyed repo" "provided env cmd repo" "execution_at repo key = Some r"
  shows "\<exists>r'. execution_at (run_migration env cmd repo) key = Some r' \<and> execution_identity r' = execution_identity r
    \<and> (r' = r \<or> record_step r r')"
  using run_migration_step[OF assms(1,2), of key] assms(3)
  by (auto simp: steps_or_reserves_def dest: record_step_identity)

lemma plans_linked_run:
  assumes "keyed repo" "provided env cmd repo" "plans_linked repo"
  shows "plans_linked (run_migration env cmd repo)"
proof -
  let ?repo = "run_migration env cmd repo"
  note linked = assms(3)[unfolded plans_linked_def]
  have old: "map_of (mr_execution_by_plan ?repo) (owner, p) = Some x"
    if "map_of (mr_execution_by_plan repo) (owner, p) = Some x" for owner p x
    using that by (cases env cmd repo rule: by_plan_cases) (auto simp: commit_reservation_effect reserves_def)
  have forward: "map_of (mr_execution_by_plan ?repo) (owner, mx_plan_id (er_execution r')) = Some x
      \<and> (\<exists>rec. map_of (mr_plans ?repo) (owner, mx_plan_id (er_execution r')) = Some rec \<and> authorised_by r' rec)"
    if at: "execution_at ?repo (owner, x) = Some r'" for owner x r'
  proof (cases "execution_at repo (owner, x)")
    case (Some r)
    with at execution_persists[OF assms(1,2)] have id: "execution_identity r' = execution_identity r" by fastforce
    then have plan: "mx_plan_id (er_execution r') = mx_plan_id (er_execution r)" by (simp add: execution_identity_def)
    from linked Some obtain rec where bp: "map_of (mr_execution_by_plan repo) (owner, mx_plan_id (er_execution r)) = Some x"
      and rec: "map_of (mr_plans repo) (owner, mx_plan_id (er_execution r)) = Some rec" "authorised_by r rec" by blast
    obtain rec' where "map_of (mr_plans ?repo) (owner, mx_plan_id (er_execution r)) = Some rec'" "same_plan rec rec'"
      using plans_kept[OF _ assms(2) _ rec(1)] linked bp by auto
    with rec(2) old[OF bp] plan authorised_same authorised_identity[OF id] show ?thesis by auto
  next
    case None
    with at run_migration_step[OF assms(1,2), of "(owner, x)"] obtain plan_id request t rec where
      "reserves env owner plan_id request t rec repo" "x = ''mex_'' @ me_token env 0"
      "?repo = snd (commit_reservation env owner plan_id request t rec repo)"
      "r' = reserved_record env owner plan_id request t rec"
      by (auto simp: steps_or_reserves_def)
    then show ?thesis
      by (auto simp: commit_reservation_effect reserves_def authorised_by_def
          validate_execution_authorization_def reservation_error_def)
  qed
  have backward: "\<exists>r. execution_at ?repo (owner, x) = Some r \<and> mx_plan_id (er_execution r) = p"
    if at: "map_of (mr_execution_by_plan ?repo) (owner, p) = Some x" for owner p x
  proof (cases "map_of (mr_execution_by_plan repo) (owner, p)")
    case (Some y)
    with at old have "y = x" by fastforce
    with Some linked obtain r where "execution_at repo (owner, x) = Some r" "mx_plan_id (er_execution r) = p" by blast
    with execution_persists[OF assms(1,2)] show ?thesis by (fastforce simp: execution_identity_def)
  next
    case None
    with at show ?thesis
      by (cases env cmd repo rule: by_plan_cases) (auto simp: commit_reservation_effect execution_at_def update_Some_unfold split: if_splits)
  qed
  show ?thesis unfolding plans_linked_def using plans_distinct linked forward backward by auto
qed

section \<open>Baselines\<close>

text \<open>The baselines of a workspace form a chain: consecutive revisions, each naming its predecessor.\<close>

definition baseline_chain :: "ws_key \<Rightarrow> baseline_record list \<Rightarrow> bool" where
  "baseline_chain key rows =
     (distinct (map bl_id rows)
      \<and> (\<forall>i<length rows. bl_revision (rows ! i) = i + 1
           \<and> bl_predecessor_id (rows ! i) = (if i = 0 then None else Some (bl_id (rows ! (i - 1))))
           \<and> (bl_owner_id (rows ! i), bl_workspace_id (rows ! i)) = key))"

definition baselines_at :: "migration_repo \<Rightarrow> ws_key \<Rightarrow> baseline_record list" where
  "baselines_at repo key = dict_get (mr_baselines repo) key []"

lemma baseline_chain_append:
  assumes "baseline_chain key rows" "bl_id b \<notin> bl_id ` set rows" "bl_revision b = length rows + 1"
    and "bl_predecessor_id b = (if rows = [] then None else Some (bl_id (last rows)))"
    and "(bl_owner_id b, bl_workspace_id b) = key"
  shows "baseline_chain key (rows @ [b])"
  using assms by (auto simp: baseline_chain_def nth_append less_Suc_eq last_conv_nth)

text \<open>Creating a baseline appends to its own workspace when the named predecessor is current.\<close>

lemma create_baseline_at:
  "baselines_at (snd (create_baseline env v repo)) key =
     (let rows = baselines_at repo key in
      if key = (bv_owner_id v, bv_workspace_id v)
         \<and> bv_expected_predecessor_id v = (if rows = [] then None else Some (bl_id (last rows)))
      then rows @ [projr (fst (create_baseline env v repo))] else rows)"
  by (auto simp: create_baseline_def baselines_at_def dict_get_def setdefault_def Let_def split: option.splits)

lemma create_baseline_result:
  "create_baseline env v repo = (Inr b, repo') \<Longrightarrow>
     (let rows = baselines_at repo (bv_owner_id v, bv_workspace_id v) in
      bl_id b = ''mbl_'' @ me_token env 0 \<and> bl_revision b = length rows + 1
      \<and> bl_predecessor_id b = (if rows = [] then None else Some (bl_id (last rows)))
      \<and> bv_expected_predecessor_id v = bl_predecessor_id b
      \<and> bl_owner_id b = bv_owner_id v \<and> bl_workspace_id b = bv_workspace_id v)"
  by (auto simp: create_baseline_def baselines_at_def dict_get_def setdefault_def Let_def split: option.splits if_splits)

lemma create_baseline_accepts:
  "(let rows = baselines_at repo (bv_owner_id v, bv_workspace_id v) in
    bv_expected_predecessor_id v = (if rows = [] then None else Some (bl_id (last rows))))
   \<Longrightarrow> \<exists>b. fst (create_baseline env v repo) = Inr b"
  by (auto simp: create_baseline_def baselines_at_def dict_get_def setdefault_def Let_def split: option.splits if_splits)

lemma fresh_baseline_at:
  "fresh_baseline_id env repo \<Longrightarrow> ''mbl_'' @ me_token env 0 \<notin> bl_id ` set (baselines_at repo key)"
  by (cases "map_of (mr_baselines repo) key")
     (auto simp: fresh_baseline_id_def baselines_at_def dict_get_def dest!: map_of_SomeD)

lemma create_baseline_chain:
  assumes "baseline_chain key (baselines_at repo key)" "fresh_baseline_id env repo"
  shows "baseline_chain key (baselines_at (snd (create_baseline env v repo)) key)"
proof (cases "key = (bv_owner_id v, bv_workspace_id v) \<and> bv_expected_predecessor_id v =
    (if baselines_at repo key = [] then None else Some (bl_id (last (baselines_at repo key))))")
  case True
  then obtain b repo' where b: "create_baseline env v repo = (Inr b, repo')"
    using create_baseline_accepts[of repo v env] by (metis (full_types) prod.collapse)
  have "baseline_chain key (baselines_at repo key @ [b])"
    using create_baseline_result[OF b] True fresh_baseline_at[OF assms(2), of key]
    by (intro baseline_chain_append[OF assms(1)]) (auto simp: Let_def)
  with True b show ?thesis unfolding create_baseline_at by (simp add: Let_def)
qed (use assms(1) in \<open>auto simp: create_baseline_at Let_def\<close>)

text \<open>Only the creation of a baseline and drift reconciliation touch the baselines.\<close>

lemma baselines_frame:
  assumes "\<And>v. cmd \<noteq> CreateBaseline v" "\<And>rec n resolved live. cmd \<noteq> ReconcileDrift rec n resolved live"
  shows "mr_baselines (run_migration env cmd repo) = mr_baselines repo"
proof (cases cmd)
  case (Reserve owner plan_id request t)
  then show ?thesis
    by (cases env owner plan_id request t repo rule: reserve_execution_cases) (auto simp: commit_reservation_effect)
next
  case (Claim t w until)
  then show ?thesis by (cases t w until repo rule: claim_cases) auto
next
  case (Renew k w until)
  then show ?thesis by (auto simp: renew_execution_lease_def split: option.split)
next
  case (Transition k change)
  then show ?thesis
    by (cases "transition_execution env k change repo"; cases "fst (transition_execution env k change repo)")
      (auto dest: transition_refused elim: transition_accepted)
qed (use assms in auto)

lemma reconcile_baselines:
  obtains "mr_baselines (snd (reconcile_drift env rec n resolved live repo)) = mr_baselines repo"
  | design designs where "mr_baselines (snd (reconcile_drift env rec n resolved live repo)) =
       mr_baselines (snd (create_baseline env (drift_baseline rec live design) (repo\<lparr>mr_designs := designs\<rparr>)))"
proof (cases "claim_guard_check env (pl_owner_id rec) (mp_workspace_id (pl_plan rec)) \<noteq> None
    \<or> blocks_workspace_lifecycle (pl_owner_id rec) (mp_workspace_id (pl_plan rec)) repo")
  case True
  then show thesis
    by (intro that(1)) (auto simp: reconcile_drift_def reconcile_drift_locked_def Let_def split: option.split)
next
  case False
  obtain res designs where d: "replace_design (me_design_env env) (pl_owner_id rec, mp_workspace_id (pl_plan rec))
      \<lparr>dr_expected_design_revision = n, dr_content = resolved, dr_history_group_id = None\<rparr> ''checkpoint''
      (mr_designs repo) = (res, designs)" by fastforce
  show thesis
  proof (cases res)
    case (Inl e)
    with False d show thesis by (intro that(1)) (auto simp: reconcile_drift_def reconcile_drift_locked_def Let_def)
  next
    case (Inr design)
    with False d show thesis
      by (intro that(2)[of design designs])
         (simp add: reconcile_drift_def reconcile_drift_locked_def Let_def split: prod.split sum.split)
  qed
qed

lemma baseline_chain_run:
  assumes "\<And>key. baseline_chain key (baselines_at repo key)" "provided env cmd repo"
  shows "baseline_chain key (baselines_at (run_migration env cmd repo) key)"
proof (cases "(\<exists>v. cmd = CreateBaseline v) \<or> (\<exists>rec n resolved live. cmd = ReconcileDrift rec n resolved live)")
  case True
  then show ?thesis
  proof (elim disjE exE)
    fix v assume "cmd = CreateBaseline v"
    with assms show ?thesis using create_baseline_chain by simp
  next
    fix rec n resolved live assume c: "cmd = ReconcileDrift rec n resolved live"
    with assms(2) have fresh: "fresh_baseline_id env (repo\<lparr>mr_designs := designs\<rparr>)" for designs
      by (simp add: fresh_baseline_id_def)
    have "baseline_chain key (baselines_at (snd (reconcile_drift env rec n resolved live repo)) key)"
    proof (cases env rec n resolved live repo rule: reconcile_baselines)
      case 1
      then show ?thesis using assms(1) by (simp add: baselines_at_def)
    next
      case (2 design designs)
      with create_baseline_chain[OF _ fresh[of designs], of key "drift_baseline rec live design"] assms(1)[of key]
      show ?thesis by (simp add: baselines_at_def)
    qed
    then show ?thesis by (simp add: c)
  qed
next
  case False
  with assms(1)[of key] baselines_frame[of cmd env repo] show ?thesis by (simp add: baselines_at_def)
qed

section \<open>The invariant\<close>

definition migration_inv :: "migration_repo \<Rightarrow> bool" where
  "migration_inv repo =
     (keyed repo \<and> (\<forall>key r. execution_at repo key = Some r \<longrightarrow> execution_ok r)
      \<and> plans_linked repo \<and> (\<forall>key. baseline_chain key (baselines_at repo key)))"

lemma reserved_ok: "execution_ok (reserved_record env owner plan_id request t rec)"
  by (simp add: execution_ok_def reserved_record_def new_execution_def)

lemma migration_inv_run:
  assumes "migration_inv repo" "provided env cmd repo"
  shows "migration_inv (run_migration env cmd repo)"
proof -
  have inv: "keyed repo" "\<And>key r. execution_at repo key = Some r \<Longrightarrow> execution_ok r" "plans_linked repo"
    "\<And>key. baseline_chain key (baselines_at repo key)"
    using assms(1) unfolding migration_inv_def by blast+
  have "execution_ok r'" if "execution_at (run_migration env cmd repo) key = Some r'" for key r'
    using run_migration_step[OF inv(1) assms(2), of key] that inv(2)[of key] record_step_ok reserved_ok
    unfolding steps_or_reserves_def by fastforce
  then show ?thesis
    unfolding migration_inv_def
    using keyed_run[OF inv(1) assms(2)] plans_linked_run[OF inv(1) assms(2) inv(3)]
      baseline_chain_run[OF inv(4) assms(2)] by blast
qed

lemma migration_inv_start: "migration_inv (new_migration_repo designs)"
  by (simp add: migration_inv_def new_migration_repo_def keyed_def execution_at_def plans_linked_def
      baseline_chain_def baselines_at_def dict_get_def)

lemma reachable_inv: "migration_reachable discipline repo \<Longrightarrow> migration_inv repo"
  by (induction rule: migration_reachable.induct) (auto intro: migration_inv_start migration_inv_run)

end
