(* ===== verification/Migration_Properties.thy ===== *)
theory Migration_Properties
  imports Migration_Invariant Lease_Control Revision_Control
begin

text \<open>
  The guarantees of the migration repository: authorised executions, one execution at a time, lease
  exclusion, revision control, idempotent reservations, progress of the workers and the baseline
  chain, in every reachable repository and along every sequence of operations.
\<close>

section \<open>Runs\<close>

type_synonym migration_request = "migration_env \<times> migration_command"

definition perform :: "migration_request \<Rightarrow> migration_repo \<Rightarrow> migration_repo" where
  "perform request repo = run_migration (fst request) (snd request) repo"

definition request_provided :: "migration_request \<Rightarrow> migration_repo \<Rightarrow> bool" where
  "request_provided request repo = provided (fst request) (snd request) repo"

section \<open>Leases\<close>

definition lease_of :: "execution_record \<Rightarrow> (string \<times> instant) option" where
  "lease_of r = (case (er_lease_owner r, er_lease_expires_at r) of
     (Some w, Some until) \<Rightarrow> Some (w, until) | _ \<Rightarrow> None)"

text \<open>
  Requests of others while the lease of worker \<open>w\<close> on execution \<open>key\<close> runs until \<open>until\<close>: claims and
  recoveries are made by a clock that has not reached \<open>until\<close>, and nobody else uses the worker's name.
\<close>

fun outsider_command :: "ws_key \<Rightarrow> string \<Rightarrow> instant \<Rightarrow> migration_command \<Rightarrow> bool" where
  "outsider_command key w until (Claim t _ _) = (t < until)"
| "outsider_command key w until (Renew k w' _) = (k \<noteq> key \<or> w' \<noteq> w)"
| "outsider_command key w until (Transition k change) = (k \<noteq> key \<or>
     (tx_lease_owner change \<noteq> Some w
      \<and> (case tx_recover_expired_before change of None \<Rightarrow> True | Some t \<Rightarrow> t < until)))"
| "outsider_command key w until _ = True"

definition outsider :: "ws_key \<Rightarrow> string \<Rightarrow> instant \<Rightarrow> migration_request \<Rightarrow> migration_repo \<Rightarrow> bool" where
  "outsider key w until request repo =
     (request_provided request repo \<and> outsider_command key w until (snd request))"

lemma lease_fenced:
  assumes "keyed repo" "execution_at repo key = Some r" "lease_of r = Some (w, until)"
    and "provided env cmd repo" "outsider_command key w until cmd"
  shows "execution_at (run_migration env cmd repo) key = Some r"
proof (cases cmd)
  case (Reserve owner plan_id request t)
  have "key \<noteq> (owner, ''mex_'' @ me_token env 0)"
    using assms(2,4) by (force simp: Reserve execution_at_def dest: map_of_SomeD)
  then show ?thesis
    using assms(2) by (cases env owner plan_id request t repo rule: reserve_execution_cases)
      (auto simp: Reserve execution_at_def commit_reservation_effect)
next
  case (Claim t w' until')
  show ?thesis
  proof (cases t w' until' repo rule: claim_cases)
    case (leased p c i r' kind)
    then have r': "execution_at repo (er_owner_id r', i) = Some r'" "lease_available t r'"
      using keyed_member[OF assms(1)] by (auto simp: eligible_iff)
    have "\<not> lease_available t r"
      using assms(3,5) by (auto simp: Claim lease_of_def lease_available_def split: option.splits)
    with r' assms(2) have "key \<noteq> (er_owner_id r', i)" by auto
    with leased(3) assms(2) show ?thesis by (auto simp: Claim execution_at_def)
  qed (simp add: Claim assms(2))
next
  case (Renew k w' until')
  with assms(2,3,5) show ?thesis
    by (auto simp: renew_execution_lease_def execution_at_def lease_of_def split: option.splits)
next
  case (Transition k change)
  obtain res repo' where tr: "transition_execution env k change repo = (res, repo')" by fastforce
  show ?thesis
  proof (cases res)
    case (Inl e)
    with tr have "repo' = repo" by (blast dest: transition_refused)
    with tr assms(2) show ?thesis by (simp add: Transition)
  next
    case (Inr r')
    with tr obtain r0 where r0: "execution_at repo k = Some r0" "lease_blocks change r0 = None"
      "repo' = repo\<lparr>mr_executions := AList.update k r' (mr_executions repo)\<rparr>" by (auto elim: transition_accepted)
    have "k \<noteq> key"
      using r0(1,2) assms(2,3,5)
      by (auto simp: Transition lease_blocks_def lease_of_def split: option.splits)
    with r0(3) tr assms(2) show ?thesis by (auto simp: Transition execution_at_def)
  qed
qed (use assms(2) in \<open>auto simp: execution_at_def\<close>)

interpretation worker_lease: leased_store migration_inv execution_at lease_of perform outsider
proof unfold_locales
  fix s k v w until and c :: migration_request
  assume "migration_inv s" "execution_at s k = Some v" "lease_of v = Some (w, until)" "outsider k w until c s"
  then show "execution_at (perform c s) k = Some v"
    by (auto simp: perform_def outsider_def request_provided_def migration_inv_def intro: lease_fenced)
next
  fix s k w until and c :: migration_request
  assume "migration_inv s" "outsider k w until c s"
  then show "migration_inv (perform c s)"
    by (auto simp: perform_def outsider_def request_provided_def intro: migration_inv_run)
qed

text \<open>
  C3. While a worker's lease on an execution has not expired, no sequence of requests by anybody else
  changes that execution: neither claims, renewals, transitions and recoveries of other workers, nor
  reservations, reviews, baselines, drift resolutions and design edits.
\<close>

theorem lease_exclusion:
  assumes "migration_reachable discipline repo" "execution_at repo key = Some r"
    and "er_lease_owner r = Some w" "er_lease_expires_at r = Some until"
    and "all_allowed (outsider key w until) perform requests repo"
  shows "execution_at (run_steps perform requests repo) key = Some r"
  using worker_lease.exclusive[OF reachable_inv[OF assms(1)] assms(2) _ assms(5)] assms(3,4)
  by (simp add: lease_of_def)

section \<open>Revisions\<close>

text \<open>A transition is a write guarded by the revision of the execution.\<close>

interpretation execution_revisions: versioned_store keyed execution_at "mx_revision \<circ> er_execution"
  "tx_expected_revision" "transition_execution env"
proof unfold_locales
  fix s k r out s'
  assume k: "keyed s" and t: "transition_execution env k r s = (Inr out, s')"
  from t obtain old where "execution_at s k = Some old" "out = changed_record env (fst k) r old"
    "validate_execution_transition (er_execution old) (tx_expected_revision r) (tx_allowed_from r) (tx_status r) = None"
    "s' = s\<lparr>mr_executions := AList.update k out (mr_executions s)\<rparr>" by (auto elim: transition_accepted)
  then show "\<exists>old new. execution_at s k = Some old \<and> (mx_revision \<circ> er_execution) old = tx_expected_revision r
      \<and> execution_at s' k = Some new
      \<and> (new = old \<or> (mx_revision \<circ> er_execution) new = Suc ((mx_revision \<circ> er_execution) old))"
    by (auto simp: execution_at_def changed_record_fields dest: transition_legal)
next
  fix s k r e s'
  assume "transition_execution env k r s = (Inl e, s')"
  then show "execution_at s' k = execution_at s k" by (auto dest: transition_refused)
next
  fix s :: migration_repo and k' k :: ws_key and r
  assume "k' \<noteq> k"
  then show "execution_at (snd (transition_execution env k r s)) k' = execution_at s k'"
    by (cases "transition_execution env k r s"; cases "fst (transition_execution env k r s)")
       (auto simp: execution_at_def dest: transition_refused elim!: transition_accepted)
next
  fix s k r assume "keyed s"
  then show "keyed (snd (transition_execution env k r s))" using keyed_run[of s env "Transition k r"] by simp
qed

text \<open>Transitions alone: an accepted one applies to the record its author read.\<close>

lemma transitions_no_lost_update:
  assumes "migration_reachable discipline repo" "execution_at repo key = Some r"
    and "tx_expected_revision change = mx_revision (er_execution r)"
    and "transition_execution env key change (run_writes (transition_execution env) others repo) = (Inr out, repo')"
  shows "execution_at (run_writes (transition_execution env) others repo) key = Some r"
  using execution_revisions.no_lost_update[OF _ assms(2) _ assms(4)] reachable_inv[OF assms(1)] assms(3)
  by (simp add: migration_inv_def)

text \<open>A record and the same record with its lease renewed, which does not advance the revision.\<close>

definition renewed_only :: "execution_record \<Rightarrow> execution_record \<Rightarrow> bool" where
  "renewed_only r r' = (r' = r \<or> (\<exists>w until. er_lease_owner r = Some w \<and> r' = renewed_record w until r))"

lemma renewed_only_step:
  assumes "renewed_only r r'" "record_step r' r''"
  shows "renewed_only r r'' \<or> mx_revision (er_execution r) < mx_revision (er_execution r'')"
  using assms(2)
proof cases
  case (renewed w until)
  then have "er_lease_owner r = Some w" "r'' = renewed_record w until r"
    using assms(1) by (auto simp: renewed_only_def renewed_record_def)
  then show ?thesis by (auto simp: renewed_only_def)
qed (use assms(1) in \<open>auto simp: renewed_only_def record_defs\<close>)

text \<open>
  C32. No lost updates on executions: a transition that is accepted with the revision its author read
  applies to the record the author read, whatever requests of any kind ran in between; at most the lease
  on that record was renewed by the worker that held it, which changes its expiry and nothing else.
\<close>

theorem transition_no_lost_update:
  assumes "migration_reachable discipline repo" "execution_at repo key = Some r"
    and "all_allowed request_provided perform requests repo"
    and "tx_expected_revision change = mx_revision (er_execution r)"
    and "transition_execution env key change (run_steps perform requests repo) = (Inr out, repo')"
  shows "\<exists>r'. execution_at (run_steps perform requests repo) key = Some r' \<and> renewed_only r r'
    \<and> out = changed_record env (fst key) change r'"
proof -
  have "migration_inv (run_steps perform requests repo) \<and> (\<exists>r'. execution_at (run_steps perform requests repo) key = Some r'
      \<and> (renewed_only r r' \<or> mx_revision (er_execution r) < mx_revision (er_execution r')))"
    using assms(3)
  proof (rule run_invariant)
    show "migration_inv repo \<and> (\<exists>r'. execution_at repo key = Some r' \<and> (renewed_only r r' \<or> mx_revision (er_execution r) < mx_revision (er_execution r')))"
      using assms(1,2) reachable_inv by (auto simp: renewed_only_def)
  next
    fix c s
    assume c: "request_provided c s" and s: "migration_inv s \<and> (\<exists>r'. execution_at s key = Some r'
      \<and> (renewed_only r r' \<or> mx_revision (er_execution r) < mx_revision (er_execution r')))"
    then obtain r' where r': "execution_at s key = Some r'" "renewed_only r r' \<or> mx_revision (er_execution r) < mx_revision (er_execution r')" by blast
    obtain r'' where r'': "execution_at (perform c s) key = Some r''" "r'' = r' \<or> record_step r' r''"
      using execution_persists[of s "fst c" "snd c" key r'] c s r'(1) by (auto simp: perform_def request_provided_def migration_inv_def)
    moreover have "migration_inv (perform c s)" using c s by (auto simp: perform_def request_provided_def intro: migration_inv_run)
    moreover have "renewed_only r r'' \<or> mx_revision (er_execution r) < mx_revision (er_execution r'')"
      using r'(2) r''(2) renewed_only_step[of r r' r''] record_step_revision[of r' r''] by auto
    ultimately show "migration_inv (perform c s) \<and> (\<exists>r'. execution_at (perform c s) key = Some r'
      \<and> (renewed_only r r' \<or> mx_revision (er_execution r) < mx_revision (er_execution r')))" by blast
  qed
  then obtain r' where r': "execution_at (run_steps perform requests repo) key = Some r'"
    "renewed_only r r' \<or> mx_revision (er_execution r) < mx_revision (er_execution r')" by blast
  from assms(5) have "mx_revision (er_execution r') = mx_revision (er_execution r)" "out = changed_record env (fst key) change r'"
    using r'(1) assms(4) by (auto elim!: transition_accepted dest: transition_legal)
  with r' show ?thesis by auto
qed

section \<open>Authorisation and the end of an execution\<close>

text \<open>
  C22. Every stored execution belongs to a stored plan of its owner and workspace, was reserved with
  that plan's review digest, and a destructive plan, or one with external changes, has an execution
  only with the corresponding confirmation. The execution is the one the plan is linked to, a lease
  on it exists only while it has work left, and its public recovery time is the expiry of the lease.
\<close>

theorem executions_authorised:
  assumes "migration_reachable discipline repo" "execution_at repo (owner, x) = Some r"
  shows "\<exists>rec. map_of (mr_plans repo) (owner, mx_plan_id (er_execution r)) = Some rec
      \<and> mp_workspace_id (pl_plan rec) = mx_workspace_id (er_execution r)
      \<and> er_confirmed_review_digest r = mp_review_digest (pl_plan rec)
      \<and> (mp_destructive (pl_plan rec) \<longrightarrow> er_destructive_confirmed r)
      \<and> (mp_requires_external_change_acknowledgement (pl_plan rec) \<longrightarrow> er_external_changes_confirmed r)
      \<and> mp_apply_capable (pl_plan rec)
      \<and> map_of (mr_execution_by_plan repo) (owner, mx_plan_id (er_execution r)) = Some x
      \<and> er_owner_id r = owner \<and> mx_id (er_execution r) = x
      \<and> mx_recovery_available_at (er_execution r) = er_lease_expires_at r
      \<and> (er_lease_owner r \<noteq> None \<longrightarrow>
           holds_execution_lease (mx_status (er_execution r)) (mx_sync_status (er_execution r)))"
proof -
  have inv: "migration_inv repo" using assms(1) by (rule reachable_inv)
  then obtain rec where "map_of (mr_plans repo) (owner, mx_plan_id (er_execution r)) = Some rec" "authorised_by r rec"
    "map_of (mr_execution_by_plan repo) (owner, mx_plan_id (er_execution r)) = Some x"
    using assms(2) unfolding migration_inv_def plans_linked_def by blast
  moreover have "execution_ok r" "(owner, x) = (er_owner_id r, mx_id (er_execution r))"
    using inv assms(2) keyed_at unfolding migration_inv_def by blast+
  ultimately show ?thesis
    by (auto simp: authorised_by_def validate_execution_authorization_def execution_ok_def Let_def)
qed

text \<open>
  C31. A failed execution is final: no sequence of requests changes anything about it, not even a lease.
\<close>

theorem failed_execution_final:
  assumes "migration_reachable discipline repo" "execution_at repo key = Some r"
    and "mx_status (er_execution r) = Failed"
    and "all_allowed request_provided perform requests repo"
  shows "execution_at (run_steps perform requests repo) key = Some r"
proof -
  have "migration_inv (run_steps perform requests repo) \<and> execution_at (run_steps perform requests repo) key = Some r"
    using assms(4)
  proof (rule run_invariant)
    show "migration_inv repo \<and> execution_at repo key = Some r" using assms(1,2) reachable_inv by blast
  next
    fix c s
    assume c: "request_provided c s" "migration_inv s \<and> execution_at s key = Some r"
    then have "migration_inv (perform c s)" by (auto simp: perform_def request_provided_def intro: migration_inv_run)
    moreover have "execution_at (perform c s) key = Some r"
      using execution_persists[of s "fst c" "snd c" key r] c assms(3) failed_final[of r]
      by (auto simp: perform_def request_provided_def migration_inv_def)
    ultimately show "migration_inv (perform c s) \<and> execution_at (perform c s) key = Some r" by simp
  qed
  then show ?thesis by simp
qed

section \<open>One execution at a time\<close>

text \<open>
  The discipline of the execution coordinator: a settled execution is not made active again. (The
  table of legal transitions alone would allow \<open>succeeded\<close> to \<open>reconciliation_required\<close> at any time.)
\<close>

definition settled_stays :: "migration_env \<Rightarrow> migration_command \<Rightarrow> migration_repo \<Rightarrow> bool" where
  "settled_stays env cmd repo = (case cmd of
     Transition key change \<Rightarrow> (case execution_at repo key of None \<Rightarrow> True
       | Some r \<Rightarrow> blocks_lifecycle (changed_record env (fst key) change r) \<longrightarrow> blocks_lifecycle r)
   | _ \<Rightarrow> True)"

lemma blocks_work: "work_of r \<noteq> None \<Longrightarrow> blocks_lifecycle r"
  by (auto simp: work_of_def blocks_lifecycle_def active_execution_statuses_def Let_def split: if_splits)

lemma blocks_renewed: "blocks_lifecycle (renewed_record w until r) = blocks_lifecycle r"
  by (simp add: blocks_lifecycle_def renewed_record_def Let_def)

lemma blocks_before:
  assumes "keyed repo" "provided env cmd repo" "settled_stays env cmd repo"
    and "execution_at repo key = Some r" "execution_at (run_migration env cmd repo) key = Some r'" "blocks_lifecycle r'"
  shows "blocks_lifecycle r"
proof (cases cmd)
  case (Claim t w until)
  show ?thesis
  proof (cases t w until repo rule: claim_cases)
    case (leased p c i r0 kind)
    then have "execution_at repo (er_owner_id r0, i) = Some r0" "work_of r0 \<noteq> None"
      using keyed_member[OF assms(1)] by (auto simp: eligible_iff)
    with leased(3) assms(4,5,6) show ?thesis
      by (cases "key = (er_owner_id r0, i)") (auto simp: Claim execution_at_def blocks_work)
  qed (use assms in \<open>simp add: Claim\<close>)
next
  case (Renew k w until)
  with assms(4,5,6) show ?thesis
    by (auto simp: renew_execution_lease_def execution_at_def blocks_renewed split: option.splits if_splits)
next
  case (Transition k change)
  obtain res repo' where tr: "transition_execution env k change repo = (res, repo')" by fastforce
  show ?thesis
  proof (cases res)
    case (Inl e)
    with tr have "repo' = repo" by (blast dest: transition_refused)
    with tr assms(4,5,6) show ?thesis by (simp add: Transition)
  next
    case (Inr r1)
    with tr obtain r0 where r0: "execution_at repo k = Some r0" "r1 = changed_record env (fst k) change r0"
      "repo' = repo\<lparr>mr_executions := AList.update k r1 (mr_executions repo)\<rparr>" by (auto elim: transition_accepted)
    with tr assms(3-6) show ?thesis
      by (cases "key = k") (auto simp: Transition execution_at_def settled_stays_def)
  qed
next
  case (Reserve owner plan_id request t)
  have "key \<noteq> (owner, ''mex_'' @ me_token env 0)"
    using assms(2,4) by (force simp: Reserve execution_at_def dest: map_of_SomeD)
  then show ?thesis
    using assms(4,5,6) by (cases env owner plan_id request t repo rule: reserve_execution_cases)
      (auto simp: Reserve execution_at_def commit_reservation_effect)
qed (use assms(4-6) in \<open>auto simp: execution_at_def\<close>)

definition one_blocking :: "migration_repo \<Rightarrow> bool" where
  "one_blocking repo = (\<forall>owner x y r s. execution_at repo (owner, x) = Some r \<longrightarrow> execution_at repo (owner, y) = Some s \<longrightarrow>
     mx_workspace_id (er_execution r) = mx_workspace_id (er_execution s) \<longrightarrow>
     blocks_lifecycle r \<longrightarrow> blocks_lifecycle s \<longrightarrow> x = y)"

lemma unblocked:
  "\<not> blocks_workspace_lifecycle owner workspace repo \<Longrightarrow> execution_at repo (owner, x) = Some r \<Longrightarrow>
   mx_workspace_id (er_execution r) = workspace \<Longrightarrow> \<not> blocks_lifecycle r"
  by (force simp: blocks_workspace_lifecycle_def execution_at_def dest: map_of_SomeD)

lemma one_blocking_run:
  assumes "keyed repo" "provided env cmd repo" "settled_stays env cmd repo" "one_blocking repo"
  shows "one_blocking (run_migration env cmd repo)"
  unfolding one_blocking_def
proof (intro allI impI)
  fix owner x y r' s'
  let ?repo = "run_migration env cmd repo"
  assume at: "execution_at ?repo (owner, x) = Some r'" "execution_at ?repo (owner, y) = Some s'"
    and ws: "mx_workspace_id (er_execution r') = mx_workspace_id (er_execution s')"
    and blocks: "blocks_lifecycle r'" "blocks_lifecycle s'"
  have origin: "(\<exists>r. execution_at repo (owner, z) = Some r \<and> blocks_lifecycle r
          \<and> mx_workspace_id (er_execution r) = mx_workspace_id (er_execution u))
      \<or> (z = ''mex_'' @ me_token env 0
         \<and> \<not> blocks_workspace_lifecycle owner (mx_workspace_id (er_execution u)) repo)"
    if u: "execution_at ?repo (owner, z) = Some u" "blocks_lifecycle u" for z u
  proof (cases "execution_at repo (owner, z)")
    case (Some r)
    with blocks_before[OF assms(1-3) Some u] execution_persists[OF assms(1,2) Some] u(1) show ?thesis
      by (auto simp: execution_identity_def)
  next
    case None
    with run_migration_step[OF assms(1,2), of "(owner, z)"] u(1) show ?thesis
      by (auto simp: steps_or_reserves_def reserves_def reservation_error_def)
  qed
  from origin[OF at(1) blocks(1)] origin[OF at(2) blocks(2)] ws assms(4) show "x = y"
    unfolding one_blocking_def using unblocked by metis
qed

text \<open>
  C21. At most one execution of a workspace is active, unreconciled or not yet synchronized at any
  time, provided settled executions are not reactivated.
\<close>

theorem one_execution_at_a_time:
  assumes "migration_reachable settled_stays repo"
    and "execution_at repo (owner, x) = Some r" "execution_at repo (owner, y) = Some s"
    and "mx_workspace_id (er_execution r) = mx_workspace_id (er_execution s)"
    and "blocks_lifecycle r" "blocks_lifecycle s"
  shows "x = y"
proof -
  have "one_blocking repo"
    using assms(1)
  proof (induction rule: migration_reachable.induct)
    case (start designs)
    then show ?case by (simp add: one_blocking_def new_migration_repo_def execution_at_def)
  next
    case (step repo env cmd)
    then show ?case using reachable_inv[OF step.hyps(1)] by (intro one_blocking_run) (auto simp: migration_inv_def)
  qed
  with assms(2-) show ?thesis unfolding one_blocking_def by blast
qed

section \<open>Reservations\<close>

lemma plan_kept_run:
  assumes "migration_inv repo" "all_allowed request_provided perform requests repo"
    and "map_of (mr_execution_by_plan repo) key = Some x" "map_of (mr_plans repo) key = Some rec"
  shows "migration_inv (run_steps perform requests repo)
    \<and> map_of (mr_execution_by_plan (run_steps perform requests repo)) key = Some x
    \<and> (\<exists>rec'. map_of (mr_plans (run_steps perform requests repo)) key = Some rec' \<and> same_plan rec rec')"
  using assms(2)
proof (rule run_invariant)
  show "migration_inv repo \<and> map_of (mr_execution_by_plan repo) key = Some x
      \<and> (\<exists>rec'. map_of (mr_plans repo) key = Some rec' \<and> same_plan rec rec')"
    using assms by auto
next
  fix c s
  assume c: "request_provided c s"
    and s: "migration_inv s \<and> map_of (mr_execution_by_plan s) key = Some x
      \<and> (\<exists>rec'. map_of (mr_plans s) key = Some rec' \<and> same_plan rec rec')"
  from s obtain rec1 where rec1: "map_of (mr_plans s) key = Some rec1" "same_plan rec rec1" by blast
  obtain rec2 where "map_of (mr_plans (perform c s)) key = Some rec2" "same_plan rec1 rec2"
    using plans_kept[of s "fst c" "snd c" key rec1] rec1(1) s c
    by (auto simp: perform_def request_provided_def migration_inv_def plans_linked_def)
  moreover have "map_of (mr_execution_by_plan (perform c s)) key = Some x"
    using s by (cases "fst c" "snd c" s rule: by_plan_cases)
      (auto simp: perform_def commit_reservation_effect reserves_def)
  ultimately show "migration_inv (perform c s) \<and> map_of (mr_execution_by_plan (perform c s)) key = Some x
      \<and> (\<exists>rec'. map_of (mr_plans (perform c s)) key = Some rec' \<and> same_plan rec rec')"
    using s c rec1(2) migration_inv_run[of s "fst c" "snd c"]
    by (auto simp: perform_def request_provided_def same_plan_iff)
qed

lemma reserve_success:
  assumes "reserve_execution env owner plan_id request t repo = (Inr res, repo')"
  shows "\<exists>rec. map_of (mr_plans repo') (owner, plan_id) = Some rec
    \<and> validate_execution_authorization (pl_plan rec) (xr_review_digest request)
         (xr_confirm_destructive request) (xr_confirm_external_changes request) = None
    \<and> (map_of (mr_execution_by_plan repo) (owner, plan_id) \<noteq> None \<or> rs_reserved_now res)
    \<and> (\<exists>x. map_of (mr_execution_by_plan repo') (owner, plan_id) = Some x
           \<and> execution_at repo' (owner, x) = Some (rs_record res))"
proof (cases "map_of (mr_execution_by_plan repo) (owner, plan_id)")
  case None
  with assms obtain rec where "reserves env owner plan_id request t rec repo"
    "commit_reservation env owner plan_id request t rec repo = (Inr res, repo')"
    by (auto simp: reserve_execution_def reserve_execution_locked_def get_plan_def reserves_def split: option.splits sum.splits)
  moreover from this have "rs_record res = reserved_record env owner plan_id request t rec" "rs_reserved_now res"
    "repo' = snd (commit_reservation env owner plan_id request t rec repo)"
    by (auto simp: commit_reservation_def Let_def)
  ultimately show ?thesis
    by (auto simp: reserves_def commit_reservation_effect execution_at_def validate_execution_authorization_def)
next
  case (Some x)
  with assms show ?thesis
    by (auto simp: reserve_execution_def reserve_execution_locked_def get_plan_def execution_at_def
        split: option.splits sum.splits)
qed

text \<open>
  C23. Reserving is idempotent: once a plan has been reserved, repeating the same request after any
  sequence of operations answers with the same execution, reserves nothing and changes nothing, provided
  the guard on the workspace still passes.
\<close>

theorem reservation_idempotent:
  assumes "migration_reachable discipline repo" "provided env (Reserve owner plan_id request t) repo"
    and "reserve_execution env owner plan_id request t repo = (Inr res, repo1)"
    and "all_allowed request_provided perform requests repo1"
    and "claim_guard_check env' owner (mx_workspace_id (er_execution (rs_record res))) = None"
  shows "\<exists>again. reserve_execution env' owner plan_id request t' (run_steps perform requests repo1)
        = (Inr again, run_steps perform requests repo1)
      \<and> \<not> rs_reserved_now again
      \<and> mx_id (er_execution (rs_record again)) = mx_id (er_execution (rs_record res))"
proof -
  let ?final = "run_steps perform requests repo1"
  have inv1: "migration_inv repo1"
    using migration_inv_run[OF reachable_inv[OF assms(1)] assms(2)] assms(3) by simp
  obtain rec x where rec: "map_of (mr_plans repo1) (owner, plan_id) = Some rec"
      "validate_execution_authorization (pl_plan rec) (xr_review_digest request)
         (xr_confirm_destructive request) (xr_confirm_external_changes request) = None"
      "map_of (mr_execution_by_plan repo1) (owner, plan_id) = Some x"
      "execution_at repo1 (owner, x) = Some (rs_record res)"
    using reserve_success[OF assms(3)] by blast
  obtain rec' where kept: "migration_inv ?final" "map_of (mr_execution_by_plan ?final) (owner, plan_id) = Some x"
      "map_of (mr_plans ?final) (owner, plan_id) = Some rec'" "same_plan rec rec'"
    using plan_kept_run[OF inv1 assms(4) rec(3,1)] by blast
  obtain r where r: "execution_at ?final (owner, x) = Some r"
    using kept(1,2) unfolding migration_inv_def plans_linked_def by blast
  have ids: "mx_id (er_execution r) = x" "mx_id (er_execution (rs_record res)) = x"
    using keyed_at[OF _ r] keyed_at[OF _ rec(4)] kept(1) inv1 by (auto simp: migration_inv_def)
  have "authorised_by (rs_record res) rec"
    using inv1 rec(1,3,4) unfolding migration_inv_def plans_linked_def by (metis option.inject)
  then have guard: "claim_guard_check env' owner (mp_workspace_id (pl_plan rec')) = None"
    using assms(5) kept(4) by (auto simp: authorised_by_def same_plan_iff)
  have "validate_execution_authorization (pl_plan rec') (xr_review_digest request)
      (xr_confirm_destructive request) (xr_confirm_external_changes request) = None"
    using rec(2) kept(4) by (auto simp: same_plan_iff validate_execution_authorization_def)
  with kept(2,3) r guard have "reserve_execution env' owner plan_id request t' ?final
      = (Inr \<lparr>rs_record = r, rs_reserved_now = False\<rparr>, ?final)"
    by (simp add: reserve_execution_def reserve_execution_locked_def get_plan_def execution_at_def)
  with ids show ?thesis by simp
qed

section \<open>Workers\<close>

lemma eligible_ids:
  assumes "keyed repo"
  shows "distinct (map (snd \<circ> snd \<circ> fst) (eligible_work now repo))"
proof -
  let ?work = "\<lambda>r. if \<not> lease_available now r then [] else (case work_of r of None \<Rightarrow> []
     | Some (p, kind) \<Rightarrow> [((p, mx_created_at (er_execution r), mx_id (er_execution r)), r, kind)])"
  have "map (snd \<circ> snd \<circ> fst) (concat (map ?work (map snd xs))) =
      map (snd \<circ> fst) (filter (\<lambda>(_, r). lease_available now r \<and> work_of r \<noteq> None) xs)"
    if "\<forall>(key, r)\<in>set xs. snd key = mx_id (er_execution r)" for xs :: "(ws_key, execution_record) dict"
    using that by (induction xs) (auto split: option.splits)
  moreover have "\<forall>(key, r)\<in>set (mr_executions repo). snd key = mx_id (er_execution r)"
    using assms by (fastforce simp: keyed_def)
  ultimately have "map (snd \<circ> snd \<circ> fst) (eligible_work now repo) =
      map (snd \<circ> fst) (filter (\<lambda>(_, r). lease_available now r \<and> work_of r \<noteq> None) (mr_executions repo))"
    unfolding eligible_work_def dict_values_def by blast
  then show ?thesis using assms by (simp add: keyed_def distinct_map_filter)
qed

text \<open>
  C30. Workers make progress: when some execution has work left and no running lease, a claim succeeds.
  It leases an execution with work and without running lease to the worker, and the one it picks comes
  first: interrupted executions before reservations before metadata synchronization, then the oldest.
\<close>

theorem claim_makes_progress:
  assumes "migration_reachable discipline repo" "execution_at repo key = Some r"
    and "lease_available now r" "work_of r = Some (p, kind)"
  shows "\<exists>key0 r0 p0 kind0. execution_at repo key0 = Some r0 \<and> lease_available now r0
      \<and> work_of r0 = Some (p0, kind0)
      \<and> (p0, mx_created_at (er_execution r0), mx_id (er_execution r0))
          \<le> (p, mx_created_at (er_execution r), mx_id (er_execution r))
      \<and> fst (claim_next_execution now w until repo) =
          Inr (Some \<lparr>wk_kind = kind0, wk_record = lease_to w until now r0\<rparr>)
      \<and> execution_at (snd (claim_next_execution now w until repo)) key0 = Some (lease_to w until now r0)"
proof -
  have k: "keyed repo" using reachable_inv[OF assms(1)] by (simp add: migration_inv_def)
  let ?k = "(p, mx_created_at (er_execution r), mx_id (er_execution r))"
  have mem: "(?k, r, kind) \<in> set (eligible_work now repo)"
    using assms(2-4) keyed_at[OF k assms(2)] keyed_member[OF k, of r] by (auto simp: eligible_iff)
  have "distinct (map (snd \<circ> snd \<circ> fst) (eligible_work now repo))" using k by (rule eligible_ids)
  then have "distinct (map fst (eligible_work now repo))"
    using distinct_map by (metis distinct_map list.map_comp)
  moreover obtain c cs where cs: "eligible_work now repo = c # cs" using mem by (cases "eligible_work now repo") auto
  ultimately obtain m where m: "min_candidate c cs = Some m" using min_candidate_total by metis
  obtain p0 t0 i0 r0 kind0 where m0: "m = ((p0, t0, i0), r0, kind0)" by (metis prod.collapse)
  have m1: "m \<in> set (eligible_work now repo)" "fst m \<le> ?k"
    using min_candidate_min[OF m] mem cs by auto
  then have r0: "execution_at repo (er_owner_id r0, i0) = Some r0" "lease_available now r0"
    "work_of r0 = Some (p0, kind0)" "t0 = mx_created_at (er_execution r0)" "i0 = mx_id (er_execution r0)"
    using keyed_member[OF k] unfolding m0 eligible_iff by auto
  have "claim_next_execution now w until repo = (Inr (Some \<lparr>wk_kind = kind0, wk_record = lease_to w until now r0\<rparr>),
      repo\<lparr>mr_executions := AList.update (er_owner_id r0, i0) (lease_to w until now r0) (mr_executions repo)\<rparr>)"
    by (simp add: claim_next_execution_def cs m m0 Let_def)
  with r0 m1(2) show ?thesis
    by (intro exI[of _ "(er_owner_id r0, i0)"] exI[of _ r0] exI[of _ p0] exI[of _ kind0])
       (auto simp: m0 execution_at_def)
qed

section \<open>Baselines\<close>

text \<open>
  C33. The baselines of a workspace form a chain: the n-th baseline ever recorded has revision n and
  names the one before it as its predecessor, identifiers are distinct, all belong to the workspace,
  and the current baseline is the last of the chain.
\<close>

theorem baselines_chained:
  assumes "migration_reachable discipline repo"
  shows "let rows = baselines_at repo (owner, workspace) in
    distinct (map bl_id rows)
    \<and> (\<forall>i<length rows. bl_revision (rows ! i) = i + 1
         \<and> bl_predecessor_id (rows ! i) = (if i = 0 then None else Some (bl_id (rows ! (i - 1))))
         \<and> bl_owner_id (rows ! i) = owner \<and> bl_workspace_id (rows ! i) = workspace)
    \<and> current_baseline (owner, workspace) repo = (if rows = [] then None else Some (last rows))"
proof -
  have "baseline_chain (owner, workspace) (baselines_at repo (owner, workspace))"
    using reachable_inv[OF assms] unfolding migration_inv_def by blast
  then show ?thesis by (simp add: baseline_chain_def current_baseline_def baselines_at_def Let_def)
qed

text \<open>
  Recording a baseline is a compare-and-set on the current baseline: it succeeds exactly when the
  caller names the current baseline as predecessor (none for the first one), then the new baseline is
  current; otherwise the answer is a \<open>baseline_changed\<close> conflict with the current id, and no baseline
  of any workspace changes.
\<close>

theorem create_baseline_compare_and_set:
  "let key = (bv_owner_id v, bv_workspace_id v);
       current_id = map_option bl_id (current_baseline key repo);
       run = create_baseline env v repo
   in if bv_expected_predecessor_id v = current_id
      then (\<exists>b. fst run = Inr b \<and> current_baseline key (snd run) = Some b \<and> bl_predecessor_id b = current_id
             \<and> baselines_at (snd run) key = baselines_at repo key @ [b])
      else fst run = Inl (MigrationConflictError ''baseline_changed''
             ''The workspace synchronization baseline changed'' [(''currentBaselineId'', json_opt JStr current_id)])
        \<and> baselines_at (snd run) = baselines_at repo"
proof -
  define rows where "rows = baselines_at repo (bv_owner_id v, bv_workspace_id v)"
  have cur: "map_option bl_id (current_baseline (bv_owner_id v, bv_workspace_id v) repo) =
      (if rows = [] then None else Some (bl_id (last rows)))"
    by (simp add: current_baseline_def rows_def baselines_at_def Let_def)
  show ?thesis
  proof (cases "bv_expected_predecessor_id v = (if rows = [] then None else Some (bl_id (last rows)))")
    case True
    then obtain b repo' where b: "create_baseline env v repo = (Inr b, repo')"
      using create_baseline_accepts[of repo v env] by (metis (full_types) prod.collapse rows_def)
    have at: "baselines_at repo' (bv_owner_id v, bv_workspace_id v) = rows @ [b]"
      using create_baseline_at[of env v repo "(bv_owner_id v, bv_workspace_id v)"] True b
      by (simp add: rows_def[symmetric] Let_def)
    then have "current_baseline (bv_owner_id v, bv_workspace_id v) repo' = Some b"
      by (simp add: current_baseline_def baselines_at_def Let_def)
    moreover have "bl_predecessor_id b = (if rows = [] then None else Some (bl_id (last rows)))"
      using create_baseline_result[OF b] by (simp add: rows_def Let_def)
    ultimately show ?thesis
      unfolding Let_def cur using True at b by (auto simp: rows_def)
  next
    case False
    have "baselines_at (snd (create_baseline env v repo)) k = baselines_at repo k" for k
      using create_baseline_at[of env v repo k] False by (auto simp: rows_def Let_def)
    then have "baselines_at (snd (create_baseline env v repo)) = baselines_at repo" by (rule ext)
    moreover have "fst (create_baseline env v repo) = Inl (MigrationConflictError ''baseline_changed''
        ''The workspace synchronization baseline changed''
        [(''currentBaselineId'', json_opt JStr (if rows = [] then None else Some (bl_id (last rows))))])"
      using False by (auto simp: create_baseline_def baselines_at_def rows_def dict_get_def setdefault_def Let_def
          split: option.splits)
    ultimately show ?thesis using False by (simp add: Let_def cur)
  qed
qed

end
