(* ===== verification/Application.thy ===== *)
theory Application
  imports Workspace_Store Migration_Properties
begin

text \<open>
  The composition of the repositories: \<open>MigrationService\<close> and \<open>main.py\<close> install the migration repository's
  checks as mutation guards of the workspace and design repositories, and the workspace repository's
  existence check as the claim guard of the migration repository. The guards read the state the
  request finds; \<open>run_app\<close> runs a request of any of the repositories with the guards installed.
\<close>

section \<open>Installed guards\<close>

text \<open>\<open>designs.set_mutation_guard(migration_repository.has_active_execution)\<close>\<close>

definition install_design_guard :: "migration_repo \<Rightarrow> design_env \<Rightarrow> design_env" where
  "install_design_guard repo env = env\<lparr>env_guard := (\<lambda>owner workspace. has_active_execution owner workspace repo)\<rparr>"

definition workspace_claim_guard :: "workspace_repo \<Rightarrow> string \<Rightarrow> string \<Rightarrow> migration_error option" where
  "workspace_claim_guard repo owner workspace =
     map_option (\<lambda>_. MigrationGuardError ''WorkspaceNotFoundError'') (execution_claim_guard repo owner workspace)"

definition app_migration_env :: "app_state \<Rightarrow> migration_env \<Rightarrow> migration_env" where
  "app_migration_env st env = env\<lparr>
     me_design_env := install_design_guard (ap_migrations st) (me_design_env env),
     me_claim_guard := Some (workspace_claim_guard (ap_workspaces st))\<rparr>"

text \<open>
  The guards of the workspace repository: first the one of the migration repository, then those other
  services add (those of the given environment).
\<close>

definition install_workspace_execution_guards :: "app_state \<Rightarrow> workspace_env \<Rightarrow> workspace_env" where
  "install_workspace_execution_guards st env =
     fold add_mutation_guard
       ((''blocks_workspace_lifecycle'', \<lambda>owner workspace. blocks_workspace_lifecycle owner workspace (ap_migrations st))
        # we_guards env)
       (env\<lparr>we_guards := [], we_migration_env := app_migration_env st (we_migration_env env)\<rparr>)"

section \<open>Requests\<close>

datatype app_command =
    CreateWorkspace string workspace_create "design_bootstrap option"
  | ImportWorkspace string workspace_create design_bootstrap import_baseline
  | RenameWorkspace ws_key workspace_rename
  | LayOutWorkspace ws_key workspace_layout_update
  | DeleteWorkspace ws_key nat
  | Migrate migration_command

fun run_app :: "workspace_env \<Rightarrow> app_command \<Rightarrow> app_state \<Rightarrow> app_state" where
  "run_app env (CreateWorkspace owner request bootstrap) st =
     snd (create_workspace (install_workspace_execution_guards st env) owner request bootstrap st)"
| "run_app env (ImportWorkspace owner request bootstrap baseline) st =
     snd (create_import (install_workspace_execution_guards st env) owner request bootstrap baseline st)"
| "run_app env (RenameWorkspace key request) st =
     snd (rename_workspace (install_workspace_execution_guards st env) key request st)"
| "run_app env (LayOutWorkspace key request) st =
     snd (update_layout (install_workspace_execution_guards st env) key request st)"
| "run_app env (DeleteWorkspace key revision) st =
     snd (delete_workspace (install_workspace_execution_guards st env) key revision st)"
| "run_app env (Migrate cmd) st =
     st\<lparr>ap_migrations := run_migration (app_migration_env st (we_migration_env env)) cmd (ap_migrations st)\<rparr>"

text \<open>
  What the callers provide: a new workspace id is drawn at random and not in use yet, design clients
  edit designs but neither initialize nor discard them (the workspace repository does), layouts have
  unique ids, and the migration requests follow the discipline of the execution coordinator.
\<close>

definition fresh_workspace :: "workspace_env \<Rightarrow> string \<Rightarrow> app_state \<Rightarrow> bool" where
  "fresh_workspace env owner st =
     (let key = (owner, ''ws_'' @ we_token env) in
      workspace_record key (ap_workspaces st) = None
      \<and> slice (mr_designs (ap_migrations st)) key = (None, None, None, None, None))"

fun client_edit :: "design_command \<Rightarrow> bool" where
  "client_edit (CmdInitialize _ _ _) = False"
| "client_edit (CmdDiscard _) = False"
| "client_edit cmd = command_ok cmd"

fun app_provided :: "workspace_env \<Rightarrow> app_command \<Rightarrow> app_state \<Rightarrow> bool" where
  "app_provided env (CreateWorkspace owner request bootstrap) st =
     (fresh_workspace env owner st
      \<and> (case bootstrap of None \<Rightarrow> True | Some b \<Rightarrow> distinct (map pos_object_id (db_layout b))))"
| "app_provided env (ImportWorkspace owner request b baseline) st =
     (fresh_workspace env owner st \<and> distinct (map pos_object_id (db_layout b)))"
| "app_provided env (Migrate cmd) st =
     (provided (app_migration_env st (we_migration_env env)) cmd (ap_migrations st)
      \<and> settled_stays (app_migration_env st (we_migration_env env)) cmd (ap_migrations st)
      \<and> (case cmd of EditDesigns edit \<Rightarrow> client_edit edit | _ \<Rightarrow> True))"
| "app_provided env _ st = True"

inductive app_reachable :: "(string \<Rightarrow> string) \<Rightarrow> app_state \<Rightarrow> bool" for sha where
  start: "new_workspace_repo a b c d = Inr workspaces \<Longrightarrow> new_design_repo limit = Inr designs \<Longrightarrow>
    app_reachable sha \<lparr>ap_workspaces = workspaces, ap_migrations = new_migration_repo designs\<rparr>"
| step: "app_reachable sha st \<Longrightarrow> env_sha256 (me_design_env (we_migration_env env)) = sha \<Longrightarrow>
    app_provided env cmd st \<Longrightarrow> app_reachable sha (run_app env cmd st)"

section \<open>What the operations leave alone\<close>

lemma workspace_record_put [simp]:
  "workspace_record k (put_workspace key w repo) = (if k = key then Some w else workspace_record k repo)"
  by (cases k; cases key)
     (auto simp: workspace_record_def put_workspace_def owner_records_def dict_get_def split: option.splits)

lemma workspace_record_drop [simp]:
  "workspace_record k (drop_workspace key repo) = (if k = key then None else workspace_record k repo)"
  by (cases k; cases key)
     (auto simp: workspace_record_def drop_workspace_def owner_records_def dict_get_def delete_conv'
       split: option.splits)

lemma workspace_record_ensure [simp]: "workspace_record k (ensure_owner owner repo) = workspace_record k repo"
  by (auto simp: workspace_record_def ensure_owner_def setdefault_def split: option.splits)

lemma install_fields [simp]:
  "env_sha256 (install_design_guard repo denv) = env_sha256 denv"
  "env_guard (install_design_guard repo denv) = (\<lambda>owner workspace. has_active_execution owner workspace repo)"
  "me_design_env (app_migration_env st menv) = install_design_guard (ap_migrations st) (me_design_env menv)"
  "me_claim_guard (app_migration_env st menv) = Some (workspace_claim_guard (ap_workspaces st))"
  "me_token (app_migration_env st menv) = me_token menv" "me_now (app_migration_env st menv) = me_now menv"
  by (simp_all add: install_design_guard_def app_migration_env_def)

lemma add_guard_fields [simp]:
  "we_migration_env (add_mutation_guard g env) = we_migration_env env"
  "we_token (add_mutation_guard g env) = we_token env" "we_now (add_mutation_guard g env) = we_now env"
  "set (we_guards env) \<subseteq> set (we_guards (add_mutation_guard g env))"
  by (auto simp: add_mutation_guard_def)

lemma fold_guards [simp]:
  "we_migration_env (fold add_mutation_guard gs env) = we_migration_env env"
  "we_token (fold add_mutation_guard gs env) = we_token env" "we_now (fold add_mutation_guard gs env) = we_now env"
  by (induction gs arbitrary: env) simp_all

lemma fold_guards_keep: "g \<in> set (we_guards env) \<Longrightarrow> g \<in> set (we_guards (fold add_mutation_guard gs env))"
  by (induction gs arbitrary: env) (auto intro: subsetD[OF add_guard_fields(4)])

lemma guards_fields [simp]:
  "we_migration_env (install_workspace_execution_guards st env) = app_migration_env st (we_migration_env env)"
  "we_token (install_workspace_execution_guards st env) = we_token env"
  "we_now (install_workspace_execution_guards st env) = we_now env"
  by (simp_all add: install_workspace_execution_guards_def)

lemma lifecycle_guard_installed:
  assumes "blocks_workspace_lifecycle owner workspace (ap_migrations st)"
  shows "mutation_blocked (install_workspace_execution_guards st env) owner workspace"
proof -
  let ?g = "(''blocks_workspace_lifecycle'', \<lambda>owner workspace. blocks_workspace_lifecycle owner workspace (ap_migrations st))"
  have "?g \<in> set (we_guards (install_workspace_execution_guards st env))"
    unfolding install_workspace_execution_guards_def fold.simps comp_apply
    by (rule fold_guards_keep) (simp add: add_mutation_guard_def)
  then show ?thesis
    unfolding mutation_blocked_def list_ex_iff by (rule rev_bexI) (simp add: assms)
qed

section \<open>Designs\<close>

definition app_designs :: "app_state \<Rightarrow> design_repo" where
  "app_designs st = mr_designs (ap_migrations st)"

abbreviation app_executions :: "app_state \<Rightarrow> (ws_key \<times> execution_record) list" where
  "app_executions st \<equiv> mr_executions (ap_migrations st)"

text \<open>The part of a request that runs in the design repository, as a list of its operations.\<close>

lemma snd_initialize_design:
  "snd (initialize_design env key b st) = st\<lparr>ap_migrations := (ap_migrations st)\<lparr>mr_designs :=
     run_command (me_design_env (we_migration_env env)) (CmdInitialize key (db_content b) (db_layout b))
       (mr_designs (ap_migrations st))\<rparr>\<rparr>"
  by (simp add: initialize_design_def split: prod.split sum.split)

lemma roll_back_fields [simp]:
  "ap_workspaces (roll_back_import key initialized st) = drop_workspace key (ap_workspaces st)"
  "mr_executions (ap_migrations (roll_back_import key initialized st)) = mr_executions (ap_migrations st)"
  "mr_plans (ap_migrations (roll_back_import key initialized st)) = mr_plans (ap_migrations st)"
  "mr_baselines (ap_migrations (roll_back_import key initialized st)) = mr_baselines (ap_migrations st)"
  "mr_designs (ap_migrations (roll_back_import key initialized st)) =
     (if initialized then snd (discard_initialization key (mr_designs (ap_migrations st))) else mr_designs (ap_migrations st))"
  by (simp_all add: roll_back_import_def Let_def)

lemma import_baseline_frame:
  assumes "create_import_baseline menv False owner ws c co db ns baseline repo = (res, repo')"
  shows "mr_executions repo' = mr_executions repo \<and> mr_plans repo' = mr_plans repo \<and> mr_designs repo' = mr_designs repo"
  using assms baseline_frame[of menv _ repo] unfolding create_import_baseline_def if_False by (metis snd_conv)

fun command_key :: "design_command \<Rightarrow> ws_key" where
  "command_key (CmdInitialize key _ _) = key"
| "command_key (CmdDiscard key) = key"
| "command_key (CmdReplace key _ _) = key"
| "command_key (CmdMove key _ _) = key"
| "command_key (CmdReplaceLayout key _) = key"
| "command_key (CmdHistory key) = key"

text \<open>
  The design operations a request may cause: those of a new workspace, those of a workspace no
  execution blocks, and the edit it consists of.
\<close>

definition edit_allowed :: "workspace_env \<Rightarrow> app_command \<Rightarrow> app_state \<Rightarrow> design_command \<Rightarrow> bool" where
  "edit_allowed env cmd st c = (command_ok c
     \<and> (workspace_record (command_key c) (ap_workspaces st) = None
        \<or> \<not> blocks_workspace_lifecycle (fst (command_key c)) (snd (command_key c)) (ap_migrations st)
        \<or> cmd = Migrate (EditDesigns c) \<and> client_edit c))"

definition edits_by :: "workspace_env \<Rightarrow> app_command \<Rightarrow> app_state \<Rightarrow> design_command list \<Rightarrow> bool" where
  "edits_by env cmd st edits = (list_all (edit_allowed env cmd st) edits
     \<and> app_designs (run_app env cmd st) =
         fold (run_command (install_design_guard (ap_migrations st) (me_design_env (we_migration_env env)))) edits (app_designs st))"

lemma new_workspace_id [simp]: "wk_id (new_workspace env request co summary) = ''ws_'' @ we_token env"
  by (simp add: new_workspace_def)

lemma create_workspace_cases:
  fixes env :: workspace_env and owner :: string and st :: app_state
  defines "key \<equiv> (owner, ''ws_'' @ we_token env)"
  defines "st1 \<equiv> st\<lparr>ap_workspaces := ensure_owner owner (ap_workspaces st)\<rparr>"
  obtains (refused) e where "create_workspace env owner request bootstrap st = (Inl e, st1)"
  | (failed) b e where "bootstrap = Some b" "initialize_design env key b st1 = (Some e, snd (initialize_design env key b st1))"
      "create_workspace env owner request bootstrap st = (Inl (WorkspaceDesignError e), snd (initialize_design env key b st1))"
  | (created) w where "bootstrap = None" "wk_id w = snd key"
      "create_workspace env owner request bootstrap st = (Inr w, st1\<lparr>ap_workspaces := put_workspace key w (ap_workspaces st1)\<rparr>)"
  | (initialized) b w where "bootstrap = Some b" "wk_id w = snd key" "initialize_design env key b st1 = (None, snd (initialize_design env key b st1))"
      "create_workspace env owner request bootstrap st = (Inr w, (snd (initialize_design env key b st1))\<lparr>ap_workspaces := put_workspace key w (ap_workspaces st1)\<rparr>)"
proof -
  define w where "w = new_workspace env request (connection_owner_of owner request) (map_option db_import_summary bootstrap)"
  have id: "wk_id w = snd key" "(owner, wk_id w) = key" by (simp_all add: w_def key_def)
  have u: "create_workspace env owner request bootstrap st =
      (if length (owner_records owner (ap_workspaces st1)) \<ge> wr_max_workspaces_per_owner (ap_workspaces st1)
       then (Inl (WorkspaceLimitError ''workspace'' (wr_max_workspaces_per_owner (ap_workspaces st1))), st1)
       else case valid_workspace w of Some e \<Rightarrow> (Inl (WorkspaceValueError e), st1)
         | None \<Rightarrow> (case bootstrap of None \<Rightarrow> (Inr w, st1\<lparr>ap_workspaces := put_workspace key w (ap_workspaces st1)\<rparr>)
           | Some b \<Rightarrow> if \<not> wr_designs_configured (ap_workspaces st1)
               then (Inl (WorkspaceStorageUnavailableError ''Imported workspace persistence is not configured''), st1)
               else (case initialize_design env key b st1 of
                   (Some e, st2) \<Rightarrow> (Inl (WorkspaceDesignError e), st2)
                 | (None, st2) \<Rightarrow> (Inr w, st2\<lparr>ap_workspaces := put_workspace key w (ap_workspaces st1)\<rparr>))))"
    unfolding create_workspace_def Let_def w_def st1_def key_def new_workspace_id by (simp split: option.split prod.split)
  show thesis
  proof (cases "length (owner_records owner (ap_workspaces st1)) \<ge> wr_max_workspaces_per_owner (ap_workspaces st1) \<or> valid_workspace w \<noteq> None
      \<or> bootstrap \<noteq> None \<and> \<not> wr_designs_configured (ap_workspaces st1)")
    case True
    show thesis
      by (rule refused[of "projl (fst (create_workspace env owner request bootstrap st))"])
        (use True in \<open>auto simp: u split: option.splits\<close>)
  next
    case False
    show thesis
    proof (cases bootstrap)
      case None
      with False show thesis by (intro created[OF None id(1)]) (simp add: u[unfolded None])
    next
      case (Some b)
      obtain r st2 where i: "initialize_design env key b st1 = (r, st2)" by fastforce
      show thesis
      proof (cases r)
        case r: None
        with False Some i show thesis by (intro initialized[OF Some id(1)]) (simp_all add: u[unfolded Some])
      next
        case r: (Some e)
        with False Some i show thesis by (intro failed[OF Some]) (simp_all add: u[unfolded Some])
      qed
    qed
  qed
qed

lemma create_workspace_designs:
  "app_designs (snd (create_workspace env owner request bootstrap st)) = app_designs st
   \<or> (\<exists>b. bootstrap = Some b \<and> app_designs (snd (create_workspace env owner request bootstrap st)) =
        run_command (me_design_env (we_migration_env env))
          (CmdInitialize (owner, ''ws_'' @ we_token env) (db_content b) (db_layout b)) (app_designs st))"
  by (cases rule: create_workspace_cases[where env = env and owner = owner and request = request and bootstrap = bootstrap and st = st])
     (simp_all add: app_designs_def snd_initialize_design)

lemma store_import_designs:
  fixes w :: workspace and st :: app_state and owner :: string and env :: workspace_env and b :: design_bootstrap
  defines "key \<equiv> (owner, wk_id w)"
  defines "d \<equiv> run_command (me_design_env (we_migration_env env)) (CmdInitialize key (db_content b) (db_layout b)) (app_designs st)"
  shows "app_designs (snd (store_import env owner request c db ns b baseline w st)) \<in> {d, snd (discard_initialization key d)}"
proof -
  let ?st1 = "st\<lparr>ap_workspaces := put_workspace key w (ap_workspaces st)\<rparr>"
  obtain r st2 where i: "initialize_design env key b ?st1 = (r, st2)" by fastforce
  have d2: "mr_designs (ap_migrations st2) = d"
    using snd_initialize_design[of env key b ?st1] i by (simp add: app_designs_def d_def)
  show ?thesis
  proof (cases r)
    case (Some e)
    with i d2 show ?thesis by (simp add: store_import_def key_def app_designs_def)
  next
    case None
    obtain q ms where q: "create_import_baseline (we_migration_env env) False owner (wk_id w) c
        (Some (or_else (wc_connection_owner_id request) owner)) db ns baseline (ap_migrations st2) = (q, ms)" by fastforce
    from import_baseline_frame[OF q] d2 i None q show ?thesis
      by (cases q) (simp_all add: store_import_def key_def app_designs_def)
  qed
qed

lemma create_import_cases:
  obtains (refused) e where "create_import env owner request b baseline st = (Inl e, snd (create_import env owner request b baseline st))"
      "ap_migrations (snd (create_import env owner request b baseline st)) = ap_migrations st"
      "\<And>k. workspace_record k (ap_workspaces (snd (create_import env owner request b baseline st))) = workspace_record k (ap_workspaces st)"
  | (stored) c db ns where "create_import env owner request b baseline st =
      store_import env owner request c db ns b baseline
        (new_workspace env request (Some (or_else (wc_connection_owner_id request) owner)) (Some (db_import_summary b)))
        (st\<lparr>ap_workspaces := ensure_owner owner (ap_workspaces st)\<rparr>)"
    "wc_connection_id request = Some c" "wc_database request = Some db" "wc_namespace request = Some ns"
proof (cases "\<exists>c db ns. wc_connection_id request = Some c \<and> wc_database request = Some db \<and> wc_namespace request = Some ns")
  case True
  then obtain c db ns where t: "wc_connection_id request = Some c" "wc_database request = Some db" "wc_namespace request = Some ns"
    by blast
  let ?repo = "ensure_owner owner (ap_workspaces st)"
    and ?w = "new_workspace env request (Some (or_else (wc_connection_owner_id request) owner)) (Some (db_import_summary b))"
  show ?thesis
  proof (cases "wr_designs_configured (ap_workspaces st) \<and> find_by_target owner c db ns ?repo = None
      \<and> length (owner_records owner ?repo) < wr_max_workspaces_per_owner ?repo \<and> valid_workspace ?w = None")
    case True
    with t show ?thesis by (intro stored[OF _ t]) (simp add: create_import_def Let_def)
  next
    case False
    show ?thesis
      by (rule refused[of "projl (fst (create_import env owner request b baseline st))"];
          use False t in \<open>auto simp: create_import_def Let_def not_less split: option.splits\<close>)
  qed
next
  case False
  show ?thesis
    by (rule refused[of "projl (fst (create_import env owner request b baseline st))"];
        use False in \<open>auto simp: create_import_def split: option.splits\<close>)
qed

lemma create_import_designs:
  fixes env :: workspace_env and b :: design_bootstrap and owner :: string
  defines "key \<equiv> (owner, ''ws_'' @ we_token env)"
  defines "d \<equiv> \<lambda>st. run_command (me_design_env (we_migration_env env)) (CmdInitialize key (db_content b) (db_layout b)) (app_designs st)"
  shows "app_designs (snd (create_import env owner request b baseline st)) \<in> {app_designs st, d st, snd (discard_initialization key (d st))}"
proof (cases env owner request b baseline st rule: create_import_cases)
  case (refused e)
  then show ?thesis by (simp add: app_designs_def)
next
  case (stored c db ns)
  let ?st = "st\<lparr>ap_workspaces := ensure_owner owner (ap_workspaces st)\<rparr>"
  have "app_designs ?st = app_designs st" by (simp add: app_designs_def)
  with store_import_designs[where env = env and owner = owner and w = "new_workspace env request (Some (or_else (wc_connection_owner_id request) owner))
      (Some (db_import_summary b))" and b = b and st = ?st and request = request and c = c and db = db and ns = ns
        and baseline = baseline] stored(1) show ?thesis
    by (simp add: d_def key_def)
qed

lemma delete_workspace_designs:
  "app_designs (snd (delete_workspace env key revision st)) = app_designs st
   \<or> \<not> mutation_blocked env (fst key) (snd key)
     \<and> app_designs (snd (delete_workspace env key revision st)) = snd (discard_initialization key (app_designs st))"
  by (auto simp: delete_workspace_def app_designs_def Let_def split: option.splits)

lemma reconcile_drift_designs:
  "mr_designs (snd (reconcile_drift menv rec n resolved live repo)) = mr_designs repo
   \<or> \<not> blocks_workspace_lifecycle (pl_owner_id rec) (mp_workspace_id (pl_plan rec)) repo
     \<and> mr_designs (snd (reconcile_drift menv rec n resolved live repo)) =
          snd (replace_design (me_design_env menv) (pl_owner_id rec, mp_workspace_id (pl_plan rec))
            \<lparr>dr_expected_design_revision = n, dr_content = resolved, dr_history_group_id = None\<rparr>
            ''checkpoint'' (mr_designs repo))"
proof (cases "claim_guard_check menv (pl_owner_id rec) (mp_workspace_id (pl_plan rec)) = None
    \<and> \<not> blocks_workspace_lifecycle (pl_owner_id rec) (mp_workspace_id (pl_plan rec)) repo")
  case True
  have b: "mr_designs r2 = mr_designs r1" if "create_baseline menv v r1 = (res, r2)" for v r1 res r2
    using that baseline_frame(4)[of menv v r1] by simp
  with True show ?thesis
    by (simp add: reconcile_drift_def reconcile_drift_locked_def Let_def split: prod.split sum.split)
next
  case False
  then show ?thesis by (auto simp: reconcile_drift_def reconcile_drift_locked_def Let_def split: option.split)
qed

lemma migration_designs_frame:
  "mr_designs (snd (create_plan menv rec repo)) = mr_designs repo"
  "mr_designs (snd (reserve_execution menv owner plan_id req t repo)) = mr_designs repo"
  "mr_designs (snd (claim_next_execution t' w until repo)) = mr_designs repo"
  "mr_designs (snd (renew_execution_lease k w until repo)) = mr_designs repo"
  "mr_designs (snd (transition_execution menv k change repo)) = mr_designs repo"
proof -
  show "mr_designs (snd (create_plan menv rec repo)) = mr_designs repo"
    by (simp add: create_plan_def create_plan_locked_def Let_def split: option.split)
  show "mr_designs (snd (reserve_execution menv owner plan_id req t repo)) = mr_designs repo"
    by (cases menv owner plan_id req t repo rule: reserve_execution_cases) (simp_all add: commit_reservation_def Let_def)
  show "mr_designs (snd (claim_next_execution t' w until repo)) = mr_designs repo"
    by (cases t' w until repo rule: claim_cases) simp_all
  show "mr_designs (snd (renew_execution_lease k w until repo)) = mr_designs repo"
    by (simp add: renew_execution_lease_def split: option.split)
  show "mr_designs (snd (transition_execution menv k change repo)) = mr_designs repo"
    using transition_refused[of menv k change repo] by (cases "transition_execution menv k change repo"; cases "fst (transition_execution menv k change repo)")
      (auto elim: transition_accepted)
qed

lemma edits_byI: "list_all (edit_allowed env cmd st) edits \<Longrightarrow> app_designs (run_app env cmd st) =
    fold (run_command (install_design_guard (ap_migrations st) (me_design_env (we_migration_env env)))) edits (app_designs st) \<Longrightarrow>
    \<exists>edits. edits_by env cmd st edits"
  by (auto simp: edits_by_def)

lemma app_edits:
  assumes "app_provided env cmd st"
  shows "\<exists>edits. edits_by env cmd st edits"
proof (cases cmd)
  case (CreateWorkspace owner request bootstrap)
  let ?env = "install_workspace_execution_guards st env"
  from create_workspace_designs[of ?env owner request bootstrap st] show ?thesis
  proof (elim disjE exE)
    fix b assume "bootstrap = Some b \<and> app_designs (snd (create_workspace ?env owner request bootstrap st)) =
        run_command (me_design_env (we_migration_env ?env))
          (CmdInitialize (owner, ''ws_'' @ we_token ?env) (db_content b) (db_layout b)) (app_designs st)"
    with assms show ?thesis
      by (intro edits_byI[of _ _ _ "[CmdInitialize (owner, ''ws_'' @ we_token ?env) (db_content b) (db_layout b)]"])
        (auto simp: CreateWorkspace edit_allowed_def fresh_workspace_def Let_def)
  qed (use CreateWorkspace in \<open>intro edits_byI[of _ _ _ "[]"]; simp\<close>)
next
  case (ImportWorkspace owner request b baseline)
  let ?env = "install_workspace_execution_guards st env"
  let ?key = "(owner, ''ws_'' @ we_token env)"
  let ?i = "CmdInitialize ?key (db_content b) (db_layout b)"
  have ok: "list_all (edit_allowed env cmd st) [?i, CmdDiscard ?key]"
    using assms by (simp add: ImportWorkspace edit_allowed_def fresh_workspace_def Let_def)
  have "app_designs (run_app env cmd st) \<in> (\<lambda>edits. fold (run_command (me_design_env (we_migration_env ?env))) edits (app_designs st))
      ` {[], [?i], [?i, CmdDiscard ?key]}"
    using create_import_designs[where env = ?env and b = b and owner = owner and request = request and baseline = baseline and st = st]
    by (auto simp: ImportWorkspace)
  then obtain edits where "edits \<in> {[], [?i], [?i, CmdDiscard ?key]}"
    "app_designs (run_app env cmd st) = fold (run_command (me_design_env (we_migration_env ?env))) edits (app_designs st)"
    by blast
  then show ?thesis using ok by (intro edits_byI[of _ _ _ edits]) auto
next
  case (DeleteWorkspace key revision)
  from delete_workspace_designs[of "install_workspace_execution_guards st env" key revision st] show ?thesis
  proof
    assume "\<not> mutation_blocked (install_workspace_execution_guards st env) (fst key) (snd key) \<and>
      app_designs (snd (delete_workspace (install_workspace_execution_guards st env) key revision st)) =
      snd (discard_initialization key (app_designs st))"
    then show ?thesis using lifecycle_guard_installed[of "fst key" "snd key" st env]
      by (intro edits_byI[of _ _ _ "[CmdDiscard key]"]) (auto simp: DeleteWorkspace edit_allowed_def)
  qed (use DeleteWorkspace in \<open>intro edits_byI[of _ _ _ "[]"]; simp\<close>)
next
  case (Migrate mcmd)
  show ?thesis
  proof (cases mcmd)
    case (EditDesigns c)
    have "command_ok c" using assms by (cases c) (simp_all add: Migrate EditDesigns)
    then show ?thesis using assms
      by (intro edits_byI[of _ _ _ "[c]"]) (simp_all add: Migrate EditDesigns edit_allowed_def app_designs_def)
  next
    case (ReconcileDrift rec n resolved live)
    let ?k = "(pl_owner_id rec, mp_workspace_id (pl_plan rec))"
    let ?r = "\<lparr>dr_expected_design_revision = n, dr_content = resolved, dr_history_group_id = None\<rparr>"
    from reconcile_drift_designs[of "app_migration_env st (we_migration_env env)" rec n resolved live "ap_migrations st"]
    show ?thesis
    proof
      assume "\<not> blocks_workspace_lifecycle (pl_owner_id rec) (mp_workspace_id (pl_plan rec)) (ap_migrations st) \<and>
        mr_designs (snd (reconcile_drift (app_migration_env st (we_migration_env env)) rec n resolved live (ap_migrations st))) =
        snd (replace_design (me_design_env (app_migration_env st (we_migration_env env))) ?k ?r ''checkpoint'' (mr_designs (ap_migrations st)))"
      then show ?thesis
        by (intro edits_byI[of _ _ _ "[CmdReplace ?k ?r ''checkpoint'']"])
          (simp_all add: Migrate ReconcileDrift edit_allowed_def app_designs_def)
    qed (use Migrate ReconcileDrift in \<open>intro edits_byI[of _ _ _ "[]"]; simp add: app_designs_def\<close>)
  qed (use Migrate in \<open>intro edits_byI[of _ _ _ "[]"]; simp add: app_designs_def migration_designs_frame\<close>)+
qed (intro edits_byI[of _ _ _ "[]"]; simp add: rename_workspace_def update_layout_def app_designs_def Let_def split: option.split)+

section \<open>Executions and workspaces\<close>

text \<open>An import that got as far as storing its records: everything is stored, or everything is taken back.\<close>

lemma store_import_cases:
  fixes w :: workspace and st :: app_state and owner :: string and env :: workspace_env and b :: design_bootstrap
  defines "key \<equiv> (owner, wk_id w)"
  defines "st1 \<equiv> st\<lparr>ap_workspaces := put_workspace key w (ap_workspaces st)\<rparr>"
  obtains (invalid) e st2 where "initialize_design env key b st1 = (Some e, st2)"
      "store_import env owner request c db ns b baseline w st = (Inl (WorkspaceDesignError e), roll_back_import key False st2)"
  | (baseline) e st2 ms where "initialize_design env key b st1 = (None, st2)"
      "create_import_baseline (we_migration_env env) False owner (wk_id w) c
         (Some (or_else (wc_connection_owner_id request) owner)) db ns baseline (ap_migrations st2) = (Inl e, ms)"
      "store_import env owner request c db ns b baseline w st =
         (Inl (WorkspaceBaselineError e), roll_back_import key True (st2\<lparr>ap_migrations := ms\<rparr>))"
  | (stored) r st2 ms where "initialize_design env key b st1 = (None, st2)"
      "create_import_baseline (we_migration_env env) False owner (wk_id w) c
         (Some (or_else (wc_connection_owner_id request) owner)) db ns baseline (ap_migrations st2) = (Inr r, ms)"
      "store_import env owner request c db ns b baseline w st = (Inr w, st2\<lparr>ap_migrations := ms\<rparr>)"
proof -
  obtain r st2 where i: "initialize_design env key b st1 = (r, st2)" by fastforce
  obtain q ms where q: "create_import_baseline (we_migration_env env) False owner (wk_id w) c
      (Some (or_else (wc_connection_owner_id request) owner)) db ns baseline (ap_migrations st2) = (q, ms)" by fastforce
  note i' = i[unfolded key_def st1_def] and u = store_import_def Let_def
  show thesis
  proof (cases r)
    case (Some e)
    with i i' show thesis by (intro invalid[of e st2]) (simp_all add: u key_def st1_def)
  next
    case None
    show thesis
    proof (cases q)
      case (Inl e)
      with None i i' q show thesis by (intro baseline[of st2 e ms]) (simp_all add: u key_def st1_def)
    next
      case (Inr r')
      with None i i' q show thesis by (intro stored[of st2 r' ms]) (simp_all add: u key_def st1_def)
    qed
  qed
qed

lemma initialize_frame:
  assumes "initialize_design env key b st = (r, st2)"
  shows "ap_workspaces st2 = ap_workspaces st \<and> mr_executions (ap_migrations st2) = mr_executions (ap_migrations st)
    \<and> mr_plans (ap_migrations st2) = mr_plans (ap_migrations st)
    \<and> mr_baselines (ap_migrations st2) = mr_baselines (ap_migrations st)"
  using snd_initialize_design[of env key b st] assms by simp_all

lemma create_import_frame:
  "mr_executions (ap_migrations (snd (create_import env owner request b baseline st))) = mr_executions (ap_migrations st)"
  "k \<noteq> (owner, ''ws_'' @ we_token env) \<Longrightarrow>
   workspace_record k (ap_workspaces (snd (create_import env owner request b baseline st))) = workspace_record k (ap_workspaces st)"
proof -
  have "mr_executions (ap_migrations (snd (create_import env owner request b baseline st))) = mr_executions (ap_migrations st)
    \<and> (k \<noteq> (owner, ''ws_'' @ we_token env) \<longrightarrow>
       workspace_record k (ap_workspaces (snd (create_import env owner request b baseline st))) = workspace_record k (ap_workspaces st))"
  proof (cases env owner request b baseline st rule: create_import_cases)
    case (stored c db ns)
    let ?w = "new_workspace env request (Some (or_else (wc_connection_owner_id request) owner)) (Some (db_import_summary b))"
    let ?st = "st\<lparr>ap_workspaces := ensure_owner owner (ap_workspaces st)\<rparr>"
    show ?thesis
      by (cases rule: store_import_cases[where w = ?w and st = ?st and owner = owner and env = env and b = b
            and request = request and c = c and db = db and ns = ns and baseline = baseline])
        (auto simp: stored(1) dest!: initialize_frame import_baseline_frame)
  qed simp
  then show "mr_executions (ap_migrations (snd (create_import env owner request b baseline st))) = mr_executions (ap_migrations st)"
    "k \<noteq> (owner, ''ws_'' @ we_token env) \<Longrightarrow>
     workspace_record k (ap_workspaces (snd (create_import env owner request b baseline st))) = workspace_record k (ap_workspaces st)"
    by blast+
qed

lemma create_workspace_frame:
  "mr_executions (ap_migrations (snd (create_workspace env owner request bootstrap st))) = mr_executions (ap_migrations st)"
  "k \<noteq> (owner, ''ws_'' @ we_token env) \<Longrightarrow>
   workspace_record k (ap_workspaces (snd (create_workspace env owner request bootstrap st))) = workspace_record k (ap_workspaces st)"
  by (cases rule: create_workspace_cases[where env = env and owner = owner and request = request and bootstrap = bootstrap and st = st];
      auto dest!: initialize_frame)+

lemma app_executions_frame:
  "(\<And>c. cmd \<noteq> Migrate c) \<Longrightarrow> mr_executions (ap_migrations (run_app env cmd st)) = mr_executions (ap_migrations st)"
  by (cases cmd)
     (auto simp: create_workspace_frame create_import_frame rename_workspace_def update_layout_def delete_workspace_def Let_def
       split: option.split)

lemma app_record_kept:
  assumes "app_provided env cmd st" "workspace_record key (ap_workspaces st) = Some w"
    and "blocks_workspace_lifecycle (fst key) (snd key) (ap_migrations st)"
  shows "\<exists>w'. workspace_record key (ap_workspaces (run_app env cmd st)) = Some w'"
proof (cases cmd)
  case (CreateWorkspace owner request bootstrap)
  with assms show ?thesis
    by (subst CreateWorkspace, subst run_app.simps, subst create_workspace_frame(2)) (auto simp: fresh_workspace_def Let_def)
next
  case (ImportWorkspace owner request b baseline)
  with assms show ?thesis
    by (subst ImportWorkspace, subst run_app.simps, subst create_import_frame(2)) (auto simp: fresh_workspace_def Let_def)
next
  case (DeleteWorkspace k revision)
  with assms lifecycle_guard_installed[OF assms(3), of env] show ?thesis
    by (auto simp: delete_workspace_def Let_def split: option.split)
qed (use assms(2) in \<open>auto simp: rename_workspace_def update_layout_def Let_def split: option.split\<close>)

definition no_orphans :: "app_state \<Rightarrow> bool" where
  "no_orphans st = (\<forall>owner x r. execution_at (ap_migrations st) (owner, x) = Some r \<longrightarrow> blocks_lifecycle r \<longrightarrow>
     workspace_record (owner, mx_workspace_id (er_execution r)) (ap_workspaces st) \<noteq> None)"

lemma blocking_workspace:
  assumes "keyed (ap_migrations st)" "no_orphans st" "blocks_workspace_lifecycle owner workspace (ap_migrations st)"
  shows "workspace_record (owner, workspace) (ap_workspaces st) \<noteq> None"
proof -
  from assms(3) obtain x r where r: "((owner, x), r) \<in> set (mr_executions (ap_migrations st))"
    "mx_workspace_id (er_execution r) = workspace" "blocks_lifecycle r"
    unfolding blocks_workspace_lifecycle_def by auto
  have "execution_at (ap_migrations st) (owner, x) = Some r"
    using r(1) assms(1) by (simp add: keyed_def execution_at_def)
  with r(2,3) assms(2) show ?thesis unfolding no_orphans_def by blast
qed

lemma active_blocks: "has_active_execution owner workspace repo \<Longrightarrow> blocks_workspace_lifecycle owner workspace repo"
  by (force simp: has_active_execution_def blocks_workspace_lifecycle_def blocks_lifecycle_def)

lemma no_orphans_step:
  assumes "keyed (ap_migrations st)" "no_orphans st" "app_provided env cmd st"
  shows "no_orphans (run_app env cmd st)"
  unfolding no_orphans_def
proof (intro allI impI)
  fix owner x r'
  let ?st = "run_app env cmd st"
  assume at: "execution_at (ap_migrations ?st) (owner, x) = Some r'" and b: "blocks_lifecycle r'"
  let ?key = "(owner, mx_workspace_id (er_execution r'))"
  have kept: "workspace_record ?key (ap_workspaces ?st) \<noteq> None"
    if "execution_at (ap_migrations st) (owner, x) = Some r" "blocks_lifecycle r"
      "mx_workspace_id (er_execution r) = mx_workspace_id (er_execution r')" for r
  proof -
    have "workspace_record ?key (ap_workspaces st) \<noteq> None" using that assms(2) unfolding no_orphans_def by metis
    moreover have "blocks_workspace_lifecycle owner (mx_workspace_id (er_execution r')) (ap_migrations st)"
      using that by (force simp: blocks_workspace_lifecycle_def execution_at_def dest: map_of_SomeD)
    ultimately show ?thesis using app_record_kept[OF assms(3), of ?key] by fastforce
  qed
  show "workspace_record ?key (ap_workspaces ?st) \<noteq> None"
  proof (cases "\<exists>c. cmd = Migrate c")
    case False
    then have "execution_at (ap_migrations st) (owner, x) = Some r'"
      using at app_executions_frame[of cmd env st] by (simp add: execution_at_def)
    with kept[OF _ b refl] show ?thesis by blast
  next
    case True
    then obtain c where c: "cmd = Migrate c" ..
    let ?env = "app_migration_env st (we_migration_env env)"
    have p: "provided ?env c (ap_migrations st)" "settled_stays ?env c (ap_migrations st)" using assms(3) by (simp_all add: c)
    have at': "execution_at (run_migration ?env c (ap_migrations st)) (owner, x) = Some r'" using at by (simp add: c)
    show ?thesis
    proof (cases "execution_at (ap_migrations st) (owner, x)")
      case (Some r)
      with kept[OF Some blocks_before[OF assms(1) p Some at' b]] execution_persists[OF assms(1) p(1) Some] at'
      show ?thesis by (auto simp: execution_identity_def)
    next
      case None
      with run_migration_step[OF assms(1) p(1), of "(owner, x)"] at' obtain plan_id request t rec where
        res: "c = Reserve owner plan_id request t" "reserves ?env owner plan_id request t rec (ap_migrations st)"
        "r' = reserved_record ?env owner plan_id request t rec" by (auto simp: steps_or_reserves_def)
      have "workspace_claim_guard (ap_workspaces st) owner (mp_workspace_id (pl_plan rec)) = None"
      proof (rule ccontr)
        assume "workspace_claim_guard (ap_workspaces st) owner (mp_workspace_id (pl_plan rec)) \<noteq> None"
        then have "snd (reserve_execution ?env owner plan_id request t (ap_migrations st)) = ap_migrations st"
          using res(2) by (auto simp: reserve_execution_def get_plan_def claim_guard_check_def reserves_def)
        with at' None show False by (simp add: res(1))
      qed
      then show ?thesis
        by (auto simp: c res(3) workspace_claim_guard_def execution_claim_guard_def split: option.splits)
    qed
  qed
qed

definition app_inv :: "(string \<Rightarrow> string) \<Rightarrow> app_state \<Rightarrow> bool" where
  "app_inv sha st = (keyed (ap_migrations st) \<and> no_orphans st \<and> design_reachable sha (app_designs st))"

lemma designs_run:
  "design_reachable sha d \<Longrightarrow> env_sha256 denv = sha \<Longrightarrow> list_all command_ok edits \<Longrightarrow>
   design_reachable sha (fold (run_command denv) edits d)"
  by (induction edits arbitrary: d) (auto intro: design_reachable.step)

lemma app_inv_step:
  assumes "app_inv sha st" "app_provided env cmd st" "env_sha256 (me_design_env (we_migration_env env)) = sha"
  shows "app_inv sha (run_app env cmd st)"
proof -
  have "keyed (ap_migrations (run_app env cmd st))"
  proof (cases "\<exists>c. cmd = Migrate c")
    case True
    with assms(1,2) show ?thesis by (auto simp: app_inv_def intro: keyed_run)
  next
    case False
    with assms(1) keyed_cong[OF app_executions_frame[of cmd env st]] show ?thesis by (simp add: app_inv_def)
  qed
  moreover obtain edits where e: "edits_by env cmd st edits" using app_edits[OF assms(2)] by blast
  have "design_reachable sha (app_designs (run_app env cmd st))"
    using e assms(1,3) by (auto simp: edits_by_def edit_allowed_def app_inv_def list_all_iff intro!: designs_run)
  ultimately show ?thesis using no_orphans_step[of st env cmd] assms(1,2) by (simp add: app_inv_def)
qed

lemma app_reachable_inv: "app_reachable sha st \<Longrightarrow> app_inv sha st"
proof (induction rule: app_reachable.induct)
  case (start a b c d workspaces limit designs)
  then show ?case
    by (auto simp: app_inv_def keyed_def no_orphans_def execution_at_def new_migration_repo_def app_designs_def
        intro: design_reachable.start)
next
  case (step st env cmd)
  then show ?case by (intro app_inv_step)
qed

text \<open>
  C11. No orphaned executions: in every reachable state, the workspace of an execution that is active,
  unreconciled or not yet synchronized exists, and deleting it is refused and changes nothing,
  whichever revision the request names and whatever other guards are registered.
\<close>

theorem no_orphan_executions:
  assumes "app_reachable sha st" "execution_at (ap_migrations st) (owner, x) = Some r" "blocks_lifecycle r"
  shows "(\<exists>w. get_workspace (owner, mx_workspace_id (er_execution r)) (ap_workspaces st) = Inr w)
    \<and> (\<exists>e. delete_workspace (install_workspace_execution_guards st env) (owner, mx_workspace_id (er_execution r)) revision st = (Inl e, st))"
proof -
  let ?key = "(owner, mx_workspace_id (er_execution r))"
  have "workspace_record ?key (ap_workspaces st) \<noteq> None"
    using app_reachable_inv[OF assms(1)] assms(2,3) unfolding app_inv_def no_orphans_def by blast
  moreover have "blocks_workspace_lifecycle owner (mx_workspace_id (er_execution r)) (ap_migrations st)"
    using assms(2,3) by (force simp: blocks_workspace_lifecycle_def execution_at_def dest: map_of_SomeD)
  ultimately show ?thesis using lifecycle_guard_installed[of owner _ st env]
    by (auto simp: get_workspace_def delete_workspace_def split: option.split)
qed

lemma command_elsewhere:
  assumes "repo_inv denv d" "command_ok c" "k \<noteq> command_key c"
  shows "slice (run_command denv c d) k = slice d k"
proof -
  have inv: "key_inv denv d key" for key using assms(1) unfolding repo_inv_def by blast
  have "same_elsewhere (command_key c) d (run_command denv c d)"
    using assms(2) initialize_step[OF inv] discard_step[of denv] replace_design_step[OF inv] move_history_step[OF inv]
      replace_layout_step[OF inv] ensure_history_step(2)[OF inv]
    by (cases c) simp_all
  with assms(3) show ?thesis unfolding same_elsewhere_def by metis
qed

lemma commands_elsewhere:
  "repo_inv denv d \<Longrightarrow> list_all command_ok edits \<Longrightarrow> k \<notin> command_key ` set edits \<Longrightarrow>
   slice (fold (run_command denv) edits d) k = slice d k"
  by (induction edits arbitrary: d) (simp_all add: run_command_inv command_elsewhere)

lemma slice_design: "slice d' k = slice d k \<Longrightarrow> repo_design denv k d' = repo_design denv k d"
  by (simp add: slice_def repo_design_def)

text \<open>A client's edit of a workspace whose design is guarded leaves the design as it is.\<close>

lemma guarded_edit:
  assumes "repo_inv denv d" "client_edit c" "command_key c = key" "env_guard denv (fst key) (snd key)"
    and "\<forall>request. c \<noteq> CmdReplace key request ''checkpoint''"
  shows "repo_design env' key (run_command denv c d) = repo_design env' key d"
proof -
  have inv: "key_inv denv d key" using assms(1) unfolding repo_inv_def by blast
  show ?thesis
  proof (cases c)
    case (CmdReplace k request kind)
    with assms(3-5) have "guard_mutation denv key kind = Some DesignMutationBlockedError" "k = key"
      by (auto simp: guard_mutation_def raise_if_def)
    then show ?thesis by (simp add: CmdReplace replace_design_def split: option.split)
  next
    case (CmdMove k expected action)
    then show ?thesis using assms(3,4) by (simp add: CmdMove move_history_def guard_mutation_def raise_if_def)
  next
    case (CmdReplaceLayout k request)
    then show ?thesis by (simp add: replace_layout_def repo_design_def Let_def split: option.split)
  next
    case (CmdHistory k)
    then show ?thesis using ensure_history_step(3)[OF inv] assms(3) by (simp add: repo_design_def)
  qed (use assms(2) in simp_all)
qed

text \<open>
  C12. While an execution of a workspace is active its design is frozen: no request, of the clients or of
  the workspace and migration services, for this or for another workspace, changes it. Only the
  execution coordinator's own checkpoint is let through.
\<close>

theorem active_execution_freezes_design:
  assumes "app_reachable sha st" "app_provided env cmd st" "env_sha256 (me_design_env (we_migration_env env)) = sha"
    and "has_active_execution owner workspace (ap_migrations st)"
    and "\<forall>request. cmd \<noteq> Migrate (EditDesigns (CmdReplace (owner, workspace) request ''checkpoint''))"
  shows "repo_design denv (owner, workspace) (app_designs (run_app env cmd st)) = repo_design denv (owner, workspace) (app_designs st)"
proof -
  let ?key = "(owner, workspace)" and ?denv = "install_design_guard (ap_migrations st) (me_design_env (we_migration_env env))"
  have inv: "keyed (ap_migrations st)" "no_orphans st" "repo_inv ?denv (app_designs st)"
    using app_reachable_inv[OF assms(1)] assms(3) by (auto simp: app_inv_def intro: reachable_repo_inv)
  obtain edits where e: "list_all (edit_allowed env cmd st) edits"
    "app_designs (run_app env cmd st) = fold (run_command ?denv) edits (app_designs st)"
    using app_edits[OF assms(2)] by (auto simp: edits_by_def)
  show ?thesis
  proof (cases "?key \<in> command_key ` set edits")
    case False
    with e show ?thesis
      by (auto intro!: slice_design commands_elsewhere inv(3) simp: list_all_iff edit_allowed_def)
  next
    case True
    then obtain c where c: "c \<in> set edits" "command_key c = ?key" by auto
    have "workspace_record ?key (ap_workspaces st) \<noteq> None"
      by (rule blocking_workspace[OF inv(1,2) active_blocks[OF assms(4)]])
    with c e(1) active_blocks[OF assms(4)] have edit: "cmd = Migrate (EditDesigns c)" "client_edit c"
      by (auto simp: list_all_iff edit_allowed_def)
    have "repo_design denv ?key (run_command ?denv c (app_designs st)) = repo_design denv ?key (app_designs st)"
      by (rule guarded_edit[OF inv(3) edit(2) c(2)]) (use assms(4,5) edit(1) in auto)
    then show ?thesis by (simp add: edit(1) app_designs_def)
  qed
qed

section \<open>Imports\<close>

lemma design_initialize_refused: "design_initialize denv key content layout d = (Inl e, d') \<Longrightarrow> d' = d"
  by (auto simp: design_initialize_def new_history_entry_def Let_def split: option.splits)

lemma design_initialize_stored:
  assumes "design_initialize denv key content layout d = (Inr out, d')"
  shows "map_of (repo_designs d') key = Some \<lparr>ds_workspace_id = snd key, ds_revision = 1, ds_content = content,
      ds_fingerprint = env_fingerprint denv content\<rparr> \<and> (\<forall>k. k \<noteq> key \<longrightarrow> slice d' k = slice d k)"
  using assms unfolding design_initialize_def
  by (auto simp: new_history_entry_def slice_def Let_def split: option.splits simp del: split_paired_All)

lemma discard_slice:
  "slice (snd (discard_initialization key d)) k = (if k = key then (None, None, None, None, None) else slice d k)"
  by (simp add: discard_initialization_def slice_def delete_conv')

lemma initialize_design_refused: "initialize_design env key b st = (Some e, st2) \<Longrightarrow> app_designs st2 = app_designs st"
  by (auto simp: initialize_design_def app_designs_def dest: design_initialize_refused split: prod.splits sum.splits)

lemma initialize_design_stored:
  assumes "initialize_design env key b st = (None, st2)"
  shows "repo_design denv key (app_designs st2) = \<lparr>ds_workspace_id = snd key, ds_revision = 1, ds_content = db_content b,
      ds_fingerprint = env_fingerprint (me_design_env (we_migration_env env)) (db_content b)\<rparr>
    \<and> (\<forall>k. k \<noteq> key \<longrightarrow> slice (app_designs st2) k = slice (app_designs st) k)"
proof -
  obtain out d' where d: "design_initialize (me_design_env (we_migration_env env)) key (db_content b) (db_layout b) (app_designs st) = (Inr out, d')"
    and "app_designs st2 = d'"
    using assms by (auto simp: initialize_design_def app_designs_def split: prod.splits sum.splits)
  with design_initialize_stored[OF d] show ?thesis by (simp add: repo_design_def del: split_paired_All)
qed

text \<open>The baseline of an import is the first one of its workspace, or the import is refused.\<close>

lemma import_baseline_refused:
  assumes "create_import_baseline menv False owner ws c co db ns baseline repo = (Inl e, repo')"
  shows "baselines_at repo' k = baselines_at repo k"
  using assms by (auto simp: create_import_baseline_def create_baseline_def baselines_at_def dict_get_def setdefault_def Let_def
      split: option.splits if_splits)

lemma import_baseline_stored:
  assumes "create_import_baseline menv False owner ws c co db ns baseline repo = (Inr r, repo')"
  shows "baselines_at repo' k = (if k = (owner, ws) then [r] else baselines_at repo k)
    \<and> bl_revision r = 1 \<and> bl_predecessor_id r = None \<and> bl_content r = ib_content baseline \<and> bl_catalog r = ib_catalog baseline
    \<and> bl_connection_id r = c \<and> bl_database r = db \<and> bl_namespace r = ns \<and> bl_source r = ''import'' \<and> bl_design_revision r = 1"
proof -
  obtain v where v: "create_baseline menv v repo = (Inr r, repo')" "bv_owner_id v = owner" "bv_workspace_id v = ws"
      "bv_expected_predecessor_id v = None" "bv_content v = ib_content baseline" "bv_catalog v = ib_catalog baseline"
      "bv_connection_id v = c" "bv_database v = db" "bv_namespace v = ns" "bv_source v = ''import''" "bv_design_revision v = 1"
    using assms by (auto simp: create_import_baseline_def)
  have "baselines_at repo (owner, ws) = []"
    using create_baseline_result[OF v(1)] v(2-4) by (auto simp: Let_def split: if_splits)
  moreover have "baselines_at repo' k = (let rows = baselines_at repo k in if k = (owner, ws)
      \<and> None = (if rows = [] then None else Some (bl_id (last rows))) then rows @ [r] else rows)"
    using create_baseline_at[of menv v repo k] unfolding v(1-4) fst_conv snd_conv sum.sel by simp
  moreover have "bl_content r = bv_content v" "bl_catalog r = bv_catalog v" "bl_connection_id r = bv_connection_id v"
      "bl_database r = bv_database v" "bl_namespace r = bv_namespace v" "bl_source r = bv_source v" "bl_design_revision r = bv_design_revision v"
    using v(1) by (auto simp: create_baseline_def Let_def split: if_splits)
  ultimately show ?thesis using create_baseline_result[OF v(1)] v(2-) by (auto simp: Let_def)
qed

text \<open>What an import leaves alone, at every workspace of a set.\<close>

definition same_at :: "ws_key set \<Rightarrow> app_state \<Rightarrow> app_state \<Rightarrow> bool" where
  "same_at keys st st' = (\<forall>k\<in>keys. workspace_record k (ap_workspaces st') = workspace_record k (ap_workspaces st)
     \<and> slice (app_designs st') k = slice (app_designs st) k
     \<and> baselines_at (ap_migrations st') k = baselines_at (ap_migrations st) k)"

definition imported :: "design_env \<Rightarrow> ws_key \<Rightarrow> design_bootstrap \<Rightarrow> import_baseline \<Rightarrow> workspace \<Rightarrow> app_state \<Rightarrow> bool" where
  "imported denv key b baseline w st =
     (workspace_record key (ap_workspaces st) = Some w
      \<and> ds_revision (repo_design denv key (app_designs st)) = 1
      \<and> ds_content (repo_design denv key (app_designs st)) = db_content b
      \<and> (\<exists>r. baselines_at (ap_migrations st) key = [r] \<and> bl_revision r = 1 \<and> bl_content r = ib_content baseline
          \<and> bl_catalog r = ib_catalog baseline \<and> Some (bl_connection_id r) = wk_connection_id w
          \<and> Some (bl_database r) = wk_database w \<and> Some (bl_namespace r) = wk_namespace w))"

text \<open>
  C20. An import is all or nothing. When it is refused at any point (limits, an existing target, an
  invalid design, a baseline conflict after the workspace and its design were already stored), every
  workspace, design, layout, history, baseline, plan and execution is as before; when it succeeds, the
  new workspace, its first design revision and its first baseline are all stored, for the same
  PostgreSQL target, and nothing else changed.
\<close>

theorem import_all_or_nothing:
  assumes "fresh_workspace env owner st" "create_import env owner request b baseline st = (res, st')"
  shows "mr_executions (ap_migrations st') = mr_executions (ap_migrations st)
    \<and> mr_plans (ap_migrations st') = mr_plans (ap_migrations st)
    \<and> (case res of Inl e \<Rightarrow> same_at UNIV st st'
       | Inr w \<Rightarrow> imported denv (owner, ''ws_'' @ we_token env) b baseline w st' \<and> same_at (- {(owner, ''ws_'' @ we_token env)}) st st')"
proof (cases env owner request b baseline st rule: create_import_cases)
  case (refused e)
  then show ?thesis using assms(2) by (auto simp: same_at_def app_designs_def)
next
  case (stored c db ns)
  let ?key = "(owner, ''ws_'' @ we_token env)"
  let ?w = "new_workspace env request (Some (or_else (wc_connection_owner_id request) owner)) (Some (db_import_summary b))"
  let ?st = "st\<lparr>ap_workspaces := ensure_owner owner (ap_workspaces st)\<rparr>"
  let ?st1 = "?st\<lparr>ap_workspaces := put_workspace (owner, wk_id ?w) ?w (ap_workspaces ?st)\<rparr>"
  have fresh: "workspace_record ?key (ap_workspaces st) = None" "slice (app_designs st) ?key = (None, None, None, None, None)"
    using assms(1) by (simp_all add: fresh_workspace_def app_designs_def Let_def)
  have st1: "app_designs ?st1 = app_designs st" "ap_migrations ?st1 = ap_migrations st" by (simp_all add: app_designs_def)
  show ?thesis
  proof (cases rule: store_import_cases[where w = ?w and st = ?st and owner = owner and env = env and b = b
        and request = request and c = c and db = db and ns = ns and baseline = baseline])
    case (invalid e st2)
    from initialize_frame[OF invalid(1)] initialize_design_refused[OF invalid(1)] invalid(2) stored(1) assms(2) fresh st1
    show ?thesis by (auto simp: same_at_def app_designs_def baselines_at_def)
  next
    case (baseline e st2 ms)
    from initialize_frame[OF baseline(1)] initialize_design_stored[OF baseline(1)] import_baseline_frame[OF baseline(2)]
      import_baseline_refused[OF baseline(2)] baseline(3) stored(1) assms(2) fresh st1
    show ?thesis by (auto simp: same_at_def app_designs_def baselines_at_def discard_slice)
  next
    case (stored r st2 ms)
    have "wk_connection_id ?w = Some c" "wk_database ?w = Some db" "wk_namespace ?w = Some ns"
      using \<open>wc_connection_id request = Some c\<close> \<open>wc_database request = Some db\<close> \<open>wc_namespace request = Some ns\<close>
      by (simp_all add: new_workspace_def)
    moreover have b: "baselines_at ms k = (if k = ?key then [r] else baselines_at (ap_migrations st) k)"
      "bl_revision r = 1" "bl_content r = ib_content baseline" "bl_catalog r = ib_catalog baseline"
      "bl_connection_id r = c" "bl_database r = db" "bl_namespace r = ns" for k
      using import_baseline_stored[OF stored(2), of k] initialize_frame[OF stored(1)] by (simp_all add: baselines_at_def)
    moreover have "res = Inr ?w" "st' = st2\<lparr>ap_migrations := ms\<rparr>"
      using stored(3) assms(2) \<open>create_import env owner request b baseline st = store_import env owner request c db ns b baseline ?w ?st\<close>
      by simp_all
    moreover have "mr_executions ms = mr_executions (ap_migrations st)" "mr_plans ms = mr_plans (ap_migrations st)"
      "mr_designs ms = app_designs st2" "ap_workspaces st2 = ap_workspaces ?st1"
      using import_baseline_frame[OF stored(2)] initialize_frame[OF stored(1)] by (simp_all add: app_designs_def)
    ultimately show ?thesis
      using initialize_design_stored[OF stored(1), of denv] st1(1)
      by (simp add: same_at_def imported_def app_designs_def del: split_paired_All)
  qed
qed

end
