(* ===== verification/Migration_Sample.thy ===== *)
theory Migration_Sample
  imports Migration_Properties
begin

text \<open>
  A concrete run of the migration repository: a baseline is recorded, a destructive review is created,
  reserved with its confirmation, claimed by a worker and failed. The guarantees of the repository are
  applied to it.
\<close>

definition sample_catalog :: pg_catalog where
  "sample_catalog = \<lparr>cat_database = ''d'', cat_namespace = ''n'', cat_server_version = ''17'',
     cat_server_version_num = 170000, cat_server_timezone = ''UTC'', cat_types = [], cat_tables = [],
     cat_relationships = [], cat_functions = [], cat_views = [], cat_materialized_views = [],
     cat_captured_at = 0, cat_fingerprint = ''f''\<rparr>"

definition sample_plan :: "string \<Rightarrow> plan_record" where
  "sample_plan plan_id = \<lparr>pl_owner_id = ''o'', pl_baseline_id = ''mbl_a'', pl_plan =
     \<lparr>mp_id = plan_id, mp_workspace_id = ''ws_a'', mp_status = PlanReviewable, mp_workspace_revision = 1,
      mp_design_revision = 1, mp_design_fingerprint = ''f'', mp_baseline_revision = 1,
      mp_catalog_fingerprint = ''f'', mp_merged_design_fingerprint = ''f'', mp_review_digest = ''r'',
      mp_drift_status = NoDrift, mp_complete = True, mp_apply_capable = True, mp_destructive = True,
      mp_column_type_conversions = [], mp_requires_external_change_acknowledgement = False,
      mp_column_order_rebuilds = [], mp_steps = [], mp_external_changes = [], mp_conflicts = [],
      mp_warnings = [], mp_blocking_differences = [], mp_created_at = 0, mp_expires_at = 100\<rparr>,
     pl_authority = \<lparr>pa_baseline_content = empty_design_content, pa_desired_content = empty_design_content,
      pa_merged_content = empty_design_content, pa_live_content = empty_design_content,
      pa_live_catalog = sample_catalog, pa_allow_destructive = True, pa_connection_id = ''c'',
      pa_connection_revision = 1, pa_database = ''d'', pa_namespace = ''n'', pa_required_empty_tables = [],
      pa_rebuild_table_ids = [], pa_connection_owner_id = None\<rparr>\<rparr>"

definition sample_migration_env :: "string \<Rightarrow> migration_env" where
  "sample_migration_env token = \<lparr>me_design_env = sample_env, me_claim_guard = None, me_token = (\<lambda>_. token), me_now = 5\<rparr>"

definition sample_baseline :: "string option \<Rightarrow> baseline_values" where
  "sample_baseline predecessor = \<lparr>bv_owner_id = ''o'', bv_workspace_id = ''ws_a'', bv_connection_id = ''c'',
     bv_connection_owner_id = None, bv_connection_revision = 1, bv_database = ''d'', bv_namespace = ''n'',
     bv_design_revision = 1, bv_content = empty_design_content, bv_catalog = sample_catalog,
     bv_complete = True, bv_issues = [], bv_source = ''import'', bv_expected_predecessor_id = predecessor,
     bv_source_execution_id = None\<rparr>"

definition sample_confirmation :: execution_create where
  "sample_confirmation = \<lparr>xr_review_digest = ''r'', xr_confirm_destructive = True, xr_confirm_external_changes = False\<rparr>"

definition sample_change :: "nat \<Rightarrow> execution_status \<Rightarrow> execution_change" where
  "sample_change revision status = \<lparr>tx_expected_revision = revision, tx_allowed_from = [Reserved],
     tx_status = status, tx_lease_owner = Some ''w1'', tx_lease_expires_at = Some 40,
     tx_recover_expired_before = None, tx_completed_step_count = UNSET, tx_transaction_id = UNSET,
     tx_target_identity = UNSET, tx_intended_result = UNSET, tx_commit_outcome = UNSET,
     tx_sync_status = UNSET, tx_error_code = UNSET, tx_error_detail = UNSET\<rparr>"

text \<open>The facts about the samples the evaluation needs; the records themselves stay folded.\<close>

lemma sample_plan_fields [simp]:
  "pl_owner_id (sample_plan i) = ''o''" "mp_id (pl_plan (sample_plan i)) = i"
  "mp_workspace_id (pl_plan (sample_plan i)) = ''ws_a''" "mp_status (pl_plan (sample_plan i)) = PlanReviewable"
  "mp_created_at (pl_plan (sample_plan i)) = 0" "mp_expires_at (pl_plan (sample_plan i)) = 100"
  "mp_review_digest (pl_plan (sample_plan i)) = ''r''" "mp_apply_capable (pl_plan (sample_plan i))"
  "mp_destructive (pl_plan (sample_plan i))"
  "\<not> mp_requires_external_change_acknowledgement (pl_plan (sample_plan i))"
  by (simp_all add: sample_plan_def)

lemma sample_env_fields [simp]:
  "me_claim_guard (sample_migration_env token) = None" "me_token (sample_migration_env token) n = token"
  "me_now (sample_migration_env token) = 5"
  by (simp_all add: sample_migration_env_def)

definition sample_first :: baseline_record where
  "sample_first = projr (fst (create_baseline (sample_migration_env ''a'') (sample_baseline None)
     (new_migration_repo sample_start)))"

definition sample_planned :: migration_repo where
  "sample_planned = perform (sample_migration_env ''p'', CreatePlan (sample_plan ''p''))
     (perform (sample_migration_env ''a'', CreateBaseline (sample_baseline None)) (new_migration_repo sample_start))"

lemma sample_planned_eq:
  "sample_planned = \<lparr>mr_designs = sample_start, mr_baselines = [((''o'', ''ws_a''), [sample_first])],
     mr_plans = [((''o'', ''p''), sample_plan ''p'')], mr_executions = [], mr_execution_by_plan = []\<rparr>"
  by (simp add: sample_planned_def perform_def sample_first_def create_plan_def create_plan_locked_def
      claim_guard_check_def blocks_workspace_lifecycle_def create_baseline_def new_migration_repo_def
      sample_baseline_def dict_get_def setdefault_def Let_def)

definition sample_reserved :: migration_repo where
  "sample_reserved = perform (sample_migration_env ''e'', Reserve ''o'' ''p'' sample_confirmation 10) sample_planned"

definition sample_record :: execution_record where
  "sample_record = reserved_record (sample_migration_env ''e'') ''o'' ''p'' sample_confirmation 10 (sample_plan ''p'')"

lemma sample_confirmation_fields [simp]:
  "xr_review_digest sample_confirmation = ''r''" "xr_confirm_destructive sample_confirmation"
  by (simp_all add: sample_confirmation_def)

lemma sample_reservation:
  "reserve_execution (sample_migration_env ''e'') ''o'' ''p'' sample_confirmation 10 sample_planned =
     (Inr \<lparr>rs_record = sample_record, rs_reserved_now = True\<rparr>,
      \<lparr>mr_designs = sample_start, mr_baselines = [((''o'', ''ws_a''), [sample_first])],
       mr_plans = [((''o'', ''p''), (sample_plan ''p'')\<lparr>pl_plan := (pl_plan (sample_plan ''p''))\<lparr>mp_status := PlanClaimed\<rparr>\<rparr>)],
       mr_executions = [((''o'', ''mex_e''), sample_record)],
       mr_execution_by_plan = [((''o'', ''p''), ''mex_e'')]\<rparr>)"
  by (simp add: sample_planned_eq sample_record_def reserve_execution_def reserve_execution_locked_def get_plan_def
      claim_guard_check_def validate_execution_authorization_def reservation_error_def raise_if_def
      blocks_workspace_lifecycle_def commit_reservation_def Let_def)

lemma sample_reserved_eq: "sample_reserved = snd (reserve_execution (sample_migration_env ''e'') ''o'' ''p''
    sample_confirmation 10 sample_planned)"
  by (simp add: sample_reserved_def perform_def)

definition sample_leased :: execution_record where
  "sample_leased = lease_to ''w1'' 30 11 sample_record"

definition sample_claimed :: migration_repo where
  "sample_claimed = perform (sample_migration_env ''x'', Claim 11 ''w1'' 30) sample_reserved"

lemma sample_record_fields [simp]:
  "er_owner_id sample_record = ''o''" "mx_id (er_execution sample_record) = ''mex_e''"
  "mx_status (er_execution sample_record) = Reserved" "mx_workspace_id (er_execution sample_record) = ''ws_a''"
  "mx_plan_id (er_execution sample_record) = ''p''" "er_lease_owner sample_record = None"
  "mx_revision (er_execution sample_record) = 1"
  by (simp_all add: sample_record_def reserved_record_def new_execution_def)

lemma sample_leased_fields [simp]:
  "er_owner_id sample_leased = ''o''" "mx_id (er_execution sample_leased) = ''mex_e''"
  "mx_status (er_execution sample_leased) = Reserved" "mx_workspace_id (er_execution sample_leased) = ''ws_a''"
  "mx_plan_id (er_execution sample_leased) = ''p''" "er_lease_owner sample_leased = Some ''w1''"
  "er_lease_expires_at sample_leased = Some 30" "mx_revision (er_execution sample_leased) = 2"
  by (simp_all add: sample_leased_def lease_to_def)

lemma sample_claim:
  "claim_next_execution 11 ''w1'' 30 sample_reserved =
     (Inr (Some \<lparr>wk_kind = ExecuteWork, wk_record = sample_leased\<rparr>),
      sample_reserved\<lparr>mr_executions := [((''o'', ''mex_e''), sample_leased)]\<rparr>)"
  by (simp add: claim_next_execution_def eligible_work_def sample_reserved_eq sample_reservation dict_values_def
      lease_available_def work_of_def sample_leased_def Let_def)

lemma sample_claimed_eq: "sample_claimed = sample_reserved\<lparr>mr_executions := [((''o'', ''mex_e''), sample_leased)]\<rparr>"
  by (simp add: sample_claimed_def perform_def sample_claim)

definition sample_failed :: migration_repo where
  "sample_failed = perform (sample_migration_env ''x'', Transition (''o'', ''mex_e'') (sample_change 2 Failed)) sample_claimed"

definition sample_dead :: execution_record where
  "sample_dead = changed_record (sample_migration_env ''x'') ''o'' (sample_change 2 Failed) sample_leased"

lemma sample_change_fields [simp]:
  "tx_expected_revision (sample_change n st) = n" "tx_allowed_from (sample_change n st) = [Reserved]"
  "tx_status (sample_change n st) = st" "tx_lease_owner (sample_change n st) = Some ''w1''"
  "tx_lease_expires_at (sample_change n st) = Some 40" "tx_recover_expired_before (sample_change n st) = None"
  "tx_sync_status (sample_change n st) = UNSET"
  by (simp_all add: sample_change_def)

lemma sample_failure:
  "transition_execution (sample_migration_env ''x'') (''o'', ''mex_e'') (sample_change 2 Failed) sample_claimed =
     (Inr sample_dead, sample_claimed\<lparr>mr_executions := [((''o'', ''mex_e''), sample_dead)]\<rparr>)"
  by (simp add: transition_execution_def get_execution_def sample_claimed_eq validate_execution_transition_def
      raise_if_def lease_blocks_def change_holds_lease_def holds_execution_lease_def sample_dead_def Let_def)

lemma sample_failed_eq: "sample_failed = sample_claimed\<lparr>mr_executions := [((''o'', ''mex_e''), sample_dead)]\<rparr>"
  by (simp add: sample_failed_def perform_def sample_failure)

section \<open>The run is reachable\<close>

lemma perform_reachable:
  "migration_reachable settled_stays repo \<Longrightarrow> request_provided request repo \<Longrightarrow>
   settled_stays (fst request) (snd request) repo \<Longrightarrow> migration_reachable settled_stays (perform request repo)"
  by (simp add: perform_def request_provided_def migration_reachable.step)

lemma sample_planned_reachable: "migration_reachable settled_stays sample_planned"
proof -
  have "migration_reachable settled_stays (perform (sample_migration_env ''a'', CreateBaseline (sample_baseline None))
      (new_migration_repo sample_start))"
    by (rule perform_reachable[OF migration_reachable.start])
       (simp_all add: request_provided_def settled_stays_def fresh_baseline_id_def new_migration_repo_def)
  then show ?thesis
    unfolding sample_planned_def
    by (rule perform_reachable) (simp_all add: request_provided_def settled_stays_def perform_def new_migration_repo_def)
qed

lemma sample_reserved_reachable: "migration_reachable settled_stays sample_reserved"
  unfolding sample_reserved_def
  by (rule perform_reachable[OF sample_planned_reachable])
     (simp_all add: request_provided_def settled_stays_def sample_planned_eq)

lemma sample_claimed_reachable: "migration_reachable settled_stays sample_claimed"
  unfolding sample_claimed_def
  by (rule perform_reachable[OF sample_reserved_reachable]) (simp_all add: request_provided_def settled_stays_def)

lemma sample_leased_blocks: "blocks_lifecycle sample_leased"
  by (simp add: blocks_lifecycle_def active_execution_statuses_def)

lemma sample_failed_reachable: "migration_reachable settled_stays sample_failed"
  unfolding sample_failed_def
  by (rule perform_reachable[OF sample_claimed_reachable])
     (simp_all add: request_provided_def settled_stays_def sample_claimed_eq execution_at_def sample_leased_blocks)

lemma sample_at:
  "execution_at sample_reserved (''o'', ''mex_e'') = Some sample_record"
  "execution_at sample_claimed (''o'', ''mex_e'') = Some sample_leased"
  "execution_at sample_failed (''o'', ''mex_e'') = Some sample_dead"
  by (simp_all add: execution_at_def sample_reserved_eq sample_reservation sample_claimed_eq sample_failed_eq)

section \<open>The guarantees on the run\<close>

text \<open>Requests of others: a second worker claims, tries a transition and renews somebody else's lease.\<close>

definition sample_others :: "migration_request list" where
  "sample_others = [(sample_migration_env ''y'', Claim 29 ''w2'' 60),
     (sample_migration_env ''y'', Transition (''o'', ''mex_e'') ((sample_change 2 Failed)\<lparr>tx_lease_owner := Some ''w2''\<rparr>)),
     (sample_migration_env ''y'', Renew (''o'', ''mex_e'') ''w2'' 70)]"

theorem lease_exclusion_witness:
  "execution_at (run_steps perform sample_others sample_claimed) (''o'', ''mex_e'') = Some sample_leased"
  by (rule lease_exclusion[OF sample_claimed_reachable sample_at(2), where w = "''w1''" and until = 30])
     (simp_all add: sample_others_def outsider_def request_provided_def)

theorem transition_no_lost_update_witness:
  "\<exists>r' out repo'. transition_execution (sample_migration_env ''x'') (''o'', ''mex_e'') (sample_change 2 Failed)
       (run_steps perform [(sample_migration_env ''y'', Renew (''o'', ''mex_e'') ''w1'' 70)] sample_claimed) = (Inr out, repo')
     \<and> renewed_only sample_leased r' \<and> out = changed_record (sample_migration_env ''x'') ''o'' (sample_change 2 Failed) r'"
proof -
  let ?repo = "run_steps perform [(sample_migration_env ''y'', Renew (''o'', ''mex_e'') ''w1'' 70)] sample_claimed"
  have "\<exists>out repo'. transition_execution (sample_migration_env ''x'') (''o'', ''mex_e'') (sample_change 2 Failed) ?repo = (Inr out, repo')"
    by (simp add: perform_def renew_execution_lease_def renewed_record_def transition_execution_def get_execution_def sample_claimed_eq
        validate_execution_transition_def raise_if_def lease_blocks_def change_holds_lease_def holds_execution_lease_def Let_def)
  then obtain out repo' where t: "transition_execution (sample_migration_env ''x'') (''o'', ''mex_e'') (sample_change 2 Failed) ?repo = (Inr out, repo')"
    by blast
  from transition_no_lost_update[OF sample_claimed_reachable sample_at(2) _ _ t] t show ?thesis
    by (auto simp: request_provided_def)
qed

theorem executions_authorised_witness:
  "er_destructive_confirmed sample_leased \<and> er_confirmed_review_digest sample_leased = ''r''"
  using executions_authorised[OF sample_claimed_reachable sample_at(2)]
  by (simp add: sample_claimed_eq sample_reserved_eq sample_reservation)

theorem failed_execution_final_witness:
  "execution_at (run_steps perform sample_others sample_failed) (''o'', ''mex_e'') = Some sample_dead"
  by (rule failed_execution_final[OF sample_failed_reachable sample_at(3)])
     (simp_all add: sample_others_def request_provided_def sample_dead_def changed_record_fields)

theorem one_execution_at_a_time_witness:
  "blocks_lifecycle sample_leased \<and> mx_id (er_execution sample_leased) = ''mex_e''"
  using one_execution_at_a_time[OF sample_claimed_reachable sample_at(2) sample_at(2) refl] sample_leased_blocks by simp

theorem reservation_idempotent_witness:
  "\<exists>again. reserve_execution (sample_migration_env ''z'') ''o'' ''p'' sample_confirmation 50
       (run_steps perform sample_others sample_reserved) = (Inr again, run_steps perform sample_others sample_reserved)
     \<and> \<not> rs_reserved_now again \<and> mx_id (er_execution (rs_record again)) = ''mex_e''"
proof -
  have r: "reserve_execution (sample_migration_env ''e'') ''o'' ''p'' sample_confirmation 10 sample_planned =
      (Inr \<lparr>rs_record = sample_record, rs_reserved_now = True\<rparr>, sample_reserved)"
    by (simp add: sample_reserved_eq sample_reservation)
  have "all_allowed request_provided perform sample_others sample_reserved"
    by (simp add: sample_others_def request_provided_def)
  from reservation_idempotent[OF sample_planned_reachable _ r this, of "sample_migration_env ''z''" 50] show ?thesis
    by (simp add: sample_planned_eq claim_guard_check_def)
qed

theorem claim_makes_progress_witness:
  "\<exists>key0 r0. execution_at sample_reserved key0 = Some r0
     \<and> execution_at (snd (claim_next_execution 11 ''w1'' 30 sample_reserved)) key0 = Some (lease_to ''w1'' 30 11 r0)"
  using claim_makes_progress[OF sample_reserved_reachable sample_at(1), of 11 1 ExecuteWork "''w1''" 30]
  by (auto simp: lease_available_def work_of_def)

theorem baselines_chained_witness:
  "bl_revision sample_first = 1 \<and> bl_predecessor_id sample_first = None \<and> bl_owner_id sample_first = ''o''"
  using baselines_chained[OF sample_planned_reachable, of "''o''" "''ws_a''"]
  by (simp add: sample_planned_eq baselines_at_def dict_get_def Let_def)

end
