(* ===== verification/Application_Sample.thy ===== *)
theory Application_Sample
  imports Application Migration_Sample
begin

text \<open>
  Workspaces implement optimistic revision control, and a concrete run of the composed application: a
  workspace is created, a baseline recorded, a review created and its execution reserved.
\<close>

section \<open>Workspace revisions\<close>

datatype workspace_write = WriteName workspace_rename | WriteLayout workspace_layout_update

fun workspace_expected :: "workspace_write \<Rightarrow> nat" where
  "workspace_expected (WriteName request) = wn_expected_revision request"
| "workspace_expected (WriteLayout request) = wl_expected_revision request"

fun write_workspace :: "workspace_env \<Rightarrow> ws_key \<Rightarrow> workspace_write \<Rightarrow> workspace workspace_call" where
  "write_workspace env key (WriteName request) = rename_workspace env key request"
| "write_workspace env key (WriteLayout request) = update_layout env key request"

interpretation workspace_revisions: versioned_store "\<lambda>_. True" "\<lambda>st key. workspace_record key (ap_workspaces st)" wk_revision
  workspace_expected "write_workspace env"
proof unfold_locales
  fix s k r out s'
  assume "write_workspace env k r s = (Inr out, s')"
  then show "\<exists>old new. workspace_record k (ap_workspaces s) = Some old \<and> wk_revision old = workspace_expected r
      \<and> workspace_record k (ap_workspaces s') = Some new \<and> (new = old \<or> wk_revision new = Suc (wk_revision old))"
    by (cases r) (auto simp: rename_workspace_def update_layout_def Let_def split: option.splits if_splits)
next
  fix s k r e s'
  assume "write_workspace env k r s = (Inl e, s')"
  then show "workspace_record k (ap_workspaces s') = workspace_record k (ap_workspaces s)"
    by (cases r) (auto simp: rename_workspace_def update_layout_def Let_def split: option.splits if_splits)
next
  fix s and k' k :: ws_key and r
  assume "k' \<noteq> k"
  then show "workspace_record k' (ap_workspaces (snd (write_workspace env k r s))) = workspace_record k' (ap_workspaces s)"
    by (cases r) (auto simp: rename_workspace_def update_layout_def Let_def split: option.split)
qed simp

section \<open>The run\<close>

definition sample_workspace_env :: "string \<Rightarrow> workspace_env" where
  "sample_workspace_env token = \<lparr>we_guards = [], we_migration_env = sample_migration_env token, we_token = ''a'', we_now = 5\<rparr>"

definition sample_workspaces :: workspace_repo where
  "sample_workspaces = \<lparr>wr_records = [], wr_max_workspaces_per_owner = 10, wr_max_table_positions_per_owner = 10,
     wr_max_column_display_order_entries_per_owner = 10, wr_designs_configured = True\<rparr>"

definition app_start :: app_state where
  "app_start = \<lparr>ap_workspaces = sample_workspaces, ap_migrations = new_migration_repo sample_start\<rparr>"

definition sample_creation :: workspace_create where
  "sample_creation = \<lparr>wc_name = ''n'', wc_connection_id = Some ''c'', wc_connection_owner_id = None,
     wc_database = Some ''d'', wc_namespace = Some ''n''\<rparr>"

definition sample_workspace :: workspace where
  "sample_workspace = new_workspace (sample_workspace_env ''a'') sample_creation (Some ''o'') None"

definition app_created :: app_state where
  "app_created = run_app (sample_workspace_env ''a'') (CreateWorkspace ''o'' sample_creation None) app_start"

definition app_reserved :: app_state where
  "app_reserved = run_app (sample_workspace_env ''e'') (Migrate (Reserve ''o'' ''p'' sample_confirmation 10))
     (run_app (sample_workspace_env ''p'') (Migrate (CreatePlan (sample_plan ''p'')))
       (run_app (sample_workspace_env ''a'') (Migrate (CreateBaseline (sample_baseline None))) app_created))"

lemma sample_workspace_env_fields [simp]:
  "we_migration_env (sample_workspace_env token) = sample_migration_env token"
  "we_token (sample_workspace_env token) = ''a''" "we_now (sample_workspace_env token) = 5"
  "env_sha256 (me_design_env (sample_migration_env token)) = env_sha256 sample_env"
  by (simp_all add: sample_workspace_env_def sample_migration_env_def)

lemma app_created_eq:
  "app_created = \<lparr>ap_workspaces = sample_workspaces\<lparr>wr_records := [(''o'', [(''ws_a'', sample_workspace)])]\<rparr>,
     ap_migrations = new_migration_repo sample_start\<rparr>"
  by (simp add: app_created_def app_start_def create_workspace_def ensure_owner_def owner_records_def dict_get_def setdefault_def
      sample_workspaces_def new_workspace_def valid_workspace_def target_complete_def connection_owner_of_def put_workspace_def
      sample_workspace_def sample_creation_def raise_if_def raise_unless_def Let_def)

text \<open>With the workspace in place the installed guards let the migration requests of the run through.\<close>

lemma wired_requests:
  "create_baseline (app_migration_env st menv) v repo = create_baseline menv v repo"
  "claim_guard_check (app_migration_env st menv) (pl_owner_id rec) (mp_workspace_id (pl_plan rec)) = None \<Longrightarrow>
   claim_guard_check menv (pl_owner_id rec) (mp_workspace_id (pl_plan rec)) = None \<Longrightarrow>
   create_plan (app_migration_env st menv) rec repo = create_plan menv rec repo"
  by (simp_all add: create_baseline_def create_plan_def Let_def)

lemma wired_reserve:
  assumes "map_of (mr_plans repo) (owner, i) = Some rec"
    and "claim_guard_check (app_migration_env st menv) owner (mp_workspace_id (pl_plan rec)) = None"
    and "claim_guard_check menv owner (mp_workspace_id (pl_plan rec)) = None"
  shows "reserve_execution (app_migration_env st menv) owner i request t repo = reserve_execution menv owner i request t repo"
proof -
  have "reserved_record (app_migration_env st menv) = reserved_record menv"
    by (intro ext) (simp add: reserved_record_def new_execution_def)
  then have "commit_reservation (app_migration_env st menv) = commit_reservation menv"
    by (intro ext) (simp add: commit_reservation_def)
  with assms show ?thesis by (simp add: reserve_execution_def reserve_execution_locked_def get_plan_def split: option.split)
qed

lemma sample_claim_guard:
  "ap_workspaces st = ap_workspaces app_created \<Longrightarrow>
   claim_guard_check (app_migration_env st (sample_migration_env token)) ''o'' ''ws_a'' = None"
  by (simp add: claim_guard_check_def workspace_claim_guard_def execution_claim_guard_def app_created_eq
      workspace_record_def sample_workspaces_def)

lemma sample_guard: "claim_guard_check (sample_migration_env token) owner ws = None"
  by (simp add: claim_guard_check_def)

lemma app_migrates:
  assumes "ap_workspaces st = ap_workspaces app_created"
  shows "run_app (sample_workspace_env t) (Migrate (CreateBaseline v)) st =
      st\<lparr>ap_migrations := perform (sample_migration_env t, CreateBaseline v) (ap_migrations st)\<rparr>"
    and "run_app (sample_workspace_env t) (Migrate (CreatePlan (sample_plan i))) st =
      st\<lparr>ap_migrations := perform (sample_migration_env t, CreatePlan (sample_plan i)) (ap_migrations st)\<rparr>"
    and "map_of (mr_plans (ap_migrations st)) (''o'', i) = Some (sample_plan i) \<Longrightarrow>
      run_app (sample_workspace_env t) (Migrate (Reserve ''o'' i request n)) st =
      st\<lparr>ap_migrations := perform (sample_migration_env t, Reserve ''o'' i request n) (ap_migrations st)\<rparr>"
  using wired_requests(2)[of st "sample_migration_env t" "sample_plan i"]
    wired_reserve[of "ap_migrations st" "''o''" i "sample_plan i" st "sample_migration_env t" request n]
  by (simp_all add: wired_requests(1) perform_def sample_claim_guard[OF assms] sample_guard)

definition app_planned :: app_state where
  "app_planned = app_created\<lparr>ap_migrations := sample_planned\<rparr>"

lemma app_planned_eq: "app_planned = run_app (sample_workspace_env ''p'') (Migrate (CreatePlan (sample_plan ''p'')))
    (run_app (sample_workspace_env ''a'') (Migrate (CreateBaseline (sample_baseline None))) app_created)"
  by (simp add: app_planned_def app_migrates sample_planned_def app_created_eq del: run_app.simps)

lemma app_reserved_eq: "app_reserved = app_created\<lparr>ap_migrations := sample_reserved\<rparr>"
  unfolding app_reserved_def app_planned_eq[symmetric]
  by (simp add: app_migrates app_planned_def sample_planned_eq sample_reserved_def del: run_app.simps)

lemma app_created_reachable: "app_reachable (env_sha256 sample_env) app_created"
proof -
  have "app_reachable (env_sha256 sample_env) app_start"
    unfolding app_start_def
    by (rule app_reachable.start[of 10 10 10 True _ 100])
       (simp_all add: new_workspace_repo_def sample_workspaces_def new_design_repo_def sample_start_def)
  then show ?thesis
    unfolding app_created_def
    by (rule app_reachable.step)
       (simp_all add: fresh_workspace_def app_start_def sample_workspaces_def workspace_record_def slice_def new_migration_repo_def
         sample_start_def)
qed

lemma app_reserved_reachable: "app_reachable (env_sha256 sample_env) app_reserved"
proof -
  have "app_reachable (env_sha256 sample_env)
      (run_app (sample_workspace_env ''a'') (Migrate (CreateBaseline (sample_baseline None))) app_created)"
    by (rule app_reachable.step[OF app_created_reachable])
       (simp_all add: settled_stays_def fresh_baseline_id_def app_created_eq new_migration_repo_def)
  then have p: "app_reachable (env_sha256 sample_env) app_planned"
    unfolding app_planned_eq
    by (rule app_reachable.step)
       (simp_all add: settled_stays_def app_created_eq app_migrates perform_def new_migration_repo_def del: run_app.simps)
  then show ?thesis
    unfolding app_reserved_def app_planned_eq[symmetric]
    by (rule app_reachable.step) (simp_all add: settled_stays_def app_planned_def sample_planned_eq)
qed

lemma app_reserved_at: "execution_at (ap_migrations app_reserved) (''o'', ''mex_e'') = Some sample_record"
  by (simp add: app_reserved_eq sample_at)

lemma sample_record_blocks: "blocks_lifecycle sample_record"
  by (simp add: blocks_lifecycle_def active_execution_statuses_def)

section \<open>The guarantees on the run\<close>

theorem no_orphan_executions_witness:
  "\<exists>e. delete_workspace (install_workspace_execution_guards app_reserved (sample_workspace_env ''x'')) (''o'', ''ws_a'') 1 app_reserved
     = (Inl e, app_reserved)"
  using no_orphan_executions[OF app_reserved_reachable app_reserved_at sample_record_blocks, of "sample_workspace_env ''x''" 1] by simp

theorem active_execution_freezes_design_witness:
  "repo_design sample_env (''o'', ''ws_a'') (app_designs (run_app (sample_workspace_env ''x'')
      (Migrate (EditDesigns (CmdReplace (''o'', ''ws_a'') sample_request ''edit''))) app_reserved))
   = repo_design sample_env (''o'', ''ws_a'') (app_designs app_reserved)"
proof (rule active_execution_freezes_design[OF app_reserved_reachable])
  show "app_provided (sample_workspace_env ''x'') (Migrate (EditDesigns (CmdReplace (''o'', ''ws_a'') sample_request ''edit''))) app_reserved"
    by (simp add: settled_stays_def)
  show "has_active_execution ''o'' ''ws_a'' (ap_migrations app_reserved)"
    by (simp add: app_reserved_eq has_active_execution_def sample_reserved_eq sample_reservation active_execution_statuses_def)
qed simp_all

definition sample_bootstrap :: design_bootstrap where
  "sample_bootstrap = \<lparr>db_content = empty_design_content, db_layout = [], db_import_summary =
     \<lparr>im_catalog_fingerprint = ''f'', im_catalog_captured_at = 0, im_complete = True, im_imported_objects = [], im_issues = []\<rparr>\<rparr>"

definition sample_import :: import_baseline where
  "sample_import = \<lparr>ib_connection_revision = 1, ib_content = empty_design_content, ib_catalog = sample_catalog,
     ib_complete = True, ib_issues = []\<rparr>"

theorem import_all_or_nothing_witness:
  "\<exists>w st'. create_import (sample_workspace_env ''a'') ''o'' sample_creation sample_bootstrap sample_import app_start = (Inr w, st')
     \<and> imported sample_env (''o'', ''ws_a'') sample_bootstrap sample_import w st'"
proof -
  let ?run = "create_import (sample_workspace_env ''a'') ''o'' sample_creation sample_bootstrap sample_import app_start"
  have v: "env_validate sample_env empty_design_content = None" by code_simp
  have d: "me_design_env (sample_migration_env token) = sample_env" for token by (simp add: sample_migration_env_def)
  have "\<exists>out. fst (design_initialize sample_env key empty_design_content [] sample_start) = Inr out" for key
    by (simp add: design_initialize_def v check_positions_def new_history_entry_def sample_start_def Let_def)
  then obtain out designs where i: "design_initialize sample_env (''o'', ''ws_a'') empty_design_content [] sample_start = (Inr out, designs)"
    by (metis prod.collapse)
  have "\<exists>w. fst ?run = Inr w"
    by (simp add: create_import_def store_import_def sample_creation_def app_start_def sample_workspaces_def ensure_owner_def setdefault_def
        find_by_target_def owner_records_def dict_get_def dict_values_def new_workspace_def valid_workspace_def target_complete_def raise_if_def
        raise_unless_def sample_bootstrap_def initialize_design_def d i new_migration_repo_def create_import_baseline_def create_baseline_def
        split_beta Let_def)
  then obtain w st' where r: "?run = (Inr w, st')" by (metis prod.collapse)
  have "fresh_workspace (sample_workspace_env ''a'') ''o'' app_start"
    by (simp add: fresh_workspace_def app_start_def sample_workspaces_def workspace_record_def slice_def new_migration_repo_def
        sample_start_def)
  from import_all_or_nothing[OF this r, of sample_env] r show ?thesis by auto
qed

end
