(* ===== verification/Connection_Properties.thy ===== *)
theory Connection_Properties
  imports Connection_Store
begin

text \<open>
  The invariant of saved connections over every sequence of requests, and what an update changes.
\<close>

section \<open>Stripping\<close>

lemma strip_left_done: "List.find (\<lambda>w. w \<noteq> [] \<and> prefix w (strip_left ws s)) ws = None"
proof (induction ws s rule: strip_left.induct)
  case (1 ws s)
  then show ?case
    by (cases "List.find (\<lambda>w. w \<noteq> [] \<and> prefix w s) ws") (simp_all add: strip_left.simps[of ws s])
qed

lemma strip_left_fixed: "List.find (\<lambda>w. w \<noteq> [] \<and> prefix w s) ws = None \<Longrightarrow> strip_left ws s = s"
  by (simp add: strip_left.simps)

lemma strip_left_suffix: "suffix (strip_left ws s) s"
proof (induction ws s rule: strip_left.induct)
  case (1 ws s)
  then show ?case
    by (cases "List.find (\<lambda>w. w \<noteq> [] \<and> prefix w s) ws")
       (auto simp: strip_left.simps[of ws s] intro: suffix_order.trans suffix_drop)
qed

lemma strip_idem [simp]: "strip (strip s) = strip s"
proof -
  let ?l = "strip_left whitespace s"
  have "prefix (strip s) ?l"
    unfolding strip_def using strip_left_suffix[of "map rev whitespace" "rev ?l"]
    by (simp add: suffix_to_prefix)
  then have "List.find (\<lambda>w. w \<noteq> [] \<and> prefix w (strip s)) whitespace = None"
    using strip_left_done[of whitespace s] by (auto simp: find_None_iff intro: prefix_order.trans)
  then have "strip_left whitespace (strip s) = strip s" by (rule strip_left_fixed)
  then have "strip (strip s) = rev (strip_left (map rev whitespace) (rev (strip s)))" by (simp add: strip_def)
  also have "\<dots> = strip s"
    by (simp add: strip_def strip_left_fixed[OF strip_left_done])
  finally show ?thesis .
qed

lemma validate_metadata_Inr:
  "validate_metadata m = Inr n \<longleftrightarrow>
     n = m\<lparr>cn_name := strip (cn_name m), cn_host := strip (cn_host m)\<rparr>
     \<and> cn_name n \<noteq> '''' \<and> char_count (cn_name n) \<le> 128 \<and> cn_host n \<noteq> '''' \<and> char_count (cn_host n) \<le> 255 \<and> valid_host (cn_host n) \<and> 1 \<le> cn_port n \<and> cn_port n \<le> 65535
     \<and> cn_database n \<noteq> '''' \<and> postgres_identifier (cn_database n)
     \<and> cn_username n \<noteq> '''' \<and> postgres_identifier (cn_username n)
     \<and> 1 \<le> cn_connect_timeout n \<and> cn_connect_timeout n \<le> 30"
  by (auto simp: validate_metadata_def Let_def after_check_eq_Inr)

lemma validated_metadata: "validate_metadata m = Inr n \<Longrightarrow> validate_metadata n = Inr n"
  by (auto simp: validate_metadata_Inr)

section \<open>Requests\<close>

datatype connection_command =
    CreateConnection string instant string connection_create
  | UpdateConnection instant "string \<times> string" connection_update
  | DeleteConnection "string \<times> string" nat

fun run_connection :: "connection_command \<Rightarrow> connection_repo \<Rightarrow> connection_repo" where
  "run_connection (CreateConnection token now owner request) repo = snd (create_connection token now owner request repo)"
| "run_connection (UpdateConnection now key request) repo = snd (update_connection now key request repo)"
| "run_connection (DeleteConnection key revision) repo = snd (delete_connection key revision repo)"

text \<open>New identifiers are drawn at random and not in use by their owner.\<close>

fun connection_fresh :: "connection_command \<Rightarrow> connection_repo \<Rightarrow> bool" where
  "connection_fresh (CreateConnection token now owner request) repo =
     (connection_record_at repo (owner, ''pg_'' @ token) = None)"
| "connection_fresh _ repo = True"

inductive connection_reachable :: "connection_repo \<Rightarrow> bool" where
  start: "new_connection_repo limit = Inr repo \<Longrightarrow> connection_reachable repo"
| step: "connection_reachable repo \<Longrightarrow> connection_fresh cmd repo \<Longrightarrow> connection_reachable (run_connection cmd repo)"

section \<open>Invariant\<close>

definition connection_ok :: "string \<times> string \<Rightarrow> connection_record \<Rightarrow> bool" where
  "connection_ok key r =
     (let p = cr_profile r in
      cn_id p = snd key \<and> cn_owner_id p = Some (fst key) \<and> valid_chronology p = None
      \<and> 1 \<le> cn_revision p \<and> (cn_credential_stored p \<longleftrightarrow> cr_password r \<noteq> None)
      \<and> validate_metadata (connection_metadata.truncate p) = Inr (connection_metadata.truncate p))"

definition connection_inv :: "connection_repo \<Rightarrow> bool" where
  "connection_inv repo =
     ((\<forall>owner. length (owner_connections owner repo) \<le> cn_max_connections_per_owner repo
         \<and> distinct (map fst (owner_connections owner repo)))
      \<and> (\<forall>key r. connection_record_at repo key = Some r \<longrightarrow> connection_ok key r))"

lemma owner_connections_put [simp]:
  "owner_connections owner (put_connection key r repo) =
     (if owner = fst key then AList.update (snd key) r (owner_connections owner repo) else owner_connections owner repo)"
  by (auto simp: owner_connections_def put_connection_def dict_get_def split: option.splits)

lemma owner_connections_ensure [simp]:
  "owner_connections o' (repo\<lparr>cn_records := setdefault (cn_records repo) owner []\<rparr>) = owner_connections o' repo"
  by (auto simp: owner_connections_def dict_get_def setdefault_def split: option.splits)

lemma owner_connections_drop [simp]:
  "owner_connections owner (drop_connection key repo) =
     (if owner = fst key then AList.delete (snd key) (owner_connections owner repo) else owner_connections owner repo)"
  "cn_max_connections_per_owner (drop_connection key repo) = cn_max_connections_per_owner repo"
  by (auto simp: owner_connections_def drop_connection_def dict_get_def split: option.splits)

lemma put_limit [simp]: "cn_max_connections_per_owner (put_connection key r repo) = cn_max_connections_per_owner repo"
  by (simp add: put_connection_def)

lemma inv_put_old:
  assumes "connection_inv repo" "connection_record_at repo key \<noteq> None" "connection_ok key r"
  shows "connection_inv (put_connection key r repo)"
proof -
  have "length (AList.update (snd key) r (owner_connections (fst key) repo)) = length (owner_connections (fst key) repo)"
    using assms(2) by (intro length_update_present) (simp add: connection_record_at_def)
  with assms show ?thesis by (auto simp: connection_inv_def distinct_update)
qed

lemma inv_put_new:
  assumes "connection_inv repo" "connection_ok key r"
    and "length (owner_connections (fst key) repo) < cn_max_connections_per_owner repo"
  shows "connection_inv (put_connection key r repo)"
proof -
  have "length (AList.update (snd key) r (owner_connections (fst key) repo)) \<le> cn_max_connections_per_owner repo"
    using assms(3) length_update_le[of "snd key" r "owner_connections (fst key) repo"] by linarith
  with assms(1,2) show ?thesis by (auto simp: connection_inv_def distinct_update)
qed

lemma connection_inv_ensure:
  "connection_inv (repo\<lparr>cn_records := setdefault (cn_records repo) owner []\<rparr>) = connection_inv repo"
  by (simp add: connection_inv_def)

lemma connection_inv_run:
  assumes "connection_inv repo"
  shows "connection_inv (run_connection cmd repo)"
proof (cases cmd)
  case (CreateConnection token now owner request)
  have "connection_ok (owner, ''pg_'' @ token) \<lparr>cr_profile = profile_of m (''pg_'' @ token) (Some owner)
      (ownership_for_owner (Some owner)) 1 (cc_password request \<noteq> None) now now, cr_password = cc_password request\<rparr>"
    if "validate_metadata (cc_metadata request) = Inr m" for m
    using validated_metadata[OF that] by (simp add: connection_ok_def valid_chronology_def)
  then show ?thesis
    using assms by (auto simp: CreateConnection create_connection_def Let_def connection_inv_ensure
        intro!: inv_put_new split: sum.split option.split)
next
  case (UpdateConnection now key request)
  show ?thesis
  proof (cases "update_connection now key request repo")
    case (Pair res repo')
    show ?thesis
    proof (cases res)
      case (Inl e)
      with Pair have "repo' = repo" by (blast dest: update_refused)
      with Pair assms show ?thesis by (simp add: UpdateConnection)
    next
      case (Inr updated)
      from Pair[unfolded Inr] obtain r m where r: "connection_record_at repo key = Some r"
        and u: "updated = profile_of m (cn_id (cr_profile r)) (cn_owner_id (cr_profile r)) (cn_ownership (cr_profile r))
            (cn_revision (cr_profile r) + 1) (sent_or (cr_password r) (cu_password request) \<noteq> None)
            (cn_created_at (cr_profile r)) now" "validate_metadata (changed_metadata request (cr_profile r)) = Inr m"
          "valid_chronology updated = None"
          "repo' = put_connection key \<lparr>cr_profile = updated, cr_password = sent_or (cr_password r) (cu_password request)\<rparr> repo"
        by (rule update_accepted)
      have "connection_ok key r" using assms r unfolding connection_inv_def by blast
      with u validated_metadata[OF u(2)]
      have "connection_ok key \<lparr>cr_profile = updated, cr_password = sent_or (cr_password r) (cu_password request)\<rparr>"
        by (simp add: connection_ok_def Let_def)
      with inv_put_old[OF assms] r u(4) Pair show ?thesis by (simp add: UpdateConnection)
    qed
  qed
next
  case (DeleteConnection key revision)
  have "connection_inv (drop_connection key repo)"
    using assms length_delete_le[of "snd key" "owner_connections (fst key) repo"]
    by (auto simp: connection_inv_def distinct_delete intro: le_trans)
  then show ?thesis
    using assms by (simp add: DeleteConnection delete_connection_def split: option.split)
qed

lemma connection_reachable_inv: "connection_reachable repo \<Longrightarrow> connection_inv repo"
proof (induction rule: connection_reachable.induct)
  case (start limit repo)
  then show ?case
    by (auto simp: new_connection_repo_def connection_inv_def owner_connections_def connection_record_at_def dict_get_def
        split: if_splits)
qed (rule connection_inv_run)

lemma resolve_ok:
  assumes "connection_record_at repo key = Some r" "connection_ok key r"
  shows "\<exists>c. resolve_connection key repo = Inr c \<and> rc_password c = cr_password r
    \<and> rc_revision c = cn_revision (cr_profile r)
    \<and> connection_metadata.truncate c = connection_metadata.truncate (cr_profile r)"
  using assms
  by (auto simp: resolve_connection_def connection_ok_def valid_ownership_def valid_chronology_def Let_def
      connection_metadata.defs split: option.splits)

text \<open>
  C36. In every reachable connection repository: an owner never has more than the configured number of
  connections; every stored profile is filed under its own id and owner, has valid fields, says a
  credential is stored exactly when one is, and was not updated before it was created; and opening
  the connection succeeds, with the stored fields and the stored password.
\<close>

theorem connections_consistent:
  assumes "connection_reachable repo" "connection_record_at repo (owner, i) = Some r"
  shows "length (owner_connections owner repo) \<le> cn_max_connections_per_owner repo
    \<and> cn_id (cr_profile r) = i \<and> cn_owner_id (cr_profile r) = Some owner
    \<and> (cn_credential_stored (cr_profile r) \<longleftrightarrow> cr_password r \<noteq> None)
    \<and> cn_created_at (cr_profile r) \<le> cn_updated_at (cr_profile r)
    \<and> valid_host (cn_host (cr_profile r)) \<and> cn_port (cr_profile r) \<le> 65535
    \<and> (\<exists>c. resolve_connection (owner, i) repo = Inr c \<and> rc_password c = cr_password r
          \<and> rc_revision c = cn_revision (cr_profile r)
          \<and> connection_metadata.truncate c = connection_metadata.truncate (cr_profile r))"
proof -
  have inv: "connection_inv repo" using assms(1) by (rule connection_reachable_inv)
  then have ok: "connection_ok (owner, i) r" using assms(2) unfolding connection_inv_def by blast
  have "length (owner_connections owner repo) \<le> cn_max_connections_per_owner repo"
    using inv unfolding connection_inv_def by blast
  with ok assms(2) show ?thesis
    using resolve_ok[OF assms(2) ok] by (auto simp: connection_ok_def valid_chronology_def Let_def)
       (auto simp: validate_metadata_Inr connection_metadata.defs)
qed

text \<open>
  An accepted update changes exactly the fields that were sent: every other field, the identity
  and the creation time stay, the password stays unless one was sent (a null removes it), and the
  revision advances by one.
\<close>

theorem update_changes_sent_fields:
  assumes "connection_reachable repo" "connection_record_at repo key = Some r"
    and "update_connection now key request repo = (Inr updated, repo')"
  shows "cn_revision updated = cn_revision (cr_profile r) + 1
    \<and> cn_id updated = cn_id (cr_profile r) \<and> cn_created_at updated = cn_created_at (cr_profile r)
    \<and> (cu_host request = Absent \<longrightarrow> cn_host updated = cn_host (cr_profile r))
    \<and> (cu_name request = Absent \<longrightarrow> cn_name updated = cn_name (cr_profile r))
    \<and> (cu_port request = Absent \<longrightarrow> cn_port updated = cn_port (cr_profile r))
    \<and> (cu_database request = Absent \<longrightarrow> cn_database updated = cn_database (cr_profile r))
    \<and> (cu_username request = Absent \<longrightarrow> cn_username updated = cn_username (cr_profile r))
    \<and> (cu_ssl_mode request = Absent \<longrightarrow> cn_ssl_mode updated = cn_ssl_mode (cr_profile r))
    \<and> (cu_connect_timeout request = Absent \<longrightarrow> cn_connect_timeout updated = cn_connect_timeout (cr_profile r))
    \<and> (\<forall>h. cu_host request = Sent (Some h) \<longrightarrow> cn_host updated = strip h)
    \<and> (\<forall>n. cu_name request = Sent (Some n) \<longrightarrow> cn_name updated = strip n)
    \<and> (\<forall>n. cu_port request = Sent (Some n) \<longrightarrow> cn_port updated = n)
    \<and> (\<forall>d. cu_database request = Sent (Some d) \<longrightarrow> cn_database updated = d)
    \<and> (\<forall>u. cu_username request = Sent (Some u) \<longrightarrow> cn_username updated = u)
    \<and> (\<forall>m. cu_ssl_mode request = Sent (Some m) \<longrightarrow> cn_ssl_mode updated = m)
    \<and> (\<forall>t. cu_connect_timeout request = Sent (Some t) \<longrightarrow> cn_connect_timeout updated = t)
    \<and> connection_record_at repo' key = Some \<lparr>cr_profile = updated, cr_password = sent_or (cr_password r) (cu_password request)\<rparr>
    \<and> cn_credential_stored updated = (sent_or (cr_password r) (cu_password request) \<noteq> None)"
proof -
  have ok: "connection_ok key r"
    using connection_reachable_inv[OF assms(1)] assms(2) unfolding connection_inv_def by blast
  from assms(3) obtain r' m where u: "connection_record_at repo key = Some r'"
    "validate_metadata (changed_metadata request (cr_profile r')) = Inr m"
    "updated = profile_of m (cn_id (cr_profile r')) (cn_owner_id (cr_profile r')) (cn_ownership (cr_profile r'))
       (cn_revision (cr_profile r') + 1) (sent_or (cr_password r') (cu_password request) \<noteq> None)
       (cn_created_at (cr_profile r')) now"
    "repo' = put_connection key \<lparr>cr_profile = updated, cr_password = sent_or (cr_password r') (cu_password request)\<rparr> repo"
    by (rule update_accepted)
  have m: "m = (changed_metadata request (cr_profile r))\<lparr>cn_name := strip (cn_name (changed_metadata request (cr_profile r))),
      cn_host := strip (cn_host (changed_metadata request (cr_profile r)))\<rparr>"
    using u(1,2) assms(2) by (simp add: validate_metadata_Inr)
  have s: "strip (cn_host (cr_profile r)) = cn_host (cr_profile r)" "strip (cn_name (cr_profile r)) = cn_name (cr_profile r)"
    using ok by (auto simp: connection_ok_def validate_metadata_Inr Let_def connection_metadata.defs)
  have fields: "cn_host updated = cn_host m" "cn_name updated = cn_name m" "cn_port updated = cn_port m"
    "cn_database updated = cn_database m" "cn_username updated = cn_username m" "cn_ssl_mode updated = cn_ssl_mode m"
    "cn_connect_timeout updated = cn_connect_timeout m"
    by (simp_all add: u(3) profile_of_def connection_metadata.defs)
  have at: "connection_record_at repo' key =
      Some \<lparr>cr_profile = updated, cr_password = sent_or (cr_password r) (cu_password request)\<rparr>"
    using u(1,4) assms(2) by simp
  have ids: "cn_revision updated = cn_revision (cr_profile r) + 1" "cn_id updated = cn_id (cr_profile r)"
    "cn_created_at updated = cn_created_at (cr_profile r)"
    "cn_credential_stored updated = (sent_or (cr_password r) (cu_password request) \<noteq> None)"
    using u(1,3) assms(2) by simp_all
  show ?thesis unfolding ids at fields using s by (simp add: m changed_metadata_def)
qed

section \<open>A concrete run\<close>

definition sample_metadata :: connection_metadata where
  "sample_metadata = \<lparr>cn_name = ''main'', cn_host = ''db'', cn_port = 5432, cn_database = ''d'', cn_username = ''u'',
     cn_ssl_mode = SslVerifyFull, cn_connect_timeout = 10\<rparr>"

definition sample_connections :: connection_repo where
  "sample_connections = run_connection
     (CreateConnection ''a'' 1 ''o'' \<lparr>cc_metadata = sample_metadata, cc_password = Some ''p''\<rparr>)
     \<lparr>cn_records = [], cn_max_connections_per_owner = 100\<rparr>"

definition sample_update :: connection_update where
  "sample_update = \<lparr>cu_expected_revision = 1, cu_name = Absent, cu_host = Sent (Some ''db2''), cu_port = Absent,
     cu_database = Absent, cu_username = Absent, cu_ssl_mode = Absent, cu_connect_timeout = Absent,
     cu_password = Absent\<rparr>"

lemma sample_strip: "strip ''main'' = ''main''" "strip ''db'' = ''db''" "strip ''db2'' = ''db2''"
proof -
  have fixed: "List.find (\<lambda>w. w \<noteq> [] \<and> prefix w s) whitespace = None \<Longrightarrow>
      List.find (\<lambda>w. w \<noteq> [] \<and> prefix w (rev s)) (map rev whitespace) = None \<Longrightarrow> strip s = s" for s
    by (simp add: strip_def strip_left_fixed)
  show "strip ''main'' = ''main''" "strip ''db'' = ''db''" "strip ''db2'' = ''db2''"
    by (rule fixed; code_simp)+
qed

lemma sample_hosts: "valid_host ''db''" "valid_host ''db2''" "postgres_identifier ''d''" "postgres_identifier ''u''"
  "char_count ''main'' = 4" "char_count ''db'' = 2" "char_count ''db2'' = 3"
  by code_simp+

definition sample_connection :: connection_record where
  "sample_connection = \<lparr>cr_profile = profile_of sample_metadata ''pg_a'' (Some ''o'') (ownership_for_owner (Some ''o'')) 1
     True 1 1, cr_password = Some ''p''\<rparr>"

lemma sample_metadata_valid:
  "validate_metadata sample_metadata = Inr sample_metadata"
  "validate_metadata (changed_metadata sample_update (cr_profile sample_connection)) =
     Inr (sample_metadata\<lparr>cn_host := ''db2''\<rparr>)"
  unfolding validate_metadata_Inr
  by (simp_all add: sample_metadata_def sample_strip sample_hosts changed_metadata_def sample_update_def
      sample_connection_def profile_of_def connection_metadata.defs)

lemma sample_connections_eq:
  "sample_connections = put_connection (''o'', ''pg_a'') sample_connection \<lparr>cn_records = [(''o'', [])], cn_max_connections_per_owner = 100\<rparr>"
  by (simp add: sample_connections_def create_connection_def owner_connections_def dict_get_def setdefault_def
      sample_metadata_valid valid_chronology_def raise_if_def sample_connection_def Let_def)

lemma sample_connection_at: "connection_record_at sample_connections (''o'', ''pg_a'') = Some sample_connection"
  by (simp add: sample_connections_eq)

lemma sample_connections_reachable: "connection_reachable sample_connections"
  unfolding sample_connections_def
  by (rule connection_reachable.step[OF connection_reachable.start[of 100]])
     (simp_all add: new_connection_repo_def connection_record_at_def owner_connections_def dict_get_def)

theorem connections_consistent_witness:
  "cn_id (cr_profile sample_connection) = ''pg_a'' \<and> cn_credential_stored (cr_profile sample_connection)"
  using connections_consistent[OF sample_connections_reachable sample_connection_at]
  by (simp add: sample_connection_def)

lemma sample_update_accepted:
  "\<exists>updated repo'. update_connection 2 (''o'', ''pg_a'') sample_update sample_connections = (Inr updated, repo')"
  by (simp add: update_connection_def sample_connection_at sample_metadata_valid valid_chronology_def raise_if_def Let_def)
     (simp add: sample_connection_def sample_update_def null_field_def)

theorem update_changes_sent_fields_witness:
  "\<exists>updated repo'. update_connection 2 (''o'', ''pg_a'') sample_update sample_connections = (Inr updated, repo')
     \<and> cn_revision updated = 2 \<and> cn_port updated = 5432 \<and> cn_host updated = strip ''db2''"
proof -
  obtain updated repo' where u: "update_connection 2 (''o'', ''pg_a'') sample_update sample_connections = (Inr updated, repo')"
    using sample_update_accepted by blast
  have c: "cn_revision (cr_profile sample_connection) = 1" "cn_port (cr_profile sample_connection) = 5432"
    "cu_port sample_update = Absent" "cu_host sample_update = Sent (Some ''db2'')"
    by (simp_all add: sample_connection_def sample_update_def profile_of_def sample_metadata_def connection_metadata.defs)
  from update_changes_sent_fields[OF sample_connections_reachable sample_connection_at u] u c show ?thesis by auto
qed

theorem connection_update_one_winner_witness:
  "\<exists>updated repo1 e repo2. update_connection 2 (''o'', ''pg_a'') sample_update sample_connections = (Inr updated, repo1)
     \<and> update_connection 2 (''o'', ''pg_a'') (sample_update\<lparr>cu_port := Sent (Some 1)\<rparr>)
         (run_writes (update_connection 2) [] repo1) = (Inl e, repo2)"
proof -
  obtain updated repo1 where u: "update_connection 2 (''o'', ''pg_a'') sample_update sample_connections = (Inr updated, repo1)"
    using sample_update_accepted by blast
  with connection_update_one_winner[OF u, of "sample_update\<lparr>cu_port := Sent (Some 1)\<rparr>" "[]"] show ?thesis by auto
qed

definition sample_resource :: "string \<Rightarrow> dependent_resource" where
  "sample_resource i = \<lparr>de_provider = ''p'', de_kind = ''workspace'', de_resource_id = i, de_revision = 1, de_name = i,
     de_target = None, de_deletion_blocked = False, de_blocking_reason = None\<rparr>"

theorem deletion_impact_order_independent_witness:
  "build_connection_impact (\<lambda>d. d) ''c'' 1 [sample_resource ''b'', sample_resource ''a''] =
   build_connection_impact (\<lambda>d. d) ''c'' 1 [sample_resource ''a'', sample_resource ''b'']"
  by (rule deletion_impact_order_independent) (simp_all add: sample_resource_def resource_key_def)

end
