(* ===== verification/Design_Revisions.thy ===== *)
theory Design_Revisions
  imports Design_Store_Invariant Revision_Control
begin

text \<open>
  Designs and layouts implement optimistic revision control: \<open>replace\<close>, \<open>undo\<close> and \<open>redo\<close> of a design
  and \<open>replace_layout\<close> interpret the contract \<open>versioned_store\<close>.
\<close>

datatype design_write = WriteReplace design_replace string | WriteMove nat history_direction

fun write_expected :: "design_write \<Rightarrow> nat" where
  "write_expected (WriteReplace request kind) = dr_expected_design_revision request"
| "write_expected (WriteMove expected action) = expected"

fun write_design :: "design_env \<Rightarrow> ws_key \<Rightarrow> design_write \<Rightarrow> schemii_design repo_call" where
  "write_design env key (WriteReplace request kind) = replace_design env key request kind"
| "write_design env key (WriteMove expected action) = move_history env key expected action"

lemma same_design: "map_of (repo_designs r') key = map_of (repo_designs r) key \<Longrightarrow>
    repo_design env key r' = repo_design env key r"
  by (simp add: repo_design_def)

lemma elsewhere_design: "same_elsewhere key r r' \<Longrightarrow> k \<noteq> key \<Longrightarrow> repo_design env k r' = repo_design env k r"
  unfolding same_elsewhere_def slice_def prod.inject by (rule same_design) blast

text \<open>What a replacement does to the design of its workspace.\<close>

lemma replace_design_cases:
  assumes "key_inv env repo key"
  obtains (refused) e where "fst (replace_design env key request kind repo) = Inl e"
      "repo_design env key (snd (replace_design env key request kind repo)) = repo_design env key repo"
  | (unchanged) "fst (replace_design env key request kind repo) = Inr (repo_design env key repo)"
      "repo_design env key (snd (replace_design env key request kind repo)) = repo_design env key repo"
      "ds_revision (repo_design env key repo) = dr_expected_design_revision request"
  | (saved) revised where "fst (replace_design env key request kind repo) = Inr revised"
      "repo_design env key (snd (replace_design env key request kind repo)) = revised"
      "ds_revision (repo_design env key repo) = dr_expected_design_revision request"
      "ds_revision revised = ds_revision (repo_design env key repo) + 1" "ds_content revised = dr_content request"
proof -
  let ?cur = "repo_design env key repo" and ?r1 = "ensure_history env key (repo_design env key repo) repo"
  note e = ensure_history_step[OF assms]
  have r1: "repo_design env key ?r1 = ?cur" using e(3) by (simp add: repo_design_def)
  obtain state where st: "map_of (repo_history_state ?r1) key = Some state" using e(5) by blast
  obtain es i where chain: "active_chain key ?r1 = Some (es, i)" by (rule key_inv_chain[OF e(1) st])
  obtain repo' revised where c: "commit_replace env key request kind ?cur ?r1 = (Inr revised, repo')"
    "map_of (repo_designs repo') key = Some revised" "ds_revision revised = ds_revision ?cur + 1"
    "ds_content revised = dr_content request"
    using commit_replace_step[OF e(1) st chain r1[symmetric]] by blast
  then have r': "repo_design env key repo' = revised" by (simp add: repo_design_def)
  show thesis
  proof (cases "first_error [env_validate env (dr_content request), guard_mutation env key kind]")
    case (Some err)
    then show thesis by (intro refused) (simp_all add: replace_design_def)
  next
    case None
    show thesis
    proof (cases "ds_revision ?cur = dr_expected_design_revision request")
      case False
      then show thesis using None r1 by (intro refused) (simp_all add: replace_design_def Let_def del: first_error_None)
    next
      case rev: True
      show thesis
      proof (cases "kind = ''edit'' \<and> ds_fingerprint ?cur = env_fingerprint env (dr_content request)")
        case True
        then show thesis using None rev r1
          by (intro unchanged) (simp_all add: replace_design_def Let_def del: first_error_None)
      next
        case False
        note run = None rev False
        show thesis
        proof (cases "validate_design_transition (env_set_iter env) (env_analyze env) (ds_content ?cur) (dr_content request)")
          case (Inl err)
          then show thesis using run r1
            by (intro refused) (auto simp: replace_design_def Let_def simp del: first_error_None)
        next
          case (Inr m)
          then show thesis
          proof (cases m)
            case None
            with Inr run c r' show thesis
              by (intro saved[of revised]) (auto simp: replace_design_def Let_def simp del: first_error_None)
          qed (use Inr run r1 in \<open>intro refused; auto simp: replace_design_def Let_def simp del: first_error_None\<close>)
        qed
      qed
    qed
  qed
qed

lemma move_history_refused:
  assumes "key_inv env repo key" "move_history env key expected action repo = (Inl e, repo')"
  shows "repo_design env key repo' = repo_design env key repo"
proof -
  let ?r1 = "ensure_history env key (repo_design env key repo) repo"
  note s = ensure_history_step[OF assms(1)]
  obtain state where st: "map_of (repo_history_state ?r1) key = Some state" using s(5) by blast
  obtain es i where chain: "active_chain key ?r1 = Some (es, i)" by (rule key_inv_chain[OF s(1) st])
  have layout: "\<exists>l. advance_layout key d (r\<lparr>repo_designs := ds, repo_history_state := hs\<rparr>) = (Inr (), l)"
    if "r = ?r1" for d ds hs r
    using advance_layout_step[of "map_of (repo_designs r) key" "r\<lparr>repo_designs := ds, repo_history_state := hs\<rparr>" key d]
      s(1) by (auto simp: key_inv_def that)
  have "repo' = repo \<or> repo' = ?r1"
    using assms(2) chain layout[OF refl]
    by (auto simp: move_history_def Let_def split: option.splits if_splits prod.splits sum.splits)
      (metis Pair_inject sum.distinct(1))+
  then show ?thesis using s(3) by (auto simp: repo_design_def)
qed

interpretation design_revisions: versioned_store "repo_inv env" "\<lambda>repo key. Some (repo_design env key repo)" ds_revision
  write_expected "write_design env"
proof unfold_locales
  fix s k r out s'
  assume "repo_inv env s" and w: "write_design env k r s = (Inr out, s')"
  then have inv: "key_inv env s k" unfolding repo_inv_def by blast
  show "\<exists>old new. Some (repo_design env k s) = Some old \<and> ds_revision old = write_expected r
      \<and> Some (repo_design env k s') = Some new \<and> (new = old \<or> ds_revision new = Suc (ds_revision old))"
  proof (cases r)
    case (WriteReplace request kind)
    show ?thesis
      using w by (cases rule: replace_design_cases[OF inv, of request kind]) (auto simp: WriteReplace)
  next
    case (WriteMove expected action)
    then have m: "move_history env k expected action s = (Inr out, s')" using w by simp
    then have "ds_revision (repo_design env k s) = expected"
      by (auto simp: move_history_def Let_def split: option.splits if_splits)
    with move_history_success[OF inv m] show ?thesis by (auto simp: WriteMove repo_design_def)
  qed
next
  fix s k r e s'
  assume "repo_inv env s" and w: "write_design env k r s = (Inl e, s')"
  then have inv: "key_inv env s k" unfolding repo_inv_def by blast
  show "Some (repo_design env k s') = Some (repo_design env k s)"
  proof (cases r)
    case (WriteReplace request kind)
    show ?thesis
      using w by (cases rule: replace_design_cases[OF inv, of request kind]) (auto simp: WriteReplace)
  next
    case (WriteMove expected action)
    then show ?thesis using move_history_refused[OF inv] w by simp
  qed
next
  fix s and k' k :: ws_key and r
  assume "repo_inv env s" "k' \<noteq> k"
  then have inv: "key_inv env s k" unfolding repo_inv_def by blast
  show "Some (repo_design env k' (snd (write_design env k r s))) = Some (repo_design env k' s)"
    using elsewhere_design[OF replace_design_step[OF inv, THEN conjunct2] \<open>k' \<noteq> k\<close>]
      elsewhere_design[OF move_history_step[OF inv, THEN conjunct2] \<open>k' \<noteq> k\<close>]
    by (cases r) simp_all
next
  fix s and k :: ws_key and r
  assume "repo_inv env s"
  then show "repo_inv env (snd (write_design env k r s))"
    using run_command_inv[of env s "CmdReplace k _ _"] run_command_inv[of env s "CmdMove k _ _"]
    by (cases r) auto
qed

text \<open>
  No lost updates on designs: when a save, undo or redo is accepted, the stored design is exactly
  the one its author read (the author names its revision), whatever saves, undos and redos other
  clients completed in between.
\<close>

theorem design_no_lost_update:
  assumes "design_reachable (env_sha256 env) repo"
    and "write_expected request = ds_revision (repo_design env key repo)"
    and "write_design env key request (run_writes (write_design env) others repo) = (Inr saved, repo')"
  shows "repo_design env key (run_writes (write_design env) others repo) = repo_design env key repo"
  using design_revisions.no_lost_update[OF reachable_repo_inv[OF assms(1) refl] refl assms(2,3)] by simp

text \<open>Layouts have their own revision.\<close>

definition current_layout :: "design_env \<Rightarrow> ws_key \<Rightarrow> design_repo \<Rightarrow> design_layout" where
  "current_layout env key repo = repo_layout key (ds_revision (repo_design env key repo)) repo"

interpretation layout_revisions: versioned_store "\<lambda>_. True" "\<lambda>repo key. Some (current_layout env key repo)" ly_revision
  lr_expected_layout_revision "replace_layout env"
proof unfold_locales
  fix s k r out s'
  assume w: "replace_layout env k r s = (Inr out, s')"
  then have "map_of (repo_layouts s') k = Some out" "ly_revision out = Suc (ly_revision (current_layout env k s))"
    "ly_revision (current_layout env k s) = lr_expected_layout_revision r"
    by (auto simp: replace_layout_def current_layout_def Let_def split: if_splits option.splits)
  then show "\<exists>old new. Some (current_layout env k s) = Some old \<and> ly_revision old = lr_expected_layout_revision r
      \<and> Some (current_layout env k s') = Some new \<and> (new = old \<or> ly_revision new = Suc (ly_revision old))"
    by (auto simp: current_layout_def[of _ _ s'] repo_layout_def)
next
  fix s k r e s'
  assume "replace_layout env k r s = (Inl e, s')"
  then show "Some (current_layout env k s') = Some (current_layout env k s)"
    by (auto simp: replace_layout_def Let_def split: if_splits option.splits)
next
  fix s and k' k :: ws_key and r
  assume "k' \<noteq> k"
  then show "Some (current_layout env k' (snd (replace_layout env k r s))) = Some (current_layout env k' s)"
    by (auto simp: replace_layout_def current_layout_def repo_layout_def repo_design_def Let_def split: option.split)
qed simp

text \<open>
  Of two layouts saved from the same layout revision, the second is refused, whatever layouts of
  other workspaces and revisions were saved in between.
\<close>

theorem layout_one_winner:
  assumes "replace_layout env key first repo = (Inr saved, repo1)"
    and "lr_expected_layout_revision second = lr_expected_layout_revision first"
  shows "\<exists>e repo2. replace_layout env key second (run_writes (replace_layout env) others repo1) = (Inl e, repo2)"
proof -
  have "current_layout env key repo1 \<noteq> current_layout env key repo"
    using layout_revisions.accepted[OF TrueI assms(1)] assms(1)
    by (auto simp: replace_layout_def current_layout_def repo_layout_def Let_def
        dest!: arg_cong[where f = ly_revision] split: if_splits option.splits)
  with layout_revisions.one_winner[OF TrueI assms(1) _ assms(2)] show ?thesis by blast
qed

section \<open>On the sample run\<close>

theorem design_no_lost_update_witness:
  "\<exists>saved repo'. write_design sample_env sample_key (WriteReplace sample_request ''checkpoint'')
      (run_writes (write_design sample_env) [((''o'', ''v''), WriteMove 0 Undo)] sample_initialized) = (Inr saved, repo')
    \<and> repo_design sample_env sample_key
        (run_writes (write_design sample_env) [((''o'', ''v''), WriteMove 0 Undo)] sample_initialized)
      = repo_design sample_env sample_key sample_initialized"
proof -
  let ?s = "run_writes (write_design sample_env) [((''o'', ''v''), WriteMove 0 Undo)] sample_initialized"
  let ?w = "WriteReplace sample_request ''checkpoint''"
  have ok: "case fst (write_design sample_env sample_key ?w ?s) of Inl _ \<Rightarrow> False | Inr _ \<Rightarrow> True" by code_simp
  have e: "write_expected ?w = ds_revision (repo_design sample_env sample_key sample_initialized)" by code_simp
  from ok obtain saved repo' where w: "write_design sample_env sample_key ?w ?s = (Inr saved, repo')"
    by (cases "write_design sample_env sample_key ?w ?s") (auto split: sum.splits)
  from design_no_lost_update[OF sample_reachable(1) e w] w show ?thesis by blast
qed

definition sample_layout :: layout_replace where
  "sample_layout = \<lparr>lr_expected_layout_revision = 1, lr_expected_design_revision = 1, lr_content = []\<rparr>"

theorem layout_one_winner_witness:
  "\<exists>saved repo1 e repo2. replace_layout sample_env sample_key sample_layout sample_initialized = (Inr saved, repo1)
    \<and> replace_layout sample_env sample_key sample_layout (run_writes (replace_layout sample_env) [] repo1) = (Inl e, repo2)"
proof -
  have "case fst (replace_layout sample_env sample_key sample_layout sample_initialized) of Inl _ \<Rightarrow> False | Inr _ \<Rightarrow> True"
    by code_simp
  then obtain saved repo1 where w: "replace_layout sample_env sample_key sample_layout sample_initialized = (Inr saved, repo1)"
    by (cases "replace_layout sample_env sample_key sample_layout sample_initialized") (auto split: sum.splits)
  from layout_one_winner[OF w refl, of "[]"] w show ?thesis by blast
qed

end
