(* ===== verification/Planner_Merge.thy ===== *)
theory Planner_Merge
  imports Migration_Model Json_Delta
begin

text \<open>
  The three-way merge of \<open>schemii/migrations/planner.py\<close>: baseline, desired design and live database as
  JSON documents are merged item by item (\<open>_Merger.merge\<close>), changes made outside Schemii are reported
  and conflicting changes become conflicts with identifiers a resolution can name.

  \<open>_MISSING\<close> is \<^const>\<open>None\<close>. The lists \<open>self.external\<close> and \<open>self.conflicts\<close> the merge appends to are
  returned beside the merged value. Parameters: \<open>hashlib.sha256(...).hexdigest\<close> and the expression
  normal form sqlglot computes for a CHECK expression (\<^const>\<open>None\<close> when it does not parse).
\<close>

section \<open>Paths and identifiers\<close>

type_synonym doc = "json option"

record merger =
  mg_sha256 :: "string \<Rightarrow> string"
  mg_normal :: "(string, string) dict \<Rightarrow> string \<Rightarrow> string option"
  mg_resolutions :: "(string, string) dict"
  mg_check_column_types :: "(string, (string, string) dict) dict"

definition doc_value :: "doc \<Rightarrow> json" where
  "doc_value v = (case v of None \<Rightarrow> JNull | Some j \<Rightarrow> j)"

definition merge_identifier :: "(string \<Rightarrow> string) \<Rightarrow> string \<Rightarrow> json list \<Rightarrow> string" where
  "merge_identifier sha256 pre vals = pre @ ''_'' @ take 32 (sha256 (join [char_of (0::nat)] (map dumps vals)))"

definition path_kind :: "string \<Rightarrow> object_kind" where
  "path_kind path =
     (if contains ''.columns['' path then ColumnObject
      else if contains ''.keys['' path \<or> contains ''.checks['' path then ConstraintObject
      else if contains ''.indexes['' path then IndexObject
      else if prefix ''types['' path then TypeObject
      else if prefix ''tables['' path then TableObject
      else if prefix ''relationships['' path then RelationshipObject
      else if prefix ''functions['' path then FunctionObject
      else if prefix ''views['' path then ViewObject
      else if prefix ''triggers['' path then TriggerObject
      else SchemaObject)"

definition display_path :: "string \<Rightarrow> string" where
  "display_path path =
     (let s = replace_char (CHR '']'') [] (replace_char (CHR ''['') ''.'' path)
      in rstrip_char (CHR ''.'') (dropWhile (\<lambda>c. c = CHR ''.'') s))"

definition merge_operation :: "doc \<Rightarrow> doc \<Rightarrow> change_operation" where
  "merge_operation before after =
     (if before = None then ObjectAdded else if after = None then ObjectRemoved else ObjectChanged)"

fun operation_text :: "change_operation \<Rightarrow> string" where
  "operation_text ObjectAdded = ''added''"
| "operation_text ObjectRemoved = ''removed''"
| "operation_text ObjectChanged = ''changed''"
| "operation_text ObjectRenamed = ''renamed''"

definition dotted :: "string \<Rightarrow> string \<Rightarrow> string" where
  "dotted path key = (if path = '''' then key else path @ ''.'' @ key)"

definition indexed :: "string \<Rightarrow> string \<Rightarrow> string" where
  "indexed path i = path @ ''['' @ i @ '']''"

section \<open>Equivalent values\<close>

definition unordered_dependency_fields :: "string list" where
  "unordered_dependency_fields =
     [''column_ids'', ''expression_source_column_ids'', ''generated_source_column_ids'', ''predicate_column_ids'']"

definition unordered_dependency_path :: "string \<Rightarrow> bool" where
  "unordered_dependency_path path =
     (let field = rev (takeWhile (\<lambda>c. c \<noteq> CHR ''.'') (rev path)) in
      if field \<notin> set unordered_dependency_fields then False
      else if field = ''column_ids'' then contains ''.checks['' path
      else True)"

text \<open>\<open>equivalent_check_expressions\<close> of \<open>checks.py\<close>, with sqlglot's normal form as a parameter.\<close>

definition equivalent_check_expressions ::
  "((string, string) dict \<Rightarrow> string \<Rightarrow> string option) \<Rightarrow> string \<Rightarrow> string \<Rightarrow> (string, string) dict \<Rightarrow> bool" where
  "equivalent_check_expressions normal left right types =
     (left = right \<or> normal types left \<noteq> None \<and> normal types left = normal types right)"

text \<open>The table id in a path that matches \<open>tables[..].checks[..].expression\<close>.\<close>

definition check_path_table :: "string \<Rightarrow> string option" where
  "check_path_table path =
     (let rest = drop 7 path; table = takeWhile (\<lambda>c. c \<noteq> CHR '']'') rest;
          after = drop (length table) rest; rest2 = drop 9 after;
          check = takeWhile (\<lambda>c. c \<noteq> CHR '']'') rest2
      in if prefix ''tables['' path \<and> table \<noteq> '''' \<and> prefix ''].checks['' after \<and> check \<noteq> ''''
            \<and> drop (length check) rest2 = ''].expression''
         then Some table else None)"

fun id_list :: "json \<Rightarrow> bool" where
  "id_list (JList xs) = list_all (\<lambda>x. is_object x \<and> (case get_id x of Some i \<Rightarrow> is_string i | None \<Rightarrow> False)) xs"
| "id_list _ = False"

fun item_id :: "json \<Rightarrow> string" where
  "item_id (JObj kvs) = (case map_of kvs ''id'' of Some (JStr s) \<Rightarrow> s | _ \<Rightarrow> '''')"
| "item_id _ = ''''"

fun items_of :: "doc \<Rightarrow> json list" where
  "items_of (Some (JList xs)) = xs"
| "items_of _ = []"

definition item_map :: "doc \<Rightarrow> (string, json) dict" where
  "item_map value = dict_by item_id (items_of value)"

fun string_list :: "json \<Rightarrow> bool" where
  "string_list (JList xs) = list_all is_string xs"
| "string_list _ = False"

lemma item_map_smaller [simp]: "kv \<in> set (item_map (Some v)) \<Longrightarrow> size (snd kv) < size v"
proof -
  assume "kv \<in> set (item_map (Some v))"
  then have m: "map_of (item_map (Some v)) (fst kv) = Some (snd kv)"
    using dict_wf_dict_by[of item_id "items_of (Some v)"] by (simp add: item_map_def dict_wf_def)
  obtain xs where v: "v = JList xs" using m by (cases v) (simp_all add: item_map_def dict_by_def)
  with m show ?thesis by (auto simp: item_map_def dest: dict_by_Some simp del: json.size)
qed

definition check_types_at :: "merger \<Rightarrow> string \<Rightarrow> (string, string) dict option" where
  "check_types_at m path =
     (case check_path_table path of None \<Rightarrow> None | Some table \<Rightarrow> map_of (mg_check_column_types m) table)"

fun string_value :: "json \<Rightarrow> string" where
  "string_value (JStr s) = s"
| "string_value _ = ''''"

lemma zip_smaller: "iba \<in> set (enumerate n (zip xs ys)) \<Longrightarrow> size (fst (snd iba)) < size (JList xs)"
  by (metis enumerate_eq_zip in_set_zipE prod.collapse set_zip_leftD set_zip_rightD size_json_member)

function equivalent_value :: "merger \<Rightarrow> string \<Rightarrow> json \<Rightarrow> json \<Rightarrow> bool" where
  "equivalent_value m path left right =
     (if is_string left \<and> is_string right \<and> suffix ''.expression'' path \<and> check_types_at m path \<noteq> None
      then equivalent_check_expressions (mg_normal m) (string_value left) (string_value right)
             (the (check_types_at m path))
      else if suffix ''.columns'' path \<and> id_list left \<and> id_list right
      then set (dict_keys (item_map (Some left))) = set (dict_keys (item_map (Some right)))
           \<and> (\<forall>kv\<in>set (item_map (Some left)). case map_of (item_map (Some right)) (fst kv) of None \<Rightarrow> False
                | Some r \<Rightarrow> equivalent_value m (indexed path (fst kv)) (snd kv) r)
      else if unordered_dependency_path path \<and> string_list left \<and> string_list right
      then set (items_of (Some left)) = set (items_of (Some right))
      else case left of
        JObj xs \<Rightarrow> (case right of
            JObj ys \<Rightarrow> set (dict_keys xs) = set (dict_keys ys)
              \<and> (\<forall>kv\<in>set xs. case map_of ys (fst kv) of None \<Rightarrow> False
                   | Some r \<Rightarrow> equivalent_value m (dotted path (fst kv)) (snd kv) r)
          | _ \<Rightarrow> False)
      | JList xs \<Rightarrow> (case right of
            JList ys \<Rightarrow> length xs = length ys
              \<and> (\<forall>iba\<in>set (enumerate 0 (zip xs ys)).
                   equivalent_value m (indexed path (nat_str (fst iba))) (fst (snd iba)) (snd (snd iba)))
          | _ \<Rightarrow> False)
      | _ \<Rightarrow> py_eq left right)"
  by pat_completeness auto
termination
  by (relation "measure (\<lambda>(m, path, left, right). size left)") (auto dest: zip_smaller simp del: json.size)

declare equivalent_value.simps [simp del]

fun equivalent_doc :: "merger \<Rightarrow> string \<Rightarrow> doc \<Rightarrow> doc \<Rightarrow> bool" where
  "equivalent_doc m path (Some left) (Some right) = equivalent_value m path left right"
| "equivalent_doc m path None None = True"
| "equivalent_doc m path _ _ = False"

section \<open>Merging\<close>

definition external_of :: "merger \<Rightarrow> string \<Rightarrow> doc \<Rightarrow> doc \<Rightarrow> external_change" where
  "external_of m path baseline live =
     (let operation = merge_operation baseline live in
      \<lparr>xc_id = merge_identifier (mg_sha256 m) ''mec'' [JStr path, doc_value baseline, doc_value live],
       xc_object_kind = path_kind path, xc_object_path = display_path path, xc_operation = operation,
       xc_summary = ''PostgreSQL '' @ operation_text operation @ '' '' @ display_path path @ '' outside Schemii'',
       xc_baseline_value = doc_value baseline, xc_live_value = doc_value live\<rparr>)"

definition conflict_id :: "merger \<Rightarrow> string \<Rightarrow> doc \<Rightarrow> doc \<Rightarrow> doc \<Rightarrow> string" where
  "conflict_id m path baseline desired live = merge_identifier (mg_sha256 m) ''mcf''
     [JStr path, doc_value baseline, doc_value desired, doc_value live]"

type_synonym merge_result = "doc \<times> external_change list \<times> migration_conflict list"

definition merge_conflict :: "merger \<Rightarrow> string \<Rightarrow> doc \<Rightarrow> doc \<Rightarrow> doc \<Rightarrow> conflict_category \<Rightarrow> merge_result" where
  "merge_conflict m path baseline desired live category =
     (let i = conflict_id m path baseline desired live; resolution = map_of (mg_resolutions m) i in
      if resolution = Some ''pull_live'' then (live, [], [])
      else if resolution = Some ''keep_design'' then (desired, [], [])
      else (desired, [],
        [\<lparr>mc_id = i, mc_category = category, mc_object_kind = path_kind path, mc_object_path = display_path path,
          mc_summary = ''Schemii and PostgreSQL changed '' @ display_path path @ '' differently'',
          mc_baseline_value = doc_value baseline, mc_design_value = doc_value desired,
          mc_live_value = doc_value live, mc_affected_objects = [],
          mc_allowed_resolutions = [PullLive, KeepDesign]\<rparr>]))"

fun object_or_missing :: "doc \<Rightarrow> bool" where
  "object_or_missing None = True"
| "object_or_missing (Some v) = is_object v"

fun list_or_missing :: "doc \<Rightarrow> bool" where
  "list_or_missing None = True"
| "list_or_missing (Some v) = id_list v"

fun fields_of :: "doc \<Rightarrow> (string, json) dict" where
  "fields_of (Some (JObj kvs)) = kvs"
| "fields_of _ = []"

text \<open>Fields and items in the order the loops of \<open>merge\<close> collect them.\<close>

definition merge_keys :: "doc \<Rightarrow> doc \<Rightarrow> doc \<Rightarrow> string list" where
  "merge_keys baseline desired live = dedupe (concat (map (\<lambda>v. dict_keys (fields_of v)) [baseline, desired, live]))"

definition merge_order :: "doc \<Rightarrow> doc \<Rightarrow> doc \<Rightarrow> string list" where
  "merge_order baseline desired live = dedupe (concat (map (\<lambda>v. map item_id (items_of v)) [desired, baseline, live]))"

definition present :: "('k \<times> merge_result) list \<Rightarrow> ('k \<times> json) list" where
  "present parts = concat (map (\<lambda>(k, r). case fst r of None \<Rightarrow> [] | Some v \<Rightarrow> [(k, v)]) parts)"

definition gather :: "('k \<times> merge_result) list \<Rightarrow> external_change list \<times> migration_conflict list" where
  "gather parts = (concat (map (fst \<circ> snd \<circ> snd) parts), concat (map (snd \<circ> snd \<circ> snd) parts))"

fun doc_size :: "doc \<Rightarrow> nat" where
  "doc_size None = 0"
| "doc_size (Some v) = Suc (size v)"

lemma field_smaller:
  "doc_size (map_of (fields_of v) k) \<le> doc_size v"
  "k \<in> set (dict_keys (fields_of v)) \<Longrightarrow> doc_size (map_of (fields_of v) k) < doc_size v"
proof -
  have s: "doc_size (map_of (fields_of v) k) < doc_size v" if "map_of (fields_of v) k \<noteq> None"
    using that by (cases v rule: fields_of.cases) (auto simp del: json.size)
  show "k \<in> set (dict_keys (fields_of v)) \<Longrightarrow> doc_size (map_of (fields_of v) k) < doc_size v"
    by (rule s) (simp add: map_of_eq_None_iff dict_keys_def)
  show "doc_size (map_of (fields_of v) k) \<le> doc_size v" using s by (cases "map_of (fields_of v) k") auto
qed

lemma item_smaller:
  "doc_size (map_of (item_map v) k) \<le> doc_size v"
  "k \<in> set (map item_id (items_of v)) \<Longrightarrow> doc_size (map_of (item_map v) k) < doc_size v"
proof -
  have s: "doc_size (map_of (item_map v) k) < doc_size v" if "map_of (item_map v) k \<noteq> None"
  proof -
    from that obtain x where x: "map_of (item_map v) k = Some x" by auto
    moreover from this obtain j where j: "v = Some j" by (cases v) (auto simp: item_map_def dict_by_def)
    ultimately show ?thesis using item_map_smaller[OF map_of_SomeD[OF x[unfolded j]]] by simp
  qed
  show "k \<in> set (map item_id (items_of v)) \<Longrightarrow> doc_size (map_of (item_map v) k) < doc_size v"
    by (rule s) (simp add: item_map_def dict_by_None)
  show "doc_size (map_of (item_map v) k) \<le> doc_size v" using s by (cases "map_of (item_map v) k") auto
qed

definition docs_size :: "doc \<times> doc \<times> doc \<Rightarrow> nat" where
  "docs_size t = (case t of (b, d, l) \<Rightarrow> doc_size b + doc_size d + doc_size l)"

lemma key_docs_smaller:
  "k \<in> set (merge_keys b d l) \<Longrightarrow>
   docs_size (map_of (fields_of b) k, map_of (fields_of d) k, map_of (fields_of l) k) < docs_size (b, d, l)"
  using field_smaller(1)[of b k] field_smaller(1)[of d k] field_smaller(1)[of l k]
    field_smaller(2)[of k b] field_smaller(2)[of k d] field_smaller(2)[of k l]
  by (auto simp: merge_keys_def docs_size_def)

lemma item_docs_smaller:
  "k \<in> set (merge_order b d l) \<Longrightarrow>
   docs_size (map_of (item_map b) k, map_of (item_map d) k, map_of (item_map l) k) < docs_size (b, d, l)"
  using item_smaller(1)[of b k] item_smaller(1)[of d k] item_smaller(1)[of l k]
    item_smaller(2)[of k b] item_smaller(2)[of k d] item_smaller(2)[of k l]
  by (auto simp: merge_order_def docs_size_def)

function merge :: "merger \<Rightarrow> doc \<Rightarrow> doc \<Rightarrow> doc \<Rightarrow> string \<Rightarrow> merge_result" where
  "merge m baseline desired live path =
     (if desired = None \<and> live = None then (None, [], [])
      else if equivalent_doc m path desired live then (desired, [], [])
      else if baseline \<noteq> None \<and> desired = None \<and> live \<noteq> None
      then merge_conflict m path baseline desired live StructuralConflict
      else if baseline \<noteq> None \<and> live = None \<and> desired \<noteq> None
      then merge_conflict m path baseline desired live StructuralConflict
      else if list_all object_or_missing [baseline, desired, live]
      then (let parts = map (\<lambda>key. (key, merge m (map_of (fields_of baseline) key) (map_of (fields_of desired) key)
                  (map_of (fields_of live) key) (dotted path key))) (merge_keys baseline desired live)
            in (Some (JObj (present parts)), gather parts))
      else if list_all list_or_missing [baseline, desired, live]
      then (let parts = map (\<lambda>i. (i, merge m (map_of (item_map baseline) i) (map_of (item_map desired) i)
                  (map_of (item_map live) i) (indexed path i))) (merge_order baseline desired live)
            in (Some (JList (map snd (present parts))), gather parts))
      else if equivalent_doc m path desired baseline
      then (live, (if equivalent_doc m path live baseline then [] else [external_of m path baseline live]), [])
      else if equivalent_doc m path live baseline then (desired, [], [])
      else merge_conflict m path baseline desired live DirectConflict)"
  by pat_completeness auto
termination
  by (relation "measure (\<lambda>(m, b, d, l, path). docs_size (b, d, l))") (auto simp: key_docs_smaller item_docs_smaller)

declare merge.simps [simp del]

text \<open>The branches of the merge as equations.\<close>

definition comparable :: "merger \<Rightarrow> doc \<Rightarrow> doc \<Rightarrow> doc \<Rightarrow> string \<Rightarrow> bool" where
  "comparable m b d l path = (\<not> equivalent_doc m path d l \<and> (b = None \<or> d \<noteq> None \<and> l \<noteq> None))"

definition field_parts :: "merger \<Rightarrow> doc \<Rightarrow> doc \<Rightarrow> doc \<Rightarrow> string \<Rightarrow> (string \<times> merge_result) list" where
  "field_parts m b d l path = map (\<lambda>key. (key, merge m (map_of (fields_of b) key) (map_of (fields_of d) key)
     (map_of (fields_of l) key) (dotted path key))) (merge_keys b d l)"

definition item_parts :: "merger \<Rightarrow> doc \<Rightarrow> doc \<Rightarrow> doc \<Rightarrow> string \<Rightarrow> (string \<times> merge_result) list" where
  "item_parts m b d l path = map (\<lambda>i. (i, merge m (map_of (item_map b) i) (map_of (item_map d) i)
     (map_of (item_map l) i) (indexed path i))) (merge_order b d l)"

lemma equivalent_missing:
  "equivalent_doc m path None l \<longleftrightarrow> l = None" "equivalent_doc m path d None \<longleftrightarrow> d = None"
  by (cases l; simp) (cases d; simp)

lemma merge_same: "equivalent_doc m path d l \<Longrightarrow> merge m b d l path = (d, [], [])"
  by (subst merge.simps) (auto simp: equivalent_missing)

lemma merge_structural:
  "\<not> equivalent_doc m path d l \<Longrightarrow> b \<noteq> None \<Longrightarrow> d = None \<or> l = None \<Longrightarrow>
   merge m b d l path = merge_conflict m path b d l StructuralConflict"
  by (subst merge.simps) (auto simp: equivalent_missing)

lemma merge_objects:
  assumes "comparable m b d l path" "list_all object_or_missing [b, d, l]"
  shows "merge m b d l path = (Some (JObj (present (field_parts m b d l path))), gather (field_parts m b d l path))"
proof -
  have "\<not> (d = None \<and> l = None)" "\<not> equivalent_doc m path d l" "\<not> (b \<noteq> None \<and> d = None \<and> l \<noteq> None)"
    "\<not> (b \<noteq> None \<and> l = None \<and> d \<noteq> None)" using assms(1) by (auto simp: comparable_def equivalent_missing)
  then show ?thesis unfolding field_parts_def
    by (subst merge.simps) (simp only: if_False assms(2) if_True Let_def simp_thms)
qed

lemma merge_lists:
  assumes "comparable m b d l path" "\<not> list_all object_or_missing [b, d, l]" "list_all list_or_missing [b, d, l]"
  shows "merge m b d l path = (Some (JList (map snd (present (item_parts m b d l path)))), gather (item_parts m b d l path))"
proof -
  have "\<not> (d = None \<and> l = None)" "\<not> equivalent_doc m path d l" "\<not> (b \<noteq> None \<and> d = None \<and> l \<noteq> None)"
    "\<not> (b \<noteq> None \<and> l = None \<and> d \<noteq> None)" using assms(1) by (auto simp: comparable_def equivalent_missing)
  then show ?thesis unfolding item_parts_def
    by (subst merge.simps) (simp only: if_False assms(2,3) if_True Let_def simp_thms)
qed

lemma merge_leaf:
  assumes "comparable m b d l path" "\<not> list_all object_or_missing [b, d, l]" "\<not> list_all list_or_missing [b, d, l]"
  shows "merge m b d l path =
    (if equivalent_doc m path d b
     then (l, (if equivalent_doc m path l b then [] else [external_of m path b l]), [])
     else if equivalent_doc m path l b then (d, [], [])
     else merge_conflict m path b d l DirectConflict)"
proof -
  have "\<not> (d = None \<and> l = None)" "\<not> equivalent_doc m path d l" "\<not> (b \<noteq> None \<and> d = None \<and> l \<noteq> None)"
    "\<not> (b \<noteq> None \<and> l = None \<and> d \<noteq> None)" using assms(1) by (auto simp: comparable_def equivalent_missing)
  then show ?thesis by (subst merge.simps) (simp only: if_False assms(2,3) simp_thms)
qed

text \<open>Induction over the merge, one case per branch.\<close>

lemma merge_induct [case_names same structural objects lists leaf]:
  assumes "\<And>m b d l path. equivalent_doc m path d l \<Longrightarrow> P m b d l path"
    and "\<And>m b d l path. \<not> equivalent_doc m path d l \<Longrightarrow> b \<noteq> None \<Longrightarrow> d = None \<or> l = None \<Longrightarrow> P m b d l path"
    and "\<And>m b d l path. comparable m b d l path \<Longrightarrow> list_all object_or_missing [b, d, l] \<Longrightarrow>
      (\<And>k. k \<in> set (merge_keys b d l) \<Longrightarrow>
         P m (map_of (fields_of b) k) (map_of (fields_of d) k) (map_of (fields_of l) k) (dotted path k)) \<Longrightarrow> P m b d l path"
    and "\<And>m b d l path. comparable m b d l path \<Longrightarrow> \<not> list_all object_or_missing [b, d, l] \<Longrightarrow>
      list_all list_or_missing [b, d, l] \<Longrightarrow>
      (\<And>i. i \<in> set (merge_order b d l) \<Longrightarrow>
         P m (map_of (item_map b) i) (map_of (item_map d) i) (map_of (item_map l) i) (indexed path i)) \<Longrightarrow> P m b d l path"
    and "\<And>m b d l path. comparable m b d l path \<Longrightarrow> \<not> list_all object_or_missing [b, d, l] \<Longrightarrow>
      \<not> list_all list_or_missing [b, d, l] \<Longrightarrow> P m b d l path"
  shows "P m b d l path"
proof (induction m b d l path rule: merge.induct)
  case (1 m b d l path)
  show ?case
  proof (cases "equivalent_doc m path d l")
    case True
    then show ?thesis by (rule assms(1))
  next
    case False
    then have some: "\<not> (d = None \<and> l = None)" by (auto simp: equivalent_missing)
    show ?thesis
    proof (cases "b \<noteq> None \<and> (d = None \<or> l = None)")
      case True
      then show ?thesis using assms(2) False by blast
    next
      case kept: False
      then have c: "comparable m b d l path" using False some by (auto simp: comparable_def)
      have g: "\<not> (b \<noteq> None \<and> d = None \<and> l \<noteq> None)" "\<not> (b \<noteq> None \<and> l = None \<and> d \<noteq> None)" using kept by auto
      show ?thesis
      proof (cases "list_all object_or_missing [b, d, l]")
        case True
        then show ?thesis by (intro assms(3)[OF c] "1.IH"(1)[OF some False g]) simp_all
      next
        case no: False
        show ?thesis
        proof (cases "list_all list_or_missing [b, d, l]")
          case True
          then show ?thesis by (intro assms(4)[OF c no] "1.IH"(2)[OF some False g no]) simp_all
        qed (rule assms(5)[OF c no])
      qed
    qed
  qed
qed

end
