(* ===== verification/Planner_Merge_Properties.thy ===== *)
theory Planner_Merge_Properties
  imports Planner_Merge
begin

text \<open>
  What the three-way merge guarantees: resolutions settle exactly the conflicts they name, a merge
  without conflicts keeps every object of the design and of the database, deleting an object both
  the baseline and the database have is always a conflict, and without drift the merge is the design.
\<close>

section \<open>Resolutions\<close>

lemma equivalent_resolutions: "equivalent_value (m\<lparr>mg_resolutions := rs\<rparr>) path left right = equivalent_value m path left right"
proof (induction m path left right rule: equivalent_value.induct)
  case (1 m path left right)
  then show ?case
    by (subst (1 2) equivalent_value.simps)
      (auto simp: check_types_at_def split: option.splits json.splits)
qed

lemma equivalent_doc_resolutions [simp]:
  "equivalent_doc (m\<lparr>mg_resolutions := rs\<rparr>) path d l = equivalent_doc m path d l"
  by (cases d; cases l) (simp_all add: equivalent_resolutions)

definition settled :: "(string, string) dict \<Rightarrow> migration_conflict \<Rightarrow> bool" where
  "settled resolutions c = (map_of resolutions (mc_id c) \<in> {Some ''pull_live'', Some ''keep_design''})"

lemma merge_conflict_settled:
  "snd (merge_conflict m path b d l cat) =
     ([], filter (\<lambda>c. \<not> settled (mg_resolutions m) c) (snd (snd (merge_conflict (m\<lparr>mg_resolutions := []\<rparr>) path b d l cat))))"
  by (auto simp: merge_conflict_def settled_def conflict_id_def Let_def)

lemma merge_conflict_external: "fst (snd (merge_conflict m path b d l cat)) = []"
  by (simp add: merge_conflict_def Let_def)

lemma external_of_resolutions [simp]: "external_of (m\<lparr>mg_resolutions := rs\<rparr>) path b l = external_of m path b l"
  by (simp add: external_of_def)

lemma gather_filter:
  assumes "\<And>k. k \<in> set ks \<Longrightarrow> snd (f k) = (fst (snd (g k)), filter P (snd (snd (g k))))"
  shows "gather (map (\<lambda>k. (k, f k)) ks) = (fst (gather (map (\<lambda>k. (k, g k)) ks)), filter P (snd (gather (map (\<lambda>k. (k, g k)) ks))))"
  using assms by (induction ks) (simp_all add: gather_def)

lemma comparable_resolutions [simp]: "comparable (m\<lparr>mg_resolutions := rs\<rparr>) b d l path = comparable m b d l path"
  by (simp add: comparable_def)

lemma merge_settled:
  "snd (merge m b d l path) =
     (fst (snd (merge (m\<lparr>mg_resolutions := []\<rparr>) b d l path)),
      filter (\<lambda>c. \<not> settled (mg_resolutions m) c) (snd (snd (merge (m\<lparr>mg_resolutions := []\<rparr>) b d l path))))"
proof (induction m b d l path rule: merge_induct)
  case (same m b d l path)
  then show ?case by (simp add: merge_same)
next
  case (structural m b d l path)
  then show ?case by (simp add: merge_structural merge_conflict_settled[of m] merge_conflict_external)
next
  case (objects m b d l path)
  have "gather (field_parts m b d l path) = (fst (gather (field_parts (m\<lparr>mg_resolutions := []\<rparr>) b d l path)),
      filter (\<lambda>c. \<not> settled (mg_resolutions m) c) (snd (gather (field_parts (m\<lparr>mg_resolutions := []\<rparr>) b d l path))))"
    unfolding field_parts_def by (rule gather_filter) (rule objects(3))
  then show ?case
    using objects(1) by (simp only: merge_objects[OF _ objects(2)] comparable_resolutions fst_conv snd_conv)
next
  case (lists m b d l path)
  have "gather (item_parts m b d l path) = (fst (gather (item_parts (m\<lparr>mg_resolutions := []\<rparr>) b d l path)),
      filter (\<lambda>c. \<not> settled (mg_resolutions m) c) (snd (gather (item_parts (m\<lparr>mg_resolutions := []\<rparr>) b d l path))))"
    unfolding item_parts_def by (rule gather_filter) (rule lists(4))
  then show ?case
    using lists(1) by (simp only: merge_lists[OF _ lists(2,3)] comparable_resolutions fst_conv snd_conv)
next
  case (leaf m b d l path)
  then show ?case
    using merge_leaf[OF leaf] merge_leaf[of "m\<lparr>mg_resolutions := []\<rparr>" b d l path, OF _ leaf(2,3)]
    by (simp add: merge_conflict_settled[of m] merge_conflict_external del: list.pred_inject)
qed

text \<open>
  Resolutions settle exactly the conflicts they name: a merge run with resolutions reports the
  conflicts of the run without them that no resolution names, in the same order, and the same
  external changes. In particular, once every reported conflict has a resolution, the merge has none
  left.
\<close>

theorem resolutions_settle_conflicts:
  "snd (merge m b d l path) =
     (fst (snd (merge (m\<lparr>mg_resolutions := []\<rparr>) b d l path)),
      filter (\<lambda>c. map_of (mg_resolutions m) (mc_id c) \<notin> {Some ''pull_live'', Some ''keep_design''})
        (snd (snd (merge (m\<lparr>mg_resolutions := []\<rparr>) b d l path))))"
  using merge_settled[of m b d l path] by (simp add: settled_def)

section \<open>Objects\<close>

text \<open>A document that is missing or an object with the given id.\<close>

definition ident :: "string \<Rightarrow> doc \<Rightarrow> bool" where
  "ident i v = (case v of None \<Rightarrow> True | Some j \<Rightarrow> is_object j \<and> map_of (fields_of v) ''id'' = Some (JStr i))"

abbreviation ids :: "json list \<Rightarrow> string list" where
  "ids xs \<equiv> map item_id xs"

lemma present_simps [simp]:
  "present [] = []"
  "present ((k, r) # parts) = (case fst r of None \<Rightarrow> [] | Some v \<Rightarrow> [(k, v)]) @ present parts"
  by (simp_all add: present_def)

lemma map_of_present:
  assumes "distinct ks" "k \<in> set ks"
  shows "map_of (present (map (\<lambda>k. (k, f k)) ks)) k = fst (f k)"
proof -
  have absent: "map_of (present (map (\<lambda>k. (k, f k)) xs)) k = None" if "k \<notin> set xs" for xs
    using that by (induction xs) (auto split: option.split)
  show ?thesis using assms
  proof (induction ks)
    case (Cons x xs)
    show ?case
      using Cons absent[of xs] by (cases "x = k") (auto split: option.split)
  qed simp
qed

lemma fst_present: "map fst (present (map (\<lambda>k. (k, f k)) ks)) = filter (\<lambda>k. fst (f k) \<noteq> None) ks"
  by (induction ks) (auto split: option.split)

lemma set_present: "set (present (map (\<lambda>k. (k, f k)) ks)) = {(k, v). k \<in> set ks \<and> fst (f k) = Some v}"
  by (induction ks) (auto split: option.split)

lemma gather_conflicts: "snd (gather (map (\<lambda>k. (k, f k)) ks)) = [] \<longleftrightarrow> (\<forall>k\<in>set ks. snd (snd (f k)) = [])"
  by (simp add: gather_def)

lemma item_map_at:
  "map_of (item_map v) i = Some x \<Longrightarrow> x \<in> set (items_of v) \<and> item_id x = i"
  "map_of (item_map v) i = None \<longleftrightarrow> i \<notin> set (ids (items_of v))"
  by (auto simp: item_map_def dest: dict_by_Some) (auto simp: dict_by_None)

lemma id_list_ident: "id_list (JList xs) \<Longrightarrow> x \<in> set xs \<Longrightarrow> ident (item_id x) (Some x)"
proof -
  assume "id_list (JList xs)" "x \<in> set xs"
  then have "is_object x" "\<exists>j. get_id x = Some j \<and> is_string j" by (auto simp: list_all_iff split: option.splits)
  then show ?thesis by (cases x) (auto simp: ident_def elim!: is_string.elims)
qed

lemma item_ident: "list_or_missing v \<Longrightarrow> ident i (map_of (item_map v) i)"
proof (cases "map_of (item_map v) i")
  case (Some x)
  assume "list_or_missing v"
  with item_map_at(1)[OF Some] Some show ?thesis
    by (cases v rule: items_of.cases) (auto intro: id_list_ident)
qed (simp add: ident_def)

lemma string_equivalent: "equivalent_value m path (JStr s) (JStr s)"
  by (subst equivalent_value.simps) (simp add: equivalent_check_expressions_def)

lemma merge_string:
  assumes "b \<in> {None, Some (JStr i)}" "d \<in> {None, Some (JStr i)}" "l \<in> {None, Some (JStr i)}"
    and "d \<noteq> None \<or> l \<noteq> None" "b = None \<or> d \<noteq> None \<and> l \<noteq> None"
  shows "fst (merge m b d l path) = Some (JStr i)"
proof (cases "d \<noteq> None \<and> l \<noteq> None")
  case True
  with assms(2,3) show ?thesis by (auto simp: merge_same string_equivalent)
next
  case False
  with assms have c: "b = None" "comparable m b d l path" "\<not> list_all object_or_missing [b, d, l]" "\<not> list_all list_or_missing [b, d, l]"
    by (auto simp: comparable_def)
  show ?thesis unfolding merge_leaf[OF c(2-4)] using False assms c(1) by auto
qed

lemma unresolved_conflict: "mg_resolutions m = [] \<Longrightarrow> snd (snd (merge_conflict m path b d l cat)) \<noteq> []"
  by (simp add: merge_conflict_def Let_def)

text \<open>Merging the three versions of one object without a conflict gives that object.\<close>

lemma merge_ident:
  assumes "mg_resolutions m = []" "ident i b" "ident i d" "ident i l" "d \<noteq> None \<or> l \<noteq> None"
    and "snd (snd (merge m b d l path)) = []"
  shows "(b \<noteq> None \<longrightarrow> d \<noteq> None \<and> l \<noteq> None) \<and> (\<exists>kvs. fst (merge m b d l path) = Some (JObj kvs) \<and> map_of kvs ''id'' = Some (JStr i))"
proof (cases "equivalent_doc m path d l")
  case True
  moreover from this assms(5) have "d \<noteq> None" "l \<noteq> None" by (cases d; cases l; simp)+
  ultimately show ?thesis using assms(3)
    by (auto simp: merge_same ident_def elim!: is_object.elims)
next
  case False
  have kept: "b = None \<or> d \<noteq> None \<and> l \<noteq> None"
    using assms(6) unresolved_conflict[OF assms(1)] merge_structural[OF False, of b] by metis
  with False have c: "comparable m b d l path" by (simp add: comparable_def)
  have o: "list_all object_or_missing [b, d, l]"
    using assms(2-4) by (auto simp: ident_def split: option.splits)
  let ?f = "\<lambda>key. merge m (map_of (fields_of b) key) (map_of (fields_of d) key) (map_of (fields_of l) key) (dotted path key)"
  have id: "map_of (fields_of v) ''id'' = (if v = None then None else Some (JStr i))" if "ident i v" for v
    using that by (auto simp: ident_def split: option.splits)
  have k: "''id'' \<in> set (merge_keys b d l)"
  proof -
    obtain v where v: "v \<in> {d, l}" "v \<noteq> None" using assms(5) by auto
    then have "''id'' \<in> set (dict_keys (fields_of v))"
      using assms(3,4) id[of v] by (auto simp: dict_keys_def dest!: map_of_SomeD intro!: rev_image_eqI)
    with v show ?thesis by (auto simp: merge_keys_def)
  qed
  have "map_of (present (field_parts m b d l path)) ''id'' = fst (?f ''id'')"
    unfolding field_parts_def by (rule map_of_present[OF _ k]) (simp add: merge_keys_def)
  also have "\<dots> = Some (JStr i)"
    using kept assms(5) by (intro merge_string) (auto simp: id assms(2-4))
  finally show ?thesis using kept by (simp only: merge_objects[OF c o]) auto
qed

text \<open>Equivalent lists hold the same objects.\<close>

lemma dict_keys_item_map: "set (dict_keys (item_map (Some (JList xs)))) = set (ids xs)"
  by (simp add: item_map_def dict_keys_def fst_set_dict_by)

lemma equivalent_ident:
  assumes "ident i (Some x)" "ident j (Some y)" "equivalent_value m path x y"
  shows "i = j"
proof -
  obtain xs ys where o: "x = JObj xs" "y = JObj ys" "map_of xs ''id'' = Some (JStr i)" "map_of ys ''id'' = Some (JStr j)"
    using assms(1,2) by (auto simp: ident_def elim!: is_object.elims)
  have f: "\<forall>kv\<in>set xs. case map_of ys (fst kv) of None \<Rightarrow> False | Some r \<Rightarrow> equivalent_value m (dotted path (fst kv)) (snd kv) r"
    using assms(3) unfolding o(1,2) by (subst (asm) equivalent_value.simps) simp
  have "equivalent_value m (dotted path ''id'') (JStr i) (JStr j)"
    using bspec[OF f map_of_SomeD[OF o(3)]] o(4) by simp
  moreover have "\<not> suffix ''.expression'' (dotted path ''id'')"
    by (auto simp: dotted_def suffix_def dest: arg_cong[where f = last] split: if_splits)
  ultimately show ?thesis by (subst (asm) equivalent_value.simps) simp
qed

lemma equivalent_ids:
  assumes "id_list (JList xs)" "id_list (JList ys)" "equivalent_value m path (JList xs) (JList ys)"
  shows "set (ids xs) = set (ids ys)"
proof (cases "suffix ''.columns'' path")
  case True
  with assms show ?thesis by (subst (asm) equivalent_value.simps) (simp add: dict_keys_item_map)
next
  case columns: False
  show ?thesis
  proof (cases "unordered_dependency_path path \<and> string_list (JList xs) \<and> string_list (JList ys)")
    case True
    then have "xs = []" "ys = []" using assms(1,2) by (cases xs; cases ys; auto elim!: is_string.elims)+
    then show ?thesis by simp
  next
    case False
    have e: "length xs = length ys" "\<forall>iba\<in>set (enumerate 0 (zip xs ys)).
        equivalent_value m (indexed path (nat_str (fst iba))) (fst (snd iba)) (snd (snd iba))"
      using assms(3) columns False by (subst (asm) equivalent_value.simps; simp del: id_list.simps string_list.simps)+
    have "item_id (xs ! n) = item_id (ys ! n)" if "n < length xs" for n
    proof (rule equivalent_ident)
      have "(n, xs ! n, ys ! n) \<in> set (enumerate 0 (zip xs ys))"
        using that e(1) by (simp add: in_set_enumerate_eq)
      with e(2) show "equivalent_value m (indexed path (nat_str n)) (xs ! n) (ys ! n)" by fastforce
      show "ident (item_id (xs ! n)) (Some (xs ! n))" "ident (item_id (ys ! n)) (Some (ys ! n))"
        using that e(1) by (auto intro: id_list_ident[OF assms(1)] id_list_ident[OF assms(2)])
    qed
    then have "ids xs = ids ys" using e(1) by (simp add: list_eq_iff_nth_eq)
    then show ?thesis by (rule arg_cong)
  qed
qed

lemma merge_objects_kept:
  assumes "mg_resolutions m = []" "id_list (JList bs)" "id_list (JList ds)" "id_list (JList ls)"
    and "snd (snd (merge m (Some (JList bs)) (Some (JList ds)) (Some (JList ls)) path)) = []"
  obtains ms where "fst (merge m (Some (JList bs)) (Some (JList ds)) (Some (JList ls)) path) = Some (JList ms)"
    "set (ids ms) = set (ids ds) \<union> set (ids ls)" "\<forall>i\<in>set (ids bs). i \<in> set (ids ds) \<longleftrightarrow> i \<in> set (ids ls)"
    "distinct (ids ds) \<Longrightarrow> distinct (ids ms)"
proof (cases "equivalent_value m path (JList ds) (JList ls)")
  case True
  with equivalent_ids[OF assms(3,4) True] show ?thesis by (intro that[of ds]) (simp_all add: merge_same)
next
  case False
  let ?b = "Some (JList bs)" and ?d = "Some (JList ds)" and ?l = "Some (JList ls)"
  have c: "comparable m ?b ?d ?l path" "\<not> list_all object_or_missing [?b, ?d, ?l]" "list_all list_or_missing [?b, ?d, ?l]"
    using False assms(2-4) by (simp_all add: comparable_def)
  let ?f = "\<lambda>i. merge m (map_of (item_map ?b) i) (map_of (item_map ?d) i) (map_of (item_map ?l) i) (indexed path i)"
  let ?o = "merge_order ?b ?d ?l" and ?ms = "map snd (present (item_parts m ?b ?d ?l path))"
  have quiet: "snd (snd (?f i)) = []" if "i \<in> set ?o" for i
    using assms(5) that by (simp only: merge_lists[OF c] snd_conv item_parts_def gather_conflicts)
  have known: "map_of (item_map (Some (JList xs))) i \<noteq> None \<longleftrightarrow> i \<in> set (ids xs)" for xs i
    using item_map_at(2)[of "Some (JList xs)" i] by simp
  have part: "(map_of (item_map ?b) i \<noteq> None \<longrightarrow> map_of (item_map ?d) i \<noteq> None \<and> map_of (item_map ?l) i \<noteq> None)
      \<and> (\<exists>kvs. fst (?f i) = Some (JObj kvs) \<and> map_of kvs ''id'' = Some (JStr i))"
    if "i \<in> set (ids ds) \<union> set (ids ls)" for i
  proof (rule merge_ident[OF assms(1) item_ident item_ident item_ident])
    show "map_of (item_map ?d) i \<noteq> None \<or> map_of (item_map ?l) i \<noteq> None" using that by (simp only: known) blast
    show "snd (snd (?f i)) = []" using that by (intro quiet) (auto simp: merge_order_def)
  qed (use assms(2-4) in simp_all)
  have gone: "fst (?f i) = None" if "i \<notin> set (ids ds) \<union> set (ids ls)" for i
  proof -
    have "map_of (item_map ?d) i = None" "map_of (item_map ?l) i = None" using that known[of ds i] known[of ls i] by auto
    then show ?thesis by (simp add: merge_same)
  qed
  have o: "set ?o = set (ids ds) \<union> set (ids bs) \<union> set (ids ls)" by (auto simp: merge_order_def)
  have named: "item_id v = i" if "(i, v) \<in> set (present (item_parts m ?b ?d ?l path))" for i v
    using that part[of i] gone[of i] unfolding item_parts_def set_present by fastforce
  then have eq: "ids ?ms = map fst (present (item_parts m ?b ?d ?l path))" by (simp add: case_prod_beta)
  also have "\<dots> = filter (\<lambda>i. fst (?f i) \<noteq> None) ?o" unfolding item_parts_def by (rule fst_present)
  finally have ids_ms: "ids ?ms = filter (\<lambda>i. fst (?f i) \<noteq> None) ?o" .
  show ?thesis
  proof (rule that[of ?ms])
    show "fst (merge m ?b ?d ?l path) = Some (JList ?ms)" by (simp only: merge_lists[OF c] fst_conv)
    show "set (ids ?ms) = set (ids ds) \<union> set (ids ls)"
      unfolding ids_ms set_filter o using part gone by fastforce
    show "distinct (ids ?ms)" unfolding ids_ms by (simp add: merge_order_def)
    show "\<forall>i\<in>set (ids bs). i \<in> set (ids ds) \<longleftrightarrow> i \<in> set (ids ls)"
      using part known by blast
  qed
qed

text \<open>
  A merge of object lists that reports no conflict loses nothing: the merged list holds exactly the
  objects of the design together with those of the database, each once, and an object of the
  baseline is in the design exactly when it is in the database.
\<close>

theorem merge_keeps_objects:
  assumes "mg_resolutions m = []" "id_list (JList bs)" "id_list (JList ds)" "id_list (JList ls)" "distinct (ids ds)"
    and "merge m (Some (JList bs)) (Some (JList ds)) (Some (JList ls)) path = (merged, external, [])"
  shows "\<exists>ms. merged = Some (JList ms) \<and> set (ids ms) = set (ids ds) \<union> set (ids ls) \<and> distinct (ids ms)
    \<and> (\<forall>i\<in>set (ids bs). i \<in> set (ids ds) \<longleftrightarrow> i \<in> set (ids ls))"
proof -
  have "snd (snd (merge m (Some (JList bs)) (Some (JList ds)) (Some (JList ls)) path)) = []" by (simp add: assms(6))
  from merge_objects_kept[OF assms(1-4) this] show ?thesis using assms(5,6) by (metis fst_conv)
qed

text \<open>
  C17. Deleting an object is always a conflict: when the baseline and the database both have an object of
  a list of the document (a table, type, view, function, trigger or relationship) and the design does
  not, the merge without resolutions reports a conflict, even when the database has not changed since the baseline.
\<close>

theorem deletion_always_conflicts:
  assumes "mg_resolutions m = []" "map_of b field = Some (JList bs)" "map_of d field = Some (JList ds)" "map_of l field = Some (JList ls)"
    and "id_list (JList bs)" "id_list (JList ds)" "id_list (JList ls)"
    and "i \<in> set (ids bs)" "i \<in> set (ids ls)" "i \<notin> set (ids ds)"
  shows "snd (snd (merge m (Some (JObj b)) (Some (JObj d)) (Some (JObj l)) '''')) \<noteq> []"
proof
  let ?b = "Some (JObj b)" and ?d = "Some (JObj d)" and ?l = "Some (JObj l)"
  assume none: "snd (snd (merge m ?b ?d ?l '''')) = []"
  have k: "field \<in> set (merge_keys ?b ?d ?l)"
    using assms(3) by (force simp: merge_keys_def dict_keys_def dest: map_of_SomeD)
  show False
  proof (cases "equivalent_doc m '''' ?d ?l")
    case True
    then have f: "\<forall>kv\<in>set d. case map_of l (fst kv) of None \<Rightarrow> False | Some r \<Rightarrow> equivalent_value m (dotted '''' (fst kv)) (snd kv) r"
      unfolding equivalent_doc.simps by (subst (asm) equivalent_value.simps) simp
    have "equivalent_value m (dotted '''' field) (JList ds) (JList ls)"
      using bspec[OF f map_of_SomeD[OF assms(3)]] assms(4) by simp
    from equivalent_ids[OF assms(6,7) this] assms(9,10) show False by simp
  next
    case False
    then have c: "comparable m ?b ?d ?l ''''" "list_all object_or_missing [?b, ?d, ?l]" by (simp_all add: comparable_def)
    have "snd (snd (merge m (Some (JList bs)) (Some (JList ds)) (Some (JList ls)) (dotted '''' field))) = []"
      using none k assms(2-4) by (fastforce simp: merge_objects[OF c] field_parts_def gather_conflicts)
    from merge_objects_kept[OF assms(1,5-7) this] assms(8-10) show False by blast
  qed
qed

section \<open>No drift\<close>

text \<open>Documents as \<open>model_dump\<close> produces them: distinct keys, and object lists with distinct ids.\<close>

fun doc_wf :: "json \<Rightarrow> bool" where
  "doc_wf (JList xs) = ((id_list (JList xs) \<longrightarrow> distinct (ids xs)) \<and> (\<forall>x\<in>set xs. doc_wf x))"
| "doc_wf (JObj kvs) = (distinct (map fst kvs) \<and> (\<forall>kv\<in>set kvs. doc_wf (snd kv)))"
| "doc_wf _ = True"

text \<open>Nothing of the baseline is deleted: its fields and objects are all in the design, at every level.\<close>

function (sequential) kept :: "json \<Rightarrow> json \<Rightarrow> bool" where
  "kept (JObj bs) (JObj ds) = (\<forall>kv\<in>set bs. case map_of ds (fst kv) of None \<Rightarrow> False | Some v \<Rightarrow> kept (snd kv) v)"
| "kept (JList bs) (JList ds) = (id_list (JList bs) \<and> id_list (JList ds) \<longrightarrow>
     (\<forall>x\<in>set bs. case map_of (item_map (Some (JList ds))) (item_id x) of None \<Rightarrow> False | Some y \<Rightarrow> kept x y))"
| "kept _ _ = True"
  by pat_completeness auto
termination
  by (relation "measure (\<lambda>(b, d). size b)") (auto simp del: json.size)

lemma doc_wf_json_wf: "doc_wf j \<Longrightarrow> json_wf j"
  by (induction j rule: json_induct_wf) auto

lemma item_map_distinct:
  "distinct (ids xs) \<Longrightarrow> x \<in> set xs \<Longrightarrow> map_of (item_map (Some (JList xs))) (item_id x) = Some x"
  by (auto simp: item_map_def dict_by_distinct comp_def intro!: map_of_is_SomeI)

lemma equivalent_refl: "doc_wf j \<Longrightarrow> equivalent_value m path j j"
proof (induction j arbitrary: path rule: json_induct_wf)
  case (List xs)
  have items: "\<forall>kv\<in>set (item_map (Some (JList xs))). case map_of (item_map (Some (JList xs))) (fst kv) of None \<Rightarrow> False
      | Some r \<Rightarrow> equivalent_value m (indexed path (fst kv)) (snd kv) r" if "id_list (JList xs)"
  proof
    fix kv assume "kv \<in> set (item_map (Some (JList xs)))"
    then have k: "map_of (item_map (Some (JList xs))) (fst kv) = Some (snd kv)"
      using dict_wf_dict_by[of item_id xs] by (simp add: item_map_def dict_wf_def)
    with item_map_at(1)[OF k] List show "case map_of (item_map (Some (JList xs))) (fst kv) of None \<Rightarrow> False
      | Some r \<Rightarrow> equivalent_value m (indexed path (fst kv)) (snd kv) r" by simp
  qed
  have pairs: "\<forall>iba\<in>set (enumerate 0 (zip xs xs)). equivalent_value m (indexed path (nat_str (fst iba))) (fst (snd iba)) (snd (snd iba))"
  proof
    fix iba assume "iba \<in> set (enumerate 0 (zip xs xs))"
    then have "fst (snd iba) = snd (snd iba)" "fst (snd iba) \<in> set xs"
      by (auto simp: in_set_enumerate_eq dest: sym)
    with List show "equivalent_value m (indexed path (nat_str (fst iba))) (fst (snd iba)) (snd (snd iba))" by simp
  qed
  from items pairs show ?case by (subst equivalent_value.simps) simp
next
  case (Obj kvs)
  have "map_of kvs (fst kv) = Some (snd kv)" if "kv \<in> set kvs" for kv
    using that Obj.prems by (cases kv) auto
  with Obj show ?case by (subst equivalent_value.simps) fastforce
qed (subst equivalent_value.simps; simp add: equivalent_check_expressions_def)+

lemma dedupe_distinct: "distinct xs \<Longrightarrow> dedupe xs = xs"
  by (induction xs) (auto intro: filter_True)

lemma dedupe_absorb: "distinct xs \<Longrightarrow> set ys \<subseteq> set xs \<Longrightarrow> dedupe (xs @ ys) = xs"
proof (induction xs arbitrary: ys)
  case Nil
  then show ?case by simp
next
  case (Cons x xs)
  have f: "filter (\<lambda>y. y \<noteq> x) (dedupe zs) = dedupe (filter (\<lambda>y. y \<noteq> x) zs)" for zs
  proof (induction zs)
    case (Cons z zs)
    have "filter (\<lambda>y. y \<noteq> x) (filter (\<lambda>y. y \<noteq> z) (dedupe zs)) = filter (\<lambda>y. y \<noteq> z) (filter (\<lambda>y. y \<noteq> x) (dedupe zs))"
      by (simp add: filter_filter conj_commute)
    with Cons show ?case by (cases "z = x") simp_all
  qed simp
  have x: "filter (\<lambda>y. y \<noteq> x) xs = xs" using Cons.prems(1) by (auto intro: filter_True)
  have "dedupe (xs @ filter (\<lambda>y. y \<noteq> x) ys) = xs" using Cons.prems by (intro Cons.IH) auto
  then show ?case by (simp add: f x)
qed

lemma present_all:
  assumes "\<And>x. x \<in> set xs \<Longrightarrow> f (key x) = (Some (val x), [], [])"
  shows "present (map (\<lambda>k. (k, f k)) (map key xs)) = map (\<lambda>x. (key x, val x)) xs"
    "gather (map (\<lambda>k. (k, f k)) (map key xs)) = ([], [])"
  using assms by (induction xs) (simp_all add: gather_def)

text \<open>An object only the design has is taken over as it is.\<close>

lemma merge_added: "doc_wf j \<Longrightarrow> merge m None (Some j) None path = (Some j, [], [])"
proof (induction j arbitrary: path rule: json_induct_wf)
  case (List xs)
  let ?d = "Some (JList xs)"
  have c: "comparable m None ?d None path" "\<not> list_all object_or_missing [None, ?d, None]" by (simp_all add: comparable_def)
  show ?case
  proof (cases "id_list (JList xs)")
    case True
    let ?f = "\<lambda>i. merge m (map_of (item_map None) i) (map_of (item_map ?d) i) (map_of (item_map None) i) (indexed path i)"
    have "?f (item_id x) = (Some x, [], [])" if "x \<in> set xs" for x
      using that List True by (simp add: item_map_distinct item_map_def[of None] dict_by_def)
    note all = present_all[where f = ?f and key = item_id and val = "\<lambda>x. x", OF this]
    have "merge_order None ?d None = ids xs" using List.prems True by (simp add: merge_order_def dedupe_distinct)
    with all True show ?thesis by (subst merge_lists[OF c]) (simp_all add: item_parts_def comp_def)
  next
    case False
    then show ?thesis by (subst merge_leaf[OF c]) simp_all
  qed
next
  case (Obj kvs)
  let ?d = "Some (JObj kvs)"
  have c: "comparable m None ?d None path" "list_all object_or_missing [None, ?d, None]" by (simp_all add: comparable_def)
  let ?f = "\<lambda>k. merge m (map_of (fields_of None) k) (map_of (fields_of ?d) k) (map_of (fields_of None) k) (dotted path k)"
  have "?f (fst kv) = (Some (snd kv), [], [])" if "kv \<in> set kvs" for kv
  proof -
    have "map_of kvs (fst kv) = Some (snd kv)" using that Obj.prems by (cases kv) auto
    moreover have "merge m None (Some (snd kv)) None (dotted path (fst kv)) = (Some (snd kv), [], [])"
      by (rule Obj.IH[of "fst kv"]) (use that Obj.prems in auto)
    ultimately show ?thesis by simp
  qed
  note all = present_all[where f = ?f and key = fst and val = snd, OF this]
  have "merge_keys None ?d None = map fst kvs" using Obj.prems by (simp add: merge_keys_def dict_keys_def dedupe_distinct)
  with all show ?case by (simp add: merge_objects[OF c] field_parts_def)
qed (subst merge_leaf; simp add: comparable_def)+

lemma present_py_eq:
  assumes "distinct ks" "\<And>k. k \<in> set ks \<Longrightarrow> \<exists>v v'. f k = (Some v', [], []) \<and> map_of ds k = Some v \<and> py_eq v' v"
    and "distinct (map fst ds)" "set ks = fst ` set ds"
  shows "py_eq (JObj (present (map (\<lambda>k. (k, f k)) ks))) (JObj ds)" "gather (map (\<lambda>k. (k, f k)) ks) = ([], [])"
proof -
  show "gather (map (\<lambda>k. (k, f k)) ks) = ([], [])"
    using assms(2) by (induction ks) (fastforce simp: gather_def)+
  show "py_eq (JObj (present (map (\<lambda>k. (k, f k)) ks))) (JObj ds)"
  proof (rule py_eq_objI)
    show "distinct (map fst (present (map (\<lambda>k. (k, f k)) ks)))" unfolding fst_present using assms(1) by simp
    show "rel_option py_eq (map_of (present (map (\<lambda>k. (k, f k)) ks)) k) (map_of ds k)" for k
    proof (cases "k \<in> set ks")
      case True
      then show ?thesis using assms(2)[OF True] map_of_present[OF assms(1) True, of f] by auto
    next
      case False
      then have "map_of ds k = None" using assms(4) by (simp add: map_of_eq_None_iff)
      moreover have "map_of (present (map (\<lambda>k. (k, f k)) ks)) k = None"
        using False by (force simp: map_of_eq_None_iff set_present)
      ultimately show ?thesis by simp
    qed
  qed (rule assms(3))
qed

lemma no_drift_leaf:
  assumes "doc_wf b" "doc_wf d" "\<not> (is_object b \<and> is_object d)" "\<not> (id_list b \<and> id_list d)"
  shows "\<exists>d'. merge m (Some b) (Some d) (Some b) path = (Some d', [], []) \<and> py_eq d' d"
proof (cases "equivalent_doc m path (Some d) (Some b)")
  case True
  with assms(2) show ?thesis by (auto simp: merge_same intro!: py_eq_refl doc_wf_json_wf)
next
  case False
  then have c: "comparable m (Some b) (Some d) (Some b) path" "\<not> list_all object_or_missing [Some b, Some d, Some b]"
    "\<not> list_all list_or_missing [Some b, Some d, Some b]" using assms(3,4) by (auto simp: comparable_def)
  with False assms(1,2) show ?thesis
    by (auto simp: merge_leaf[OF c] equivalent_refl intro!: py_eq_refl doc_wf_json_wf)
qed

lemma no_drift:
  "doc_wf b \<Longrightarrow> doc_wf d \<Longrightarrow> kept b d \<Longrightarrow> \<exists>d'. merge m (Some b) (Some d) (Some b) path = (Some d', [], []) \<and> py_eq d' d"
proof (induction b d arbitrary: path rule: kept.induct)
  case (1 bs ds)
  let ?b = "Some (JObj bs)" and ?d = "Some (JObj ds)"
  show ?case
  proof (cases "equivalent_doc m path ?d ?b")
    case True
    with "1.prems" show ?thesis by (auto simp: merge_same intro!: py_eq_refl doc_wf_json_wf simp del: py_eq.simps)
  next
    case False
    then have c: "comparable m ?b ?d ?b path" "list_all object_or_missing [?b, ?d, ?b]" by (simp_all add: comparable_def)
    let ?f = "\<lambda>k. merge m (map_of (fields_of ?b) k) (map_of (fields_of ?d) k) (map_of (fields_of ?b) k) (dotted path k)"
    have sub: "fst ` set bs \<subseteq> fst ` set ds"
    proof (rule image_subsetI)
      fix kv assume "kv \<in> set bs"
      with "1.prems"(3) have "map_of ds (fst kv) \<noteq> None" by (auto split: option.splits)
      then show "fst kv \<in> fst ` set ds" by (simp add: map_of_eq_None_iff)
    qed
    have keys: "set (merge_keys ?b ?d ?b) = fst ` set ds" using sub by (auto simp: merge_keys_def dict_keys_def)
    have field: "\<exists>v v'. ?f k = (Some v', [], []) \<and> map_of ds k = Some v \<and> py_eq v' v" if "k \<in> set (merge_keys ?b ?d ?b)" for k
    proof -
      obtain v where v: "map_of ds k = Some v" using \<open>k \<in> set (merge_keys ?b ?d ?b)\<close> unfolding keys
        by (metis map_of_eq_None_iff not_None_eq)
      have wf: "doc_wf v" using "1.prems"(2) v by (auto dest: map_of_SomeD)
      show ?thesis
      proof (cases "map_of bs k")
        case None
        with v wf show ?thesis by (auto simp: merge_added intro: py_eq_refl doc_wf_json_wf)
      next
        case (Some w)
        then have m: "(k, w) \<in> set bs" by (rule map_of_SomeD)
        then have "doc_wf w" "kept w v" using "1.prems"(1,3) v by force+
        with "1.IH"[OF m, of v "dotted path k"] v wf Some show ?thesis by simp
      qed
    qed
    have dk: "distinct (merge_keys ?b ?d ?b)" "distinct (map fst ds)" using "1.prems"(2) by (simp_all add: merge_keys_def)
    from present_py_eq[where f = ?f, OF dk(1) field dk(2) keys] show ?thesis
      by (simp add: merge_objects[OF c] field_parts_def)
  qed
next
  case (2 bs ds)
  let ?b = "Some (JList bs)" and ?d = "Some (JList ds)"
  show ?case
  proof (cases "equivalent_doc m path ?d ?b")
    case True
    with "2.prems" show ?thesis by (auto simp: merge_same intro!: py_eq_refl doc_wf_json_wf simp del: py_eq.simps)
  next
    case False
    then have c: "comparable m ?b ?d ?b path" "\<not> list_all object_or_missing [?b, ?d, ?b]" by (simp_all add: comparable_def)
    show ?thesis
    proof (cases "id_list (JList bs) \<and> id_list (JList ds)")
      case True
      let ?f = "\<lambda>i. merge m (map_of (item_map ?b) i) (map_of (item_map ?d) i) (map_of (item_map ?b) i) (indexed path i)"
      have dist: "distinct (ids bs)" "distinct (ids ds)" using "2.prems" True by simp_all
      have kept: "\<exists>y. map_of (item_map ?d) (item_id x) = Some y \<and> kept x y" if "x \<in> set bs" for x
        using "2.prems"(3) True that by (auto split: option.splits)
      have sub: "set (ids bs) \<subseteq> set (ids ds)"
      proof
        fix i assume "i \<in> set (ids bs)"
        then have "map_of (item_map ?d) i \<noteq> None" using kept by fastforce
        then show "i \<in> set (ids ds)" using item_map_at(2)[of ?d i] by simp
      qed
      have item: "\<exists>y'. ?f (item_id y) = (Some y', [], []) \<and> py_eq y' y" if y: "y \<in> set ds" for y
      proof -
        have d: "map_of (item_map ?d) (item_id y) = Some y" by (rule item_map_distinct[OF dist(2) y])
        have wf: "doc_wf y" using "2.prems"(2) y by simp
        show ?thesis
        proof (cases "map_of (item_map ?b) (item_id y)")
          case None
          with d wf show ?thesis by (auto simp: merge_added intro: py_eq_refl doc_wf_json_wf)
        next
          case (Some x)
          from item_map_at(1)[OF Some] have x: "x \<in> set bs" "item_id x = item_id y" by simp_all
          with kept[OF x(1)] d have k: "kept x y" by simp
          have wfx: "doc_wf x" using "2.prems"(1) x(1) by simp
          from "2.IH"[OF True x(1), of y "indexed path (item_id y)"] d x k wf wfx Some show ?thesis by simp
        qed
      qed
      have order: "merge_order ?b ?d ?b = ids ds"
        using dedupe_absorb[OF dist(2), of "ids bs @ ids bs"] sub by (simp add: merge_order_def)
      obtain g where g: "\<And>y. y \<in> set ds \<Longrightarrow> ?f (item_id y) = (Some (g y), [], []) \<and> py_eq (g y) y" using item by metis
      then have all: "present (map (\<lambda>k. (k, ?f k)) (ids ds)) = map (\<lambda>x. (item_id x, g x)) ds"
        "gather (map (\<lambda>k. (k, ?f k)) (ids ds)) = ([], [])"
        by (intro present_all[where f = ?f]; simp)+
      have "py_eq (JList (map g ds)) (JList ds)" using g by (simp add: py_eq_list list_all2_conv_all_nth)
      moreover have l: "list_all list_or_missing [?b, ?d, ?b]" using True by simp
      ultimately show ?thesis using all
        by (simp add: merge_lists[OF c l] item_parts_def order comp_def)
    next
      case False
      with "2.prems" show ?thesis by (intro no_drift_leaf) simp_all
    qed
  qed
qed (rule no_drift_leaf; simp)+

text \<open>
  Without drift the merge is the design: when the database still is the baseline and the design
  deletes nothing, the merge reports no external change and no conflict and its result is, up to the
  order of keys, the design.
\<close>

theorem merge_without_drift:
  assumes "doc_wf b" "doc_wf d" "kept b d"
  shows "\<exists>d'. merge m (Some b) (Some d) (Some b) path = (Some d', [], []) \<and> py_eq d' d"
  by (rule no_drift[OF assms])

section \<open>On concrete documents\<close>

definition sample_merger :: merger where
  "sample_merger = \<lparr>mg_sha256 = (\<lambda>_. ''f''), mg_normal = (\<lambda>_ _. None), mg_resolutions = [], mg_check_column_types = []\<rparr>"

definition sample_table :: "string \<Rightarrow> string \<Rightarrow> json" where
  "sample_table i name = JObj [(''id'', JStr i), (''name'', JStr name)]"

definition sample_doc :: "json list \<Rightarrow> json" where
  "sample_doc tables = JObj [(''tables'', JList tables)]"

theorem merge_keeps_objects_witness:
  "\<exists>ms external. merge sample_merger (Some (JList [sample_table ''a'' ''x''])) (Some (JList [sample_table ''a'' ''y'', sample_table ''b'' ''z'']))
       (Some (JList [sample_table ''a'' ''x'', sample_table ''c'' ''w''])) ''tables'' = (Some (JList ms), external, [])
     \<and> set (ids ms) = {''a'', ''b'', ''c''}"
proof -
  let ?run = "merge sample_merger (Some (JList [sample_table ''a'' ''x''])) (Some (JList [sample_table ''a'' ''y'', sample_table ''b'' ''z'']))
       (Some (JList [sample_table ''a'' ''x'', sample_table ''c'' ''w''])) ''tables''"
  have "snd (snd ?run) = []" by code_simp
  then obtain merged external where r: "?run = (merged, external, [])" by (metis prod.collapse)
  have "mg_resolutions sample_merger = []" "id_list (JList [sample_table ''a'' ''x''])"
    "id_list (JList [sample_table ''a'' ''y'', sample_table ''b'' ''z''])" "id_list (JList [sample_table ''a'' ''x'', sample_table ''c'' ''w''])"
    "distinct (ids [sample_table ''a'' ''y'', sample_table ''b'' ''z''])"
    by (simp_all add: sample_merger_def sample_table_def)
  from merge_keeps_objects[OF this r] r show ?thesis by (auto simp: sample_table_def)
qed

theorem deletion_always_conflicts_witness:
  "snd (snd (merge sample_merger (Some (sample_doc [sample_table ''a'' ''x''])) (Some (sample_doc [])) (Some (sample_doc [sample_table ''a'' ''x''])) '''')) \<noteq> []"
  unfolding sample_doc_def
  by (rule deletion_always_conflicts[where field = "''tables''" and i = "''a''" and bs = "[sample_table ''a'' ''x'']"
        and ds = "[]" and ls = "[sample_table ''a'' ''x'']"])
     (simp_all add: sample_merger_def sample_table_def)

theorem merge_without_drift_witness:
  "\<exists>d'. merge sample_merger (Some (sample_doc [sample_table ''a'' ''x''])) (Some (sample_doc [sample_table ''b'' ''z'', sample_table ''a'' ''y'']))
      (Some (sample_doc [sample_table ''a'' ''x''])) '''' = (Some d', [], []) \<and> py_eq d' (sample_doc [sample_table ''b'' ''z'', sample_table ''a'' ''y''])"
  by (rule merge_without_drift) code_simp+

end
