(* ===== verification/Stateful_Actions.thy ===== *)
theory Stateful_Actions
  imports Schemii_Prelude
begin

text \<open>
  Code that changes a state and may raise: an action takes the state and returns an error or a value
  together with the new state, so that what was done before an exception stays done. Specifications
  of actions are triples with a postcondition for the value and one for the error; the rules below
  follow the structure of the code.
\<close>

type_synonym ('s, 'e, 'a) action = "'s \<Rightarrow> ('e, 'a) result \<times> 's"

definition and_then :: "('s, 'e, 'a) action \<Rightarrow> ('a \<Rightarrow> ('s, 'e, 'b) action) \<Rightarrow> ('s, 'e, 'b) action" where
  "and_then m f st = (case m st of (Inl e, st') \<Rightarrow> (Inl e, st') | (Inr a, st') \<Rightarrow> f a st')"

definition fail_with :: "'e \<Rightarrow> ('s, 'e, 'a) action" where
  "fail_with e st = (Inl e, st)"

definition give :: "'a \<Rightarrow> ('s, 'e, 'a) action" where
  "give a st = (Inr a, st)"

definition modify :: "('s \<Rightarrow> 's) \<Rightarrow> ('s, 'e, unit) action" where
  "modify f st = (Inr (), f st)"

text \<open>A \<open>for\<close> loop over a list, and the list of the values its body gives.\<close>

fun for_each :: "('x \<Rightarrow> ('s, 'e, unit) action) \<Rightarrow> 'x list \<Rightarrow> ('s, 'e, unit) action" where
  "for_each f [] = give ()"
| "for_each f (x # xs) = and_then (f x) (\<lambda>_. for_each f xs)"

fun collect :: "('x \<Rightarrow> ('s, 'e, 'a) action) \<Rightarrow> 'x list \<Rightarrow> ('s, 'e, 'a list) action" where
  "collect f [] = give []"
| "collect f (x # xs) = and_then (f x) (\<lambda>a. and_then (collect f xs) (\<lambda>as. give (a # as)))"

lemma and_then_simps:
  "m st = (Inr a, st') \<Longrightarrow> and_then m f st = f a st'"
  "m st = (Inl e, st') \<Longrightarrow> and_then m f st = (Inl e, st')"
  by (simp_all add: and_then_def)

lemma and_then_success:
  "and_then m f st = (Inr b, st2) \<longleftrightarrow> (\<exists>a st1. m st = (Inr a, st1) \<and> f a st1 = (Inr b, st2))"
  by (auto simp: and_then_def split: prod.splits sum.splits)

lemma give_then [simp]: "and_then (give a) f = f a"
  by (rule ext) (simp add: and_then_def give_def)

lemma fail_then [simp]: "and_then (fail_with e) f = fail_with e"
  by (rule ext) (simp add: and_then_def fail_with_def)

lemma then_give [simp]: "and_then m give = m"
  by (rule ext) (auto simp: and_then_def give_def split: prod.splits sum.splits)

lemma then_assoc: "and_then (and_then m f) g = and_then m (\<lambda>a. and_then (f a) g)"
  by (rule ext) (auto simp: and_then_def split: prod.splits sum.splits)

section \<open>Specifications\<close>

definition achieves ::
  "('s \<Rightarrow> bool) \<Rightarrow> ('s, 'e, 'a) action \<Rightarrow> ('a \<Rightarrow> 's \<Rightarrow> bool) \<Rightarrow> ('e \<Rightarrow> 's \<Rightarrow> bool) \<Rightarrow> bool" where
  "achieves P m Q E = (\<forall>st. P st \<longrightarrow> (case m st of (Inl e, st') \<Rightarrow> E e st' | (Inr a, st') \<Rightarrow> Q a st'))"

named_theorems specs \<open>specifications of actions\<close>

lemma achieves_I: "(\<And>st. P st \<Longrightarrow> case m st of (Inl e, st') \<Rightarrow> E e st' | (Inr a, st') \<Rightarrow> Q a st') \<Longrightarrow> achieves P m Q E"
  by (simp add: achieves_def)

lemma achieves_D: "achieves P m Q E \<Longrightarrow> P st \<Longrightarrow> case m st of (Inl e, st') \<Rightarrow> E e st' | (Inr a, st') \<Rightarrow> Q a st'"
  by (simp add: achieves_def)

lemma achieves_value: "achieves P m Q E \<Longrightarrow> P st \<Longrightarrow> m st = (Inr a, st') \<Longrightarrow> Q a st'"
  unfolding achieves_def by force

lemma achieves_error: "achieves P m Q E \<Longrightarrow> P st \<Longrightarrow> m st = (Inl e, st') \<Longrightarrow> E e st'"
  unfolding achieves_def by force

lemma achieves_then:
  "achieves P m R E \<Longrightarrow> (\<And>a. achieves (R a) (f a) Q E) \<Longrightarrow> achieves P (and_then m f) Q E"
  unfolding achieves_def and_then_def by (fastforce split: prod.splits sum.splits)

lemma achieves_conseq:
  "achieves P m Q E \<Longrightarrow> (\<And>st. P' st \<Longrightarrow> P st) \<Longrightarrow> (\<And>a st. Q a st \<Longrightarrow> Q' a st) \<Longrightarrow> (\<And>e st. E e st \<Longrightarrow> E' e st) \<Longrightarrow>
   achieves P' m Q' E'"
  unfolding achieves_def by (fastforce split: prod.splits sum.splits)

lemma achieves_eq: "achieves P (f b) Q E \<Longrightarrow> achieves (\<lambda>st. a = b \<and> P st) (f a) Q E"
  by (cases "a = b") (simp_all add: achieves_def)

lemma achieves_give [simp]: "achieves P (give a) Q E \<longleftrightarrow> (\<forall>st. P st \<longrightarrow> Q a st)"
  by (simp add: achieves_def give_def)

lemma achieves_fail [simp]: "achieves P (fail_with e) Q E \<longleftrightarrow> (\<forall>st. P st \<longrightarrow> E e st)"
  by (simp add: achieves_def fail_with_def)

lemma achieves_modify [simp]: "achieves P (modify f) Q E \<longleftrightarrow> (\<forall>st. P st \<longrightarrow> Q () (f st))"
  by (simp add: achieves_def modify_def)

text \<open>Code that looks at the state it runs in.\<close>

lemma achieves_reads:
  assumes "\<And>st. achieves P (m st) Q E"
  shows "achieves P (\<lambda>st. m st st) Q E"
proof (rule achieves_I)
  fix st assume "P st"
  with assms[of st] show "case m st st of (Inl e, st') \<Rightarrow> E e st' | (Inr a, st') \<Rightarrow> Q a st'"
    by (simp add: achieves_def)
qed

text \<open>An action that keeps a property of the state whatever happens.\<close>

definition keeps :: "('s \<Rightarrow> bool) \<Rightarrow> ('s, 'e, 'a) action \<Rightarrow> bool" where
  "keeps P m = (\<forall>st. P st \<longrightarrow> P (snd (m st)))"

lemma keeps_achieves: "keeps P m \<longleftrightarrow> achieves P m (\<lambda>_. P) (\<lambda>_. P)"
proof -
  have "P (snd (m st)) \<longleftrightarrow> (case m st of (Inl e, st') \<Rightarrow> P st' | (Inr a, st') \<Rightarrow> P st')" for st
    by (auto split: prod.splits sum.splits)
  then show ?thesis by (simp add: keeps_def achieves_def)
qed

lemma keeps_spec: "keeps P m \<Longrightarrow> (\<And>e st. P st \<Longrightarrow> E e st) \<Longrightarrow> achieves P m (\<lambda>_. P) E"
  unfolding keeps_achieves by (erule achieves_conseq) auto

lemma keeps_give [simp, intro]: "keeps P (give a)"
  and keeps_fail [simp, intro]: "keeps P (fail_with e)"
  by (simp_all add: keeps_def give_def fail_with_def)

lemma keeps_then [intro]: "keeps P m \<Longrightarrow> (\<And>a. keeps P (f a)) \<Longrightarrow> keeps P (and_then m f)"
  unfolding keeps_def and_then_def by (force split: prod.splits sum.splits)

lemma keeps_for_each [intro]: "(\<And>x. keeps P (f x)) \<Longrightarrow> keeps P (for_each f xs)"
  by (induction xs) auto

lemma keeps_collect [intro]: "(\<And>x. keeps P (f x)) \<Longrightarrow> keeps P (collect f xs)"
  by (induction xs) auto

lemma keepsD: "keeps P m \<Longrightarrow> P st \<Longrightarrow> m st = (r, st') \<Longrightarrow> P st'"
  unfolding keeps_def by force

end
