(* ===== verification/Postgres_Gateway.thy ===== *)
theory Postgres_Gateway
  imports Postgres_Catalog Stateful_Actions
begin

text \<open>
  The migration side of the PostgreSQL gateway, \<open>common/postgres/gateway.py\<close>: applying one reviewed
  plan in one target transaction and asking for the status of a transaction afterwards.

  What PostgreSQL answers is the record \<open>target\<close>: every reply may depend on the statements the
  transaction has executed so far. The two callbacks of \<open>execute_migration\<close> are actions on a state of
  the caller. Two ghost components of the run tell what happened in the target: the statements that
  were executed (\<open>rn_log\<close>) and whether the transaction took effect (\<open>rn_applied\<close>), which the gateway
  itself only knows when the commit is acknowledged. The SELECT statements whose rows are the replies
  are not logged. Introspection is a parameter here: \<open>_build_catalog\<close> is not part of this theory.
\<close>

section \<open>Errors\<close>

text \<open>
  \<open>'e\<close> is the type of errors a callback raises. \<open>GatewayError\<close> stands for the remaining subclasses of
  \<open>PostgresGatewayError\<close>, by code and SQLSTATE.
\<close>

datatype 'e gateway_error =
    MigrationStaleError string
  | MigrationPreconditionError "string list"
  | CommitUncertainError
  | MigrationExecutionError nat "string option" "'e option"
  | ConnectionCapacityError string nat nat
  | GatewayError string "string option"

fun gateway_code :: "'e gateway_error \<Rightarrow> string" where
  "gateway_code (MigrationStaleError _) = ''postgres_migration_stale''"
| "gateway_code (MigrationPreconditionError _) = ''postgres_migration_precondition_changed''"
| "gateway_code CommitUncertainError = ''postgres_migration_commit_uncertain''"
| "gateway_code (MigrationExecutionError _ _ _) = ''postgres_migration_failed''"
| "gateway_code (ConnectionCapacityError _ _ _) = ''postgres_connection_capacity_reached''"
| "gateway_code (GatewayError code _) = code"

fun gateway_sqlstate :: "'e gateway_error \<Rightarrow> string option" where
  "gateway_sqlstate (GatewayError _ sqlstate) = sqlstate"
| "gateway_sqlstate (MigrationExecutionError _ sqlstate _) = sqlstate"
| "gateway_sqlstate _ = None"

definition conversion_validation_message :: "string option \<Rightarrow> string" where
  "conversion_validation_message sqlstate =
     (if sqlstate = Some ''SC001'' then ''Strict conversion would alter or lose existing values. Choose a custom expression or revise the target type''
      else if sqlstate = Some ''57014'' then ''Conversion validation exceeded the PostgreSQL statement timeout. Ask the administrator to review the configured timeout''
      else if sqlstate = Some ''42501'' then ''The connection lacks permission to validate or convert this column''
      else if sqlstate \<in> {Some ''42846'', Some ''42804'', Some ''42883'', Some ''42704''} then ''PostgreSQL cannot use this conversion or its default expression. Review the types and USING expression''
      else case sqlstate of None \<Rightarrow> ''PostgreSQL could not validate the conversion. Check the expression, connection permissions and target availability''
        | Some state \<Rightarrow>
            if prefix ''22'' state then ''Some values cannot be converted to the target type. Revise the type or provide an explicit custom expression''
            else if prefix ''23'' state then ''The conversion violates a required value, unique key, foreign key, or check constraint''
            else ''PostgreSQL could not validate the conversion. Check the expression, connection permissions and target availability'')"

definition execution_error_message :: "string option \<Rightarrow> string" where
  "execution_error_message sqlstate =
     (if sqlstate \<in> {None, Some ''''} then ''PostgreSQL rejected the migration'' else conversion_validation_message sqlstate)
     @ ''; all migration statements were rolled back''"

text \<open>An exception inside the gateway: one of its own errors or any other.\<close>

datatype 'e raised = Gateway "'e gateway_error" | Foreign 'e

definition query_error :: "'e raised" where
  "query_error = Gateway (GatewayError ''postgres_query_failed'' None)"

definition catalog_invalid :: "'e gateway_error" where
  "catalog_invalid = GatewayError ''postgres_catalog_invalid'' None"

section \<open>The target\<close>

datatype connect_reply = Connected | ConnectFailed string | CapacityReached string nat nat

datatype commit_reply = Acknowledged | LostAfterCommit | LostBeforeCommit

text \<open>\<open>Inl code\<close> is a gateway error with that code.\<close>

record target =
  tg_connect :: connect_reply
  tg_execute :: "string list \<Rightarrow> string \<Rightarrow> string option option"
  tg_introspect :: "string list \<Rightarrow> (string, pg_catalog) result"
  tg_is_empty :: "string list \<Rightarrow> string \<Rightarrow> (string, bool) result"
  tg_identity :: "string list \<Rightarrow> (string, (string \<times> json) list) result"
  tg_transaction_id :: "string list \<Rightarrow> (string, json option) result"
  tg_commit :: "string list \<Rightarrow> commit_reply"
  tg_status :: "string \<Rightarrow> (string, json option) result"

record gateway =
  gw_catalog_statement_timeout_ms :: nat
  gw_migration_statement_timeout_ms :: nat
  gw_lock_timeout_ms :: nat

record 's migration_run =
  rn_state :: 's
  rn_log :: "string list"
  rn_completed :: nat
  rn_attempted :: bool
  rn_applied :: bool

definition begin_run :: "'s \<Rightarrow> 's migration_run" where
  "begin_run s = \<lparr>rn_state = s, rn_log = [], rn_completed = 0, rn_attempted = False, rn_applied = False\<rparr>"

type_synonym ('s, 'e, 'a) run_action = "('s migration_run, 'e raised, 'a) action"

definition connect_target :: "target \<Rightarrow> ('s, 'e, unit) run_action" where
  "connect_target tg =
     (case tg_connect tg of
        Connected \<Rightarrow> give ()
      | ConnectFailed code \<Rightarrow> fail_with (Gateway (GatewayError code None))
      | CapacityReached name limit observed \<Rightarrow> fail_with (Gateway (ConnectionCapacityError name limit observed)))"

definition execute_statement :: "target \<Rightarrow> string \<Rightarrow> ('s, 'e, unit) run_action" where
  "execute_statement tg query run =
     (case tg_execute tg (rn_log run) query of
        Some sqlstate \<Rightarrow> (Inl (Gateway (GatewayError ''postgres_query_failed'' sqlstate)), run)
      | None \<Rightarrow> (Inr (), run\<lparr>rn_log := rn_log run @ [query]\<rparr>))"

text \<open>A row or value PostgreSQL returns.\<close>

definition read_target :: "(string list \<Rightarrow> (string, 'a) result) \<Rightarrow> ('s, 'e, 'a) run_action" where
  "read_target reply run =
     (case reply (rn_log run) of Inl code \<Rightarrow> (Inl (Gateway (GatewayError code None)), run) | Inr a \<Rightarrow> (Inr a, run))"

definition idle_transaction_timeout_ms :: nat where
  "idle_transaction_timeout_ms = 30000"

definition set_timeout_ceiling :: "target \<Rightarrow> string \<Rightarrow> nat \<Rightarrow> ('s, 'e, unit) run_action" where
  "set_timeout_ceiling tg setting configured_milliseconds =
     (let value = nat_str configured_milliseconds @ ''ms''; q = [CHR 0x27] in
      execute_statement tg (''SELECT set_config('' @ q @ setting @ q @ '', CASE ''
        @ ''WHEN current_setting('' @ q @ setting @ q @ '')::interval = interval '' @ q @ ''0'' @ q @ '' ''
        @ ''OR current_setting('' @ q @ setting @ q @ '')::interval > interval '' @ q @ value @ q @ '' ''
        @ ''THEN '' @ q @ value @ q @ '' ELSE current_setting('' @ q @ setting @ q @ '') END, true)''))"

definition begin_read_only :: "gateway \<Rightarrow> target \<Rightarrow> ('s, 'e, unit) run_action" where
  "begin_read_only gw tg =
     and_then (execute_statement tg ''BEGIN TRANSACTION READ ONLY'') (\<lambda>_.
     and_then (set_timeout_ceiling tg ''statement_timeout'' (gw_catalog_statement_timeout_ms gw)) (\<lambda>_.
     and_then (set_timeout_ceiling tg ''lock_timeout'' (gw_lock_timeout_ms gw)) (\<lambda>_.
     set_timeout_ceiling tg ''idle_in_transaction_session_timeout'' idle_transaction_timeout_ms)))"

definition begin_write :: "gateway \<Rightarrow> target \<Rightarrow> bool \<Rightarrow> ('s, 'e, unit) run_action" where
  "begin_write gw tg fresh_snapshots =
     and_then (execute_statement tg (''BEGIN TRANSACTION ISOLATION LEVEL '' @ (if fresh_snapshots then ''READ COMMITTED'' else ''SERIALIZABLE''))) (\<lambda>_.
     and_then (set_timeout_ceiling tg ''statement_timeout'' (gw_migration_statement_timeout_ms gw)) (\<lambda>_.
     and_then (set_timeout_ceiling tg ''lock_timeout'' (gw_lock_timeout_ms gw)) (\<lambda>_.
     set_timeout_ceiling tg ''idle_in_transaction_session_timeout'' idle_transaction_timeout_ms)))"

section \<open>Names and identities\<close>

definition bad_name :: "string \<Rightarrow> bool" where
  "bad_name name = (name = '''' \<or> char_of (0::nat) \<in> set name \<or> length name > 63)"

definition validated_namespace :: "string \<Rightarrow> ('e gateway_error, string) result" where
  "validated_namespace namespace =
     (if bad_name namespace then Inl (GatewayError ''postgres_invalid_namespace'' None) else Inr namespace)"

definition validated_table_names :: "string list \<Rightarrow> ('e gateway_error, string list) result" where
  "validated_table_names table_names =
     (let names = sorted_set table_names in if list_ex bad_name names then Inl catalog_invalid else Inr names)"

definition quote_identifier :: "string \<Rightarrow> string" where
  "quote_identifier identifier = [CHR 0x22] @ replace_char (CHR 0x22) [CHR 0x22, CHR 0x22] identifier @ [CHR 0x22]"

definition qualified_table :: "string \<Rightarrow> string \<Rightarrow> string" where
  "qualified_table namespace table_name = quote_identifier namespace @ ''.'' @ quote_identifier table_name"

fun nonempty_text :: "json option \<Rightarrow> bool" where
  "nonempty_text (Some (JStr s)) = (s \<noteq> '''')"
| "nonempty_text _ = False"

definition is_digits :: "string \<Rightarrow> bool" where
  "is_digits s = (s \<noteq> '''' \<and> list_all (\<lambda>c. 48 \<le> (of_char c :: nat) \<and> (of_char c :: nat) \<le> 57) s)"

fun digits_text :: "json option \<Rightarrow> bool" where
  "digits_text (Some (JStr s)) = is_digits s"
| "digits_text _ = False"

fun port_number :: "json option \<Rightarrow> bool" where
  "port_number (Some (JInt i)) = (0 \<le> i)"
| "port_number _ = False"

definition require_database :: "(string \<times> json) list \<Rightarrow> string \<Rightarrow> ('s, 'e, unit) run_action" where
  "require_database row expected_database =
     (case map_of row ''database'' of
        Some (JStr database) \<Rightarrow>
          if database \<noteq> expected_database then fail_with (Gateway (GatewayError ''postgres_database_mismatch'' None))
          else give ()
      | _ \<Rightarrow> fail_with query_error)"

definition target_identity :: "target \<Rightarrow> string \<Rightarrow> ('s, 'e, (string \<times> json) list) run_action" where
  "target_identity tg database =
     and_then (read_target (tg_identity tg)) (\<lambda>identity.
     and_then (require_database identity database) (\<lambda>_.
       if \<not> nonempty_text (map_of identity ''database_oid'') \<or> \<not> digits_text (map_of identity ''server_version_num'')
          \<or> \<not> nonempty_text (map_of identity ''server_address'') \<or> \<not> port_number (map_of identity ''server_port'')
       then fail_with (Gateway catalog_invalid) else give identity))"

definition table_emptiness_connection :: "target \<Rightarrow> string list \<Rightarrow> ('s, 'e, (string \<times> bool) list) run_action" where
  "table_emptiness_connection tg table_names =
     collect (\<lambda>name. and_then (read_target (\<lambda>log. tg_is_empty tg log name)) (\<lambda>is_empty. give (name, is_empty))) table_names"

section \<open>Applying a plan\<close>

record migration_result =
  gr_catalog :: pg_catalog
  gr_transaction_id :: string
  gr_target_identity :: "(string \<times> json) list"
  gr_completed_step_count :: nat

type_synonym ('s, 'e) callback = "('s, 'e, unit) action"

definition call_back :: "('s, 'e) callback \<Rightarrow> ('s, 'e, unit) run_action" where
  "call_back f run =
     (case f (rn_state run) of
        (Inl e, s) \<Rightarrow> (Inl (Foreign e), run\<lparr>rn_state := s\<rparr>)
      | (Inr u, s) \<Rightarrow> (Inr u, run\<lparr>rn_state := s\<rparr>))"

definition advisory_lock :: string where
  "advisory_lock = ''SELECT pg_advisory_xact_lock(hashtext(current_database()), hashtext(%s))''"

definition take_advisory_lock :: "target \<Rightarrow> ('s, 'e, unit) run_action" where
  "take_advisory_lock tg run =
     (case execute_statement tg advisory_lock run of (Inl e, run') \<Rightarrow> (Inl query_error, run') | reply \<Rightarrow> reply)"

definition lock_tables :: "target \<Rightarrow> string \<Rightarrow> string list \<Rightarrow> ('s, 'e, unit) run_action" where
  "lock_tables tg namespace names =
     for_each (\<lambda>name. execute_statement tg (''LOCK TABLE '' @ qualified_table namespace name @ '' IN ACCESS EXCLUSIVE MODE'')) names"

definition conversion_settings :: "target \<Rightarrow> bool \<Rightarrow> ('s, 'e, unit) run_action" where
  "conversion_settings tg converting =
     (if converting
      then and_then (execute_statement tg ''SET LOCAL row_security = off'')
             (\<lambda>_. execute_statement tg ''SET LOCAL extra_float_digits = 3'')
      else give ())"

definition check_target ::
  "target \<Rightarrow> string \<Rightarrow> string list \<Rightarrow> ('s, 'e, unit) run_action" where
  "check_target tg expected_catalog_fingerprint empty_preconditions =
     and_then (read_target (tg_introspect tg)) (\<lambda>live.
       if cat_fingerprint live \<noteq> expected_catalog_fingerprint
       then fail_with (Gateway (MigrationStaleError (cat_fingerprint live)))
       else and_then (table_emptiness_connection tg empty_preconditions) (\<lambda>emptiness.
         let nonempty = map fst (filter (\<lambda>(name, is_empty). \<not> is_empty) emptiness) in
         if nonempty \<noteq> [] then fail_with (Gateway (MigrationPreconditionError nonempty)) else give ()))"

definition read_transaction_id :: "target \<Rightarrow> ('s, 'e, string) run_action" where
  "read_transaction_id tg =
     and_then (read_target (tg_transaction_id tg)) (\<lambda>reply.
       case reply of Some (JStr transaction_id) \<Rightarrow>
           if transaction_id = '''' then fail_with (Gateway catalog_invalid) else give transaction_id
         | _ \<Rightarrow> fail_with (Gateway catalog_invalid))"

definition apply_statement :: "target \<Rightarrow> string \<Rightarrow> ('s, 'e, unit) run_action" where
  "apply_statement tg statement =
     (if strip statement = '''' then fail_with (Gateway catalog_invalid)
      else and_then (execute_statement tg statement) (\<lambda>_. modify (\<lambda>run. run\<lparr>rn_completed := rn_completed run + 1\<rparr>)))"

definition commit_target :: "target \<Rightarrow> ('s, 'e, unit) run_action" where
  "commit_target tg run =
     (let reply = tg_commit tg (rn_log run);
          run' = run\<lparr>rn_attempted := True, rn_applied := (reply \<noteq> LostBeforeCommit)\<rparr>
      in if reply = Acknowledged then (Inr (), run') else (Inl (Gateway CommitUncertainError), run'))"

text \<open>The statements before the first callback, and from the first callback to the commit.\<close>

definition prepare_migration ::
  "gateway \<Rightarrow> target \<Rightarrow> string \<Rightarrow> string \<Rightarrow> string \<Rightarrow> string list \<Rightarrow> string list
   \<Rightarrow> ('s, 'e, (string \<times> json) list \<times> string) run_action" where
  "prepare_migration gw tg database namespace fingerprint empty_preconditions conversion_locks =
     and_then (connect_target tg) (\<lambda>_.
     and_then (begin_write gw tg (conversion_locks \<noteq> [])) (\<lambda>_.
     and_then (take_advisory_lock tg) (\<lambda>_.
     and_then (lock_tables tg namespace (sorted_set (empty_preconditions @ conversion_locks))) (\<lambda>_.
     and_then (conversion_settings tg (conversion_locks \<noteq> [])) (\<lambda>_.
     and_then (check_target tg fingerprint empty_preconditions) (\<lambda>_.
     and_then (target_identity tg database) (\<lambda>identity.
     and_then (read_transaction_id tg) (\<lambda>transaction_id. give (identity, transaction_id)))))))))"

definition apply_migration ::
  "target \<Rightarrow> string list \<Rightarrow> (string \<Rightarrow> (string \<times> json) list \<Rightarrow> ('s, 'e) callback) \<Rightarrow> (pg_catalog \<Rightarrow> ('s, 'e) callback)
   \<Rightarrow> (string \<times> json) list \<Rightarrow> string \<Rightarrow> ('s, 'e, migration_result) run_action" where
  "apply_migration tg statements on_started on_intended identity transaction_id =
     and_then (call_back (on_started transaction_id identity)) (\<lambda>_.
     and_then (for_each (apply_statement tg) statements) (\<lambda>_.
     and_then (read_target (tg_introspect tg)) (\<lambda>catalog.
     and_then (call_back (on_intended catalog)) (\<lambda>_.
     and_then (commit_target tg) (\<lambda>_ run.
       (Inr \<lparr>gr_catalog = catalog, gr_transaction_id = transaction_id, gr_target_identity = identity,
             gr_completed_step_count = rn_completed run\<rparr>, run))))))"

text \<open>The handlers around the transaction.\<close>

definition migration_error_of :: "bool \<Rightarrow> 's migration_run \<Rightarrow> 'e raised \<Rightarrow> 'e gateway_error" where
  "migration_error_of converting run e =
     (case e of
        Gateway (MigrationStaleError f) \<Rightarrow> MigrationStaleError f
      | Gateway (MigrationPreconditionError ts) \<Rightarrow> MigrationPreconditionError ts
      | Gateway CommitUncertainError \<Rightarrow> CommitUncertainError
      | Gateway g \<Rightarrow>
          if rn_completed run \<noteq> 0 \<or> rn_attempted run
          then MigrationExecutionError (rn_completed run) (if converting then gateway_sqlstate g else None) None
          else g
      | Foreign cause \<Rightarrow>
          if rn_attempted run then CommitUncertainError
          else MigrationExecutionError (rn_completed run) None (Some cause))"

definition execute_migration ::
  "gateway \<Rightarrow> target \<Rightarrow> string \<Rightarrow> string \<Rightarrow> string \<Rightarrow> string list
   \<Rightarrow> (string \<Rightarrow> (string \<times> json) list \<Rightarrow> ('s, 'e) callback) \<Rightarrow> (pg_catalog \<Rightarrow> ('s, 'e) callback)
   \<Rightarrow> string list \<Rightarrow> string list \<Rightarrow> 's \<Rightarrow> ('e gateway_error, migration_result) result \<times> 's migration_run" where
  "execute_migration gw tg database namespace fingerprint statements on_started on_intended
       required_empty_tables conversion_tables s =
     (case validated_namespace namespace of Inl e \<Rightarrow> (Inl e, begin_run s) | Inr namespace \<Rightarrow>
      (case validated_table_names required_empty_tables of Inl e \<Rightarrow> (Inl e, begin_run s) | Inr empty_preconditions \<Rightarrow>
      (case validated_table_names conversion_tables of Inl e \<Rightarrow> (Inl e, begin_run s) | Inr conversion_locks \<Rightarrow>
      (case and_then (prepare_migration gw tg database namespace fingerprint empty_preconditions conversion_locks)
              (\<lambda>(identity, transaction_id). apply_migration tg statements on_started on_intended identity transaction_id)
              (begin_run s) of
         (Inr result, run) \<Rightarrow> (Inr result, run)
       | (Inl e, run) \<Rightarrow> (Inl (migration_error_of (conversion_locks \<noteq> []) run e), run)))))"

section \<open>The status of a transaction\<close>

datatype transaction_status = TransactionCommitted | TransactionAborted | TransactionInProgress

definition status_unavailable :: "'e gateway_error" where
  "status_unavailable = GatewayError ''postgres_transaction_status_unavailable'' None"

fun status_of_text :: "json option \<Rightarrow> transaction_status option" where
  "status_of_text (Some (JStr s)) =
     (if s = ''committed'' then Some TransactionCommitted else if s = ''aborted'' then Some TransactionAborted
      else if s = ''in progress'' then Some TransactionInProgress else None)"
| "status_of_text _ = None"

definition read_status :: "gateway \<Rightarrow> target \<Rightarrow> string \<Rightarrow> string
   \<Rightarrow> (unit, unit, (string \<times> json) list \<times> transaction_status) run_action" where
  "read_status gw tg database transaction_id =
     and_then (connect_target tg) (\<lambda>_.
     and_then (begin_read_only gw tg) (\<lambda>_.
     and_then (target_identity tg database) (\<lambda>identity.
     and_then (read_target (\<lambda>_. tg_status tg transaction_id)) (\<lambda>reply.
       case status_of_text reply of
         None \<Rightarrow> fail_with (Gateway status_unavailable)
       | Some status \<Rightarrow> give (identity, status)))))"

definition transaction_status ::
  "gateway \<Rightarrow> target \<Rightarrow> string \<Rightarrow> string \<Rightarrow> (unit gateway_error, (string \<times> json) list \<times> transaction_status) result" where
  "transaction_status gw tg database transaction_id =
     (if \<not> is_digits transaction_id then Inl status_unavailable
      else case fst (read_status gw tg database transaction_id (begin_run ())) of
          Inr recovery \<Rightarrow> Inr recovery
        | Inl (Gateway e) \<Rightarrow> Inl e
        | Inl (Foreign _) \<Rightarrow> Inl status_unavailable)"

end
