(* ===== verification/Migration_Execution.thy ===== *)
theory Migration_Execution
  imports Workspace_Store Postgres_Gateway
begin

text \<open>
  The execution coordinator of \<open>schemii/migrations/execution.py\<close>: it owns the work queue and every
  state transition of an execution on the target side. It applies a reviewed plan through the
  PostgreSQL gateway, records evidence before and after the target transaction, recovers interrupted
  executions from the status of that transaction and synchronizes design and baseline after a commit.

  An operation takes the state of the repositories and returns a value or an error and the new state;
  \<open>ServiceError\<close> is \<open>MigrationServiceError\<close>, \<open>InternalError\<close> any other exception. The record
  \<open>coordinator\<close> holds what an operation depends on: the clock, random tokens, the connections, the
  gateway with the replies of its target, Pydantic's parsing and dumping of the stored result, and the
  planner's comparison of the inspected catalog with the reviewed schema. Logging and the recording
  of limit events are not modelled.
\<close>

section \<open>Errors and sequencing\<close>

datatype coordinator_error = ServiceError nat string detail | InternalError

type_synonym 'a coordinated = "(app_state, coordinator_error, 'a) action"

text \<open>\<open>migration_repository_conflict\<close>; the other errors of the repository are not translated.\<close>

definition repository_error :: "migration_error \<Rightarrow> coordinator_error" where
  "repository_error e =
     (case e of MigrationConflictError code message details \<Rightarrow> ServiceError 409 code details | _ \<Rightarrow> InternalError)"

definition on_migrations :: "(migration_repo \<Rightarrow> (migration_error, 'a) result \<times> migration_repo) \<Rightarrow> 'a coordinated" where
  "on_migrations m st =
     (case m (ap_migrations st) of
        (Inl e, ms) \<Rightarrow> (Inl (repository_error e), st\<lparr>ap_migrations := ms\<rparr>)
      | (Inr a, ms) \<Rightarrow> (Inr a, st\<lparr>ap_migrations := ms\<rparr>))"

text \<open>What \<open>self._connections.use\<close> gives: no such connection, another error, or revision, owner and database.\<close>

datatype connection_reply = ConnectionMissing | ConnectionRefused | ConnectionInUse nat "string option" string

record coordinator =
  co_migration_env :: migration_env
  co_use_connection :: "string \<Rightarrow> string \<Rightarrow> connection_reply"
  co_gateway :: gateway
  co_target :: target
  co_executes :: bool
  co_reads_status :: bool
  co_now :: instant
  co_lease_ttl :: instant
  co_lease_token :: string
  co_content_of :: "json \<Rightarrow> design_content option"
  co_catalog_of :: "json \<Rightarrow> pg_catalog option"
  co_dump_catalog :: "pg_catalog \<Rightarrow> json"
  co_inspect :: "pg_catalog \<Rightarrow> plan_record \<Rightarrow> (detail, design_content) result"

definition set_connection_access :: "(string \<Rightarrow> string \<Rightarrow> connection_reply) \<Rightarrow> coordinator \<Rightarrow> coordinator" where
  "set_connection_access access co = co\<lparr>co_use_connection := access\<rparr>"

definition co_design_env :: "coordinator \<Rightarrow> design_env" where
  "co_design_env co = me_design_env (co_migration_env co)"

definition lease_deadline :: "coordinator \<Rightarrow> instant" where
  "lease_deadline co = co_now co + co_lease_ttl co"

section \<open>The queue\<close>

definition coordinator_reserve ::
  "coordinator \<Rightarrow> string \<Rightarrow> plan_record \<Rightarrow> execution_create \<Rightarrow> execution_reservation coordinated" where
  "coordinator_reserve co owner record request =
     on_migrations (reserve_execution (co_migration_env co) owner (mp_id (pl_plan record)) request (co_now co))"

definition claim_next :: "coordinator \<Rightarrow> string \<Rightarrow> execution_work option coordinated" where
  "claim_next co worker_id = on_migrations (claim_next_execution (co_now co) worker_id (co_now co + co_lease_ttl co))"

definition renew_work :: "coordinator \<Rightarrow> execution_work \<Rightarrow> bool coordinated" where
  "renew_work co work =
     (let record = wk_record work in
      case er_lease_owner record of
        None \<Rightarrow> give False
      | Some lease_owner \<Rightarrow> (\<lambda>st.
          case renew_execution_lease (er_owner_id record, mx_id (er_execution record)) lease_owner (lease_deadline co)
                 (ap_migrations st) of
            (renewed, ms) \<Rightarrow> (Inr renewed, st\<lparr>ap_migrations := ms\<rparr>)))"

section \<open>Transitions\<close>

text \<open>The keyword arguments \<open>**changes\<close> of a transition to a status; the rest is filled in below.\<close>

definition change_to :: "execution_status \<Rightarrow> execution_change" where
  "change_to status = \<lparr>tx_expected_revision = 0, tx_allowed_from = [], tx_status = status, tx_lease_owner = None,
     tx_lease_expires_at = None, tx_recover_expired_before = None, tx_completed_step_count = UNSET,
     tx_transaction_id = UNSET, tx_target_identity = UNSET, tx_intended_result = UNSET,
     tx_commit_outcome = UNSET, tx_sync_status = UNSET, tx_error_code = UNSET, tx_error_detail = UNSET\<rparr>"

definition retains_lease :: "execution_record \<Rightarrow> execution_change \<Rightarrow> bool" where
  "retains_lease record change =
     (tx_status change \<in> {Reserved, Applying}
      \<or> (tx_status change = Succeeded
         \<and> setting_or (mx_sync_status (er_execution record)) (tx_sync_status change) \<in> {Some SyncPending, Some SyncFailed}))"

definition coordinator_change :: "coordinator \<Rightarrow> execution_record \<Rightarrow> bool \<Rightarrow> execution_change \<Rightarrow> execution_change" where
  "coordinator_change co record recover_expired change =
     (let retains = retains_lease record change in change\<lparr>
        tx_expected_revision := mx_revision (er_execution record),
        tx_allowed_from := [mx_status (er_execution record)],
        tx_lease_owner := (if retains \<and> er_lease_owner record = None then Some (''mls_'' @ co_lease_token co)
                           else er_lease_owner record),
        tx_lease_expires_at := (if retains then Some (lease_deadline co) else None),
        tx_recover_expired_before := (if recover_expired then Some (co_now co) else None)\<rparr>)"

definition coordinator_transition ::
  "coordinator \<Rightarrow> execution_record \<Rightarrow> bool \<Rightarrow> execution_change \<Rightarrow> execution_record coordinated" where
  "coordinator_transition co record recover_expired change =
     on_migrations (transition_execution (co_migration_env co) (er_owner_id record, mx_id (er_execution record))
       (coordinator_change co record recover_expired change))"

definition execution_of :: "execution_record coordinated \<Rightarrow> migration_execution coordinated" where
  "execution_of m = and_then m (\<lambda>r. give (er_execution r))"

definition coordinator_plan :: "string \<Rightarrow> string \<Rightarrow> plan_record coordinated" where
  "coordinator_plan owner plan_id st =
     (case get_plan owner plan_id (ap_migrations st) of
        Inl e \<Rightarrow> (Inl (ServiceError 404 ''migration_plan_not_found'' []), st)
      | Inr record \<Rightarrow> (Inr record, st))"

definition coordinator_execution :: "ws_key \<Rightarrow> execution_record coordinated" where
  "coordinator_execution key st =
     (case get_execution key (ap_migrations st) of
        Inl e \<Rightarrow> (Inl (ServiceError 404 ''migration_execution_not_found'' []), st)
      | Inr record \<Rightarrow> (Inr record, st))"

definition coordinator_workspace :: "ws_key \<Rightarrow> workspace coordinated" where
  "coordinator_workspace key st =
     (case get_workspace key (ap_workspaces st) of
        Inl e \<Rightarrow> (Inl (ServiceError 404 ''workspace_not_found'' []), st)
      | Inr w \<Rightarrow> (Inr w, st))"

definition coordinator_design :: "coordinator \<Rightarrow> ws_key \<Rightarrow> schemii_design coordinated" where
  "coordinator_design co key st =
     (case design_get (co_design_env co) key (mr_designs (ap_migrations st)) of
        (Inl e, designs) \<Rightarrow> (Inl InternalError, st)
      | (Inr design, designs) \<Rightarrow> (Inr design, st))"

definition fail_before_apply :: "coordinator \<Rightarrow> execution_record \<Rightarrow> nat \<Rightarrow> string \<Rightarrow> detail \<Rightarrow> 'a coordinated" where
  "fail_before_apply co record status code details =
     and_then (coordinator_transition co record False ((change_to Failed)\<lparr>
         tx_commit_outcome := SetTo (Some RolledBack), tx_error_code := SetTo (Some code),
         tx_error_detail := SetTo (Some ((''beforeTargetMutation'', JBool True) # details))\<rparr>))
       (\<lambda>failed. fail_with (ServiceError status code ((''executionId'', JStr (mx_id (er_execution failed))) # details)))"

section \<open>Synchronization after a commit\<close>

text \<open>The stored result: \<open>None\<close> when \<open>intended["content"]\<close> or \<open>intended["catalog"]\<close> is absent or does not parse.\<close>

definition parse_intended :: "coordinator \<Rightarrow> detail \<Rightarrow> (design_content \<times> pg_catalog) option" where
  "parse_intended co intended =
     (case map_of intended ''content'' of None \<Rightarrow> None
      | Some content \<Rightarrow> (case co_content_of co content of None \<Rightarrow> None
          | Some merged \<Rightarrow> (case map_of intended ''catalog'' of None \<Rightarrow> None
              | Some catalog \<Rightarrow> map_option (Pair merged) (co_catalog_of co catalog))))"

text \<open>The design step: the design to record in the baseline, and whether it conflicts with the result.\<close>

definition sync_design ::
  "coordinator \<Rightarrow> string \<Rightarrow> plan_record \<Rightarrow> design_content \<Rightarrow> (schemii_design \<times> bool) coordinated" where
  "sync_design co owner record merged =
     (let key = (owner, mp_workspace_id (pl_plan record)); plan = pl_plan record in
      and_then (coordinator_design co key) (\<lambda>design st.
        if ds_fingerprint design = env_fingerprint (co_design_env co) merged then (Inr (design, False), st)
        else if ds_revision design \<noteq> mp_design_revision plan \<or> ds_fingerprint design \<noteq> mp_design_fingerprint plan
        then (Inr (design, True), st)
        else (case replace_design (co_design_env co) key
                \<lparr>dr_expected_design_revision = ds_revision design, dr_content = merged, dr_history_group_id = None\<rparr>
                ''checkpoint'' (mr_designs (ap_migrations st)) of
            (Inl e, designs) \<Rightarrow>
              (let st' = st\<lparr>ap_migrations := (ap_migrations st)\<lparr>mr_designs := designs\<rparr>\<rparr> in
               case e of DesignConflictError _ \<Rightarrow> (Inr (design, True), st') | _ \<Rightarrow> (Inl InternalError, st'))
          | (Inr revised, designs) \<Rightarrow>
              (Inr (revised, False), st\<lparr>ap_migrations := (ap_migrations st)\<lparr>mr_designs := designs\<rparr>\<rparr>))))"

definition sync_baseline_values ::
  "string \<Rightarrow> plan_record \<Rightarrow> migration_execution \<Rightarrow> design_content \<Rightarrow> pg_catalog \<Rightarrow> nat \<Rightarrow> baseline_record option \<Rightarrow> baseline_values" where
  "sync_baseline_values owner record execution merged catalog design_revision baseline =
     (let authority = pl_authority record in
      \<lparr>bv_owner_id = owner, bv_workspace_id = mp_workspace_id (pl_plan record),
       bv_connection_id = pa_connection_id authority,
       bv_connection_owner_id = Some (or_else (pa_connection_owner_id authority) owner),
       bv_connection_revision = pa_connection_revision authority, bv_database = pa_database authority,
       bv_namespace = pa_namespace authority, bv_design_revision = design_revision, bv_content = merged,
       bv_catalog = catalog, bv_complete = True, bv_issues = [], bv_source = ''migration'',
       bv_expected_predecessor_id = map_option bl_id baseline, bv_source_execution_id = Some (mx_id execution)\<rparr>)"

definition baseline_matches :: "pg_catalog \<Rightarrow> baseline_record option \<Rightarrow> bool" where
  "baseline_matches catalog baseline =
     (case baseline of None \<Rightarrow> False | Some b \<Rightarrow> cat_fingerprint (bl_catalog b) = cat_fingerprint catalog)"

text \<open>The baseline step: whether the current baseline describes the committed catalog afterwards.\<close>

definition sync_baseline ::
  "coordinator \<Rightarrow> string \<Rightarrow> plan_record \<Rightarrow> migration_execution \<Rightarrow> design_content \<Rightarrow> pg_catalog \<Rightarrow> nat \<Rightarrow> bool coordinated" where
  "sync_baseline co owner record execution merged catalog design_revision st =
     (let key = (owner, mp_workspace_id (pl_plan record)); baseline = current_baseline key (ap_migrations st) in
      if baseline_matches catalog baseline then (Inr True, st)
      else (case create_baseline (co_migration_env co)
              (sync_baseline_values owner record execution merged catalog design_revision baseline) (ap_migrations st) of
          (Inr b, ms) \<Rightarrow> (Inr True, st\<lparr>ap_migrations := ms\<rparr>)
        | (Inl e, ms) \<Rightarrow>
            (let st' = st\<lparr>ap_migrations := ms\<rparr> in
             case e of MigrationConflictError _ _ _ \<Rightarrow> (Inr (baseline_matches catalog (current_baseline key ms)), st')
             | _ \<Rightarrow> (Inl InternalError, st'))))"

definition sync_outcome :: "sync_status \<Rightarrow> string option \<Rightarrow> execution_change" where
  "sync_outcome sync code = (change_to Succeeded)\<lparr>tx_commit_outcome := SetTo (Some Committed),
     tx_sync_status := SetTo (Some sync), tx_error_code := SetTo code\<rparr>"

definition evidence_missing :: execution_change where
  "evidence_missing = (change_to ReconciliationRequired)\<lparr>tx_commit_outcome := SetTo (Some Committed),
     tx_sync_status := SetTo (Some SyncFailed), tx_error_code := SetTo (Some ''migration_result_evidence_missing'')\<rparr>"

text \<open>The last step: the latest design decides between success and conflict.\<close>

definition sync_result ::
  "coordinator \<Rightarrow> string \<Rightarrow> plan_record \<Rightarrow> execution_record \<Rightarrow> design_content \<Rightarrow> bool \<Rightarrow> bool \<Rightarrow> migration_execution coordinated" where
  "sync_result co owner record execution_record merged design_conflict baseline_ok =
     (if \<not> baseline_ok
      then execution_of (coordinator_transition co execution_record False
             (sync_outcome SyncConflict (Some ''post_commit_baseline_changed'')))
      else and_then (coordinator_design co (owner, mp_workspace_id (pl_plan record))) (\<lambda>latest_design.
        if design_conflict \<or> ds_fingerprint latest_design \<noteq> env_fingerprint (co_design_env co) merged
        then execution_of (coordinator_transition co execution_record False
          ((sync_outcome SyncConflict (Some ''post_commit_design_changed''))\<lparr>tx_error_detail := SetTo (Some
             [(''preservedDesignRevision'', JInt (int (ds_revision latest_design))), (''baselineAdvanced'', JBool True)])\<rparr>))
        else execution_of (coordinator_transition co execution_record False
          ((sync_outcome SyncSucceeded None)\<lparr>tx_error_detail := SetTo None\<rparr>))))"

definition sync_committed ::
  "coordinator \<Rightarrow> string \<Rightarrow> plan_record \<Rightarrow> execution_record \<Rightarrow> migration_execution coordinated" where
  "sync_committed co owner record execution_record =
     (if er_intended_result execution_record \<in> {None, Some []}
      then execution_of (coordinator_transition co execution_record False evidence_missing)
      else case parse_intended co (the (er_intended_result execution_record)) of
          None \<Rightarrow> fail_with InternalError
        | Some (merged, catalog) \<Rightarrow>
            and_then (sync_design co owner record merged) (\<lambda>(design, design_conflict).
            and_then (sync_baseline co owner record (er_execution execution_record) merged catalog
                (if design_conflict then mp_design_revision (pl_plan record) else ds_revision design))
              (sync_result co owner record execution_record merged design_conflict)))"

section \<open>Recovery\<close>

text \<open>
  The answer about a transaction: the gateway cannot tell, the connection is gone or the gateway
  failed (with its code), or the identity of the target and the status of the transaction.
\<close>

datatype status_reply = StatusUnavailable | StatusError string | StatusRead detail transaction_status | StatusRaised

definition owner_mismatch :: "string option \<Rightarrow> plan_record \<Rightarrow> string \<Rightarrow> bool" where
  "owner_mismatch connection_owner plan owner =
     (or_else connection_owner owner \<noteq> or_else (pa_connection_owner_id (pl_authority plan)) owner)"

definition read_transaction :: "coordinator \<Rightarrow> string \<Rightarrow> plan_record \<Rightarrow> string \<Rightarrow> status_reply" where
  "read_transaction co owner plan transaction_id =
     (if \<not> co_reads_status co then StatusUnavailable
      else case co_use_connection co owner (pa_connection_id (pl_authority plan)) of
          ConnectionMissing \<Rightarrow> StatusError ''postgres_reconciliation_failed''
        | ConnectionRefused \<Rightarrow> StatusRaised
        | ConnectionInUse revision connection_owner database \<Rightarrow>
            if owner_mismatch connection_owner plan owner then StatusError ''postgres_reconciliation_failed''
            else case transaction_status (co_gateway co) (co_target co) database transaction_id of
                Inl e \<Rightarrow> StatusError (gateway_code e)
              | Inr (identity, status) \<Rightarrow> StatusRead identity status)"

definition unresolved :: "string \<Rightarrow> execution_change" where
  "unresolved code = (change_to ReconciliationRequired)\<lparr>tx_commit_outcome := SetTo (Some OutcomeUncertain),
     tx_error_code := SetTo (Some code)\<rparr>"

definition rolled_back :: "string \<Rightarrow> execution_change" where
  "rolled_back code = (change_to Failed)\<lparr>tx_commit_outcome := SetTo (Some RolledBack), tx_error_code := SetTo (Some code)\<rparr>"

definition reconcile_transaction ::
  "coordinator \<Rightarrow> string \<Rightarrow> plan_record \<Rightarrow> execution_record \<Rightarrow> bool \<Rightarrow> migration_execution coordinated" where
  "reconcile_transaction co owner plan execution_record automatic =
     (case read_transaction co owner plan (the (mx_transaction_id (er_execution execution_record))) of
        StatusRaised \<Rightarrow> fail_with InternalError
      | StatusUnavailable \<Rightarrow>
          if automatic
          then execution_of (coordinator_transition co execution_record False
                 (unresolved ''postgres_transaction_status_unavailable''))
          else fail_with (ServiceError 503 ''postgres_transaction_status_unavailable'' [])
      | StatusError code \<Rightarrow>
          if automatic then execution_of (coordinator_transition co execution_record False (unresolved code))
          else fail_with (ServiceError 502 code [])
      | StatusRead identity status \<Rightarrow>
          if er_target_identity execution_record = None \<or> Some identity \<noteq> er_target_identity execution_record
          then execution_of (coordinator_transition co execution_record (\<not> automatic)
            ((unresolved ''migration_target_identity_changed'')\<lparr>tx_error_detail := SetTo (Some
               [(''reconciliationRequired'', JBool True),
                (''expectedTargetIdentity'', json_opt JObj (er_target_identity execution_record)),
                (''currentTargetIdentity'', JObj identity)])\<rparr>))
          else (case status of
              TransactionAborted \<Rightarrow> execution_of (coordinator_transition co execution_record (\<not> automatic)
                (rolled_back ''migration_transaction_aborted''))
            | TransactionInProgress \<Rightarrow> execution_of (coordinator_transition co execution_record (\<not> automatic)
                ((unresolved ''migration_transaction_in_progress'')\<lparr>tx_status :=
                   (if automatic then Applying else ReconciliationRequired)\<rparr>))
            | TransactionCommitted \<Rightarrow>
                and_then (coordinator_transition co execution_record (\<not> automatic)
                    ((sync_outcome SyncPending None)\<lparr>tx_error_detail := SetTo None\<rparr>))
                  (sync_committed co owner plan)))"

definition truthy_text :: "string option \<Rightarrow> bool" where
  "truthy_text v = (v \<notin> {None, Some ''''})"

definition recover_claimed :: "coordinator \<Rightarrow> execution_record \<Rightarrow> migration_execution coordinated" where
  "recover_claimed co execution_record =
     (if \<not> truthy_text (mx_transaction_id (er_execution execution_record))
      then execution_of (coordinator_transition co execution_record False (rolled_back ''migration_never_started''))
      else and_then (coordinator_plan (er_owner_id execution_record) (mx_plan_id (er_execution execution_record)))
        (\<lambda>plan. reconcile_transaction co (er_owner_id execution_record) plan execution_record True))"

definition coordinator_reconcile ::
  "coordinator \<Rightarrow> string \<Rightarrow> string \<Rightarrow> nat \<Rightarrow> migration_execution coordinated" where
  "coordinator_reconcile co owner execution_id expected_revision =
     and_then (coordinator_execution (owner, execution_id)) (\<lambda>execution_record.
       let execution = er_execution execution_record in
       if mx_revision execution \<noteq> expected_revision
       then fail_with (ServiceError 409 ''migration_execution_changed''
              [(''currentExecutionRevision'', JInt (int (mx_revision execution)))])
       else if er_lease_owner execution_record \<noteq> None
               \<and> (case er_lease_expires_at execution_record of None \<Rightarrow> False | Some t \<Rightarrow> t > co_now co)
       then fail_with (ServiceError 409 ''migration_execution_lease_active''
              [(''recoveryAvailableAt'', json_opt JInt (er_lease_expires_at execution_record))])
       else if mx_commit_outcome execution = Some Committed
       then and_then (coordinator_plan owner (mx_plan_id execution)) (\<lambda>plan. sync_committed co owner plan execution_record)
       else if mx_status execution \<notin> {Reserved, Applying, Uncertain, ReconciliationRequired}
       then give execution
       else if \<not> truthy_text (mx_transaction_id execution)
       then execution_of (coordinator_transition co execution_record True (rolled_back ''migration_never_started''))
       else and_then (coordinator_plan owner (mx_plan_id execution))
         (\<lambda>plan. reconcile_transaction co owner plan execution_record False))"

definition list_recoverable :: "coordinator \<Rightarrow> nat \<Rightarrow> execution_record list coordinated" where
  "list_recoverable co limit st =
     (if \<not> (1 \<le> limit \<and> limit \<le> 250) then (Inl InternalError, st)
      else (Inr (list_recoverable_executions (co_now co) limit (ap_migrations st)), st))"

section \<open>Execution\<close>

text \<open>What the callbacks of the gateway change: the repositories, the record read last and the evidence.\<close>

record execution_session =
  xs_app :: app_state
  xs_record :: execution_record
  xs_intended :: detail

definition session_transition :: "coordinator \<Rightarrow> execution_change \<Rightarrow> (execution_session, coordinator_error) callback" where
  "session_transition co change s =
     (case coordinator_transition co (xs_record s) False change (xs_app s) of
        (Inl e, st) \<Rightarrow> (Inl e, s\<lparr>xs_app := st\<rparr>)
      | (Inr record, st) \<Rightarrow> (Inr (), s\<lparr>xs_app := st, xs_record := record\<rparr>))"

definition on_started :: "coordinator \<Rightarrow> string \<Rightarrow> detail \<Rightarrow> (execution_session, coordinator_error) callback" where
  "on_started co transaction_id identity = session_transition co ((change_to Applying)\<lparr>
     tx_transaction_id := SetTo (Some transaction_id), tx_target_identity := SetTo (Some identity)\<rparr>)"

definition intended_evidence :: "coordinator \<Rightarrow> pg_catalog \<Rightarrow> design_content \<Rightarrow> detail" where
  "intended_evidence co catalog candidate =
     [(''catalog'', co_dump_catalog co catalog), (''content'', content_document (\<lambda>k. k) candidate),
      (''catalogFingerprint'', JStr (cat_fingerprint catalog)),
      (''designFingerprint'', JStr (env_fingerprint (co_design_env co) candidate))]"

definition on_intended :: "coordinator \<Rightarrow> plan_record \<Rightarrow> pg_catalog \<Rightarrow> (execution_session, coordinator_error) callback" where
  "on_intended co record catalog =
     (case co_inspect co catalog record of
        Inl details \<Rightarrow> fail_with (ServiceError 409 ''migration_result_mismatch'' details)
      | Inr candidate \<Rightarrow>
          (let intended = intended_evidence co catalog candidate in
           and_then (modify (\<lambda>s. s\<lparr>xs_intended := intended\<rparr>))
             (\<lambda>_. session_transition co ((change_to Applying)\<lparr>
                tx_completed_step_count := SetTo (length (mp_steps (pl_plan record))),
                tx_intended_result := SetTo (Some intended)\<rparr>))))"

definition conversion_tables :: "plan_record \<Rightarrow> string list" where
  "conversion_tables record =
     (let conversion_ids = map tc_table_id (filter (\<lambda>item. tc_strategy item \<noteq> None \<and> \<not> truthy_text (tc_validation_error item))
            (mp_column_type_conversions (pl_plan record)))
      in map tbl_name (filter (\<lambda>table. tbl_id table \<in> set conversion_ids) (content_tables (pa_live_content (pl_authority record)))))"

definition run_target :: "coordinator \<Rightarrow> plan_record \<Rightarrow> string \<Rightarrow> execution_session
   \<Rightarrow> (coordinator_error gateway_error, migration_result) result \<times> execution_session migration_run" where
  "run_target co record database s =
     (let authority = pl_authority record in
      execute_migration (co_gateway co) (co_target co) database (pa_namespace authority)
        (cat_fingerprint (pa_live_catalog authority)) (map st_sql (mp_steps (pl_plan record)))
        (on_started co) (on_intended co record) (pa_required_empty_tables authority) (conversion_tables record) s)"

text \<open>The record is failed and the error raised.\<close>

definition fail_rolled_back ::
  "coordinator \<Rightarrow> execution_record \<Rightarrow> execution_change \<Rightarrow> coordinator_error \<Rightarrow> 'a coordinated" where
  "fail_rolled_back co record change e = and_then (coordinator_transition co record False change) (\<lambda>_. fail_with e)"

definition failed_step_details :: "plan_record \<Rightarrow> nat \<Rightarrow> string option \<Rightarrow> detail" where
  "failed_step_details record completed sqlstate =
     (let steps = mp_steps (pl_plan record) in
      [(''message'', JStr (execution_error_message sqlstate)),
       (''objectPath'', if completed < length steps then JStr (st_object_path (steps ! completed)) else JNull)])"

definition capacity_details :: "string \<Rightarrow> nat \<Rightarrow> nat \<Rightarrow> detail" where
  "capacity_details limit_name limit observed =
     [(''resource'', JStr ''postgres_connections''), (''limitName'', JStr limit_name), (''limit'', JInt (int limit)),
      (''observed'', JInt (int observed))]"

definition with_details :: "execution_change \<Rightarrow> detail \<Rightarrow> execution_change" where
  "with_details change details = change\<lparr>tx_error_detail := SetTo (Some details)\<rparr>"

text \<open>The handlers around the call of the gateway.\<close>

definition handle_target_error ::
  "coordinator \<Rightarrow> plan_record \<Rightarrow> execution_record \<Rightarrow> coordinator_error gateway_error \<Rightarrow> migration_execution coordinated" where
  "handle_target_error co record execution_record e =
     (let code = gateway_code e in case e of
        MigrationStaleError current \<Rightarrow>
          (let details = [(''currentCatalogFingerprint'', JStr current)] in
           fail_rolled_back co execution_record (with_details (rolled_back code) details) (ServiceError 409 code details))
      | MigrationPreconditionError tables \<Rightarrow>
          (let details = [(''tables'', JList (map JStr tables))] in
           fail_rolled_back co execution_record (with_details (rolled_back code) details) (ServiceError 409 code details))
      | CommitUncertainError \<Rightarrow>
          execution_of (coordinator_transition co execution_record False ((change_to Uncertain)\<lparr>
             tx_commit_outcome := SetTo (Some OutcomeUncertain), tx_error_code := SetTo (Some code),
             tx_error_detail := SetTo (Some [(''reconciliationRequired'', JBool True)])\<rparr>))
      | MigrationExecutionError completed sqlstate cause \<Rightarrow>
          (case cause of
             Some (ServiceError status callback_code callback_details) \<Rightarrow>
               if callback_code = ''migration_result_mismatch''
               then fail_rolled_back co execution_record (with_details (rolled_back callback_code) callback_details)
                      (ServiceError status callback_code callback_details)
               else fail_with (ServiceError status callback_code callback_details)
           | _ \<Rightarrow>
               (let details = failed_step_details record completed sqlstate in
                fail_rolled_back co execution_record
                  ((with_details (rolled_back code) details)\<lparr>tx_completed_step_count := SetTo completed\<rparr>)
                  (ServiceError 409 code details)))
      | ConnectionCapacityError limit_name limit observed \<Rightarrow>
          (let details = capacity_details limit_name limit observed in
           fail_rolled_back co execution_record (with_details (rolled_back code) details) (ServiceError 503 code details))
      | GatewayError _ _ \<Rightarrow> fail_rolled_back co execution_record (rolled_back code) (ServiceError 502 code []))"

definition committed_change :: "migration_result \<Rightarrow> detail \<Rightarrow> execution_change" where
  "committed_change result intended = (sync_outcome SyncPending None)\<lparr>
     tx_completed_step_count := SetTo (gr_completed_step_count result),
     tx_transaction_id := SetTo (Some (gr_transaction_id result)),
     tx_target_identity := SetTo (Some (gr_target_identity result)),
     tx_intended_result := SetTo (Some intended), tx_error_detail := SetTo None\<rparr>"

definition apply_plan ::
  "coordinator \<Rightarrow> plan_record \<Rightarrow> execution_record \<Rightarrow> string \<Rightarrow> migration_execution coordinated" where
  "apply_plan co record execution_record database st =
     (case run_target co record database \<lparr>xs_app = st, xs_record = execution_record, xs_intended = []\<rparr> of
        (reply, run) \<Rightarrow>
          let s = rn_state run in
          (case reply of
             Inl e \<Rightarrow> handle_target_error co record (xs_record s) e (xs_app s)
           | Inr result \<Rightarrow>
               and_then (coordinator_transition co (xs_record s) False (committed_change result (xs_intended s)))
                 (sync_committed co (er_owner_id execution_record) record) (xs_app s)))"

definition target_changed :: "workspace \<Rightarrow> plan_record \<Rightarrow> string \<Rightarrow> bool" where
  "target_changed w record owner =
     (let authority = pl_authority record in
      wk_connection_id w \<noteq> Some (pa_connection_id authority) \<or> owner_mismatch (wk_connection_owner_id w) record owner
      \<or> wk_database w \<noteq> Some (pa_database authority) \<or> wk_namespace w \<noteq> Some (pa_namespace authority))"

definition baseline_change_details :: "plan_record \<Rightarrow> baseline_record option \<Rightarrow> detail" where
  "baseline_change_details record baseline =
     [(''reviewedBaselineId'', JStr (pl_baseline_id record)),
      (''reviewedBaselineRevision'', JInt (int (mp_baseline_revision (pl_plan record)))),
      (''currentBaselineId'', json_opt JStr (map_option bl_id baseline)),
      (''currentBaselineRevision'', json_opt (\<lambda>n. JInt (int n)) (map_option bl_revision baseline))]"

definition reviewed_baseline :: "plan_record \<Rightarrow> baseline_record option \<Rightarrow> bool" where
  "reviewed_baseline record baseline =
     (case baseline of None \<Rightarrow> False
      | Some b \<Rightarrow> bl_id b = pl_baseline_id record \<and> bl_revision b = mp_baseline_revision (pl_plan record))"

text \<open>Everything before the gateway is called: the plan to apply and the database to connect to.\<close>

definition admit :: "coordinator \<Rightarrow> execution_record \<Rightarrow> (plan_record \<times> string) coordinated" where
  "admit co execution_record =
     (let owner = er_owner_id execution_record in
      and_then (coordinator_plan owner (mx_plan_id (er_execution execution_record))) (\<lambda>record.
      let plan = pl_plan record; authority = pl_authority record; key = (owner, mp_workspace_id plan) in
      and_then (coordinator_workspace key) (\<lambda>w.
      and_then (coordinator_design co key) (\<lambda>design st.
        let baseline = current_baseline key (ap_migrations st) in
        (if target_changed w record owner then fail_before_apply co execution_record 409 ''workspace_changed'' []
         else if ds_revision design \<noteq> mp_design_revision plan \<or> ds_fingerprint design \<noteq> mp_design_fingerprint plan
         then fail_before_apply co execution_record 409 ''design_changed'' []
         else if \<not> reviewed_baseline record baseline
         then fail_before_apply co execution_record 409 ''baseline_changed'' (baseline_change_details record baseline)
         else if \<not> co_executes co
         then fail_before_apply co execution_record 503 ''postgres_migration_execution_unavailable'' []
         else case co_use_connection co owner (pa_connection_id authority) of
             ConnectionMissing \<Rightarrow> fail_rolled_back co execution_record (rolled_back ''connection_not_found'')
               (ServiceError 502 ''connection_not_found'' [])
           | ConnectionRefused \<Rightarrow> fail_with InternalError
           | ConnectionInUse revision connection_owner database \<Rightarrow>
               if revision \<noteq> pa_connection_revision authority \<or> owner_mismatch connection_owner record owner
               then fail_before_apply co execution_record 409 ''connection_changed'' []
               else give (record, database)) st))))"

definition execute_claimed :: "coordinator \<Rightarrow> execution_record \<Rightarrow> migration_execution coordinated" where
  "execute_claimed co execution_record =
     and_then (admit co execution_record) (\<lambda>(record, database). apply_plan co record execution_record database)"

section \<open>The worker's entry point\<close>

definition dict_merge :: "detail \<Rightarrow> detail \<Rightarrow> detail" where
  "dict_merge d e = foldl (\<lambda>m (k, v). AList.update k v m) d e"

text \<open>The transition that records a failure of the worker, if the record calls for one.\<close>

definition failure_change :: "string \<Rightarrow> detail option \<Rightarrow> migration_execution \<Rightarrow> execution_change option" where
  "failure_change code details execution =
     (let more = (case details of None \<Rightarrow> [] | Some d \<Rightarrow> d) in
      case mx_status execution of
        Reserved \<Rightarrow> Some (with_details (rolled_back code) (dict_merge [(''beforeTargetMutation'', JBool True)] more))
      | Applying \<Rightarrow> Some (with_details (unresolved code) (dict_merge [(''reconciliationRequired'', JBool True)] more))
      | Succeeded \<Rightarrow>
          if mx_commit_outcome execution = Some Committed
          then Some ((change_to Succeeded)\<lparr>tx_sync_status := SetTo (Some SyncFailed), tx_error_code := SetTo (Some code),
                  tx_error_detail := SetTo details\<rparr>)
          else None
      | _ \<Rightarrow> None)"

definition record_processing_failure ::
  "coordinator \<Rightarrow> execution_work \<Rightarrow> string \<Rightarrow> detail option \<Rightarrow> app_state \<Rightarrow> migration_execution \<times> app_state" where
  "record_processing_failure co work code details st =
     (let key = (er_owner_id (wk_record work), mx_id (er_execution (wk_record work))) in
      case get_execution key (ap_migrations st) of
        Inl e \<Rightarrow> (er_execution (wk_record work), st)
      | Inr current \<Rightarrow>
          if er_lease_owner current \<noteq> er_lease_owner (wk_record work) then (er_execution current, st)
          else (case failure_change code details (er_execution current) of
              None \<Rightarrow> (er_execution current, st)
            | Some change \<Rightarrow>
                (case coordinator_transition co current False change st of
                   (Inl e, st') \<Rightarrow> (er_execution (wk_record work), st')
                 | (Inr changed, st') \<Rightarrow> (er_execution changed, st'))))"

definition process_kind :: "coordinator \<Rightarrow> execution_work \<Rightarrow> migration_execution coordinated" where
  "process_kind co work =
     (let record = wk_record work in
      case wk_kind work of
        ExecuteWork \<Rightarrow> execute_claimed co record
      | ReconcileWork \<Rightarrow> recover_claimed co record
      | SyncWork \<Rightarrow> and_then (coordinator_plan (er_owner_id record) (mx_plan_id (er_execution record)))
          (\<lambda>plan. sync_committed co (er_owner_id record) plan record))"

definition process :: "coordinator \<Rightarrow> execution_work \<Rightarrow> app_state \<Rightarrow> migration_execution \<times> app_state" where
  "process co work st =
     (case process_kind co work st of
        (Inr execution, st') \<Rightarrow> (execution, st')
      | (Inl (ServiceError status code details), st') \<Rightarrow>
          record_processing_failure co work code (if details = [] then None else Some details) st'
      | (Inl InternalError, st') \<Rightarrow> record_processing_failure co work ''migration_worker_failed'' None st')"

end
