(* ===== verification/Migration_Callbacks.thy ===== *)
theory Migration_Callbacks
  imports Postgres_Gateway
begin

text \<open>
  The contract between the gateway and the caller of \<open>execute_migration\<close>. The caller says what its two
  callbacks establish; the gateway promises in which of these states it ends. In particular the
  transaction can only have taken effect after both callbacks have succeeded, and then the gateway
  answers with success or with an uncertain commit, never with a failure.
\<close>

definition quiet :: "'s migration_run \<Rightarrow> bool" where
  "quiet run = (\<not> rn_attempted run \<and> \<not> rn_applied run)"

text \<open>Errors of the gateway's own steps: none of them is an uncertain commit or has a cause.\<close>

definition certain :: "'e raised \<Rightarrow> bool" where
  "certain e = (case e of Foreign _ \<Rightarrow> False
     | Gateway g \<Rightarrow> g \<noteq> CommitUncertainError \<and> (\<forall>n s c. g \<noteq> MigrationExecutionError n s c))"

text \<open>Steps that leave the caller's state and the commit alone.\<close>

definition plain :: "('s, 'e, 'a) run_action \<Rightarrow> bool" where
  "plain m = (\<forall>s n. achieves (\<lambda>run. quiet run \<and> rn_state run = s \<and> rn_completed run = n) m
     (\<lambda>_ run. quiet run \<and> rn_state run = s \<and> rn_completed run = n)
     (\<lambda>e run. quiet run \<and> rn_state run = s \<and> rn_completed run = n \<and> certain e))"

lemma plain_spec:
  assumes "plain m"
  shows "achieves (\<lambda>run. quiet run \<and> P (rn_state run) \<and> rn_completed run = n) m
     (\<lambda>_ run. quiet run \<and> P (rn_state run) \<and> rn_completed run = n)
     (\<lambda>e run. quiet run \<and> P (rn_state run) \<and> rn_completed run = n \<and> certain e)"
proof (rule achieves_I)
  fix st assume st: "quiet st \<and> P (rn_state st) \<and> rn_completed st = n"
  obtain r st' where r: "m st = (r, st')" by fastforce
  have p: "achieves (\<lambda>run. quiet run \<and> rn_state run = rn_state st \<and> rn_completed run = n) m
     (\<lambda>_ run. quiet run \<and> rn_state run = rn_state st \<and> rn_completed run = n)
     (\<lambda>e run. quiet run \<and> rn_state run = rn_state st \<and> rn_completed run = n \<and> certain e)"
    using assms by (simp add: plain_def)
  show "case m st of (Inl e, st') \<Rightarrow> quiet st' \<and> P (rn_state st') \<and> rn_completed st' = n \<and> certain e
      | (Inr a, st') \<Rightarrow> quiet st' \<and> P (rn_state st') \<and> rn_completed st' = n"
  proof (cases r)
    case (Inl e)
    with achieves_error[OF p _ r[unfolded Inl]] st r show ?thesis by simp
  next
    case (Inr a)
    with achieves_value[OF p _ r[unfolded Inr]] st r show ?thesis by simp
  qed
qed

lemma plain_give [simp, intro]: "plain (give a)"
  by (simp add: plain_def)

lemma plain_fail [intro]: "certain e \<Longrightarrow> plain (fail_with e)"
  by (simp add: plain_def)

lemma plain_then [intro]: "plain m \<Longrightarrow> (\<And>a. plain (f a)) \<Longrightarrow> plain (and_then m f)"
  unfolding plain_def by (blast intro: achieves_then)

lemma plain_for_each [intro]: "(\<And>x. plain (f x)) \<Longrightarrow> plain (for_each f xs)"
  by (induction xs) auto

lemma plain_collect [intro]: "(\<And>x. plain (f x)) \<Longrightarrow> plain (collect f xs)"
  by (induction xs) auto

lemma certain_simps [simp]:
  "certain query_error" "certain (Gateway catalog_invalid)" "certain (Gateway (GatewayError c s))"
  "certain (Gateway (MigrationStaleError f))" "certain (Gateway (MigrationPreconditionError ts))"
  "certain (Gateway (ConnectionCapacityError n l k))"
  by (simp_all add: certain_def query_error_def catalog_invalid_def)

lemma plain_execute [simp, intro]: "plain (execute_statement tg q)"
  by (auto simp: plain_def achieves_def execute_statement_def quiet_def split: option.splits)

lemma plain_read [simp, intro]: "plain (read_target reply)"
  by (auto simp: plain_def achieves_def read_target_def split: sum.splits)

lemma plain_advisory [simp, intro]: "plain (take_advisory_lock tg)"
  by (auto simp: plain_def achieves_def take_advisory_lock_def execute_statement_def quiet_def split: option.splits)

lemma plain_connect [simp, intro]: "plain (connect_target tg)"
  by (auto simp: connect_target_def split: connect_reply.splits)

lemma plain_begin [simp, intro]: "plain (begin_write gw tg b)"
  unfolding begin_write_def set_timeout_ceiling_def Let_def by (intro plain_then plain_execute)

lemma plain_check [simp, intro]: "plain (check_target tg f names)"
  unfolding check_target_def table_emptiness_connection_def Let_def
  by (rule plain_then, simp) (auto intro!: plain_then plain_collect plain_fail)

lemma plain_identity [simp, intro]: "plain (target_identity tg db)"
proof -
  have "plain (require_database row db)" for row
    unfolding require_database_def by (auto intro!: plain_fail split: option.splits json.splits)
  then show ?thesis unfolding target_identity_def by (intro plain_then) (auto intro!: plain_fail)
qed

lemma plain_transaction_id [simp, intro]: "plain (read_transaction_id tg)"
  unfolding read_transaction_id_def
  by (rule plain_then, simp) (auto intro!: plain_fail split: option.splits json.splits)

lemma plain_prepare: "plain (prepare_migration gw tg db ns f es cs)"
  unfolding prepare_migration_def lock_tables_def conversion_settings_def
  by (intro plain_then plain_for_each) auto

text \<open>The statements of the plan: the caller's state stays, the completed ones are counted.\<close>

lemma apply_statements:
  "achieves (\<lambda>run. quiet run \<and> P (rn_state run) \<and> rn_completed run = n) (for_each (apply_statement tg) qs)
     (\<lambda>_ run. quiet run \<and> P (rn_state run) \<and> rn_completed run = n + length qs)
     (\<lambda>e run. quiet run \<and> P (rn_state run) \<and> certain e)"
proof (induction qs arbitrary: n)
  case (Cons q qs)
  have "achieves (\<lambda>run. quiet run \<and> P (rn_state run) \<and> rn_completed run = n) (apply_statement tg q)
     (\<lambda>_ run. quiet run \<and> P (rn_state run) \<and> rn_completed run = n + 1)
     (\<lambda>e run. quiet run \<and> P (rn_state run) \<and> certain e)"
    by (auto simp: achieves_def apply_statement_def and_then_def execute_statement_def modify_def fail_with_def quiet_def
        split: option.splits)
  from achieves_then[OF this, of "\<lambda>_. for_each (apply_statement tg) qs"] Cons[of "n + 1"] show ?case by simp
qed simp

lemma call_back_spec:
  assumes "achieves I f (\<lambda>_. Q) E"
  shows "achieves (\<lambda>run. quiet run \<and> I (rn_state run) \<and> rn_completed run = n) (call_back f)
     (\<lambda>_ run. quiet run \<and> Q (rn_state run) \<and> rn_completed run = n)
     (\<lambda>e run. quiet run \<and> rn_completed run = n \<and> (\<exists>c. e = Foreign c \<and> E c (rn_state run)))"
  using assms unfolding achieves_def call_back_def quiet_def by (fastforce split: prod.splits sum.splits)

text \<open>The ways \<open>execute_migration\<close> ends: a refused name, or the body of the transaction with its handlers.\<close>

lemma execute_migration_cases:
  assumes "execute_migration gw tg db ns f qs on_started on_intended es cs s = (reply, run)"
  obtains (refused) code where "reply = Inl (GatewayError code None)" "run = begin_run s"
    | (succeeded) ns es cs result where "reply = Inr result"
        "and_then (prepare_migration gw tg db ns f es cs)
           (\<lambda>(idn, tx). apply_migration tg qs on_started on_intended idn tx) (begin_run s) = (Inr result, run)"
    | (failed) ns es cs c e where "reply = Inl (migration_error_of c run e)"
        "and_then (prepare_migration gw tg db ns f es cs)
           (\<lambda>(idn, tx). apply_migration tg qs on_started on_intended idn tx) (begin_run s) = (Inl e, run)"
proof -
  consider "bad_name ns \<or> list_ex bad_name (sorted_set es) \<or> list_ex bad_name (sorted_set cs)"
    | "\<not> bad_name ns" "\<not> list_ex bad_name (sorted_set es)" "\<not> list_ex bad_name (sorted_set cs)" by blast
  then show thesis
  proof cases
    case 1
    then have "\<exists>code. reply = Inl (GatewayError code None) \<and> run = begin_run s"
      using assms by (auto simp: execute_migration_def validated_namespace_def validated_table_names_def catalog_invalid_def
          Let_def split: if_splits)
    then show thesis using refused by blast
  next
    case 2
    obtain r run' where r: "and_then (prepare_migration gw tg db ns f (sorted_set es) (sorted_set cs))
        (\<lambda>(idn, tx). apply_migration tg qs on_started on_intended idn tx) (begin_run s) = (r, run')" by fastforce
    have "reply = (case r of Inr result \<Rightarrow> Inr result | Inl e \<Rightarrow> Inl (migration_error_of (sorted_set cs \<noteq> []) run' e))" "run' = run"
      using assms 2 r by (auto simp: execute_migration_def validated_namespace_def validated_table_names_def Let_def
          split: sum.splits)
    then show thesis using r succeeded failed by (cases r) auto
  qed
qed

locale migration_callbacks =
  fixes on_started :: "string \<Rightarrow> (string \<times> json) list \<Rightarrow> ('s, 'e) callback"
    and on_intended :: "pg_catalog \<Rightarrow> ('s, 'e) callback"
    and initial :: "'s \<Rightarrow> bool"
    and started :: "string \<Rightarrow> (string \<times> json) list \<Rightarrow> 's \<Rightarrow> bool"
    and intended :: "string \<Rightarrow> (string \<times> json) list \<Rightarrow> pg_catalog \<Rightarrow> 's \<Rightarrow> bool"
    and refusal :: "'e \<Rightarrow> bool"
  assumes starting: "achieves initial (on_started tx idn) (\<lambda>_. started tx idn) (\<lambda>e s. initial s \<and> refusal e)"
    and intending: "achieves (started tx idn) (on_intended cat) (\<lambda>_. intended tx idn cat) (\<lambda>e s. started tx idn s \<and> refusal e)"
begin

definition stopped :: "'e raised \<Rightarrow> 's migration_run \<Rightarrow> bool" where
  "stopped e run =
     (quiet run \<and> (certain e \<or> (\<exists>c. e = Foreign c \<and> refusal c)) \<and> (initial (rn_state run) \<and> rn_completed run = 0 \<or> (\<exists>tx idn. started tx idn (rn_state run)))
      \<or> e = Gateway CommitUncertainError \<and> (\<exists>tx idn cat. intended tx idn cat (rn_state run)))"

definition finished :: "nat \<Rightarrow> migration_result \<Rightarrow> 's migration_run \<Rightarrow> bool" where
  "finished n result run = (rn_applied run \<and> gr_completed_step_count result = n
     \<and> intended (gr_transaction_id result) (gr_target_identity result) (gr_catalog result) (rn_state run))"

lemma commit_spec:
  "achieves (\<lambda>run. quiet run \<and> intended tx idn cat (rn_state run) \<and> rn_completed run = n) (commit_target tg)
     (\<lambda>_ run. rn_applied run \<and> intended tx idn cat (rn_state run) \<and> rn_completed run = n) stopped"
  by (auto simp: achieves_def commit_target_def Let_def stopped_def)

lemma apply_spec:
  "achieves (\<lambda>run. quiet run \<and> initial (rn_state run) \<and> rn_completed run = 0)
     (apply_migration tg qs on_started on_intended idn tx) (finished (length qs)) stopped"
  unfolding apply_migration_def
proof (intro achieves_then)
  let ?at = "\<lambda>P n run. quiet run \<and> P (rn_state run) \<and> rn_completed run = n"
  show "achieves (?at initial 0) (call_back (on_started tx idn)) (\<lambda>_. ?at (started tx idn) 0) stopped"
    by (rule achieves_conseq[OF call_back_spec[OF starting, where n = 0]]) (auto simp: stopped_def)
  show "achieves (?at (started tx idn) 0) (for_each (apply_statement tg) qs) (\<lambda>_. ?at (started tx idn) (length qs)) stopped"
    by (rule achieves_conseq[OF apply_statements[where P = "started tx idn" and n = 0]]) (auto simp: stopped_def)
  have "plain (read_target (tg_introspect tg) :: ('s, 'e, pg_catalog) run_action)" by simp
  then show "achieves (?at (started tx idn) (length qs)) (read_target (tg_introspect tg))
      (\<lambda>_. ?at (started tx idn) (length qs)) stopped"
    by (rule achieves_conseq[OF plain_spec]) (auto simp: stopped_def)
  show "achieves (?at (started tx idn) (length qs)) (call_back (on_intended cat))
      (\<lambda>_. ?at (intended tx idn cat) (length qs)) stopped" for cat
    by (rule achieves_conseq[OF call_back_spec[OF intending, where n = "length qs"]]) (auto simp: stopped_def)
  show "achieves (\<lambda>run. quiet run \<and> intended tx idn cat (rn_state run) \<and> rn_completed run = length qs) (commit_target tg)
     (\<lambda>_ run. rn_applied run \<and> intended tx idn cat (rn_state run) \<and> rn_completed run = length qs) stopped" for cat
    by (rule commit_spec)
qed (simp add: achieves_def finished_def)

lemma body_spec:
  "achieves (\<lambda>run. run = begin_run s \<and> initial s)
     (and_then (prepare_migration gw tg db ns f es cs) (\<lambda>(idn, tx). apply_migration tg qs on_started on_intended idn tx))
     (finished (length qs)) stopped"
proof (rule achieves_then)
  have "plain (prepare_migration gw tg db ns f es cs :: ('s, 'e, _) run_action)" by (rule plain_prepare)
  then show "achieves (\<lambda>run. run = begin_run s \<and> initial s) (prepare_migration gw tg db ns f es cs)
      (\<lambda>_ run. quiet run \<and> initial (rn_state run) \<and> rn_completed run = 0) stopped"
    by (rule achieves_conseq[OF plain_spec[where P = initial and n = 0]]) (auto simp: stopped_def begin_run_def quiet_def)
qed (simp add: split_def apply_spec)

lemma outcome:
  assumes "initial s" "execute_migration gw tg db ns f qs on_started on_intended es cs s = (reply, run)"
  shows "(case reply of
      Inr result \<Rightarrow> rn_applied run \<and> gr_completed_step_count result = length qs
        \<and> intended (gr_transaction_id result) (gr_target_identity result) (gr_catalog result) (rn_state run)
    | Inl CommitUncertainError \<Rightarrow> (\<exists>tx idn cat. intended tx idn cat (rn_state run))
    | Inl e \<Rightarrow> \<not> rn_applied run \<and> (\<forall>n sqlstate c. e = MigrationExecutionError n sqlstate (Some c) \<longrightarrow> refusal c)
        \<and> (initial (rn_state run) \<and> rn_completed run = 0 \<or> (\<exists>tx idn. started tx idn (rn_state run))))"
proof -
  from assms(2) show ?thesis
  proof (cases rule: execute_migration_cases)
    case refused
    then show ?thesis using assms(1) by (simp add: begin_run_def)
  next
    case succeeded
    then show ?thesis using achieves_value[OF body_spec _ succeeded(2)] assms(1) by (simp add: finished_def)
  next
    case (failed ns' es' cs' c e)
    have "stopped e run" using achieves_error[OF body_spec _ failed(2)] assms(1) by simp
    then show ?thesis unfolding failed(1) stopped_def migration_error_of_def quiet_def certain_def
      by (cases e) (auto split: gateway_error.splits if_splits)
  qed
qed

end

end
