(* ===== verification/Execution_Outcome.thy ===== *)
theory Execution_Outcome
  imports Migration_Execution Migration_Callbacks Migration_Properties
begin

text \<open>
  What the coordinator records about the target. A transition of the record that is stored is always
  accepted when it is legal, the callbacks of the gateway record the evidence the contract of
  \<open>execute_migration\<close> asks for, and so every execution a worker processes ends in a record that tells
  what happened in the target.
\<close>

section \<open>Transitions of the stored record\<close>

definition key_of :: "execution_record \<Rightarrow> ws_key" where
  "key_of r = (er_owner_id r, mx_id (er_execution r))"

text \<open>The record is the one that is stored.\<close>

definition held :: "app_state \<Rightarrow> execution_record \<Rightarrow> bool" where
  "held st r = (execution_at (ap_migrations st) (key_of r) = Some r)"

definition advanced :: "coordinator \<Rightarrow> execution_record \<Rightarrow> bool \<Rightarrow> execution_change \<Rightarrow> execution_record" where
  "advanced co r recover change = changed_record (co_migration_env co) (er_owner_id r) (coordinator_change co r recover change) r"

definition put_execution :: "execution_record \<Rightarrow> app_state \<Rightarrow> app_state" where
  "put_execution r st = st\<lparr>ap_migrations := (ap_migrations st)\<lparr>mr_executions :=
     AList.update (key_of r) r (mr_executions (ap_migrations st))\<rparr>\<rparr>"

lemma coordinator_change_fields [simp]:
  "tx_status (coordinator_change co r b ch) = tx_status ch"
  "tx_completed_step_count (coordinator_change co r b ch) = tx_completed_step_count ch"
  "tx_transaction_id (coordinator_change co r b ch) = tx_transaction_id ch"
  "tx_target_identity (coordinator_change co r b ch) = tx_target_identity ch"
  "tx_intended_result (coordinator_change co r b ch) = tx_intended_result ch"
  "tx_commit_outcome (coordinator_change co r b ch) = tx_commit_outcome ch"
  "tx_sync_status (coordinator_change co r b ch) = tx_sync_status ch"
  "tx_expected_revision (coordinator_change co r b ch) = mx_revision (er_execution r)"
  "tx_allowed_from (coordinator_change co r b ch) = [mx_status (er_execution r)]"
  by (simp_all add: coordinator_change_def Let_def)

lemma advanced_fields [simp]:
  "mx_status (er_execution (advanced co r b ch)) = tx_status ch"
  "mx_transaction_id (er_execution (advanced co r b ch)) = setting_or (mx_transaction_id (er_execution r)) (tx_transaction_id ch)"
  "mx_commit_outcome (er_execution (advanced co r b ch)) = setting_or (mx_commit_outcome (er_execution r)) (tx_commit_outcome ch)"
  "mx_sync_status (er_execution (advanced co r b ch)) = setting_or (mx_sync_status (er_execution r)) (tx_sync_status ch)"
  "mx_completed_step_count (er_execution (advanced co r b ch)) =
     setting_or (mx_completed_step_count (er_execution r)) (tx_completed_step_count ch)"
  "mx_plan_id (er_execution (advanced co r b ch)) = mx_plan_id (er_execution r)"
  "er_target_identity (advanced co r b ch) = setting_or (er_target_identity r) (tx_target_identity ch)"
  "er_intended_result (advanced co r b ch) = setting_or (er_intended_result r) (tx_intended_result ch)"
  "er_owner_id (advanced co r b ch) = er_owner_id r"
  "mx_id (er_execution (advanced co r b ch)) = mx_id (er_execution r)"
  "key_of (advanced co r b ch) = key_of r"
  by (simp_all add: advanced_def changed_record_def changed_execution_def key_of_def Let_def)

lemma put_execution_simps [simp]:
  "held (put_execution r st) r"
  "ap_workspaces (put_execution r st) = ap_workspaces st"
  "mr_designs (ap_migrations (put_execution r st)) = mr_designs (ap_migrations st)"
  "mr_plans (ap_migrations (put_execution r st)) = mr_plans (ap_migrations st)"
  "mr_baselines (ap_migrations (put_execution r st)) = mr_baselines (ap_migrations st)"
  by (simp_all add: held_def put_execution_def execution_at_def update_conv')

text \<open>A legal transition of the stored record is never refused: the coordinator keeps its own lease.\<close>

lemma held_transition:
  assumes "held st r" "tx_status ch \<in> set (legal_execution_transitions (mx_status (er_execution r)))"
  shows "coordinator_transition co r b ch st = (Inr (advanced co r b ch), put_execution (advanced co r b ch) st)"
proof -
  let ?ch = "coordinator_change co r b ch"
  have "validate_execution_transition (er_execution r) (tx_expected_revision ?ch) (tx_allowed_from ?ch) (tx_status ?ch) = None"
    using assms(2) by (simp add: validate_execution_transition_def)
  moreover have "change_holds_lease ?ch r = retains_lease r ch"
    by (auto simp: change_holds_lease_def holds_execution_lease_def retains_lease_def unsettled_sync_def)
  moreover have "lease_blocks ?ch r = None"
    by (simp add: lease_blocks_def coordinator_change_def Let_def raise_if_def split: option.split)
  moreover have "retains_lease r ch \<Longrightarrow> tx_lease_owner ?ch \<noteq> None \<and> tx_lease_expires_at ?ch \<noteq> None"
    by (simp add: coordinator_change_def Let_def)
  ultimately have "transition_execution (co_migration_env co) (key_of r) ?ch (ap_migrations st) =
      (Inr (advanced co r b ch), (ap_migrations st)\<lparr>mr_executions :=
        AList.update (key_of r) (advanced co r b ch) (mr_executions (ap_migrations st))\<rparr>)"
    using assms(1) by (auto simp: transition_execution_def get_execution_def held_def execution_at_def advanced_def
        raise_if_def key_of_def Let_def)
  then show ?thesis
    by (simp add: coordinator_transition_def on_migrations_def put_execution_def key_of_def[symmetric])
qed

section \<open>The evidence of the callbacks\<close>

text \<open>What is stored about a transaction of the target before its commit is attempted.\<close>

definition evidence :: "execution_record \<Rightarrow> bool" where
  "evidence r = (mx_transaction_id (er_execution r) \<noteq> None \<and> er_target_identity r \<noteq> None
     \<and> er_intended_result r \<notin> {None, Some []})"

definition ready :: "execution_record \<Rightarrow> execution_session \<Rightarrow> bool" where
  "ready r0 s = (xs_record s = r0 \<and> held (xs_app s) r0 \<and> mx_status (er_execution r0) = Reserved)"

definition under_way :: "execution_record \<Rightarrow> string \<Rightarrow> detail \<Rightarrow> execution_session \<Rightarrow> bool" where
  "under_way r0 tx idn s = (let r = xs_record s in held (xs_app s) r \<and> key_of r = key_of r0
     \<and> mx_status (er_execution r) = Applying \<and> mx_transaction_id (er_execution r) = Some tx \<and> er_target_identity r = Some idn)"

definition evident :: "execution_record \<Rightarrow> string \<Rightarrow> detail \<Rightarrow> execution_session \<Rightarrow> bool" where
  "evident r0 tx idn s = (under_way r0 tx idn s \<and> xs_intended s \<noteq> [] \<and> er_intended_result (xs_record s) = Some (xs_intended s))"

lemma session_transition_held:
  assumes "held (xs_app s) (xs_record s)" "tx_status ch \<in> set (legal_execution_transitions (mx_status (er_execution (xs_record s))))"
  shows "session_transition co ch s = (Inr (), s\<lparr>xs_app := put_execution (advanced co (xs_record s) False ch) (xs_app s),
     xs_record := advanced co (xs_record s) False ch\<rparr>)"
  by (simp add: session_transition_def held_transition[OF assms])

lemma change_to_fields [simp]:
  "tx_status (change_to status) = status" "tx_sync_status (change_to status) = UNSET"
  "tx_commit_outcome (change_to status) = UNSET" "tx_transaction_id (change_to status) = UNSET"
  "tx_target_identity (change_to status) = UNSET" "tx_intended_result (change_to status) = UNSET"
  "tx_completed_step_count (change_to status) = UNSET"
  by (simp_all add: change_to_def)

definition mismatch :: "coordinator_error \<Rightarrow> bool" where
  "mismatch e = (\<exists>details. e = ServiceError 409 ''migration_result_mismatch'' details)"

interpretation callbacks: migration_callbacks "on_started co" "on_intended co plan" "ready r0" "under_way r0" "\<lambda>tx idn cat. evident r0 tx idn" mismatch
  for co plan r0
proof unfold_locales
  show "achieves (ready r0) (on_started co tx idn) (\<lambda>_. under_way r0 tx idn) (\<lambda>e s. ready r0 s \<and> mismatch e)" for tx idn
    by (rule achieves_I) (simp add: ready_def on_started_def session_transition_held under_way_def Let_def)
  have "under_way r0 tx idn s \<Longrightarrow> held (xs_app s) (xs_record s) \<and> mx_status (er_execution (xs_record s)) = Applying" for tx idn s
    by (simp add: under_way_def Let_def)
  then show "achieves (under_way r0 tx idn) (on_intended co plan cat) (\<lambda>_. evident r0 tx idn) (\<lambda>e s. under_way r0 tx idn s \<and> mismatch e)" for tx idn cat
    unfolding on_intended_def
    by (intro achieves_I) (auto simp: fail_with_def and_then_def modify_def session_transition_held Let_def evident_def
        under_way_def intended_evidence_def mismatch_def split: sum.split)
qed

section \<open>Synchronization keeps the receipt\<close>

definition receipt :: "execution_record \<Rightarrow> bool" where
  "receipt r = (mx_status (er_execution r) = Succeeded \<and> mx_commit_outcome (er_execution r) = Some Committed \<and> evidence r)"

lemma held_cong: "mr_executions (ap_migrations st') = mr_executions (ap_migrations st) \<Longrightarrow> held st' r = held st r"
  by (simp add: held_def execution_at_def)

lemma keeps_held:
  assumes "\<And>st. mr_executions (ap_migrations (snd (m st))) = mr_executions (ap_migrations st)"
  shows "keeps (\<lambda>st. held st r) m"
  unfolding keeps_def using held_cong[OF assms] by blast

lemma held_reads [simp, intro]:
  "keeps (\<lambda>st. held st r) (coordinator_plan owner i)"
  "keeps (\<lambda>st. held st r) (coordinator_workspace k)"
  "keeps (\<lambda>st. held st r) (coordinator_design co k)"
  by (rule keeps_held; auto simp: coordinator_plan_def coordinator_workspace_def coordinator_design_def split: sum.split prod.split)+

lemma held_sync_design [intro]: "keeps (\<lambda>st. held st r) (sync_design co owner plan merged)"
  unfolding sync_design_def Let_def
  by (intro keeps_then held_reads keeps_held) (auto split: sum.split prod.split design_error.split)

lemma held_sync_baseline [intro]: "keeps (\<lambda>st. held st r) (sync_baseline co owner plan x merged cat n)"
proof (rule keeps_held)
  fix st :: app_state
  obtain res ms where c: "create_baseline (co_migration_env co) (sync_baseline_values owner plan x merged cat n
      (current_baseline (owner, mp_workspace_id (pl_plan plan)) (ap_migrations st))) (ap_migrations st) = (res, ms)" by fastforce
  then have "mr_executions ms = mr_executions (ap_migrations st)" using baseline_frame by (metis snd_conv)
  then show "mr_executions (ap_migrations (snd (sync_baseline co owner plan x merged cat n st))) = mr_executions (ap_migrations st)"
    by (auto simp: sync_baseline_def Let_def c split: sum.split migration_error.split)
qed

text \<open>The answer is the record that is stored afterwards.\<close>

definition answers :: "ws_key \<Rightarrow> (execution_record \<Rightarrow> bool) \<Rightarrow> migration_execution \<Rightarrow> app_state \<Rightarrow> bool" where
  "answers k Q x st = (\<exists>r. held st r \<and> key_of r = k \<and> Q r \<and> x = er_execution r)"

lemma transition_answers:
  assumes "tx_status ch \<in> set (legal_execution_transitions (mx_status (er_execution r)))" "Q (advanced co r b ch)"
  shows "achieves (\<lambda>st. held st r) (execution_of (coordinator_transition co r b ch)) (answers (key_of r) Q) E"
  unfolding execution_of_def
  by (rule achieves_I) (auto simp: and_then_def give_def held_transition assms answers_def intro!: exI[of _ "advanced co r b ch"])

lemma sync_outcome_fields [simp]:
  "tx_status (sync_outcome s c) = Succeeded" "tx_commit_outcome (sync_outcome s c) = SetTo (Some Committed)"
  "tx_sync_status (sync_outcome s c) = SetTo (Some s)" "tx_transaction_id (sync_outcome s c) = UNSET"
  "tx_target_identity (sync_outcome s c) = UNSET" "tx_intended_result (sync_outcome s c) = UNSET"
  by (simp_all add: sync_outcome_def)

lemma sync_result_answers:
  assumes "receipt r"
  shows "achieves (\<lambda>st. held st r) (sync_result co owner plan r merged conflict ok) (answers (key_of r) receipt) (\<lambda>_ st. held st r)"
proof -
  have a: "achieves (\<lambda>st. held st r) (execution_of (coordinator_transition co r False ch)) (answers (key_of r) receipt) (\<lambda>_ st. held st r)"
    if "tx_status ch = Succeeded" "tx_commit_outcome ch = SetTo (Some Committed)" "tx_transaction_id ch = UNSET"
      "tx_target_identity ch = UNSET" "tx_intended_result ch = UNSET" for ch
    using that assms by (intro transition_answers) (auto simp: receipt_def evidence_def)
  show ?thesis unfolding sync_result_def
    by (auto intro!: a achieves_then[where R = "\<lambda>_ st. held st r"] simp: keeps_achieves[symmetric])
qed

lemma sync_committed_answers:
  assumes "receipt r"
  shows "achieves (\<lambda>st. held st r) (sync_committed co owner plan r) (answers (key_of r) receipt) (\<lambda>_ st. held st r)"
proof -
  have "er_intended_result r \<notin> {None, Some []}" using assms by (simp add: receipt_def evidence_def)
  then show ?thesis unfolding sync_committed_def
    by (auto split: option.split prod.split simp: keeps_achieves[symmetric]
        intro!: achieves_then[where R = "\<lambda>_ st. held st r"] sync_result_answers[OF assms])
qed

section \<open>Every execution tells what happened\<close>

definition undone :: "execution_record \<Rightarrow> bool" where
  "undone r = (mx_status (er_execution r) = Failed \<and> mx_commit_outcome (er_execution r) = Some RolledBack)"

definition unknown :: "execution_record \<Rightarrow> bool" where
  "unknown r = (mx_status (er_execution r) = Uncertain \<and> mx_commit_outcome (er_execution r) = Some OutcomeUncertain \<and> evidence r)"

text \<open>A record of the key with the property is stored.\<close>

definition stores :: "ws_key \<Rightarrow> (execution_record \<Rightarrow> bool) \<Rightarrow> app_state \<Rightarrow> bool" where
  "stores k Q st = (\<exists>r. held st r \<and> key_of r = k \<and> Q r)"

lemma rolled_back_fields [simp]:
  "tx_status (rolled_back c) = Failed" "tx_commit_outcome (rolled_back c) = SetTo (Some RolledBack)"
  "tx_status (with_details ch d) = tx_status ch" "tx_commit_outcome (with_details ch d) = tx_commit_outcome ch"
  by (simp_all add: rolled_back_def with_details_def)

lemma fail_undone:
  assumes "mx_status (er_execution r) \<in> {Reserved, Applying}" "tx_status ch = Failed" "tx_commit_outcome ch = SetTo (Some RolledBack)"
  shows "achieves (\<lambda>st. held st r) (and_then (coordinator_transition co r False ch) (\<lambda>failed. fail_with (f failed)))
    (\<lambda>_ _. False) (\<lambda>_. stores (key_of r) undone)"
proof -
  have "tx_status ch \<in> set (legal_execution_transitions (mx_status (er_execution r)))" using assms(1,2) by auto
  then show ?thesis
    by (intro achieves_I) (auto simp: and_then_def fail_with_def held_transition stores_def undone_def assms
        intro!: exI[of _ "advanced co r False ch"])
qed

lemma fail_before_apply_undone:
  assumes "mx_status (er_execution r) = Reserved"
  shows "achieves (\<lambda>st. held st r) (fail_before_apply co r status code details) (\<lambda>_ _. False) (\<lambda>_. stores (key_of r) undone)"
  unfolding fail_before_apply_def by (rule fail_undone) (simp_all add: assms)

text \<open>The checks before the gateway is called change nothing, or fail the execution.\<close>

lemma admit_spec:
  assumes "mx_status (er_execution r) = Reserved"
  shows "achieves (\<lambda>st. held st r) (admit co r) (\<lambda>_ st. held st r) (\<lambda>_ st. held st r \<or> stores (key_of r) undone st)"
    (is "achieves ?P _ _ ?E")
proof -
  have f: "achieves ?P (fail_before_apply co r status code details) Q ?E" for status code details Q
    by (rule achieves_conseq[OF fail_before_apply_undone[OF assms]]) auto
  have g: "achieves ?P (fail_rolled_back co r (rolled_back code) e) Q ?E" for code e Q
    unfolding fail_rolled_back_def by (rule achieves_conseq[OF fail_undone]) (auto simp: assms)
  show ?thesis unfolding admit_def Let_def
    by (rule achieves_then[where R = "\<lambda>_ st. held st r"], rule keeps_spec, simp, simp)+
      (rule achieves_reads, auto intro!: f g split: connection_reply.split)
qed

lemma target_error_undone:
  assumes "mx_status (er_execution r) \<in> {Reserved, Applying}" "e \<noteq> CommitUncertainError"
    and "\<And>n sqlstate c. e = MigrationExecutionError n sqlstate (Some c) \<Longrightarrow> mismatch c"
  shows "achieves (\<lambda>st. held st r) (handle_target_error co plan r e) (\<lambda>_ _. False) (\<lambda>_. stores (key_of r) undone)"
proof -
  have f: "achieves (\<lambda>st. held st r) (fail_rolled_back co r ch err) (\<lambda>_ _. False) (\<lambda>_. stores (key_of r) undone)"
    if "tx_status ch = Failed" "tx_commit_outcome ch = SetTo (Some RolledBack)" for ch err
    unfolding fail_rolled_back_def by (rule fail_undone[OF assms(1) that])
  show ?thesis
  proof (cases e)
    case (MigrationExecutionError n sqlstate c)
    with assms(3) show ?thesis
      by (cases c) (auto simp: handle_target_error_def Let_def mismatch_def intro!: f split: coordinator_error.split)
  qed (use assms(2) in \<open>simp_all add: handle_target_error_def Let_def f\<close>)
qed

text \<open>
  Whether the transaction of the target takes effect when the worker runs the execution, as PostgreSQL
  decides and the gateway may or may not learn.
\<close>

definition takes_effect :: "coordinator \<Rightarrow> execution_record \<Rightarrow> app_state \<Rightarrow> bool" where
  "takes_effect co r st =
     (case admit co r st of
        (Inl e, st') \<Rightarrow> False
      | (Inr (plan, database), st') \<Rightarrow>
          rn_applied (snd (run_target co plan database \<lparr>xs_app = st', xs_record = r, xs_intended = []\<rparr>)))"

definition told :: "bool \<Rightarrow> execution_record \<Rightarrow> bool" where
  "told effect r = (undone r \<and> \<not> effect \<or> unknown r \<or> receipt r \<and> effect)"

text \<open>The two ways a call of the gateway ends for the coordinator.\<close>

lemma committed_told:
  assumes "evident r tx idn s"
  shows "case and_then (coordinator_transition co (xs_record s) False (committed_change result (xs_intended s)))
        (sync_committed co owner plan) (xs_app s) of
      (Inl e, st') \<Rightarrow> stores (key_of r) receipt st'
    | (Inr x, st') \<Rightarrow> answers (key_of r) receipt x st'"
proof -
  let ?r = "advanced co (xs_record s) False (committed_change result (xs_intended s))"
  have h: "held (xs_app s) (xs_record s)" "mx_status (er_execution (xs_record s)) = Applying"
    "key_of ?r = key_of r" "receipt ?r"
    using assms by (auto simp: evident_def under_way_def Let_def receipt_def evidence_def committed_change_def)
  have t: "coordinator_transition co (xs_record s) False (committed_change result (xs_intended s)) (xs_app s) =
      (Inr ?r, put_execution ?r (xs_app s))"
    by (rule held_transition[OF h(1)]) (simp add: h(2) committed_change_def)
  obtain z st' where z: "sync_committed co owner plan ?r (put_execution ?r (xs_app s)) = (z, st')" by fastforce
  show ?thesis
  proof (cases z)
    case (Inl e)
    from achieves_error[OF sync_committed_answers[OF h(4)] _ z[unfolded Inl]] have "held st' ?r" by simp
    then have "stores (key_of r) receipt st'" unfolding stores_def using h(3,4) by blast
    then show ?thesis by (simp add: and_then_def t z Inl)
  next
    case (Inr x)
    from achieves_value[OF sync_committed_answers[OF h(4)] _ z[unfolded Inr]] have "answers (key_of ?r) receipt x st'" by simp
    then show ?thesis unfolding h(3) by (simp add: and_then_def t z Inr)
  qed
qed

lemma uncertain_told:
  assumes "evident r tx idn s"
  shows "\<exists>x st'. handle_target_error co plan (xs_record s) CommitUncertainError (xs_app s) = (Inr x, st')
    \<and> answers (key_of r) unknown x st'"
proof -
  have h: "held (xs_app s) (xs_record s)" "mx_status (er_execution (xs_record s)) = Applying"
    "key_of (xs_record s) = key_of r" "evidence (xs_record s)"
    using assms by (auto simp: evident_def under_way_def Let_def evidence_def)
  then show ?thesis
    by (simp add: handle_target_error_def execution_of_def and_then_def give_def held_transition answers_def)
      (auto simp: unknown_def evidence_def intro!: exI[of _ "advanced co (xs_record s) False _"])
qed

lemma apply_plan_told:
  assumes "held st r" "mx_status (er_execution r) = Reserved"
    and "effect = rn_applied (snd (run_target co plan database \<lparr>xs_app = st, xs_record = r, xs_intended = []\<rparr>))"
  shows "case apply_plan co plan r database st of
      (Inl e, st') \<Rightarrow> stores (key_of r) (told effect) st'
    | (Inr x, st') \<Rightarrow> answers (key_of r) (told effect) x st'"
proof -
  define s where "s = \<lparr>xs_app = st, xs_record = r, xs_intended = []\<rparr>"
  obtain reply run where run: "run_target co plan database s = (reply, run)" by fastforce
  let ?s = "rn_state run"
  have e: "effect = rn_applied run" using assms(3) run s_def by simp
  have p: "apply_plan co plan r database st = (case reply of
      Inl e \<Rightarrow> handle_target_error co plan (xs_record ?s) e (xs_app ?s)
    | Inr result \<Rightarrow> and_then (coordinator_transition co (xs_record ?s) False (committed_change result (xs_intended ?s)))
        (sync_committed co (er_owner_id r) plan) (xs_app ?s))"
    using run by (simp add: apply_plan_def s_def Let_def)
  have "ready r s" using assms by (simp add: ready_def s_def)
  note out = callbacks.outcome[OF this run[unfolded run_target_def Let_def]]
  show ?thesis
  proof (cases reply)
    case (Inr result)
    then obtain tx idn where ev: "rn_applied run" "evident r tx idn ?s" using out by auto
    show ?thesis using committed_told[OF ev(2), of co result "er_owner_id r" plan] unfolding p Inr sum.case e
      by (auto split: prod.splits sum.splits simp: stores_def answers_def told_def ev(1))
  next
    case (Inl err)
    show ?thesis
    proof (cases "err = CommitUncertainError")
      case True
      then obtain tx idn where "evident r tx idn ?s" using out Inl by auto
      then obtain y st' where y: "handle_target_error co plan (xs_record ?s) CommitUncertainError (xs_app ?s) = (Inr y, st')"
        "answers (key_of r) unknown y st'" using uncertain_told by blast
      from y(2) have "answers (key_of r) (told effect) y st'" unfolding answers_def told_def by blast
      then show ?thesis unfolding p Inl sum.case True by (simp add: y(1))
    next
      case False
      then have "\<not> effect \<and> (\<forall>n sqlstate c. err = MigrationExecutionError n sqlstate (Some c) \<longrightarrow> mismatch c)
          \<and> (ready r ?s \<or> (\<exists>tx idn. under_way r tx idn ?s))"
        using out Inl e by (cases err) auto
      moreover from this have h: "held (xs_app ?s) (xs_record ?s)" "mx_status (er_execution (xs_record ?s)) \<in> {Reserved, Applying}"
        "key_of (xs_record ?s) = key_of r" by (auto simp: ready_def under_way_def Let_def)
      ultimately have a: "achieves (\<lambda>st. held st (xs_record ?s)) (handle_target_error co plan (xs_record ?s) err)
          (\<lambda>_ _. False) (\<lambda>_. stores (key_of (xs_record ?s)) undone)"
        using False by (intro target_error_undone) auto
      have "case handle_target_error co plan (xs_record ?s) err (xs_app ?s) of
          (Inl e, st') \<Rightarrow> stores (key_of r) undone st' | (Inr x, st') \<Rightarrow> False"
        using achieves_D[OF a h(1)] unfolding h(3) .
      then show ?thesis unfolding p Inl sum.case using \<open>\<not> effect \<and> _\<close>
        by (auto split: prod.splits sum.splits simp: stores_def told_def)
    qed
  qed
qed

text \<open>A worker that fails leaves a settled record settled, and fails a record that never started.\<close>

lemma failure_answers:
  assumes "stores (key_of (wk_record work)) (told effect) st" "record_processing_failure co work code details st = (x, st')"
  shows "answers (key_of (wk_record work)) (told effect) x st'"
proof -
  from assms(1) obtain r where r: "held st r" "key_of r = key_of (wk_record work)" "told effect r" by (auto simp: stores_def)
  have g: "get_execution (er_owner_id (wk_record work), mx_id (er_execution (wk_record work))) (ap_migrations st) = Inr r"
    using r(1,2) by (simp add: held_def key_of_def get_execution_def execution_at_def)
  show ?thesis
  proof (cases "er_lease_owner r = er_lease_owner (wk_record work) \<and> receipt r")
    case True
    then obtain ch where ch: "failure_change code details (er_execution r) = Some ch" "tx_status ch = Succeeded"
      "tx_commit_outcome ch = UNSET" "tx_transaction_id ch = UNSET" "tx_target_identity ch = UNSET" "tx_intended_result ch = UNSET"
      by (simp add: failure_change_def receipt_def Let_def)
    have t: "coordinator_transition co r False ch st = (Inr (advanced co r False ch), put_execution (advanced co r False ch) st)"
      by (rule held_transition[OF r(1)]) (use True ch(2) in \<open>simp add: receipt_def\<close>)
    have "told effect (advanced co r False ch)"
      using True r(3) by (auto simp: told_def undone_def unknown_def receipt_def evidence_def ch)
    then show ?thesis using assms(2) True r(2)
      by (auto simp: record_processing_failure_def g ch(1) t answers_def intro!: exI[of _ "advanced co r False ch"])
  next
    case False
    have "er_lease_owner r \<noteq> er_lease_owner (wk_record work) \<or> failure_change code details (er_execution r) = None"
      using False r(3) by (auto simp: told_def undone_def unknown_def failure_change_def Let_def)
    then have "x = er_execution r \<and> st' = st" using assms(2)
      by (auto simp: record_processing_failure_def g split: if_splits)
    then show ?thesis using r by (auto simp: answers_def)
  qed
qed

lemma failure_before_start:
  assumes "held st (wk_record work)" "mx_status (er_execution (wk_record work)) = Reserved"
    and "record_processing_failure co work code details st = (x, st')"
  shows "answers (key_of (wk_record work)) undone x st'"
proof -
  let ?r = "wk_record work"
  let ?ch = "with_details (rolled_back code) (dict_merge [(''beforeTargetMutation'', JBool True)] (case details of None \<Rightarrow> [] | Some d \<Rightarrow> d))"
  have g: "get_execution (er_owner_id ?r, mx_id (er_execution ?r)) (ap_migrations st) = Inr ?r"
    using assms(1) by (simp add: held_def key_of_def get_execution_def execution_at_def)
  have c: "failure_change code details (er_execution ?r) = Some ?ch" by (simp add: failure_change_def assms(2) Let_def)
  have t: "coordinator_transition co ?r False ?ch st = (Inr (advanced co ?r False ?ch), put_execution (advanced co ?r False ?ch) st)"
    by (rule held_transition[OF assms(1)]) (simp add: assms(2))
  show ?thesis using assms(3)
    by (auto simp: record_processing_failure_def g c t answers_def undone_def intro!: exI[of _ "advanced co ?r False ?ch"])
qed

lemma execute_told:
  assumes "held st r" "mx_status (er_execution r) = Reserved"
  shows "case execute_claimed co r st of
      (Inl e, st') \<Rightarrow> stores (key_of r) (told (takes_effect co r st)) st' \<or> held st' r \<and> \<not> takes_effect co r st
    | (Inr x, st') \<Rightarrow> answers (key_of r) (told (takes_effect co r st)) x st'"
proof -
  obtain z st1 where z: "admit co r st = (z, st1)" by fastforce
  show ?thesis
  proof (cases z)
    case (Inl e)
    have "held st1 r \<or> stores (key_of r) undone st1" using achieves_error[OF admit_spec[OF assms(2)] _ z[unfolded Inl]] assms(1) by simp
    moreover have "\<not> takes_effect co r st" by (simp add: takes_effect_def z Inl)
    ultimately show ?thesis by (auto simp: execute_claimed_def and_then_def z Inl stores_def told_def)
  next
    case (Inr pd)
    obtain plan database where pd: "pd = (plan, database)" by fastforce
    have h: "held st1 r" using achieves_value[OF admit_spec[OF assms(2)] _ z[unfolded Inr]] assms(1) by simp
    have e: "takes_effect co r st = rn_applied (snd (run_target co plan database \<lparr>xs_app = st1, xs_record = r, xs_intended = []\<rparr>))"
      by (simp add: takes_effect_def z Inr pd)
    from apply_plan_told[OF h assms(2) e] show ?thesis
      by (simp add: execute_claimed_def and_then_def z Inr pd split: prod.splits sum.splits)
  qed
qed

text \<open>
  C4. When a worker processes an execution it has claimed, the stored record tells what happened in the
  target afterwards, and the worker answers with it: the execution failed and was rolled back, and the
  target transaction did not take effect; or the outcome of the commit is unknown, with transaction,
  target and result recorded for recovery; or the execution succeeded, the transaction took effect and
  the same evidence is recorded. In no case it is left reserved or applying, whatever PostgreSQL
  answers and wherever the connection is lost.
\<close>

theorem execution_tells_outcome:
  assumes "wk_kind work = ExecuteWork" "held st (wk_record work)" "mx_status (er_execution (wk_record work)) = Reserved"
    and "process co work st = (x, st')"
  shows "\<exists>r. execution_at (ap_migrations st') (er_owner_id (wk_record work), mx_id (er_execution (wk_record work))) = Some r
    \<and> x = er_execution r
    \<and> (mx_status x = Failed \<and> mx_commit_outcome x = Some RolledBack \<and> \<not> takes_effect co (wk_record work) st
       \<or> mx_status x = Uncertain \<and> mx_commit_outcome x = Some OutcomeUncertain \<and> evidence r
       \<or> mx_status x = Succeeded \<and> mx_commit_outcome x = Some Committed \<and> takes_effect co (wk_record work) st \<and> evidence r)"
proof -
  let ?r = "wk_record work" and ?eff = "takes_effect co (wk_record work) st"
  have "answers (key_of ?r) (told ?eff) x st'"
  proof -
    obtain z st1 where z: "execute_claimed co ?r st = (z, st1)" by fastforce
    note e = execute_told[OF assms(2,3), of co, unfolded z]
    show ?thesis
    proof (cases z)
      case (Inr y)
      then show ?thesis using e assms(1,4) z by (simp add: process_def process_kind_def)
    next
      case (Inl err)
      then obtain code details where f: "record_processing_failure co work code details st1 = (x, st')"
        using assms(1,4) z by (cases err) (auto simp: process_def process_kind_def Let_def)
      from e Inl have "stores (key_of ?r) (told ?eff) st1 \<or> held st1 ?r \<and> \<not> ?eff" by simp
      then show ?thesis using failure_answers[OF _ f] failure_before_start[OF _ assms(3) f]
        by (auto simp: answers_def told_def)
    qed
  qed
  then show ?thesis
    by (auto simp: answers_def told_def undone_def unknown_def receipt_def held_def key_of_def)
qed

end
