(* ===== verification/Execution_Recovery.thy ===== *)
theory Execution_Recovery
  imports Execution_Outcome
begin

text \<open>
  Synchronization after a commit and recovery of interrupted executions: what a synchronized execution
  means for design and baseline, and that recovery records only what the target reports.
\<close>

section \<open>Synchronization\<close>

lemma current_baseline_at:
  "current_baseline key repo = (if baselines_at repo key = [] then None else Some (last (baselines_at repo key)))"
  by (simp add: current_baseline_def baselines_at_def Let_def)

lemma create_baseline_values:
  "create_baseline env v repo = (Inr b, repo') \<Longrightarrow> bl_catalog b = bv_catalog v \<and> bl_content b = bv_content v"
  by (auto simp: create_baseline_def Let_def split: if_splits)

text \<open>The baseline step names the current baseline as predecessor, so it is accepted.\<close>

lemma sync_baseline_accepted:
  assumes "\<not> baseline_matches catalog (current_baseline (owner, mp_workspace_id (pl_plan plan)) (ap_migrations st))"
  shows "\<exists>b ms. sync_baseline co owner plan x merged catalog n st = (Inr True, st\<lparr>ap_migrations := ms\<rparr>)
    \<and> current_baseline (owner, mp_workspace_id (pl_plan plan)) ms = Some b \<and> bl_catalog b = catalog \<and> bl_content b = merged
    \<and> mr_executions ms = mr_executions (ap_migrations st) \<and> mr_designs ms = mr_designs (ap_migrations st)"
proof -
  let ?k = "(owner, mp_workspace_id (pl_plan plan))" and ?ms = "ap_migrations st"
  let ?v = "sync_baseline_values owner plan x merged catalog n (current_baseline ?k ?ms)"
  have v: "bv_owner_id ?v = owner" "bv_workspace_id ?v = mp_workspace_id (pl_plan plan)" "bv_catalog ?v = catalog"
    "bv_content ?v = merged" "bv_expected_predecessor_id ?v = map_option bl_id (current_baseline ?k ?ms)"
    by (simp_all add: sync_baseline_values_def Let_def)
  have p: "bv_expected_predecessor_id ?v = (if baselines_at ?ms ?k = [] then None else Some (bl_id (last (baselines_at ?ms ?k))))"
    unfolding v(5) by (simp add: current_baseline_at)
  obtain b ms where c: "create_baseline (co_migration_env co) ?v ?ms = (Inr b, ms)"
    using create_baseline_accepts[of ?ms ?v "co_migration_env co"] p v(1,2) by (metis prod.collapse)
  have "baselines_at ms ?k = baselines_at ?ms ?k @ [b]"
    using create_baseline_at[of "co_migration_env co" ?v ?ms ?k] p v(1,2) unfolding c by (simp add: Let_def)
  then have "current_baseline ?k ms = Some b" by (simp add: current_baseline_at)
  moreover have "bl_catalog b = catalog" "bl_content b = merged"
    using create_baseline_values[OF c] unfolding v by simp_all
  moreover have "mr_executions ms = mr_executions ?ms" "mr_designs ms = mr_designs ?ms"
    using baseline_frame[of "co_migration_env co" ?v ?ms] c by simp_all
  ultimately show ?thesis using assms
    by (intro exI[of _ b] exI[of _ ms]) (simp add: sync_baseline_def Let_def c)
qed

lemma sync_baseline_matches:
  "achieves (\<lambda>_. True) (sync_baseline co owner plan x merged catalog n)
     (\<lambda>_ st. baseline_matches catalog (current_baseline (owner, mp_workspace_id (pl_plan plan)) (ap_migrations st))) E"
proof (rule achieves_I)
  fix st :: app_state
  let ?k = "(owner, mp_workspace_id (pl_plan plan))"
  show "case sync_baseline co owner plan x merged catalog n st of (Inl e, st') \<Rightarrow> E e st'
      | (Inr a, st') \<Rightarrow> baseline_matches catalog (current_baseline ?k (ap_migrations st'))"
  proof (cases "baseline_matches catalog (current_baseline ?k (ap_migrations st))")
    case True
    then show ?thesis by (simp add: sync_baseline_def Let_def)
  next
    case False
    from sync_baseline_accepted[OF this, of co x merged n] show ?thesis by (auto simp: baseline_matches_def)
  qed
qed

lemma transition_frame:
  "coordinator_transition co r b ch st = (z, st') \<Longrightarrow>
   mr_designs (ap_migrations st') = mr_designs (ap_migrations st) \<and> mr_baselines (ap_migrations st') = mr_baselines (ap_migrations st)"
  by (cases "transition_execution (co_migration_env co) (er_owner_id r, mx_id (er_execution r))
        (coordinator_change co r b ch) (ap_migrations st)" rule: prod.exhaust)
    (auto simp: coordinator_transition_def on_migrations_def transition_execution_def Let_def
      split: sum.splits option.splits)

definition design_fits :: "coordinator \<Rightarrow> ws_key \<Rightarrow> design_content \<Rightarrow> app_state \<Rightarrow> bool" where
  "design_fits co key merged st =
     (ds_fingerprint (repo_design (co_design_env co) key (mr_designs (ap_migrations st))) = env_fingerprint (co_design_env co) merged)"

definition synchronized :: "coordinator \<Rightarrow> ws_key \<Rightarrow> design_content \<Rightarrow> pg_catalog \<Rightarrow> app_state \<Rightarrow> bool" where
  "synchronized co key merged catalog st =
     (design_fits co key merged st \<and> baseline_matches catalog (current_baseline key (ap_migrations st)))"

lemma synchronized_transition:
  assumes "coordinator_transition co r b ch st = (z, st')"
  shows "synchronized co key merged catalog st' = synchronized co key merged catalog st"
  using transition_frame[OF assms] by (simp add: synchronized_def design_fits_def current_baseline_def)

lemma transition_sync_status:
  assumes "execution_of (coordinator_transition co r b ch) st = (Inr x, st')" "tx_sync_status ch = SetTo s"
  shows "mx_sync_status x = s"
  using assms by (auto simp: execution_of_def and_then_success give_def coordinator_transition_def on_migrations_def
      changed_record_fields split: prod.splits sum.splits elim!: transition_accepted)

lemma sync_result_synchronized:
  assumes "sync_result co owner plan r merged conflict ok st = (Inr x, st')" "mx_sync_status x = Some SyncSucceeded"
    and "baseline_matches catalog (current_baseline (owner, mp_workspace_id (pl_plan plan)) (ap_migrations st))"
  shows "synchronized co (owner, mp_workspace_id (pl_plan plan)) merged catalog st'"
proof -
  let ?k = "(owner, mp_workspace_id (pl_plan plan))" and ?ch = "(sync_outcome SyncSucceeded None)\<lparr>tx_error_detail := SetTo None\<rparr>"
  let ?d = "repo_design (co_design_env co) ?k (mr_designs (ap_migrations st))"
  have fits: "ok \<and> \<not> conflict \<and> ds_fingerprint ?d = env_fingerprint (co_design_env co) merged"
  proof (rule ccontr)
    assume "\<not> ?thesis"
    then obtain ch where "execution_of (coordinator_transition co r False ch) st = (Inr x, st')" "tx_sync_status ch = SetTo (Some SyncConflict)"
      using assms(1) by (auto simp: sync_result_def and_then_def coordinator_design_def design_get_def split: if_splits)
    from transition_sync_status[OF this] assms(2) show False by simp
  qed
  then have "execution_of (coordinator_transition co r False ?ch) st = (Inr x, st')"
    using assms(1) by (simp add: sync_result_def and_then_def coordinator_design_def design_get_def)
  then obtain y where "coordinator_transition co r False ?ch st = (Inr y, st')"
    by (auto simp: execution_of_def and_then_success give_def)
  from synchronized_transition[OF this] show ?thesis using fits assms(3)
    by (simp add: synchronized_def design_fits_def)
qed

text \<open>
  C6. An execution that is reported as synchronized is synchronized: when the synchronization after a
  commit answers with sync status \<open>succeeded\<close>, the saved design has the fingerprint of the content the
  migration produced, and the current baseline of the workspace has the fingerprint of the catalog it
  produced.
\<close>

theorem synchronized_execution_matches:
  assumes "sync_committed co owner plan r st = (Inr x, st')" "mx_sync_status x = Some SyncSucceeded"
    and "er_intended_result r = Some intended" "intended \<noteq> []" "parse_intended co intended = Some (merged, catalog)"
  shows "synchronized co (owner, mp_workspace_id (pl_plan plan)) merged catalog st'"
proof -
  obtain design conflict st1 ok st2 n where s: "sync_baseline co owner plan (er_execution r) merged catalog n st1 = (Inr ok, st2)"
    "sync_result co owner plan r merged conflict ok st2 = (Inr x, st')"
    using assms(1,3-5) by (auto simp: sync_committed_def and_then_success)
  from achieves_value[OF sync_baseline_matches[where E = "\<lambda>_ _. True"] _ s(1)] sync_result_synchronized[OF s(2) assms(2)]
  show ?thesis by simp
qed

section \<open>A settled execution can be synchronized again\<close>

lemma sync_result_transition:
  obtains ch where "sync_result co owner plan r merged conflict True st = execution_of (coordinator_transition co r False ch) st"
    "tx_status ch = Succeeded"
proof (cases "conflict \<or> ds_fingerprint (repo_design (co_design_env co) (owner, mp_workspace_id (pl_plan plan))
    (mr_designs (ap_migrations st))) \<noteq> env_fingerprint (co_design_env co) merged")
  case True
  let ?d = "repo_design (co_design_env co) (owner, mp_workspace_id (pl_plan plan)) (mr_designs (ap_migrations st))"
  show ?thesis
    by (rule that[of "(sync_outcome SyncConflict (Some ''post_commit_design_changed''))\<lparr>tx_error_detail := SetTo (Some
         [(''preservedDesignRevision'', JInt (int (ds_revision ?d))), (''baselineAdvanced'', JBool True)])\<rparr>"])
      (use True in \<open>simp_all add: sync_result_def and_then_def coordinator_design_def design_get_def sync_outcome_def change_to_def\<close>)
next
  case False
  show ?thesis
    by (rule that[of "(sync_outcome SyncSucceeded None)\<lparr>tx_error_detail := SetTo None\<rparr>"])
      (use False in \<open>simp_all add: sync_result_def and_then_def coordinator_design_def design_get_def sync_outcome_def change_to_def\<close>)
qed

text \<open>
  C37. Reconciling an execution that is already settled is not refused and rewrites the baseline: for a
  succeeded, committed and synchronized execution without a lease, a reconciliation request that names
  its revision makes the old result of this execution the current baseline again, although a later
  baseline describes another catalog. The design either still is the result of the migration or has another
  revision than the plan was made for; synchronization has brought about one of the two. This is not what
  the docstring of \<open>reconcile\<close> announces, which is to resolve uncertain evidence of a commit.
\<close>

theorem reconcile_restores_old_baseline:
  assumes "held st r" "receipt r" "mx_sync_status (er_execution r) = Some SyncSucceeded" "er_lease_owner r = None"
    and "get_plan (er_owner_id r) (mx_plan_id (er_execution r)) (ap_migrations st) = Inr plan"
    and "parse_intended co (the (er_intended_result r)) = Some (merged, catalog)"
    and "current_baseline (er_owner_id r, mp_workspace_id (pl_plan plan)) (ap_migrations st) = Some later"
    and "cat_fingerprint (bl_catalog later) \<noteq> cat_fingerprint catalog"
    and "design_fits co (er_owner_id r, mp_workspace_id (pl_plan plan)) merged st
      \<or> ds_revision (repo_design (co_design_env co) (er_owner_id r, mp_workspace_id (pl_plan plan)) (mr_designs (ap_migrations st)))
         \<noteq> mp_design_revision (pl_plan plan)"
  shows "\<exists>x st' b. coordinator_reconcile co (er_owner_id r) (mx_id (er_execution r)) (mx_revision (er_execution r)) st = (Inr x, st')
    \<and> current_baseline (er_owner_id r, mp_workspace_id (pl_plan plan)) (ap_migrations st') = Some b
    \<and> bl_catalog b = catalog \<and> bl_content b = merged"
proof -
  let ?k = "(er_owner_id r, mp_workspace_id (pl_plan plan))"
  let ?d = "repo_design (co_design_env co) ?k (mr_designs (ap_migrations st))"
  define conflict where "conflict = (\<not> design_fits co ?k merged st)"
  define n where "n = (if conflict then mp_design_revision (pl_plan plan) else ds_revision ?d)"
  have g: "get_execution (er_owner_id r, mx_id (er_execution r)) (ap_migrations st) = Inr r"
    using assms(1) by (simp add: held_def key_of_def get_execution_def execution_at_def)
  have c: "coordinator_reconcile co (er_owner_id r) (mx_id (er_execution r)) (mx_revision (er_execution r)) st =
      sync_committed co (er_owner_id r) plan r st"
    using assms(2,4,5) by (simp add: coordinator_reconcile_def and_then_def coordinator_execution_def g coordinator_plan_def receipt_def Let_def)
  have d: "sync_design co (er_owner_id r) plan merged st = (Inr (?d, conflict), st)"
    using assms(9) by (auto simp: sync_design_def Let_def and_then_def coordinator_design_def design_get_def conflict_def design_fits_def)
  have "\<not> baseline_matches catalog (current_baseline ?k (ap_migrations st))" by (simp add: baseline_matches_def assms(7,8))
  from sync_baseline_accepted[OF this, of co "er_execution r" merged n]
  obtain b ms where b: "sync_baseline co (er_owner_id r) plan (er_execution r) merged catalog n st = (Inr True, st\<lparr>ap_migrations := ms\<rparr>)"
    "current_baseline ?k ms = Some b" "bl_catalog b = catalog" "bl_content b = merged" "mr_executions ms = mr_executions (ap_migrations st)"
    by blast
  let ?st = "st\<lparr>ap_migrations := ms\<rparr>"
  have s: "sync_committed co (er_owner_id r) plan r st = sync_result co (er_owner_id r) plan r merged conflict True ?st"
    using assms(2,6) b(1) by (auto simp: sync_committed_def receipt_def evidence_def and_then_def d n_def)
  have h: "held ?st r" using assms(1) b(5) by (simp add: held_def execution_at_def)
  obtain ch where "sync_result co (er_owner_id r) plan r merged conflict True ?st = execution_of (coordinator_transition co r False ch) ?st"
    "tx_status ch = Succeeded"
    by (rule sync_result_transition)
  moreover have "coordinator_transition co r False ch ?st = (Inr (advanced co r False ch), put_execution (advanced co r False ch) ?st)"
    by (rule held_transition[OF h]) (use assms(2) \<open>tx_status ch = Succeeded\<close> in \<open>simp add: receipt_def\<close>)
  ultimately have "coordinator_reconcile co (er_owner_id r) (mx_id (er_execution r)) (mx_revision (er_execution r)) st =
      (Inr (er_execution (advanced co r False ch)), put_execution (advanced co r False ch) ?st)"
    by (simp add: c s execution_of_def and_then_def give_def)
  then show ?thesis using b(2-4) by (auto simp: current_baseline_def)
qed

section \<open>Recovery\<close>

text \<open>The target that was recorded reports this status for the transaction that was recorded.\<close>

definition reported :: "coordinator \<Rightarrow> plan_record \<Rightarrow> execution_record \<Rightarrow> transaction_status \<Rightarrow> bool" where
  "reported co plan r status = (\<exists>identity. er_target_identity r = Some identity
     \<and> read_transaction co (er_owner_id r) plan (the (mx_transaction_id (er_execution r))) = StatusRead identity status)"

text \<open>A record whose outcome is backed by that report.\<close>

definition backed :: "coordinator \<Rightarrow> plan_record \<Rightarrow> execution_record \<Rightarrow> execution_record \<Rightarrow> bool" where
  "backed co plan r r' = (mx_status (er_execution r') \<noteq> Reserved
     \<and> (mx_commit_outcome (er_execution r') = Some Committed \<longrightarrow> reported co plan r TransactionCommitted)
     \<and> (mx_commit_outcome (er_execution r') = Some RolledBack \<longrightarrow> reported co plan r TransactionAborted))"

lemma sync_result_reaches:
  assumes "mx_status (er_execution r) = Succeeded"
    and "\<And>ch. tx_status ch = Succeeded \<Longrightarrow> tx_commit_outcome ch = SetTo (Some Committed) \<Longrightarrow> Q (advanced co r False ch)"
  shows "achieves (\<lambda>st. held st r) (sync_result co owner plan r merged conflict ok) (answers (key_of r) Q) (\<lambda>_ st. held st r)"
  unfolding sync_result_def
  by (auto intro!: transition_answers achieves_then[where R = "\<lambda>_ st. held st r"] assms(2) simp: keeps_achieves[symmetric] assms(1))

lemma sync_committed_reaches:
  assumes "mx_status (er_execution r) = Succeeded"
    and "\<And>ch. tx_status ch \<in> {Succeeded, ReconciliationRequired} \<Longrightarrow> tx_commit_outcome ch = SetTo (Some Committed) \<Longrightarrow>
      Q (advanced co r False ch)"
  shows "achieves (\<lambda>st. held st r) (sync_committed co owner plan r) (answers (key_of r) Q) (\<lambda>_ st. held st r)"
proof -
  have e: "achieves (\<lambda>st. held st r) (execution_of (coordinator_transition co r False evidence_missing)) (answers (key_of r) Q) (\<lambda>_ st. held st r)"
    by (rule transition_answers) (auto simp: evidence_missing_def assms(1) intro!: assms(2))
  show ?thesis unfolding sync_committed_def
    by (auto split: option.split prod.split simp: keeps_achieves[symmetric] e
        intro!: achieves_then[where R = "\<lambda>_ st. held st r"] sync_result_reaches assms)
qed

lemma unresolved_fields [simp]:
  "tx_status (unresolved c) = ReconciliationRequired" "tx_commit_outcome (unresolved c) = SetTo (Some OutcomeUncertain)"
  by (simp_all add: unresolved_def)

lemma reconcile_backed:
  assumes "mx_status (er_execution r) = Applying"
  shows "achieves (\<lambda>st. held st r) (reconcile_transaction co (er_owner_id r) plan r True) (answers (key_of r) (backed co plan r))
    (\<lambda>_ st. held st r \<or> stores (key_of r) (\<lambda>r'. backed co plan r r' \<and> mx_status (er_execution r') = Succeeded) st)"
    (is "achieves ?P _ ?Q ?E")
proof -
  have t: "achieves ?P (execution_of (coordinator_transition co r b ch)) ?Q ?E"
    if "tx_status ch \<in> {Failed, Applying, ReconciliationRequired}" "tx_commit_outcome ch = SetTo (Some c)" "c \<noteq> Committed"
      "c = RolledBack \<longrightarrow> reported co plan r TransactionAborted" for b ch c
    by (rule transition_answers) (use that assms in \<open>auto simp: backed_def\<close>)
  have committed: "achieves ?P (and_then (coordinator_transition co r b ch) (sync_committed co (er_owner_id r) plan)) ?Q ?E"
    if ch: "tx_status ch = Succeeded" "tx_commit_outcome ch = SetTo (Some Committed)" and rep: "reported co plan r TransactionCommitted" for b ch
  proof (rule achieves_then)
    let ?r = "advanced co r b ch"
    show "achieves ?P (coordinator_transition co r b ch) (\<lambda>r' st. r' = ?r \<and> held st ?r) ?E"
      by (rule achieves_I) (simp add: held_transition assms ch(1))
    fix r'
    have q: "backed co plan r (advanced co ?r False c)"
      if "tx_status c \<in> {Succeeded, ReconciliationRequired}" "tx_commit_outcome c = SetTo (Some Committed)" for c
      using that rep by (auto simp: backed_def)
    have "achieves (\<lambda>st. held st ?r) (sync_committed co (er_owner_id r) plan ?r) (answers (key_of ?r) (backed co plan r)) (\<lambda>_ st. held st ?r)"
      by (rule sync_committed_reaches) (simp add: ch, rule q)
    then have s: "achieves (\<lambda>st. held st ?r) (sync_committed co (er_owner_id r) plan ?r) ?Q (\<lambda>_ st. held st ?r)" by simp
    have "held st ?r \<Longrightarrow> stores (key_of r) (\<lambda>r'. backed co plan r r' \<and> mx_status (er_execution r') = Succeeded) st" for st
      using ch rep by (auto simp: stores_def backed_def intro!: exI[of _ ?r])
    then show "achieves (\<lambda>st. r' = ?r \<and> held st ?r) (sync_committed co (er_owner_id r) plan r') ?Q ?E"
      by (intro achieves_eq achieves_conseq[OF s]) auto
  qed
  show ?thesis unfolding reconcile_transaction_def
    by (auto split: status_reply.split transaction_status.split intro!: t committed simp: reported_def)
qed

lemma failure_backed:
  assumes "held st r'" "key_of r' = key_of (wk_record work)" "mx_status (er_execution r') \<in> {Applying, Succeeded}"
    and "backed co plan r r'" "record_processing_failure co work code details st = (x, st')"
  shows "answers (key_of (wk_record work)) (backed co plan r) x st'"
proof -
  have g: "get_execution (er_owner_id (wk_record work), mx_id (er_execution (wk_record work))) (ap_migrations st) = Inr r'"
    using assms(1,2) by (simp add: held_def key_of_def get_execution_def execution_at_def)
  consider "x = er_execution r'" "st' = st" | ch where "failure_change code details (er_execution r') = Some ch"
      "coordinator_transition co r' False ch st = (Inr (advanced co r' False ch), put_execution (advanced co r' False ch) st)"
      "x = er_execution (advanced co r' False ch)" "st' = put_execution (advanced co r' False ch) st"
  proof (cases "er_lease_owner r' = er_lease_owner (wk_record work) \<and> failure_change code details (er_execution r') \<noteq> None")
    case True
    then obtain ch where ch: "failure_change code details (er_execution r') = Some ch" by auto
    then have "tx_status ch \<in> set (legal_execution_transitions (mx_status (er_execution r')))"
      using assms(3) by (auto simp: failure_change_def Let_def split: if_splits)
    from held_transition[OF assms(1) this] show thesis using that(2) ch assms(5) True
      by (auto simp: record_processing_failure_def g)
  next
    case False
    then show thesis using that(1) assms(5) by (auto simp: record_processing_failure_def g split: if_splits)
  qed
  then show ?thesis
  proof cases
    case 1
    then show ?thesis using assms(1,2,4) by (auto simp: answers_def)
  next
    case (2 ch)
    then have "backed co plan r (advanced co r' False ch)"
      using assms(3,4) by (auto simp: failure_change_def backed_def Let_def split: if_splits)
    then show ?thesis using 2(3,4) assms(2) by (auto simp: answers_def intro!: exI[of _ "advanced co r' False ch"])
  qed
qed

text \<open>
  C5. Recovery of an interrupted execution records what the target reports: after a worker processed an
  execution that was applying when its worker disappeared, the stored record is the answer, it is
  marked as committed only if the recorded target reports that the recorded transaction was
  committed, it is marked as rolled back only if the target reports that it was aborted (or no
  transaction had been recorded), and it is never returned to the queue of executions whose statements
  are applied.
\<close>

theorem recovery_follows_target:
  assumes "wk_kind work = ReconcileWork" "held st (wk_record work)" "mx_status (er_execution (wk_record work)) = Applying"
    and "mx_commit_outcome (er_execution (wk_record work)) \<notin> {Some Committed, Some RolledBack}"
    and "get_plan (er_owner_id (wk_record work)) (mx_plan_id (er_execution (wk_record work))) (ap_migrations st) = Inr plan"
    and "process co work st = (x, st')"
  shows "\<exists>r. execution_at (ap_migrations st') (er_owner_id (wk_record work), mx_id (er_execution (wk_record work))) = Some r
    \<and> x = er_execution r \<and> mx_status x \<noteq> Reserved
    \<and> (mx_commit_outcome x = Some Committed \<longrightarrow> reported co plan (wk_record work) TransactionCommitted)
    \<and> (mx_commit_outcome x = Some RolledBack \<longrightarrow>
         \<not> truthy_text (mx_transaction_id (er_execution (wk_record work))) \<or> reported co plan (wk_record work) TransactionAborted)"
proof (cases "truthy_text (mx_transaction_id (er_execution (wk_record work)))")
  case False
  let ?r = "wk_record work"
  from False have "recover_claimed co ?r st = (Inr (er_execution (advanced co ?r False (rolled_back ''migration_never_started''))),
      put_execution (advanced co ?r False (rolled_back ''migration_never_started'')) st)"
    using assms(2,3) by (simp add: recover_claimed_def execution_of_def and_then_def give_def held_transition)
  then show ?thesis using assms(1,6) False
    by (auto simp: process_def process_kind_def execution_at_def put_execution_def key_of_def update_conv' Let_def)
next
  case True
  let ?r = "wk_record work"
  obtain z st1 where z: "reconcile_transaction co (er_owner_id ?r) plan ?r True st = (z, st1)" by fastforce
  have rc: "recover_claimed co ?r st = (z, st1)"
    using True z assms(5) by (simp add: recover_claimed_def and_then_def coordinator_plan_def)
  have "answers (key_of ?r) (backed co plan ?r) x st'"
  proof (cases z)
    case (Inr y)
    from achieves_value[OF reconcile_backed[OF assms(3)] assms(2) z[unfolded Inr]] show ?thesis
      using assms(1,6) rc Inr by (simp add: process_def process_kind_def)
  next
    case (Inl err)
    then obtain code details where f: "record_processing_failure co work code details st1 = (x, st')"
      using assms(1,6) rc by (cases err) (auto simp: process_def process_kind_def Let_def)
    have "\<exists>r'. held st1 r' \<and> key_of r' = key_of ?r \<and> mx_status (er_execution r') \<in> {Applying, Succeeded} \<and> backed co plan ?r r'"
      using achieves_error[OF reconcile_backed[OF assms(3)] assms(2) z[unfolded Inl]] assms(3,4)
      by (auto simp: stores_def backed_def)
    then show ?thesis using failure_backed[OF _ _ _ _ f] by blast
  qed
  then show ?thesis by (auto simp: answers_def backed_def held_def key_of_def)
qed

end
