(* ===== verification/Execution_Sample.thy ===== *)
theory Execution_Sample
  imports Execution_Recovery Application_Sample
begin

text \<open>
  A concrete execution: a claimed review with one statement is applied to a target that acknowledges
  the commit, its design and baseline are synchronized, and the result is applied to the guarantees of
  the coordinator.
\<close>

definition exec_step :: migration_step where
  "exec_step = \<lparr>st_index = 0, st_object_kind = TableObject, st_object_path = ''tables.t'', st_operation = ''create'',
     st_sql = ''CREATE TABLE t ()'', st_destructive = False, st_requires_lock = True, st_data_movement = False\<rparr>"

definition exec_plan :: plan_record where
  "exec_plan = (sample_plan ''p'')\<lparr>pl_plan := (pl_plan (sample_plan ''p''))\<lparr>mp_status := PlanClaimed,
     mp_design_revision := 0, mp_steps := [exec_step]\<rparr>\<rparr>"

definition exec_app :: app_state where
  "exec_app = \<lparr>ap_workspaces = sample_workspaces\<lparr>wr_records := [(''o'', [(''ws_a'', sample_workspace)])]\<rparr>,
     ap_migrations = \<lparr>mr_designs = sample_start, mr_baselines = [((''o'', ''ws_a''), [sample_first])],
       mr_plans = [((''o'', ''p''), exec_plan)], mr_executions = [((''o'', ''mex_e''), sample_leased)],
       mr_execution_by_plan = [((''o'', ''p''), ''mex_e'')]\<rparr>\<rparr>"

definition exec_identity :: "(string \<times> json) list" where
  "exec_identity = [(''database'', JStr ''d''), (''database_oid'', JStr ''5''), (''server_version_num'', JStr ''170000''),
     (''server_address'', JStr ''local''), (''server_port'', JInt 0)]"

definition exec_target :: target where
  "exec_target = \<lparr>tg_connect = Connected, tg_execute = (\<lambda>_ _. None),
     tg_introspect = (\<lambda>log. Inr (sample_catalog\<lparr>cat_fingerprint :=
        (if st_sql exec_step \<in> set log then ''g'' else ''f'')\<rparr>)),
     tg_is_empty = (\<lambda>_ _. Inr True), tg_identity = (\<lambda>_. Inr exec_identity),
     tg_transaction_id = (\<lambda>_. Inr (Some (JStr ''77''))), tg_commit = (\<lambda>_. Acknowledged),
     tg_status = (\<lambda>_. Inr (Some (JStr ''committed'')))\<rparr>"

definition exec_coordinator :: coordinator where
  "exec_coordinator = \<lparr>co_migration_env = sample_migration_env ''x'', co_use_connection = (\<lambda>_ _. ConnectionInUse 1 (Some ''o'') ''d''),
     co_gateway = \<lparr>gw_catalog_statement_timeout_ms = 1, gw_migration_statement_timeout_ms = 1, gw_lock_timeout_ms = 1\<rparr>,
     co_target = exec_target, co_executes = True, co_reads_status = True, co_now = 12, co_lease_ttl = 20, co_lease_token = ''t'',
     co_content_of = (\<lambda>_. Some empty_design_content),
     co_catalog_of = (\<lambda>_. Some (sample_catalog\<lparr>cat_fingerprint := ''g''\<rparr>)), co_dump_catalog = (\<lambda>_. JNull),
     co_inspect = (\<lambda>_ _. Inr empty_design_content)\<rparr>"

lemma exec_coordinator_fields [simp]:
  "co_migration_env exec_coordinator = sample_migration_env ''x''" "co_executes exec_coordinator"
  "co_use_connection exec_coordinator owner c = ConnectionInUse 1 (Some ''o'') ''d''" "co_target exec_coordinator = exec_target"
  "co_inspect exec_coordinator cat plan = Inr empty_design_content" "co_design_env exec_coordinator = sample_env"
  by (simp_all add: exec_coordinator_def co_design_env_def sample_migration_env_def)

lemma exec_held: "held exec_app sample_leased"
  by (simp add: held_def key_of_def exec_app_def execution_at_def)

lemma sample_first_fields [simp]: "bl_id sample_first = ''mbl_a''" "bl_revision sample_first = 1" "bl_catalog sample_first = sample_catalog"
  by (simp_all add: sample_first_def create_baseline_def sample_baseline_def new_migration_repo_def dict_get_def setdefault_def Let_def)

lemma exec_admit: "admit exec_coordinator sample_leased exec_app = (Inr (exec_plan, ''d''), exec_app)"
proof -
  have "repo_design sample_env (''o'', ''ws_a'') sample_start = \<lparr>ds_workspace_id = ''ws_a'', ds_revision = 0,
      ds_content = empty_design_content, ds_fingerprint = ''f''\<rparr>"
    by (simp add: repo_design_def sample_start_def sample_env_def env_fingerprint_def design_fingerprint_def)
  moreover from this have "revision_of (map_of (repo_designs sample_start) (''o'', ''ws_a'')) = 0"
    by (simp add: sample_start_def revision_of_def)
  ultimately show ?thesis
    by (simp add: admit_def and_then_def coordinator_plan_def get_plan_def coordinator_workspace_def get_workspace_def
        coordinator_design_def design_get_def exec_app_def exec_plan_def sample_plan_def workspace_record_def owner_records_def
        target_changed_def owner_mismatch_def sample_workspace_def new_workspace_def sample_creation_def or_else_def
        reviewed_baseline_def current_baseline_def dict_get_def give_def sample_workspaces_def Let_def)
qed

lemma exec_steps [simp]:
  "connect_target exec_target = give ()"
  "execute_statement exec_target q run = (Inr (), run\<lparr>rn_log := rn_log run @ [q]\<rparr>)"
  "commit_target exec_target run = (Inr (), run\<lparr>rn_attempted := True, rn_applied := True\<rparr>)"
  "target_identity exec_target ''d'' run = (Inr exec_identity, run)"
  "read_transaction_id exec_target run = (Inr ''77'', run)"
  by (simp_all add: connect_target_def execute_statement_def commit_target_def target_identity_def read_transaction_id_def exec_target_def
      read_target_def and_then_def require_database_def exec_identity_def give_def is_digits_def)

lemma exec_reads:
  "read_target (tg_introspect exec_target) run =
     (Inr (sample_catalog\<lparr>cat_fingerprint := (if st_sql exec_step \<in> set (rn_log run) then ''g'' else ''f'')\<rparr>), run)"
  by (simp add: read_target_def exec_target_def)

lemma exec_prepares:
  "\<exists>log. prepare_migration gw exec_target ''d'' ''n'' ''f'' [] [] (begin_run s0) =
     (Inr (exec_identity, ''77''), (begin_run s0)\<lparr>rn_log := log\<rparr>)"
  by (simp add: prepare_migration_def and_then_def give_def begin_write_def set_timeout_ceiling_def Let_def take_advisory_lock_def
      lock_tables_def sorted_set_def conversion_settings_def check_target_def exec_reads table_emptiness_connection_def
      begin_run_def exec_step_def advisory_lock_def)

lemma exec_plan_fields [simp]:
  "map st_sql (mp_steps (pl_plan exec_plan)) = [''CREATE TABLE t ()'']" "conversion_tables exec_plan = []"
  "pa_namespace (pl_authority exec_plan) = ''n''" "cat_fingerprint (pa_live_catalog (pl_authority exec_plan)) = ''f''"
  "pa_required_empty_tables (pl_authority exec_plan) = []"
  by (simp_all add: exec_plan_def exec_step_def sample_plan_def conversion_tables_def sample_catalog_def empty_design_content_def)

lemma exec_applies:
  assumes "ready sample_leased s0"
  shows "rn_applied (snd (run_target exec_coordinator exec_plan ''d'' s0))"
proof -
  obtain log where p: "prepare_migration (co_gateway exec_coordinator) exec_target ''d'' ''n'' ''f'' [] [] (begin_run s0) =
      ((Inr (exec_identity, ''77'') :: coordinator_error raised + _), (begin_run s0)\<lparr>rn_log := log\<rparr>)"
    using exec_prepares[of "co_gateway exec_coordinator" s0] by fast
  obtain s1 where s1: "on_started exec_coordinator ''77'' exec_identity s0 = (Inr (), s1)"
    using assms by (simp add: on_started_def session_transition_held ready_def)
  note w = achieves_value[OF callbacks.starting assms s1]
  have s2: "\<exists>s2. on_intended exec_coordinator exec_plan cat s1 = (Inr (), s2)" for cat
    using w by (simp add: on_intended_def and_then_def modify_def session_transition_held under_way_def Let_def)
  obtain s2 where "on_intended exec_coordinator exec_plan (sample_catalog\<lparr>cat_fingerprint := ''g''\<rparr>) s1 = (Inr (), s2)"
    using s2 by blast
  moreover have "\<not> bad_name ''n''" "strip ''CREATE TABLE t ()'' \<noteq> ''''" by code_simp+
  moreover have "rn_state (begin_run s0) = s0" by (simp add: begin_run_def)
  ultimately show ?thesis
    by (simp add: run_target_def execute_migration_def validated_namespace_def validated_table_names_def sorted_set_def
        Let_def and_then_def p apply_migration_def call_back_def s1 apply_statement_def modify_def
        exec_reads exec_step_def give_def)
qed

lemma exec_takes_effect: "takes_effect exec_coordinator sample_leased exec_app"
  unfolding takes_effect_def exec_admit by (simp add: exec_applies ready_def exec_held)

section \<open>The guarantees on the execution\<close>

definition exec_work :: execution_work where
  "exec_work = \<lparr>wk_kind = ExecuteWork, wk_record = sample_leased\<rparr>"

theorem execution_tells_outcome_witness:
  "\<exists>r. execution_at (ap_migrations (snd (process exec_coordinator exec_work exec_app))) (''o'', ''mex_e'') = Some r
     \<and> mx_status (er_execution r) \<in> {Uncertain, Succeeded} \<and> evidence r"
  using execution_tells_outcome[of exec_work exec_app exec_coordinator "fst (process exec_coordinator exec_work exec_app)"
      "snd (process exec_coordinator exec_work exec_app)"] exec_takes_effect exec_held
  by (auto simp: exec_work_def)

text \<open>The execution after its commit, before and after synchronization, and while it was applying.\<close>

definition exec_result :: detail where
  "exec_result = [(''content'', JNull), (''catalog'', JNull)]"

definition exec_record :: "execution_status \<Rightarrow> commit_outcome option \<Rightarrow> sync_status option \<Rightarrow> execution_record" where
  "exec_record status outcome sync = sample_leased\<lparr>er_execution := (er_execution sample_leased)\<lparr>mx_status := status,
       mx_transaction_id := Some ''77'', mx_commit_outcome := outcome, mx_sync_status := sync\<rparr>,
     er_target_identity := Some exec_identity, er_intended_result := Some exec_result, er_lease_owner := None,
     er_lease_expires_at := None\<rparr>"

definition exec_stored :: "execution_record \<Rightarrow> app_state" where
  "exec_stored r = exec_app\<lparr>ap_migrations := (ap_migrations exec_app)\<lparr>mr_executions := [((''o'', ''mex_e''), r)]\<rparr>\<rparr>"

lemma exec_record_fields [simp]:
  "er_owner_id (exec_record st c s) = ''o''" "mx_id (er_execution (exec_record st c s)) = ''mex_e''"
  "mx_plan_id (er_execution (exec_record st c s)) = ''p''" "mx_status (er_execution (exec_record st c s)) = st"
  "mx_commit_outcome (er_execution (exec_record st c s)) = c" "mx_sync_status (er_execution (exec_record st c s)) = s"
  "mx_transaction_id (er_execution (exec_record st c s)) = Some ''77''" "er_lease_owner (exec_record st c s) = None"
  "er_target_identity (exec_record st c s) = Some exec_identity" "er_intended_result (exec_record st c s) = Some exec_result"
  by (simp_all add: exec_record_def)

lemma exec_stored_fields [simp]:
  "held (exec_stored (exec_record st c s)) (exec_record st c s)"
  "mr_designs (ap_migrations (exec_stored r)) = sample_start"
  "current_baseline (''o'', ''ws_a'') (ap_migrations (exec_stored r)) = Some sample_first"
  "get_plan ''o'' ''p'' (ap_migrations (exec_stored r)) = Inr exec_plan"
  by (simp_all add: exec_stored_def exec_app_def held_def key_of_def execution_at_def current_baseline_def dict_get_def get_plan_def Let_def)

lemma exec_parses [simp]:
  "parse_intended exec_coordinator exec_result = Some (empty_design_content, sample_catalog\<lparr>cat_fingerprint := ''g''\<rparr>)"
  by (simp add: parse_intended_def exec_result_def exec_coordinator_def)

lemma exec_workspace [simp]: "mp_workspace_id (pl_plan exec_plan) = ''ws_a''" "mp_design_revision (pl_plan exec_plan) = 0"
  by (simp_all add: exec_plan_def)

lemma exec_synchronizes:
  defines "r \<equiv> exec_record Succeeded (Some Committed) (Some SyncPending)"
  shows "\<exists>x st'. sync_committed exec_coordinator ''o'' exec_plan r (exec_stored r) = (Inr x, st') \<and> mx_sync_status x = Some SyncSucceeded"
proof -
  let ?g = "sample_catalog\<lparr>cat_fingerprint := ''g''\<rparr>" and ?st = "exec_stored r"
  let ?d = "repo_design sample_env (''o'', ''ws_a'') sample_start"
  let ?ch = "(sync_outcome SyncSucceeded None)\<lparr>tx_error_detail := SetTo None\<rparr>"
  have f: "ds_fingerprint ?d = env_fingerprint sample_env empty_design_content"
    by (simp add: repo_design_def sample_start_def env_fingerprint_def)
  have d: "sync_design exec_coordinator ''o'' exec_plan empty_design_content ?st = (Inr (?d, False), ?st)"
    by (simp add: sync_design_def Let_def and_then_def coordinator_design_def design_get_def f)
  have "\<not> baseline_matches ?g (current_baseline (''o'', mp_workspace_id (pl_plan exec_plan)) (ap_migrations ?st))"
    by (simp add: baseline_matches_def) (simp add: sample_catalog_def)
  from sync_baseline_accepted[OF this, of exec_coordinator "er_execution r" empty_design_content "ds_revision ?d"]
  obtain ms where b: "sync_baseline exec_coordinator ''o'' exec_plan (er_execution r) empty_design_content ?g (ds_revision ?d) ?st =
      (Inr True, ?st\<lparr>ap_migrations := ms\<rparr>)" "mr_executions ms = mr_executions (ap_migrations ?st)" "mr_designs ms = sample_start"
    by auto
  have h: "held (?st\<lparr>ap_migrations := ms\<rparr>) r"
    using exec_stored_fields(1)[of Succeeded] b(2) unfolding r_def by (simp add: held_def execution_at_def)
  have "coordinator_transition exec_coordinator r False ?ch (?st\<lparr>ap_migrations := ms\<rparr>) =
      (Inr (advanced exec_coordinator r False ?ch), put_execution (advanced exec_coordinator r False ?ch) (?st\<lparr>ap_migrations := ms\<rparr>))"
    by (rule held_transition[OF h]) (simp add: r_def)
  then have "sync_committed exec_coordinator ''o'' exec_plan r ?st = (Inr (er_execution (advanced exec_coordinator r False ?ch)),
      put_execution (advanced exec_coordinator r False ?ch) (?st\<lparr>ap_migrations := ms\<rparr>))"
    using d b(1) f by (simp add: sync_committed_def r_def exec_result_def[symmetric] and_then_def sync_result_def coordinator_design_def
        design_get_def b(3) execution_of_def give_def) (simp add: exec_result_def)
  then show ?thesis by simp
qed

theorem synchronized_execution_matches_witness:
  "synchronized exec_coordinator (''o'', ''ws_a'') empty_design_content (sample_catalog\<lparr>cat_fingerprint := ''g''\<rparr>)
     (snd (sync_committed exec_coordinator ''o'' exec_plan (exec_record Succeeded (Some Committed) (Some SyncPending))
        (exec_stored (exec_record Succeeded (Some Committed) (Some SyncPending)))))"
proof -
  let ?r = "exec_record Succeeded (Some Committed) (Some SyncPending)"
  obtain x st' where s: "sync_committed exec_coordinator ''o'' exec_plan ?r (exec_stored ?r) = (Inr x, st')"
    "mx_sync_status x = Some SyncSucceeded" using exec_synchronizes by blast
  have "exec_result \<noteq> []" by (simp add: exec_result_def)
  from synchronized_execution_matches[OF s exec_record_fields(10) this exec_parses] s show ?thesis by simp
qed

theorem recovery_follows_target_witness:
  "\<exists>r. execution_at (ap_migrations (snd (process exec_coordinator \<lparr>wk_kind = ReconcileWork, wk_record = exec_record Applying None None\<rparr>
      (exec_stored (exec_record Applying None None))))) (''o'', ''mex_e'') = Some r \<and> mx_status (er_execution r) \<noteq> Reserved"
  using recovery_follows_target[of "\<lparr>wk_kind = ReconcileWork, wk_record = exec_record Applying None None\<rparr>"
      "exec_stored (exec_record Applying None None)" exec_plan exec_coordinator] by (force simp: prod_eq_iff)

text \<open>A later design and a later baseline, against which the settled execution is reconciled.\<close>

definition exec_later :: app_state where
  "exec_later = (exec_stored (exec_record Succeeded (Some Committed) (Some SyncSucceeded)))\<lparr>ap_migrations :=
     (ap_migrations (exec_stored (exec_record Succeeded (Some Committed) (Some SyncSucceeded))))\<lparr>mr_designs := sample_start\<lparr>repo_designs :=
       [((''o'', ''ws_a''), \<lparr>ds_workspace_id = ''ws_a'', ds_revision = 3, ds_content = empty_design_content, ds_fingerprint = ''h''\<rparr>)]\<rparr>\<rparr>\<rparr>"

theorem reconcile_restores_old_baseline_witness:
  "\<exists>x st' b. coordinator_reconcile exec_coordinator ''o'' ''mex_e'' 2 exec_later = (Inr x, st')
     \<and> current_baseline (''o'', ''ws_a'') (ap_migrations exec_later) = Some sample_first
     \<and> current_baseline (''o'', ''ws_a'') (ap_migrations st') = Some b \<and> bl_catalog b \<noteq> bl_catalog sample_first"
proof -
  let ?r = "exec_record Succeeded (Some Committed) (Some SyncSucceeded)" and ?g = "sample_catalog\<lparr>cat_fingerprint := ''g''\<rparr>"
  have "held exec_later ?r" using exec_stored_fields(1)[of Succeeded] by (simp add: exec_later_def held_def execution_at_def)
  moreover have "receipt ?r" by (simp add: receipt_def evidence_def exec_result_def)
  moreover have "get_plan (er_owner_id ?r) (mx_plan_id (er_execution ?r)) (ap_migrations exec_later) = Inr exec_plan"
    using exec_stored_fields(4)[of ?r] by (simp add: exec_later_def get_plan_def)
  moreover have b: "current_baseline (''o'', ''ws_a'') (ap_migrations exec_later) = Some sample_first"
    using exec_stored_fields(3)[of ?r] by (simp add: exec_later_def current_baseline_def)
  moreover have "ds_fingerprint (repo_design sample_env (''o'', ''ws_a'') (mr_designs (ap_migrations exec_later))) = ''h''"
    "revision_of (map_of (repo_designs (mr_designs (ap_migrations exec_later))) (''o'', ''ws_a'')) = 3"
    by (simp_all add: exec_later_def repo_design_def sample_start_def revision_of_def)
  moreover have "env_fingerprint sample_env empty_design_content \<noteq> ''h''"
    by (simp add: env_fingerprint_def design_fingerprint_def sample_env_def)
  moreover have "mx_revision (er_execution ?r) = 2" by (simp add: exec_record_def)
  moreover have "cat_fingerprint sample_catalog \<noteq> ''g''" by (simp add: sample_catalog_def)
  moreover note reconcile_restores_old_baseline[of exec_later ?r exec_plan exec_coordinator empty_design_content ?g sample_first]
  moreover have "?g \<noteq> sample_catalog" by (simp add: sample_catalog_def)
  ultimately show ?thesis by (auto simp: design_fits_def)
qed

end
