(* ===== verification/Type_Changes.thy ===== *)
theory Type_Changes
  imports Schemii_Prelude
begin

text \<open>
  Classification of column type changes, \<open>schemii/migrations/type_changes.py\<close>: which changes of a
  declared PostgreSQL type keep every value by construction.

  The regular expressions are written out as parsers of the normalized declaration, in which words are
  separated by single spaces; \<open>\d\<close> is an ASCII digit. A parsed type is a datatype with one
  constructor per family instead of the strings \<open>family\<close> and \<open>variant\<close>. The values of a type, on which
  soundness is stated, are a specification: they do not occur in the source.
\<close>

section \<open>Declarations\<close>

definition starts_space :: "string \<Rightarrow> bool" where
  "starts_space s = list_ex (\<lambda>w. prefix w s) whitespace"

fun first_word :: "string \<Rightarrow> string" where
  "first_word [] = []"
| "first_word (c # s) = (if starts_space (c # s) then [] else c # first_word s)"

lemma strip_left_length: "length (strip_left ws s) \<le> length s"
proof (induction ws s rule: strip_left.induct)
  case (1 ws s)
  then show ?case by (subst strip_left.simps) (fastforce split: option.split)
qed

text \<open>\<open>s.split()\<close>\<close>

function split_words :: "string \<Rightarrow> string list" where
  "split_words s =
     (let rest = strip_left whitespace s; w = first_word rest in
      if w = [] then [] else w # split_words (drop (length w) rest))"
  by pat_completeness auto
termination
proof (relation "measure length")
  fix s rest w
  assume a: "rest = strip_left whitespace s" "w = first_word rest" "w \<noteq> []"
  then have "0 < length w" "0 < length rest" by auto
  moreover have "length rest \<le> length s" unfolding a(1) by (rule strip_left_length)
  ultimately have "length rest - length w < length s" by linarith
  then show "(drop (length w) rest, s) \<in> measure length" by simp
qed simp

declare split_words.simps [simp del]

definition normalized_type :: "string \<Rightarrow> string" where
  "normalized_type value = join '' '' (split_words (lower (strip value)))"

datatype parsed_type =
    IntegerType nat
  | FloatType nat
  | BooleanType
  | VarcharType "nat option"
  | TextType
  | NumericType "(nat \<times> nat) option"
  | TimestampType bool nat
  | TimeType bool nat

definition integer_ranks :: "(string, nat) dict" where
  "integer_ranks = [(''smallint'', 0), (''int2'', 0), (''integer'', 1), (''int'', 1), (''int4'', 1), (''bigint'', 2), (''int8'', 2)]"

definition float_ranks :: "(string, nat) dict" where
  "float_ranks = [(''real'', 0), (''float4'', 0), (''double precision'', 1), (''float8'', 1)]"

definition after_prefix :: "string \<Rightarrow> string \<Rightarrow> string option" where
  "after_prefix p s = (if prefix p s then Some (drop (length p) s) else None)"

fun skip_space :: "string \<Rightarrow> string" where
  "skip_space [] = []"
| "skip_space (c # s) = (if c = CHR '' '' then s else c # s)"

definition digit :: "char \<Rightarrow> bool" where
  "digit c = (48 \<le> (of_char c :: nat) \<and> (of_char c :: nat) \<le> 57)"

definition number_of :: "string \<Rightarrow> nat" where
  "number_of s = foldl (\<lambda>n c. 10 * n + (of_char c - 48)) 0 s"

text \<open>\<open>\s*(\d+)\s*\<close>: the number and what follows it.\<close>

definition spaced_number :: "string \<Rightarrow> (nat \<times> string) option" where
  "spaced_number s =
     (let r = skip_space s; ds = takeWhile digit r in
      if ds = [] then None else Some (number_of ds, skip_space (dropWhile digit r)))"

text \<open>\<open>\(\s*(\d+)\s*\)\<close>\<close>

definition paren_number :: "string \<Rightarrow> (nat \<times> string) option" where
  "paren_number s =
     (case after_prefix ''('' s of None \<Rightarrow> None
      | Some r \<Rightarrow> (case spaced_number r of None \<Rightarrow> None
          | Some (n, t) \<Rightarrow> map_option (Pair n) (after_prefix '')'' t)))"

text \<open>The alternatives of a declaration: a keyword, then what the continuation accepts.\<close>

definition keyword_then :: "string list \<Rightarrow> (string \<Rightarrow> parsed_type option) \<Rightarrow> string \<Rightarrow> parsed_type option" where
  "keyword_then keywords f s =
     List.fold (\<lambda>k found. case found of Some p \<Rightarrow> Some p | None \<Rightarrow> Option.bind (after_prefix k s) f) keywords None"

definition parse_varchar :: "string \<Rightarrow> parsed_type option" where
  "parse_varchar = keyword_then [''character varying'', ''varchar''] (\<lambda>r.
     if skip_space r = [] then Some (VarcharType None)
     else case paren_number (skip_space r) of Some (n, []) \<Rightarrow> Some (VarcharType (Some n)) | _ \<Rightarrow> None)"

definition parse_numeric :: "string \<Rightarrow> parsed_type option" where
  "parse_numeric = keyword_then [''numeric'', ''decimal''] (\<lambda>r.
     if skip_space r = [] then Some (NumericType None)
     else case after_prefix ''('' (skip_space r) of None \<Rightarrow> None
      | Some t \<Rightarrow> (case spaced_number t of None \<Rightarrow> None
          | Some (p, u) \<Rightarrow>
              if u = '')'' then Some (NumericType (Some (p, 0)))
              else case after_prefix '','' u of None \<Rightarrow> None
                | Some v \<Rightarrow> (case spaced_number v of Some (s, w) \<Rightarrow> if w = '')'' then Some (NumericType (Some (p, s))) else None
                    | None \<Rightarrow> None)))"

text \<open>\<open>\s*(?:\(\s*(\d+)\s*\))?\<close> with the default precision 6.\<close>

definition optional_precision :: "string \<Rightarrow> nat \<times> string" where
  "optional_precision s = (case paren_number (skip_space s) of None \<Rightarrow> (6, s) | Some (n, t) \<Rightarrow> (n, t))"

definition parse_temporal :: "string \<Rightarrow> (bool \<Rightarrow> nat \<Rightarrow> parsed_type) \<Rightarrow> string \<Rightarrow> parsed_type option" where
  "parse_temporal keyword c s =
     (case keyword_then [keyword] (\<lambda>r.
        (let (n, t) = optional_precision r; zone = skip_space t in
         if zone = [] \<or> zone = ''without time zone'' then Some (c False n)
         else if zone = ''with time zone'' then Some (c True n) else None)) s of
        Some p \<Rightarrow> Some p
      | None \<Rightarrow> keyword_then [keyword @ ''tz''] (\<lambda>r.
          (let (n, t) = optional_precision r in if skip_space t = [] then Some (c True n) else None)) s)"

definition first_some :: "'a option list \<Rightarrow> 'a option" where
  "first_some xs = foldr (\<lambda>x rest. case x of None \<Rightarrow> rest | Some a \<Rightarrow> Some a) xs None"

definition parse_type :: "string \<Rightarrow> parsed_type option" where
  "parse_type value =
     (let s = normalized_type value in
      first_some [map_option IntegerType (map_of integer_ranks s), map_option FloatType (map_of float_ranks s),
        (if s \<in> {''boolean'', ''bool''} then Some BooleanType else None), parse_varchar s,
        (if s = ''text'' then Some TextType else None), parse_numeric s,
        parse_temporal ''timestamp'' TimestampType s, parse_temporal ''time'' TimeType s])"

section \<open>Decisions\<close>

datatype disposition = EquivalentChange | SafeChange | BlockedChange

record type_decision =
  td_disposition :: disposition
  td_reason :: string

definition decide :: "disposition \<Rightarrow> string \<Rightarrow> type_decision" where
  "decide d reason = \<lparr>td_disposition = d, td_reason = reason\<rparr>"

definition blocked_change :: type_decision where
  "blocked_change = decide BlockedChange ''The conversion can narrow, reinterpret, or reject existing values''"

definition widen_if :: "bool \<Rightarrow> string \<Rightarrow> type_decision" where
  "widen_if safe reason = (if safe then decide SafeChange reason else blocked_change)"

text \<open>The comparison of two declarations of the same family; different families are blocked.\<close>

definition widening :: "parsed_type \<Rightarrow> parsed_type \<Rightarrow> type_decision" where
  "widening old new =
     (case old of
        IntegerType m \<Rightarrow> (case new of IntegerType n \<Rightarrow> widen_if (n > m) ''The integer range only increases'' | _ \<Rightarrow> blocked_change)
      | FloatType m \<Rightarrow> (case new of FloatType n \<Rightarrow> widen_if (n > m) ''The floating-point precision only increases'' | _ \<Rightarrow> blocked_change)
      | TextType \<Rightarrow> (case new of TextType \<Rightarrow> decide SafeChange ''The target has no length limit''
          | VarcharType n \<Rightarrow> widen_if (n = None) ''The target has no length limit'' | _ \<Rightarrow> blocked_change)
      | VarcharType m \<Rightarrow> (case new of TextType \<Rightarrow> decide SafeChange ''The target has no length limit''
          | VarcharType None \<Rightarrow> decide SafeChange ''The target removes the length limit''
          | VarcharType (Some j) \<Rightarrow> widen_if (case m of None \<Rightarrow> False | Some i \<Rightarrow> j \<ge> i) ''The character limit only increases''
          | _ \<Rightarrow> blocked_change)
      | NumericType m \<Rightarrow> (case new of
            NumericType None \<Rightarrow> decide SafeChange ''The target removes precision and scale limits''
          | NumericType (Some (np, ns)) \<Rightarrow>
              widen_if (case m of None \<Rightarrow> False | Some (mp, ms) \<Rightarrow> ns \<ge> ms \<and> int np - int ns \<ge> int mp - int ms)
                ''The target preserves both integral digits and fractional scale''
          | _ \<Rightarrow> blocked_change)
      | TimestampType z m \<Rightarrow> (case new of
            TimestampType y n \<Rightarrow> widen_if (z = y \<and> n > m) ''The temporal precision only increases'' | _ \<Rightarrow> blocked_change)
      | TimeType z m \<Rightarrow> (case new of
            TimeType y n \<Rightarrow> widen_if (z = y \<and> n > m) ''The temporal precision only increases'' | _ \<Rightarrow> blocked_change)
      | BooleanType \<Rightarrow> blocked_change)"

definition classify_type_change :: "string \<Rightarrow> string \<Rightarrow> type_decision" where
  "classify_type_change before after =
     (if normalized_type before = normalized_type after
      then decide EquivalentChange ''The type declarations are identical''
      else case (parse_type before, parse_type after) of
          (Some old, Some new) \<Rightarrow>
            if old = new then decide EquivalentChange ''The declarations are PostgreSQL aliases'' else widening old new
        | _ \<Rightarrow> decide BlockedChange ''The conversion is not in Schemii's value-preserving type map'')"

lemma classify_same [simp]: "td_disposition (classify_type_change t t) = EquivalentChange"
  by (simp add: classify_type_change_def decide_def)

section \<open>Values\<close>

text \<open>
  The finite values a column of a type can hold. Texts are counted in characters, times are seconds, and
  floating-point numbers are those of the two IEEE formats.
\<close>

datatype sql_value = IntValue int | RealValue real | TextValue string | BoolValue bool | ClockValue bool bool real

definition integer_bits :: "nat \<Rightarrow> nat" where
  "integer_bits rank = 15 + 16 * (2 ^ rank - 1)"

text \<open>\<open>m * 2 ^ e\<close> with a bounded integer \<open>m\<close>: 24 bits and 53 bits.\<close>

definition float_values :: "nat \<Rightarrow> real set" where
  "float_values rank = {m * 2 powi e | (m::real) e. m \<in> \<int>
     \<and> \<bar>m\<bar> < (if rank = 0 then 2 ^ 24 else 2 ^ 53) \<and> (if rank = 0 then -149 \<le> e \<and> e \<le> 104 else -1074 \<le> e \<and> e \<le> 971)}"

fun values_of :: "parsed_type \<Rightarrow> sql_value set" where
  "values_of (IntegerType r) = {IntValue i | i. - (2 ^ integer_bits r) \<le> i \<and> i < 2 ^ integer_bits r}"
| "values_of (FloatType r) = RealValue ` float_values r"
| "values_of BooleanType = range BoolValue"
| "values_of (VarcharType n) = {TextValue s | s. case n of None \<Rightarrow> True | Some k \<Rightarrow> char_count s \<le> k}"
| "values_of TextType = range TextValue"
| "values_of (NumericType None) = {RealValue (k / 10 ^ s) | (k::real) s. k \<in> \<int>}"
| "values_of (NumericType (Some (p, s))) = {RealValue (k / 10 ^ s) | (k::real). k \<in> \<int> \<and> \<bar>k\<bar> < 10 ^ p}"
| "values_of (TimestampType z p) = {ClockValue True z (k / 10 ^ p) | (k::real). k \<in> \<int>}"
| "values_of (TimeType z p) = {ClockValue False z (k / 10 ^ p) | (k::real). k \<in> \<int> \<and> 0 \<le> k / 10 ^ p \<and> k / 10 ^ p \<le> 86400}"

lemma numeric_widens:
  assumes "s \<le> s'" "int p - int s \<le> int p' - int s'"
  shows "values_of (NumericType (Some (p, s))) \<subseteq> values_of (NumericType (Some (p', s')))"
proof (clarsimp, goal_cases)
  case (1 k)
  let ?k = "k * 10 ^ (s' - s)"
  have "\<bar>?k\<bar> < 10 ^ p * 10 ^ (s' - s)" using 1(2) by (simp add: abs_mult)
  also have "\<dots> = 10 ^ (p + (s' - s))" by (simp add: power_add)
  also have "\<dots> \<le> (10::real) ^ p'" using assms by (intro power_increasing) auto
  finally have "\<bar>?k\<bar> < 10 ^ p'" .
  moreover have "k / 10 ^ s = ?k / 10 ^ s'" using assms(1) by (simp add: power_diff)
  moreover have "?k \<in> \<int>" using 1(1) by (simp add: Ints_power)
  ultimately show ?case by blast
qed

lemma scaled_widens:
  fixes k :: real
  assumes "k \<in> \<int>" "m \<le> n"
  shows "\<exists>j\<in>\<int>. k / 10 ^ m = j / (10 ^ n :: real)"
proof
  show "k / 10 ^ m = k * 10 ^ (n - m) / 10 ^ n" using assms(2) by (simp add: power_diff)
  show "k * 10 ^ (n - m) \<in> \<int>" using assms(1) by simp
qed

lemma integer_widens: "m \<le> n \<Longrightarrow> values_of (IntegerType m) \<subseteq> values_of (IntegerType n)"
proof -
  assume "m \<le> n"
  then have "(2::nat) ^ m - 1 \<le> 2 ^ n - 1" by (intro diff_le_mono power_increasing) auto
  then have "integer_bits m \<le> integer_bits n" by (simp add: integer_bits_def)
  then have p: "(2::int) ^ integer_bits m \<le> 2 ^ integer_bits n" by (intro power_increasing) auto
  have "- (2 ^ integer_bits n) \<le> i \<and> i < 2 ^ integer_bits n" if "- (2 ^ integer_bits m) \<le> i" "i < 2 ^ integer_bits m" for i :: int
    using that p by linarith
  then show ?thesis by auto
qed

lemma float_widens: "m \<le> n \<Longrightarrow> float_values m \<subseteq> float_values n"
proof
  fix x assume "m \<le> n" "x \<in> float_values m"
  then obtain k e where "x = k * 2 powi e" "k \<in> \<int>" "\<bar>k\<bar> < (if m = 0 then 2 ^ 24 else 2 ^ 53)"
    "if m = 0 then -149 \<le> e \<and> e \<le> 104 else -1074 \<le> e \<and> e \<le> 971" unfolding float_values_def by blast
  moreover from this \<open>m \<le> n\<close> have "\<bar>k\<bar> < (if n = 0 then 2 ^ 24 else 2 ^ 53)"
    "if n = 0 then -149 \<le> e \<and> e \<le> 104 else -1074 \<le> e \<and> e \<le> 971" by (auto split: if_splits)
  ultimately show "x \<in> float_values n" unfolding float_values_def by blast
qed

lemma decision_safe [simp]:
  "td_disposition (decide d reason) = d" "td_disposition blocked_change \<noteq> SafeChange"
  "td_disposition (widen_if safe reason) = SafeChange \<longleftrightarrow> safe"
  by (simp_all add: blocked_change_def decide_def widen_if_def)

text \<open>The pairs of types \<^const>\<open>widening\<close> accepts.\<close>

inductive widens :: "parsed_type \<Rightarrow> parsed_type \<Rightarrow> bool" where
  integers: "m < n \<Longrightarrow> widens (IntegerType m) (IntegerType n)"
| floats: "m < n \<Longrightarrow> widens (FloatType m) (FloatType n)"
| to_text: "t \<in> {TextType, VarcharType None} \<Longrightarrow> widens TextType t"
| from_varchar: "t \<in> {TextType, VarcharType None} \<Longrightarrow> widens (VarcharType m) t"
| varchars: "i \<le> j \<Longrightarrow> widens (VarcharType (Some i)) (VarcharType (Some j))"
| any_numeric: "widens (NumericType m) (NumericType None)"
| numerics: "ms \<le> ns \<Longrightarrow> int mp - int ms \<le> int np - int ns \<Longrightarrow> widens (NumericType (Some (mp, ms))) (NumericType (Some (np, ns)))"
| timestamps: "m < n \<Longrightarrow> widens (TimestampType z m) (TimestampType z n)"
| times: "m < n \<Longrightarrow> widens (TimeType z m) (TimeType z n)"

lemma widening_widens: "td_disposition (widening old new) = SafeChange \<Longrightarrow> widens old new"
  by (cases old; cases new) (auto simp: widening_def intro: widens.intros split: option.splits)

lemma widens_keeps: "widens old new \<Longrightarrow> values_of old \<subseteq> values_of new"
proof (induction rule: widens.induct)
  case (integers m n)
  then show ?case by (intro integer_widens) simp
next
  case (floats m n)
  from image_mono[OF float_widens[OF less_imp_le[OF floats]]] show ?case by simp
next
  case (any_numeric m)
  then show ?case by (cases m) (fastforce | clarsimp, blast)+
next
  case (numerics ms ns mp np)
  then show ?case using numeric_widens[of ms ns mp np] by simp
next
  case (timestamps m n z)
  then show ?case using scaled_widens[OF _ less_imp_le[OF timestamps]] by auto
next
  case (times m n z)
  then show ?case using scaled_widens[OF _ less_imp_le[OF times]] by fastforce
qed auto

lemma widening_keeps: "td_disposition (widening old new) = SafeChange \<Longrightarrow> values_of old \<subseteq> values_of new"
  by (intro widens_keeps widening_widens)

text \<open>
  C10. A change that is classified as safe keeps every value: both declarations are understood, they
  differ, and every value a column of the old type can hold is a value of the new type.
\<close>

theorem safe_type_change_keeps_values:
  assumes "td_disposition (classify_type_change before after) = SafeChange"
  shows "\<exists>old new. parse_type before = Some old \<and> parse_type after = Some new \<and> old \<noteq> new \<and> values_of old \<subseteq> values_of new"
proof -
  obtain old new where p: "parse_type before = Some old" "parse_type after = Some new" "old \<noteq> new"
    "td_disposition (widening old new) = SafeChange"
    using assms by (auto simp: classify_type_change_def decide_def split: if_splits option.splits)
  then have "values_of old \<subseteq> values_of new" by (intro widening_keeps)
  with p show ?thesis by blast
qed

theorem safe_type_change_keeps_values_witness:
  "\<exists>old new. parse_type ''int'' = Some old \<and> parse_type ''int8'' = Some new \<and> old \<noteq> new
     \<and> values_of old \<subseteq> values_of new"
proof (rule safe_type_change_keeps_values)
  show "td_disposition (classify_type_change ''int'' ''int8'') = SafeChange" by code_simp
qed

end
