(* ===== verification/Ddl_Statements.thy ===== *)
theory Ddl_Statements
  imports Design_Model Planner_Merge Type_Changes
begin

text \<open>
  The statements the migration planner writes, \<open>schemii/migrations/planner.py\<close>: definitions of
  columns, tables, indexes, constraints and relationships, the comparisons that decide whether an
  object changed, and the order of columns.

  A lookup of a column or table by id that fails raises \<open>KeyError\<close> in the source and is \<^const>\<open>None\<close>
  here. Parameters: the relations a query refers to, the parameters of a routine definition (both from
  SQL parsers), the normal form of CHECK expressions and sha256.
\<close>

section \<open>Names and fragments\<close>

definition quote :: "string \<Rightarrow> string" where
  "quote identifier = [CHR 0x22] @ replace_char (CHR 0x22) [CHR 0x22, CHR 0x22] identifier @ [CHR 0x22]"

definition qualified_name :: "string \<Rightarrow> string \<Rightarrow> string" where
  "qualified_name namespace name = quote namespace @ ''.'' @ quote name"

definition statement :: "string \<Rightarrow> string" where
  "statement source = rstrip_char (CHR '';'') (strip source) @ '';''"

definition sql_literal :: "string \<Rightarrow> string" where
  "sql_literal value = [CHR 0x27] @ replace_char (CHR 0x27) [CHR 0x27, CHR 0x27] value @ [CHR 0x27]"

definition newline :: string where
  "newline = [CHR 0x0A]"

definition by_id :: "('a \<Rightarrow> string) \<Rightarrow> 'a list \<Rightarrow> (string, 'a) dict" where
  "by_id f values = dict_by f values"

definition table_map :: "design_content \<Rightarrow> (string, design_table) dict" where
  "table_map content = by_id tbl_id (content_tables content)"

definition column_map :: "design_content \<Rightarrow> (string, design_column) dict" where
  "column_map content = by_id col_id (concat (map tbl_columns (content_tables content)))"

definition quoted_columns :: "(string, design_column) dict \<Rightarrow> string list \<Rightarrow> string option" where
  "quoted_columns columns ids =
     map_option (join '', '') (those (map (\<lambda>i. map_option (\<lambda>c. quote (col_name c)) (map_of columns i)) ids))"

section \<open>Definitions of objects\<close>

definition column_definition :: "design_column \<Rightarrow> string" where
  "column_definition column = join '' '' (
     [quote (col_name column), strip (col_data_type column)]
     @ (case col_generated_expression column of
          Some expression \<Rightarrow> [''GENERATED ALWAYS AS ('' @ strip expression @ '') STORED'']
        | None \<Rightarrow> (case col_identity column of
            Some identity \<Rightarrow> [''GENERATED '' @ (if identity = Always then ''ALWAYS'' else ''BY DEFAULT'') @ '' AS IDENTITY'']
          | None \<Rightarrow> (case col_default_expression column of Some e \<Rightarrow> [''DEFAULT '' @ strip e] | None \<Rightarrow> [])))
     @ (if col_nullable column then [] else [''NOT NULL'']))"

definition key_clause :: "(string, design_column) dict \<Rightarrow> design_key \<Rightarrow> string option" where
  "key_clause columns key = map_option (\<lambda>names.
     (if key_kind key = PrimaryKey then ''PRIMARY KEY'' else ''UNIQUE'') @ '' ('' @ names @ '')'')
     (quoted_columns columns (key_column_ids key))"

definition check_clause :: "design_check \<Rightarrow> string" where
  "check_clause c = ''CHECK ('' @ strip (chk_expression c) @ '')''"

definition create_table :: "string \<Rightarrow> design_table \<Rightarrow> (string, design_column) dict \<Rightarrow> string option" where
  "create_table namespace table columns = map_option (\<lambda>keys.
     ''CREATE TABLE '' @ qualified_name namespace (tbl_name table) @ '' ('' @ newline @ ''  ''
     @ join ('','' @ newline @ ''  '') (map column_definition (tbl_columns table) @ keys
         @ map (\<lambda>c. ''CONSTRAINT '' @ quote (chk_name c) @ '' '' @ check_clause c) (tbl_checks table))
     @ newline @ '');'')
     (those (map (\<lambda>k. map_option (\<lambda>c. ''CONSTRAINT '' @ quote (key_name k) @ '' '' @ c) (key_clause columns k)) (tbl_keys table)))"

definition create_index :: "string \<Rightarrow> design_table \<Rightarrow> design_index \<Rightarrow> (string, design_column) dict \<Rightarrow> string option" where
  "create_index namespace table index columns =
     (case those (map (\<lambda>i. map_option (\<lambda>c. quote (col_name c)) (map_of columns i)) (idx_column_ids index)) of None \<Rightarrow> None
      | Some names \<Rightarrow> (case quoted_columns columns (idx_include_column_ids index) of None \<Rightarrow> None
          | Some included \<Rightarrow> Some (
              ''CREATE '' @ (if idx_unique index then ''UNIQUE '' else '''') @ ''INDEX '' @ quote (idx_name index) @ '' ON ''
              @ qualified_name namespace (tbl_name table) @ '' USING '' @ quote (idx_method index) @ '' (''
              @ join '', '' (names @ (case idx_expression index of None \<Rightarrow> [] | Some e \<Rightarrow> if e = '''' then [] else [strip e])) @ '')''
              @ (if idx_include_column_ids index = [] then '''' else '' INCLUDE ('' @ included @ '')'')
              @ (case idx_predicate index of None \<Rightarrow> '''' | Some p \<Rightarrow> if p = '''' then '''' else '' WHERE '' @ strip p)
              @ '';'')))"

definition relationship_sql ::
  "string \<Rightarrow> design_relationship \<Rightarrow> (string, design_table) dict \<Rightarrow> (string, design_column) dict \<Rightarrow> string option" where
  "relationship_sql namespace r tables columns =
     (case (map_of tables (rel_source_table_id r), map_of tables (rel_target_table_id r),
            quoted_columns columns (rel_source_column_ids r), quoted_columns columns (rel_target_column_ids r)) of
        (Some source, Some tgt, Some source_columns, Some target_columns) \<Rightarrow> Some (
          ''ALTER TABLE '' @ qualified_name namespace (tbl_name source) @ '' ADD CONSTRAINT '' @ quote (rel_name r)
          @ '' FOREIGN KEY ('' @ source_columns @ '') REFERENCES '' @ qualified_name namespace (tbl_name tgt)
          @ '' ('' @ target_columns @ '') ON UPDATE '' @ action_text (rel_on_update r) @ '' ON DELETE '' @ action_text (rel_on_delete r)
          @ (if rel_deferrable r then '' DEFERRABLE'' @ (if rel_initially_deferred r then '' INITIALLY DEFERRED'' else '''') else '''')
          @ '';'')
      | _ \<Rightarrow> None)"

datatype table_constraint = KeyItem design_key | CheckItem design_check

fun constraint_name :: "table_constraint \<Rightarrow> string" where
  "constraint_name (KeyItem k) = key_name k"
| "constraint_name (CheckItem c) = chk_name c"

fun constraint_id :: "table_constraint \<Rightarrow> string" where
  "constraint_id (KeyItem k) = key_id k"
| "constraint_id (CheckItem c) = chk_id c"

definition constraint_sql :: "string \<Rightarrow> design_table \<Rightarrow> table_constraint \<Rightarrow> (string, design_column) dict \<Rightarrow> string option" where
  "constraint_sql namespace table item columns = map_option (\<lambda>def.
     ''ALTER TABLE '' @ qualified_name namespace (tbl_name table) @ '' ADD CONSTRAINT '' @ quote (constraint_name item) @ '' '' @ def @ '';'')
     (case item of KeyItem k \<Rightarrow> key_clause columns k | CheckItem c \<Rightarrow> Some (check_clause c))"

definition drop_constraint :: "string \<Rightarrow> string \<Rightarrow> string \<Rightarrow> string" where
  "drop_constraint namespace table name = ''ALTER TABLE '' @ qualified_name namespace table @ '' DROP CONSTRAINT '' @ quote name @ '';''"

section \<open>Comparisons\<close>

record routine_parameter =
  rp_input :: bool
  rp_mode :: string
  rp_type :: string
  rp_name :: "string option"
  rp_default :: bool

record planner_env =
  pe_sha256 :: "string \<Rightarrow> string"
  pe_relations :: "string \<Rightarrow> string \<Rightarrow> (string \<times> string) list"
  pe_parameters :: "string \<Rightarrow> routine_parameter list"
  pe_normal :: "(string, string) dict \<Rightarrow> string \<Rightarrow> string option"

text \<open>Default and IN parameters are inputs and have the same mode.\<close>

definition parameter_changed :: "routine_parameter \<Rightarrow> routine_parameter \<Rightarrow> bool" where
  "parameter_changed old new =
     (rp_input old \<noteq> rp_input new \<or> (\<not> rp_input old \<and> rp_mode old \<noteq> rp_mode new) \<or> rp_type old \<noteq> rp_type new
      \<or> (rp_name old \<noteq> rp_name new \<and> (rp_name old \<noteq> None \<or> \<not> rp_input old))
      \<or> (rp_default old \<and> \<not> rp_default new))"

definition routine_parameters_require_migration :: "planner_env \<Rightarrow> design_function \<Rightarrow> design_function \<Rightarrow> bool" where
  "routine_parameters_require_migration env before after =
     (let old = pe_parameters env (fn_definition before); new = pe_parameters env (fn_definition after) in
      length old \<noteq> length new \<or> list_ex (\<lambda>(o', n'). parameter_changed o' n') (zip old new))"

definition same_check :: "planner_env \<Rightarrow> design_check \<Rightarrow> design_check \<Rightarrow> (string, string) dict \<Rightarrow> bool" where
  "same_check env left right column_types =
     (chk_id left = chk_id right \<and> chk_name left = chk_name right \<and> sort (chk_column_ids left) = sort (chk_column_ids right)
      \<and> equivalent_check_expressions (pe_normal env) (chk_expression left) (chk_expression right) column_types)"

definition same_index :: "design_index \<Rightarrow> design_index \<Rightarrow> bool" where
  "same_index left right =
     (left\<lparr>idx_expression_source_column_ids := sort (idx_expression_source_column_ids left),
           idx_predicate_column_ids := sort (idx_predicate_column_ids left)\<rparr>
      = right\<lparr>idx_expression_source_column_ids := sort (idx_expression_source_column_ids right),
           idx_predicate_column_ids := sort (idx_predicate_column_ids right)\<rparr>)"

definition same_dependency_set :: "string list \<Rightarrow> string list \<Rightarrow> bool" where
  "same_dependency_set left right = (set left = set right)"

text \<open>\<open>sorted(set(a) | set(b))\<close> of two dictionaries and the ids both have.\<close>

definition all_ids :: "(string, 'a) dict \<Rightarrow> (string, 'b) dict \<Rightarrow> string list" where
  "all_ids a b = sorted_set (dict_keys a @ dict_keys b)"

definition common_ids :: "(string, 'a) dict \<Rightarrow> (string, 'b) dict \<Rightarrow> string list" where
  "common_ids a b = sorted_set (filter (\<lambda>i. i \<in> set (dict_keys b)) (dict_keys a))"

definition column_type_changes :: "(string, design_table) dict \<Rightarrow> (string, design_table) dict \<Rightarrow> (string \<times> type_decision) list" where
  "column_type_changes live_tables desired_tables =
     concat (map (\<lambda>t. case (map_of live_tables t, map_of desired_tables t) of
        (Some before, Some after) \<Rightarrow>
          (let old = by_id col_id (tbl_columns before); new = by_id col_id (tbl_columns after) in
           concat (map (\<lambda>c. case (map_of old c, map_of new c) of
              (Some x, Some y) \<Rightarrow>
                (let decision = classify_type_change (col_data_type x) (col_data_type y) in
                 if td_disposition decision = EquivalentChange then [] else [(c, decision)])
            | _ \<Rightarrow> []) (common_ids old new)))
      | _ \<Rightarrow> []) (common_ids live_tables desired_tables))"

definition dependent_view_names :: "planner_env \<Rightarrow> string \<Rightarrow> string \<Rightarrow> design_content \<Rightarrow> design_content \<Rightarrow> string list" where
  "dependent_view_names env namespace table_name live desired =
     sorted_set (map view_name (filter (\<lambda>v. (namespace, table_name) \<in> set (pe_relations env namespace (view_definition v)))
       (content_views live @ content_views desired)))"

text \<open>A new column that existing rows cannot fill.\<close>

definition cannot_populate :: "design_column \<Rightarrow> bool" where
  "cannot_populate c = (\<not> col_nullable c \<and> col_default_expression c = None \<and> col_identity c = None \<and> col_generated_expression c = None)"

definition tables_requiring_empty :: "design_content \<Rightarrow> design_content \<Rightarrow> string list" where
  "tables_requiring_empty live desired =
     remdups (concat (map (\<lambda>t. case (map_of (table_map live) t, map_of (table_map desired) t) of
        (Some before, Some after) \<Rightarrow>
          (if list_ex (\<lambda>c. col_id c \<notin> set (map col_id (tbl_columns before)) \<and> cannot_populate c) (tbl_columns after)
           then [tbl_name before] else [])
      | _ \<Rightarrow> []) (common_ids (table_map live) (table_map desired))))"

end
