(* ===== verification/Migration_Steps.thy ===== *)
theory Migration_Steps
  imports Ddl_Statements "HOL-Library.Product_Lexorder"
begin

text \<open>
  The migration planner's passes, \<open>compile_migration_steps\<close> of \<open>schemii/migrations/planner.py\<close>: every
  pass compares the live schema with the desired one object by object and contributes pending steps
  and blocking warnings; the final pass removes duplicates, orders the steps by phase and numbers them.

  The two lists every pass appends to are returned (\<open>planned\<close>; \<^const>\<open>None\<close> is a \<open>KeyError\<close>), so that
  appending is concatenation. Sets of ids are lists; the source sorts them before it iterates.
\<close>

section \<open>Column order\<close>

record column_order_difference =
  od_table_id :: string
  od_table_name :: string
  od_current_order :: "string list"
  od_desired_order :: "string list"
  od_blocking_reasons :: "string list"

fun word_char :: "char \<Rightarrow> bool" where
  "word_char c = (let n = (of_char c :: nat) in
     48 \<le> n \<and> n \<le> 57 \<or> 65 \<le> n \<and> n \<le> 90 \<or> 97 \<le> n \<and> n \<le> 122 \<or> n = 95 \<or> 128 \<le> n)"

text \<open>\<open>re.search(r"\bnextval\s*\(", ..., re.IGNORECASE)\<close>; the flag says whether the previous character is a word character.\<close>

fun calls_nextval :: "bool \<Rightarrow> string \<Rightarrow> bool" where
  "calls_nextval inside [] = False"
| "calls_nextval inside (c # s) =
     (\<not> inside \<and> prefix ''nextval'' (lower (c # s)) \<and> prefix ''('' (strip_left whitespace (drop 7 (c # s)))
      \<or> calls_nextval (word_char c) s)"

definition changed_and :: "('a \<Rightarrow> bool) \<Rightarrow> 'a option \<Rightarrow> 'a option \<Rightarrow> bool" where
  "changed_and involved old new = (list_ex (\<lambda>v. case v of None \<Rightarrow> False | Some x \<Rightarrow> involved x) [old, new] \<and> old \<noteq> new)"

definition order_blockers :: "planner_env \<Rightarrow> string \<Rightarrow> design_content \<Rightarrow> design_content \<Rightarrow> design_table \<Rightarrow> design_table \<Rightarrow> string list" where
  "order_blockers env namespace live desired before after =
     (let current_ids = map col_id (tbl_columns before); desired_ids = map col_id (tbl_columns after);
          old_columns = by_id col_id (tbl_columns before); new_columns = by_id col_id (tbl_columns after);
          old_rels = by_id rel_id (content_relationships live); new_rels = by_id rel_id (content_relationships desired);
          old_trgs = by_id trg_id (content_triggers live); new_trgs = by_id trg_id (content_triggers desired);
          views = dependent_view_names env namespace (tbl_name before) live desired
      in (if set current_ids \<noteq> set desired_ids then [''Apply this table's column additions or removals before rebuilding its physical order.'']
          else if list_ex (\<lambda>i. map_of old_columns i \<noteq> map_of new_columns i) current_ids
          then [''Apply this table's column edits before rebuilding its physical order.''] else [])
       @ (if tbl_name before \<noteq> tbl_name after then [''Apply the table rename before rebuilding its physical order.''] else [])
       @ (if tbl_keys before \<noteq> tbl_keys after \<or> tbl_checks before \<noteq> tbl_checks after \<or> tbl_indexes before \<noteq> tbl_indexes after
          then [''Apply this table's constraint and index edits before rebuilding its physical order.''] else [])
       @ (if list_ex (\<lambda>i. changed_and (\<lambda>r. tbl_id before \<in> {rel_source_table_id r, rel_target_table_id r}) (map_of old_rels i) (map_of new_rels i))
              (all_ids old_rels new_rels)
          then [''Apply foreign-key edits involving this table before rebuilding its physical order.''] else [])
       @ (if list_ex (\<lambda>i. changed_and (\<lambda>t. trg_relation_name t \<in> {tbl_name before, tbl_name after}) (map_of old_trgs i) (map_of new_trgs i))
              (all_ids old_trgs new_trgs)
          then [''Apply trigger edits on this table before rebuilding its physical order.''] else [])
       @ (if views \<noteq> [] then [''Rebuild or remove dependent views first: '' @ join '', '' views] else [])
       @ (if list_ex (\<lambda>c. col_generated_expression c \<noteq> None) (tbl_columns after)
          then [''Physical reordering of generated columns is not yet lossless.''] else [])
       @ (if list_ex (\<lambda>c. case col_default_expression c of None \<Rightarrow> False | Some e \<Rightarrow> calls_nextval False e) (tbl_columns after)
          then [''Serial-sequence defaults must be converted to identity columns before physical reordering.''] else []))"

definition column_order_differences :: "planner_env \<Rightarrow> string \<Rightarrow> design_content \<Rightarrow> design_content \<Rightarrow> column_order_difference list" where
  "column_order_differences env namespace live desired =
     concat (map (\<lambda>i. case (map_of (table_map live) i, map_of (table_map desired) i) of
        (Some before, Some after) \<Rightarrow>
          (if map col_id (tbl_columns before) = map col_id (tbl_columns after) then []
           else [\<lparr>od_table_id = i, od_table_name = tbl_name after, od_current_order = map col_name (tbl_columns before),
                  od_desired_order = map col_name (tbl_columns after),
                  od_blocking_reasons = dedupe (order_blockers env namespace live desired before after)\<rparr>])
      | _ \<Rightarrow> []) (common_ids (table_map live) (table_map desired)))"

definition physical_column_order_mismatches :: "design_content \<Rightarrow> design_content \<Rightarrow> string list \<Rightarrow> string list" where
  "physical_column_order_mismatches live desired table_ids =
     concat (map (\<lambda>i. case (map_of (table_map live) i, map_of (table_map desired) i) of
        (Some before, Some after) \<Rightarrow>
          (if map col_id (tbl_columns before) \<noteq> map col_id (tbl_columns after) then [tbl_name after] else [])
      | (None, Some after) \<Rightarrow> [tbl_name after]
      | (_, None) \<Rightarrow> [i]) (sorted_set table_ids))"

text \<open>The columns both versions have in the preferred order, then the others in their own.\<close>

definition preserve_columns :: "design_column list \<Rightarrow> design_column list \<Rightarrow> design_column list" where
  "preserve_columns inspected preferred =
     (let ids = by_id col_id inspected; ordered = concat (map (\<lambda>c. case map_of ids (col_id c) of None \<Rightarrow> [] | Some x \<Rightarrow> [x]) preferred)
      in ordered @ filter (\<lambda>c. col_id c \<notin> set (map col_id ordered)) inspected)"

definition preserve_column_display_order :: "design_content \<Rightarrow> design_content \<Rightarrow> design_content" where
  "preserve_column_display_order inspected preferred = inspected\<lparr>content_tables :=
     map (\<lambda>t. case map_of (table_map preferred) (tbl_id t) of None \<Rightarrow> t
       | Some p \<Rightarrow> t\<lparr>tbl_columns := preserve_columns (tbl_columns t) (tbl_columns p)\<rparr>) (content_tables inspected)\<rparr>"

section \<open>Pending steps\<close>

record pending_step =
  ps_phase :: nat
  ps_kind :: object_kind
  ps_path :: string
  ps_operation :: string
  ps_sql :: string
  ps_destructive :: bool
  ps_requires_lock :: bool
  ps_data_movement :: bool
  ps_order :: nat

definition pend :: "nat \<Rightarrow> object_kind \<Rightarrow> string \<Rightarrow> string \<Rightarrow> string \<Rightarrow> pending_step" where
  "pend phase kind path operation sql = \<lparr>ps_phase = phase, ps_kind = kind, ps_path = path, ps_operation = operation,
     ps_sql = sql, ps_destructive = False, ps_requires_lock = True, ps_data_movement = False, ps_order = 0\<rparr>"

type_synonym planned = "(pending_step list \<times> migration_warning list) option"

definition steps :: "pending_step list \<Rightarrow> planned" where
  "steps ps = Some (ps, [])"

definition block :: "string \<Rightarrow> string \<Rightarrow> string \<Rightarrow> planned" where
  "block code message path = Some ([], [\<lparr>mw_code = code, mw_message = message, mw_object_path = Some path\<rparr>])"

definition sequence :: "planned list \<Rightarrow> planned" where
  "sequence ps = map_option (\<lambda>xs. (concat (map fst xs), concat (map snd xs))) (those ps)"

definition for_all :: "('x \<Rightarrow> planned) \<Rightarrow> 'x list \<Rightarrow> planned" where
  "for_all f xs = sequence (map f xs)"

text \<open>A step whose statement may fail to be written.\<close>

definition with_sql :: "string option \<Rightarrow> (string \<Rightarrow> pending_step) \<Rightarrow> planned" where
  "with_sql sql f = map_option (\<lambda>s. ([f s], [])) sql"

record compiled_conversion =
  cv_strategy :: "conversion_strategy option"
  cv_expression :: string
  cv_target_type :: string
  cv_guard_sql :: "string option"

record migration_input =
  in_env :: planner_env
  in_namespace :: string
  in_live :: design_content
  in_desired :: design_content
  in_empty_tables :: "string list"
  in_conversions :: "(string, compiled_conversion) dict"

definition in_live_tables :: "migration_input \<Rightarrow> (string, design_table) dict" where
  "in_live_tables p = table_map (in_live p)"

definition in_desired_tables :: "migration_input \<Rightarrow> (string, design_table) dict" where
  "in_desired_tables p = table_map (in_desired p)"

definition in_desired_columns :: "migration_input \<Rightarrow> (string, design_column) dict" where
  "in_desired_columns p = column_map (in_desired p)"

definition safe_type_change_ids :: "migration_input \<Rightarrow> string list" where
  "safe_type_change_ids p = map fst (filter (\<lambda>(i, decision). td_disposition decision = SafeChange \<or> i \<in> set (dict_keys (in_conversions p)))
     (column_type_changes (in_live_tables p) (in_desired_tables p)))"

section \<open>Physical column rebuilds\<close>

definition reorder_name :: "planner_env \<Rightarrow> string \<Rightarrow> string" where
  "reorder_name env table_id = ''schemii_reorder_'' @ take 20 (pe_sha256 env table_id)"

definition table_constraints :: "design_table \<Rightarrow> table_constraint list" where
  "table_constraints table = map KeyItem (tbl_keys table) @ map CheckItem (tbl_checks table)"

text \<open>Everything that depends on the columns is dropped, and the columns themselves.\<close>

definition detach_steps :: "migration_input \<Rightarrow> design_table \<Rightarrow> string \<Rightarrow> bool \<Rightarrow> planned" where
  "detach_steps p before table_path contains_data =
     (let ns = in_namespace p; live = in_live p; qt = qualified_name ns (tbl_name before);
          names = join '', '' (map (quote \<circ> col_name) (tbl_columns before)) in
      sequence [
        steps ([(pend 1 TableObject table_path ''lock_for_physical_reorder'' (''LOCK TABLE '' @ qt @ '' IN ACCESS EXCLUSIVE MODE;''))
                 \<lparr>ps_data_movement := contains_data\<rparr>]
          @ (if contains_data then [(pend 2 TableObject table_path ''stage_rows_for_physical_reorder''
               (''CREATE TEMP TABLE '' @ quote (reorder_name (in_env p) (tbl_id before)) @ '' ON COMMIT DROP AS SELECT '' @ names @ '' FROM '' @ qt @ '';''))
                 \<lparr>ps_data_movement := True\<rparr>] else [])),
        for_all (\<lambda>r. with_sql (map_option (\<lambda>source. drop_constraint ns (tbl_name source) (rel_name r)) (map_of (in_live_tables p) (rel_source_table_id r)))
            (pend 5 RelationshipObject (''relationships.'' @ rel_name r) ''drop_for_physical_reorder''))
          (filter (\<lambda>r. tbl_id before \<in> {rel_source_table_id r, rel_target_table_id r}) (content_relationships live)),
        steps (map (\<lambda>t. pend 6 TriggerObject (''triggers.'' @ tbl_name before @ ''.'' @ trg_name t) ''drop_for_physical_reorder''
              (''DROP TRIGGER '' @ quote (trg_name t) @ '' ON '' @ qt @ '';''))
            (filter (\<lambda>t. trg_relation_name t = tbl_name before) (content_triggers live))
          @ map (\<lambda>x. pend 7 IndexObject (''tables.'' @ tbl_name before @ ''.indexes.'' @ idx_name x) ''drop_for_physical_reorder''
              (''DROP INDEX '' @ qualified_name ns (idx_name x) @ '';'')) (tbl_indexes before)
          @ map (\<lambda>item. pend 8 ConstraintObject (''tables.'' @ tbl_name before @ ''.constraints.'' @ constraint_name item) ''drop_for_physical_reorder''
              (drop_constraint ns (tbl_name before) (constraint_name item))) (table_constraints before)
          @ map (\<lambda>(ordinal, column). (pend 9 ColumnObject (''tables.'' @ tbl_name before @ ''.columns.'' @ col_name column) ''remove_for_physical_reorder''
              (''ALTER TABLE '' @ qt @ '' DROP COLUMN '' @ quote (col_name column) @ '';''))
                \<lparr>ps_destructive := contains_data, ps_data_movement := contains_data, ps_order := ordinal\<rparr>) (enumerate 0 (tbl_columns before))
          @ (if contains_data then [(pend 10 TableObject table_path ''clear_staged_rows_for_physical_reorder'' (''TRUNCATE TABLE '' @ qt @ '';''))
                \<lparr>ps_destructive := True, ps_data_movement := True\<rparr>] else []))])"

text \<open>The columns come back in the desired order, with their rows, identities and dependents.\<close>

definition restore_steps :: "migration_input \<Rightarrow> design_table \<Rightarrow> design_table \<Rightarrow> string \<Rightarrow> bool \<Rightarrow> planned" where
  "restore_steps p before after table_path contains_data =
     (let ns = in_namespace p; desired = in_desired p; columns = in_desired_columns p; qt = qualified_name ns (tbl_name before);
          names = join '', '' (map (quote \<circ> col_name) (tbl_columns before)) in
      sequence [
        steps (map (\<lambda>(ordinal, column). (pend 40 ColumnObject (''tables.'' @ tbl_name after @ ''.columns.'' @ col_name column) ''restore_in_physical_order''
              (''ALTER TABLE '' @ qt @ '' ADD COLUMN '' @ column_definition column @ '';''))
                \<lparr>ps_data_movement := contains_data, ps_order := ordinal\<rparr>) (enumerate 0 (tbl_columns after))
          @ (if contains_data then [(pend 45 TableObject table_path ''restore_rows_after_physical_reorder''
              (''INSERT INTO '' @ qt @ '' ('' @ names @ '')''
               @ (if list_ex (\<lambda>c. col_identity c \<noteq> None) (tbl_columns after) then '' OVERRIDING SYSTEM VALUE'' else '''')
               @ '' SELECT '' @ names @ '' FROM pg_temp.'' @ quote (reorder_name (in_env p) (tbl_id before)) @ '';''))
                \<lparr>ps_data_movement := True\<rparr>] else [])
          @ map (\<lambda>c. (pend 46 ColumnObject (''tables.'' @ tbl_name after @ ''.columns.'' @ col_name c) ''synchronize_identity_after_physical_reorder''
              (''SELECT setval(pg_get_serial_sequence('' @ sql_literal (qualified_name ns (tbl_name after)) @ '', '' @ sql_literal (col_name c)
               @ '')::regclass, COALESCE(GREATEST(MAX('' @ quote (col_name c) @ ''), 1), 1), MAX('' @ quote (col_name c) @ '') IS NOT NULL) FROM '' @ qt @ '';''))
                \<lparr>ps_data_movement := contains_data\<rparr>) (filter (\<lambda>c. col_identity c \<noteq> None) (tbl_columns after))),
        for_all (\<lambda>item. with_sql (constraint_sql ns after item columns)
            (pend 60 ConstraintObject (''tables.'' @ tbl_name after @ ''.constraints.'' @ constraint_name item) ''restore_after_physical_reorder''))
          (table_constraints after),
        for_all (\<lambda>x. with_sql (create_index ns after x columns)
            (pend 65 IndexObject (''tables.'' @ tbl_name after @ ''.indexes.'' @ idx_name x) ''restore_after_physical_reorder''))
          (tbl_indexes after),
        for_all (\<lambda>r. with_sql (relationship_sql ns r (in_desired_tables p) columns)
            (pend 70 RelationshipObject (''relationships.'' @ rel_name r) ''restore_after_physical_reorder''))
          (filter (\<lambda>r. tbl_id before \<in> {rel_source_table_id r, rel_target_table_id r}) (content_relationships desired)),
        steps (map (\<lambda>t. pend 80 TriggerObject (''triggers.'' @ tbl_name after @ ''.'' @ trg_name t) ''restore_after_physical_reorder''
              (statement (trg_definition t))) (filter (\<lambda>t. trg_relation_name t = tbl_name after) (content_triggers desired)))])"

definition append_column_order_rebuild :: "migration_input \<Rightarrow> string \<Rightarrow> bool \<Rightarrow> planned" where
  "append_column_order_rebuild p table_id contains_data =
     (case (map_of (in_live_tables p) table_id, map_of (in_desired_tables p) table_id) of
        (Some before, Some after) \<Rightarrow>
          (let table_path = ''tables.'' @ tbl_name after @ ''.column_order'' in
           sequence [detach_steps p before table_path contains_data, restore_steps p before after table_path contains_data])
      | _ \<Rightarrow> None)"

definition plan_physical_column_rebuilds :: "migration_input \<Rightarrow> string list \<Rightarrow> string list \<Rightarrow> planned" where
  "plan_physical_column_rebuilds p rebuild_table_ids populated_rebuild_table_ids =
     (let differences = by_id od_table_id (column_order_differences (in_env p) (in_namespace p) (in_live p) (in_desired p)) in
      for_all (\<lambda>i. case map_of differences i of
          None \<Rightarrow> block ''physical_column_order_not_available''
            ''This table no longer has a physical column-order difference to rebuild.'' (''tables.'' @ i @ ''.column_order'')
        | Some d \<Rightarrow>
            if od_blocking_reasons d \<noteq> []
            then block ''physical_column_order_rebuild_blocked'' (join '' '' (od_blocking_reasons d))
                   (''tables.'' @ od_table_name d @ ''.column_order'')
            else append_column_order_rebuild p i (i \<in> set populated_rebuild_table_ids)) (sorted_set rebuild_table_ids))"

section \<open>Relationships\<close>

definition relationship_columns :: "design_relationship option \<Rightarrow> string list" where
  "relationship_columns r = (case r of None \<Rightarrow> [] | Some x \<Rightarrow> rel_source_column_ids x @ rel_target_column_ids x)"

definition plan_relationship :: "migration_input \<Rightarrow> design_relationship option \<Rightarrow> design_relationship option \<Rightarrow> planned" where
  "plan_relationship p before after =
     (if before = after \<and> set (safe_type_change_ids p) \<inter> set (relationship_columns before @ relationship_columns after) = {} then steps []
      else sequence [
        (case before of None \<Rightarrow> steps []
         | Some b \<Rightarrow> with_sql (map_option (\<lambda>table. drop_constraint (in_namespace p) (tbl_name table) (rel_name b))
               (map_of (in_live_tables p) (rel_source_table_id b)))
             (\<lambda>sql. (pend 10 RelationshipObject (''relationships.'' @ rel_name b) ''drop'' sql)\<lparr>ps_destructive := (after = None)\<rparr>)),
        (case after of None \<Rightarrow> steps []
         | Some a \<Rightarrow> with_sql (relationship_sql (in_namespace p) a (in_desired_tables p) (in_desired_columns p))
             (pend 70 RelationshipObject (''relationships.'' @ rel_name a) ''create''))])"

text \<open>A pass over the ids of two versions of a list of objects.\<close>

definition plan_objects :: "('a \<Rightarrow> string) \<Rightarrow> ('a option \<Rightarrow> 'a option \<Rightarrow> planned) \<Rightarrow> 'a list \<Rightarrow> 'a list \<Rightarrow> planned" where
  "plan_objects f plan live desired =
     (let old = by_id f live; new = by_id f desired in for_all (\<lambda>i. plan (map_of old i) (map_of new i)) (all_ids old new))"

definition plan_relationship_changes :: "migration_input \<Rightarrow> planned" where
  "plan_relationship_changes p =
     plan_objects rel_id (plan_relationship p) (content_relationships (in_live p)) (content_relationships (in_desired p))"

section \<open>Tables\<close>

definition add_column :: "migration_input \<Rightarrow> design_table \<Rightarrow> design_table \<Rightarrow> string \<Rightarrow> string \<Rightarrow> design_column \<Rightarrow> planned" where
  "add_column p before after active_name path new =
     (if cannot_populate new \<and> tbl_name before \<notin> set (in_empty_tables p)
      then block ''required_column_population_required''
        (''Adding required column '' @ tbl_name after @ ''.'' @ col_name new
         @ '' needs a default, identity, generated expression, or an empty live table'') path
      else steps [(pend 45 ColumnObject path ''add''
          (''ALTER TABLE '' @ qualified_name (in_namespace p) active_name @ '' ADD COLUMN '' @ column_definition new @ '';''))
        \<lparr>ps_data_movement := (col_default_expression new \<noteq> None \<or> col_identity new \<noteq> None \<or> col_generated_expression new \<noteq> None)\<rparr>])"

definition alter_column :: "migration_input \<Rightarrow> string \<Rightarrow> string \<Rightarrow> string \<Rightarrow> string" where
  "alter_column p active_name column action =
     ''ALTER TABLE '' @ qualified_name (in_namespace p) active_name @ '' ALTER COLUMN '' @ quote column @ '' '' @ action @ '';''"

text \<open>Views and generated columns that depend on a column.\<close>

definition type_dependencies :: "migration_input \<Rightarrow> design_table \<Rightarrow> design_table \<Rightarrow> string \<Rightarrow> string list" where
  "type_dependencies p before after column_id =
     map (\<lambda>name. ''generated column '' @ tbl_name after @ ''.'' @ name)
       (sort (map col_name (filter (\<lambda>c. column_id \<in> set (col_generated_source_column_ids c)) (tbl_columns after))))
     @ map (\<lambda>name. ''view '' @ name)
       (sorted_set (dependent_view_names (in_env p) (in_namespace p) (tbl_name after) (in_live p) (in_desired p)
         @ dependent_view_names (in_env p) (in_namespace p) (tbl_name before) (in_live p) (in_desired p)))"

definition conversion_steps ::
  "migration_input \<Rightarrow> design_table \<Rightarrow> string \<Rightarrow> string \<Rightarrow> string \<Rightarrow> design_column \<Rightarrow> compiled_conversion option \<Rightarrow> pending_step list" where
  "conversion_steps p before active_name path column old conversion =
     (case conversion of None \<Rightarrow> []
      | Some cv \<Rightarrow>
          [pend 5 TableObject (''tables.'' @ tbl_name before) ''lock_for_conversion''
             (''LOCK TABLE '' @ qualified_name (in_namespace p) (tbl_name before) @ '' IN ACCESS EXCLUSIVE MODE;'')]
          @ (case cv_guard_sql cv of None \<Rightarrow> []
             | Some guard \<Rightarrow> if guard = '''' then [] else [pend 46 ColumnObject path ''validate_conversion'' guard])
          @ (if col_default_expression old \<noteq> None
             then [pend 47 ColumnObject path ''drop_default_for_conversion'' (alter_column p active_name column ''DROP DEFAULT'')] else []))"

definition change_type ::
  "migration_input \<Rightarrow> design_table \<Rightarrow> design_table \<Rightarrow> string \<Rightarrow> string \<Rightarrow> design_column \<Rightarrow> design_column \<Rightarrow> planned" where
  "change_type p before after active_name path old new =
     (let decision = classify_type_change (col_data_type old) (col_data_type new);
          conversion = map_of (in_conversions p) (col_id new);
          dependencies = type_dependencies p before after (col_id new) in
      if td_disposition decision = SafeChange \<or> conversion \<noteq> None
      then (if dependencies \<noteq> []
            then block ''column_type_dependency_requires_review''
              (''Changing '' @ tbl_name after @ ''.'' @ col_name new @ '' requires rebuilding '' @ join '', '' dependencies) path
            else steps (conversion_steps p before active_name path (col_name new) old conversion
              @ [(pend 48 ColumnObject path ''alter_type'' (alter_column p active_name (col_name new)
                    (''TYPE '' @ (case conversion of Some cv \<Rightarrow> cv_target_type cv | None \<Rightarrow> strip (col_data_type new))
                     @ (case conversion of Some cv \<Rightarrow> '' USING '' @ cv_expression cv | None \<Rightarrow> ''''))))
                 \<lparr>ps_destructive := (case conversion of Some cv \<Rightarrow> cv_strategy cv = Some CustomConversion | None \<Rightarrow> False),
                  ps_data_movement := True\<rparr>]))
      else if td_disposition decision = BlockedChange
      then block ''column_type_conversion_required''
        (''Changing '' @ tbl_name after @ ''.'' @ col_name new @ '' from '' @ col_data_type old @ '' to '' @ col_data_type new
         @ '' requires a reviewed USING expression: '' @ td_reason decision) path
      else steps [])"

definition change_column ::
  "migration_input \<Rightarrow> design_table \<Rightarrow> design_table \<Rightarrow> string \<Rightarrow> string \<Rightarrow> design_column \<Rightarrow> design_column \<Rightarrow> planned" where
  "change_column p before after active_name path old new =
     (let converted = map_of (in_conversions p) (col_id new) \<noteq> None in
      sequence [
        (if col_name old \<noteq> col_name new
         then steps [pend 42 ColumnObject path ''rename'' (''ALTER TABLE '' @ qualified_name (in_namespace p) active_name
                @ '' RENAME COLUMN '' @ quote (col_name old) @ '' TO '' @ quote (col_name new) @ '';'')]
         else steps []),
        change_type p before after active_name path old new,
        (if col_identity old \<noteq> col_identity new \<or> col_generated_expression old \<noteq> col_generated_expression new
            \<or> \<not> same_dependency_set (col_generated_source_column_ids old) (col_generated_source_column_ids new)
         then block ''column_generation_change_unsupported''
           (''Changing generated or identity behavior for '' @ tbl_name after @ ''.'' @ col_name new @ '' is not yet lossless'') path
         else steps []),
        (if (col_default_expression old \<noteq> col_default_expression new \<or> converted \<and> col_default_expression old \<noteq> None)
            \<and> col_generated_expression new = None
         then steps [pend 50 ColumnObject path ''alter_default'' (alter_column p active_name (col_name new)
                (case col_default_expression new of None \<Rightarrow> ''DROP DEFAULT'' | Some e \<Rightarrow> ''SET DEFAULT '' @ strip e))]
         else steps []),
        (if col_nullable old \<noteq> col_nullable new
         then steps [(pend 52 ColumnObject path ''alter_nullability'' (alter_column p active_name (col_name new)
                (if col_nullable new then ''DROP NOT NULL'' else ''SET NOT NULL'')))\<lparr>ps_data_movement := \<not> col_nullable new\<rparr>]
         else steps [])])"

definition plan_column :: "migration_input \<Rightarrow> design_table \<Rightarrow> design_table \<Rightarrow> string \<Rightarrow> design_column option \<Rightarrow> design_column option \<Rightarrow> planned" where
  "plan_column p before after active_name old new =
     (let path = (\<lambda>c. ''tables.'' @ tbl_name after @ ''.columns.'' @ col_name c) in
      case (old, new) of
        (None, Some n) \<Rightarrow> add_column p before after active_name (path n) n
      | (Some x, None) \<Rightarrow> steps [(pend 20 ColumnObject (path x) ''drop''
          (''ALTER TABLE '' @ qualified_name (in_namespace p) active_name @ '' DROP COLUMN '' @ quote (col_name x) @ '';''))
            \<lparr>ps_destructive := True, ps_data_movement := True\<rparr>]
      | (Some x, Some n) \<Rightarrow> change_column p before after active_name (path n) x n
      | (None, None) \<Rightarrow> steps [])"

definition plan_table_column_changes :: "migration_input \<Rightarrow> design_table \<Rightarrow> design_table \<Rightarrow> string \<Rightarrow> planned" where
  "plan_table_column_changes p before after active_name =
     plan_objects col_id (plan_column p before after active_name) (tbl_columns before) (tbl_columns after)"

definition plan_constraint ::
  "migration_input \<Rightarrow> design_table \<Rightarrow> string \<Rightarrow> string \<Rightarrow> ('a \<Rightarrow> table_constraint) \<Rightarrow> ('a \<Rightarrow> 'a \<Rightarrow> bool) \<Rightarrow> 'a option \<Rightarrow> 'a option \<Rightarrow> planned" where
  "plan_constraint p after active_name category item same old new =
     (if old = new \<or> (case (old, new) of (Some x, Some y) \<Rightarrow> same x y | _ \<Rightarrow> False) then steps []
      else sequence [
        (case old of None \<Rightarrow> steps []
         | Some x \<Rightarrow> steps [(pend 15 ConstraintObject (''tables.'' @ tbl_name after @ ''.'' @ category @ ''.'' @ constraint_name (item x)) ''drop''
               (drop_constraint (in_namespace p) active_name (constraint_name (item x))))\<lparr>ps_destructive := (new = None)\<rparr>]),
        (case new of None \<Rightarrow> steps []
         | Some y \<Rightarrow> with_sql (constraint_sql (in_namespace p) after (item y) (in_desired_columns p))
             (pend 60 ConstraintObject (''tables.'' @ tbl_name after @ ''.'' @ category @ ''.'' @ constraint_name (item y)) ''create''))])"

definition plan_table_constraint_changes :: "migration_input \<Rightarrow> design_table \<Rightarrow> design_table \<Rightarrow> string \<Rightarrow> planned" where
  "plan_table_constraint_changes p before after active_name =
     (let column_types = foldl (\<lambda>d c. AList.update (col_name c) (col_data_type c) d) [] (tbl_columns after) in
      sequence [
        plan_objects key_id (plan_constraint p after active_name ''keys'' KeyItem (\<lambda>_ _. False)) (tbl_keys before) (tbl_keys after),
        plan_objects chk_id (plan_constraint p after active_name ''checks'' CheckItem (\<lambda>x y. same_check (in_env p) x y column_types))
          (tbl_checks before) (tbl_checks after)])"

definition create_index_step :: "migration_input \<Rightarrow> design_table \<Rightarrow> design_index \<Rightarrow> planned" where
  "create_index_step p after index = with_sql (create_index (in_namespace p) after index (in_desired_columns p))
     (pend 65 IndexObject (''tables.'' @ tbl_name after @ ''.indexes.'' @ idx_name index) ''create'')"

definition plan_index :: "migration_input \<Rightarrow> design_table \<Rightarrow> design_index option \<Rightarrow> design_index option \<Rightarrow> planned" where
  "plan_index p after old new =
     (if old = new \<or> (case (old, new) of (Some x, Some y) \<Rightarrow> same_index x y | _ \<Rightarrow> False) then steps []
      else sequence [
        (case old of None \<Rightarrow> steps []
         | Some x \<Rightarrow> steps [(pend 12 IndexObject (''tables.'' @ tbl_name after @ ''.indexes.'' @ idx_name x) ''drop''
               (''DROP INDEX '' @ qualified_name (in_namespace p) (idx_name x) @ '';''))\<lparr>ps_destructive := (new = None)\<rparr>]),
        (case new of None \<Rightarrow> steps [] | Some y \<Rightarrow> create_index_step p after y)])"

definition plan_table_index_changes :: "migration_input \<Rightarrow> design_table \<Rightarrow> design_table \<Rightarrow> planned" where
  "plan_table_index_changes p before after = plan_objects idx_id (plan_index p after) (tbl_indexes before) (tbl_indexes after)"

definition plan_table :: "migration_input \<Rightarrow> design_table option \<Rightarrow> design_table option \<Rightarrow> planned" where
  "plan_table p before after =
     (case (before, after) of
        (None, Some a) \<Rightarrow> sequence [
          with_sql (create_table (in_namespace p) a (in_desired_columns p)) (pend 40 TableObject (''tables.'' @ tbl_name a) ''create''),
          for_all (create_index_step p a) (tbl_indexes a)]
      | (Some b, None) \<Rightarrow> steps [(pend 30 TableObject (''tables.'' @ tbl_name b) ''drop''
          (''DROP TABLE '' @ qualified_name (in_namespace p) (tbl_name b) @ '';''))\<lparr>ps_destructive := True, ps_data_movement := True\<rparr>]
      | (Some b, Some a) \<Rightarrow> sequence [
          (if tbl_name b \<noteq> tbl_name a
           then steps [pend 35 TableObject (''tables.'' @ tbl_name b) ''rename''
                  (''ALTER TABLE '' @ qualified_name (in_namespace p) (tbl_name b) @ '' RENAME TO '' @ quote (tbl_name a) @ '';'')]
           else steps []),
          plan_table_column_changes p b a (tbl_name a),
          plan_table_constraint_changes p b a (tbl_name a),
          plan_table_index_changes p b a]
      | (None, None) \<Rightarrow> steps [])"

definition plan_table_changes :: "migration_input \<Rightarrow> planned" where
  "plan_table_changes p = plan_objects tbl_id (plan_table p) (content_tables (in_live p)) (content_tables (in_desired p))"

section \<open>Types, routines, views and triggers\<close>

definition plan_type :: "migration_input \<Rightarrow> design_type option \<Rightarrow> design_type option \<Rightarrow> planned" where
  "plan_type p before after =
     (if before = after then steps []
      else case (before, after) of
        (None, Some a) \<Rightarrow> steps [pend 38 TypeObject (''types.'' @ ty_name a) ''create'' (statement (ty_definition a))]
      | (Some b, None) \<Rightarrow> steps [(pend 32 TypeObject (''types.'' @ ty_name b) ''drop''
          (''DROP '' @ (if ty_kind b = DomainType then ''DOMAIN'' else ''TYPE'') @ '' '' @ qualified_name (in_namespace p) (ty_name b) @ '';''))
            \<lparr>ps_destructive := True\<rparr>]
      | (Some b, Some a) \<Rightarrow> block ''type_replacement_unsupported''
          (''Changing type '' @ ty_name a @ '' requires a specialized PostgreSQL type migration'') (''types.'' @ ty_name a)
      | (None, None) \<Rightarrow> steps [])"

definition plan_type_changes :: "migration_input \<Rightarrow> planned" where
  "plan_type_changes p = plan_objects ty_id (plan_type p) (content_types (in_live p)) (content_types (in_desired p))"

text \<open>\<open>_CREATE_ROUTINE.sub(...)\<close>: \<open>^\s*CREATE\s+(FUNCTION|PROCEDURE)\b\<close> becomes \<open>CREATE OR REPLACE\<close> and the kind.\<close>

fun word_boundary :: "string \<Rightarrow> bool" where
  "word_boundary [] = True"
| "word_boundary (c # s) = (\<not> word_char c)"

definition create_or_replace :: "string \<Rightarrow> string" where
  "create_or_replace source =
     (let s = strip_left whitespace source; gap = drop 6 s; rest = strip_left whitespace gap in
      if prefix ''create'' (lower s) \<and> gap \<noteq> rest
      then (if prefix ''function'' (lower rest) \<and> word_boundary (drop 8 rest) then ''CREATE OR REPLACE FUNCTION'' @ drop 8 rest
            else if prefix ''procedure'' (lower rest) \<and> word_boundary (drop 9 rest) then ''CREATE OR REPLACE PROCEDURE'' @ drop 9 rest
            else source)
      else source)"

fun routine_object :: "routine_kind \<Rightarrow> object_kind" where
  "routine_object FunctionRoutine = FunctionObject"
| "routine_object ProcedureRoutine = ProcedureObject"

definition function_path :: "design_function \<Rightarrow> string" where
  "function_path f = ''functions.'' @ fn_name f @ ''('' @ fn_identity_arguments f @ '')''"

text \<open>The first reason not to replace a routine in place, if any.\<close>

definition routine_replacement_blocked :: "planner_env \<Rightarrow> design_function \<Rightarrow> design_function \<Rightarrow> (string \<times> string) option" where
  "routine_replacement_blocked env before after =
     (if (fn_kind before, fn_name before, fn_identity_arguments before) \<noteq> (fn_kind after, fn_name after, fn_identity_arguments after)
      then Some (''routine_identity_change_unsupported'',
        ''Changing the name, kind, or input types of '' @ fn_name before
        @ '' requires a dependency-aware routine migration; restore the original identity before applying this design.'')
      else if fn_return_type before \<noteq> fn_return_type after
      then Some (''routine_return_type_change_unsupported'',
        ''Changing the return type of '' @ fn_name before
        @ '' requires a dependency-aware drop and recreation; restore the original return type before applying this design.'')
      else if routine_parameters_require_migration env before after
      then Some (''routine_parameter_change_unsupported'',
        ''Changing parameter declarations of '' @ fn_name before
        @ '' requires a dependency-aware routine migration; restore the original parameter declarations before applying this design.'')
      else None)"

definition plan_function :: "migration_input \<Rightarrow> design_function option \<Rightarrow> design_function option \<Rightarrow> planned" where
  "plan_function p before after =
     (if before = after then steps []
      else case (before, after) of
        (Some b, Some a) \<Rightarrow> (case routine_replacement_blocked (in_env p) b a of
            Some (code, message) \<Rightarrow> block code message (function_path a)
          | None \<Rightarrow> steps [pend 55 (routine_object (fn_kind a)) (function_path a) ''replace'' (create_or_replace (statement (fn_definition a)))])
      | (Some b, None) \<Rightarrow> steps [(pend 18 (routine_object (fn_kind b)) (function_path b) ''drop''
          (''DROP '' @ (if fn_kind b = ProcedureRoutine then ''PROCEDURE'' else ''FUNCTION'') @ '' ''
           @ qualified_name (in_namespace p) (fn_name b) @ ''('' @ strip (fn_identity_arguments b) @ '');''))\<lparr>ps_destructive := True\<rparr>]
      | (None, Some a) \<Rightarrow> steps [pend 55 (routine_object (fn_kind a)) (function_path a) ''create'' (statement (fn_definition a))]
      | (None, None) \<Rightarrow> steps [])"

definition plan_function_changes :: "migration_input \<Rightarrow> planned" where
  "plan_function_changes p =
     plan_objects fn_id (plan_function p) (content_functions (in_live p)) (content_functions (in_desired p))"

fun view_object :: "view_kind \<Rightarrow> object_kind" where
  "view_object OrdinaryView = ViewObject"
| "view_object MaterializedView = MaterializedViewObject"

definition create_view_sql :: "string \<Rightarrow> bool \<Rightarrow> design_view \<Rightarrow> string" where
  "create_view_sql namespace exists view =
     (if exists then ''CREATE OR REPLACE VIEW''
      else if view_kind view = MaterializedView then ''CREATE MATERIALIZED VIEW'' else ''CREATE VIEW'')
     @ '' '' @ qualified_name namespace (view_name view) @ '' AS'' @ newline @ rstrip_char (CHR '';'') (strip (view_definition view))
     @ (if view_kind view = MaterializedView
        then newline @ (if view_populate_on_create view = Some True then ''WITH DATA'' else ''WITH NO DATA'') else '''')
     @ '';''"

definition plan_view :: "migration_input \<Rightarrow> design_view option \<Rightarrow> design_view option \<Rightarrow> planned" where
  "plan_view p before after =
     (if before = after then steps []
      else case (before, after) of
        (Some b, Some a) \<Rightarrow>
          (if (view_kind b, view_name b) \<noteq> (view_kind a, view_name a)
           then block ''view_identity_change_unsupported''
             (''Changing the name or kind of view '' @ view_name b
              @ '' requires a dependency-aware view migration; restore the original name and kind before applying this design.'')
             (''views.'' @ view_name a)
           else if view_kind a = MaterializedView
           then block ''materialized_view_replacement_unsupported''
             (''Replacing materialized view '' @ view_name a @ '' requires preservation analysis'') (''views.'' @ view_name a)
           else steps [pend 75 (view_object (view_kind a)) (''views.'' @ view_name a) ''replace'' (create_view_sql (in_namespace p) True a)])
      | (Some b, None) \<Rightarrow> steps [(pend 14 (view_object (view_kind b)) (''views.'' @ view_name b) ''drop''
          (''DROP '' @ (if view_kind b = MaterializedView then ''MATERIALIZED VIEW'' else ''VIEW'') @ '' ''
           @ qualified_name (in_namespace p) (view_name b) @ '';''))\<lparr>ps_destructive := True\<rparr>]
      | (None, Some a) \<Rightarrow> steps [pend 75 (view_object (view_kind a)) (''views.'' @ view_name a) ''create'' (create_view_sql (in_namespace p) False a)]
      | (None, None) \<Rightarrow> steps [])"

definition plan_view_changes :: "migration_input \<Rightarrow> planned" where
  "plan_view_changes p = plan_objects view_id (plan_view p) (content_views (in_live p)) (content_views (in_desired p))"

definition plan_trigger :: "migration_input \<Rightarrow> design_trigger option \<Rightarrow> design_trigger option \<Rightarrow> planned" where
  "plan_trigger p before after =
     (if before = after then steps []
      else steps (
        (case before of None \<Rightarrow> []
         | Some b \<Rightarrow> [(pend 11 TriggerObject (''triggers.'' @ trg_relation_name b @ ''.'' @ trg_name b) ''drop''
             (''DROP TRIGGER '' @ quote (trg_name b) @ '' ON '' @ qualified_name (in_namespace p) (trg_relation_name b) @ '';''))
               \<lparr>ps_destructive := (after = None)\<rparr>])
        @ (case after of None \<Rightarrow> []
           | Some a \<Rightarrow> [pend 80 TriggerObject (''triggers.'' @ trg_relation_name a @ ''.'' @ trg_name a) ''create'' (statement (trg_definition a))])))"

definition plan_trigger_changes :: "migration_input \<Rightarrow> planned" where
  "plan_trigger_changes p = plan_objects trg_id (plan_trigger p) (content_triggers (in_live p)) (content_triggers (in_desired p))"

section \<open>The plan\<close>

definition step_key :: "pending_step \<Rightarrow> nat \<times> nat \<times> string \<times> string" where
  "step_key item = (ps_phase item, ps_order item, ps_path item, ps_operation item)"

definition statement_key :: "pending_step \<Rightarrow> nat \<times> string" where
  "statement_key item = (ps_phase item, ps_sql item)"

text \<open>\<open>unique_pending.setdefault(...)\<close> keeps the first step of every phase and statement.\<close>

definition unique_pending :: "pending_step list \<Rightarrow> pending_step list" where
  "unique_pending pending =
     foldl (\<lambda>kept item. if statement_key item \<in> set (map statement_key kept) then kept else kept @ [item]) [] pending"

definition number_step :: "nat \<Rightarrow> pending_step \<Rightarrow> migration_step" where
  "number_step index item = \<lparr>st_index = index, st_object_kind = ps_kind item, st_object_path = ps_path item,
     st_operation = ps_operation item, st_sql = ps_sql item, st_destructive = ps_destructive item,
     st_requires_lock = ps_requires_lock item, st_data_movement = ps_data_movement item\<rparr>"

definition ordered_pending :: "pending_step list \<Rightarrow> pending_step list" where
  "ordered_pending pending = sort_key step_key (unique_pending pending)"

definition finalize_migration_plan :: "pending_step list \<Rightarrow> migration_step list" where
  "finalize_migration_plan pending = map (\<lambda>(index, item). number_step index item) (enumerate 1 (ordered_pending pending))"

definition plan_migration :: "migration_input \<Rightarrow> string list \<Rightarrow> string list \<Rightarrow> planned" where
  "plan_migration p rebuild_table_ids populated_rebuild_table_ids = sequence [
     plan_physical_column_rebuilds p rebuild_table_ids populated_rebuild_table_ids,
     plan_relationship_changes p, plan_table_changes p, plan_type_changes p,
     plan_function_changes p, plan_view_changes p, plan_trigger_changes p]"

definition compile_migration_steps ::
  "migration_input \<Rightarrow> string list \<Rightarrow> string list \<Rightarrow> (migration_step list \<times> migration_warning list) option" where
  "compile_migration_steps p rebuild_table_ids populated_rebuild_table_ids =
     map_option (\<lambda>(pending, blocking). (finalize_migration_plan pending, blocking))
       (plan_migration p rebuild_table_ids populated_rebuild_table_ids)"

end
