(* ===== verification/Migration_Steps_Properties.thy ===== *)
theory Migration_Steps_Properties
  imports Migration_Steps Design_Validation
begin

text \<open>
  What the migration planner promises of its plans: a design compared with itself needs nothing; plans
  are written for every validated design; steps are numbered in the order of their phases; a plan
  without destructive steps keeps every table, column, type, routine and view; and a plan that renames
  a table and changes one of its keys addresses the table by its new name before the rename.
\<close>

section \<open>Planned steps\<close>

definition pending_steps :: "planned \<Rightarrow> pending_step set" where
  "pending_steps r = (case r of None \<Rightarrow> {} | Some (ps, ws) \<Rightarrow> set ps)"

lemma pending_steps_simps [simp]:
  "pending_steps (steps ps) = set ps"
  "pending_steps (block code message path) = {}"
  "pending_steps (with_sql sql f) = f ` set_option sql"
  "pending_steps None = {}"
  by (auto simp: pending_steps_def steps_def block_def with_sql_def split: option.splits)

lemma those_None: "those xs = None \<longleftrightarrow> None \<in> set xs"
  by (induction xs) (auto split: option.splits)

lemma those_Some: "those xs = Some ys \<longleftrightarrow> xs = map Some ys"
  by (induction xs arbitrary: ys) (auto split: option.splits simp: Cons_eq_map_conv)

lemma those_map_Some [simp]: "those (map Some ys) = Some ys"
  by (simp add: those_Some)

text \<open>No statement fails to be written.\<close>

definition written :: "planned \<Rightarrow> bool" where
  "written r = (r \<noteq> None)"

lemma written_simps [simp]:
  "written (steps ps)" "written (block code message path)" "written (with_sql sql g) = (sql \<noteq> None)"
  "\<not> written None" "written (sequence rs) = list_all written rs" "written (for_all f xs) = (\<forall>x\<in>set xs. written (f x))"
proof -
  have "written (sequence rs) = list_all written rs" for rs
    by (auto simp: written_def[abs_def] sequence_def those_None list_all_iff simp del: not_None_eq split_paired_Ex) (metis not_None_eq)
  then show "written (sequence rs) = list_all written rs" "written (for_all f xs) = (\<forall>x\<in>set xs. written (f x))"
    by (simp_all add: for_all_def list_all_iff)
qed (auto simp: written_def steps_def block_def with_sql_def)

lemma written_if [simp]: "written (if b then x else y) = (if b then written x else written y)"
  by simp

lemma sequence_steps: "written (sequence ps) \<Longrightarrow> pending_steps (sequence ps) = \<Union> (pending_steps ` set ps)"
proof -
  assume "written (sequence ps)"
  then obtain rs where "those ps = Some rs" by (auto simp: written_def sequence_def)
  then show ?thesis by (auto simp: sequence_def pending_steps_def those_Some)
qed

lemma for_all_steps: "written (for_all f xs) \<Longrightarrow> pending_steps (for_all f xs) = (\<Union>x\<in>set xs. pending_steps (f x))"
  unfolding for_all_def by (subst sequence_steps) auto

text \<open>A predicate on every step, which passes establish part by part.\<close>

definition all_steps :: "(pending_step \<Rightarrow> bool) \<Rightarrow> planned \<Rightarrow> bool" where
  "all_steps P r = (\<forall>q\<in>pending_steps r. P q)"

lemma all_steps_simps [simp]:
  "all_steps P (steps ps) = list_all P ps"
  "all_steps P (block code message path)"
  "all_steps P (with_sql sql f) = (\<forall>s\<in>set_option sql. P (f s))"
  "all_steps P None"
  by (auto simp: all_steps_def list_all_iff)

lemma all_steps_sequence: "list_all (all_steps P) ps \<Longrightarrow> all_steps P (sequence ps)"
proof (cases "written (sequence ps)")
  case True
  assume "list_all (all_steps P) ps"
  then show ?thesis by (simp add: all_steps_def sequence_steps[OF True] list_all_iff)
qed (simp add: written_def del: not_None_eq)

lemma all_steps_for_all: "(\<And>x. x \<in> set xs \<Longrightarrow> all_steps P (f x)) \<Longrightarrow> all_steps P (for_all f xs)"
  unfolding for_all_def by (rule all_steps_sequence) (auto simp: list_all_iff)

section \<open>Objects by id\<close>

lemma by_id_None [simp]: "map_of (by_id f xs) i = None \<longleftrightarrow> i \<notin> f ` set xs"
  by (simp add: by_id_def dict_by_None)

lemma by_id_Some: "map_of (by_id f xs) i = Some x \<Longrightarrow> x \<in> set xs \<and> f x = i"
  unfolding by_id_def by (rule dict_by_Some)

lemma set_all_ids [simp]: "set (all_ids (by_id f xs) (by_id g ys)) = f ` set xs \<union> g ` set ys"
  by (simp add: all_ids_def dict_keys_def by_id_def fst_set_dict_by)

lemma written_objects:
  "written (plan_objects f plan old new) \<longleftrightarrow>
     (\<forall>i\<in>f ` set old \<union> f ` set new. written (plan (map_of (by_id f old) i) (map_of (by_id f new) i)))"
  by (simp add: plan_objects_def Let_def del: written_simps(5))

lemma plan_objects_steps:
  "written (plan_objects f plan old new) \<Longrightarrow> i \<in> f ` set old \<union> f ` set new \<Longrightarrow>
   pending_steps (plan (map_of (by_id f old) i) (map_of (by_id f new) i)) \<subseteq> pending_steps (plan_objects f plan old new)"
  unfolding plan_objects_def Let_def by (subst for_all_steps) auto

lemma all_steps_objects:
  "(\<And>x y. all_steps P (plan x y)) \<Longrightarrow> all_steps P (plan_objects f plan old new)"
  unfolding plan_objects_def Let_def by (rule all_steps_for_all) blast

lemma plan_objects_same:
  assumes "\<And>x. plan (Some x) (Some x) = steps []"
  shows "plan_objects f plan xs xs = steps []"
proof -
  have "plan (map_of (by_id f xs) i) (map_of (by_id f xs) i) = steps []" if "i \<in> f ` set xs" for i
    using that assms by (metis by_id_None not_None_eq)
  then have "map (\<lambda>i. plan (map_of (by_id f xs) i) (map_of (by_id f xs) i)) (all_ids (by_id f xs) (by_id f xs))
      = map Some (map (\<lambda>i. ([], [])) (all_ids (by_id f xs) (by_id f xs)))"
    by (simp add: steps_def)
  then have "those (map (\<lambda>i. plan (map_of (by_id f xs) i) (map_of (by_id f xs) i)) (all_ids (by_id f xs) (by_id f xs)))
      = Some (map (\<lambda>i. ([], [])) (all_ids (by_id f xs) (by_id f xs)))"
    by (simp only: those_Some)
  then show ?thesis by (simp add: plan_objects_def for_all_def sequence_def Let_def steps_def comp_def)
qed

section \<open>Order and numbers\<close>

lemma unique_pending_snoc:
  "unique_pending (qs @ [q]) = (if statement_key q \<in> set (map statement_key (unique_pending qs))
     then unique_pending qs else unique_pending qs @ [q])"
  by (simp add: unique_pending_def)

lemma unique_pending_props:
  "distinct (map statement_key (unique_pending qs)) \<and> set (unique_pending qs) \<subseteq> set qs
   \<and> statement_key ` set (unique_pending qs) = statement_key ` set qs"
proof (induction qs rule: rev_induct)
  case Nil
  then show ?case by (simp add: unique_pending_def)
next
  case (snoc q qs)
  then show ?case by (auto simp: unique_pending_snoc)
qed

lemma ordered_pending_props:
  shows "sorted (map step_key (ordered_pending qs))"
    and "distinct (map statement_key (ordered_pending qs))"
    and "set (ordered_pending qs) \<subseteq> set qs"
    and "statement_key ` set (ordered_pending qs) = statement_key ` set qs"
  using unique_pending_props[of qs]
  by (auto simp: ordered_pending_def distinct_map intro: inj_on_subset)

lemma length_finalize [simp]: "length (finalize_migration_plan qs) = length (ordered_pending qs)"
  by (simp add: finalize_migration_plan_def)

lemma finalize_nth:
  "i < length (ordered_pending qs) \<Longrightarrow> finalize_migration_plan qs ! i = number_step (i + 1) (ordered_pending qs ! i)"
  by (simp add: finalize_migration_plan_def nth_enumerate_eq)

lemma phase_order:
  assumes "i < length (ordered_pending qs)" "j < length (ordered_pending qs)"
    and "ps_phase (ordered_pending qs ! i) < ps_phase (ordered_pending qs ! j)"
  shows "i < j"
proof (rule ccontr)
  assume "\<not> i < j"
  then have "step_key (ordered_pending qs ! j) \<le> step_key (ordered_pending qs ! i)"
    using sorted_nth_mono[OF ordered_pending_props(1), of j i qs] assms by simp
  with assms(3) show False by (simp add: step_key_def less_eq_prod_def)
qed

text \<open>Steps of different phases appear in the order of their phases.\<close>

lemma finalize_order:
  assumes "q \<in> set qs" "r \<in> set qs" "ps_phase q < ps_phase r"
  obtains i j where "i < j" "j < length (finalize_migration_plan qs)"
    "st_sql (finalize_migration_plan qs ! i) = ps_sql q" "st_sql (finalize_migration_plan qs ! j) = ps_sql r"
proof -
  have find: "\<exists>i<length (ordered_pending qs). statement_key (ordered_pending qs ! i) = statement_key x" if "x \<in> set qs" for x
  proof -
    have "statement_key x \<in> statement_key ` set (ordered_pending qs)"
      using that ordered_pending_props(4)[of qs] by simp
    then show ?thesis by (auto simp: in_set_conv_nth)
  qed
  obtain i j where ij: "i < length (ordered_pending qs)" "statement_key (ordered_pending qs ! i) = statement_key q"
    "j < length (ordered_pending qs)" "statement_key (ordered_pending qs ! j) = statement_key r"
    using find[OF assms(1)] find[OF assms(2)] by blast
  then have "i < j" using assms(3) by (intro phase_order[of i qs j]) (simp_all add: statement_key_def)
  then show thesis
    by (rule that) (use ij in \<open>simp_all add: finalize_nth number_step_def statement_key_def\<close>)
qed

lemma compile_migration_steps_Some:
  "compile_migration_steps p rebuilds populated = Some (ss, ws) \<longleftrightarrow>
     (\<exists>qs. plan_migration p rebuilds populated = Some (qs, ws) \<and> ss = finalize_migration_plan qs)"
  by (auto simp: compile_migration_steps_def)

section \<open>No difference, no steps\<close>

lemma sequence_nothing: "set ps \<subseteq> {steps []} \<Longrightarrow> sequence ps = steps []"
proof -
  assume "set ps \<subseteq> {steps []}"
  then have "ps = map Some (map (\<lambda>_. ([], [])) ps)" by (auto simp: steps_def intro!: nth_equalityI) (metis nth_mem singletonD subsetD)
  then have "those ps = Some (map (\<lambda>_. ([], [])) ps)" by (simp only: those_Some)
  then show ?thesis by (simp add: sequence_def steps_def comp_def)
qed

lemma column_type_changes_same: "column_type_changes ts ts = []"
  by (simp add: column_type_changes_def Let_def split: option.splits)

lemma plan_same:
  assumes "in_desired p = in_live p" "in_conversions p = []"
  shows "plan_relationship p (Some r) (Some r) = steps []"
    and "change_type p t t name path c c = steps []"
    and "plan_column p t t name (Some c) (Some c) = steps []"
    and "plan_table p (Some t) (Some t) = steps []"
proof -
  have "safe_type_change_ids p = []"
    using assms by (simp add: safe_type_change_ids_def in_live_tables_def in_desired_tables_def column_type_changes_same)
  then show "plan_relationship p (Some r) (Some r) = steps []" by (simp add: plan_relationship_def)
  show ct: "change_type p t t name path c c = steps []" for t name path c
    using assms by (simp add: change_type_def Let_def)
  then show pc: "plan_column p t t name (Some c) (Some c) = steps []" for t name c
    using assms by (simp add: plan_column_def change_column_def Let_def same_dependency_set_def sequence_nothing)
  then show "plan_table p (Some t) (Some t) = steps []"
    by (simp add: plan_table_def plan_table_column_changes_def plan_table_constraint_changes_def
        plan_table_index_changes_def plan_objects_same plan_constraint_def plan_index_def sequence_nothing Let_def)
qed

text \<open>
  C9. A schema that already is as desired needs no migration: comparing any design with itself, without
  conversions and requested rebuilds, succeeds with no steps and no blocking warnings.
\<close>

theorem same_design_no_steps:
  "compile_migration_steps (p\<lparr>in_desired := in_live p, in_conversions := []\<rparr>) [] populated = Some ([], [])"
proof -
  let ?p = "p\<lparr>in_desired := in_live p, in_conversions := []\<rparr>"
  have "plan_migration ?p [] populated = steps []"
    unfolding plan_migration_def
  proof (rule sequence_nothing)
    show "set [plan_physical_column_rebuilds ?p [] populated, plan_relationship_changes ?p, plan_table_changes ?p,
        plan_type_changes ?p, plan_function_changes ?p, plan_view_changes ?p, plan_trigger_changes ?p] \<subseteq> {steps []}"
      by (simp add: plan_physical_column_rebuilds_def plan_relationship_changes_def plan_table_changes_def plan_type_changes_def
          plan_function_changes_def plan_view_changes_def plan_trigger_changes_def plan_objects_same plan_same
          plan_type_def plan_function_def plan_view_def plan_trigger_def for_all_def sequence_nothing Let_def sorted_set_def)
  qed
  then show ?thesis
    by (simp add: compile_migration_steps_def steps_def finalize_migration_plan_def ordered_pending_def unique_pending_def)
qed

section \<open>Validated designs are planned\<close>

text \<open>Ids whose column is known.\<close>

lemma quoted_columns_None [simp]: "quoted_columns columns ids = None \<longleftrightarrow> (\<exists>i\<in>set ids. map_of columns i = None)"
  by (auto simp: quoted_columns_def those_None image_iff)

lemma known_column:
  "t \<in> set (content_tables c) \<Longrightarrow> i \<in> set (table_column_ids t) \<Longrightarrow> \<exists>column. map_of (column_map c) i = Some column"
  by (auto simp: column_map_def table_column_ids_def simp flip: not_None_eq)

lemma known_table: "t \<in> set (content_tables c) \<Longrightarrow> \<exists>table. map_of (table_map c) (tbl_id t) = Some table"
  by (auto simp: table_map_def simp flip: not_None_eq)

definition references_resolved :: "design_content \<Rightarrow> bool" where
  "references_resolved c = ((\<forall>t\<in>set (content_tables c). table_references_resolved t)
     \<and> (\<forall>r\<in>set (content_relationships c). relationship_resolved c r))"

lemma validated_references: "validate_design_content base_type_name query_error c = None \<Longrightarrow> references_resolved c"
  unfolding references_resolved_def
  by (auto simp: validate_design_content_def intro: check_table_resolved check_relationships_resolved[of c "[]"])

lemma resolved_columns:
  assumes "references_resolved c" "t \<in> set (content_tables c)"
  shows "k \<in> set (tbl_keys t) \<Longrightarrow> set (key_column_ids k) \<subseteq> set (table_column_ids t)"
    and "i \<in> set (tbl_indexes t) \<Longrightarrow> set (idx_column_ids i @ idx_include_column_ids i) \<subseteq> set (table_column_ids t)"
  using assms by (simp_all add: references_resolved_def table_references_resolved_def)

lemma known_columns:
  "t \<in> set (content_tables c) \<Longrightarrow> set ids \<subseteq> set (table_column_ids t) \<Longrightarrow> quoted_columns (column_map c) ids \<noteq> None"
  using known_column[of t c] by (metis (no_types, lifting) option.distinct(1) quoted_columns_None subsetD)

lemma resolved_sql:
  assumes "references_resolved c" "t \<in> set (content_tables c)"
  shows "create_table ns t (column_map c) \<noteq> None"
    and "k \<in> set (tbl_keys t) \<Longrightarrow> constraint_sql ns t (KeyItem k) (column_map c) \<noteq> None"
    and "constraint_sql ns t (CheckItem x) (column_map c) \<noteq> None"
    and "i \<in> set (tbl_indexes t) \<Longrightarrow> create_index ns t i (column_map c) \<noteq> None"
proof -
  have key: "key_clause (column_map c) k \<noteq> None" if "k \<in> set (tbl_keys t)" for k
    using known_columns[OF assms(2) resolved_columns(1)[OF assms that]] by (simp add: key_clause_def)
  then show "create_table ns t (column_map c) \<noteq> None"
    by (auto simp: create_table_def those_None simp flip: not_None_eq)
  show "k \<in> set (tbl_keys t) \<Longrightarrow> constraint_sql ns t (KeyItem k) (column_map c) \<noteq> None"
    using key[of k] by (auto simp: constraint_sql_def)
  show "constraint_sql ns t (CheckItem x) (column_map c) \<noteq> None"
    by (simp add: constraint_sql_def)
  assume i: "i \<in> set (tbl_indexes t)"
  have "quoted_columns (column_map c) (idx_column_ids i) \<noteq> None" "quoted_columns (column_map c) (idx_include_column_ids i) \<noteq> None"
    using resolved_columns(2)[OF assms i] by (auto intro!: known_columns[OF assms(2)] simp del: not_None_eq quoted_columns_None)
  then show "create_index ns t i (column_map c) \<noteq> None"
    by (auto simp: create_index_def quoted_columns_def simp del: quoted_columns_None)
qed

lemma resolved_relationship_sql:
  assumes "references_resolved c" "r \<in> set (content_relationships c)"
  shows "relationship_sql ns r (table_map c) (column_map c) \<noteq> None"
proof -
  obtain source tgt k where s: "source \<in> set (content_tables c)" "tbl_id source = rel_source_table_id r"
    "tgt \<in> set (content_tables c)" "tbl_id tgt = rel_target_table_id r"
    "set (rel_source_column_ids r) \<subseteq> set (table_column_ids source)"
    "k \<in> set (tbl_keys tgt)" "key_column_ids k = rel_target_column_ids r"
    using assms by (auto simp: references_resolved_def relationship_resolved_def)
  have "quoted_columns (column_map c) (rel_source_column_ids r) \<noteq> None"
      "quoted_columns (column_map c) (rel_target_column_ids r) \<noteq> None"
    using known_columns[OF s(1,5)] known_columns[OF s(3) resolved_columns(1)[OF assms(1) s(3,6)]] s(7) by simp_all
  with s known_table[of source c] known_table[of tgt c] show ?thesis
    by (auto simp: relationship_sql_def simp del: quoted_columns_None)
qed

lemma plan_objects_total:
  assumes "\<And>x y. set_option x \<subseteq> set old \<Longrightarrow> set_option y \<subseteq> set new \<Longrightarrow> written (plan x y)"
  shows "written (plan_objects f plan old new)"
proof -
  have "written (plan (map_of (by_id f old) i) (map_of (by_id f new) i))" for i
    by (rule assms) (auto dest: by_id_Some)
  then show ?thesis by (simp add: written_objects)
qed

lemma column_plan_written: "written (plan_column p before after name old new)"
  by (cases old; cases new) (simp_all add: plan_column_def add_column_def change_column_def change_type_def Let_def)

lemma table_plan_written:
  assumes "references_resolved (in_desired p)" "set_option after \<subseteq> set (content_tables (in_desired p))"
  shows "written (plan_table p before after)"
proof (cases after)
  case (Some a)
  then have a: "a \<in> set (content_tables (in_desired p))" using assms(2) by simp
  note sql = resolved_sql[OF assms(1) a]
  have "written (plan_constraint p a name category KeyItem same x y)" if "set_option y \<subseteq> set (tbl_keys a)" for name category same x y
    using that sql(2) by (auto simp: plan_constraint_def in_desired_columns_def split: option.splits)
  moreover have "written (plan_constraint p a name category CheckItem same x y)" for name category same x y
    using sql(3) by (auto simp: plan_constraint_def in_desired_columns_def split: option.splits)
  moreover have "written (plan_index p a x y)" if "set_option y \<subseteq> set (tbl_indexes a)" for x y
    using that sql(4) by (auto simp: plan_index_def create_index_step_def in_desired_columns_def split: option.splits)
  ultimately have "written (plan_table_column_changes p b a name)" "written (plan_table_constraint_changes p b a name)"
      "written (plan_table_index_changes p b a)" for b name
    by (simp_all add: plan_table_column_changes_def plan_table_constraint_changes_def plan_table_index_changes_def
        plan_objects_total column_plan_written Let_def)
  with Some sql(1,4) show ?thesis
    by (auto simp: plan_table_def create_index_step_def in_desired_columns_def split: option.splits)
qed (simp add: plan_table_def split: option.splits)

lemma relationship_plan_written:
  assumes "references_resolved (in_desired p)" "set_option after \<subseteq> set (content_relationships (in_desired p))"
    and "\<And>b. before = Some b \<Longrightarrow> rel_source_table_id b \<in> tbl_id ` set (content_tables (in_live p))"
  shows "written (plan_relationship p before after)"
proof -
  have "relationship_sql ns a (in_desired_tables p) (in_desired_columns p) \<noteq> None" if "after = Some a" for ns a
    using resolved_relationship_sql[OF assms(1)] assms(2) that by (simp add: in_desired_tables_def in_desired_columns_def)
  moreover have "map_of (in_live_tables p) (rel_source_table_id b) \<noteq> None" if "before = Some b" for b
    using assms(3)[OF that] by (simp add: in_live_tables_def table_map_def del: not_None_eq)
  ultimately show ?thesis
    by (cases before; cases after) (simp_all add: plan_relationship_def del: not_None_eq)
qed

lemma order_difference_tables:
  assumes "map_of (by_id od_table_id (column_order_differences env ns live desired)) i = Some d"
  obtains before after where "map_of (table_map live) i = Some before" "map_of (table_map desired) i = Some after"
proof -
  have "d \<in> set (column_order_differences env ns live desired)" "od_table_id d = i"
    using by_id_Some[OF assms] by blast+
  then show thesis
    by (auto simp: column_order_differences_def split: option.splits if_splits intro: that[OF sym sym])
qed

lemma rebuilds_written:
  assumes "references_resolved (in_desired p)"
    and "\<And>b. b \<in> set (content_relationships (in_live p)) \<Longrightarrow> rel_source_table_id b \<in> tbl_id ` set (content_tables (in_live p))"
  shows "written (plan_physical_column_rebuilds p rebuilds populated)"
proof -
  have "written (append_column_order_rebuild p i data)"
    if b: "map_of (table_map (in_live p)) i = Some before" and a: "map_of (table_map (in_desired p)) i = Some after"
    for i data before after
  proof -
    have t: "after \<in> set (content_tables (in_desired p))" using by_id_Some[OF a[unfolded table_map_def]] by simp
    have "written (detach_steps p before path data)" for path
      using assms(2) by (simp add: detach_steps_def Let_def in_live_tables_def table_map_def del: not_None_eq)
    moreover have "written (restore_steps p before after path data)" for path
      using resolved_sql[OF assms(1) t] resolved_relationship_sql[OF assms(1)]
      by (auto simp: restore_steps_def Let_def in_desired_columns_def in_desired_tables_def table_constraints_def)
    ultimately show ?thesis
      using a b by (simp add: append_column_order_rebuild_def in_live_tables_def in_desired_tables_def Let_def)
  qed
  then show ?thesis
    by (auto simp: plan_physical_column_rebuilds_def Let_def split: option.split elim!: order_difference_tables)
qed

text \<open>
  C8. Planning never fails on a validated design: when the desired design passes validation and every
  live foreign key belongs to a live table, \<open>compile_migration_steps\<close> raises no \<open>KeyError\<close> and returns
  steps and blocking warnings, whatever rebuilds, conversions and empty tables are given.
\<close>

theorem validated_design_planned:
  assumes "validate_design_content base_type_name query_error (in_desired p) = None"
    and "\<forall>r\<in>set (content_relationships (in_live p)). rel_source_table_id r \<in> tbl_id ` set (content_tables (in_live p))"
  shows "\<exists>ss ws. compile_migration_steps p rebuilds populated = Some (ss, ws)"
proof -
  note v = validated_references[OF assms(1)]
  have "written (plan_migration p rebuilds populated)"
    using assms(2) rebuilds_written[OF v]
    by (auto simp: plan_migration_def plan_relationship_changes_def plan_table_changes_def plan_type_changes_def
        plan_function_changes_def plan_view_changes_def plan_trigger_changes_def
        intro!: plan_objects_total table_plan_written[OF v] relationship_plan_written[OF v])
      (auto simp: plan_type_def plan_function_def plan_view_def plan_trigger_def split: option.splits)
  then show ?thesis by (auto simp: written_def compile_migration_steps_def)
qed

section \<open>Numbering\<close>

text \<open>
  The steps of a plan are numbered from one in the order of their phases (then order, path and
  operation), no statement appears twice in a phase, every step comes from a pass, and every statement
  a pass asked for is in the plan.
\<close>

theorem plan_steps_ordered:
  assumes "compile_migration_steps p rebuilds populated = Some (ss, ws)"
  shows "\<exists>qs pending. plan_migration p rebuilds populated = Some (pending, ws)
    \<and> length qs = length ss \<and> (\<forall>i<length ss. ss ! i = number_step (i + 1) (qs ! i))
    \<and> sorted (map step_key qs) \<and> distinct (map statement_key qs)
    \<and> set qs \<subseteq> set pending \<and> statement_key ` set qs = statement_key ` set pending"
proof -
  obtain pending where p: "plan_migration p rebuilds populated = Some (pending, ws)" "ss = finalize_migration_plan pending"
    using assms by (auto simp: compile_migration_steps_Some)
  show ?thesis
    by (rule exI[of _ "ordered_pending pending"], rule exI[of _ pending])
      (simp add: p finalize_nth ordered_pending_props)
qed

section \<open>Destructive steps\<close>

text \<open>The phases that only hold removals of views, routines, columns, tables and types.\<close>

definition marked :: "pending_step \<Rightarrow> bool" where
  "marked q = (ps_phase q \<in> {14, 18, 20, 30, 32} \<longrightarrow> ps_destructive q)"

lemma marked_pend [simp]: "marked (pend phase kind path operation sql) = (phase \<notin> {14, 18, 20, 30, 32})"
  by (simp add: marked_def pend_def)

lemma marked_update [simp]:
  "marked (q\<lparr>ps_destructive := True\<rparr>)"
  "ps_phase q \<notin> {14, 18, 20, 30, 32} \<Longrightarrow> marked (q\<lparr>ps_destructive := d\<rparr>)"
  "marked (q\<lparr>ps_data_movement := m\<rparr>) = marked q" "marked (q\<lparr>ps_order := n\<rparr>) = marked q"
  by (simp_all add: marked_def)

lemma pend_phase [simp]: "ps_phase (pend phase kind path operation sql) = phase"
  by (simp add: pend_def)

lemma marked_columns: "all_steps marked (plan_column p before after name old new)"
proof -
  have "all_steps marked (change_type p before after name path x n)" for path x n
    by (auto simp: change_type_def conversion_steps_def Let_def list_all_iff split: option.splits)
  then show ?thesis
    by (cases old; cases new) (simp_all add: plan_column_def add_column_def change_column_def Let_def all_steps_sequence)
qed

lemma marked_tables: "all_steps marked (plan_table p before after)"
proof -
  have "all_steps marked (plan_constraint p a name category item same x y)" for a name category item same x y
    by (cases x; cases y) (auto simp: plan_constraint_def intro!: all_steps_sequence)
  moreover have "all_steps marked (plan_index p a x y)" for a x y
    by (cases x; cases y) (auto simp: plan_index_def create_index_step_def intro!: all_steps_sequence)
  ultimately show ?thesis
    by (cases before; cases after) (auto simp: plan_table_def plan_table_column_changes_def plan_table_constraint_changes_def
        plan_table_index_changes_def create_index_step_def Let_def
        intro!: all_steps_sequence all_steps_for_all all_steps_objects marked_columns)
qed

lemma marked_rebuilds: "all_steps marked (plan_physical_column_rebuilds p rebuilds populated)"
proof -
  have "all_steps marked (detach_steps p b path data)" "all_steps marked (restore_steps p b a path data)" for b a path data
    by (auto simp: detach_steps_def restore_steps_def Let_def list_all_iff intro!: all_steps_sequence all_steps_for_all)
  then show ?thesis
    by (auto simp: plan_physical_column_rebuilds_def append_column_order_rebuild_def Let_def
        intro!: all_steps_for_all all_steps_sequence split: option.split)
qed

lemma marked_plan: "all_steps marked (plan_migration p rebuilds populated)"
proof -
  have "all_steps marked (plan_relationship p x y)" for x y
    by (cases x; cases y) (auto simp: plan_relationship_def intro!: all_steps_sequence)
  moreover have "all_steps marked (plan_type p x y)" for x y
    by (cases x; cases y) (auto simp: plan_type_def)
  moreover have "all_steps marked (plan_function p x y)" for x y
    by (cases x; cases y) (auto simp: plan_function_def split: option.split)
  moreover have "all_steps marked (plan_view p x y)" for x y
    by (cases x; cases y) (auto simp: plan_view_def)
  moreover have "all_steps marked (plan_trigger p x y)" for x y
    by (cases x; cases y) (auto simp: plan_trigger_def)
  ultimately show ?thesis
    by (auto simp: plan_migration_def plan_relationship_changes_def plan_table_changes_def plan_type_changes_def
        plan_function_changes_def plan_view_changes_def plan_trigger_changes_def
        intro!: all_steps_sequence all_steps_objects marked_tables marked_rebuilds)
qed

lemma pass_steps:
  assumes "plan_migration p rebuilds populated = Some (qs, ws)"
    and "pass \<in> {plan_physical_column_rebuilds p rebuilds populated, plan_relationship_changes p, plan_table_changes p,
      plan_type_changes p, plan_function_changes p, plan_view_changes p, plan_trigger_changes p}"
  shows "written pass" "pending_steps pass \<subseteq> set qs"
proof -
  have w: "written (plan_migration p rebuilds populated)" "pending_steps (plan_migration p rebuilds populated) = set qs"
    using assms(1) by (simp_all add: written_def pending_steps_def)
  then show "written pass" using assms(2) by (auto simp: plan_migration_def)
  show "pending_steps pass \<subseteq> set qs"
    using sequence_steps[OF w(1)[unfolded plan_migration_def]] w(2) assms(2) unfolding plan_migration_def[symmetric] by auto
qed

lemma object_steps:
  assumes "plan_migration p rebuilds populated = Some (qs, ws)"
    and "plan_objects f plan old new \<in> {plan_relationship_changes p, plan_table_changes p,
      plan_type_changes p, plan_function_changes p, plan_view_changes p, plan_trigger_changes p}"
    and "map_of (by_id f old) i = x" "map_of (by_id f new) i = y" "x \<noteq> None \<or> y \<noteq> None"
  shows "written (plan x y)" "pending_steps (plan x y) \<subseteq> set qs"
proof -
  have w: "written (plan_objects f plan old new)" "pending_steps (plan_objects f plan old new) \<subseteq> set qs"
    using pass_steps[OF assms(1), of "plan_objects f plan old new"] assms(2) by auto
  have "map_of (by_id f old) i \<noteq> None \<or> map_of (by_id f new) i \<noteq> None" using assms(3-5) by simp
  then have i: "i \<in> f ` set old \<union> f ` set new" by (simp del: not_None_eq)
  show "written (plan x y)" using w(1) i assms(3,4) by (auto simp: written_objects simp del: image_iff)
  show "pending_steps (plan x y) \<subseteq> set qs" using plan_objects_steps[OF w(1) i] w(2) assms(3,4) by auto
qed

lemma harmless_phases:
  assumes "plan_migration p rebuilds populated = Some (qs, ws)"
    and "\<forall>s\<in>set (finalize_migration_plan qs). \<not> st_destructive s" "q \<in> set qs"
  shows "ps_phase q \<notin> {14, 18, 20, 30, 32}"
proof
  assume phase: "ps_phase q \<in> {14, 18, 20, 30, 32}"
  have "statement_key q \<in> statement_key ` set (ordered_pending qs)" using assms(3) by (simp add: ordered_pending_props)
  then obtain r where r: "r \<in> set (ordered_pending qs)" "statement_key r = statement_key q" by force
  then have "marked r"
    using marked_plan[of p rebuilds populated] assms(1) ordered_pending_props(3)[of qs]
    by (auto simp: all_steps_def pending_steps_def)
  moreover obtain i where i: "i < length (ordered_pending qs)" "ordered_pending qs ! i = r"
    using r(1) by (auto simp: in_set_conv_nth)
  then have "st_destructive (finalize_migration_plan qs ! i) = ps_destructive r" by (simp add: finalize_nth number_step_def)
  moreover have "finalize_migration_plan qs ! i \<in> set (finalize_migration_plan qs)" using i by simp
  ultimately show False using assms(2) r phase by (auto simp: marked_def statement_key_def)
qed

text \<open>An object whose removal is a step of a removal phase is kept by a plan without destructive steps.\<close>

lemma kept_object:
  assumes "plan_migration p rebuilds populated = Some (qs, ws)"
    and "\<forall>s\<in>set (finalize_migration_plan qs). \<not> st_destructive s"
    and "written (plan_objects f plan old new)" "pending_steps (plan_objects f plan old new) \<subseteq> set qs"
    and "\<And>x. \<exists>q. q \<in> pending_steps (plan (Some x) None) \<and> ps_phase q \<in> {14, 18, 20, 30, 32}"
  shows "f ` set old \<subseteq> f ` set new"
proof
  fix i assume i: "i \<in> f ` set old"
  show "i \<in> f ` set new"
  proof (rule ccontr)
    assume "i \<notin> f ` set new"
    then have n: "map_of (by_id f new) i = None" by simp
    obtain x where x: "map_of (by_id f old) i = Some x" using i by (metis by_id_None not_None_eq)
    have "pending_steps (plan (Some x) None) \<subseteq> set qs"
      using plan_objects_steps[OF assms(3), of i] i assms(4) n x by auto
    with assms(5)[of x] harmless_phases[OF assms(1,2)] show False by blast
  qed
qed

lemma table_parts_planned:
  assumes "plan_migration p rebuilds populated = Some (qs, ws)"
    and "map_of (table_map (in_live p)) i = Some before" "map_of (table_map (in_desired p)) i = Some after"
  shows "written (plan_table_column_changes p before after (tbl_name after))"
    and "pending_steps (plan_table_column_changes p before after (tbl_name after)) \<subseteq> set qs"
    and "written (plan_table_constraint_changes p before after (tbl_name after))"
    and "pending_steps (plan_table_constraint_changes p before after (tbl_name after)) \<subseteq> set qs"
    and "tbl_name before \<noteq> tbl_name after \<Longrightarrow> \<exists>q\<in>set qs. ps_phase q = 35
      \<and> ps_sql q = ''ALTER TABLE '' @ qualified_name (in_namespace p) (tbl_name before) @ '' RENAME TO '' @ quote (tbl_name after) @ '';''"
proof -
  have t: "written (plan_table p (Some before) (Some after))" "pending_steps (plan_table p (Some before) (Some after)) \<subseteq> set qs"
    using object_steps[OF assms(1), of tbl_id "plan_table p" "content_tables (in_live p)" "content_tables (in_desired p)" i]
      assms(2,3) by (auto simp: plan_table_changes_def table_map_def)
  then show "written (plan_table_column_changes p before after (tbl_name after))"
      "written (plan_table_constraint_changes p before after (tbl_name after))"
    by (auto simp: plan_table_def)
  note s = sequence_steps[OF t(1)[unfolded plan_table_def option.case prod.case]]
  show "pending_steps (plan_table_column_changes p before after (tbl_name after)) \<subseteq> set qs"
      "pending_steps (plan_table_constraint_changes p before after (tbl_name after)) \<subseteq> set qs"
    using t(2) s by (auto simp: plan_table_def)
  assume r: "tbl_name before \<noteq> tbl_name after"
  then have "pend 35 TableObject (''tables.'' @ tbl_name before) ''rename'' (''ALTER TABLE ''
      @ qualified_name (in_namespace p) (tbl_name before) @ '' RENAME TO '' @ quote (tbl_name after) @ '';'') \<in> set qs"
    using t(2) s by (auto simp: plan_table_def)
  then show "\<exists>q\<in>set qs. ps_phase q = 35
      \<and> ps_sql q = ''ALTER TABLE '' @ qualified_name (in_namespace p) (tbl_name before) @ '' RENAME TO '' @ quote (tbl_name after) @ '';''"
    by (rule bexI[rotated]) (simp add: pend_def)
qed

text \<open>
  C7. A plan none of whose steps is marked destructive removes nothing that holds data or code: every
  live table is still in the desired design, with every one of its columns, and so is every type,
  routine and view.
\<close>

theorem harmless_plan_keeps_objects:
  assumes "compile_migration_steps p rebuilds populated = Some (ss, ws)" "\<forall>s\<in>set ss. \<not> st_destructive s"
  shows "(\<forall>i before. map_of (table_map (in_live p)) i = Some before \<longrightarrow>
        (\<exists>after. map_of (table_map (in_desired p)) i = Some after
           \<and> col_id ` set (tbl_columns before) \<subseteq> col_id ` set (tbl_columns after)))
    \<and> ty_id ` set (content_types (in_live p)) \<subseteq> ty_id ` set (content_types (in_desired p))
    \<and> fn_id ` set (content_functions (in_live p)) \<subseteq> fn_id ` set (content_functions (in_desired p))
    \<and> view_id ` set (content_views (in_live p)) \<subseteq> view_id ` set (content_views (in_desired p))"
proof -
  obtain qs where p: "plan_migration p rebuilds populated = Some (qs, ws)"
      "\<forall>s\<in>set (finalize_migration_plan qs). \<not> st_destructive s"
    using assms by (auto simp: compile_migration_steps_Some)
  note kept = kept_object[OF p] and pass = pass_steps[OF p(1)]
  have types: "ty_id ` set (content_types (in_live p)) \<subseteq> ty_id ` set (content_types (in_desired p))"
    using pass[of "plan_type_changes p"] by (intro kept[of _ "plan_type p"]) (auto simp: plan_type_changes_def plan_type_def)
  have routines: "fn_id ` set (content_functions (in_live p)) \<subseteq> fn_id ` set (content_functions (in_desired p))"
    using pass[of "plan_function_changes p"]
    by (intro kept[of _ "plan_function p"]) (auto simp: plan_function_changes_def plan_function_def)
  have views: "view_id ` set (content_views (in_live p)) \<subseteq> view_id ` set (content_views (in_desired p))"
    using pass[of "plan_view_changes p"] by (intro kept[of _ "plan_view p"]) (auto simp: plan_view_changes_def plan_view_def)
  have tables: "tbl_id ` set (content_tables (in_live p)) \<subseteq> tbl_id ` set (content_tables (in_desired p))"
    using pass[of "plan_table_changes p"] by (intro kept[of _ "plan_table p"]) (auto simp: plan_table_changes_def plan_table_def)
  have "\<exists>after. map_of (table_map (in_desired p)) i = Some after
      \<and> col_id ` set (tbl_columns before) \<subseteq> col_id ` set (tbl_columns after)"
    if b: "map_of (table_map (in_live p)) i = Some before" for i before
  proof -
    have "i \<in> tbl_id ` set (content_tables (in_desired p))" using by_id_Some[OF b[unfolded table_map_def]] tables by auto
    then obtain after where a: "map_of (table_map (in_desired p)) i = Some after"
      by (metis by_id_None not_None_eq table_map_def)
    have "col_id ` set (tbl_columns before) \<subseteq> col_id ` set (tbl_columns after)"
      by (rule kept[OF table_parts_planned(1,2)[OF p(1) b a, unfolded plan_table_column_changes_def]])
        (auto simp: plan_column_def)
    with a show ?thesis by blast
  qed
  with types routines views show ?thesis by blast
qed

section \<open>Statements in order\<close>

lemma table_created:
  assumes "plan_migration p rebuilds populated = Some (qs, ws)"
    and "map_of (table_map (in_live p)) i = None" "map_of (table_map (in_desired p)) i = Some after"
  obtains q where "q \<in> set qs" "ps_phase q = 40" "create_table (in_namespace p) after (column_map (in_desired p)) = Some (ps_sql q)"
proof -
  have t: "written (plan_table p None (Some after))" "pending_steps (plan_table p None (Some after)) \<subseteq> set qs"
    using object_steps[OF assms(1), of tbl_id "plan_table p" "content_tables (in_live p)" "content_tables (in_desired p)" i]
      assms(2,3) by (auto simp: plan_table_changes_def table_map_def)
  obtain sql where sql: "create_table (in_namespace p) after (column_map (in_desired p)) = Some sql"
    using t(1) by (auto simp: plan_table_def in_desired_columns_def)
  have "pend 40 TableObject (''tables.'' @ tbl_name after) ''create'' sql \<in> set qs"
    using t(2) sequence_steps[OF t(1)[unfolded plan_table_def option.case prod.case]] sql
    by (auto simp: plan_table_def in_desired_columns_def)
  then show thesis by (rule that) (simp_all add: pend_def sql)
qed

text \<open>
  A new foreign key waits for the tables it joins: when a plan creates a table and a relationship
  from or to it, the statement that creates the table comes first.
\<close>

theorem table_before_relationship:
  assumes "compile_migration_steps p rebuilds populated = Some (ss, ws)"
    and "map_of (by_id rel_id (content_relationships (in_live p))) r = None"
    and "map_of (by_id rel_id (content_relationships (in_desired p))) r = Some new"
    and "t \<in> {rel_source_table_id new, rel_target_table_id new}"
    and "map_of (table_map (in_live p)) t = None" "map_of (table_map (in_desired p)) t = Some table"
  shows "\<exists>i j. i < j \<and> j < length ss
    \<and> create_table (in_namespace p) table (column_map (in_desired p)) = Some (st_sql (ss ! i))
    \<and> relationship_sql (in_namespace p) new (table_map (in_desired p)) (column_map (in_desired p)) = Some (st_sql (ss ! j))"
proof -
  obtain qs where p: "plan_migration p rebuilds populated = Some (qs, ws)" "ss = finalize_migration_plan qs"
    using assms by (auto simp: compile_migration_steps_Some)
  obtain q where q: "q \<in> set qs" "ps_phase q = 40" "create_table (in_namespace p) table (column_map (in_desired p)) = Some (ps_sql q)"
    by (rule table_created[OF p(1) assms(5,6)])
  have w: "written (plan_relationship p None (Some new))" "pending_steps (plan_relationship p None (Some new)) \<subseteq> set qs"
    using object_steps[OF p(1) _ assms(2,3), of "plan_relationship p"] by (auto simp: plan_relationship_changes_def)
  then obtain sql where sql: "relationship_sql (in_namespace p) new (table_map (in_desired p)) (column_map (in_desired p)) = Some sql"
    by (auto simp: plan_relationship_def in_desired_columns_def in_desired_tables_def)
  have "pend 70 RelationshipObject (''relationships.'' @ rel_name new) ''create'' sql \<in> set qs"
    using w sequence_steps sql by (auto simp: plan_relationship_def in_desired_columns_def in_desired_tables_def)
  then obtain f where f: "f \<in> set qs" "ps_phase f = 70" "ps_sql f = sql"
    by (rule that) (simp_all add: pend_def)
  have phases: "ps_phase q < ps_phase f" using q f by simp
  obtain i j where "i < j" "j < length ss" "st_sql (ss ! i) = ps_sql q" "st_sql (ss ! j) = ps_sql f"
    unfolding p(2) by (rule finalize_order[OF q(1) f(1) phases])
  with q(3) f(3) sql show ?thesis by (metis (no_types))
qed

lemma constraint_dropped:
  assumes "written (plan_constraint p after name category item (\<lambda>_ _. False) (Some x) new)" "new \<noteq> Some x"
  shows "\<exists>q\<in>pending_steps (plan_constraint p after name category item (\<lambda>_ _. False) (Some x) new).
    ps_phase q = 15 \<and> ps_sql q = drop_constraint (in_namespace p) name (constraint_name (item x))"
  using assms sequence_steps by (cases new) (auto simp: plan_constraint_def pend_def)

lemma changed_key_dropped:
  assumes "written (plan_table_constraint_changes p before after name)"
    and "map_of (by_id key_id (tbl_keys before)) k = Some key" "map_of (by_id key_id (tbl_keys after)) k \<noteq> Some key"
  shows "\<exists>q\<in>pending_steps (plan_table_constraint_changes p before after name). ps_phase q = 15
    \<and> ps_sql q = drop_constraint (in_namespace p) name (key_name key)"
proof -
  let ?keys = "plan_objects key_id (plan_constraint p after name ''keys'' KeyItem (\<lambda>_ _. False)) (tbl_keys before) (tbl_keys after)"
  let ?new = "map_of (by_id key_id (tbl_keys after)) k"
  let ?plan = "plan_constraint p after name ''keys'' KeyItem (\<lambda>_ _. False) (Some key) ?new"
  have w: "written ?keys" "pending_steps ?keys \<subseteq> pending_steps (plan_table_constraint_changes p before after name)"
    using assms(1) sequence_steps[OF assms(1)[unfolded plan_table_constraint_changes_def Let_def]]
    by (auto simp: plan_table_constraint_changes_def Let_def)
  have k: "k \<in> key_id ` set (tbl_keys before) \<union> key_id ` set (tbl_keys after)" using by_id_Some[OF assms(2)] by blast
  have plan: "written ?plan" "pending_steps ?plan \<subseteq> pending_steps ?keys"
    using bspec[OF w(1)[unfolded written_objects] k] plan_objects_steps[OF w(1) k] assms(2) by simp_all
  show ?thesis using constraint_dropped[OF plan(1) assms(3)] plan(2) w(2) by auto
qed

text \<open>
  C38. A plan that renames a table and changes or removes one of its keys writes the removal of the old
  key for the new name of the table, and before the statement that gives it that name.
\<close>

theorem key_drop_precedes_rename:
  assumes "compile_migration_steps p rebuilds populated = Some (ss, ws)"
    and "map_of (table_map (in_live p)) t = Some before" "map_of (table_map (in_desired p)) t = Some after"
    and "tbl_name before \<noteq> tbl_name after"
    and "map_of (by_id key_id (tbl_keys before)) k = Some key" "map_of (by_id key_id (tbl_keys after)) k \<noteq> Some key"
  shows "\<exists>i j. i < j \<and> j < length ss
    \<and> st_sql (ss ! i) = drop_constraint (in_namespace p) (tbl_name after) (key_name key)
    \<and> st_sql (ss ! j) = ''ALTER TABLE '' @ qualified_name (in_namespace p) (tbl_name before) @ '' RENAME TO '' @ quote (tbl_name after) @ '';''"
proof -
  obtain qs where p: "plan_migration p rebuilds populated = Some (qs, ws)" "ss = finalize_migration_plan qs"
    using assms by (auto simp: compile_migration_steps_Some)
  note t = table_parts_planned[OF p(1) assms(2,3)]
  obtain q where q: "q \<in> set qs" "ps_phase q = 15" "ps_sql q = drop_constraint (in_namespace p) (tbl_name after) (key_name key)"
    using changed_key_dropped[OF t(3) assms(5,6)] t(4) by blast
  obtain r where r: "r \<in> set qs" "ps_phase r = 35" "ps_sql r = ''ALTER TABLE ''
      @ qualified_name (in_namespace p) (tbl_name before) @ '' RENAME TO '' @ quote (tbl_name after) @ '';''"
    using t(5)[OF assms(4)] by blast
  have phases: "ps_phase q < ps_phase r" using q r by simp
  obtain i j where "i < j" "j < length ss" "st_sql (ss ! i) = ps_sql q" "st_sql (ss ! j) = ps_sql r"
    unfolding p(2) by (rule finalize_order[OF q(1) r(1) phases])
  with q(3) r(3) show ?thesis by (metis (no_types))
qed

end
