(* ===== verification/Migration_Steps_Sample.thy ===== *)
theory Migration_Steps_Sample
  imports Migration_Steps_Properties
begin

text \<open>
  Two small plans: one adds a table with a foreign key to a schema of one table, the other renames
  that table and changes its key. They instantiate the promises of the migration planner.
\<close>

definition sample_column :: "string \<Rightarrow> string \<Rightarrow> design_column" where
  "sample_column i name = \<lparr>col_id = i, col_name = name, col_data_type = ''int'', col_nullable = True,
     col_default_expression = None, col_identity = None, col_generated_expression = None, col_generated_source_column_ids = []\<rparr>"

definition sample_old_key :: design_key where
  "sample_old_key = \<lparr>key_id = ''k'', key_name = ''pk'', key_kind = PrimaryKey, key_column_ids = [''c'']\<rparr>"

definition sample_wider_key :: design_key where
  "sample_wider_key = \<lparr>key_id = ''k'', key_name = ''pk'', key_kind = PrimaryKey, key_column_ids = [''c'', ''d'']\<rparr>"

definition sample_parent :: design_table where
  "sample_parent = \<lparr>tbl_id = ''t'', tbl_name = ''a'', tbl_columns = [sample_column ''c'' ''x'', sample_column ''d'' ''y''],
     tbl_keys = [sample_old_key], tbl_checks = [], tbl_indexes = []\<rparr>"

definition sample_child :: design_table where
  "sample_child = \<lparr>tbl_id = ''u'', tbl_name = ''b'', tbl_columns = [sample_column ''e'' ''z''], tbl_keys = [], tbl_checks = [], tbl_indexes = []\<rparr>"

definition sample_link :: design_relationship where
  "sample_link = \<lparr>rel_id = ''r'', rel_name = ''fk'', rel_source_table_id = ''u'', rel_source_column_ids = [''e''],
     rel_target_table_id = ''t'', rel_target_column_ids = [''c''], rel_on_update = NoAction, rel_on_delete = NoAction,
     rel_deferrable = False, rel_initially_deferred = False\<rparr>"

definition sample_live :: design_content where
  "sample_live = empty_design_content\<lparr>content_tables := [sample_parent]\<rparr>"

definition sample_extended :: design_content where
  "sample_extended = empty_design_content\<lparr>content_tables := [sample_parent, sample_child], content_relationships := [sample_link]\<rparr>"

definition sample_renamed :: design_content where
  "sample_renamed = empty_design_content\<lparr>content_tables := [sample_parent\<lparr>tbl_name := ''n'', tbl_keys := [sample_wider_key]\<rparr>]\<rparr>"

definition sample_input :: "design_content \<Rightarrow> migration_input" where
  "sample_input desired = \<lparr>in_env = \<lparr>pe_sha256 = \<lambda>s. s, pe_relations = \<lambda>_ _. [], pe_parameters = \<lambda>_. [], pe_normal = \<lambda>_ _. None\<rparr>,
     in_namespace = ''s'', in_live = sample_live, in_desired = desired, in_empty_tables = [], in_conversions = []\<rparr>"

lemma sample_extended_steps:
  "map_option (\<lambda>(ss, ws). (map st_object_path ss, list_all (\<lambda>s. \<not> st_destructive s) ss, ws)) (compile_migration_steps (sample_input sample_extended) [] [])
   = Some ([''tables.b'', ''relationships.fk''], True, [])"
  by code_simp

lemma sample_renamed_steps:
  "map_option (\<lambda>(ss, ws). (map st_sql ss, ws)) (compile_migration_steps (sample_input sample_renamed) [] [])
   = Some ([drop_constraint ''s'' ''n'' ''pk'',
            ''ALTER TABLE '' @ qualified_name ''s'' ''a'' @ '' RENAME TO '' @ quote ''n'' @ '';'',
            ''ALTER TABLE '' @ qualified_name ''s'' ''n'' @ '' ADD CONSTRAINT '' @ quote ''pk'' @ '' PRIMARY KEY ('' @ quote ''x'' @ '', '' @ quote ''y'' @ '');''], [])"
  by code_simp

lemma sample_extended_compiled:
  obtains ss where "compile_migration_steps (sample_input sample_extended) [] [] = Some (ss, [])"
    "map st_object_path ss = [''tables.b'', ''relationships.fk'']" "\<forall>s\<in>set ss. \<not> st_destructive s"
  using sample_extended_steps by (auto simp: list_all_iff)

lemma sample_renamed_compiled:
  obtains ss where "compile_migration_steps (sample_input sample_renamed) [] [] = Some (ss, [])" "length ss = 3"
  using sample_renamed_steps by (auto simp: map_eq_Cons_conv)

lemma sample_lookups:
  "map_of (table_map sample_live) ''t'' = Some sample_parent"
  "map_of (table_map sample_live) ''u'' = None"
  "map_of (table_map sample_extended) ''u'' = Some sample_child"
  "map_of (by_id rel_id (content_relationships sample_live)) ''r'' = None"
  "map_of (by_id rel_id (content_relationships sample_extended)) ''r'' = Some sample_link"
  "map_of (table_map sample_renamed) ''t'' = Some (sample_parent\<lparr>tbl_name := ''n'', tbl_keys := [sample_wider_key]\<rparr>)"
  "map_of (by_id key_id (tbl_keys sample_parent)) ''k'' = Some sample_old_key"
  "map_of (by_id key_id [sample_wider_key]) ''k'' \<noteq> Some sample_old_key"
  by code_simp+

lemma sample_input_simps [simp]:
  "in_live (sample_input d) = sample_live" "in_desired (sample_input d) = d" "in_namespace (sample_input d) = ''s''"
  by (simp_all add: sample_input_def)

theorem validated_design_planned_witness:
  "\<exists>ss ws. compile_migration_steps (sample_input sample_extended) [''t''] [''t''] = Some (ss, ws)"
proof (rule validated_design_planned)
  show "validate_design_content (\<lambda>_. None) (\<lambda>_. None) (in_desired (sample_input sample_extended)) = None" by code_simp
  show "\<forall>r\<in>set (content_relationships (in_live (sample_input sample_extended))).
      rel_source_table_id r \<in> tbl_id ` set (content_tables (in_live (sample_input sample_extended)))"
    by (simp add: sample_live_def empty_design_content_def)
qed

theorem plan_steps_ordered_witness:
  "\<exists>qs pending. plan_migration (sample_input sample_renamed) [] [] = Some (pending, []) \<and> length qs = 3
    \<and> sorted (map step_key qs) \<and> statement_key ` set qs = statement_key ` set pending"
proof -
  obtain ss where s: "compile_migration_steps (sample_input sample_renamed) [] [] = Some (ss, [])" "length ss = 3"
    by (rule sample_renamed_compiled)
  from plan_steps_ordered[OF s(1)] s(2) show ?thesis by auto
qed

theorem harmless_plan_keeps_objects_witness:
  "\<exists>after. map_of (table_map sample_extended) ''t'' = Some after \<and> {''c'', ''d''} \<subseteq> col_id ` set (tbl_columns after)"
proof -
  obtain ss where s: "compile_migration_steps (sample_input sample_extended) [] [] = Some (ss, [])" "\<forall>s\<in>set ss. \<not> st_destructive s"
    by (rule sample_extended_compiled)
  have "col_id ` set (tbl_columns sample_parent) = {''c'', ''d''}" by (simp add: sample_parent_def sample_column_def)
  with harmless_plan_keeps_objects[OF s] sample_lookups(1) show ?thesis by fastforce
qed

theorem table_before_relationship_witness:
  "\<exists>i j (ss :: migration_step list). i < j \<and> j < length ss
    \<and> create_table ''s'' sample_child (column_map sample_extended) = Some (st_sql (ss ! i))
    \<and> relationship_sql ''s'' sample_link (table_map sample_extended) (column_map sample_extended) = Some (st_sql (ss ! j))"
proof -
  obtain ss where s: "compile_migration_steps (sample_input sample_extended) [] [] = Some (ss, [])"
    by (rule sample_extended_compiled)
  have "''u'' \<in> {rel_source_table_id sample_link, rel_target_table_id sample_link}" by (simp add: sample_link_def)
  from table_before_relationship[OF s, unfolded sample_input_simps, OF sample_lookups(4,5) this sample_lookups(2,3)]
  show ?thesis by blast
qed

theorem key_drop_precedes_rename_witness:
  "\<exists>i j (ss :: migration_step list). i < j \<and> j < length ss
    \<and> st_sql (ss ! i) = drop_constraint ''s'' ''n'' ''pk''
    \<and> st_sql (ss ! j) = ''ALTER TABLE '' @ qualified_name ''s'' ''a'' @ '' RENAME TO '' @ quote ''n'' @ '';''"
proof -
  obtain ss where s: "compile_migration_steps (sample_input sample_renamed) [] [] = Some (ss, [])"
    by (rule sample_renamed_compiled)
  have "tbl_name sample_parent = ''a''" "key_name sample_old_key = ''pk''" by (simp_all add: sample_parent_def sample_old_key_def)
  with key_drop_precedes_rename[OF s, unfolded sample_input_simps, OF sample_lookups(1,6), of "''k''" sample_old_key]
    sample_lookups(7,8) show ?thesis by fastforce
qed

end
