(* ===== verification/Connection_Capacity.thy ===== *)
theory Connection_Capacity
  imports Schemii_Prelude "HOL-Library.Multiset"
begin

text \<open>
  Admission of connections, \<open>_ConnectionCapacity\<close> and \<open>_LeasedConnection\<close> of \<open>common/postgres/gateway.py\<close>, and
  the way \<open>_connect\<close> uses them: a permit is acquired, the driver opens the connection or fails, and an
  open connection is a lease that gives its permit back once, when it is closed.

  The counters are protected by a condition, so every method body of \<open>_ConnectionCapacity\<close> is one step.
  Closing a lease is not protected by it: \<open>close\<close> marks the lease, closes the driver's connection and
  releases the permit afterwards. It is two steps here, \<open>closing\<close> and \<open>released\<close>, and other threads can run
  between them. Testing and setting the mark of one lease is one step, which is how the code behaves as
  long as two threads do not close the same lease at the same moment; the source does not protect that.

  Threads interleave between these steps: \<open>lane_step\<close> has one rule per step of a thread. A blocking
  \<open>acquire\<close> is \<open>acquire\<close> below, which tries again after every wait, with what other threads did meanwhile
  as its argument.
\<close>

section \<open>Counters\<close>

record capacity =
  cap_maximum_total :: int
  cap_maximum_per_identity :: int
  cap_total :: int
  cap_connected :: int
  cap_by_identity :: "(string, int) dict"
  cap_retained_total :: int
  cap_retained_by_identity :: "(string, int) dict"

definition new_capacity :: "int \<Rightarrow> int \<Rightarrow> capacity" where
  "new_capacity maximum_total maximum_per_identity =
     \<lparr>cap_maximum_total = maximum_total, cap_maximum_per_identity = maximum_per_identity, cap_total = 0, cap_connected = 0,
      cap_by_identity = [], cap_retained_total = 0, cap_retained_by_identity = []\<rparr>"

definition count_of :: "(string, int) dict \<Rightarrow> string \<Rightarrow> int" where
  "count_of counts identity = (case map_of counts identity of None \<Rightarrow> 0 | Some n \<Rightarrow> n)"

type_synonym reached = "string \<times> int \<times> int"

definition retained_per_identity :: "capacity \<Rightarrow> int" where
  "retained_per_identity c = max 1 (cap_maximum_per_identity c - 1)"

definition retained_maximum :: "capacity \<Rightarrow> int" where
  "retained_maximum c = max 1 (cap_maximum_total c - 1)"

definition limit_reached :: "string \<Rightarrow> bool \<Rightarrow> capacity \<Rightarrow> reached option" where
  "limit_reached identity retained c =
     (let identity_count = count_of (cap_by_identity c) identity;
          retained_identity = count_of (cap_retained_by_identity c) identity in
      if identity_count \<ge> cap_maximum_per_identity c
      then Some (''postgres.connections.maximum_per_identity'', cap_maximum_per_identity c, identity_count)
      else if cap_total c \<ge> cap_maximum_total c
      then Some (''postgres.connections.maximum_total'', cap_maximum_total c, cap_total c)
      else if retained \<and> retained_identity \<ge> retained_per_identity c
      then Some (''postgres.connections.maximum_per_identity'', retained_per_identity c, retained_identity)
      else if retained \<and> cap_retained_total c \<ge> retained_maximum c
      then Some (''postgres.connections.maximum_total'', retained_maximum c, cap_retained_total c)
      else None)"

definition take_permit :: "string \<Rightarrow> bool \<Rightarrow> capacity \<Rightarrow> capacity" where
  "take_permit identity retained c =
     (let c1 = c\<lparr>cap_total := cap_total c + 1,
            cap_by_identity := AList.update identity (count_of (cap_by_identity c) identity + 1) (cap_by_identity c)\<rparr> in
      if retained
      then c1\<lparr>cap_retained_total := cap_retained_total c + 1,
             cap_retained_by_identity := AList.update identity (count_of (cap_retained_by_identity c) identity + 1)
               (cap_retained_by_identity c)\<rparr>
      else c1)"

text \<open>
  The loop of \<open>acquire\<close>: the list holds what other threads do during the waits that end before the
  deadline; when it is exhausted the deadline has passed and the limit is reported.
\<close>

fun acquire :: "(capacity \<Rightarrow> capacity) list \<Rightarrow> string \<Rightarrow> bool \<Rightarrow> capacity \<Rightarrow> reached option \<times> capacity" where
  "acquire waits identity retained c =
     (case limit_reached identity retained c of
        None \<Rightarrow> (None, take_permit identity retained c)
      | Some reached \<Rightarrow> (case waits of [] \<Rightarrow> (Some reached, c) | others # rest \<Rightarrow> acquire rest identity retained (others c)))"

declare acquire.simps [simp del]

definition capacity_snapshot :: "capacity \<Rightarrow> (string \<times> int) list" where
  "capacity_snapshot c =
     [(''permits'', cap_total c), (''retainedPermits'', cap_retained_total c), (''ordinaryPermits'', cap_total c - cap_retained_total c),
      (''connections'', cap_connected c), (''maximum'', cap_maximum_total c), (''maximumPerProfileRevision'', cap_maximum_per_identity c)]"

definition connected :: "capacity \<Rightarrow> capacity" where
  "connected c = c\<lparr>cap_connected := cap_connected c + 1\<rparr>"

definition decrement :: "string \<Rightarrow> (string, int) dict \<Rightarrow> (string, int) dict" where
  "decrement identity counts =
     (if count_of counts identity \<le> 1 then AList.delete identity counts
      else AList.update identity (count_of counts identity - 1) counts)"

definition release :: "string \<Rightarrow> bool \<Rightarrow> bool \<Rightarrow> capacity \<Rightarrow> capacity" where
  "release identity retained was_connected c =
     (if count_of (cap_by_identity c) identity \<le> 0 then c
      else let c1 = c\<lparr>cap_total := cap_total c - 1,
                 cap_connected := cap_connected c - (if was_connected then 1 else 0),
                 cap_by_identity := decrement identity (cap_by_identity c)\<rparr> in
        if retained
        then c1\<lparr>cap_retained_total := cap_retained_total c - 1,
               cap_retained_by_identity := decrement identity (cap_retained_by_identity c)\<rparr>
        else c1)"

section \<open>Leases\<close>

record leased_connection =
  lc_identity :: string
  lc_retained :: bool
  lc_closed :: bool

text \<open>A permit is an identity and whether it is retained.\<close>

type_synonym permit = "string \<times> bool"

definition permit_of :: "leased_connection \<Rightarrow> permit" where
  "permit_of l = (lc_identity l, lc_retained l)"

text \<open>
  The start of \<open>close\<close>: nothing for a lease that is closed already, otherwise the lease is marked and its
  permit is to be released when the driver's \<open>close\<close> has returned or raised.
\<close>

definition begin_close :: "leased_connection \<Rightarrow> leased_connection \<times> permit option" where
  "begin_close l = (if lc_closed l then (l, None) else (l\<lparr>lc_closed := True\<rparr>, Some (permit_of l)))"

text \<open>
  One admission lane with its threads: the permits of threads inside the driver's \<open>connect\<close>, the leases
  handed out, and the permits of threads inside the driver's \<open>close\<close>.
\<close>

record lane =
  ln_capacity :: capacity
  ln_opening :: "permit multiset"
  ln_leases :: "leased_connection list"
  ln_closing :: "permit multiset"

inductive lane_step :: "lane \<Rightarrow> lane \<Rightarrow> bool" where
  admitted: "acquire [] identity retained (ln_capacity s) = (None, c) \<Longrightarrow>
    lane_step s (s\<lparr>ln_capacity := c, ln_opening := add_mset (identity, retained) (ln_opening s)\<rparr>)"
| refused: "acquire [] identity retained (ln_capacity s) = (Some reached, c) \<Longrightarrow>
    lane_step s (s\<lparr>ln_capacity := c\<rparr>)"
| opened: "(identity, retained) \<in># ln_opening s \<Longrightarrow>
    lane_step s (s\<lparr>ln_capacity := connected (ln_capacity s), ln_opening := ln_opening s - {#(identity, retained)#},
      ln_leases := ln_leases s @ [\<lparr>lc_identity = identity, lc_retained = retained, lc_closed = False\<rparr>]\<rparr>)"
| failed: "(identity, retained) \<in># ln_opening s \<Longrightarrow>
    lane_step s (s\<lparr>ln_capacity := release identity retained False (ln_capacity s),
      ln_opening := ln_opening s - {#(identity, retained)#}\<rparr>)"
| closing: "i < length (ln_leases s) \<Longrightarrow> begin_close (ln_leases s ! i) = (l, Some permit) \<Longrightarrow>
    lane_step s (s\<lparr>ln_leases := (ln_leases s)[i := l], ln_closing := add_mset permit (ln_closing s)\<rparr>)"
| closed_before: "i < length (ln_leases s) \<Longrightarrow> begin_close (ln_leases s ! i) = (l, None) \<Longrightarrow>
    lane_step s (s\<lparr>ln_leases := (ln_leases s)[i := l]\<rparr>)"
| released: "(identity, retained) \<in># ln_closing s \<Longrightarrow>
    lane_step s (s\<lparr>ln_capacity := release identity retained True (ln_capacity s),
      ln_closing := ln_closing s - {#(identity, retained)#}\<rparr>)"

definition new_lane :: "int \<Rightarrow> int \<Rightarrow> lane" where
  "new_lane maximum_total maximum_per_identity =
     \<lparr>ln_capacity = new_capacity maximum_total maximum_per_identity, ln_opening = {#}, ln_leases = [], ln_closing = {#}\<rparr>"

inductive lane_reachable :: "int \<Rightarrow> int \<Rightarrow> lane \<Rightarrow> bool" for maximum_total maximum_per_identity where
  start: "lane_reachable maximum_total maximum_per_identity (new_lane maximum_total maximum_per_identity)"
| step: "lane_reachable maximum_total maximum_per_identity s \<Longrightarrow> lane_step s s' \<Longrightarrow>
    lane_reachable maximum_total maximum_per_identity s'"

section \<open>The counters count\<close>

definition open_leases :: "lane \<Rightarrow> leased_connection list" where
  "open_leases s = filter (\<lambda>l. \<not> lc_closed l) (ln_leases s)"

definition permits :: "lane \<Rightarrow> permit multiset" where
  "permits s = ln_opening s + mset (map permit_of (open_leases s)) + ln_closing s"

definition permits_of :: "string \<Rightarrow> permit multiset \<Rightarrow> permit multiset" where
  "permits_of identity M = filter_mset (\<lambda>p. fst p = identity) M"

definition accounts :: "capacity \<Rightarrow> permit multiset \<Rightarrow> bool" where
  "accounts c M =
     (cap_total c = int (size M) \<and> cap_retained_total c = int (size (filter_mset snd M))
      \<and> (\<forall>i. count_of (cap_by_identity c) i = int (size (permits_of i M)))
      \<and> (\<forall>i. count_of (cap_retained_by_identity c) i = int (size (filter_mset snd (permits_of i M)))))"

definition within_limits :: "capacity \<Rightarrow> bool" where
  "within_limits c =
     (cap_total c \<le> cap_maximum_total c \<and> cap_retained_total c \<le> retained_maximum c
      \<and> (\<forall>i. count_of (cap_by_identity c) i \<le> cap_maximum_per_identity c
            \<and> count_of (cap_retained_by_identity c) i \<le> retained_per_identity c))"

lemma count_of_update [simp]: "count_of (AList.update k n d) i = (if i = k then n else count_of d i)"
  by (simp add: count_of_def)

lemma count_of_decrement [simp]: "0 < count_of d k \<Longrightarrow> count_of (decrement k d) i = count_of d i - (if i = k then 1 else 0)"
  by (auto simp: count_of_def decrement_def delete_conv' split: option.splits)

lemma take_permit_simps [simp]:
  "cap_maximum_total (take_permit i r c) = cap_maximum_total c"
  "cap_maximum_per_identity (take_permit i r c) = cap_maximum_per_identity c"
  "cap_connected (take_permit i r c) = cap_connected c"
  "cap_total (take_permit i r c) = cap_total c + 1"
  "cap_retained_total (take_permit i r c) = cap_retained_total c + (if r then 1 else 0)"
  "count_of (cap_by_identity (take_permit i r c)) j = count_of (cap_by_identity c) j + (if j = i then 1 else 0)"
  "count_of (cap_retained_by_identity (take_permit i r c)) j = count_of (cap_retained_by_identity c) j + (if j = i \<and> r then 1 else 0)"
  by (simp_all add: take_permit_def Let_def)

lemma release_simps [simp]:
  assumes "0 < count_of (cap_by_identity c) i"
  shows "cap_maximum_total (release i r b c) = cap_maximum_total c"
    and "cap_maximum_per_identity (release i r b c) = cap_maximum_per_identity c"
    and "cap_connected (release i r b c) = cap_connected c - (if b then 1 else 0)"
    and "cap_total (release i r b c) = cap_total c - 1"
    and "cap_retained_total (release i r b c) = cap_retained_total c - (if r then 1 else 0)"
    and "count_of (cap_by_identity (release i r b c)) j = count_of (cap_by_identity c) j - (if j = i then 1 else 0)"
    and "(r \<Longrightarrow> 0 < count_of (cap_retained_by_identity c) i) \<Longrightarrow>
      count_of (cap_retained_by_identity (release i r b c)) j = count_of (cap_retained_by_identity c) j - (if j = i \<and> r then 1 else 0)"
  using assms by (simp_all add: release_def Let_def)

lemma accounts_take: "accounts c M \<Longrightarrow> accounts (take_permit i r c) (add_mset (i, r) M)"
  by (simp add: accounts_def permits_of_def)

lemma accounts_member:
  assumes "accounts c M" "(i, r) \<in># M"
  shows "0 < count_of (cap_by_identity c) i" "r \<Longrightarrow> 0 < count_of (cap_retained_by_identity c) i"
proof -
  have "(i, r) \<in># permits_of i M" "r \<Longrightarrow> (i, r) \<in># filter_mset snd (permits_of i M)"
    using assms(2) by (simp_all add: permits_of_def)
  then show "0 < count_of (cap_by_identity c) i" "r \<Longrightarrow> 0 < count_of (cap_retained_by_identity c) i"
    using assms(1) by (auto simp: accounts_def nonempty_has_size[symmetric])
qed

lemma accounts_release:
  assumes "accounts c M" "(i, r) \<in># M"
  shows "accounts (release i r b c) (M - {#(i, r)#})"
proof -
  obtain N where N: "M = add_mset (i, r) N" using assms(2) by (metis insert_DiffM)
  show ?thesis using assms accounts_member[OF assms] by (simp add: accounts_def permits_of_def N)
qed

definition lane_inv :: "int \<Rightarrow> int \<Rightarrow> lane \<Rightarrow> bool" where
  "lane_inv mt mi s =
     (cap_maximum_total (ln_capacity s) = mt \<and> cap_maximum_per_identity (ln_capacity s) = mi
      \<and> accounts (ln_capacity s) (permits s) \<and> cap_connected (ln_capacity s) = int (length (open_leases s) + size (ln_closing s))
      \<and> within_limits (ln_capacity s))"

lemma acquired:
  "acquire [] i r c = (None, c') \<longleftrightarrow> limit_reached i r c = None \<and> c' = take_permit i r c"
  "acquire [] i r c = (Some e, c') \<longleftrightarrow> limit_reached i r c = Some e \<and> c' = c"
  by (auto simp: acquire.simps[of "[]"] split: option.splits)

lemma limits_take:
  assumes "within_limits c" "limit_reached i r c = None"
  shows "within_limits (take_permit i r c)"
  using assms by (auto simp: within_limits_def limit_reached_def Let_def retained_maximum_def retained_per_identity_def
      split: if_splits)

lemma limits_release:
  assumes "within_limits c" "accounts c M" "(i, r) \<in># M"
  shows "within_limits (release i r b c)"
  using assms(1) accounts_member[OF assms(2,3)]
  by (auto simp: within_limits_def retained_maximum_def retained_per_identity_def) (smt (verit))+

lemma lease_closed:
  assumes "i < length xs" "\<not> lc_closed (xs ! i)" "lc_closed l"
  shows "mset (map permit_of (filter (\<lambda>l. \<not> lc_closed l) (xs[i := l])))
      = mset (map permit_of (filter (\<lambda>l. \<not> lc_closed l) xs)) - {#permit_of (xs ! i)#}"
    and "length (filter (\<lambda>l. \<not> lc_closed l) xs) = Suc (length (filter (\<lambda>l. \<not> lc_closed l) (xs[i := l])))"
    and "permit_of (xs ! i) \<in># mset (map permit_of (filter (\<lambda>l. \<not> lc_closed l) xs))"
proof -
  obtain as bs where xs: "xs = as @ xs ! i # bs" "length as = i" by (metis assms(1) id_take_nth_drop length_take less_imp_le min.absorb2)
  then have u: "xs[i := l] = as @ l # bs" by (metis list_update_length)
  have f: "filter (\<lambda>l. \<not> lc_closed l) xs = filter (\<lambda>l. \<not> lc_closed l) as @ xs ! i # filter (\<lambda>l. \<not> lc_closed l) bs"
    by (subst xs(1)) (simp add: assms(2))
  show "mset (map permit_of (filter (\<lambda>l. \<not> lc_closed l) (xs[i := l])))
      = mset (map permit_of (filter (\<lambda>l. \<not> lc_closed l) xs)) - {#permit_of (xs ! i)#}"
    unfolding f u using assms(3) by simp
  show "length (filter (\<lambda>l. \<not> lc_closed l) xs) = Suc (length (filter (\<lambda>l. \<not> lc_closed l) (xs[i := l])))"
    unfolding f u using assms(3) by simp
  show "permit_of (xs ! i) \<in># mset (map permit_of (filter (\<lambda>l. \<not> lc_closed l) xs))"
    unfolding f by simp
qed

lemma lane_inv_start: "1 \<le> mi \<Longrightarrow> mi \<le> mt \<Longrightarrow> lane_inv mt mi (new_lane mt mi)"
  by (simp add: lane_inv_def new_lane_def new_capacity_def accounts_def permits_def open_leases_def permits_of_def
      within_limits_def count_of_def retained_maximum_def retained_per_identity_def max_def)

lemma lane_inv_step: "lane_step s s' \<Longrightarrow> lane_inv mt mi s \<Longrightarrow> lane_inv mt mi s'"
proof (induction rule: lane_step.induct)
  case (admitted identity retained s c)
  then show ?case
    by (auto simp: lane_inv_def acquired permits_def open_leases_def intro: limits_take dest: accounts_take)
next
  case (refused identity retained s reached c)
  then show ?case by (simp add: lane_inv_def acquired permits_def open_leases_def)
next
  case (opened identity retained s)
  then show ?case
    by (auto simp: lane_inv_def connected_def permits_def open_leases_def permit_of_def accounts_def within_limits_def
        retained_maximum_def retained_per_identity_def)
next
  case (failed identity retained s)
  then have p: "accounts (ln_capacity s) (permits s)" "(identity, retained) \<in># permits s" "within_limits (ln_capacity s)"
    by (auto simp: lane_inv_def permits_def)
  then show ?case
    using failed accounts_release[OF p(1,2), of False] limits_release[OF p(3,1,2)] accounts_member[OF p(1,2)]
    by (simp add: lane_inv_def permits_def open_leases_def)
next
  case (closing i s l permit)
  let ?l = "ln_leases s ! i"
  have l: "\<not> lc_closed ?l" "lc_closed l" "permit = permit_of ?l" using closing by (auto simp: begin_close_def split: if_splits)
  note m = lease_closed[OF closing(1) l(1,2)]
  obtain M where M: "mset (map permit_of (open_leases s)) = add_mset (permit_of ?l) M"
    using m(3) unfolding open_leases_def by (metis insert_DiffM)
  show ?case using closing(3) m(1,2) M by (simp add: lane_inv_def permits_def open_leases_def l(3))
next
  case (closed_before i s l)
  then have "l = ln_leases s ! i" by (auto simp: begin_close_def split: if_splits)
  with closed_before show ?case by simp
next
  case (released identity retained s)
  then have p: "accounts (ln_capacity s) (permits s)" "(identity, retained) \<in># permits s" "within_limits (ln_capacity s)"
    by (auto simp: lane_inv_def permits_def)
  obtain M where M: "ln_closing s = add_mset (identity, retained) M" using released(1) by (metis insert_DiffM)
  show ?case
    using released accounts_release[OF p(1,2), of True] limits_release[OF p(3,1,2)] accounts_member[OF p(1,2)]
    by (simp add: lane_inv_def permits_def open_leases_def M)
qed

lemma lane_reachable_inv: "lane_reachable mt mi s \<Longrightarrow> 1 \<le> mi \<Longrightarrow> mi \<le> mt \<Longrightarrow> lane_inv mt mi s"
  by (induction rule: lane_reachable.induct) (auto intro: lane_inv_start lane_inv_step)

text \<open>
  C19. However threads interleave, the counters of an admission lane count the permits in use and the
  connections that are open or being closed, in total, per identity and for retained sessions; no limit
  is ever exceeded. No two threads close the same lease at the same moment.
\<close>

theorem capacity_counts_permits:
  assumes "lane_reachable maximum_total maximum_per_identity s"
    and "1 \<le> maximum_per_identity" "maximum_per_identity \<le> maximum_total"
  shows "accounts (ln_capacity s) (permits s) \<and> cap_connected (ln_capacity s) = int (length (open_leases s) + size (ln_closing s))
    \<and> int (size (permits s)) \<le> maximum_total
    \<and> (\<forall>i. int (size (permits_of i (permits s))) \<le> maximum_per_identity)
    \<and> int (size (filter_mset snd (permits s))) \<le> max 1 (maximum_total - 1)"
  using lane_reachable_inv[OF assms] by (auto simp: lane_inv_def accounts_def within_limits_def retained_maximum_def)

text \<open>
  C39. Retained sessions never use up a lane: when only retained sessions hold permits, ordinary work is
  admitted at once, for every identity, in every lane that has at least two connections per identity.
\<close>

theorem ordinary_work_admitted:
  assumes "lane_reachable maximum_total maximum_per_identity s"
    and "2 \<le> maximum_per_identity" "maximum_per_identity \<le> maximum_total" "\<forall>p\<in>#permits s. snd p"
  shows "acquire [] identity False (ln_capacity s) = (None, take_permit identity False (ln_capacity s))"
proof -
  have inv: "lane_inv maximum_total maximum_per_identity s" using assms(1-3) by (intro lane_reachable_inv) auto
  have "filter_mset snd (permits s) = permits s" using assms(4) by (auto simp: filter_mset_eq_conv)
  moreover have "filter_mset snd (permits_of identity (permits s)) = permits_of identity (permits s)"
    using assms(4) by (auto simp: permits_of_def filter_mset_eq_conv)
  ultimately have "cap_total (ln_capacity s) \<le> max 1 (maximum_total - 1)"
      "count_of (cap_by_identity (ln_capacity s)) identity \<le> max 1 (maximum_per_identity - 1)"
    using inv by (auto simp: lane_inv_def accounts_def within_limits_def retained_maximum_def retained_per_identity_def dest!: spec[of _ identity])
  with inv assms(2,3) show ?thesis by (auto simp: acquired limit_reached_def lane_inv_def Let_def)
qed

definition sample_lane :: lane where
  "sample_lane = \<lparr>ln_capacity = take_permit ''c:1'' True (new_capacity 2 2), ln_opening = {#(''c:1'', True)#},
     ln_leases = [], ln_closing = {#}\<rparr>"

lemma sample_lane_reachable: "lane_reachable 2 2 sample_lane"
proof -
  have "acquire [] ''c:1'' True (ln_capacity (new_lane 2 2)) = (None, take_permit ''c:1'' True (new_capacity 2 2))"
    by code_simp
  from lane_reachable.step[OF lane_reachable.start lane_step.admitted[OF this]]
  show ?thesis by (simp add: sample_lane_def new_lane_def)
qed

theorem capacity_counts_permits_witness: "accounts (ln_capacity sample_lane) {#(''c:1'', True)#}"
  using capacity_counts_permits[OF sample_lane_reachable]
  by (simp add: sample_lane_def permits_def open_leases_def)

theorem ordinary_work_admitted_witness: "fst (acquire [] ''c:1'' False (ln_capacity sample_lane)) = None"
proof -
  have "acquire [] ''c:1'' False (ln_capacity sample_lane) = (None, take_permit ''c:1'' False (ln_capacity sample_lane))"
    by (rule ordinary_work_admitted[OF sample_lane_reachable]) (auto simp: sample_lane_def permits_def open_leases_def)
  then show ?thesis by simp
qed

end
