(* ===== verification/Console_Store.thy ===== *)
theory Console_Store
  imports Schemii_Prelude
begin

text \<open>
  The repository of the SQL console, \<open>InMemoryConsoleRepository\<close> of \<open>schemii/console/repository.py\<close>:
  executions with their results and page cursors, explicit transactions, preferences, query history
  and saved queries. Every method holds the repository's lock, so it is one function on the state.

  Tokens of \<open>secrets.token_hex\<close> are arguments (\<open>token\<close>, one per identifier drawn).
\<close>

section \<open>Records\<close>

datatype console_status =
    ConsoleReserved | ConsoleRunning | ConsoleSucceeded | ConsoleFailed | ConsoleCancelled | PartialCommitted | ConsoleUncertain

datatype console_transaction_status =
    TransactionOpen | TransactionCommitted | TransactionRolledBack | TransactionExpired | TransactionFailed | TransactionUncertain

record console_target =
  ct_connection_id :: string
  ct_connection_revision :: nat
  ct_database :: string
  ct_namespace :: string
  ct_connection_owner_id :: "string option"

record result_column =
  rc_name :: string
  rc_data_type :: string

record result_summary =
  rs_id :: string
  rs_statement_index :: nat
  rs_command :: string
  rs_columns :: "result_column list"
  rs_row_count :: "nat option"
  rs_has_more :: bool
  rs_replayable :: bool

record console_execution =
  ce_id :: string
  ce_revision :: nat
  ce_workspace_id :: "string option"
  ce_console_id :: string
  ce_transaction_id :: "string option"
  ce_status :: console_status
  ce_completed_statement_indexes :: "nat list"
  ce_results :: "result_summary list"
  ce_error_code :: "string option"
  ce_error_message :: "string option"
  ce_error_statement_index :: "nat option"
  ce_created_at :: instant
  ce_updated_at :: instant

record console_record =
  cn_owner_id :: string
  cn_execution :: console_execution
  cn_workspace_revision :: "nat option"
  cn_target :: console_target
  cn_statements :: "string list"
  cn_page_size :: nat
  cn_backend_pid :: "int option"
  cn_cancel_requested :: bool

record console_transaction =
  tr_id :: string
  tr_workspace_id :: string
  tr_console_id :: string
  tr_revision :: nat
  tr_status :: console_transaction_status
  tr_execution_ids :: "string list"
  tr_created_at :: instant
  tr_updated_at :: instant
  tr_expires_at :: instant

record transaction_record =
  tn_owner_id :: string
  tn_transaction :: console_transaction
  tn_workspace_revision :: nat
  tn_target :: console_target
  tn_backend_pid :: int
  tn_maximum_expires_at :: instant

text \<open>The rows of a result are opaque; only their number matters here.\<close>

record query_result =
  qr_statement_index :: nat
  qr_command :: string
  qr_columns :: "result_column list"
  qr_rows :: "string list list"
  qr_truncated :: bool
  qr_row_count :: "nat option"
  qr_replayable :: bool

record stored_result =
  sr_id :: string
  sr_execution_id :: string
  sr_statement_index :: nat
  sr_command :: string
  sr_columns :: "result_column list"
  sr_row_count :: "nat option"
  sr_truncated :: bool
  sr_replayable :: bool
  sr_expires_at :: instant
  sr_closed_at :: "instant option"

record saved_query =
  sq_id :: string
  sq_workspace_id :: string
  sq_revision :: nat
  sq_name :: string
  sq_sql :: string
  sq_starter :: bool
  sq_created_at :: instant
  sq_updated_at :: instant

record history_item =
  hi_owner_id :: string
  hi_workspace_id :: string
  hi_sql :: string
  hi_ran_at :: instant

record console_repo =
  cp_records :: "(string, console_record) dict"
  cp_transactions :: "(string, transaction_record) dict"
  cp_results :: "(string, stored_result) dict"
  cp_cursors :: "(string, string \<times> nat \<times> instant \<times> bool) dict"
  cp_saved_queries :: "(string, string \<times> saved_query) dict"
  cp_history :: "history_item list"
  cp_settings :: "(string, nat \<times> nat) dict"

definition empty_console :: console_repo where
  "empty_console = \<lparr>cp_records = [], cp_transactions = [], cp_results = [], cp_cursors = [], cp_saved_queries = [],
     cp_history = [], cp_settings = []\<rparr>"

datatype console_error =
    ConsoleNotFound
  | ConsoleConflict string
  | ConsoleResultGone
  | ConsoleLimitReached string nat nat
  | ConsoleValueError

type_synonym 'a console_call = "console_repo \<Rightarrow> (console_error, 'a) result \<times> console_repo"

section \<open>Preferences\<close>

definition console_settings :: "string \<Rightarrow> console_repo \<Rightarrow> nat \<times> nat option" where
  "console_settings owner_id repo =
     (case map_of (cp_settings repo) owner_id of None \<Rightarrow> (1, None) | Some (revision, page_size) \<Rightarrow> (revision, Some page_size))"

definition update_settings :: "string \<Rightarrow> nat \<Rightarrow> nat \<Rightarrow> unit console_call" where
  "update_settings owner_id revision page_size repo =
     (if fst (console_settings owner_id repo) \<noteq> revision then (Inl (ConsoleConflict ''console_settings_changed''), repo)
      else (Inr (), repo\<lparr>cp_settings := AList.update owner_id (revision + 1, page_size) (cp_settings repo)\<rparr>))"

section \<open>Records and transactions by id\<close>

definition find_record :: "string \<Rightarrow> string \<Rightarrow> console_repo \<Rightarrow> (console_error, console_record) result" where
  "find_record owner_id execution_id repo =
     (case map_of (cp_records repo) execution_id of
        None \<Rightarrow> Inl ConsoleNotFound
      | Some r \<Rightarrow> if cn_owner_id r \<noteq> owner_id then Inl ConsoleNotFound else Inr r)"

definition find_transaction :: "string \<Rightarrow> string \<Rightarrow> console_repo \<Rightarrow> (console_error, transaction_record) result" where
  "find_transaction owner_id transaction_id repo =
     (case map_of (cp_transactions repo) transaction_id of
        None \<Rightarrow> Inl ConsoleNotFound
      | Some r \<Rightarrow> if tn_owner_id r \<noteq> owner_id then Inl ConsoleNotFound else Inr r)"

definition find_result :: "string \<Rightarrow> string \<Rightarrow> instant \<Rightarrow> console_repo \<Rightarrow> (console_error, stored_result) result" where
  "find_result execution_id result_id now repo =
     (case map_of (cp_results repo) result_id of
        None \<Rightarrow> Inl ConsoleResultGone
      | Some r \<Rightarrow> if sr_execution_id r \<noteq> execution_id \<or> sr_closed_at r \<noteq> None \<or> sr_expires_at r \<le> now
                  then Inl ConsoleResultGone else Inr r)"

definition put_record :: "string \<Rightarrow> console_record \<Rightarrow> console_repo \<Rightarrow> console_repo" where
  "put_record i r repo = repo\<lparr>cp_records := AList.update i r (cp_records repo)\<rparr>"

definition put_transaction :: "string \<Rightarrow> transaction_record \<Rightarrow> console_repo \<Rightarrow> console_repo" where
  "put_transaction i r repo = repo\<lparr>cp_transactions := AList.update i r (cp_transactions repo)\<rparr>"

text \<open>\<open>_execution\<close>: the next version of an execution with a status, its results and its error.\<close>

definition next_execution ::
  "console_record \<Rightarrow> console_status \<Rightarrow> instant \<Rightarrow> result_summary list option \<Rightarrow> (string \<times> string) option \<Rightarrow> nat option \<Rightarrow> console_execution" where
  "next_execution record status now results err statement_index = (cn_execution record)\<lparr>
     ce_revision := ce_revision (cn_execution record) + 1, ce_status := status,
     ce_completed_statement_indexes := (case results of Some rs \<Rightarrow> map rs_statement_index rs | None \<Rightarrow> []),
     ce_results := (case results of Some rs \<Rightarrow> rs | None \<Rightarrow> []),
     ce_error_code := map_option fst err, ce_error_message := map_option snd err,
     ce_error_statement_index := statement_index, ce_updated_at := now\<rparr>"

definition active :: "console_record \<Rightarrow> bool" where
  "active r = (ce_status (cn_execution r) \<in> {ConsoleReserved, ConsoleRunning})"

definition unfinished :: "transaction_record \<Rightarrow> bool" where
  "unfinished r = (tr_status (tn_transaction r) \<in> {TransactionOpen, TransactionFailed})"

definition move_transaction :: "transaction_record \<Rightarrow> console_transaction_status \<Rightarrow> instant \<Rightarrow> transaction_record" where
  "move_transaction r status now = r\<lparr>tn_transaction := (tn_transaction r)\<lparr>
     tr_revision := tr_revision (tn_transaction r) + 1, tr_status := status, tr_updated_at := now\<rparr>\<rparr>"

definition end_transaction :: "transaction_record \<Rightarrow> console_transaction_status \<Rightarrow> instant \<Rightarrow> transaction_record" where
  "end_transaction r status now = (let moved = move_transaction r status now in
     moved\<lparr>tn_transaction := (tn_transaction moved)\<lparr>tr_expires_at := now\<rparr>\<rparr>)"

section \<open>Recovery and pruning\<close>

definition recover_interrupted :: "instant \<Rightarrow> console_repo \<Rightarrow> console_repo" where
  "recover_interrupted now repo = repo\<lparr>cp_records := map (\<lambda>(i, r).
     (i, if active r
         then r\<lparr>cn_execution := next_execution r ConsoleFailed now None
                (Some (''console_execution_interrupted'', ''Console execution stopped before producing a result'')) None\<rparr>
         else r)) (cp_records repo)\<rparr>"

definition recover_transactions :: "instant \<Rightarrow> console_repo \<Rightarrow> console_repo" where
  "recover_transactions now repo = repo\<lparr>cp_transactions := map (\<lambda>(i, r).
     (i, if unfinished r then end_transaction r TransactionExpired now else r)) (cp_transactions repo)\<rparr>"

definition prune_operational_receipts :: "instant \<Rightarrow> console_repo \<Rightarrow> console_repo" where
  "prune_operational_receipts before repo =
     (let stale = (\<lambda>r. \<not> active r \<and> ce_updated_at (cn_execution r) < before);
          removable = map fst (filter (stale \<circ> snd) (cp_records repo));
          kept = filter (\<lambda>(i, r). \<not> stale r) (cp_records repo);
          used = (\<lambda>i. list_ex (\<lambda>(j, r). ce_transaction_id (cn_execution r) = Some i) kept) in
      repo\<lparr>cp_records := kept,
           cp_results := filter (\<lambda>(i, r). sr_execution_id r \<notin> set removable) (cp_results repo),
           cp_transactions := filter (\<lambda>(i, r). \<not> (\<not> unfinished r \<and> tr_updated_at (tn_transaction r) < before \<and> \<not> used i))
             (cp_transactions repo)\<rparr>)"

text \<open>The newest entries per owner and workspace, newest first; \<open>sorted(..., reverse=True)\<close> is stable.\<close>

definition newest_first :: "('a \<Rightarrow> 'k::linorder) \<Rightarrow> 'a list \<Rightarrow> 'a list" where
  "newest_first f xs = rev (sort_key f (rev xs))"

definition history_key :: "history_item \<Rightarrow> string \<times> string" where
  "history_key h = (hi_owner_id h, hi_workspace_id h)"

fun keep_newest :: "nat \<Rightarrow> (string \<times> string, nat) dict \<Rightarrow> history_item list \<Rightarrow> history_item list" where
  "keep_newest limit counts [] = []"
| "keep_newest limit counts (h # hs) =
     (if dict_get counts (history_key h) 0 \<ge> limit then keep_newest limit counts hs
      else h # keep_newest limit (AList.update (history_key h) (dict_get counts (history_key h) 0 + 1) counts) hs)"

definition prune_console_history :: "nat \<Rightarrow> console_repo \<Rightarrow> console_repo" where
  "prune_console_history limit repo = repo\<lparr>cp_history :=
     (if limit = 0 then [] else keep_newest limit [] (newest_first hi_ran_at (cp_history repo)))\<rparr>"

definition purge :: "instant \<Rightarrow> console_repo \<Rightarrow> console_repo" where
  "purge now repo =
     (let expired = map fst (filter (\<lambda>(i, r). sr_expires_at r \<le> now \<or> sr_closed_at r \<noteq> None) (cp_results repo)) in
      repo\<lparr>cp_results := filter (\<lambda>(i, r). i \<notin> set expired) (cp_results repo),
           cp_cursors := filter (\<lambda>(t, (result, offset, expires_at, consumed)). result \<notin> set expired \<and> expires_at > now) (cp_cursors repo)\<rparr>)"

section \<open>Executions\<close>

record reservation =
  rv_workspace_id :: "string option"
  rv_console_id :: string
  rv_workspace_revision :: "nat option"
  rv_target :: console_target
  rv_statements :: "string list"
  rv_page_size :: nat
  rv_transaction_id :: "string option"
  rv_expected_transaction_revision :: "nat option"
  rv_transaction_expires_at :: "instant option"

definition occupies :: "string \<Rightarrow> reservation \<Rightarrow> console_record \<Rightarrow> bool" where
  "occupies owner_id request item =
     (cn_owner_id item = owner_id \<and> ce_workspace_id (cn_execution item) = rv_workspace_id request
      \<and> (rv_workspace_id request \<noteq> None \<or> ce_console_id (cn_execution item) = rv_console_id request) \<and> active item)"

text \<open>The open transaction a reservation names, as the request expects it.\<close>

definition reservation_transaction ::
  "string \<Rightarrow> reservation \<Rightarrow> console_repo \<Rightarrow> (console_error, (string \<times> transaction_record \<times> instant) option) result" where
  "reservation_transaction owner_id request repo =
     (case rv_transaction_id request of None \<Rightarrow> Inr None
      | Some i \<Rightarrow> result_bind (find_transaction owner_id i repo) (\<lambda>r.
          if Some (tr_workspace_id (tn_transaction r)) \<noteq> rv_workspace_id request then Inl ConsoleNotFound
          else if tr_status (tn_transaction r) \<noteq> TransactionOpen then Inl (ConsoleConflict ''console_transaction_not_open'')
          else if Some (tr_revision (tn_transaction r)) \<noteq> rv_expected_transaction_revision request
          then Inl (ConsoleConflict ''console_transaction_changed'')
          else case rv_transaction_expires_at request of
              None \<Rightarrow> Inl (ConsoleConflict ''console_transaction_expired'')
            | Some expires_at \<Rightarrow> Inr (Some (i, r, expires_at))))"

definition new_record :: "string \<Rightarrow> string \<Rightarrow> reservation \<Rightarrow> instant \<Rightarrow> console_record" where
  "new_record identifier owner_id request now = \<lparr>cn_owner_id = owner_id,
     cn_execution = \<lparr>ce_id = identifier, ce_revision = 1, ce_workspace_id = rv_workspace_id request,
       ce_console_id = rv_console_id request, ce_transaction_id = rv_transaction_id request, ce_status = ConsoleReserved,
       ce_completed_statement_indexes = [], ce_results = [], ce_error_code = None, ce_error_message = None,
       ce_error_statement_index = None, ce_created_at = now, ce_updated_at = now\<rparr>,
     cn_workspace_revision = rv_workspace_revision request, cn_target = rv_target request,
     cn_statements = rv_statements request, cn_page_size = rv_page_size request, cn_backend_pid = None, cn_cancel_requested = False\<rparr>"

definition extend_transaction :: "transaction_record \<Rightarrow> string \<Rightarrow> instant \<Rightarrow> instant \<Rightarrow> transaction_record" where
  "extend_transaction r identifier expires_at now = r\<lparr>tn_transaction := (tn_transaction r)\<lparr>
     tr_revision := tr_revision (tn_transaction r) + 1, tr_execution_ids := tr_execution_ids (tn_transaction r) @ [identifier],
     tr_updated_at := now, tr_expires_at := expires_at\<rparr>\<rparr>"

definition console_reserve :: "string \<Rightarrow> string \<Rightarrow> reservation \<Rightarrow> instant \<Rightarrow> console_record console_call" where
  "console_reserve token owner_id request now repo0 =
     (let repo = purge now repo0 in
      if list_ex (occupies owner_id request \<circ> snd) (cp_records repo) then (Inl (ConsoleConflict ''console_execution_active''), repo)
      else case reservation_transaction owner_id request repo of
          Inl e \<Rightarrow> (Inl e, repo)
        | Inr transaction \<Rightarrow>
            (let identifier = ''cex_'' @ token; record = new_record identifier owner_id request now;
                 repo1 = put_record identifier record repo in
             (Inr record, case transaction of None \<Rightarrow> repo1
                | Some (i, r, expires_at) \<Rightarrow> put_transaction i (extend_transaction r identifier expires_at now) repo1)))"

definition claim_execution :: "string \<Rightarrow> string \<Rightarrow> instant \<Rightarrow> console_record option console_call" where
  "claim_execution owner_id execution_id now repo =
     (case find_record owner_id execution_id repo of Inl e \<Rightarrow> (Inl e, repo)
      | Inr r \<Rightarrow>
          if ce_status (cn_execution r) \<noteq> ConsoleReserved \<or> cn_cancel_requested r then (Inr None, repo)
          else (let updated = r\<lparr>cn_execution := next_execution r ConsoleRunning now None None None\<rparr> in
                (Inr (Some updated), put_record execution_id updated repo)))"

definition touch :: "console_record \<Rightarrow> instant \<Rightarrow> console_record" where
  "touch r now = r\<lparr>cn_execution := (cn_execution r)\<lparr>ce_revision := ce_revision (cn_execution r) + 1, ce_updated_at := now\<rparr>\<rparr>"

definition publish_backend :: "string \<Rightarrow> string \<Rightarrow> int \<Rightarrow> instant \<Rightarrow> bool console_call" where
  "publish_backend owner_id execution_id backend_pid now repo =
     (case find_record owner_id execution_id repo of Inl e \<Rightarrow> (Inl e, repo)
      | Inr r \<Rightarrow>
          if ce_status (cn_execution r) \<noteq> ConsoleRunning then (Inr False, repo)
          else (let updated = (touch r now)\<lparr>cn_backend_pid := Some backend_pid\<rparr> in
                (Inr (\<not> cn_cancel_requested updated), put_record execution_id updated repo)))"

definition fail_execution ::
  "string \<Rightarrow> string \<Rightarrow> string \<times> string \<Rightarrow> nat option \<Rightarrow> bool \<Rightarrow> instant \<Rightarrow> console_record console_call" where
  "fail_execution owner_id execution_id err statement_index cancelled now repo =
     (case find_record owner_id execution_id repo of Inl e \<Rightarrow> (Inl e, repo)
      | Inr r \<Rightarrow>
          if ce_status (cn_execution r) \<in> {ConsoleSucceeded, ConsoleFailed, ConsoleCancelled} then (Inr r, repo)
          else (let updated = r\<lparr>cn_execution := next_execution r (if cancelled then ConsoleCancelled else ConsoleFailed) now None
                        (Some err) statement_index,
                      cn_backend_pid := None, cn_cancel_requested := cancelled \<or> cn_cancel_requested r\<rparr> in
                (Inr updated, put_record execution_id updated repo)))"

definition cancelled_error :: "string \<times> string" where
  "cancelled_error = (''postgres_console_cancelled'', ''Console execution was cancelled'')"

definition result_rows :: "query_result \<Rightarrow> nat option" where
  "result_rows q = (case qr_row_count q of Some n \<Rightarrow> Some n
     | None \<Rightarrow> if qr_replayable q then None else Some (length (qr_rows q)))"

definition store_result :: "string \<Rightarrow> query_result \<Rightarrow> string \<Rightarrow> instant \<Rightarrow> stored_result" where
  "store_result result_id q execution_id expires_at = \<lparr>sr_id = result_id, sr_execution_id = execution_id,
     sr_statement_index = qr_statement_index q, sr_command = qr_command q, sr_columns = qr_columns q, sr_row_count = result_rows q,
     sr_truncated = qr_truncated q, sr_replayable = qr_replayable q, sr_expires_at = expires_at, sr_closed_at = None\<rparr>"

definition summarize :: "string \<Rightarrow> query_result \<Rightarrow> nat \<Rightarrow> result_summary" where
  "summarize result_id q page_size = \<lparr>rs_id = result_id, rs_statement_index = qr_statement_index q, rs_command = qr_command q,
     rs_columns = qr_columns q, rs_row_count = result_rows q,
     rs_has_more = (case qr_row_count q of Some n \<Rightarrow> n > page_size | None \<Rightarrow> qr_replayable q), rs_replayable = qr_replayable q\<rparr>"

definition succeed_execution ::
  "(nat \<Rightarrow> string) \<Rightarrow> string \<Rightarrow> string \<Rightarrow> query_result list \<Rightarrow> instant \<Rightarrow> instant \<Rightarrow> console_record console_call" where
  "succeed_execution token owner_id execution_id results expires_at now repo =
     (case find_record owner_id execution_id repo of Inl e \<Rightarrow> (Inl e, repo)
      | Inr r \<Rightarrow>
          if cn_cancel_requested r then fail_execution owner_id execution_id cancelled_error None True now repo
          else (let named = map (\<lambda>(n, q). (''res_'' @ token n, q)) (enumerate 0 results);
                    repo1 = repo\<lparr>cp_results := foldl (\<lambda>d (i, q). AList.update i (store_result i q execution_id expires_at) d)
                              (cp_results repo) named\<rparr>;
                    updated = r\<lparr>cn_execution := next_execution r ConsoleSucceeded now
                                  (Some (map (\<lambda>(i, q). summarize i q (cn_page_size r)) named)) None None,
                                cn_backend_pid := None\<rparr> in
                (Inr updated, put_record execution_id updated repo1)))"

definition request_cancel :: "string \<Rightarrow> string \<Rightarrow> instant \<Rightarrow> console_record console_call" where
  "request_cancel owner_id execution_id now repo =
     (case find_record owner_id execution_id repo of Inl e \<Rightarrow> (Inl e, repo)
      | Inr r \<Rightarrow>
          if ce_status (cn_execution r) = ConsoleReserved
          then fail_execution owner_id execution_id cancelled_error None True now repo
          else if ce_status (cn_execution r) \<noteq> ConsoleRunning then (Inr r, repo)
          else (let updated = (touch r now)\<lparr>cn_cancel_requested := True\<rparr> in (Inr updated, put_record execution_id updated repo)))"

text \<open>Pages of results are not retained by this repository: reading one consumes its cursor and reports it as gone.\<close>

definition result_page :: "string \<Rightarrow> string option \<Rightarrow> string \<Rightarrow> string \<Rightarrow> string option \<Rightarrow> instant \<Rightarrow> unit console_call" where
  "result_page owner_id workspace_id execution_id result_id cursor now repo =
     (case find_record owner_id execution_id repo of Inl e \<Rightarrow> (Inl e, repo)
      | Inr r \<Rightarrow>
          if ce_workspace_id (cn_execution r) \<noteq> workspace_id then (Inl ConsoleNotFound, repo)
          else case find_result execution_id result_id now repo of Inl e \<Rightarrow> (Inl e, repo)
             | Inr _ \<Rightarrow> (Inl ConsoleResultGone,
                 case cursor of None \<Rightarrow> repo
                 | Some c \<Rightarrow> (case map_of (cp_cursors repo) c of None \<Rightarrow> repo
                     | Some (cursor_result, offset, expires_at, consumed) \<Rightarrow>
                         if consumed \<or> cursor_result \<noteq> result_id \<or> expires_at \<le> now then repo
                         else repo\<lparr>cp_cursors := AList.update c (cursor_result, offset, expires_at, True) (cp_cursors repo)\<rparr>)))"

definition close_result :: "string \<Rightarrow> string option \<Rightarrow> string \<Rightarrow> string \<Rightarrow> instant \<Rightarrow> unit console_call" where
  "close_result owner_id workspace_id execution_id result_id now repo =
     (case find_record owner_id execution_id repo of Inl e \<Rightarrow> (Inl e, repo)
      | Inr r \<Rightarrow>
          if ce_workspace_id (cn_execution r) \<noteq> workspace_id then (Inl ConsoleNotFound, repo)
          else case find_result execution_id result_id now repo of Inl e \<Rightarrow> (Inl e, repo)
             | Inr result \<Rightarrow> (Inr (), repo\<lparr>cp_results := AList.update result_id (result\<lparr>sr_closed_at := Some now\<rparr>) (cp_results repo)\<rparr>))"

section \<open>Transactions\<close>

record transaction_opening =
  op_workspace_id :: string
  op_console_id :: string
  op_workspace_revision :: nat
  op_target :: console_target
  op_backend_pid :: int
  op_created_at :: instant
  op_expires_at :: instant
  op_maximum_expires_at :: instant

definition create_transaction :: "string \<Rightarrow> string \<Rightarrow> transaction_opening \<Rightarrow> transaction_record console_call" where
  "create_transaction token owner_id request repo =
     (if list_ex (\<lambda>(i, r). tn_owner_id r = owner_id \<and> tr_workspace_id (tn_transaction r) = op_workspace_id request \<and> unfinished r)
           (cp_transactions repo)
      then (Inl (ConsoleConflict ''console_transaction_active''), repo)
      else (let identifier = ''ctx_'' @ token;
                record = \<lparr>tn_owner_id = owner_id,
                  tn_transaction = \<lparr>tr_id = identifier, tr_workspace_id = op_workspace_id request, tr_console_id = op_console_id request,
                    tr_revision = 1, tr_status = TransactionOpen, tr_execution_ids = [], tr_created_at = op_created_at request,
                    tr_updated_at = op_created_at request, tr_expires_at = op_expires_at request\<rparr>,
                  tn_workspace_revision = op_workspace_revision request, tn_target = op_target request,
                  tn_backend_pid = op_backend_pid request, tn_maximum_expires_at = op_maximum_expires_at request\<rparr> in
            (Inr record, put_transaction identifier record repo)))"

definition finish_transaction ::
  "string \<Rightarrow> string \<Rightarrow> string \<Rightarrow> nat \<Rightarrow> console_transaction_status \<Rightarrow> instant \<Rightarrow> transaction_record console_call" where
  "finish_transaction owner_id workspace_id transaction_id expected_revision terminal_status now repo =
     (if terminal_status \<notin> {TransactionCommitted, TransactionRolledBack, TransactionUncertain} then (Inl ConsoleValueError, repo)
      else case find_transaction owner_id transaction_id repo of Inl e \<Rightarrow> (Inl e, repo)
        | Inr r \<Rightarrow>
            if tr_workspace_id (tn_transaction r) \<noteq> workspace_id then (Inl ConsoleNotFound, repo)
            else if tr_revision (tn_transaction r) \<noteq> expected_revision then (Inl (ConsoleConflict ''console_transaction_changed''), repo)
            else if \<not> unfinished r then (Inr r, repo)
            else (let updated = end_transaction r terminal_status now in (Inr updated, put_transaction transaction_id updated repo)))"

definition fail_transaction :: "string \<Rightarrow> string \<Rightarrow> instant \<Rightarrow> transaction_record console_call" where
  "fail_transaction owner_id transaction_id now repo =
     (case find_transaction owner_id transaction_id repo of Inl e \<Rightarrow> (Inl e, repo)
      | Inr r \<Rightarrow> if tr_status (tn_transaction r) \<noteq> TransactionOpen then (Inr r, repo)
          else (let updated = move_transaction r TransactionFailed now in (Inr updated, put_transaction transaction_id updated repo)))"

definition expire_transaction :: "string \<Rightarrow> string \<Rightarrow> instant \<Rightarrow> transaction_record console_call" where
  "expire_transaction owner_id transaction_id now repo =
     (case find_transaction owner_id transaction_id repo of Inl e \<Rightarrow> (Inl e, repo)
      | Inr r \<Rightarrow> if \<not> unfinished r then (Inr r, repo)
          else (let updated = end_transaction r TransactionExpired now in (Inr updated, put_transaction transaction_id updated repo)))"

section \<open>History\<close>

definition list_history :: "string \<Rightarrow> string \<Rightarrow> nat \<Rightarrow> console_repo \<Rightarrow> history_item list" where
  "list_history owner_id workspace_id limit repo =
     take limit (newest_first hi_ran_at (filter (\<lambda>h. history_key h = (owner_id, workspace_id)) (cp_history repo)))"

text \<open>The entry is appended and the first entries of the workspace beyond the limit are deleted.\<close>

definition drop_excess :: "string \<times> string \<Rightarrow> nat \<Rightarrow> history_item list \<Rightarrow> history_item list" where
  "drop_excess key limit hs =
     (let owned = filter (\<lambda>i. history_key (hs ! i) = key) [0..<length hs];
          excess = take (length owned - limit) owned in
      map (\<lambda>i. hs ! i) (filter (\<lambda>i. i \<notin> set excess) [0..<length hs]))"

definition record_history :: "string \<Rightarrow> string \<Rightarrow> string \<Rightarrow> instant \<Rightarrow> nat \<Rightarrow> console_repo \<Rightarrow> console_repo" where
  "record_history owner_id workspace_id sql ran_at limit repo =
     (if limit = 0 then repo
      else repo\<lparr>cp_history := drop_excess (owner_id, workspace_id) limit (cp_history repo
             @ [\<lparr>hi_owner_id = owner_id, hi_workspace_id = workspace_id, hi_sql = sql, hi_ran_at = ran_at\<rparr>])\<rparr>)"

section \<open>Saved queries\<close>

definition in_library :: "string \<Rightarrow> string \<Rightarrow> string \<times> saved_query \<Rightarrow> bool" where
  "in_library owner_id workspace_id stored = (fst stored = owner_id \<and> sq_workspace_id (snd stored) = workspace_id)"

definition list_saved_queries :: "string \<Rightarrow> string \<Rightarrow> console_repo \<Rightarrow> saved_query list" where
  "list_saved_queries owner_id workspace_id repo =
     newest_first (\<lambda>q. (sq_updated_at q, sq_id q)) (map snd (filter (in_library owner_id workspace_id) (dict_values (cp_saved_queries repo))))"

definition create_saved_query ::
  "string \<Rightarrow> string \<Rightarrow> string \<Rightarrow> string \<Rightarrow> string \<Rightarrow> bool \<Rightarrow> instant \<Rightarrow> nat \<Rightarrow> saved_query console_call" where
  "create_saved_query token owner_id workspace_id name sql starter now limit repo =
     (let library = filter (in_library owner_id workspace_id) (dict_values (cp_saved_queries repo)) in
      if length library \<ge> limit then (Inl (ConsoleLimitReached ''saved queries'' limit (length library)), repo)
      else if list_ex (\<lambda>(o', q). casefold (sq_name q) = casefold name) library
      then (Inl (ConsoleConflict ''console_saved_query_name_exists''), repo)
      else (let query = \<lparr>sq_id = ''sq_'' @ token, sq_workspace_id = workspace_id, sq_revision = 1, sq_name = name, sq_sql = sql,
                  sq_starter = starter, sq_created_at = now, sq_updated_at = now\<rparr> in
            (Inr query, repo\<lparr>cp_saved_queries := AList.update (sq_id query) (owner_id, query) (cp_saved_queries repo)\<rparr>)))"

definition find_saved_query :: "string \<Rightarrow> string \<Rightarrow> string \<Rightarrow> nat \<Rightarrow> console_repo \<Rightarrow> (console_error, saved_query) result" where
  "find_saved_query owner_id workspace_id query_id expected_revision repo =
     (case map_of (cp_saved_queries repo) query_id of None \<Rightarrow> Inl ConsoleNotFound
      | Some stored \<Rightarrow>
          if \<not> in_library owner_id workspace_id stored then Inl ConsoleNotFound
          else if sq_revision (snd stored) \<noteq> expected_revision then Inl (ConsoleConflict ''console_saved_query_changed'')
          else Inr (snd stored))"

definition update_saved_query ::
  "string \<Rightarrow> string \<Rightarrow> string \<Rightarrow> nat \<Rightarrow> string option \<Rightarrow> string option \<Rightarrow> instant \<Rightarrow> saved_query console_call" where
  "update_saved_query owner_id workspace_id query_id expected_revision name sql now repo =
     (case find_saved_query owner_id workspace_id query_id expected_revision repo of Inl e \<Rightarrow> (Inl e, repo)
      | Inr query \<Rightarrow>
          (let next_name = (case name of Some n \<Rightarrow> n | None \<Rightarrow> sq_name query) in
           if list_ex (\<lambda>(i, stored). i \<noteq> query_id \<and> in_library owner_id workspace_id stored
                 \<and> casefold (sq_name (snd stored)) = casefold next_name) (cp_saved_queries repo)
           then (Inl (ConsoleConflict ''console_saved_query_name_exists''), repo)
           else (let updated = query\<lparr>sq_revision := sq_revision query + 1, sq_name := next_name,
                       sq_sql := (case sql of Some s \<Rightarrow> s | None \<Rightarrow> sq_sql query), sq_updated_at := now\<rparr> in
                 (Inr updated, repo\<lparr>cp_saved_queries := AList.update query_id (owner_id, updated) (cp_saved_queries repo)\<rparr>))))"

definition delete_saved_query :: "string \<Rightarrow> string \<Rightarrow> string \<Rightarrow> nat \<Rightarrow> unit console_call" where
  "delete_saved_query owner_id workspace_id query_id expected_revision repo =
     (case find_saved_query owner_id workspace_id query_id expected_revision repo of Inl e \<Rightarrow> (Inl e, repo)
      | Inr query \<Rightarrow> (Inr (), repo\<lparr>cp_saved_queries := AList.delete query_id (cp_saved_queries repo)\<rparr>))"

end
