(* ===== verification/Console_Properties.thy ===== *)
theory Console_Properties
  imports Console_Store Revision_Control
begin

text \<open>
  What the repository of the SQL console promises over every sequence of its operations: a query editor
  has one active execution, a workspace one unfinished transaction and no two saved queries of the same
  name; finished transactions stay as they are; saved queries are versioned. Two theorems state where it
  differs from its PostgreSQL counterpart and from what pruning means to keep.
\<close>

section \<open>Requests\<close>

datatype console_request =
    UpdateSettings string nat nat
  | RecoverInterrupted instant
  | RecoverTransactions instant
  | PruneReceipts instant
  | PruneHistory nat
  | Reserve string string reservation instant
  | ClaimExecution string string instant
  | PublishBackend string string int instant
  | FailExecution string string "string \<times> string" "nat option" bool instant
  | SucceedExecution "nat \<Rightarrow> string" string string "query_result list" instant instant
  | RequestCancel string string instant
  | ReadPage string "string option" string string "string option" instant
  | CloseResult string "string option" string string instant
  | CreateTransaction string string transaction_opening
  | FinishTransaction string string string nat console_transaction_status instant
  | FailTransaction string string instant
  | ExpireTransaction string string instant
  | RecordHistory string string string instant nat
  | CreateSavedQuery string string string string string bool instant nat
  | UpdateSavedQuery string string string nat "string option" "string option" instant
  | DeleteSavedQuery string string string nat

fun run_console :: "console_request \<Rightarrow> console_repo \<Rightarrow> console_repo" where
  "run_console (UpdateSettings owner revision page_size) repo = snd (update_settings owner revision page_size repo)"
| "run_console (RecoverInterrupted now) repo = recover_interrupted now repo"
| "run_console (RecoverTransactions now) repo = recover_transactions now repo"
| "run_console (PruneReceipts before) repo = prune_operational_receipts before repo"
| "run_console (PruneHistory limit) repo = prune_console_history limit repo"
| "run_console (Reserve token owner request now) repo = snd (console_reserve token owner request now repo)"
| "run_console (ClaimExecution owner i now) repo = snd (claim_execution owner i now repo)"
| "run_console (PublishBackend owner i pid now) repo = snd (publish_backend owner i pid now repo)"
| "run_console (FailExecution owner i err n cancelled now) repo = snd (fail_execution owner i err n cancelled now repo)"
| "run_console (SucceedExecution token owner i results expires_at now) repo = snd (succeed_execution token owner i results expires_at now repo)"
| "run_console (RequestCancel owner i now) repo = snd (request_cancel owner i now repo)"
| "run_console (ReadPage owner ws i result cursor now) repo = snd (result_page owner ws i result cursor now repo)"
| "run_console (CloseResult owner ws i result now) repo = snd (close_result owner ws i result now repo)"
| "run_console (CreateTransaction token owner request) repo = snd (create_transaction token owner request repo)"
| "run_console (FinishTransaction owner ws i revision status now) repo = snd (finish_transaction owner ws i revision status now repo)"
| "run_console (FailTransaction owner i now) repo = snd (fail_transaction owner i now repo)"
| "run_console (ExpireTransaction owner i now) repo = snd (expire_transaction owner i now repo)"
| "run_console (RecordHistory owner ws sql ran_at limit) repo = record_history owner ws sql ran_at limit repo"
| "run_console (CreateSavedQuery token owner ws name sql starter now limit) repo =
     snd (create_saved_query token owner ws name sql starter now limit repo)"
| "run_console (UpdateSavedQuery owner ws i revision name sql now) repo = snd (update_saved_query owner ws i revision name sql now repo)"
| "run_console (DeleteSavedQuery owner ws i revision) repo = snd (delete_saved_query owner ws i revision repo)"

definition run_requests :: "console_request list \<Rightarrow> console_repo \<Rightarrow> console_repo" where
  "run_requests requests repo = fold run_console requests repo"

section \<open>Exclusion\<close>

text \<open>
  A dictionary in which at most one value with the property occupies a slot, and the steps that keep it
  so: values lose the property or keep their slot, or one value takes a free slot.
\<close>

definition exclusive :: "('v \<Rightarrow> bool) \<Rightarrow> ('v \<Rightarrow> 'slot) \<Rightarrow> (string, 'v) dict \<Rightarrow> bool" where
  "exclusive P slot d = (\<forall>i j v w. map_of d i = Some v \<longrightarrow> map_of d j = Some w \<longrightarrow> P v \<longrightarrow> P w \<longrightarrow> slot v = slot w \<longrightarrow> i = j)"

lemma exclusive_shrink:
  assumes "exclusive P slot d" "\<And>i v. map_of d' i = Some v \<Longrightarrow> P v \<Longrightarrow> \<exists>w. map_of d i = Some w \<and> P w \<and> slot w = slot v"
  shows "exclusive P slot d'"
  using assms unfolding exclusive_def by metis

lemma exclusive_put:
  assumes "exclusive P slot d" "P v \<Longrightarrow> \<forall>j w. map_of d j = Some w \<longrightarrow> P w \<longrightarrow> slot w = slot v \<longrightarrow> j = i"
  shows "exclusive P slot (AList.update i v d)"
  using assms unfolding exclusive_def by (auto split: if_splits)

lemma exclusive_replace:
  assumes "exclusive P slot d" "map_of d i = Some w" "P v \<Longrightarrow> P w" "slot v = slot w"
  shows "exclusive P slot (AList.update i v d)"
  by (rule exclusive_put[OF assms(1)]) (use assms in \<open>unfold exclusive_def, metis\<close>)

lemma exclusive_map:
  assumes "exclusive P slot d" "\<And>v. P (f v) \<Longrightarrow> P v" "\<And>v. slot (f v) = slot v"
  shows "exclusive P slot (map (\<lambda>(i, v). (i, f v)) d)"
  by (rule exclusive_shrink[OF assms(1)]) (auto simp: map_of_map assms(2,3))

lemma map_of_filter: "dict_wf d \<Longrightarrow> map_of (filter p d) i = Some v \<Longrightarrow> map_of d i = Some v"
  by (metis dict_wf_def filter_is_subset map_of_SomeD map_of_eq_Some_iff subsetD)

lemma dict_wf_filter: "dict_wf d \<Longrightarrow> dict_wf (filter p d)"
  by (simp add: dict_wf_def distinct_map_filter)

lemma dict_wf_map: "dict_wf d \<Longrightarrow> dict_wf (map (\<lambda>(i, v). (i, f v)) d)"
  by (simp add: dict_wf_def comp_def case_prod_unfold)

lemma exclusive_filter: "exclusive P slot d \<Longrightarrow> dict_wf d \<Longrightarrow> exclusive P slot (filter p d)"
  by (erule exclusive_shrink) (metis map_of_filter)

lemma exclusive_delete: "exclusive P slot d \<Longrightarrow> exclusive P slot (AList.delete i d)"
  by (erule exclusive_shrink) (auto simp: delete_conv' split: if_splits)

definition editor_slot :: "console_record \<Rightarrow> string \<times> string option \<times> string option" where
  "editor_slot r = (cn_owner_id r, ce_workspace_id (cn_execution r),
     if ce_workspace_id (cn_execution r) = None then Some (ce_console_id (cn_execution r)) else None)"

definition transaction_slot :: "transaction_record \<Rightarrow> string \<times> string" where
  "transaction_slot r = (tn_owner_id r, tr_workspace_id (tn_transaction r))"

definition query_slot :: "string \<times> saved_query \<Rightarrow> string \<times> string \<times> string" where
  "query_slot stored = (fst stored, sq_workspace_id (snd stored), casefold (sq_name (snd stored)))"

definition console_inv :: "console_repo \<Rightarrow> bool" where
  "console_inv repo =
     ((dict_wf (cp_records repo) \<and> exclusive active editor_slot (cp_records repo))
      \<and> (dict_wf (cp_transactions repo) \<and> exclusive unfinished transaction_slot (cp_transactions repo))
      \<and> (dict_wf (cp_saved_queries repo) \<and> exclusive (\<lambda>_. True) query_slot (cp_saved_queries repo)))"

lemma console_parts [simp]:
  "cp_records (put_transaction i t repo) = cp_records repo" "cp_saved_queries (put_transaction i t repo) = cp_saved_queries repo"
  "cp_transactions (put_record i r repo) = cp_transactions repo" "cp_saved_queries (put_record i r repo) = cp_saved_queries repo"
  "cp_records (put_record i r repo) = AList.update i r (cp_records repo)"
  "cp_transactions (put_transaction i t repo) = AList.update i t (cp_transactions repo)"
  "cp_records (purge now repo) = cp_records repo" "cp_transactions (purge now repo) = cp_transactions repo"
  "cp_saved_queries (purge now repo) = cp_saved_queries repo"
  by (simp_all add: put_transaction_def put_record_def purge_def Let_def)

lemma next_execution_status [simp]: "ce_status (next_execution r status now results err n) = status"
  by (simp add: next_execution_def)

lemma editor_slot_simps [simp]:
  "editor_slot (r\<lparr>cn_execution := next_execution r status now results err n\<rparr>) = editor_slot r"
  "editor_slot (r\<lparr>cn_backend_pid := p\<rparr>) = editor_slot r" "editor_slot (r\<lparr>cn_cancel_requested := b\<rparr>) = editor_slot r"
  "editor_slot (touch r now) = editor_slot r"
  "active (r\<lparr>cn_execution := next_execution r status now results err n\<rparr>) \<longleftrightarrow> status \<in> {ConsoleReserved, ConsoleRunning}"
  "active (r\<lparr>cn_backend_pid := p\<rparr>) = active r" "active (r\<lparr>cn_cancel_requested := b\<rparr>) = active r"
  "active (touch r now) = active r"
  by (simp_all add: editor_slot_def next_execution_def touch_def active_def)

lemma transaction_slot_simps [simp]:
  "transaction_slot (move_transaction r status now) = transaction_slot r"
  "transaction_slot (end_transaction r status now) = transaction_slot r"
  "transaction_slot (extend_transaction r i expires now) = transaction_slot r"
  "unfinished (end_transaction r status now) \<longleftrightarrow> status \<in> {TransactionOpen, TransactionFailed}"
  "unfinished (move_transaction r status now) \<longleftrightarrow> status \<in> {TransactionOpen, TransactionFailed}"
  "unfinished (extend_transaction r i expires now) = unfinished r"
  by (simp_all add: transaction_slot_def end_transaction_def move_transaction_def extend_transaction_def unfinished_def Let_def)

lemma found [simp]:
  "find_record owner i repo = Inr r \<longleftrightarrow> map_of (cp_records repo) i = Some r \<and> cn_owner_id r = owner"
  "find_transaction owner i repo = Inr t \<longleftrightarrow> map_of (cp_transactions repo) i = Some t \<and> tn_owner_id t = owner"
  by (auto simp: find_record_def find_transaction_def split: option.splits if_splits)

text \<open>An execution is replaced by a version that is active only if it was.\<close>

lemma inv_put_record:
  "console_inv repo \<Longrightarrow> map_of (cp_records repo) i = Some r \<Longrightarrow> (active r' \<Longrightarrow> active r) \<Longrightarrow> editor_slot r' = editor_slot r \<Longrightarrow>
   console_inv (put_record i r' repo)"
  by (auto simp: console_inv_def intro: exclusive_replace)

lemma inv_put_transaction:
  "console_inv repo \<Longrightarrow> map_of (cp_transactions repo) i = Some t \<Longrightarrow> (unfinished t' \<Longrightarrow> unfinished t) \<Longrightarrow>
   transaction_slot t' = transaction_slot t \<Longrightarrow> console_inv (put_transaction i t' repo)"
  by (auto simp: console_inv_def intro: exclusive_replace)

lemma inv_other [simp]:
  "console_inv (repo\<lparr>cp_results := rs\<rparr>) = console_inv repo" "console_inv (repo\<lparr>cp_cursors := cs\<rparr>) = console_inv repo"
  "console_inv (repo\<lparr>cp_history := hs\<rparr>) = console_inv repo" "console_inv (repo\<lparr>cp_settings := ss\<rparr>) = console_inv repo"
  "console_inv (purge now repo) = console_inv repo"
  by (simp_all add: console_inv_def)

lemma inv_fail: "console_inv repo \<Longrightarrow> console_inv (snd (fail_execution owner i err n cancelled now repo))"
  unfolding fail_execution_def Let_def
  by (auto simp: active_def split: sum.split intro!: inv_put_record)

lemma inv_executions:
  assumes "console_inv repo"
  shows "console_inv (snd (claim_execution owner i now repo))"
    and "console_inv (snd (publish_backend owner i pid now repo))"
    and "console_inv (snd (succeed_execution token owner i results expires_at now repo))"
    and "console_inv (snd (request_cancel owner i now repo))"
  using assms unfolding claim_execution_def publish_backend_def succeed_execution_def request_cancel_def Let_def
  by (auto simp: active_def split: sum.split intro!: inv_put_record inv_fail)

lemma reserved_transaction:
  "reservation_transaction owner request repo = Inr (Some (i, t, expires_at)) \<Longrightarrow>
     map_of (cp_transactions repo) i = Some t \<and> tr_status (tn_transaction t) = TransactionOpen"
  by (auto simp: reservation_transaction_def result_bind_def split: option.splits sum.splits if_splits)

text \<open>A reservation is refused without a change of records, or takes a free slot and extends an open transaction.\<close>

lemma reserve_cases:
  obtains (refused) e where "console_reserve token owner request now repo = (Inl e, purge now repo)"
  | (accepted) r repo1 where "r = new_record (''cex_'' @ token) owner request now" "repo1 = put_record (''cex_'' @ token) r (purge now repo)"
      "list_all (\<lambda>(i, q). \<not> occupies owner request q) (cp_records repo)"
      "console_reserve token owner request now repo = (Inr r, repo1)
       \<or> (\<exists>i t expires_at. map_of (cp_transactions repo) i = Some t \<and> tr_status (tn_transaction t) = TransactionOpen
            \<and> console_reserve token owner request now repo
              = (Inr r, put_transaction i (extend_transaction t (''cex_'' @ token) expires_at now) repo1))"
proof (cases "list_ex (occupies owner request \<circ> snd) (cp_records (purge now repo))")
  case True
  then show thesis by (intro refused) (simp add: console_reserve_def)
next
  case False
  then have free: "list_all (\<lambda>(i, q). \<not> occupies owner request q) (cp_records repo)" by (auto simp: list_ex_iff list_all_iff)
  show thesis
  proof (cases "reservation_transaction owner request (purge now repo)")
    case (Inl e)
    with False show thesis by (intro refused) (simp add: console_reserve_def)
  next
    case (Inr x)
    show thesis
    proof (cases x)
      case None
      with Inr False show thesis by (intro accepted[OF refl refl free] disjI1) (simp add: console_reserve_def Let_def)
    next
      case (Some y)
      obtain i t expires_at where y: "y = (i, t, expires_at)" by (cases y)
      with Inr False Some reserved_transaction[of owner request "purge now repo"] show thesis
        by (intro accepted[OF refl refl free] disjI2 exI[of _ i] exI[of _ t] exI[of _ expires_at]) (simp add: console_reserve_def Let_def)
    qed
  qed
qed

lemma inv_reserve:
  assumes "console_inv repo"
  shows "console_inv (snd (console_reserve token owner request now repo))"
proof (cases rule: reserve_cases[of token owner request now repo])
  case (accepted r repo1)
  have "exclusive active editor_slot (AList.update (''cex_'' @ token) r (cp_records repo))"
  proof (rule exclusive_put)
    show "exclusive active editor_slot (cp_records repo)" using assms by (simp add: console_inv_def)
    show "\<forall>j w. map_of (cp_records repo) j = Some w \<longrightarrow> active w \<longrightarrow> editor_slot w = editor_slot r \<longrightarrow> j = ''cex_'' @ token"
    proof (intro allI impI)
      fix j w assume w: "map_of (cp_records repo) j = Some w" "active w" "editor_slot w = editor_slot r"
      then have "occupies owner request w" by (auto simp: accepted(1) occupies_def editor_slot_def new_record_def split: if_splits)
      with accepted(3) map_of_SomeD[OF w(1)] show "j = ''cex_'' @ token" by (auto simp: list_all_iff)
    qed
  qed
  then have "console_inv repo1" "cp_transactions repo1 = cp_transactions repo"
    using assms by (simp_all add: accepted(2) console_inv_def)
  with accepted(4) show ?thesis by (auto intro!: inv_put_transaction)
qed (use assms in simp)

lemma inv_transactions:
  assumes "console_inv repo"
  shows "console_inv (snd (finish_transaction owner ws i revision status now repo))"
    and "console_inv (snd (fail_transaction owner i now repo))"
    and "console_inv (snd (expire_transaction owner i now repo))"
  using assms unfolding finish_transaction_def fail_transaction_def expire_transaction_def Let_def
  by (auto simp: unfinished_def split: sum.split intro!: inv_put_transaction)

lemma inv_create_transaction: "console_inv repo \<Longrightarrow> console_inv (snd (create_transaction token owner request repo))"
  unfolding create_transaction_def Let_def console_inv_def
  by (auto simp: list_ex_iff transaction_slot_def intro!: exclusive_put dest!: map_of_SomeD)

lemma inv_saved_queries:
  assumes "console_inv repo"
  shows "console_inv (snd (create_saved_query token owner ws name sql starter now limit repo))"
    and "console_inv (snd (update_saved_query owner ws i revision new_name new_sql now repo))"
    and "console_inv (snd (delete_saved_query owner ws i revision repo))"
proof -
  show "console_inv (snd (create_saved_query token owner ws name sql starter now limit repo))"
    using assms unfolding create_saved_query_def Let_def console_inv_def
    by (auto simp: list_ex_iff query_slot_def in_library_def dict_values_def intro!: exclusive_put dest!: map_of_SomeD)
  show "console_inv (snd (update_saved_query owner ws i revision new_name new_sql now repo))"
    using assms unfolding update_saved_query_def find_saved_query_def Let_def console_inv_def
    by (auto simp: list_ex_iff query_slot_def in_library_def split: option.splits intro!: exclusive_put dest!: map_of_SomeD)
  show "console_inv (snd (delete_saved_query owner ws i revision repo))"
    using assms unfolding delete_saved_query_def console_inv_def by (auto split: sum.split intro: exclusive_delete)
qed

lemma inv_maintenance:
  assumes "console_inv repo"
  shows "console_inv (recover_interrupted now repo)" "console_inv (recover_transactions now repo)"
    "console_inv (prune_operational_receipts before repo)" "console_inv (prune_console_history limit repo)"
    "console_inv (record_history owner ws sql ran_at limit repo)"
proof -
  show "console_inv (recover_interrupted now repo)"
    using assms unfolding recover_interrupted_def console_inv_def
    by (auto intro!: exclusive_map dict_wf_map split: if_splits)
  show "console_inv (recover_transactions now repo)"
    using assms unfolding recover_transactions_def console_inv_def
    by (auto intro!: exclusive_map dict_wf_map split: if_splits)
  show "console_inv (prune_operational_receipts before repo)"
    using assms unfolding prune_operational_receipts_def console_inv_def Let_def
    by (auto intro!: exclusive_filter dict_wf_filter)
qed (use assms in \<open>simp_all add: prune_console_history_def record_history_def\<close>)

lemma console_inv_run: "console_inv repo \<Longrightarrow> console_inv (run_console request repo)"
proof (cases request)
  case (ReadPage owner ws i result cursor now)
  assume "console_inv repo"
  then show ?thesis by (auto simp: ReadPage result_page_def split: sum.split option.split prod.split)
next
  case (CloseResult owner ws i result now)
  assume "console_inv repo"
  then show ?thesis by (auto simp: CloseResult close_result_def split: sum.split)
qed (auto simp: update_settings_def inv_executions inv_fail inv_reserve inv_transactions inv_create_transaction inv_saved_queries inv_maintenance)

lemma console_inv_runs: "console_inv repo \<Longrightarrow> console_inv (run_requests requests repo)"
  unfolding run_requests_def by (induction requests arbitrary: repo) (auto simp: console_inv_run)

text \<open>
  C18. After every sequence of requests, an editor (an owner's workspace, or a console outside workspaces)
  has at most one execution that is reserved or running, a workspace has at most one transaction that
  is open or failed, and no two saved queries of a library have the same name up to case.
\<close>

theorem console_exclusive:
  "let repo = run_requests requests empty_console in
   exclusive active editor_slot (cp_records repo) \<and> exclusive unfinished transaction_slot (cp_transactions repo)
   \<and> exclusive (\<lambda>_. True) query_slot (cp_saved_queries repo)"
proof -
  have "console_inv empty_console" by (simp add: console_inv_def empty_console_def exclusive_def dict_wf_def)
  from console_inv_runs[OF this, of requests] show ?thesis by (simp add: console_inv_def Let_def)
qed

section \<open>Finished transactions\<close>

text \<open>The identifiers a request may introduce.\<close>

fun new_transaction_id :: "console_request \<Rightarrow> string option" where
  "new_transaction_id (CreateTransaction token owner request) = Some (''ctx_'' @ token)"
| "new_transaction_id _ = None"

text \<open>A pruning that may drop a receipt: it drops those last updated before its instant.\<close>

fun prunes_receipt :: "transaction_record \<Rightarrow> console_request \<Rightarrow> bool" where
  "prunes_receipt t (PruneReceipts before) = (tr_updated_at (tn_transaction t) < before)"
| "prunes_receipt t _ = False"

lemma map_of_filter_found: "dict_wf d \<Longrightarrow> map_of d i = Some t \<Longrightarrow> map_of (filter p d) i = (if p (i, t) then Some t else None)"
proof (induction d)
  case (Cons kv d)
  moreover have "map_of (filter p d) i = None" if "i \<notin> fst ` set d" using that by (auto simp: map_of_eq_None_iff)
  ultimately show ?case by (cases kv) (auto simp: dict_wf_def split: if_splits)
qed simp

lemma finished_kept:
  assumes "dict_wf (cp_transactions repo)" "map_of (cp_transactions repo) i = Some t" "\<not> unfinished t" "new_transaction_id request \<noteq> Some i"
  shows "map_of (cp_transactions (run_console request repo)) i = Some t
    \<or> (prunes_receipt t request \<and> map_of (cp_transactions (run_console request repo)) i = None)"
proof (cases request)
  case (RecoverTransactions now)
  then show ?thesis using assms by (auto simp: recover_transactions_def map_of_map)
next
  case (PruneReceipts before)
  with map_of_filter_found[OF assms(1,2)] show ?thesis by (simp add: prune_operational_receipts_def Let_def)
next
  case (Reserve token owner request' now)
  then show ?thesis using assms(2,3)
    by (cases rule: reserve_cases[of token owner request' now repo]) (auto simp: unfinished_def split: if_splits)
next
  case (ReadPage owner ws j result cursor now)
  then show ?thesis using assms by (auto simp: result_page_def split: sum.split option.split prod.split)
qed (use assms in \<open>auto simp: update_settings_def recover_interrupted_def prune_console_history_def record_history_def
    claim_execution_def publish_backend_def succeed_execution_def request_cancel_def fail_execution_def close_result_def
    create_transaction_def finish_transaction_def fail_transaction_def expire_transaction_def create_saved_query_def
    update_saved_query_def delete_saved_query_def Let_def unfinished_def split: sum.split\<close>)

lemma absent_kept:
  assumes "map_of (cp_transactions repo) i = None" "new_transaction_id request \<noteq> Some i" "dict_wf (cp_transactions repo)"
  shows "map_of (cp_transactions (run_console request repo)) i = None"
proof (cases request)
  case (PruneReceipts before)
  have "map_of (filter p (cp_transactions repo)) i = None" for p
    using map_of_filter[OF assms(3), of p i] assms(1) by (cases "map_of (filter p (cp_transactions repo)) i") auto
  with PruneReceipts show ?thesis by (simp add: prune_operational_receipts_def Let_def)
next
  case (Reserve token owner request' now)
  then show ?thesis using assms(1)
    by (cases rule: reserve_cases[of token owner request' now repo]) (auto simp del: not_None_eq)
next
  case (ReadPage owner ws j result cursor now)
  then show ?thesis using assms by (auto simp: result_page_def split: sum.split option.split prod.split)
qed (use assms in \<open>auto simp: update_settings_def recover_interrupted_def recover_transactions_def prune_console_history_def record_history_def
    claim_execution_def publish_backend_def succeed_execution_def request_cancel_def fail_execution_def close_result_def
    create_transaction_def finish_transaction_def fail_transaction_def expire_transaction_def create_saved_query_def
    update_saved_query_def delete_saved_query_def Let_def map_of_map split: sum.split\<close>)

text \<open>
  C40. A transaction that was committed, rolled back, expired or found uncertain stays so: after every
  further sequence of requests that does not draw its identifier again, its record is the same, unless one
  of them was a pruning of receipts older than an instant after the last update of the transaction.
\<close>

theorem finished_transaction_final:
  assumes "map_of (cp_transactions (run_requests before empty_console)) i = Some t" "\<not> unfinished t"
    and "\<forall>request\<in>set after. new_transaction_id request \<noteq> Some i"
  shows "map_of (cp_transactions (run_requests (before @ after) empty_console)) i = Some t
    \<or> (map_of (cp_transactions (run_requests (before @ after) empty_console)) i = None \<and> list_ex (prunes_receipt t) after)"
proof -
  have inv: "console_inv (run_requests requests empty_console)" for requests
    by (rule console_inv_runs) (simp add: console_inv_def empty_console_def exclusive_def dict_wf_def)
  show ?thesis using assms(3)
  proof (induction after rule: rev_induct)
    case Nil
    then show ?case using assms(1) by simp
  next
    case (snoc request after)
    let ?repo = "run_requests (before @ after) empty_console"
    have "dict_wf (cp_transactions ?repo)" using inv by (simp add: console_inv_def)
    moreover have "map_of (cp_transactions ?repo) i = Some t \<or> (map_of (cp_transactions ?repo) i = None \<and> list_ex (prunes_receipt t) after)"
      using snoc by simp
    moreover have "run_requests (before @ after @ [request]) empty_console = run_console request ?repo" by (simp add: run_requests_def)
    ultimately show ?case
      using finished_kept[OF _ _ assms(2), of ?repo i request] absent_kept[of ?repo i request] snoc.prems by auto
  qed
qed

section \<open>History\<close>

lemma filter_not_taken: "distinct xs \<Longrightarrow> filter (\<lambda>x. x \<notin> set (take n xs)) xs = drop n xs"
proof -
  assume "distinct xs"
  then have "\<forall>x\<in>set (drop n xs). x \<notin> set (take n xs)" using set_take_disj_set_drop_if_distinct[of xs n n] by blast
  then have "filter (\<lambda>x. x \<notin> set (take n xs)) (take n xs @ drop n xs) = drop n xs"
    unfolding filter_append by (simp add: filter_id_conv)
  then show ?thesis by simp
qed

lemma drop_excess_filter:
  "filter (\<lambda>h. history_key h = key) (drop_excess key limit hs)
   = drop (length (filter (\<lambda>h. history_key h = key) hs) - limit) (filter (\<lambda>h. history_key h = key) hs)"
proof -
  let ?p = "\<lambda>h. history_key h = key" and ?ix = "filter (\<lambda>i. history_key (hs ! i) = key) [0..<length hs]"
  let ?n = "length ?ix - limit"
  have hs: "map ((!) hs) [0..<length hs] = hs" by (rule map_nth)
  have owned: "map ((!) hs) ?ix = filter ?p hs"
    using arg_cong[OF hs, of "filter ?p"] by (simp add: filter_map comp_def)
  have "filter (\<lambda>i. i \<notin> set (take ?n ?ix)) ?ix = drop ?n ?ix" by (rule filter_not_taken) simp
  moreover have "filter ?p (drop_excess key limit hs) = map ((!) hs) (filter (\<lambda>i. i \<notin> set (take ?n ?ix)) ?ix)"
    by (simp add: drop_excess_def Let_def filter_map comp_def) (metis (no_types, lifting) filter_cong conj_commute)
  ultimately show ?thesis using owned by (metis drop_map length_map)
qed

lemma keep_newest_filter:
  "filter (\<lambda>h. history_key h = key) (keep_newest limit counts hs)
   = take (limit - dict_get counts key 0) (filter (\<lambda>h. history_key h = key) hs)"
proof (induction hs arbitrary: counts)
  case (Cons h hs)
  show ?case
  proof (cases "history_key h = key \<and> dict_get counts key 0 < limit")
    case True
    then obtain n where "limit - dict_get counts key 0 = Suc n" "limit - (dict_get counts key 0 + 1) = n"
      by (metis Suc_diff_Suc Suc_eq_plus1)
    with True Cons show ?thesis by (simp add: dict_get_def)
  next
    case False
    with Cons show ?thesis by (auto simp: dict_get_def)
  qed
qed simp

lemma newest_first_sorted: "sorted_wrt (\<ge>) (map f (newest_first f xs))"
  unfolding newest_first_def by (simp add: rev_map[symmetric] sorted_wrt_rev)

lemma history_key_new [simp]:
  "history_key \<lparr>hi_owner_id = owner, hi_workspace_id = ws, hi_sql = sql, hi_ran_at = ran_at\<rparr> = (owner, ws)"
  by (simp add: history_key_def)

lemma record_history_filter:
  "0 < limit \<Longrightarrow> filter (\<lambda>h. history_key h = (owner, ws)) (cp_history (record_history owner ws sql ran_at limit repo))
   = (let hs = filter (\<lambda>h. history_key h = (owner, ws)) (cp_history repo)
        @ [\<lparr>hi_owner_id = owner, hi_workspace_id = ws, hi_sql = sql, hi_ran_at = ran_at\<rparr>]
      in drop (length hs - limit) hs)"
  by (simp add: record_history_def drop_excess_filter Let_def)

text \<open>
  Pruning leaves the history of a workspace newest first, while recording appends and deletes from
  the front: the first query recorded in a workspace whose pruned history is full evicts the newest of
  the kept entries, not the oldest.
\<close>

theorem record_after_prune_evicts_newest:
  assumes "0 < limit" "kept = filter (\<lambda>h. history_key h = (owner, ws)) (cp_history (prune_console_history limit repo))" "length kept = limit"
  shows "filter (\<lambda>h. history_key h = (owner, ws)) (cp_history (record_history owner ws sql ran_at limit (prune_console_history limit repo)))
      = tl kept @ [\<lparr>hi_owner_id = owner, hi_workspace_id = ws, hi_sql = sql, hi_ran_at = ran_at\<rparr>]
    \<and> (\<forall>h\<in>set kept. hi_ran_at h \<le> hi_ran_at (hd kept))"
proof
  have "kept = take limit (filter (\<lambda>h. history_key h = (owner, ws)) (newest_first hi_ran_at (cp_history repo)))"
    using assms(1,2) by (simp add: prune_console_history_def keep_newest_filter dict_get_def)
  moreover have "sorted_wrt (\<lambda>h g. hi_ran_at h \<ge> hi_ran_at g) (newest_first hi_ran_at (cp_history repo))"
    using newest_first_sorted[of hi_ran_at "cp_history repo"] by (simp add: sorted_wrt_map)
  ultimately have "sorted_wrt (\<lambda>h g. hi_ran_at h \<ge> hi_ran_at g) kept"
    by (simp add: sorted_wrt_take sorted_wrt_filter)
  then show "\<forall>h\<in>set kept. hi_ran_at h \<le> hi_ran_at (hd kept)" by (cases kept) auto
  show "filter (\<lambda>h. history_key h = (owner, ws)) (cp_history (record_history owner ws sql ran_at limit (prune_console_history limit repo)))
      = tl kept @ [\<lparr>hi_owner_id = owner, hi_workspace_id = ws, hi_sql = sql, hi_ran_at = ran_at\<rparr>]"
    using assms by (simp add: record_history_filter Let_def drop_Suc)
qed

section \<open>Saved queries are versioned\<close>

type_synonym query_key = "string \<times> string \<times> string"

definition query_at :: "console_repo \<Rightarrow> query_key \<Rightarrow> saved_query option" where
  "query_at repo key = (case key of (owner, ws, i) \<Rightarrow> (case map_of (cp_saved_queries repo) i of None \<Rightarrow> None
     | Some stored \<Rightarrow> if in_library owner ws stored then Some (snd stored) else None))"

record query_update =
  qu_expected_revision :: nat
  qu_name :: "string option"
  qu_sql :: "string option"
  qu_now :: instant

definition write_query :: "query_key \<Rightarrow> query_update \<Rightarrow> saved_query console_call" where
  "write_query key u repo = (case key of (owner, ws, i) \<Rightarrow>
     update_saved_query owner ws i (qu_expected_revision u) (qu_name u) (qu_sql u) (qu_now u) repo)"

lemma update_saved_query_cases:
  obtains (refused) e where "update_saved_query owner ws i revision name sql now repo = (Inl e, repo)"
  | (accepted) q q' where "update_saved_query owner ws i revision name sql now repo
        = (Inr q', repo\<lparr>cp_saved_queries := AList.update i (owner, q') (cp_saved_queries repo)\<rparr>)"
      "map_of (cp_saved_queries repo) i = Some (owner, q)" "sq_workspace_id q = ws" "sq_revision q = revision"
      "sq_workspace_id q' = ws" "sq_revision q' = Suc revision"
proof (cases "find_saved_query owner ws i revision repo")
  case (Inl e)
  then show thesis by (intro refused) (simp add: update_saved_query_def)
next
  case (Inr q)
  then have q: "map_of (cp_saved_queries repo) i = Some (owner, q)" "sq_workspace_id q = ws" "sq_revision q = revision"
    by (auto simp: find_saved_query_def in_library_def split: option.splits if_splits)
  show thesis
  proof (cases "\<exists>e. update_saved_query owner ws i revision name sql now repo = (Inl e, repo)")
    case True
    then show thesis using refused by blast
  next
    case False
    with Inr q show thesis
      by (intro accepted[OF _ q, of "snd (the (map_of (cp_saved_queries (snd (update_saved_query owner ws i revision name sql now repo))) i))"])
        (auto simp: update_saved_query_def Let_def split: if_splits)
  qed
qed

interpretation saved_queries: versioned_store "\<lambda>_. True" query_at sq_revision qu_expected_revision write_query
proof
  fix s s' :: console_repo and k :: query_key and r :: query_update and out
  obtain owner ws i where k: "k = (owner, ws, i)" by (cases k)
  note cases = update_saved_query_cases[of owner ws i "qu_expected_revision r" "qu_name r" "qu_sql r" "qu_now r" s]
  show "write_query k r s = (Inr out, s') \<Longrightarrow>
      \<exists>old new. query_at s k = Some old \<and> sq_revision old = qu_expected_revision r \<and> query_at s' k = Some new
        \<and> (new = old \<or> sq_revision new = Suc (sq_revision old))"
    by (cases rule: cases) (auto simp: k write_query_def query_at_def in_library_def)
  show "query_at s' k = query_at s k" if "write_query k r s = (Inl e, s')" for e
    using that by (cases rule: cases) (auto simp: k write_query_def)
  show "query_at (snd (write_query k r s)) k' = query_at s k'" if "k' \<noteq> k" for k'
    using that by (cases rule: cases) (auto simp: k write_query_def query_at_def in_library_def split: prod.splits option.splits)
qed simp

text \<open>
  Saved queries are not overwritten unseen: an update that is accepted after any sequence of other
  updates changes exactly the version its author read.
\<close>

theorem saved_query_no_lost_update:
  assumes "query_at repo key = Some q" "qu_expected_revision u = sq_revision q"
    and "write_query key u (run_writes write_query others repo) = (Inr out, repo')"
  shows "query_at (run_writes write_query others repo) key = Some q"
  using saved_queries.no_lost_update[OF _ assms] by simp

section \<open>Late answers\<close>

text \<open>
  A running execution that recovery recorded as interrupted becomes succeeded when its worker
  answers afterwards, although the PostgreSQL repository refuses that answer as a conflict.
\<close>

theorem interrupted_execution_revived:
  assumes "map_of (cp_records repo) i = Some r" "ce_status (cn_execution r) = ConsoleRunning" "\<not> cn_cancel_requested r"
  shows "\<exists>f s repo'. find_record (cn_owner_id r) i (recover_interrupted now repo) = Inr f \<and> ce_status (cn_execution f) = ConsoleFailed
    \<and> succeed_execution token (cn_owner_id r) i results expires_at later (recover_interrupted now repo) = (Inr s, repo')
    \<and> ce_status (cn_execution s) = ConsoleSucceeded \<and> map_of (cp_records repo') i = Some s"
  using assms by (simp add: recover_interrupted_def map_of_map active_def find_record_def succeed_execution_def Let_def put_record_def)

end
