(* ===== verification/Console_Sample.thy ===== *)
theory Console_Sample
  imports Console_Properties
begin

text \<open>Small runs of the console repository that instantiate its properties.\<close>

definition console_sample_target :: console_target where
  "console_sample_target = \<lparr>ct_connection_id = ''c'', ct_connection_revision = 1, ct_database = ''d'', ct_namespace = ''n'',
     ct_connection_owner_id = None\<rparr>"

definition sample_opening :: transaction_opening where
  "sample_opening = \<lparr>op_workspace_id = ''w'', op_console_id = ''e'', op_workspace_revision = 1, op_target = console_sample_target,
     op_backend_pid = 7, op_created_at = 1, op_expires_at = 9, op_maximum_expires_at = 99\<rparr>"

definition sample_reservation :: reservation where
  "sample_reservation = \<lparr>rv_workspace_id = Some ''w'', rv_console_id = ''e'', rv_workspace_revision = Some 1, rv_target = console_sample_target,
     rv_statements = [''SELECT 1''], rv_page_size = 10, rv_transaction_id = None, rv_expected_transaction_revision = None,
     rv_transaction_expires_at = None\<rparr>"

definition committed_run :: "console_request list" where
  "committed_run = [CreateTransaction ''a'' ''o'' sample_opening, FinishTransaction ''o'' ''w'' ''ctx_a'' 1 TransactionCommitted 2]"

theorem finished_transaction_final_witness:
  "\<exists>t. tr_status (tn_transaction t) = TransactionCommitted
     \<and> map_of (cp_transactions (run_requests (committed_run @ [ExpireTransaction ''o'' ''ctx_a'' 3]) empty_console)) ''ctx_a'' = Some t"
proof -
  let ?d = "cp_transactions (run_requests committed_run empty_console)"
  have "map_option (\<lambda>t. tr_status (tn_transaction t)) (map_of ?d ''ctx_a'') = Some TransactionCommitted" by code_simp
  then obtain t where t: "map_of ?d ''ctx_a'' = Some t" "tr_status (tn_transaction t) = TransactionCommitted" by auto
  from finished_transaction_final[OF t(1), of "[ExpireTransaction ''o'' ''ctx_a'' 3]"] t(2) show ?thesis
    by (auto simp: unfinished_def)
qed

definition sample_history :: console_repo where
  "sample_history = empty_console\<lparr>cp_history :=
     [\<lparr>hi_owner_id = ''o'', hi_workspace_id = ''w'', hi_sql = ''old'', hi_ran_at = 1\<rparr>,
      \<lparr>hi_owner_id = ''o'', hi_workspace_id = ''w'', hi_sql = ''new'', hi_ran_at = 2\<rparr>]\<rparr>"

theorem record_after_prune_evicts_newest_witness:
  "map hi_sql (filter (\<lambda>h. history_key h = (''o'', ''w'')) (cp_history (record_history ''o'' ''w'' ''third'' 3 2 (prune_console_history 2 sample_history))))
   = [''old'', ''third'']"
proof -
  let ?kept = "filter (\<lambda>h. history_key h = (''o'', ''w'')) (cp_history (prune_console_history 2 sample_history))"
  have "map hi_sql ?kept = [''new'', ''old'']" by code_simp
  then have "length ?kept = 2" "map hi_sql (tl ?kept) = [''old'']" by (auto simp: map_eq_Cons_conv)
  with record_after_prune_evicts_newest[OF _ refl, of 2 "''o''" "''w''" sample_history "''third''" 3] show ?thesis by simp
qed

definition sample_library :: console_repo where
  "sample_library = snd (create_saved_query ''q'' ''o'' ''w'' ''all'' ''SELECT 1'' False 1 5 empty_console)"

definition sample_change :: "nat \<Rightarrow> query_update" where
  "sample_change revision = \<lparr>qu_expected_revision = revision, qu_name = None, qu_sql = Some ''SELECT 2'', qu_now = 2\<rparr>"

theorem saved_query_no_lost_update_witness:
  "\<exists>q. query_at sample_library (''o'', ''w'', ''sq_q'') = Some q
     \<and> query_at (run_writes write_query [((''o'', ''w'', ''sq_q''), sample_change 7)] sample_library) (''o'', ''w'', ''sq_q'') = Some q"
proof -
  let ?k = "(''o'', ''w'', ''sq_q'')" and ?others = "[((''o'', ''w'', ''sq_q''), sample_change 7)]"
  have "map_option sq_revision (query_at sample_library ?k) = Some 1" by code_simp
  then obtain q where q: "query_at sample_library ?k = Some q" "sq_revision q = 1" by auto
  have "Sum_Type.isl (fst (write_query ?k (sample_change 1) (run_writes write_query ?others sample_library))) = False" by code_simp
  then have "\<exists>out. fst (write_query ?k (sample_change 1) (run_writes write_query ?others sample_library)) = Inr out"
    by (metis sum.collapse(2))
  then obtain out repo' where "write_query ?k (sample_change 1) (run_writes write_query ?others sample_library) = (Inr out, repo')"
    by (metis prod.collapse)
  from saved_query_no_lost_update[OF q(1) _ this] q show ?thesis by (auto simp: sample_change_def)
qed

theorem interrupted_execution_revived_witness:
  "\<exists>s repo'. succeed_execution (\<lambda>_. ''t'') ''o'' ''cex_x'' [] 9 4
      (recover_interrupted 3 (run_requests [Reserve ''x'' ''o'' sample_reservation 1, ClaimExecution ''o'' ''cex_x'' 2] empty_console)) = (Inr s, repo')
    \<and> ce_status (cn_execution s) = ConsoleSucceeded"
proof -
  let ?repo = "run_requests [Reserve ''x'' ''o'' sample_reservation 1, ClaimExecution ''o'' ''cex_x'' 2] empty_console"
  have "map_option (\<lambda>r. (cn_owner_id r, ce_status (cn_execution r), cn_cancel_requested r)) (map_of (cp_records ?repo) ''cex_x'')
      = Some (''o'', ConsoleRunning, False)" by code_simp
  then obtain r where r: "map_of (cp_records ?repo) ''cex_x'' = Some r" "cn_owner_id r = ''o''" "ce_status (cn_execution r) = ConsoleRunning"
    "\<not> cn_cancel_requested r" by auto
  from interrupted_execution_revived[OF r(1,3,4), of 3 "\<lambda>_. ''t''" "[]" 9 4] r(2) show ?thesis by auto
qed

end
