(* ===== verification/Schema_Source.thy ===== *)
theory Schema_Source
  imports Schemii_Prelude
begin

text \<open>
  Normalisation of PostgreSQL definitions, \<open>common/postgres/schema_source.py\<close>. The parsers pglast and sqlglot
  are parameters: \<open>sql_parser\<close> holds what they answer, as the part of their syntax trees the code reads.
  Text that \<open>RawStream\<close> prints from a tree is part of the tree here, as a function of the fields the code
  changes before printing.
\<close>

section \<open>Statements\<close>

record index_parameter =
  ip_name :: "string option"
  ip_expr :: bool
  ip_collation :: bool
  ip_opclass :: bool
  ip_opclassopts :: bool
  ip_default_ordering :: bool
  ip_default_nulls_ordering :: bool
  ip_text :: string

record index_statement =
  ix_idxname :: "string option"
  ix_relname :: string
  ix_options :: bool
  ix_table_space :: bool
  ix_nulls_not_distinct :: bool
  ix_params :: "index_parameter list"
  ix_including :: "index_parameter list"
  ix_where :: "string option"
  ix_access_method :: "string option"
  ix_unique :: bool

text \<open>A routine with its (qualified) name, and its text under another name.\<close>

record routine_statement =
  ro_funcname :: "string list"
  ro_text :: "string list \<Rightarrow> string"

record trigger_statement =
  tg_schemaname :: "string option"
  tg_funcname :: "string list"
  tg_text :: "string option \<Rightarrow> string list \<Rightarrow> string"

text \<open>A command of \<open>ALTER TABLE\<close>: a CHECK constraint with the text of its expression, or something else.\<close>

datatype alter_command = AddCheck "string option" | OtherCommand

datatype pg_statement =
    IndexStmt index_statement
  | CreateFunctionStmt routine_statement
  | CreateTrigStmt trigger_statement
  | AlterTableStmt "alter_command list"
  | OtherStmt

record sql_parser =
  sp_parse_sql :: "string \<Rightarrow> pg_statement list option"
  sp_columns :: "string \<Rightarrow> string list option"

text \<open>A definition that is not supported; the value is the message of \<open>SchemaSourceError\<close>.\<close>

type_synonym 'a source_result = "(string, 'a) result"

section \<open>Expressions\<close>

text \<open>Referenced local columns in the order of their first use.\<close>

definition expression_column_names :: "sql_parser \<Rightarrow> string \<Rightarrow> string set \<Rightarrow> string list source_result" where
  "expression_column_names sp expression available =
     (case sp_columns sp (''SELECT '' @ expression) of
        None \<Rightarrow> Inl ''The PostgreSQL expression could not be parsed''
      | Some names \<Rightarrow> Inr (dedupe (filter (\<lambda>n. n \<in> available) names)))"

definition check_expression :: "sql_parser \<Rightarrow> string \<Rightarrow> string source_result" where
  "check_expression sp d =
     (case sp_parse_sql sp (''ALTER TABLE schemii_import ADD CONSTRAINT schemii_import '' @ d) of
        None \<Rightarrow> Inl ''The PostgreSQL check constraint could not be parsed''
      | Some [] \<Rightarrow> Inl ''The PostgreSQL check constraint could not be parsed''
      | Some (AlterTableStmt [command] # _) \<Rightarrow>
          (case command of AddCheck (Some expression) \<Rightarrow> Inr (strip expression)
           | _ \<Rightarrow> Inl ''The PostgreSQL definition is not a CHECK constraint'')
      | Some _ \<Rightarrow> Inl ''The PostgreSQL check constraint is not supported'')"

section \<open>Indexes\<close>

record index_source =
  is_name :: string
  is_table :: string
  is_method :: string
  is_unique :: bool
  is_columns :: "string list"
  is_included_columns :: "string list"
  is_expression :: "string option"
  is_predicate :: "string option"

text \<open>Truth of an optional string.\<close>

definition given :: "string option \<Rightarrow> bool" where
  "given s = (s \<noteq> None \<and> s \<noteq> Some '''')"

definition simple_parameter :: "index_parameter \<Rightarrow> bool" where
  "simple_parameter p = (given (ip_name p) \<and> \<not> ip_expr p \<and> \<not> ip_collation p \<and> \<not> ip_opclass p \<and> \<not> ip_opclassopts p
     \<and> ip_default_ordering p \<and> ip_default_nulls_ordering p)"

definition index_of_statement :: "index_statement \<Rightarrow> index_source source_result" where
  "index_of_statement s =
     (if \<not> given (ix_idxname s) \<or> ix_relname s = '''' then Inl ''The PostgreSQL index identity could not be derived''
      else if ix_options s then Inl ''Index storage parameters are not represented by the design index model''
      else if ix_table_space s then Inl ''Index tablespaces are not represented by the design index model''
      else if ix_nulls_not_distinct s then Inl ''NULLS NOT DISTINCT is not represented by the design index model''
      else let simple = list_all simple_parameter (ix_params s) in
        if \<not> list_all (given \<circ> ip_name) (ix_including s) then Inl ''INCLUDE index entries must be columns''
        else Inr \<lparr>is_name = the (ix_idxname s), is_table = ix_relname s,
               is_method = (if given (ix_access_method s) then the (ix_access_method s) else ''btree''), is_unique = ix_unique s,
               is_columns = (if simple then map (the \<circ> ip_name) (ix_params s) else []),
               is_included_columns = map (the \<circ> ip_name) (ix_including s),
               is_expression = (if simple then None else Some (join '', '' (map (strip \<circ> ip_text) (ix_params s)))),
               is_predicate = map_option strip (ix_where s)\<rparr>)"

definition index_source_of :: "sql_parser \<Rightarrow> string \<Rightarrow> index_source source_result" where
  "index_source_of sp d =
     (case sp_parse_sql sp d of
        None \<Rightarrow> Inl ''The PostgreSQL index definition could not be parsed''
      | Some [IndexStmt s] \<Rightarrow> index_of_statement s
      | Some _ \<Rightarrow> Inl ''The PostgreSQL definition is not one CREATE INDEX statement'')"

section \<open>Routines and triggers\<close>

definition target_independent_routine :: "sql_parser \<Rightarrow> string \<Rightarrow> string \<Rightarrow> string source_result" where
  "target_independent_routine sp d namespace =
     (case sp_parse_sql sp d of
        None \<Rightarrow> Inl ''The PostgreSQL routine definition could not be parsed''
      | Some [CreateFunctionStmt s] \<Rightarrow>
          (let names = ro_funcname s in
           if length names = 2 \<and> names ! 0 = namespace then Inr (strip (ro_text s [names ! 1]))
           else if length names \<noteq> 1 then Inl ''The routine belongs to a different namespace''
           else Inr (strip (ro_text s names)))
      | Some _ \<Rightarrow> Inl ''The PostgreSQL routine definition is not supported'')"

definition target_independent_trigger :: "sql_parser \<Rightarrow> string \<Rightarrow> string \<Rightarrow> string source_result" where
  "target_independent_trigger sp d namespace =
     (case sp_parse_sql sp d of
        None \<Rightarrow> Inl ''The PostgreSQL trigger definition could not be parsed''
      | Some [CreateTrigStmt s] \<Rightarrow>
          if tg_schemaname s \<notin> {None, Some namespace} then Inl ''The trigger belongs to a different namespace''
          else (let names = tg_funcname s in
                Inr (strip (tg_text s None (if length names = 2 \<and> names ! 0 = namespace then [names ! 1] else names))))
      | Some _ \<Rightarrow> Inl ''The PostgreSQL trigger definition is not supported'')"

section \<open>Properties\<close>

lemma expression_columns_available:
  "expression_column_names sp expression available = Inr names \<Longrightarrow> set names \<subseteq> available \<and> distinct names"
  by (auto simp: expression_column_names_def split: option.splits)

end
