(* ===== verification/Catalog_Import.thy ===== *)
theory Catalog_Import
  imports Workspace_Store Schema_Source
begin

text \<open>
  Import of a catalog snapshot as a new desired design, \<open>schemii/designs/importer.py\<close>: every object that the
  design model can represent becomes a design object with an identifier derived from the catalog
  fingerprint and its name; everything else is an issue of the import summary.

  The loops append to the lists of design objects and to \<open>issues\<close>; here every function returns what it
  appends to both. The analysis of type, routine and trigger definitions in the model validators
  (\<open>analyze_type_definition\<close> and its siblings, on syntax trees of pglast) is a parameter, as are the
  parsers below \<open>Schema_Source\<close>, sha256 and the query parser.
\<close>

record import_source =
  sc_sha256 :: "string \<Rightarrow> string"
  sc_parser :: sql_parser
  sc_analyze_type :: "string \<Rightarrow> (string, design_type) result"
  sc_analyze_routine :: "string \<Rightarrow> (string, design_function) result"
  sc_analyze_trigger :: "string \<Rightarrow> (string, design_trigger) result"
  sc_base_type_name :: "string \<Rightarrow> string option"
  sc_query_error :: "string \<Rightarrow> (string \<times> string) option"

datatype import_error = ImportKeyError string string | ImportInvalid design_error | ImportLayoutError

type_synonym issues = "import_issue list"

section \<open>Identifiers and issues\<close>

definition semantic_id :: "import_source \<Rightarrow> pg_catalog \<Rightarrow> string \<Rightarrow> string list \<Rightarrow> string" where
  "semantic_id im catalog pre parts =
     pre @ ''_'' @ take 32 (sc_sha256 im (join [char_of (0::nat)] (cat_fingerprint catalog # pre # parts)))"

definition issue :: "string \<Rightarrow> string \<Rightarrow> string \<Rightarrow> import_issue" where
  "issue category object_name reason = \<lparr>is_category = category, is_object_name = object_name, is_reason = reason\<rparr>"

definition issue_if :: "bool \<Rightarrow> string \<Rightarrow> string \<Rightarrow> string \<Rightarrow> issues" where
  "issue_if b category object_name reason = (if b then [issue category object_name reason] else [])"

text \<open>\<open>repr\<close> of a string: single quotes unless only they occur, with the usual escapes.\<close>

definition repr_char :: "char \<Rightarrow> char \<Rightarrow> string" where
  "repr_char q c =
     (let code = (of_char c :: nat) in
      if c = q \<or> code = 92 then [CHR 92, c]
      else if code = 10 then [CHR 92, CHR ''n''] else if code = 13 then [CHR 92, CHR ''r''] else if code = 9 then [CHR 92, CHR ''t'']
      else if code < 32 \<or> code = 127 then [CHR 92, CHR ''x'', hex_digit (code div 16), hex_digit (code mod 16)]
      else [c])"

definition py_repr :: "string \<Rightarrow> string" where
  "py_repr s = (let q = (if CHR 39 \<in> set s \<and> CHR 34 \<notin> set s then CHR 34 else CHR 39) in [q] @ concat (map (repr_char q) s) @ [q])"

text \<open>\<open>str\<close> of the \<open>KeyError\<close> for a missing pair.\<close>

definition missing_text :: "string \<times> string \<Rightarrow> string" where
  "missing_text k = ''('' @ py_repr (fst k) @ '', '' @ py_repr (snd k) @ '')''"

definition or_text :: "string \<Rightarrow> string \<Rightarrow> string" where
  "or_text s t = (if s = '''' then t else s)"

text \<open>\<open>[column_ids[(table, name)] for name in names]\<close>, with the first missing key.\<close>

fun lookup_columns :: "(string \<times> string, string) dict \<Rightarrow> string \<Rightarrow> string list \<Rightarrow> (string \<times> string, string list) result" where
  "lookup_columns column_ids table [] = Inr []"
| "lookup_columns column_ids table (n # ns) =
     (case map_of column_ids (table, n) of None \<Rightarrow> Inl (table, n)
      | Some i \<Rightarrow> result_bind (lookup_columns column_ids table ns) (\<lambda>rest. Inr (i # rest)))"

definition error_text :: "(string \<times> string, 'a) result \<Rightarrow> (string, 'a) result" where
  "error_text r = (case r of Inl k \<Rightarrow> Inl (missing_text k) | Inr a \<Rightarrow> Inr a)"

section \<open>Columns\<close>

definition ordered_expression_column_names :: "import_source \<Rightarrow> string \<Rightarrow> pg_column list \<Rightarrow> string list source_result" where
  "ordered_expression_column_names im expression columns =
     result_bind (expression_column_names (sc_parser im) expression (pgc_name ` set columns)) (\<lambda>referenced.
       Inr (map pgc_name (filter (\<lambda>c. pgc_name c \<in> set referenced) (sort_key pgc_ordinal columns))))"

definition table_path :: "pg_table \<Rightarrow> string" where
  "table_path t = pgb_namespace t @ ''.'' @ pgb_name t"

definition import_column :: "import_source \<Rightarrow> pg_catalog \<Rightarrow> pg_table \<Rightarrow> pg_column \<Rightarrow> design_column \<times> issues" where
  "import_column im catalog t c =
     (let path = table_path t @ ''.'' @ pgc_name c;
          expression = (if pgc_generated c \<noteq> None then pgc_default_expression c else None);
          (generated, sources, unparsed) =
            (if given expression
             then case ordered_expression_column_names im (the expression) (pgb_columns t) of
                 Inl message \<Rightarrow> (None, [], [issue ''column'' path message])
               | Inr names \<Rightarrow> (expression, map (\<lambda>n. semantic_id im catalog ''column'' [pgb_name t, n]) names, [])
             else (expression, [], []))
      in (\<lparr>col_id = semantic_id im catalog ''column'' [pgb_name t, pgc_name c], col_name = pgc_name c,
            col_data_type = pgc_data_type c, col_nullable = pgc_nullable c,
            col_default_expression = (if pgc_generated c = None \<and> pgc_identity c = None then pgc_default_expression c else None),
            col_identity = pgc_identity c, col_generated_expression = generated, col_generated_source_column_ids = sources\<rparr>,
          unparsed @ issue_if (pgc_collation_name c \<notin> {None, Some ''default''} \<or> pgc_collation_schema c \<notin> {None, Some ''pg_catalog''})
            ''column'' path ''Non-default column collation is not represented by the desired-design model''))"

section \<open>Constraints and indexes\<close>

definition source_keys :: "pg_table \<Rightarrow> (key_kind \<times> pg_key) list" where
  "source_keys t = (case pgb_primary_key t of None \<Rightarrow> [] | Some k \<Rightarrow> [(PrimaryKey, k)]) @ map (Pair UniqueKey) (pgb_unique_constraints t)"

definition import_key ::
  "import_source \<Rightarrow> pg_catalog \<Rightarrow> (string \<times> string, string) dict \<Rightarrow> pg_table \<Rightarrow> key_kind \<times> pg_key
     \<Rightarrow> (string \<times> string, design_key \<times> issues) result" where
  "import_key im catalog column_ids t entry =
     (let (kind, k) = entry; path = table_path t @ ''.'' @ pgk_name k in
      result_bind (lookup_columns column_ids (pgb_name t) (pgk_columns k)) (\<lambda>ids.
        Inr (\<lparr>key_id = semantic_id im catalog ''key'' [pgb_name t, pgk_name k], key_name = pgk_name k, key_kind = kind, key_column_ids = ids\<rparr>,
             issue_if (pgk_deferrable k \<or> pgk_initially_deferred k) ''constraint'' path
               ''Key deferrability is not represented by the desired-design model''
             @ issue_if (\<not> pgk_validated k) ''constraint'' path
               ''Unvalidated key state is not represented by the desired-design model'')))"

text \<open>An object that may be left out: the objects appended (at most one) and the issues.\<close>

type_synonym 'a imported = "'a list \<times> issues"

definition import_check ::
  "import_source \<Rightarrow> pg_catalog \<Rightarrow> (string \<times> string, string) dict \<Rightarrow> pg_table \<Rightarrow> pg_check \<Rightarrow> design_check imported" where
  "import_check im catalog column_ids t c =
     (let path = table_path t @ ''.'' @ pgh_name c in
      case result_bind (check_expression (sc_parser im) (pgh_definition c)) (\<lambda>expression.
             result_bind (ordered_expression_column_names im expression (pgb_columns t)) (\<lambda>names.
               result_bind (error_text (lookup_columns column_ids (pgb_name t) names)) (\<lambda>ids. Inr (expression, ids)))) of
        Inl message \<Rightarrow> ([], [issue ''constraint'' path (or_text message ''The check references an unavailable column'')])
      | Inr (expression, ids) \<Rightarrow>
          ([\<lparr>chk_id = semantic_id im catalog ''check'' [pgb_name t, pgh_name c], chk_name = pgh_name c,
             chk_expression = expression, chk_column_ids = ids\<rparr>],
           issue_if (\<not> pgh_validated c) ''constraint'' path ''NOT VALID check state is not represented by the desired-design model''))"

definition expression_ids ::
  "import_source \<Rightarrow> (string \<times> string, string) dict \<Rightarrow> pg_table \<Rightarrow> string option \<Rightarrow> (string, string list) result" where
  "expression_ids im column_ids t expression =
     (if given expression
      then result_bind (ordered_expression_column_names im (the expression) (pgb_columns t)) (\<lambda>names.
             error_text (lookup_columns column_ids (pgb_name t) names))
      else Inr [])"

definition import_index ::
  "import_source \<Rightarrow> pg_catalog \<Rightarrow> (string \<times> string, string) dict \<Rightarrow> pg_table \<Rightarrow> pg_index \<Rightarrow> design_index imported" where
  "import_index im catalog column_ids t i =
     (let path = table_path t @ ''.'' @ pgi_name i in
      case result_bind (index_source_of (sc_parser im) (pgi_definition i)) (\<lambda>parsed.
             result_bind (error_text (lookup_columns column_ids (pgb_name t) (is_columns parsed))) (\<lambda>direct.
               result_bind (error_text (lookup_columns column_ids (pgb_name t) (is_included_columns parsed))) (\<lambda>included.
                 result_bind (expression_ids im column_ids t (is_expression parsed)) (\<lambda>expression.
                   result_bind (expression_ids im column_ids t (is_predicate parsed)) (\<lambda>predicate.
                     Inr (parsed, direct, included, expression, predicate)))))) of
        Inl message \<Rightarrow> ([], [issue ''index'' path (or_text message ''The index references an unavailable column'')])
      | Inr (parsed, direct, included, expression, predicate) \<Rightarrow>
          ([\<lparr>idx_id = semantic_id im catalog ''index'' [pgb_name t, pgi_name i], idx_name = is_name parsed, idx_method = is_method parsed,
             idx_column_ids = direct, idx_include_column_ids = included, idx_expression = is_expression parsed,
             idx_expression_source_column_ids = expression, idx_predicate = is_predicate parsed,
             idx_predicate_column_ids = predicate, idx_unique = is_unique parsed\<rparr>],
           issue_if (\<not> pgi_valid i) ''index'' path ''Invalid PostgreSQL index state is not represented by the desired-design model''))"

section \<open>Tables\<close>

text \<open>A loop whose body appends to a list and to the issues.\<close>

definition import_each :: "('a \<Rightarrow> 'b imported) \<Rightarrow> 'a list \<Rightarrow> 'b imported" where
  "import_each f xs = (concat (map (fst \<circ> f) xs), concat (map (snd \<circ> f) xs))"

text \<open>A loop whose body may raise.\<close>

fun import_all :: "('a \<Rightarrow> ('e, 'b \<times> issues) result) \<Rightarrow> 'a list \<Rightarrow> ('e, 'b imported) result" where
  "import_all f [] = Inr ([], [])"
| "import_all f (x # xs) = result_bind (f x) (\<lambda>(y, issues). result_bind (import_all f xs) (\<lambda>(ys, rest). Inr (y # ys, issues @ rest)))"

definition add_column_ids ::
  "import_source \<Rightarrow> pg_catalog \<Rightarrow> pg_table \<Rightarrow> (string \<times> string, string) dict \<Rightarrow> (string \<times> string, string) dict" where
  "add_column_ids im catalog t column_ids = foldl (\<lambda>d c.
     AList.update (pgb_name t, pgc_name c) (semantic_id im catalog ''column'' [pgb_name t, pgc_name c]) d)
     column_ids (sort_key pgc_ordinal (pgb_columns t))"

definition table_features :: "pg_table \<Rightarrow> issues" where
  "table_features t =
     issue_if (pgb_kind t = PartitionedTable \<or> pgb_is_partition t) ''table'' (table_path t)
       ''Partitioning is not represented by the desired-design model''
     @ map (\<lambda>c. issue ''constraint'' (table_path t @ ''.'' @ pgh_name c)
         ''Named NOT NULL constraint identity is represented only as column nullability'') (pgb_not_null_constraints t)
     @ map (\<lambda>c. issue ''constraint'' (table_path t @ ''.'' @ pgk_name c)
         ''Exclusion constraints are not represented by the desired-design model'') (pgb_exclusion_constraints t)"

definition import_table ::
  "import_source \<Rightarrow> pg_catalog \<Rightarrow> (string \<times> string, string) dict \<Rightarrow> pg_table
     \<Rightarrow> (string \<times> string, design_table imported \<times> (string \<times> string, string) dict) result" where
  "import_table im catalog column_ids0 t =
     (if pgb_columns t = []
      then Inr (([], [issue ''table'' (table_path t) ''Tables without columns are not represented by the desired-design model'']), column_ids0)
      else let column_ids = add_column_ids im catalog t column_ids0;
               columns = map (import_column im catalog t) (sort_key pgc_ordinal (pgb_columns t));
               (checks, check_issues) = import_each (import_check im catalog column_ids t) (pgb_checks t);
               (indexes, index_issues) = import_each (import_index im catalog column_ids t) (pgb_indexes t) in
        result_bind (import_all (import_key im catalog column_ids t) (source_keys t)) (\<lambda>(keys, key_issues).
          Inr (([\<lparr>tbl_id = semantic_id im catalog ''table'' [pgb_name t], tbl_name = pgb_name t, tbl_columns = map fst columns,
                  tbl_keys = keys, tbl_checks = checks, tbl_indexes = indexes\<rparr>],
                concat (map snd columns) @ key_issues @ check_issues @ index_issues @ table_features t), column_ids)))"

fun import_tables ::
  "import_source \<Rightarrow> pg_catalog \<Rightarrow> (string \<times> string, string) dict \<Rightarrow> pg_table list
     \<Rightarrow> (string \<times> string, design_table imported \<times> (string \<times> string, string) dict) result" where
  "import_tables im catalog column_ids [] = Inr (([], []), column_ids)"
| "import_tables im catalog column_ids (t # ts) =
     result_bind (import_table im catalog column_ids t) (\<lambda>((tables, issues), ids).
       result_bind (import_tables im catalog ids ts) (\<lambda>((rest, more), final). Inr ((tables @ rest, issues @ more), final)))"

section \<open>Relationships, routines, views and triggers\<close>

definition import_type :: "import_source \<Rightarrow> pg_catalog \<Rightarrow> pg_type \<Rightarrow> design_type imported" where
  "import_type im catalog t =
     (case sc_analyze_type im (pgy_definition t) of
        Inl message \<Rightarrow> ([], [issue ''type'' (pgy_name t) message])
      | Inr contract \<Rightarrow>
          ([contract\<lparr>ty_id := semantic_id im catalog ''type'' [type_kind_text (pgy_kind t), pgy_name t], ty_definition := pgy_definition t\<rparr>], []))"

definition import_relationship ::
  "import_source \<Rightarrow> pg_catalog \<Rightarrow> (string, design_table) dict \<Rightarrow> (string \<times> string, string) dict \<Rightarrow> pg_relationship \<Rightarrow> design_relationship imported" where
  "import_relationship im catalog table_by_name column_ids r =
     (let path = pgr_source_namespace r @ ''.'' @ pgr_source_table r @ ''.'' @ pgr_name r in
      case (map_of table_by_name (pgr_source_table r),
            if pgr_target_namespace r = cat_namespace catalog then map_of table_by_name (pgr_target_table r) else None) of
        (Some src, Some target) \<Rightarrow>
          (case result_bind (lookup_columns column_ids (tbl_name src) (pgr_source_columns r)) (\<lambda>source_ids.
                  result_bind (lookup_columns column_ids (tbl_name target) (pgr_target_columns r)) (\<lambda>target_ids. Inr (source_ids, target_ids))) of
             Inl _ \<Rightarrow> ([], [issue ''relationship'' path ''The foreign key references a column omitted from the imported design''])
           | Inr (source_ids, target_ids) \<Rightarrow>
               ([\<lparr>rel_id = semantic_id im catalog ''relationship'' [pgr_source_table r, pgr_name r], rel_name = pgr_name r,
                  rel_source_table_id = tbl_id src, rel_source_column_ids = source_ids, rel_target_table_id = tbl_id target,
                  rel_target_column_ids = target_ids, rel_on_update = pgr_on_update r, rel_on_delete = pgr_on_delete r,
                  rel_deferrable = pgr_deferrable r, rel_initially_deferred = pgr_initially_deferred r\<rparr>],
                issue_if (pgr_match_type r \<noteq> MatchSimple) ''relationship'' path
                  (''MATCH '' @ match_text (pgr_match_type r) @ '' is not represented by the desired-design model'')
                @ issue_if (\<not> pgr_validated r) ''relationship'' path
                  ''NOT VALID foreign-key state is not represented by the desired-design model''))
      | _ \<Rightarrow> ([], [issue ''relationship'' path ''Foreign keys outside the imported namespace are not represented'']))"

definition import_function :: "import_source \<Rightarrow> pg_catalog \<Rightarrow> pg_function \<Rightarrow> design_function imported" where
  "import_function im catalog f =
     (let identity = pgf_name f @ ''('' @ pgf_identity_arguments f @ '')'' in
      case result_bind (target_independent_routine (sc_parser im) (pgf_definition f) (cat_namespace catalog)) (\<lambda>source.
             result_bind (sc_analyze_routine im source) (\<lambda>contract.
               Inr (contract\<lparr>fn_id := semantic_id im catalog ''function'' [identity], fn_definition := source\<rparr>))) of
        Inl message \<Rightarrow> ([], [issue ''routine'' identity message])
      | Inr routine \<Rightarrow> ([routine], []))"

definition source_views :: "pg_catalog \<Rightarrow> (view_kind \<times> string \<times> string \<times> bool option) list" where
  "source_views catalog =
     map (\<lambda>v. (OrdinaryView, pgv_name v, pgv_query_definition v, None)) (cat_views catalog)
     @ map (\<lambda>v. (MaterializedView, pgv_name v, pgv_query_definition v, Some (pgv_populated v))) (cat_materialized_views catalog)"

definition import_view :: "import_source \<Rightarrow> pg_catalog \<Rightarrow> view_kind \<times> string \<times> string \<times> bool option \<Rightarrow> design_view imported" where
  "import_view im catalog source =
     (case source of (kind, name, query, populated) \<Rightarrow>
      (case sc_query_error im query of
         Some (message, code) \<Rightarrow> ([], [issue ''view'' name message])
       | None \<Rightarrow>
           (case valid_population_intent \<lparr>view_id = semantic_id im catalog ''view'' [view_kind_text kind, name], view_name = name,
                   view_kind = kind, view_definition = query, view_populate_on_create = populated\<rparr> of
              Inl _ \<Rightarrow> ([], [issue ''view'' name ''ordinary views cannot have materialized population intent''])
            | Inr v \<Rightarrow> ([v], []))))"

definition import_trigger ::
  "import_source \<Rightarrow> pg_catalog \<Rightarrow> (string, design_table) dict \<Rightarrow> pg_table \<Rightarrow> pg_trigger \<Rightarrow> design_trigger imported" where
  "import_trigger im catalog table_by_name t g =
     (let path = pgb_name t @ ''.'' @ pgt_name g in
      if map_of table_by_name (pgb_name t) = None
      then ([], [issue ''trigger'' path ''The trigger target was omitted from the imported design''])
      else case result_bind (target_independent_trigger (sc_parser im) (pgt_definition g) (cat_namespace catalog)) (\<lambda>source.
             result_bind (sc_analyze_trigger im source) (\<lambda>contract.
               Inr (contract\<lparr>trg_id := semantic_id im catalog ''trigger'' [pgb_name t, pgt_name g], trg_definition := source\<rparr>))) of
          Inl message \<Rightarrow> ([], [issue ''trigger'' path message])
        | Inr trigger \<Rightarrow> ([trigger], issue_if (pgt_enabled g \<noteq> EnabledOrigin) ''trigger'' path
            (''Trigger enabled mode '' @ py_repr (enabled_text (pgt_enabled g)) @ '' is not represented by the desired-design model'')))"

section \<open>Layout\<close>

text \<open>\<open>max(1, math.ceil(math.sqrt(count)))\<close>\<close>

definition grid_width :: "nat \<Rightarrow> nat" where
  "grid_width n = max 1 (hd (filter (\<lambda>w. n \<le> w * w) [0..<Suc n]))"

definition grid :: "layer \<Rightarrow> nat \<Rightarrow> nat \<Rightarrow> nat \<Rightarrow> string list \<Rightarrow> object_position list" where
  "grid layer width dx dy ids = map (\<lambda>(index, i). \<lparr>pos_object_id = i, pos_layer = layer,
     pos_x = of_nat (100 + (index mod width) * dx), pos_y = of_nat (100 + (index div width) * dy)\<rparr>) (enumerate 0 ids)"

definition import_layout :: "design_content \<Rightarrow> (unit, layout_content) result" where
  "import_layout content = layout_content_of
     (grid TablesLayer (grid_width (length (content_tables content))) 380 340 (map tbl_id (content_tables content))
      @ grid ViewsLayer (grid_width (length (content_views content))) 420 360 (map view_id (content_views content)))"

section \<open>The import\<close>

record imported_design =
  id_content :: design_content
  id_layout :: layout_content
  id_summary :: import_summary

definition imported_objects :: "design_content \<Rightarrow> (string, nat) dict" where
  "imported_objects content =
     [(''tables'', length (content_tables content)),
      (''columns'', sum_list (map (length \<circ> tbl_columns) (content_tables content))),
      (''keys'', sum_list (map (length \<circ> tbl_keys) (content_tables content))),
      (''checks'', sum_list (map (length \<circ> tbl_checks) (content_tables content))),
      (''indexes'', sum_list (map (length \<circ> tbl_indexes) (content_tables content))),
      (''relationships'', length (content_relationships content)), (''functions'', length (content_functions content)),
      (''views'', length (content_views content)), (''triggers'', length (content_triggers content)),
      (''types'', length (content_types content))]"

text \<open>The content and the issues, before validation.\<close>

definition import_content :: "import_source \<Rightarrow> pg_catalog \<Rightarrow> (string \<times> string, design_content \<times> issues) result" where
  "import_content im catalog =
     (let (types, type_issues) = import_each (import_type im catalog) (cat_types catalog) in
      result_bind (import_tables im catalog [] (cat_tables catalog)) (\<lambda>((tables, table_issues), column_ids).
        let table_by_name = dict_by tbl_name tables;
            (relationships, relationship_issues) = import_each (import_relationship im catalog table_by_name column_ids) (cat_relationships catalog);
            (routines, routine_issues) = import_each (import_function im catalog) (cat_functions catalog);
            (views, view_issues) = import_each (import_view im catalog) (source_views catalog);
            (triggers, trigger_issues) = import_each (\<lambda>(t, g). import_trigger im catalog table_by_name t g)
              (concat (map (\<lambda>t. map (Pair t) (pgb_triggers t)) (cat_tables catalog)))
        in Inr (\<lparr>content_types = types, content_tables = tables, content_relationships = relationships,
                  content_functions = routines, content_views = views, content_triggers = triggers\<rparr>,
                type_issues @ table_issues @ relationship_issues @ routine_issues @ view_issues @ trigger_issues)))"

definition import_postgres_catalog :: "import_source \<Rightarrow> pg_catalog \<Rightarrow> (import_error, imported_design) result" where
  "import_postgres_catalog im catalog =
     (case import_content im catalog of
        Inl (table, column) \<Rightarrow> Inl (ImportKeyError table column)
      | Inr (content, issues) \<Rightarrow>
          (case validate_design_content (sc_base_type_name im) (sc_query_error im) content of
             Some e \<Rightarrow> Inl (ImportInvalid e)
           | None \<Rightarrow>
               (case import_layout content of
                  Inl _ \<Rightarrow> Inl ImportLayoutError
                | Inr layout \<Rightarrow>
                    Inr \<lparr>id_content = content, id_layout = layout,
                      id_summary = \<lparr>im_catalog_fingerprint = cat_fingerprint catalog, im_catalog_captured_at = cat_captured_at catalog,
                        im_complete = (issues = []), im_imported_objects = imported_objects content, im_issues = issues\<rparr>\<rparr>)))"

end
