(* ===== verification/Design_Decoding.thy ===== *)
theory Design_Decoding
  imports Catalog_Import
begin

text \<open>
  \<open>SchemiiDesignContent.model_validate\<close> on documents: required and defaulted fields, forbidden extra
  fields, lists that must not be empty, and the validators that derive the contract of types, routines
  and triggers from their definition. \<^const>\<open>None\<close> is pydantic's \<open>ValidationError\<close>. The documents are dumps
  by field name and merges of them; aliases, patterns and upper limits on lengths are left out.
\<close>

section \<open>Fields\<close>

fun decode_string :: "json \<Rightarrow> string option" where
  "decode_string (JStr s) = Some s"
| "decode_string _ = None"

fun decode_bool :: "json \<Rightarrow> bool option" where
  "decode_bool (JBool b) = Some b"
| "decode_bool _ = None"

definition decode_optional :: "(json \<Rightarrow> 'a option) \<Rightarrow> json \<Rightarrow> 'a option option" where
  "decode_optional f v = (if v = JNull then Some None else map_option Some (f v))"

fun decode_each :: "(json \<Rightarrow> 'a option) \<Rightarrow> json list \<Rightarrow> 'a list option" where
  "decode_each f [] = Some []"
| "decode_each f (v # vs) = (case f v of None \<Rightarrow> None | Some x \<Rightarrow> map_option (Cons x) (decode_each f vs))"

definition decode_list :: "(json \<Rightarrow> 'a option) \<Rightarrow> json \<Rightarrow> 'a list option" where
  "decode_list f v = (case v of JList vs \<Rightarrow> decode_each f vs | _ \<Rightarrow> None)"

definition decode_nonempty :: "(json \<Rightarrow> 'a option) \<Rightarrow> json \<Rightarrow> 'a list option" where
  "decode_nonempty f v = (case decode_list f v of Some (x # xs) \<Rightarrow> Some (x # xs) | _ \<Rightarrow> None)"

definition decode_literal :: "('a \<Rightarrow> string) \<Rightarrow> 'a list \<Rightarrow> json \<Rightarrow> 'a option" where
  "decode_literal text values v = (case v of JStr s \<Rightarrow> List.find (\<lambda>x. text x = s) values | _ \<Rightarrow> None)"

definition required :: "(string, json) dict \<Rightarrow> string \<Rightarrow> (json \<Rightarrow> 'a option) \<Rightarrow> 'a option" where
  "required kvs name f = Option.bind (map_of kvs name) f"

definition defaulted :: "(string, json) dict \<Rightarrow> string \<Rightarrow> (json \<Rightarrow> 'a option) \<Rightarrow> 'a \<Rightarrow> 'a option" where
  "defaulted kvs name f d = (case map_of kvs name of None \<Rightarrow> Some d | Some v \<Rightarrow> f v)"

text \<open>The fields of an object that has no others than the given ones (\<open>extra="forbid"\<close>).\<close>

definition object_fields :: "string list \<Rightarrow> json \<Rightarrow> (string, json) dict option" where
  "object_fields names v = (case v of JObj kvs \<Rightarrow> if fst ` set kvs \<subseteq> set names then Some kvs else None | _ \<Rightarrow> None)"

section \<open>Objects derived from their definition\<close>

definition type_fields :: "string list" where
  "type_fields = [''id'', ''name'', ''kind'', ''enum_values'', ''base_type'', ''default_expression'', ''not_null'', ''checks'',
     ''collation'', ''definition'']"

definition function_fields :: "string list" where
  "function_fields = [''id'', ''name'', ''kind'', ''arguments'', ''identity_arguments'', ''return_type'', ''language'', ''definition'']"

definition trigger_fields :: "string list" where
  "trigger_fields = [''id'', ''name'', ''relation_name'', ''timing'', ''events'', ''orientation'', ''function_name'',
     ''function_arguments'', ''update_columns'', ''referenced_columns'', ''when_expression'', ''transition_relations'',
     ''constraint'', ''deferrable'', ''initially_deferred'', ''definition'']"

text \<open>The identifier, the definition and the contract the definition is analysed to.\<close>

definition derived_contract :: "(string \<Rightarrow> (string, 'c) result) \<Rightarrow> string list \<Rightarrow> json \<Rightarrow> (string \<times> string \<times> 'c) option" where
  "derived_contract analyze names v =
     Option.bind (object_fields names v) (\<lambda>kvs.
       Option.bind (required kvs ''definition'' decode_string) (\<lambda>source.
         Option.bind (case analyze source of Inl _ \<Rightarrow> None | Inr contract \<Rightarrow> Some contract) (\<lambda>contract.
           Option.bind (required kvs ''id'' decode_string) (\<lambda>i. Some (i, source, contract)))))"

definition decode_type :: "import_source \<Rightarrow> json \<Rightarrow> design_type option" where
  "decode_type im v = map_option (\<lambda>(i, source, contract). contract\<lparr>ty_id := i, ty_definition := source\<rparr>)
     (derived_contract (sc_analyze_type im) type_fields v)"

definition decode_function :: "import_source \<Rightarrow> json \<Rightarrow> design_function option" where
  "decode_function im v = map_option (\<lambda>(i, source, contract). contract\<lparr>fn_id := i, fn_definition := source\<rparr>)
     (derived_contract (sc_analyze_routine im) function_fields v)"

definition decode_trigger :: "import_source \<Rightarrow> json \<Rightarrow> design_trigger option" where
  "decode_trigger im v = map_option (\<lambda>(i, source, contract). contract\<lparr>trg_id := i, trg_definition := source\<rparr>)
     (derived_contract (sc_analyze_trigger im) trigger_fields v)"

section \<open>Tables and relationships\<close>

definition decode_column :: "json \<Rightarrow> design_column option" where
  "decode_column v =
     Option.bind (object_fields [''id'', ''name'', ''data_type'', ''nullable'', ''default_expression'', ''identity'',
         ''generated_expression'', ''generated_source_column_ids''] v) (\<lambda>kvs.
     Option.bind (required kvs ''id'' decode_string) (\<lambda>i.
     Option.bind (required kvs ''name'' decode_string) (\<lambda>name.
     Option.bind (required kvs ''data_type'' decode_string) (\<lambda>data_type.
     Option.bind (defaulted kvs ''nullable'' decode_bool True) (\<lambda>nullable.
     Option.bind (defaulted kvs ''default_expression'' (decode_optional decode_string) None) (\<lambda>default_value.
     Option.bind (defaulted kvs ''identity'' (decode_optional (decode_literal identity_text [Always, ByDefault])) None) (\<lambda>identity.
     Option.bind (defaulted kvs ''generated_expression'' (decode_optional decode_string) None) (\<lambda>generated.
     Option.bind (defaulted kvs ''generated_source_column_ids'' (decode_list decode_string) []) (\<lambda>sources.
       Some \<lparr>col_id = i, col_name = name, col_data_type = data_type, col_nullable = nullable, col_default_expression = default_value,
         col_identity = identity, col_generated_expression = generated, col_generated_source_column_ids = sources\<rparr>)))))))))"

definition decode_key :: "json \<Rightarrow> design_key option" where
  "decode_key v =
     Option.bind (object_fields [''id'', ''name'', ''kind'', ''column_ids''] v) (\<lambda>kvs.
     Option.bind (required kvs ''id'' decode_string) (\<lambda>i.
     Option.bind (required kvs ''name'' decode_string) (\<lambda>name.
     Option.bind (required kvs ''kind'' (decode_literal key_kind_text [PrimaryKey, UniqueKey])) (\<lambda>kind.
     Option.bind (required kvs ''column_ids'' (decode_nonempty decode_string)) (\<lambda>columns.
       Some \<lparr>key_id = i, key_name = name, key_kind = kind, key_column_ids = columns\<rparr>)))))"

definition decode_check :: "json \<Rightarrow> design_check option" where
  "decode_check v =
     Option.bind (object_fields [''id'', ''name'', ''expression'', ''column_ids''] v) (\<lambda>kvs.
     Option.bind (required kvs ''id'' decode_string) (\<lambda>i.
     Option.bind (required kvs ''name'' decode_string) (\<lambda>name.
     Option.bind (required kvs ''expression'' decode_string) (\<lambda>expression.
     Option.bind (defaulted kvs ''column_ids'' (decode_list decode_string) []) (\<lambda>columns.
       Some \<lparr>chk_id = i, chk_name = name, chk_expression = expression, chk_column_ids = columns\<rparr>)))))"

definition decode_index :: "json \<Rightarrow> design_index option" where
  "decode_index v =
     Option.bind (object_fields [''id'', ''name'', ''method'', ''column_ids'', ''include_column_ids'', ''expression'',
         ''expression_source_column_ids'', ''predicate'', ''predicate_column_ids'', ''unique''] v) (\<lambda>kvs.
     Option.bind (required kvs ''id'' decode_string) (\<lambda>i.
     Option.bind (required kvs ''name'' decode_string) (\<lambda>name.
     Option.bind (defaulted kvs ''method'' decode_string ''btree'') (\<lambda>access.
     Option.bind (defaulted kvs ''column_ids'' (decode_list decode_string) []) (\<lambda>columns.
     Option.bind (defaulted kvs ''include_column_ids'' (decode_list decode_string) []) (\<lambda>included.
     Option.bind (defaulted kvs ''expression'' (decode_optional decode_string) None) (\<lambda>expression.
     Option.bind (defaulted kvs ''expression_source_column_ids'' (decode_list decode_string) []) (\<lambda>sources.
     Option.bind (defaulted kvs ''predicate'' (decode_optional decode_string) None) (\<lambda>predicate.
     Option.bind (defaulted kvs ''predicate_column_ids'' (decode_list decode_string) []) (\<lambda>predicates.
     Option.bind (defaulted kvs ''unique'' decode_bool False) (\<lambda>unique.
       Some \<lparr>idx_id = i, idx_name = name, idx_method = access, idx_column_ids = columns, idx_include_column_ids = included,
         idx_expression = expression, idx_expression_source_column_ids = sources, idx_predicate = predicate,
         idx_predicate_column_ids = predicates, idx_unique = unique\<rparr>)))))))))))"

definition decode_table :: "json \<Rightarrow> design_table option" where
  "decode_table v =
     Option.bind (object_fields [''id'', ''name'', ''columns'', ''keys'', ''checks'', ''indexes''] v) (\<lambda>kvs.
     Option.bind (required kvs ''id'' decode_string) (\<lambda>i.
     Option.bind (required kvs ''name'' decode_string) (\<lambda>name.
     Option.bind (required kvs ''columns'' (decode_nonempty decode_column)) (\<lambda>columns.
     Option.bind (defaulted kvs ''keys'' (decode_list decode_key) []) (\<lambda>keys.
     Option.bind (defaulted kvs ''checks'' (decode_list decode_check) []) (\<lambda>checks.
     Option.bind (defaulted kvs ''indexes'' (decode_list decode_index) []) (\<lambda>indexes.
       Some \<lparr>tbl_id = i, tbl_name = name, tbl_columns = columns, tbl_keys = keys, tbl_checks = checks, tbl_indexes = indexes\<rparr>)))))))"

definition decode_action :: "json \<Rightarrow> referential_action option" where
  "decode_action = decode_literal action_text [NoAction, Restrict, Cascade, SetNull, SetDefault]"

definition decode_relationship :: "json \<Rightarrow> design_relationship option" where
  "decode_relationship v =
     Option.bind (object_fields [''id'', ''name'', ''source_table_id'', ''source_column_ids'', ''target_table_id'', ''target_column_ids'',
         ''on_update'', ''on_delete'', ''deferrable'', ''initially_deferred''] v) (\<lambda>kvs.
     Option.bind (required kvs ''id'' decode_string) (\<lambda>i.
     Option.bind (required kvs ''name'' decode_string) (\<lambda>name.
     Option.bind (required kvs ''source_table_id'' decode_string) (\<lambda>src.
     Option.bind (required kvs ''source_column_ids'' (decode_nonempty decode_string)) (\<lambda>source_columns.
     Option.bind (required kvs ''target_table_id'' decode_string) (\<lambda>target.
     Option.bind (required kvs ''target_column_ids'' (decode_nonempty decode_string)) (\<lambda>target_columns.
     Option.bind (defaulted kvs ''on_update'' decode_action NoAction) (\<lambda>on_update.
     Option.bind (defaulted kvs ''on_delete'' decode_action NoAction) (\<lambda>on_delete.
     Option.bind (defaulted kvs ''deferrable'' decode_bool False) (\<lambda>deferrable.
     Option.bind (defaulted kvs ''initially_deferred'' decode_bool False) (\<lambda>initially_deferred.
       Some \<lparr>rel_id = i, rel_name = name, rel_source_table_id = src, rel_source_column_ids = source_columns,
         rel_target_table_id = target, rel_target_column_ids = target_columns, rel_on_update = on_update, rel_on_delete = on_delete,
         rel_deferrable = deferrable, rel_initially_deferred = initially_deferred\<rparr>)))))))))))"

section \<open>Views and contents\<close>

text \<open>\<open>migrate_legacy_population_intent\<close>: the former field \<open>populated\<close> stands in for a missing \<open>populate_on_create\<close>.\<close>

definition population_field :: "(string, json) dict \<Rightarrow> bool option option" where
  "population_field kvs =
     (case map_of kvs ''populate_on_create'' of
        Some v \<Rightarrow> decode_optional decode_bool v
      | None \<Rightarrow> (case map_of kvs ''populated'' of None \<Rightarrow> Some None | Some v \<Rightarrow> decode_optional decode_bool v))"

definition decode_view :: "json \<Rightarrow> design_view option" where
  "decode_view v =
     Option.bind (object_fields [''id'', ''name'', ''kind'', ''definition'', ''populate_on_create'', ''populated''] v) (\<lambda>kvs.
     Option.bind (required kvs ''id'' decode_string) (\<lambda>i.
     Option.bind (required kvs ''name'' decode_string) (\<lambda>name.
     Option.bind (required kvs ''kind'' (decode_literal view_kind_text [OrdinaryView, MaterializedView])) (\<lambda>kind.
     Option.bind (required kvs ''definition'' decode_string) (\<lambda>source.
     Option.bind (population_field kvs) (\<lambda>populate.
       case valid_population_intent \<lparr>view_id = i, view_name = name, view_kind = kind, view_definition = source, view_populate_on_create = populate\<rparr> of
         Inl _ \<Rightarrow> None | Inr view \<Rightarrow> Some view))))))"

definition decode_content :: "import_source \<Rightarrow> json \<Rightarrow> design_content option" where
  "decode_content im v =
     Option.bind (object_fields [''types'', ''tables'', ''relationships'', ''functions'', ''views'', ''triggers''] v) (\<lambda>kvs.
     Option.bind (defaulted kvs ''types'' (decode_list (decode_type im)) []) (\<lambda>types.
     Option.bind (defaulted kvs ''tables'' (decode_list decode_table) []) (\<lambda>tables.
     Option.bind (defaulted kvs ''relationships'' (decode_list decode_relationship) []) (\<lambda>relationships.
     Option.bind (defaulted kvs ''functions'' (decode_list (decode_function im)) []) (\<lambda>routines.
     Option.bind (defaulted kvs ''views'' (decode_list decode_view) []) (\<lambda>views.
     Option.bind (defaulted kvs ''triggers'' (decode_list (decode_trigger im)) []) (\<lambda>triggers.
       Some \<lparr>content_types = types, content_tables = tables, content_relationships = relationships, content_functions = routines,
         content_views = views, content_triggers = triggers\<rparr>)))))))"

section \<open>Round trip\<close>

text \<open>
  A content as the models hold it: contracts are derived from definitions, lists that must not be empty
  are not, and population intent is normalised.
\<close>

definition table_built :: "design_table \<Rightarrow> bool" where
  "table_built t = (tbl_columns t \<noteq> [] \<and> (\<forall>k\<in>set (tbl_keys t). key_column_ids k \<noteq> []))"

definition content_built :: "import_source \<Rightarrow> design_content \<Rightarrow> bool" where
  "content_built im c =
     ((\<forall>t\<in>set (content_types c). \<exists>contract. sc_analyze_type im (ty_definition t) = Inr contract
          \<and> t = contract\<lparr>ty_id := ty_id t, ty_definition := ty_definition t\<rparr>)
      \<and> (\<forall>t\<in>set (content_tables c). table_built t)
      \<and> (\<forall>r\<in>set (content_relationships c). rel_source_column_ids r \<noteq> [] \<and> rel_target_column_ids r \<noteq> [])
      \<and> (\<forall>f\<in>set (content_functions c). \<exists>contract. sc_analyze_routine im (fn_definition f) = Inr contract
          \<and> f = contract\<lparr>fn_id := fn_id f, fn_definition := fn_definition f\<rparr>)
      \<and> (\<forall>v\<in>set (content_views c). valid_population_intent v = Inr v)
      \<and> (\<forall>g\<in>set (content_triggers c). \<exists>contract. sc_analyze_trigger im (trg_definition g) = Inr contract
          \<and> g = contract\<lparr>trg_id := trg_id g, trg_definition := trg_definition g\<rparr>))"

lemma decode_each_map: "(\<And>x. x \<in> set xs \<Longrightarrow> f (g x) = Some x) \<Longrightarrow> decode_each f (map g xs) = Some xs"
  by (induction xs) auto

lemma decode_list_map [simp]: "(\<And>x. x \<in> set xs \<Longrightarrow> f (g x) = Some x) \<Longrightarrow> decode_list f (JList (map g xs)) = Some xs"
  by (simp add: decode_list_def decode_each_map)

lemma decode_strs [simp]: "decode_list decode_string (json_strs xs) = Some xs"
  by (simp add: json_strs_def)

lemma decode_nonempty_list [simp]: "decode_list f v = Some xs \<Longrightarrow> xs \<noteq> [] \<Longrightarrow> decode_nonempty f v = Some xs"
  by (cases xs) (simp_all add: decode_nonempty_def)

lemma decode_opt [simp]: "(\<And>x. f (g x) = Some x) \<Longrightarrow> (\<And>x. g x \<noteq> JNull) \<Longrightarrow> decode_optional f (json_opt g v) = Some v"
  by (cases v) (auto simp: decode_optional_def json_opt_def)

lemma decode_identity [simp]: "decode_literal identity_text [Always, ByDefault] (JStr (identity_text i)) = Some i"
  by (cases i) (simp_all add: decode_literal_def)

lemma decode_key_kind [simp]: "decode_literal key_kind_text [PrimaryKey, UniqueKey] (JStr (key_kind_text k)) = Some k"
  by (cases k) (simp_all add: decode_literal_def)

lemma decode_action_text [simp]: "decode_action (JStr (action_text a)) = Some a"
  by (cases a) (simp_all add: decode_literal_def decode_action_def)

lemma decode_view_kind [simp]: "decode_literal view_kind_text [OrdinaryView, MaterializedView] (JStr (view_kind_text w)) = Some w"
  by (cases w) (simp_all add: decode_literal_def)

lemmas field_defs = object_fields_def required_def defaulted_def

lemma decode_column_document [simp]: "decode_column (column_document id c) = Some c"
  by (simp add: decode_column_def column_document_def field_defs)

lemma decode_key_document [simp]: "key_column_ids k \<noteq> [] \<Longrightarrow> decode_key (key_document id k) = Some k"
  by (simp add: decode_key_def key_document_def field_defs)

lemma decode_check_document [simp]: "decode_check (check_document id c) = Some c"
  by (simp add: decode_check_def check_document_def field_defs)

lemma decode_index_document [simp]: "decode_index (index_document id i) = Some i"
  by (simp add: decode_index_def index_document_def field_defs)

lemma decode_table_document [simp]: "table_built t \<Longrightarrow> decode_table (table_document id t) = Some t"
  by (simp add: decode_table_def table_document_def field_defs table_built_def)

lemma decode_relationship_document [simp]:
  "rel_source_column_ids r \<noteq> [] \<Longrightarrow> rel_target_column_ids r \<noteq> [] \<Longrightarrow> decode_relationship (relationship_document id r) = Some r"
  by (simp add: decode_relationship_def relationship_document_def field_defs)

lemma decode_view_document [simp]: "valid_population_intent v = Inr v \<Longrightarrow> decode_view (view_document id v) = Some v"
  by (cases v) (simp add: decode_view_def view_document_def field_defs population_field_def)

lemma decode_type_document:
  "sc_analyze_type im (ty_definition t) = Inr contract \<Longrightarrow> t = contract\<lparr>ty_id := ty_id t, ty_definition := ty_definition t\<rparr> \<Longrightarrow>
   decode_type im (type_document id t) = Some t"
  by (simp add: decode_type_def derived_contract_def type_document_def type_fields_def field_defs)

lemma decode_function_document:
  "sc_analyze_routine im (fn_definition f) = Inr contract \<Longrightarrow> f = contract\<lparr>fn_id := fn_id f, fn_definition := fn_definition f\<rparr> \<Longrightarrow>
   decode_function im (function_document id f) = Some f"
  by (simp add: decode_function_def derived_contract_def function_document_def function_fields_def field_defs)

lemma decode_trigger_document:
  "sc_analyze_trigger im (trg_definition g) = Inr contract \<Longrightarrow> g = contract\<lparr>trg_id := trg_id g, trg_definition := trg_definition g\<rparr> \<Longrightarrow>
   decode_trigger im (trigger_document id g) = Some g"
  by (simp add: decode_trigger_def derived_contract_def trigger_document_def trigger_fields_def field_defs)

text \<open>A dumped content is read back unchanged.\<close>

lemma decode_content_document:
  assumes "content_built im c"
  shows "decode_content im (content_document id c) = Some c"
proof -
  note b = assms[unfolded content_built_def]
  have "decode_list (decode_type im) (JList (map (type_document id) (content_types c))) = Some (content_types c)"
    by (rule decode_list_map) (use b decode_type_document in blast)
  moreover have "decode_list decode_table (JList (map (table_document id) (content_tables c))) = Some (content_tables c)"
    by (rule decode_list_map) (use b in simp)
  moreover have "decode_list decode_relationship (JList (map (relationship_document id) (content_relationships c))) = Some (content_relationships c)"
    by (rule decode_list_map) (use b in simp)
  moreover have "decode_list (decode_function im) (JList (map (function_document id) (content_functions c))) = Some (content_functions c)"
    by (rule decode_list_map) (use b decode_function_document in blast)
  moreover have "decode_list decode_view (JList (map (view_document id) (content_views c))) = Some (content_views c)"
    by (rule decode_list_map) (use b in simp)
  moreover have "decode_list (decode_trigger im) (JList (map (trigger_document id) (content_triggers c))) = Some (content_triggers c)"
    by (rule decode_list_map) (use b decode_trigger_document in blast)
  ultimately show ?thesis by (simp add: decode_content_def content_document_def field_defs del: decode_list_map)
qed

end
