(* ===== verification/Reconciliation.thy ===== *)
theory Reconciliation
  imports Design_Decoding Planner_Merge Type_Changes
begin

text \<open>
  Reconciliation of a design with the live database, \<open>schemii/migrations/planner.py\<close>: the imported catalog gets
  the identifiers that baseline and design use for the same names (\<open>_identity_maps\<close>, \<open>_aligned_content\<close>), the
  three documents are merged, and the result is validated (\<open>reconcile_designs\<close>).

  Dumping a reference and reading its fields back is reading the record. The text of pydantic's
  \<open>ValidationError\<close> is a parameter. \<open>DesignValidationError\<close> is a \<open>RuntimeError\<close>, so that \<open>except ValueError\<close> does
  not catch it: it is an error of \<open>reconcile_designs\<close> here.
\<close>

record reconciler =
  rc_source :: import_source
  rc_normal :: "(string, string) dict \<Rightarrow> string \<Rightarrow> string option"
  rc_validation_text :: "json \<Rightarrow> string"

section \<open>Identities by name\<close>

definition assign :: "('a \<Rightarrow> 'k) \<Rightarrow> ('a \<Rightarrow> 'v) \<Rightarrow> 'a list \<Rightarrow> ('k, 'v) dict" where
  "assign key val xs = foldl (\<lambda>d x. AList.update (key x) (val x) d) [] xs"

record identity_maps =
  nm_types :: "(type_kind \<times> string, string) dict"
  nm_tables :: "(string, string) dict"
  nm_columns :: "(string, (string, string) dict) dict"
  nm_keys :: "(string, (string, string) dict) dict"
  nm_checks :: "(string, (string, string) dict) dict"
  nm_indexes :: "(string, (string, string) dict) dict"
  nm_functions :: "(routine_kind \<times> string \<times> string, string) dict"
  nm_views :: "(view_kind \<times> string, string) dict"
  nm_triggers :: "(string \<times> string, string) dict"
  nm_relationships :: "(string option \<times> string, string) dict"

definition type_identity :: "design_type \<Rightarrow> type_kind \<times> string" where
  "type_identity t = (ty_kind t, ty_name t)"

definition function_identity :: "design_function \<Rightarrow> routine_kind \<times> string \<times> string" where
  "function_identity f = (fn_kind f, fn_name f, fn_identity_arguments f)"

definition view_identity :: "design_view \<Rightarrow> view_kind \<times> string" where
  "view_identity v = (view_kind v, view_name v)"

definition trigger_identity :: "design_trigger \<Rightarrow> string \<times> string" where
  "trigger_identity g = (trg_relation_name g, trg_name g)"

definition relationship_identity :: "(string, string) dict \<Rightarrow> design_relationship \<Rightarrow> string option \<times> string" where
  "relationship_identity table_names r = (map_of table_names (rel_source_table_id r), rel_name r)"

definition identity_maps :: "design_content \<Rightarrow> identity_maps" where
  "identity_maps c =
     \<lparr>nm_types = assign type_identity ty_id (content_types c),
      nm_tables = assign tbl_name tbl_id (content_tables c),
      nm_columns = assign tbl_name (\<lambda>t. assign col_name col_id (tbl_columns t)) (content_tables c),
      nm_keys = assign tbl_name (\<lambda>t. assign key_name key_id (tbl_keys t)) (content_tables c),
      nm_checks = assign tbl_name (\<lambda>t. assign chk_name chk_id (tbl_checks t)) (content_tables c),
      nm_indexes = assign tbl_name (\<lambda>t. assign idx_name idx_id (tbl_indexes t)) (content_tables c),
      nm_functions = assign function_identity fn_id (content_functions c),
      nm_views = assign view_identity view_id (content_views c),
      nm_triggers = assign trigger_identity trg_id (content_triggers c),
      nm_relationships = assign (relationship_identity (assign tbl_id tbl_name (content_tables c))) rel_id (content_relationships c)\<rparr>"

text \<open>The identifier of the first reference that knows a name.\<close>

fun candidate :: "('m \<Rightarrow> ('k, string) dict) \<Rightarrow> 'm list \<Rightarrow> 'k \<Rightarrow> string option" where
  "candidate names [] k = None"
| "candidate names (m # ms) k = (case map_of (names m) k of Some i \<Rightarrow> Some i | None \<Rightarrow> candidate names ms k)"

definition child_candidates ::
  "(identity_maps \<Rightarrow> (string, (string, string) dict) dict) \<Rightarrow> identity_maps list \<Rightarrow> string \<Rightarrow> ('a \<Rightarrow> string) \<Rightarrow> ('a \<Rightarrow> string)
     \<Rightarrow> 'a list \<Rightarrow> (string \<times> string option) list" where
  "child_candidates names maps table name ident children =
     map (\<lambda>child. (ident child, candidate (\<lambda>m. dict_get (names m) table []) maps (name child))) children"

definition table_candidates :: "identity_maps list \<Rightarrow> design_table \<Rightarrow> (string \<times> string option) list" where
  "table_candidates maps t =
     [(tbl_id t, candidate nm_tables maps (tbl_name t))]
     @ child_candidates nm_columns maps (tbl_name t) col_name col_id (tbl_columns t)
     @ child_candidates nm_keys maps (tbl_name t) key_name key_id (tbl_keys t)
     @ child_candidates nm_checks maps (tbl_name t) chk_name chk_id (tbl_checks t)
     @ child_candidates nm_indexes maps (tbl_name t) idx_name idx_id (tbl_indexes t)"

definition identity_candidates :: "identity_maps list \<Rightarrow> design_content \<Rightarrow> (string \<times> string option) list" where
  "identity_candidates maps c =
     map (\<lambda>t. (ty_id t, candidate nm_types maps (type_identity t))) (content_types c)
     @ concat (map (table_candidates maps) (content_tables c))
     @ map (\<lambda>f. (fn_id f, candidate nm_functions maps (function_identity f))) (content_functions c)
     @ map (\<lambda>v. (view_id v, candidate nm_views maps (view_identity v))) (content_views c)
     @ map (\<lambda>g. (trg_id g, candidate nm_triggers maps (trigger_identity g))) (content_triggers c)
     @ map (\<lambda>r. (rel_id r, candidate nm_relationships maps
         (relationship_identity (assign tbl_id tbl_name (content_tables c)) r))) (content_relationships c)"

definition replacements :: "(string \<times> string option) list \<Rightarrow> (string, string) dict" where
  "replacements candidates = foldl (\<lambda>d (i, r). if given r then AList.update i (the r) d else d) [] candidates"

fun replace_strings :: "(string, string) dict \<Rightarrow> json \<Rightarrow> json" where
  "replace_strings d (JStr s) = JStr (dict_get d s s)"
| "replace_strings d (JList vs) = JList (map (replace_strings d) vs)"
| "replace_strings d (JObj kvs) = JObj (map (\<lambda>kv. (fst kv, replace_strings d (snd kv))) kvs)"
| "replace_strings d v = v"

definition aligned_content :: "import_source \<Rightarrow> design_content \<Rightarrow> design_content list \<Rightarrow> design_content option" where
  "aligned_content im c references = decode_content im
     (replace_strings (replacements (identity_candidates (map identity_maps references) c)) (content_document id c))"

section \<open>The live design\<close>

datatype reconcile_error = ReconcileImport import_error | ReconcileValidation | ReconcileDesign design_error

definition issue_warning :: "import_issue \<Rightarrow> migration_warning" where
  "issue_warning i = \<lparr>mw_code = ''unrepresented_postgresql_object'', mw_message = is_reason i,
     mw_object_path = Some (is_category i @ ''.'' @ is_object_name i)\<rparr>"

definition catalog_design ::
  "import_source \<Rightarrow> pg_catalog \<Rightarrow> design_content list \<Rightarrow> (reconcile_error, design_content \<times> migration_warning list \<times> bool) result" where
  "catalog_design im catalog references =
     (case import_postgres_catalog im catalog of
        Inl e \<Rightarrow> Inl (ReconcileImport e)
      | Inr imported \<Rightarrow>
          (case aligned_content im (id_content imported) references of
             None \<Rightarrow> Inl ReconcileValidation
           | Some content \<Rightarrow> Inr (content, map issue_warning (im_issues (id_summary imported)), im_complete (id_summary imported))))"

section \<open>Reconciliation\<close>

record reconciliation =
  rr_merged :: "design_content option"
  rr_live :: design_content
  rr_external_changes :: "external_change list"
  rr_conflicts :: "migration_conflict list"
  rr_warnings :: "migration_warning list"
  rr_import_complete :: bool

text \<open>Columns whose types agree on both sides: CHECK expressions over them may be compared.\<close>

definition comparable_columns :: "design_table \<Rightarrow> design_table \<Rightarrow> (string, string) dict" where
  "comparable_columns table live_table =
     (let live_columns = dict_by col_name (tbl_columns live_table) in
      assign col_name col_data_type (filter (\<lambda>c. case map_of live_columns (col_name c) of None \<Rightarrow> False
        | Some l \<Rightarrow> td_disposition (classify_type_change (col_data_type c) (col_data_type l)) = EquivalentChange) (tbl_columns table)))"

definition check_column_types :: "design_content \<Rightarrow> design_content \<Rightarrow> (string, (string, string) dict) dict" where
  "check_column_types desired live =
     foldl (\<lambda>d t. case map_of (dict_by tbl_id (content_tables live)) (tbl_id t) of None \<Rightarrow> d
       | Some l \<Rightarrow> AList.update (tbl_id t) (comparable_columns t l) d) [] (content_tables desired)"

definition schema_conflict :: "string \<Rightarrow> conflict_category \<Rightarrow> string \<Rightarrow> string \<Rightarrow> json \<Rightarrow> migration_conflict" where
  "schema_conflict i category path summary live_value =
     \<lparr>mc_id = i, mc_category = category, mc_object_kind = SchemaObject, mc_object_path = path, mc_summary = summary,
      mc_baseline_value = JNull, mc_design_value = JNull, mc_live_value = live_value, mc_affected_objects = [],
      mc_allowed_resolutions = [PullLive]\<rparr>"

definition structure_conflict :: "reconciler \<Rightarrow> json \<Rightarrow> migration_conflict" where
  "structure_conflict rc document =
     (let message = rc_validation_text rc document in
      schema_conflict (merge_identifier (sc_sha256 (rc_source rc)) ''mcf'' [JStr ''schema.structure'', JStr message])
        StructuralConflict ''schema.structure'' (''The combined schema is invalid: '' @ message) JNull)"

definition warning_fields :: "migration_warning \<Rightarrow> json" where
  "warning_fields w = JObj [(''code'', JStr (mw_code w)), (''message'', JStr (mw_message w)), (''object_path'', json_opt JStr (mw_object_path w))]"

definition coverage_conflict :: "reconciler \<Rightarrow> pg_catalog \<Rightarrow> migration_warning list \<Rightarrow> migration_conflict" where
  "coverage_conflict rc catalog warnings =
     schema_conflict (merge_identifier (sc_sha256 (rc_source rc)) ''mcf'' [JStr ''schema.coverage'', JStr (cat_fingerprint catalog)])
       OpaqueConflict ''schema.coverage'' ''PostgreSQL contains objects the desired-design model cannot preserve losslessly''
       (JList (map warning_fields warnings))"

definition reconcile_designs ::
  "reconciler \<Rightarrow> (string, string) dict \<Rightarrow> design_content \<Rightarrow> design_content \<Rightarrow> pg_catalog \<Rightarrow> (reconcile_error, reconciliation) result" where
  "reconcile_designs rc resolutions baseline desired catalog =
     (let im = rc_source rc in
      result_bind (catalog_design im catalog [baseline, desired]) (\<lambda>(live, warnings, complete).
        let merger = \<lparr>mg_sha256 = sc_sha256 im, mg_normal = rc_normal rc, mg_resolutions = resolutions,
              mg_check_column_types = check_column_types desired live\<rparr>;
            (document, external, conflicts) = merge merger (Some (content_document id baseline)) (Some (content_document id desired))
              (Some (content_document id live)) '''';
            merged = Option.bind document (decode_content im) in
        result_bind (case merged of None \<Rightarrow> Inr [structure_conflict rc (doc_value document)]
            | Some m \<Rightarrow> (case validate_design_content (sc_base_type_name im) (sc_query_error im) m of
                 None \<Rightarrow> Inr [] | Some e \<Rightarrow> Inl (ReconcileDesign e))) (\<lambda>structural.
          Inr \<lparr>rr_merged = merged, rr_live = live, rr_external_changes = external,
            rr_conflicts = conflicts @ structural @ (if complete then [] else [coverage_conflict rc catalog warnings]),
            rr_warnings = warnings, rr_import_complete = complete\<rparr>)))"

end
