(* ===== verification/Catalog_Import_Properties.thy ===== *)
theory Catalog_Import_Properties
  imports Catalog_Import
begin

text \<open>
  What an import preserves. A complete import (no issues) represents every object of the catalog: tables
  with their columns in order, keys, checks and indexes over the same columns, relationships between the
  same columns, and the definitions of types, routines, views and triggers. Every import places tables and
  views on grids without overlap, so that its layout is always accepted.
\<close>

section \<open>Representation\<close>

definition column_names :: "design_table \<Rightarrow> string list \<Rightarrow> string option list" where
  "column_names T ids = map (\<lambda>i. map_option col_name (map_of (dict_by col_id (tbl_columns T)) i)) ids"

text \<open>The columns an expression mentions, in physical order, are the columns of these identifiers.\<close>

definition mentions :: "import_source \<Rightarrow> design_table \<Rightarrow> pg_table \<Rightarrow> string \<Rightarrow> string list \<Rightarrow> bool" where
  "mentions im T t expression ids =
     (\<exists>names. ordered_expression_column_names im expression (pgb_columns t) = Inr names \<and> column_names T ids = map Some names)"

definition mentions_if_given :: "import_source \<Rightarrow> design_table \<Rightarrow> pg_table \<Rightarrow> string option \<Rightarrow> string list \<Rightarrow> bool" where
  "mentions_if_given im T t expression ids = (if given expression then mentions im T t (the expression) ids else ids = [])"

definition column_represented :: "import_source \<Rightarrow> design_table \<Rightarrow> pg_table \<Rightarrow> design_column \<Rightarrow> pg_column \<Rightarrow> bool" where
  "column_represented im T t C c = (col_name C = pgc_name c \<and> col_data_type C = pgc_data_type c \<and> col_nullable C = pgc_nullable c
     \<and> col_identity C = pgc_identity c
     \<and> col_default_expression C = (if pgc_generated c = None \<and> pgc_identity c = None then pgc_default_expression c else None)
     \<and> col_generated_expression C = (if pgc_generated c = None then None else pgc_default_expression c)
     \<and> mentions_if_given im T t (col_generated_expression C) (col_generated_source_column_ids C))"

definition key_represented :: "design_table \<Rightarrow> design_key \<Rightarrow> key_kind \<times> pg_key \<Rightarrow> bool" where
  "key_represented T K entry = (case entry of (kind, k) \<Rightarrow>
     key_name K = pgk_name k \<and> key_kind K = kind \<and> column_names T (key_column_ids K) = map Some (pgk_columns k)
     \<and> \<not> pgk_deferrable k \<and> \<not> pgk_initially_deferred k \<and> pgk_validated k)"

definition check_represented :: "import_source \<Rightarrow> design_table \<Rightarrow> pg_table \<Rightarrow> design_check \<Rightarrow> pg_check \<Rightarrow> bool" where
  "check_represented im T t C c = (chk_name C = pgh_name c
     \<and> check_expression (sc_parser im) (pgh_definition c) = Inr (chk_expression C)
     \<and> mentions im T t (chk_expression C) (chk_column_ids C) \<and> pgh_validated c)"

definition index_represented :: "import_source \<Rightarrow> design_table \<Rightarrow> pg_table \<Rightarrow> design_index \<Rightarrow> pg_index \<Rightarrow> bool" where
  "index_represented im T t I i = (\<exists>parsed. index_source_of (sc_parser im) (pgi_definition i) = Inr parsed
     \<and> idx_name I = is_name parsed \<and> idx_method I = is_method parsed \<and> idx_unique I = is_unique parsed
     \<and> column_names T (idx_column_ids I) = map Some (is_columns parsed)
     \<and> column_names T (idx_include_column_ids I) = map Some (is_included_columns parsed)
     \<and> idx_expression I = is_expression parsed \<and> idx_predicate I = is_predicate parsed
     \<and> mentions_if_given im T t (idx_expression I) (idx_expression_source_column_ids I)
     \<and> mentions_if_given im T t (idx_predicate I) (idx_predicate_column_ids I) \<and> pgi_valid i)"

definition table_represented :: "import_source \<Rightarrow> design_table \<Rightarrow> pg_table \<Rightarrow> bool" where
  "table_represented im T t =
     (tbl_name T = pgb_name t
      \<and> list_all2 (column_represented im T t) (tbl_columns T) (sort_key pgc_ordinal (pgb_columns t))
      \<and> list_all2 (key_represented T) (tbl_keys T) (source_keys t)
      \<and> list_all2 (check_represented im T t) (tbl_checks T) (pgb_checks t)
      \<and> list_all2 (index_represented im T t) (tbl_indexes T) (pgb_indexes t)
      \<and> pgb_kind t = OrdinaryTable \<and> \<not> pgb_is_partition t \<and> pgb_exclusion_constraints t = [])"

definition relationship_represented :: "design_content \<Rightarrow> design_relationship \<Rightarrow> pg_relationship \<Rightarrow> bool" where
  "relationship_represented content R r = (\<exists>src\<in>set (content_tables content). \<exists>target\<in>set (content_tables content).
     rel_name R = pgr_name r \<and> rel_source_table_id R = tbl_id src \<and> rel_target_table_id R = tbl_id target
     \<and> tbl_name src = pgr_source_table r \<and> tbl_name target = pgr_target_table r
     \<and> column_names src (rel_source_column_ids R) = map Some (pgr_source_columns r)
     \<and> column_names target (rel_target_column_ids R) = map Some (pgr_target_columns r)
     \<and> rel_on_update R = pgr_on_update r \<and> rel_on_delete R = pgr_on_delete r \<and> pgr_match_type r = MatchSimple \<and> pgr_validated r
     \<and> rel_deferrable R = pgr_deferrable r \<and> rel_initially_deferred R = pgr_initially_deferred r)"

definition type_represented :: "import_source \<Rightarrow> design_type \<Rightarrow> pg_type \<Rightarrow> bool" where
  "type_represented im T t = (\<exists>contract. sc_analyze_type im (pgy_definition t) = Inr contract
     \<and> T = contract\<lparr>ty_id := ty_id T, ty_definition := pgy_definition t\<rparr>)"

definition function_represented :: "import_source \<Rightarrow> string \<Rightarrow> design_function \<Rightarrow> pg_function \<Rightarrow> bool" where
  "function_represented im namespace F f =
     (target_independent_routine (sc_parser im) (pgf_definition f) namespace = Inr (fn_definition F)
      \<and> (\<exists>contract. sc_analyze_routine im (fn_definition F) = Inr contract
           \<and> F = contract\<lparr>fn_id := fn_id F, fn_definition := fn_definition F\<rparr>))"

definition view_represented :: "design_view \<Rightarrow> view_kind \<times> string \<times> string \<times> bool option \<Rightarrow> bool" where
  "view_represented V source = (source = (view_kind V, view_name V, view_definition V, view_populate_on_create V))"

definition trigger_represented :: "import_source \<Rightarrow> string \<Rightarrow> design_trigger \<Rightarrow> pg_table \<times> pg_trigger \<Rightarrow> bool" where
  "trigger_represented im namespace G source =
     (target_independent_trigger (sc_parser im) (pgt_definition (snd source)) namespace = Inr (trg_definition G)
      \<and> (\<exists>contract. sc_analyze_trigger im (trg_definition G) = Inr contract
           \<and> G = contract\<lparr>trg_id := trg_id G, trg_definition := trg_definition G\<rparr>)
      \<and> pgt_enabled (snd source) = EnabledOrigin)"

section \<open>Loops\<close>

lemma import_each_complete:
  assumes "snd (import_each f xs) = []" "\<And>x. x \<in> set xs \<Longrightarrow> snd (f x) = [] \<Longrightarrow> \<exists>y. fst (f x) = [y] \<and> P y x"
  shows "list_all2 P (fst (import_each f xs)) xs"
  using assms
proof (induction xs)
  case (Cons x xs)
  then have "snd (f x) = []" "snd (import_each f xs) = []" by (auto simp: import_each_def)
  moreover obtain y where "fst (f x) = [y]" "P y x" using Cons.prems(2)[of x] calculation by auto
  ultimately show ?case using Cons by (auto simp: import_each_def)
qed (simp add: import_each_def)

lemma import_all_complete:
  assumes "import_all f xs = Inr (ys, [])" "\<And>x y. x \<in> set xs \<Longrightarrow> f x = Inr (y, []) \<Longrightarrow> P y x"
  shows "list_all2 P ys xs"
  using assms by (induction xs arbitrary: ys) (auto simp: result_simps split: prod.splits)

lemma issue_if_Nil [simp]: "issue_if b c n r = [] \<longleftrightarrow> \<not> b"
  by (simp add: issue_if_def)

section \<open>Column identifiers\<close>

text \<open>Every entry is the derived identifier of a column of a table of the catalog.\<close>

definition ids_of :: "import_source \<Rightarrow> pg_catalog \<Rightarrow> (string \<times> string, string) dict \<Rightarrow> bool" where
  "ids_of im catalog column_ids = (\<forall>table n i. map_of column_ids (table, n) = Some i \<longrightarrow>
     i = semantic_id im catalog ''column'' [table, n]
     \<and> (\<exists>t\<in>set (cat_tables catalog). pgb_name t = table \<and> n \<in> pgc_name ` set (pgb_columns t)))"

lemma ids_of_update:
  "ids_of im catalog d \<Longrightarrow> t \<in> set (cat_tables catalog) \<Longrightarrow> c \<in> set (pgb_columns t) \<Longrightarrow>
   ids_of im catalog (AList.update (pgb_name t, pgc_name c) (semantic_id im catalog ''column'' [pgb_name t, pgc_name c]) d)"
  unfolding ids_of_def by auto

lemma ids_of_add:
  assumes "ids_of im catalog d" "t \<in> set (cat_tables catalog)"
  shows "ids_of im catalog (add_column_ids im catalog t d)"
proof -
  have "set cs \<subseteq> set (pgb_columns t) \<Longrightarrow> ids_of im catalog d \<Longrightarrow> ids_of im catalog (foldl (\<lambda>d c.
     AList.update (pgb_name t, pgc_name c) (semantic_id im catalog ''column'' [pgb_name t, pgc_name c]) d) d cs)" for cs d
    by (induction cs arbitrary: d) (auto intro: ids_of_update assms(2))
  with assms(1) show ?thesis by (simp add: add_column_ids_def)
qed

lemma lookup_columns_ids:
  assumes "lookup_columns d table ns = Inr is" "ids_of im catalog d"
  shows "is = map (\<lambda>n. semantic_id im catalog ''column'' [table, n]) ns
    \<and> (\<forall>n\<in>set ns. \<exists>t\<in>set (cat_tables catalog). pgb_name t = table \<and> n \<in> pgc_name ` set (pgb_columns t))"
  using assms(1)
proof (induction ns arbitrary: "is")
  case (Cons n ns)
  then obtain i rest where "map_of d (table, n) = Some i" "lookup_columns d table ns = Inr rest" "is = i # rest"
    by (auto simp: result_simps split: option.splits)
  with Cons.IH[of rest] assms(2) show ?case by (auto simp: ids_of_def)
qed simp

lemma import_column_simps [simp]:
  "col_id (fst (import_column im catalog t c)) = semantic_id im catalog ''column'' [pgb_name t, pgc_name c]"
  "col_name (fst (import_column im catalog t c)) = pgc_name c"
  by (simp_all add: import_column_def Let_def split: prod.split)

text \<open>The columns of an imported table, found by the identifiers of their names.\<close>

definition imports_columns :: "import_source \<Rightarrow> pg_catalog \<Rightarrow> design_table \<Rightarrow> pg_table \<Rightarrow> bool" where
  "imports_columns im catalog T t = (tbl_name T = pgb_name t
     \<and> tbl_columns T = map (fst \<circ> import_column im catalog t) (sort_key pgc_ordinal (pgb_columns t)))"

lemma column_names_found:
  assumes "imports_columns im catalog T t" "distinct (map col_id (tbl_columns T))" "set ns \<subseteq> pgc_name ` set (pgb_columns t)"
  shows "column_names T (map (\<lambda>n. semantic_id im catalog ''column'' [pgb_name t, n]) ns) = map Some ns"
proof -
  have "map_option col_name (map_of (dict_by col_id (tbl_columns T)) (semantic_id im catalog ''column'' [pgb_name t, n])) = Some n"
    if n: "n \<in> set ns" for n
  proof -
    obtain c where c: "c \<in> set (pgb_columns t)" "n = pgc_name c" using assms(3) n by auto
    let ?C = "fst (import_column im catalog t c)"
    have "?C \<in> set (tbl_columns T)" using assms(1) c by (auto simp: imports_columns_def)
    from dict_by_find[OF assms(2) this] c show ?thesis by simp
  qed
  then show ?thesis by (simp add: column_names_def)
qed

lemma ordered_names_known:
  "ordered_expression_column_names im expression columns = Inr names \<Longrightarrow> set names \<subseteq> pgc_name ` set columns"
  by (auto simp: ordered_expression_column_names_def result_simps)

section \<open>Tables\<close>

lemma import_column_represented:
  assumes "snd (import_column im catalog t c) = []"
    and names: "\<And>ns. set ns \<subseteq> pgc_name ` set (pgb_columns t) \<Longrightarrow>
      column_names T (map (\<lambda>n. semantic_id im catalog ''column'' [pgb_name t, n]) ns) = map Some ns"
  shows "column_represented im T t (fst (import_column im catalog t c)) c"
proof -
  let ?C = "fst (import_column im catalog t c)"
  have "mentions_if_given im T t (col_generated_expression ?C) (col_generated_source_column_ids ?C)"
    using assms(1) by (auto simp: import_column_def Let_def mentions_if_given_def mentions_def given_def
        intro!: names ordered_names_known split: prod.splits if_splits sum.splits)
  with assms(1) show ?thesis
    by (auto simp: import_column_def column_represented_def given_def Let_def split: prod.splits if_splits sum.splits)
qed

lemma error_text_Inr [simp]: "error_text r = Inr a \<longleftrightarrow> r = Inr a" "error_text (Inr a) = Inr a"
  by (cases r) (auto simp: error_text_def)

lemma expression_ids_mention:
  assumes "expression_ids im d t e = Inr is"
    and names: "\<And>ns is. lookup_columns d (pgb_name t) ns = Inr is \<Longrightarrow> column_names T is = map Some ns"
  shows "mentions_if_given im T t e is"
  using assms(1) by (auto simp: expression_ids_def mentions_if_given_def mentions_def result_simps intro: names split: if_splits)

lemma import_key_represented:
  assumes "import_key im catalog d t (kind, k) = Inr (K, [])"
    and names: "\<And>ns is. lookup_columns d (pgb_name t) ns = Inr is \<Longrightarrow> column_names T is = map Some ns"
  shows "key_represented T K (kind, k)"
  using assms(1) by (auto simp: import_key_def Let_def result_simps key_represented_def intro: names)

lemma import_check_represented:
  assumes "snd (import_check im catalog d t c) = []"
    and names: "\<And>ns is. lookup_columns d (pgb_name t) ns = Inr is \<Longrightarrow> column_names T is = map Some ns"
  shows "\<exists>C. fst (import_check im catalog d t c) = [C] \<and> check_represented im T t C c"
  using assms(1) unfolding import_check_def check_represented_def mentions_def Let_def
  by (auto simp: result_simps intro: names split: sum.splits)

lemma import_index_represented:
  assumes "snd (import_index im catalog d t i) = []"
    and names: "\<And>ns is. lookup_columns d (pgb_name t) ns = Inr is \<Longrightarrow> column_names T is = map Some ns"
  shows "\<exists>I. fst (import_index im catalog d t i) = [I] \<and> index_represented im T t I i"
  using assms(1) unfolding import_index_def index_represented_def Let_def
  by (auto simp: result_simps intro: names expression_ids_mention[OF _ names] split: sum.splits)

lemma import_table_shape:
  assumes "import_table im catalog d t = Inr ((Ts, issues), d')"
  shows "map tbl_name Ts = (if pgb_columns t = [] then [] else [pgb_name t]) \<and> (pgb_columns t = [] \<longrightarrow> issues \<noteq> [])
    \<and> list_all (\<lambda>T. imports_columns im catalog T t) Ts"
  using assms by (auto simp: import_table_def result_simps imports_columns_def Let_def import_each_def split: if_splits prod.splits)

lemma import_table_represented:
  assumes "import_table im catalog d t = Inr ((Ts, []), d')" "ids_of im catalog d" "t \<in> set (cat_tables catalog)"
    and "distinct (map pgb_name (cat_tables catalog))" "\<forall>T\<in>set Ts. distinct (map col_id (tbl_columns T))"
  shows "\<exists>T. Ts = [T] \<and> table_represented im T t \<and> imports_columns im catalog T t"
    and "ids_of im catalog d'"
proof -
  have ne: "pgb_columns t \<noteq> []" using import_table_shape[OF assms(1)] by auto
  let ?d = "add_column_ids im catalog t d"
  have ids: "ids_of im catalog ?d" using assms(2,3) by (rule ids_of_add)
  obtain keys key_issues where k: "import_all (import_key im catalog ?d t) (source_keys t) = Inr (keys, key_issues)"
    using assms(1) ne by (auto simp: import_table_def Let_def result_simps import_each_def)
  define T where "T = \<lparr>tbl_id = semantic_id im catalog ''table'' [pgb_name t], tbl_name = pgb_name t,
    tbl_columns = map (fst \<circ> import_column im catalog t) (sort_key pgc_ordinal (pgb_columns t)), tbl_keys = keys,
    tbl_checks = fst (import_each (import_check im catalog ?d t) (pgb_checks t)),
    tbl_indexes = fst (import_each (import_index im catalog ?d t) (pgb_indexes t))\<rparr>"
  have T: "Ts = [T]" "d' = ?d" "key_issues = []" "table_features t = []"
    "concat (map (snd \<circ> import_column im catalog t) (sort_key pgc_ordinal (pgb_columns t))) = []"
    "snd (import_each (import_check im catalog ?d t) (pgb_checks t)) = []"
    "snd (import_each (import_index im catalog ?d t) (pgb_indexes t)) = []"
    using assms(1) ne k by (auto simp: import_table_def Let_def T_def split: prod.splits)
  have c: "imports_columns im catalog T t" by (simp add: imports_columns_def T_def)
  have names: "column_names T is = map Some ns" if l: "lookup_columns ?d (pgb_name t) ns = Inr is" for ns "is"
  proof -
    have "set ns \<subseteq> pgc_name ` set (pgb_columns t)"
      using lookup_columns_ids[OF l ids] assms(3,4) by (auto simp: distinct_map dest: inj_onD)
    with lookup_columns_ids[OF l ids] column_names_found[OF c] assms(5) T(1) show ?thesis by simp
  qed
  have "list_all2 (column_represented im T t) (tbl_columns T) (sort_key pgc_ordinal (pgb_columns t))"
  proof -
    have "column_represented im T t (fst (import_column im catalog t x)) x" if "x \<in> set (pgb_columns t)" for x
      using T(5) that assms(5) T(1) by (intro import_column_represented column_names_found[OF c]) auto
    then show ?thesis using c by (auto simp: imports_columns_def list_all2_map1 list_all2_same)
  qed
  moreover have "list_all2 (key_represented T) (tbl_keys T) (source_keys t)"
    using k T(3) names unfolding T_def by (auto intro!: import_all_complete[of "import_key im catalog ?d t"] import_key_represented)
  moreover have "list_all2 (check_represented im T t) (tbl_checks T) (pgb_checks t)"
    using import_each_complete[OF T(6), of "check_represented im T t"] import_check_represented[OF _ names, of im catalog]
    by (simp add: T_def)
  moreover have "list_all2 (index_represented im T t) (tbl_indexes T) (pgb_indexes t)"
    using import_each_complete[OF T(7), of "index_represented im T t"] import_index_represented[OF _ names, of im catalog]
    by (simp add: T_def)
  ultimately show "\<exists>T. Ts = [T] \<and> table_represented im T t \<and> imports_columns im catalog T t"
    using T(1,4) c by (auto simp: table_represented_def table_features_def T_def intro: table_kind.exhaust)
  show "ids_of im catalog d'" using ids T(2) by simp
qed

lemma import_tables_Cons:
  assumes "import_tables im catalog d (t # ts) = Inr ((Ts, issues), d')"
  obtains Ts1 issues1 d1 Ts2 issues2 where "import_table im catalog d t = Inr ((Ts1, issues1), d1)"
    "import_tables im catalog d1 ts = Inr ((Ts2, issues2), d')" "Ts = Ts1 @ Ts2" "issues = issues1 @ issues2"
  using assms by (auto simp: result_simps split: prod.splits)

lemma import_tables_names:
  "import_tables im catalog d ts = Inr ((Ts, issues), d') \<Longrightarrow>
     map tbl_name Ts = map pgb_name (filter (\<lambda>t. pgb_columns t \<noteq> []) ts) \<and> (issues = [] \<longrightarrow> (\<forall>t\<in>set ts. pgb_columns t \<noteq> []))"
proof (induction ts arbitrary: d Ts issues)
  case (Cons t ts)
  from import_tables_Cons[OF Cons.prems] obtain Ts1 issues1 d1 Ts2 issues2 where s:
    "import_table im catalog d t = Inr ((Ts1, issues1), d1)" "import_tables im catalog d1 ts = Inr ((Ts2, issues2), d')"
    "Ts = Ts1 @ Ts2" "issues = issues1 @ issues2" .
  from Cons.IH[OF s(2)] import_table_shape[OF s(1)] s(3,4) show ?case by auto
qed simp

lemma import_tables_represented:
  assumes "import_tables im catalog d ts = Inr ((Ts, []), d')" "ids_of im catalog d" "set ts \<subseteq> set (cat_tables catalog)"
    and "distinct (map pgb_name (cat_tables catalog))" "\<forall>T\<in>set Ts. distinct (map col_id (tbl_columns T))"
  shows "list_all2 (\<lambda>T t. table_represented im T t \<and> imports_columns im catalog T t) Ts ts \<and> ids_of im catalog d'"
  using assms
proof (induction ts arbitrary: d Ts)
  case (Cons t ts)
  from import_tables_Cons[OF Cons.prems(1)] obtain Ts1 issues1 d1 Ts2 issues2 where s:
    "import_table im catalog d t = Inr ((Ts1, issues1), d1)" "import_tables im catalog d1 ts = Inr ((Ts2, issues2), d')"
    "Ts = Ts1 @ Ts2" "[] = issues1 @ issues2" .
  with Cons.prems have "import_table im catalog d t = Inr ((Ts1, []), d1)" "\<forall>T\<in>set Ts1. distinct (map col_id (tbl_columns T))" by auto
  from import_table_represented[OF this(1) Cons.prems(2) _ Cons.prems(4) this(2)] Cons.prems(3)
  obtain T where "Ts1 = [T]" "table_represented im T t" "imports_columns im catalog T t" "ids_of im catalog d1" by auto
  with Cons.IH[of d1 Ts2] s Cons.prems show ?case by auto
qed simp

section \<open>Other objects\<close>

lemma import_type_represented:
  "snd (import_type im catalog t) = [] \<Longrightarrow> \<exists>T. fst (import_type im catalog t) = [T] \<and> type_represented im T t"
  by (auto simp: import_type_def type_represented_def split: sum.splits)

lemma import_function_represented:
  "snd (import_function im catalog f) = [] \<Longrightarrow>
   \<exists>F. fst (import_function im catalog f) = [F] \<and> function_represented im (cat_namespace catalog) F f"
  by (auto simp: import_function_def function_represented_def Let_def result_simps split: sum.splits)

lemma import_view_represented:
  "v \<in> set (source_views catalog) \<Longrightarrow> snd (import_view im catalog v) = [] \<Longrightarrow>
   \<exists>V. fst (import_view im catalog v) = [V] \<and> view_represented V v"
  by (auto simp: import_view_def source_views_def view_represented_def valid_population_intent_def split: option.splits)

lemma import_trigger_represented:
  "snd (import_trigger im catalog tables t g) = [] \<Longrightarrow>
   \<exists>G. fst (import_trigger im catalog tables t g) = [G] \<and> trigger_represented im (cat_namespace catalog) G (t, g)"
  by (auto simp: import_trigger_def trigger_represented_def Let_def result_simps split: sum.splits if_splits)

lemma import_relationship_represented:
  assumes "snd (import_relationship im catalog (dict_by tbl_name (content_tables content)) d r) = []"
    and names: "\<And>T ns is. T \<in> set (content_tables content) \<Longrightarrow> lookup_columns d (tbl_name T) ns = Inr is \<Longrightarrow> column_names T is = map Some ns"
  shows "\<exists>R. fst (import_relationship im catalog (dict_by tbl_name (content_tables content)) d r) = [R] \<and> relationship_represented content R r"
proof -
  let ?tables = "dict_by tbl_name (content_tables content)"
  obtain src target source_ids target_ids where s: "map_of ?tables (pgr_source_table r) = Some src"
    "pgr_target_namespace r = cat_namespace catalog" "map_of ?tables (pgr_target_table r) = Some target"
    "lookup_columns d (tbl_name src) (pgr_source_columns r) = Inr source_ids"
    "lookup_columns d (tbl_name target) (pgr_target_columns r) = Inr target_ids"
    using assms(1) by (auto simp: import_relationship_def Let_def result_simps split: option.splits sum.splits if_splits)
  note src = dict_by_Some[OF s(1)] and target = dict_by_Some[OF s(3)]
  have "column_names src source_ids = map Some (pgr_source_columns r)" "column_names target target_ids = map Some (pgr_target_columns r)"
    using src target s(4,5) by (auto intro: names)
  moreover have "pgr_match_type r = MatchSimple" "pgr_validated r" using assms(1) s by (simp_all add: import_relationship_def Let_def)
  moreover obtain R where "fst (import_relationship im catalog ?tables d r) = [R]" "rel_name R = pgr_name r"
    "rel_source_table_id R = tbl_id src" "rel_target_table_id R = tbl_id target"
    "rel_source_column_ids R = source_ids" "rel_target_column_ids R = target_ids" "rel_on_update R = pgr_on_update r"
    "rel_on_delete R = pgr_on_delete r" "rel_deferrable R = pgr_deferrable r" "rel_initially_deferred R = pgr_initially_deferred r"
    by (simp add: import_relationship_def Let_def s)
  ultimately show ?thesis using src target unfolding relationship_represented_def by blast
qed

definition represents_catalog :: "import_source \<Rightarrow> design_content \<Rightarrow> pg_catalog \<Rightarrow> bool" where
  "represents_catalog im content catalog =
     (list_all2 (type_represented im) (content_types content) (cat_types catalog)
      \<and> list_all2 (table_represented im) (content_tables content) (cat_tables catalog)
      \<and> list_all2 (relationship_represented content) (content_relationships content) (cat_relationships catalog)
      \<and> list_all2 (function_represented im (cat_namespace catalog)) (content_functions content) (cat_functions catalog)
      \<and> list_all2 view_represented (content_views content) (source_views catalog)
      \<and> list_all2 (trigger_represented im (cat_namespace catalog)) (content_triggers content)
           (concat (map (\<lambda>t. map (Pair t) (pgb_triggers t)) (cat_tables catalog))))"

lemma distinct_concat_part: "distinct (concat xss) \<Longrightarrow> xs \<in> set xss \<Longrightarrow> distinct xs"
  by (induction xss) auto

lemma distinct_table_ids: "distinct (concat (map table_object_ids ts)) \<Longrightarrow> distinct (map tbl_id ts)"
proof (induction ts)
  case (Cons t ts)
  then have "tbl_id t \<notin> set (concat (map table_object_ids ts))" by (auto simp: table_object_ids_def)
  with Cons show ?case by (auto simp: table_object_ids_def)
qed simp

lemma validated_unique:
  assumes "validate_design_content base_type_name query_error content = None"
  shows "distinct (map tbl_name (content_tables content))" "\<forall>T\<in>set (content_tables content). distinct (map col_id (tbl_columns T))"
    "distinct (map tbl_id (content_tables content) @ map view_id (content_views content))"
proof -
  note v = assms[unfolded validate_design_content_def first_error_None]
  show "distinct (map tbl_name (content_tables content))" using v by simp
  have d: "distinct (all_object_ids content)" using v by simp
  have "distinct (table_object_ids T)" if "T \<in> set (content_tables content)" for T
  proof (rule distinct_concat_part)
    show "distinct (concat (map table_object_ids (content_tables content)))" using d by (simp only: all_object_ids_def distinct_append)
  qed (use that in simp)
  then show "\<forall>T\<in>set (content_tables content). distinct (map col_id (tbl_columns T))" by (auto simp: table_object_ids_def)
  have ids: "tbl_id ` set Ts \<subseteq> set (concat (map table_object_ids Ts))" for Ts by (auto simp: table_object_ids_def)
  have "distinct (map tbl_id (content_tables content))" using d by (intro distinct_table_ids) (simp only: all_object_ids_def distinct_append)
  moreover have "distinct (map view_id (content_views content))" using d by (simp only: all_object_ids_def distinct_append)
  moreover have "set (concat (map table_object_ids (content_tables content))) \<inter> set (map view_id (content_views content)) = {}"
    using d unfolding all_object_ids_def by (simp only: distinct_append set_append Int_Un_distrib Un_empty)
  ultimately show "distinct (map tbl_id (content_tables content) @ map view_id (content_views content))"
    using ids[of "content_tables content"] by (simp only: distinct_append set_map) blast
qed

lemma import_content_complete:
  assumes "import_content im catalog = Inr (content, [])" "validate_design_content base_type_name query_error content = None"
  shows "represents_catalog im content catalog"
proof -
  obtain tables table_issues d where t: "import_tables im catalog [] (cat_tables catalog) = Inr ((tables, table_issues), d)"
    using assms(1) by (cases "import_tables im catalog [] (cat_tables catalog)") (auto simp: import_content_def split: prod.splits)
  let ?tables = "dict_by tbl_name tables"
  have none: "table_issues = []" "snd (import_each (import_type im catalog) (cat_types catalog)) = []"
    "snd (import_each (import_relationship im catalog ?tables d) (cat_relationships catalog)) = []"
    "snd (import_each (import_function im catalog) (cat_functions catalog)) = []"
    "snd (import_each (import_view im catalog) (source_views catalog)) = []"
    "snd (import_each (\<lambda>(t, g). import_trigger im catalog ?tables t g) (concat (map (\<lambda>t. map (Pair t) (pgb_triggers t)) (cat_tables catalog)))) = []"
    and content: "content_tables content = tables" "content_types content = fst (import_each (import_type im catalog) (cat_types catalog))"
    "content_relationships content = fst (import_each (import_relationship im catalog ?tables d) (cat_relationships catalog))"
    "content_functions content = fst (import_each (import_function im catalog) (cat_functions catalog))"
    "content_views content = fst (import_each (import_view im catalog) (source_views catalog))"
    "content_triggers content = fst (import_each (\<lambda>(t, g). import_trigger im catalog ?tables t g)
       (concat (map (\<lambda>t. map (Pair t) (pgb_triggers t)) (cat_tables catalog))))"
    using assms(1) t by (auto simp: import_content_def Let_def split: prod.splits)
  note unique = validated_unique[OF assms(2), unfolded content(1)]
  have "filter (\<lambda>t. pgb_columns t \<noteq> []) (cat_tables catalog) = cat_tables catalog"
    using import_tables_names[OF t] none(1) by auto
  with unique(1) import_tables_names[OF t] have d: "distinct (map pgb_name (cat_tables catalog))" by simp
  have T: "list_all2 (\<lambda>T t. table_represented im T t \<and> imports_columns im catalog T t) tables (cat_tables catalog)"
    and ids: "ids_of im catalog d"
    using import_tables_represented[OF t[unfolded none(1)] _ subset_refl d unique(2)] by (auto simp: ids_of_def)
  have names: "column_names T is = map Some ns" if m: "T \<in> set tables" and l: "lookup_columns d (tbl_name T) ns = Inr is" for T ns "is"
  proof -
    obtain t where t: "t \<in> set (cat_tables catalog)" "imports_columns im catalog T t"
      using m list_all2_nthD[OF T] list_all2_lengthD[OF T] by (metis (no_types, lifting) in_set_conv_nth)
    then have "set ns \<subseteq> pgc_name ` set (pgb_columns t)"
      using lookup_columns_ids[OF l ids] d by (auto simp: imports_columns_def distinct_map dest: inj_onD)
    with lookup_columns_ids[OF l ids] column_names_found[OF t(2)] unique(2) m t(2) show ?thesis
      by (simp add: imports_columns_def)
  qed
  show ?thesis unfolding represents_catalog_def
  proof (intro conjI)
    show "list_all2 (type_represented im) (content_types content) (cat_types catalog)"
      unfolding content(2) by (rule import_each_complete[OF none(2) import_type_represented])
    show "list_all2 (table_represented im) (content_tables content) (cat_tables catalog)"
      unfolding content(1) using T by (rule list_all2_mono) simp
    show "list_all2 (relationship_represented content) (content_relationships content) (cat_relationships catalog)"
      unfolding content(3)
      by (rule import_each_complete[OF none(3)], unfold content(1)[symmetric],
          rule import_relationship_represented) (use names in \<open>simp_all add: content(1)\<close>)
    show "list_all2 (function_represented im (cat_namespace catalog)) (content_functions content) (cat_functions catalog)"
      unfolding content(4) by (rule import_each_complete[OF none(4) import_function_represented])
    show "list_all2 view_represented (content_views content) (source_views catalog)"
      unfolding content(5) by (rule import_each_complete[OF none(5) import_view_represented])
    show "list_all2 (trigger_represented im (cat_namespace catalog)) (content_triggers content)
           (concat (map (\<lambda>t. map (Pair t) (pgb_triggers t)) (cat_tables catalog)))"
      unfolding content(6) by (rule import_each_complete[OF none(6)]) (auto intro!: import_trigger_represented)
  qed
qed

text \<open>
  C16. A complete import loses nothing it models: when the summary reports no issue, types, tables,
  relationships, routines, views and triggers of the design correspond one to one, in order, to those of
  the catalog. Tables have the same columns in physical order, with their types, nullability, identity,
  default and generated expressions; keys, indexes and relationships are over the same columns. Checks,
  generated columns, index expressions and predicates have as their sources exactly the columns that the
  parser finds in the expression; types, routines and triggers are what the analysis of their definition
  reports.
\<close>

theorem complete_import_represents_catalog:
  assumes "import_postgres_catalog im catalog = Inr d" "im_complete (id_summary d)"
  shows "represents_catalog im (id_content d) catalog"
proof -
  obtain content issues where c: "import_content im catalog = Inr (content, issues)"
    "validate_design_content (sc_base_type_name im) (sc_query_error im) content = None" "id_content d = content" "issues = []"
    using assms by (auto simp: import_postgres_catalog_def split: sum.splits prod.splits option.splits)
  with import_content_complete[of im catalog content] show ?thesis by simp
qed

text \<open>
  What it does not preserve, without an issue: a virtual generated column is imported like a stored one,
  and design columns are created as \<open>GENERATED ALWAYS AS ... STORED\<close>.
\<close>

lemma generated_kind_lost:
  "import_column im catalog t (c\<lparr>pgc_generated := Some VirtualGenerated\<rparr>)
   = import_column im catalog t (c\<lparr>pgc_generated := Some StoredGenerated\<rparr>)"
  by (simp add: import_column_def)

section \<open>Layout\<close>

lemma grid_ids: "map pos_object_id (grid layer width dx dy ids) = ids"
  by (simp add: grid_def comp_def case_prod_unfold)

lemma length_grid [simp]: "length (grid layer width dx dy ids) = length ids"
  by (simp add: grid_def)

lemma grid_nth:
  "i < length ids \<Longrightarrow> grid layer width dx dy ids ! i = \<lparr>pos_object_id = ids ! i, pos_layer = layer,
     pos_x = of_nat (100 + (i mod width) * dx), pos_y = of_nat (100 + (i div width) * dy)\<rparr>"
  by (simp add: grid_def nth_enumerate_eq)

lemma grid_apart:
  assumes "0 < width" "0 < dx" "0 < dy" "i < length ids" "j < length ids" "i \<noteq> j"
  shows "of_nat dx \<le> \<bar>pos_x (grid layer width dx dy ids ! i) - pos_x (grid layer width dx dy ids ! j)\<bar>
    \<or> of_nat dy \<le> \<bar>pos_y (grid layer width dx dy ids ! i) - pos_y (grid layer width dx dy ids ! j)\<bar>"
proof -
  have far: "int d \<le> \<bar>int a * int d - int b * int d\<bar>" if "a \<noteq> b" for a b d :: nat
  proof -
    have "int d * 1 \<le> int d * \<bar>int a - int b\<bar>" using that by (intro mult_left_mono) auto
    moreover have "int a * int d - int b * int d = int d * (int a - int b)" by (simp add: algebra_simps)
    ultimately show ?thesis by (simp add: abs_mult)
  qed
  have rat: "of_nat d \<le> \<bar>of_nat (100 + a * d) - of_nat (100 + b * d) :: rat\<bar>" if "a \<noteq> b" for a b d :: nat
  proof -
    have "of_int (int d) \<le> (of_int \<bar>int a * int d - int b * int d\<bar> :: rat)" using far[OF that, of d] by (simp only: of_int_le_iff)
    then show ?thesis by simp
  qed
  have "i mod width \<noteq> j mod width \<or> i div width \<noteq> j div width"
    using assms(6) by (metis mult_div_mod_eq)
  then show ?thesis using assms(4,5) rat by (auto simp: grid_nth)
qed

text \<open>Two objects of a layer are apart when their positions differ by 340 in some direction.\<close>

definition apart :: "object_position \<Rightarrow> object_position \<Rightarrow> bool" where
  "apart p q = (pos_layer p = pos_layer q \<longrightarrow> 340 \<le> \<bar>pos_x p - pos_x q\<bar> \<or> 340 \<le> \<bar>pos_y p - pos_y q\<bar>)"

lemma grid_pairwise:
  assumes "0 < width" "340 \<le> dx" "340 \<le> dy" "i < length ids" "j < length ids" "i \<noteq> j"
  shows "apart (grid layer width dx dy ids ! i) (grid layer width dx dy ids ! j)"
proof -
  have "(340::rat) \<le> of_nat dx" "(340::rat) \<le> of_nat dy"
    using assms(2,3) of_nat_le_iff[where 'a = rat, of 340] by auto
  with grid_apart[of width dx dy i ids j layer] assms show ?thesis unfolding apart_def by force
qed

lemma sorted_wrt_grid: "0 < width \<Longrightarrow> 340 \<le> dx \<Longrightarrow> 340 \<le> dy \<Longrightarrow> sorted_wrt apart (grid layer width dx dy ids)"
  by (auto simp: sorted_wrt_iff_nth_less grid_pairwise)

lemma grid_layer: "p \<in> set (grid layer width dx dy ids) \<Longrightarrow> pos_layer p = layer"
  by (auto simp: grid_def)

definition grids :: "design_content \<Rightarrow> object_position list" where
  "grids content = grid TablesLayer (grid_width (length (content_tables content))) 380 340 (map tbl_id (content_tables content))
     @ grid ViewsLayer (grid_width (length (content_views content))) 420 360 (map view_id (content_views content))"

lemma validated_layout:
  assumes "validate_design_content base_type_name query_error content = None"
  shows "import_layout content = Inr (grids content)"
proof -
  have r: "remdups (map pos_object_id (grids content)) = map pos_object_id (grids content)"
    using validated_unique(3)[OF assms] unfolding grids_def map_append grid_ids by (rule distinct_remdups_id)
  show ?thesis by (simp only: import_layout_def layout_content_of_def Let_def r simp_thms if_False flip: grids_def)
qed

lemma import_success:
  assumes "import_content im catalog = Inr (content, issues)"
    and "validate_design_content (sc_base_type_name im) (sc_query_error im) content = None"
  shows "\<exists>d. import_postgres_catalog im catalog = Inr d \<and> id_content d = content \<and> id_layout d = grids content
    \<and> im_complete (id_summary d) = (issues = [])"
  using assms validated_layout[OF assms(2)] by (simp add: import_postgres_catalog_def)

text \<open>
  Every import has a layout: the grid never fails, it places every table and every view once, and no
  two objects of a layer come closer than 340 in both directions.
\<close>

theorem imported_layout_apart:
  "import_postgres_catalog im catalog \<noteq> Inl ImportLayoutError
   \<and> (case import_postgres_catalog im catalog of Inl _ \<Rightarrow> True
      | Inr d \<Rightarrow> map (\<lambda>p. (pos_object_id p, pos_layer p)) (id_layout d)
            = map (\<lambda>t. (tbl_id t, TablesLayer)) (content_tables (id_content d)) @ map (\<lambda>v. (view_id v, ViewsLayer)) (content_views (id_content d))
          \<and> sorted_wrt apart (id_layout d))"
proof -
  have width: "0 < grid_width n" for n by (simp add: grid_width_def)
  have apart: "sorted_wrt apart (grids content)" for content
    by (auto simp: grids_def sorted_wrt_append sorted_wrt_grid width dest!: grid_layer) (simp add: apart_def)
  have ids: "map (\<lambda>p. (pos_object_id p, pos_layer p)) (grid layer w dx dy is) = map (\<lambda>i. (i, layer)) is" for layer w dx dy "is"
    by (rule nth_equalityI) (simp_all add: grid_nth)
  show ?thesis
  proof (cases "import_content im catalog")
    case (Inl e)
    then show ?thesis by (cases e) (simp add: import_postgres_catalog_def)
  next
    case (Inr x)
    obtain content issues where x: "x = (content, issues)" by (cases x)
    show ?thesis
    proof (cases "validate_design_content (sc_base_type_name im) (sc_query_error im) content")
      case None
      with Inr x validated_layout[OF None] apart[of content] show ?thesis by (simp add: import_postgres_catalog_def grids_def ids comp_def)
    next
      case (Some e)
      with Inr x show ?thesis by (simp add: import_postgres_catalog_def)
    qed
  qed
qed

end
