(* ===== verification/Reconciliation_Identity.thy ===== *)
theory Reconciliation_Identity
  imports Reconciliation Catalog_Import_Properties
begin

text \<open>
  Alignment finds a design again in its own import: when every object has a new identifier and everything
  else is unchanged, aligning with the design gives the design back. Imports derive identifiers from the
  catalog fingerprint, so any change of the database renames all of them; this is what keeps the history
  of an object across imports.
\<close>

section \<open>Relabelled designs\<close>

definition relabel_column :: "(string \<Rightarrow> string) \<Rightarrow> design_column \<Rightarrow> design_column" where
  "relabel_column g c = c\<lparr>col_id := g (col_id c), col_generated_source_column_ids := map g (col_generated_source_column_ids c)\<rparr>"

definition relabel_key :: "(string \<Rightarrow> string) \<Rightarrow> design_key \<Rightarrow> design_key" where
  "relabel_key g k = k\<lparr>key_id := g (key_id k), key_column_ids := map g (key_column_ids k)\<rparr>"

definition relabel_check :: "(string \<Rightarrow> string) \<Rightarrow> design_check \<Rightarrow> design_check" where
  "relabel_check g c = c\<lparr>chk_id := g (chk_id c), chk_column_ids := map g (chk_column_ids c)\<rparr>"

definition relabel_index :: "(string \<Rightarrow> string) \<Rightarrow> design_index \<Rightarrow> design_index" where
  "relabel_index g i = i\<lparr>idx_id := g (idx_id i), idx_column_ids := map g (idx_column_ids i),
     idx_include_column_ids := map g (idx_include_column_ids i),
     idx_expression_source_column_ids := map g (idx_expression_source_column_ids i),
     idx_predicate_column_ids := map g (idx_predicate_column_ids i)\<rparr>"

definition relabel_table :: "(string \<Rightarrow> string) \<Rightarrow> design_table \<Rightarrow> design_table" where
  "relabel_table g t = t\<lparr>tbl_id := g (tbl_id t), tbl_columns := map (relabel_column g) (tbl_columns t),
     tbl_keys := map (relabel_key g) (tbl_keys t), tbl_checks := map (relabel_check g) (tbl_checks t),
     tbl_indexes := map (relabel_index g) (tbl_indexes t)\<rparr>"

definition relabel_relationship :: "(string \<Rightarrow> string) \<Rightarrow> design_relationship \<Rightarrow> design_relationship" where
  "relabel_relationship g r = r\<lparr>rel_id := g (rel_id r), rel_source_table_id := g (rel_source_table_id r),
     rel_source_column_ids := map g (rel_source_column_ids r), rel_target_table_id := g (rel_target_table_id r),
     rel_target_column_ids := map g (rel_target_column_ids r)\<rparr>"

definition relabel :: "(string \<Rightarrow> string) \<Rightarrow> design_content \<Rightarrow> design_content" where
  "relabel g c = \<lparr>content_types = map (\<lambda>t. t\<lparr>ty_id := g (ty_id t)\<rparr>) (content_types c),
     content_tables = map (relabel_table g) (content_tables c),
     content_relationships = map (relabel_relationship g) (content_relationships c),
     content_functions = map (\<lambda>f. f\<lparr>fn_id := g (fn_id f)\<rparr>) (content_functions c),
     content_views = map (\<lambda>v. v\<lparr>view_id := g (view_id v)\<rparr>) (content_views c),
     content_triggers = map (\<lambda>t. t\<lparr>trg_id := g (trg_id t)\<rparr>) (content_triggers c)\<rparr>"

lemmas relabel_defs = relabel_column_def relabel_key_def relabel_check_def relabel_index_def relabel_table_def relabel_relationship_def

text \<open>The strings of a document, and those of a design that are not identifiers.\<close>

fun json_strings :: "json \<Rightarrow> string set" where
  "json_strings (JStr s) = {s}"
| "json_strings (JList vs) = (\<Union>v\<in>set vs. json_strings v)"
| "json_strings (JObj kvs) = (\<Union>kv\<in>set kvs. json_strings (snd kv))"
| "json_strings v = {}"

definition design_texts :: "design_content \<Rightarrow> string set" where
  "design_texts c = json_strings (content_document id (relabel (\<lambda>_. '''') c))"

section \<open>Replacing identifiers\<close>

lemma replace_opt:
  "(\<And>s. v = Some s \<Longrightarrow> dict_get d s s = s) \<Longrightarrow> replace_strings d (json_opt JStr v) = json_opt JStr v"
  "replace_strings d (json_opt JBool b) = json_opt JBool b"
  by (cases v; cases b; simp add: json_opt_def)+

lemma replace_strs: "replace_strings d (json_strs xs) = json_strs (map (\<lambda>s. dict_get d s s) xs)"
  by (simp add: json_strs_def)

lemma strings_opt [simp]: "json_strings (json_opt JStr v) = set_option v" "json_strings (json_opt JBool b) = {}"
  by (cases v; cases b; simp add: json_opt_def)+

lemma strings_strs [simp]: "json_strings (json_strs xs) = set xs"
  by (simp add: json_strs_def)

text \<open>A record of a design after replacement: its identifiers are replaced, its texts are not keys of the dictionary.\<close>

lemma replace_column:
  "(\<And>s. s \<in> json_strings (column_document id (relabel_column (\<lambda>_. '''') c)) \<Longrightarrow> dict_get d s s = s) \<Longrightarrow>
   replace_strings d (column_document id (relabel_column g c)) = column_document id (relabel_column (\<lambda>i. dict_get d (g i) (g i)) c)"
  by (cases "col_identity c") (auto simp: column_document_def relabel_column_def replace_strs comp_def json_opt_def split: option.splits)

lemma replace_key:
  "(\<And>s. s \<in> json_strings (key_document id (relabel_key (\<lambda>_. '''') k)) \<Longrightarrow> dict_get d s s = s) \<Longrightarrow>
   replace_strings d (key_document id (relabel_key g k)) = key_document id (relabel_key (\<lambda>i. dict_get d (g i) (g i)) k)"
  by (auto simp: key_document_def relabel_key_def replace_strs comp_def)

lemma replace_check:
  "(\<And>s. s \<in> json_strings (check_document id (relabel_check (\<lambda>_. '''') k)) \<Longrightarrow> dict_get d s s = s) \<Longrightarrow>
   replace_strings d (check_document id (relabel_check g k)) = check_document id (relabel_check (\<lambda>i. dict_get d (g i) (g i)) k)"
  by (auto simp: check_document_def relabel_check_def replace_strs comp_def)

lemma replace_index:
  "(\<And>s. s \<in> json_strings (index_document id (relabel_index (\<lambda>_. '''') k)) \<Longrightarrow> dict_get d s s = s) \<Longrightarrow>
   replace_strings d (index_document id (relabel_index g k)) = index_document id (relabel_index (\<lambda>i. dict_get d (g i) (g i)) k)"
  by (auto simp: index_document_def relabel_index_def replace_strs comp_def json_opt_def split: option.splits)

lemma replace_relationship:
  "(\<And>s. s \<in> json_strings (relationship_document id (relabel_relationship (\<lambda>_. '''') k)) \<Longrightarrow> dict_get d s s = s) \<Longrightarrow>
   replace_strings d (relationship_document id (relabel_relationship g k))
   = relationship_document id (relabel_relationship (\<lambda>i. dict_get d (g i) (g i)) k)"
  by (auto simp: relationship_document_def relabel_relationship_def replace_strs comp_def)

lemma replace_table:
  assumes "\<And>s. s \<in> json_strings (table_document id (relabel_table (\<lambda>_. '''') t)) \<Longrightarrow> dict_get d s s = s"
  shows "replace_strings d (table_document id (relabel_table g t)) = table_document id (relabel_table (\<lambda>i. dict_get d (g i) (g i)) t)"
proof -
  have "replace_strings d (column_document id (relabel_column g c)) = column_document id (relabel_column (\<lambda>i. dict_get d (g i) (g i)) c)"
    if "c \<in> set (tbl_columns t)" for c
    by (rule replace_column, rule assms) (use that in \<open>auto simp: table_document_def relabel_table_def\<close>)
  moreover have "replace_strings d (key_document id (relabel_key g k)) = key_document id (relabel_key (\<lambda>i. dict_get d (g i) (g i)) k)"
    if "k \<in> set (tbl_keys t)" for k
    by (rule replace_key, rule assms) (use that in \<open>auto simp: table_document_def relabel_table_def\<close>)
  moreover have "replace_strings d (check_document id (relabel_check g k)) = check_document id (relabel_check (\<lambda>i. dict_get d (g i) (g i)) k)"
    if "k \<in> set (tbl_checks t)" for k
    by (rule replace_check, rule assms) (use that in \<open>auto simp: table_document_def relabel_table_def\<close>)
  moreover have "replace_strings d (index_document id (relabel_index g k)) = index_document id (relabel_index (\<lambda>i. dict_get d (g i) (g i)) k)"
    if "k \<in> set (tbl_indexes t)" for k
    by (rule replace_index, rule assms) (use that in \<open>auto simp: table_document_def relabel_table_def\<close>)
  moreover have "dict_get d (tbl_name t) (tbl_name t) = tbl_name t"
    by (rule assms) (simp add: table_document_def relabel_table_def)
  ultimately show ?thesis by (simp add: table_document_def relabel_table_def)
qed

lemma replace_type:
  assumes "\<And>s. s \<in> json_strings (type_document id (t\<lparr>ty_id := ''''\<rparr>)) \<Longrightarrow> dict_get d s s = s"
  shows "replace_strings d (type_document id (t\<lparr>ty_id := g (ty_id t)\<rparr>)) = type_document id (t\<lparr>ty_id := dict_get d (g (ty_id t)) (g (ty_id t))\<rparr>)"
proof -
  have "replace_strings d (domain_check_document id c) = domain_check_document id c" if c: "c \<in> set (ty_checks t)" for c
  proof -
    have "dict_get d s s = s" if "s \<in> json_strings (domain_check_document id c)" for s
      by (rule assms) (use c that in \<open>auto simp: type_document_def\<close>)
    then show ?thesis by (simp add: domain_check_document_def replace_opt)
  qed
  moreover have "map (\<lambda>s. dict_get d s s) (ty_enum_values t) = ty_enum_values t"
    by (rule map_idI, rule assms) (simp add: type_document_def)
  moreover have "replace_strings d (json_opt JStr (ty_base_type t)) = json_opt JStr (ty_base_type t)"
    "replace_strings d (json_opt JStr (ty_default_expression t)) = json_opt JStr (ty_default_expression t)"
    "replace_strings d (json_opt JStr (ty_collation t)) = json_opt JStr (ty_collation t)"
    by (rule replace_opt, rule assms, simp add: type_document_def)+
  moreover have "dict_get d s s = s" if "s \<in> {ty_name t, type_kind_text (ty_kind t), ty_definition t}" for s
    by (rule assms) (use that in \<open>auto simp: type_document_def\<close>)
  ultimately show ?thesis by (simp add: type_document_def replace_strs)
qed

lemma replace_function:
  assumes "\<And>s. s \<in> json_strings (function_document id (f\<lparr>fn_id := ''''\<rparr>)) \<Longrightarrow> dict_get d s s = s"
  shows "replace_strings d (function_document id (f\<lparr>fn_id := g (fn_id f)\<rparr>)) = function_document id (f\<lparr>fn_id := dict_get d (g (fn_id f)) (g (fn_id f))\<rparr>)"
proof -
  have "replace_strings d (json_opt JStr (fn_return_type f)) = json_opt JStr (fn_return_type f)"
    by (rule replace_opt, rule assms) (simp add: function_document_def)
  moreover have "dict_get d s s = s" if "s \<in> {fn_name f, routine_kind_text (fn_kind f), fn_arguments f, fn_identity_arguments f, fn_language f, fn_definition f}" for s
    by (rule assms) (use that in \<open>auto simp: function_document_def\<close>)
  ultimately show ?thesis by (simp add: function_document_def)
qed

lemma replace_view:
  assumes "\<And>s. s \<in> json_strings (view_document id (v\<lparr>view_id := ''''\<rparr>)) \<Longrightarrow> dict_get d s s = s"
  shows "replace_strings d (view_document id (v\<lparr>view_id := g (view_id v)\<rparr>)) = view_document id (v\<lparr>view_id := dict_get d (g (view_id v)) (g (view_id v))\<rparr>)"
proof -
  have "dict_get d s s = s" if "s \<in> {view_name v, view_kind_text (view_kind v), view_definition v}" for s
    by (rule assms) (use that in \<open>auto simp: view_document_def\<close>)
  then show ?thesis by (simp add: view_document_def replace_opt)
qed

lemma replace_trigger:
  assumes "\<And>s. s \<in> json_strings (trigger_document id (t\<lparr>trg_id := ''''\<rparr>)) \<Longrightarrow> dict_get d s s = s"
  shows "replace_strings d (trigger_document id (t\<lparr>trg_id := g (trg_id t)\<rparr>)) = trigger_document id (t\<lparr>trg_id := dict_get d (g (trg_id t)) (g (trg_id t))\<rparr>)"
proof -
  have "map (\<lambda>s. dict_get d s s) (map event_text (trg_events t)) = map event_text (trg_events t)"
    "map (\<lambda>s. dict_get d s s) (trg_function_arguments t) = trg_function_arguments t"
    "map (\<lambda>s. dict_get d s s) (trg_update_columns t) = trg_update_columns t"
    "map (\<lambda>s. dict_get d s s) (trg_referenced_columns t) = trg_referenced_columns t"
    "map (\<lambda>s. dict_get d s s) (trg_transition_relations t) = trg_transition_relations t"
    by (rule map_idI, rule assms, simp add: trigger_document_def)+
  moreover have "replace_strings d (json_opt JStr (trg_when_expression t)) = json_opt JStr (trg_when_expression t)"
    by (rule replace_opt, rule assms) (simp add: trigger_document_def)
  moreover have "dict_get d s s = s" if "s \<in> {trg_name t, trg_relation_name t, timing_text (trg_timing t),
      orientation_text (trg_orientation t), trg_function_name t, trg_definition t}" for s
    by (rule assms) (use that in \<open>auto simp: trigger_document_def\<close>)
  ultimately show ?thesis by (simp add: trigger_document_def replace_strs del: map_map)
qed

lemma replace_content:
  assumes "\<And>s. s \<in> design_texts c \<Longrightarrow> dict_get d s s = s"
  shows "replace_strings d (content_document id (relabel g c)) = content_document id (relabel (\<lambda>i. dict_get d (g i) (g i)) c)"
proof -
  note texts = design_texts_def content_document_def relabel_def
  have "replace_strings d (type_document id (t\<lparr>ty_id := g (ty_id t)\<rparr>)) = type_document id (t\<lparr>ty_id := dict_get d (g (ty_id t)) (g (ty_id t))\<rparr>)"
    if "t \<in> set (content_types c)" for t
    by (rule replace_type, rule assms) (use that in \<open>auto simp: texts\<close>)
  moreover have "replace_strings d (table_document id (relabel_table g t)) = table_document id (relabel_table (\<lambda>i. dict_get d (g i) (g i)) t)"
    if "t \<in> set (content_tables c)" for t
    by (rule replace_table, rule assms) (use that in \<open>auto simp: texts\<close>)
  moreover have "replace_strings d (relationship_document id (relabel_relationship g r))
      = relationship_document id (relabel_relationship (\<lambda>i. dict_get d (g i) (g i)) r)" if "r \<in> set (content_relationships c)" for r
    by (rule replace_relationship, rule assms) (use that in \<open>auto simp: texts\<close>)
  moreover have "replace_strings d (function_document id (f\<lparr>fn_id := g (fn_id f)\<rparr>))
      = function_document id (f\<lparr>fn_id := dict_get d (g (fn_id f)) (g (fn_id f))\<rparr>)" if "f \<in> set (content_functions c)" for f
    by (rule replace_function, rule assms) (use that in \<open>auto simp: texts\<close>)
  moreover have "replace_strings d (view_document id (v\<lparr>view_id := g (view_id v)\<rparr>))
      = view_document id (v\<lparr>view_id := dict_get d (g (view_id v)) (g (view_id v))\<rparr>)" if "v \<in> set (content_views c)" for v
    by (rule replace_view, rule assms) (use that in \<open>auto simp: texts\<close>)
  moreover have "replace_strings d (trigger_document id (t\<lparr>trg_id := g (trg_id t)\<rparr>))
      = trigger_document id (t\<lparr>trg_id := dict_get d (g (trg_id t)) (g (trg_id t))\<rparr>)" if "t \<in> set (content_triggers c)" for t
    by (rule replace_trigger, rule assms) (use that in \<open>auto simp: texts\<close>)
  ultimately show ?thesis by (simp add: content_document_def relabel_def)
qed

section \<open>Labels of a resolved design\<close>

definition design_resolved :: "design_content \<Rightarrow> bool" where
  "design_resolved c = (distinct (all_object_ids c)
     \<and> (\<forall>t\<in>set (content_tables c). table_references_resolved t) \<and> (\<forall>r\<in>set (content_relationships c). relationship_resolved c r))"

lemma validated_resolved:
  assumes "validate_design_content base_type_name query_error c = None"
  shows "design_resolved c"
  unfolding design_resolved_def
proof (intro conjI ballI)
  note v = assms[unfolded validate_design_content_def first_error_None]
  show "distinct (all_object_ids c)" using v by simp
  show "table_references_resolved t" if "t \<in> set (content_tables c)" for t
    using v that by (intro check_table_resolved) auto
  show "relationship_resolved c r" if "r \<in> set (content_relationships c)" for r
    using v that by (intro check_relationships_resolved[of c "[]"]) auto
qed

lemma relabel_table_fixed:
  assumes "table_references_resolved t" "\<And>i. i \<in> set (table_object_ids t) \<Longrightarrow> h i = i"
  shows "relabel_table h t = t"
proof -
  have h: "map h is = is" if "set is \<subseteq> set (table_column_ids t)" for "is"
    by (rule map_idI, rule assms(2)) (use that in \<open>auto simp: table_object_ids_def table_column_ids_def\<close>)
  note r = assms(1)[unfolded table_references_resolved_def]
  have "map h (col_generated_source_column_ids c) = col_generated_source_column_ids c" if "c \<in> set (tbl_columns t)" for c
    by (rule h) (use r that in blast)
  then have "map (relabel_column h) (tbl_columns t) = tbl_columns t"
    by (intro map_idI) (use assms(2) in \<open>simp add: relabel_column_def table_object_ids_def\<close>)
  moreover have "map (relabel_key h) (tbl_keys t) = tbl_keys t"
    by (rule map_idI) (use r assms(2) in \<open>auto simp: relabel_key_def table_object_ids_def h\<close>)
  moreover have "map (relabel_check h) (tbl_checks t) = tbl_checks t"
    by (rule map_idI) (use r assms(2) in \<open>auto simp: relabel_check_def table_object_ids_def h\<close>)
  moreover have "map (relabel_index h) (tbl_indexes t) = tbl_indexes t"
    by (rule map_idI) (use r assms(2) in \<open>auto simp: relabel_index_def table_object_ids_def h\<close>)
  ultimately show ?thesis using assms(2) by (simp add: relabel_table_def table_object_ids_def)
qed

lemma relabel_relationship_fixed:
  assumes "relationship_resolved c r" "\<forall>t\<in>set (content_tables c). table_references_resolved t" "h (rel_id r) = rel_id r"
    and "\<And>t i. t \<in> set (content_tables c) \<Longrightarrow> i \<in> set (table_object_ids t) \<Longrightarrow> h i = i"
  shows "relabel_relationship h r = r"
proof -
  obtain src target k where s: "src \<in> set (content_tables c)" "target \<in> set (content_tables c)" "tbl_id src = rel_source_table_id r"
    "tbl_id target = rel_target_table_id r" "set (rel_source_column_ids r) \<subseteq> set (table_column_ids src)"
    "k \<in> set (tbl_keys target)" "key_column_ids k = rel_target_column_ids r"
    using assms(1) by (auto simp: relationship_resolved_def)
  have h: "map h is = is" if "set is \<subseteq> set (table_column_ids t)" "t \<in> set (content_tables c)" for "is" t
    by (rule map_idI, rule assms(4)[OF that(2)]) (use that in \<open>auto simp: table_object_ids_def table_column_ids_def\<close>)
  have "set (rel_target_column_ids r) \<subseteq> set (table_column_ids target)"
    using assms(2) s(2,6) unfolding s(7)[symmetric] table_references_resolved_def by blast
  then have "map h (rel_source_column_ids r) = rel_source_column_ids r" "map h (rel_target_column_ids r) = rel_target_column_ids r"
    using h[OF s(5,1)] h[OF _ s(2)] by simp_all
  moreover have "h (rel_source_table_id r) = rel_source_table_id r" "h (rel_target_table_id r) = rel_target_table_id r"
    using assms(4)[OF s(1), of "tbl_id src"] assms(4)[OF s(2), of "tbl_id target"] s(3,4) by (auto simp: table_object_ids_def)
  ultimately show ?thesis using assms(3) by (simp add: relabel_relationship_def)
qed

lemma relabel_fixed:
  assumes "design_resolved c" "\<And>i. i \<in> set (all_object_ids c) \<Longrightarrow> h i = i"
  shows "relabel h c = c"
proof -
  have t: "h i = i" if "t \<in> set (content_tables c)" "i \<in> set (table_object_ids t)" for t i
    by (rule assms(2)) (use that in \<open>auto simp: all_object_ids_def\<close>)
  have "map (\<lambda>t. t\<lparr>ty_id := h (ty_id t)\<rparr>) (content_types c) = content_types c"
    by (rule map_idI) (use assms(2) in \<open>simp add: all_object_ids_def\<close>)
  moreover have "map (relabel_table h) (content_tables c) = content_tables c"
    by (rule map_idI, rule relabel_table_fixed) (use assms(1) t in \<open>auto simp: design_resolved_def\<close>)
  moreover have "map (relabel_relationship h) (content_relationships c) = content_relationships c"
    by (rule map_idI, rule relabel_relationship_fixed[of c]) (use assms t in \<open>auto simp: design_resolved_def all_object_ids_def\<close>)
  moreover have "map (\<lambda>f. f\<lparr>fn_id := h (fn_id f)\<rparr>) (content_functions c) = content_functions c"
    by (rule map_idI) (use assms(2) in \<open>simp add: all_object_ids_def\<close>)
  moreover have "map (\<lambda>v. v\<lparr>view_id := h (view_id v)\<rparr>) (content_views c) = content_views c"
    by (rule map_idI) (use assms(2) in \<open>simp add: all_object_ids_def\<close>)
  moreover have "map (\<lambda>g. g\<lparr>trg_id := h (trg_id g)\<rparr>) (content_triggers c) = content_triggers c"
    by (rule map_idI) (use assms(2) in \<open>simp add: all_object_ids_def\<close>)
  ultimately show ?thesis by (simp add: relabel_def)
qed

section \<open>Lookups by name\<close>

lemma assign_get: "map_of (assign key val xs) k = map_option val (map_of (dict_by key xs) k)"
  unfolding assign_def dict_by_def by (induction xs rule: rev_induct) auto

lemma assign_found: "distinct (map key xs) \<Longrightarrow> x \<in> set xs \<Longrightarrow> map_of (assign key val xs) (key x) = Some (val x)"
  by (simp add: assign_get dict_by_find)

lemma candidate_first: "map_of (names m) k = Some i \<Longrightarrow> candidate names (m # ms) k = Some i"
  by simp

text \<open>The pairs of new and old identifiers, in the order the replacements are collected.\<close>

definition label_pairs :: "(string \<Rightarrow> string) \<Rightarrow> string list \<Rightarrow> (string \<times> string option) list" where
  "label_pairs g ids = map (\<lambda>i. (g i, Some i)) ids"

lemma label_pairs_append: "label_pairs g (xs @ ys) = label_pairs g xs @ label_pairs g ys"
  by (simp add: label_pairs_def)

lemma replacements_label_pairs:
  assumes "inj_on g (set ids)" "'''' \<notin> set ids" "i \<in> set ids"
  shows "map_of (replacements (label_pairs g ids)) (g i) = Some i"
  using assms
proof (induction ids rule: rev_induct)
  case (snoc j ids)
  have r: "replacements (label_pairs g (ids @ [j])) = AList.update (g j) j (replacements (label_pairs g ids))"
    using snoc.prems(2) by (auto simp: replacements_def label_pairs_def given_def)
  show ?case
  proof (cases "i = j")
    case False
    then have "g i \<noteq> g j" "i \<in> set ids" using snoc.prems inj_onD[OF snoc.prems(1), of i j] by auto
    with snoc r show ?thesis by (simp add: inj_on_def)
  qed (simp add: r)
qed simp

lemma replacements_keys: "map_of (replacements (label_pairs g ids)) s \<noteq> None \<Longrightarrow> s \<in> g ` set ids"
  by (induction ids rule: rev_induct) (auto simp: replacements_def label_pairs_def split: if_splits)

section \<open>Candidates of a relabelled design\<close>

lemma relabel_names [simp]:
  "tbl_name (relabel_table g t) = tbl_name t" "tbl_id (relabel_table g t) = g (tbl_id t)"
  "col_name (relabel_column g c) = col_name c" "col_id (relabel_column g c) = g (col_id c)"
  "key_name (relabel_key g k) = key_name k" "key_id (relabel_key g k) = g (key_id k)"
  "chk_name (relabel_check g h) = chk_name h" "chk_id (relabel_check g h) = g (chk_id h)"
  "idx_name (relabel_index g i) = idx_name i" "idx_id (relabel_index g i) = g (idx_id i)"
  "rel_name (relabel_relationship g r) = rel_name r" "rel_id (relabel_relationship g r) = g (rel_id r)"
  "rel_source_table_id (relabel_relationship g r) = g (rel_source_table_id r)"
  by (simp_all add: relabel_defs)

lemma relabel_tables [simp]:
  "tbl_columns (relabel_table g t) = map (relabel_column g) (tbl_columns t)" "tbl_keys (relabel_table g t) = map (relabel_key g) (tbl_keys t)"
  "tbl_checks (relabel_table g t) = map (relabel_check g) (tbl_checks t)" "tbl_indexes (relabel_table g t) = map (relabel_index g) (tbl_indexes t)"
  by (simp_all add: relabel_table_def)

text \<open>Names identify the objects of a validated design.\<close>

definition names_unique :: "design_content \<Rightarrow> bool" where
  "names_unique c = (distinct (map type_identity (content_types c)) \<and> distinct (map tbl_name (content_tables c))
     \<and> (\<forall>t\<in>set (content_tables c). distinct (map col_name (tbl_columns t)) \<and> distinct (map key_name (tbl_keys t))
          \<and> distinct (map chk_name (tbl_checks t)) \<and> distinct (map idx_name (tbl_indexes t)))
     \<and> distinct (map function_identity (content_functions c)) \<and> distinct (map view_identity (content_views c))
     \<and> distinct (map trigger_identity (content_triggers c))
     \<and> distinct (map (\<lambda>r. (rel_source_table_id r, rel_name r)) (content_relationships c)))"

lemma distinct_by_part: "distinct (map (p \<circ> f) xs) \<Longrightarrow> distinct (map f xs)"
  by (metis distinct_map map_map)

lemma check_relationships_unique:
  "check_relationships (dict_by tbl_id ts) seen rs = None \<Longrightarrow>
   distinct (map (\<lambda>r. (rel_source_table_id r, rel_name r)) rs) \<and> (\<forall>r\<in>set rs. (rel_source_table_id r, rel_name r) \<notin> set seen)"
proof (induction rs arbitrary: seen)
  case (Cons r rs)
  have "check_relationship (dict_by tbl_id ts) seen r = None" using Cons.prems by simp
  then have "(rel_source_table_id r, rel_name r) \<notin> set seen"
    by (auto simp: check_relationship_def split: option.splits dest!: dict_by_Some)
  with Cons.IH[of "(rel_source_table_id r, rel_name r) # seen"] Cons.prems show ?case by auto
qed simp

lemma validated_names:
  assumes "validate_design_content base_type_name query_error c = None"
  shows "names_unique c"
  unfolding names_unique_def
proof (intro conjI ballI)
  note v = assms[unfolded validate_design_content_def first_error_None]
  show "distinct (map type_identity (content_types c))"
    by (rule distinct_by_part[of snd]) (use v in \<open>simp add: comp_def type_identity_def\<close>)
  show "distinct (map tbl_name (content_tables c))" using v by simp
  show "distinct (map view_identity (content_views c))"
    by (rule distinct_by_part[of snd]) (use v in \<open>simp add: comp_def view_identity_def\<close>)
  show "distinct (map function_identity (content_functions c))"
  proof (rule distinct_by_part[of "\<lambda>(kind, name, arguments). name @ ''('' @ arguments @ '')''"])
    have "(\<lambda>(kind, name, arguments). name @ ''('' @ arguments @ '')'') \<circ> function_identity = routine_signature"
      by (simp add: fun_eq_iff function_identity_def routine_signature_def)
    then show "distinct (map ((\<lambda>(kind, name, arguments). name @ ''('' @ arguments @ '')'') \<circ> function_identity) (content_functions c))"
      using v by simp
  qed
  show "distinct (map trigger_identity (content_triggers c))"
    by (rule distinct_by_part[of "\<lambda>(relation, name). relation @ ''.'' @ name"]) (use v in \<open>simp add: comp_def trigger_identity_def\<close>)
  show "distinct (map (\<lambda>r. (rel_source_table_id r, rel_name r)) (content_relationships c))"
    using v check_relationships_unique[of "content_tables c" "[]"] by auto
  fix t assume "t \<in> set (content_tables c)"
  then have t: "check_table t = None" using v by auto
  show "distinct (map col_name (tbl_columns t))" "distinct (map key_name (tbl_keys t))" "distinct (map chk_name (tbl_checks t))"
    "distinct (map idx_name (tbl_indexes t))" using t unfolding check_table_def by simp_all
qed

lemma child_candidates_relabelled:
  assumes "distinct (map name xs)" "map_of (names m) table = Some (assign name ident xs)"
    and "\<And>x. name (f x) = name x" "\<And>x. ident (f x) = g (ident x)"
  shows "child_candidates names (m # maps) table name ident (map f xs) = label_pairs g (map ident xs)"
  using assms by (simp add: child_candidates_def label_pairs_def dict_get_def assign_found)

lemma table_candidates_relabelled:
  assumes "names_unique c" "t \<in> set (content_tables c)"
  shows "table_candidates (identity_maps c # maps) (relabel_table g t) = label_pairs g (table_object_ids t)"
proof -
  let ?M = "identity_maps c"
  have t: "distinct (map tbl_name (content_tables c))" "distinct (map col_name (tbl_columns t))" "distinct (map key_name (tbl_keys t))"
    "distinct (map chk_name (tbl_checks t))" "distinct (map idx_name (tbl_indexes t))"
    using assms by (auto simp: names_unique_def)
  have m: "map_of (nm_tables ?M) (tbl_name t) = Some (tbl_id t)"
    "map_of (nm_columns ?M) (tbl_name t) = Some (assign col_name col_id (tbl_columns t))"
    "map_of (nm_keys ?M) (tbl_name t) = Some (assign key_name key_id (tbl_keys t))"
    "map_of (nm_checks ?M) (tbl_name t) = Some (assign chk_name chk_id (tbl_checks t))"
    "map_of (nm_indexes ?M) (tbl_name t) = Some (assign idx_name idx_id (tbl_indexes t))"
    by (simp_all add: identity_maps_def assign_found[OF t(1) assms(2)])
  show ?thesis unfolding table_candidates_def relabel_names relabel_tables
    using child_candidates_relabelled[OF t(2), of nm_columns ?M _ col_id "relabel_column g" g maps, OF m(2)]
      child_candidates_relabelled[OF t(3), of nm_keys ?M _ key_id "relabel_key g" g maps, OF m(3)]
      child_candidates_relabelled[OF t(4), of nm_checks ?M _ chk_id "relabel_check g" g maps, OF m(4)]
      child_candidates_relabelled[OF t(5), of nm_indexes ?M _ idx_id "relabel_index g" g maps, OF m(5)] m(1)
    by (simp add: table_object_ids_def label_pairs_def)
qed

lemma relationship_identity_relabelled:
  assumes "design_resolved c" "inj_on g (set (all_object_ids c))" "r \<in> set (content_relationships c)"
  shows "relationship_identity (assign tbl_id tbl_name (map (relabel_table g) (content_tables c))) (relabel_relationship g r)
    = relationship_identity (assign tbl_id tbl_name (content_tables c)) r"
    and "\<exists>t\<in>set (content_tables c). tbl_id t = rel_source_table_id r
      \<and> relationship_identity (assign tbl_id tbl_name (content_tables c)) r = (Some (tbl_name t), rel_name r)"
proof -
  obtain t where t: "t \<in> set (content_tables c)" "tbl_id t = rel_source_table_id r"
    using assms(1,3) by (auto simp: design_resolved_def relationship_resolved_def)
  have sub: "tbl_id ` set (content_tables c) \<subseteq> set (all_object_ids c)" by (auto simp: all_object_ids_def table_object_ids_def)
  have d: "distinct (map tbl_id (content_tables c))"
    by (rule distinct_table_ids) (use assms(1) in \<open>simp only: design_resolved_def all_object_ids_def distinct_append\<close>)
  then have g: "distinct (map tbl_id (map (relabel_table g) (content_tables c)))"
    using inj_on_subset[OF assms(2) sub] by (simp add: comp_def distinct_map) (auto simp: inj_on_def)
  have "map_of (assign tbl_id tbl_name (map (relabel_table g) (content_tables c))) (g (tbl_id t)) = Some (tbl_name t)"
    using assign_found[OF g, of "relabel_table g t" tbl_name] t(1) by simp
  moreover have o: "map_of (assign tbl_id tbl_name (content_tables c)) (tbl_id t) = Some (tbl_name t)"
    using assign_found[OF d t(1)] .
  ultimately show "relationship_identity (assign tbl_id tbl_name (map (relabel_table g) (content_tables c))) (relabel_relationship g r)
    = relationship_identity (assign tbl_id tbl_name (content_tables c)) r"
    by (simp add: relationship_identity_def t(2)[symmetric])
  show "\<exists>t\<in>set (content_tables c). tbl_id t = rel_source_table_id r
      \<and> relationship_identity (assign tbl_id tbl_name (content_tables c)) r = (Some (tbl_name t), rel_name r)"
    using t o by (auto simp: relationship_identity_def)
qed

lemma relationship_identities_unique:
  assumes "names_unique c" "design_resolved c"
  shows "distinct (map (relationship_identity (assign tbl_id tbl_name (content_tables c))) (content_relationships c))"
proof -
  let ?i = "relationship_identity (assign tbl_id tbl_name (content_tables c))"
  have "r = r'" if "r \<in> set (content_relationships c)" "r' \<in> set (content_relationships c)" "?i r = ?i r'" for r r'
  proof -
    have "inj_on id (set (all_object_ids c))" by simp
    from relationship_identity_relabelled(2)[OF assms(2) this that(1)] relationship_identity_relabelled(2)[OF assms(2) this that(2)] that(3)
    obtain t t' where "t \<in> set (content_tables c)" "tbl_id t = rel_source_table_id r" "t' \<in> set (content_tables c)" "tbl_id t' = rel_source_table_id r'"
      "tbl_name t = tbl_name t'" "rel_name r = rel_name r'" by auto
    moreover from this have "t = t'" using assms(1) by (auto simp: names_unique_def distinct_map dest: inj_onD)
    moreover have "inj_on (\<lambda>r. (rel_source_table_id r, rel_name r)) (set (content_relationships c))"
      using assms(1) by (simp add: names_unique_def distinct_map)
    ultimately show ?thesis using inj_onD[OF _ _ that(1,2), of "\<lambda>r. (rel_source_table_id r, rel_name r)"] by simp
  qed
  moreover have "distinct (content_relationships c)"
    using assms(1) by (simp add: names_unique_def distinct_map)
  ultimately show ?thesis by (simp add: distinct_map inj_on_def)
qed

lemma candidates_relabelled:
  assumes "names_unique c" "design_resolved c" "inj_on g (set (all_object_ids c))"
  shows "\<exists>ids. identity_candidates (identity_maps c # maps) (relabel g c) = label_pairs g ids \<and> set ids = set (all_object_ids c)"
proof -
  let ?M = "identity_maps c"
  have tables: "concat (map (table_candidates (?M # maps)) (map (relabel_table g) (content_tables c)))
      = label_pairs g (concat (map table_object_ids (content_tables c)))"
    using table_candidates_relabelled[OF assms(1)] by (simp add: label_pairs_def map_concat comp_def cong: map_cong)
  have relationships: "map (\<lambda>r. (rel_id r, candidate nm_relationships (?M # maps)
      (relationship_identity (assign tbl_id tbl_name (map (relabel_table g) (content_tables c))) r))) (map (relabel_relationship g) (content_relationships c))
      = label_pairs g (map rel_id (content_relationships c))"
  proof -
    have "map_of (nm_relationships ?M) (relationship_identity (assign tbl_id tbl_name (map (relabel_table g) (content_tables c))) (relabel_relationship g r)) = Some (rel_id r)"
      if "r \<in> set (content_relationships c)" for r
      using assign_found[OF relationship_identities_unique[OF assms(1,2)] that]
      by (simp add: relationship_identity_relabelled(1)[OF assms(2,3) that] identity_maps_def)
    then show ?thesis by (simp add: label_pairs_def)
  qed
  have others: "map_of (nm_types ?M) (type_identity t) = Some (ty_id t)" if "t \<in> set (content_types c)" for t
    using assms(1) that by (simp add: identity_maps_def assign_found names_unique_def)
  have routines: "map_of (nm_functions ?M) (function_identity f) = Some (fn_id f)" if "f \<in> set (content_functions c)" for f
    using assms(1) that by (simp add: identity_maps_def assign_found names_unique_def)
  have views: "map_of (nm_views ?M) (view_identity v) = Some (view_id v)" if "v \<in> set (content_views c)" for v
    using assms(1) that by (simp add: identity_maps_def assign_found names_unique_def)
  have triggers: "map_of (nm_triggers ?M) (trigger_identity v) = Some (trg_id v)" if "v \<in> set (content_triggers c)" for v
    using assms(1) that by (simp add: identity_maps_def assign_found names_unique_def)
  have "identity_candidates (?M # maps) (relabel g c) = label_pairs g (map ty_id (content_types c) @ concat (map table_object_ids (content_tables c))
      @ map fn_id (content_functions c) @ map view_id (content_views c) @ map trg_id (content_triggers c) @ map rel_id (content_relationships c))"
    unfolding identity_candidates_def label_pairs_append
    using tables relationships others routines views triggers
    by (simp add: relabel_def label_pairs_def type_identity_def function_identity_def view_identity_def trigger_identity_def)
  then show ?thesis by (intro exI conjI) (assumption, auto simp: all_object_ids_def)
qed

text \<open>
  Alignment gives a design back from a copy with other identifiers: when the live design is the reference
  with its identifiers renamed (one to one, and to strings that occur nowhere else in the design), aligning it
  with the reference restores every identifier and every reference between objects.
\<close>

lemma alignment_restores:
  assumes "validate_design_content base_type_name query_error c = None" "content_built im c"
    and "inj_on g (set (all_object_ids c))" "'''' \<notin> set (all_object_ids c)" "\<forall>s\<in>design_texts c. s \<notin> g ` set (all_object_ids c)"
  shows "aligned_content im (relabel g c) (c # references) = Some c"
proof -
  obtain ids where ids: "identity_candidates (identity_maps c # map identity_maps references) (relabel g c) = label_pairs g ids"
    "set ids = set (all_object_ids c)"
    using candidates_relabelled[OF validated_names[OF assms(1)] validated_resolved[OF assms(1)] assms(3)] by blast
  define d where "d = replacements (label_pairs g ids)"
  have "dict_get d s s = s" if "s \<in> design_texts c" for s
    using replacements_keys[of g ids s] assms(5) that ids(2) by (auto simp: dict_get_def d_def split: option.splits)
  then have "replace_strings d (content_document id (relabel g c)) = content_document id (relabel (\<lambda>i. dict_get d (g i) (g i)) c)"
    by (rule replace_content)
  also have "relabel (\<lambda>i. dict_get d (g i) (g i)) c = c"
    by (rule relabel_fixed[OF validated_resolved[OF assms(1)]])
       (use replacements_label_pairs[of g ids] assms(3,4) ids(2) in \<open>simp add: dict_get_def d_def\<close>)
  finally show ?thesis
    using decode_content_document[OF assms(2)] by (simp only: aligned_content_def list.map ids(1) flip: d_def)
qed

end
