(* ===== verification/Reconciliation_Properties.thy ===== *)
theory Reconciliation_Properties
  imports Reconciliation_Identity Planner_Merge_Properties
begin

text \<open>
  Reconciliation as a whole. Against an unchanged database it gives the design itself, without conflicts
  and external changes, whatever identifiers the import made up. A result without conflicts is a
  validated design of a completely imported database.
\<close>

section \<open>Merging documents of the same shape\<close>

text \<open>Objects have the same keys in the same order, at every place where two documents are merged.\<close>

function (sequential) shaped :: "json \<Rightarrow> json \<Rightarrow> bool" where
  "shaped (JObj bs) (JObj ds) = (map fst bs = map fst ds
     \<and> (\<forall>kv\<in>set bs. case map_of ds (fst kv) of None \<Rightarrow> False | Some v \<Rightarrow> shaped (snd kv) v))"
| "shaped (JList bs) (JList ds) = (\<forall>x\<in>set bs. \<forall>y\<in>set ds. shaped x y)"
| "shaped _ _ = True"
  by pat_completeness auto
termination
  by (relation "measure (\<lambda>(b, d). size b)") (auto simp del: json.size)

lemma no_drift_exact_leaf:
  assumes "doc_wf b" "\<not> (is_object b \<and> is_object d)" "\<not> (id_list b \<and> id_list d)"
  shows "merge m (Some b) (Some d) (Some b) path = (Some d, [], [])"
proof (cases "equivalent_doc m path (Some d) (Some b)")
  case False
  then have c: "comparable m (Some b) (Some d) (Some b) path" "\<not> list_all object_or_missing [Some b, Some d, Some b]"
    "\<not> list_all list_or_missing [Some b, Some d, Some b]" using assms(2,3) by (auto simp: comparable_def)
  with False assms(1) show ?thesis by (auto simp: merge_leaf[OF c] equivalent_refl)
qed (simp add: merge_same)

lemma no_drift_exact:
  "doc_wf b \<Longrightarrow> doc_wf d \<Longrightarrow> kept b d \<Longrightarrow> shaped b d \<Longrightarrow> merge m (Some b) (Some d) (Some b) path = (Some d, [], [])"
proof (induction b d arbitrary: path rule: kept.induct)
  case (1 bs ds)
  let ?b = "Some (JObj bs)" and ?d = "Some (JObj ds)"
  show ?case
  proof (cases "equivalent_doc m path ?d ?b")
    case False
    then have c: "comparable m ?b ?d ?b path" "list_all object_or_missing [?b, ?d, ?b]" by (simp_all add: comparable_def)
    let ?f = "\<lambda>k. merge m (map_of (fields_of ?b) k) (map_of (fields_of ?d) k) (map_of (fields_of ?b) k) (dotted path k)"
    have keys: "map fst bs = map fst ds" "distinct (map fst ds)" using "1.prems" by simp_all
    have field: "?f (fst kv) = (Some (snd kv), [], [])" if kv: "kv \<in> set ds" for kv
    proof -
      have v: "map_of ds (fst kv) = Some (snd kv)" using kv keys(2) by (cases kv) auto
      have "fst kv \<in> fst ` set bs" using keys(1) kv by (metis image_eqI list.set_map)
      then obtain w where w: "(fst kv, w) \<in> set bs" by auto
      then have "map_of bs (fst kv) = Some w" using "1.prems"(1) by auto
      moreover have "doc_wf (snd kv)" using "1.prems"(2) kv by simp
      moreover have "doc_wf w" "kept w (snd kv)" "shaped w (snd kv)"
        using bspec[OF conjunct2[OF "1.prems"(1)[unfolded doc_wf.simps]] w] bspec[OF "1.prems"(3)[unfolded kept.simps] w]
          bspec[OF conjunct2[OF "1.prems"(4)[unfolded shaped.simps]] w] v by simp_all
      ultimately show ?thesis using "1.IH"[OF w, of "snd kv" "dotted path (fst kv)"] v by simp
    qed
    have "merge_keys ?b ?d ?b = map fst ds"
      using dedupe_absorb[OF keys(2), of "map fst ds @ map fst ds"] keys(1) by (simp add: merge_keys_def dict_keys_def)
    with present_all[where f = ?f and key = fst and val = snd, OF field] show ?thesis
      by (simp add: merge_objects[OF c] field_parts_def)
  qed (simp add: merge_same)
next
  case (2 bs ds)
  let ?b = "Some (JList bs)" and ?d = "Some (JList ds)"
  show ?case
  proof (cases "equivalent_doc m path ?d ?b")
    case False
    then have c: "comparable m ?b ?d ?b path" "\<not> list_all object_or_missing [?b, ?d, ?b]" by (simp_all add: comparable_def)
    show ?thesis
    proof (cases "id_list (JList bs) \<and> id_list (JList ds)")
      case True
      let ?f = "\<lambda>i. merge m (map_of (item_map ?b) i) (map_of (item_map ?d) i) (map_of (item_map ?b) i) (indexed path i)"
      have dist: "distinct (ids bs)" "distinct (ids ds)" using "2.prems" True by simp_all
      have kept: "\<exists>y. map_of (item_map ?d) (item_id x) = Some y \<and> kept x y" if "x \<in> set bs" for x
        using "2.prems"(3) True that by (auto split: option.splits)
      have item: "?f (item_id y) = (Some y, [], [])" if y: "y \<in> set ds" for y
      proof -
        have d: "map_of (item_map ?d) (item_id y) = Some y" by (rule item_map_distinct[OF dist(2) y])
        show ?thesis
        proof (cases "map_of (item_map ?b) (item_id y)")
          case None
          with d "2.prems"(2) y show ?thesis by (simp add: merge_added)
        next
          case (Some x)
          from item_map_at(1)[OF Some] have x: "x \<in> set bs" "item_id x = item_id y" by simp_all
          with kept[OF x(1)] d have k: "kept x y" by simp
          have "doc_wf x" "doc_wf y" "shaped x y" using "2.prems" x(1) y by simp_all
          with "2.IH"[OF True x(1), of y "indexed path (item_id y)"] d x k Some show ?thesis by simp
        qed
      qed
      have "set (ids bs) \<subseteq> set (ids ds)"
      proof
        fix i assume "i \<in> set (ids bs)"
        then have "map_of (item_map ?d) i \<noteq> None" using kept by fastforce
        then show "i \<in> set (ids ds)" using item_map_at(2)[of ?d i] by simp
      qed
      then have order: "merge_order ?b ?d ?b = ids ds"
        using dedupe_absorb[OF dist(2), of "ids bs @ ids bs"] by (simp add: merge_order_def)
      have l: "list_all list_or_missing [?b, ?d, ?b]" using True by simp
      from present_all[where f = ?f and key = item_id and val = "\<lambda>y. y", OF item] show ?thesis
        by (simp add: merge_lists[OF c l] item_parts_def order comp_def)
    next
      case False
      with "2.prems" show ?thesis by (intro no_drift_exact_leaf) simp_all
    qed
  qed (simp add: merge_same)
qed (rule no_drift_exact_leaf; simp)+

section \<open>Documents of designs\<close>

lemma shaped_leaf [simp]: "shaped (JStr s) w" "shaped (JBool b) w" "shaped JNull w"
  by (cases w; simp)+

lemma shaped_opt [simp]: "(\<And>x. shaped (f x) w) \<Longrightarrow> shaped (json_opt f v) w"
  by (cases v) (simp_all add: json_opt_def)

lemma shaped_strs [simp]: "shaped (json_strs xs) (json_strs ys)"
  by (simp add: json_strs_def)

lemma shaped_documents [simp]:
  "shaped (domain_check_document id x) (domain_check_document id y)"
  "shaped (column_document id c) (column_document id c')" "shaped (key_document id k) (key_document id k')"
  "shaped (check_document id h) (check_document id h')" "shaped (index_document id i) (index_document id i')"
  "shaped (relationship_document id r) (relationship_document id r')" "shaped (function_document id f) (function_document id f')"
  "shaped (view_document id v) (view_document id v')" "shaped (trigger_document id g) (trigger_document id g')"
  by (simp_all add: document_defs)

lemma shaped_type [simp]: "shaped (type_document id t) (type_document id t')"
  by (simp add: type_document_def)

lemma shaped_table [simp]: "shaped (table_document id t) (table_document id t')"
  by (simp add: table_document_def)

lemma shaped_content: "shaped (content_document id b) (content_document id d)"
  by (simp add: content_document_def)

text \<open>The objects of a list, by identifier.\<close>

lemma item_documents [simp]:
  "item_id (type_document id t) = ty_id t" "item_id (table_document id b) = tbl_id b" "item_id (column_document id c) = col_id c"
  "item_id (key_document id k) = key_id k" "item_id (check_document id h) = chk_id h" "item_id (index_document id i) = idx_id i"
  "item_id (relationship_document id r) = rel_id r" "item_id (function_document id f) = fn_id f"
  "item_id (view_document id v) = view_id v" "item_id (trigger_document id g) = trg_id g"
  by (simp_all add: document_defs)

lemma object_documents [simp]:
  "is_object (type_document id t)" "is_object (table_document id b)" "is_object (relationship_document id r)" "is_object (function_document id f)"
  "is_object (view_document id v)" "is_object (trigger_document id g)"
  "get_id (type_document id t) = Some (JStr (ty_id t))" "get_id (table_document id b) = Some (JStr (tbl_id b))"
  "get_id (relationship_document id r) = Some (JStr (rel_id r))" "get_id (function_document id f) = Some (JStr (fn_id f))"
  "get_id (view_document id v) = Some (JStr (view_id v))" "get_id (trigger_document id g) = Some (JStr (trg_id g))"
  by (simp_all add: document_defs)

lemma id_list_documents:
  "(\<And>x. x \<in> set xs \<Longrightarrow> is_object (f x) \<and> get_id (f x) = Some (JStr (label x))) \<Longrightarrow> id_list (JList (map f xs))"
  by (auto simp: list_all_iff)

lemma doc_wf_strs [simp]: "doc_wf (json_strs xs)"
  by (cases xs) (simp_all add: json_strs_def)

lemma doc_wf_opt [simp]: "(\<And>x. doc_wf (f x)) \<Longrightarrow> doc_wf (json_opt f v)"
  by (cases v) (simp_all add: json_opt_def)

lemma doc_wf_documents [simp]:
  "doc_wf (domain_check_document id x)" "doc_wf (column_document id c)" "doc_wf (key_document id k)" "doc_wf (check_document id h)"
  "doc_wf (index_document id i)" "doc_wf (relationship_document id r)" "doc_wf (function_document id f)"
  "doc_wf (view_document id v)" "doc_wf (trigger_document id g)"
  by (simp_all add: document_defs)

lemma doc_wf_list: "distinct (map item_id vs) \<Longrightarrow> (\<And>v. v \<in> set vs \<Longrightarrow> doc_wf v) \<Longrightarrow> doc_wf (JList vs)"
  by simp

lemma doc_wf_type [simp]: "doc_wf (type_document id t)"
proof -
  have "\<not> id_list (JList (map (domain_check_document id) (ty_checks t)))" if "ty_checks t \<noteq> []"
    using that by (cases "ty_checks t") (simp_all add: domain_check_document_def)
  then have "doc_wf (JList (map (domain_check_document id) (ty_checks t)))" by (cases "ty_checks t") auto
  then show ?thesis by (simp add: type_document_def del: doc_wf.simps(1))
qed

lemma doc_wf_table:
  assumes "distinct (table_object_ids t)"
  shows "doc_wf (table_document id t)"
proof -
  have "distinct (map col_id (tbl_columns t))" "distinct (map key_id (tbl_keys t))" "distinct (map chk_id (tbl_checks t))"
    "distinct (map idx_id (tbl_indexes t))" using assms by (simp_all add: table_object_ids_def)
  then have "doc_wf (JList (map (column_document id) (tbl_columns t)))" "doc_wf (JList (map (key_document id) (tbl_keys t)))"
    "doc_wf (JList (map (check_document id) (tbl_checks t)))" "doc_wf (JList (map (index_document id) (tbl_indexes t)))"
    by (intro doc_wf_list; auto simp: comp_def)+
  then show ?thesis by (simp add: table_document_def del: doc_wf.simps(1))
qed

lemma doc_wf_content:
  assumes "distinct (all_object_ids c)"
  shows "doc_wf (content_document id c)"
proof -
  have d: "distinct (map ty_id (content_types c))" "distinct (concat (map table_object_ids (content_tables c)))"
    "distinct (map rel_id (content_relationships c))" "distinct (map fn_id (content_functions c))"
    "distinct (map view_id (content_views c))" "distinct (map trg_id (content_triggers c))"
    using assms by (simp_all only: all_object_ids_def distinct_append)
  have t: "distinct (map tbl_id (content_tables c))" by (rule distinct_table_ids[OF d(2)])
  have "doc_wf (table_document id t)" if "t \<in> set (content_tables c)" for t
    by (rule doc_wf_table, rule distinct_concat_part[OF d(2)]) (use that in simp)
  with t have "doc_wf (JList (map (table_document id) (content_tables c)))" by (intro doc_wf_list) (auto simp: comp_def)
  moreover have "doc_wf (JList (map (type_document id) (content_types c)))" "doc_wf (JList (map (relationship_document id) (content_relationships c)))"
    "doc_wf (JList (map (function_document id) (content_functions c)))" "doc_wf (JList (map (view_document id) (content_views c)))"
    "doc_wf (JList (map (trigger_document id) (content_triggers c)))"
    using d by (intro doc_wf_list; auto simp: comp_def)+
  ultimately show ?thesis by (simp add: content_document_def del: doc_wf.simps(1))
qed

section \<open>An unchanged database\<close>

lemma complete_without_issues:
  "import_postgres_catalog im catalog = Inr d \<Longrightarrow> im_complete (id_summary d) \<longleftrightarrow> im_issues (id_summary d) = []"
  by (auto simp: import_postgres_catalog_def split: sum.splits prod.splits option.splits)

text \<open>
  C14. Reconciling with an unchanged database gives the design itself: when the import is complete and is
  the baseline up to new identifiers, and the design deletes nothing of the baseline, the live design is
  the baseline, the merged design is exactly the desired one, and there are no conflicts, no external
  changes and no warnings.
\<close>

theorem unchanged_database_reconciles:
  assumes imported: "import_postgres_catalog (rc_source rc) catalog = Inr d" "id_content d = relabel g baseline" "im_complete (id_summary d)"
    and baseline: "validate_design_content (sc_base_type_name (rc_source rc)) (sc_query_error (rc_source rc)) baseline = None"
      "content_built (rc_source rc) baseline"
    and labels: "inj_on g (set (all_object_ids baseline))" "'''' \<notin> set (all_object_ids baseline)"
      "\<forall>s\<in>design_texts baseline. s \<notin> g ` set (all_object_ids baseline)"
    and desired: "validate_design_content (sc_base_type_name (rc_source rc)) (sc_query_error (rc_source rc)) desired = None"
      "content_built (rc_source rc) desired" "kept (content_document id baseline) (content_document id desired)"
  shows "reconcile_designs rc resolutions baseline desired catalog = Inr \<lparr>rr_merged = Some desired, rr_live = baseline,
    rr_external_changes = [], rr_conflicts = [], rr_warnings = [], rr_import_complete = True\<rparr>"
proof -
  have live: "catalog_design (rc_source rc) catalog [baseline, desired] = Inr (baseline, [], True)"
    using alignment_restores[OF baseline labels, of "[desired]"] complete_without_issues[OF imported(1)] imported
    by (simp add: catalog_design_def)
  have wf: "doc_wf (content_document id baseline)" "doc_wf (content_document id desired)"
    using baseline(1) desired(1) by (auto intro!: doc_wf_content dest!: validated_resolved simp: design_resolved_def)
  have "merge m (Some (content_document id baseline)) (Some (content_document id desired)) (Some (content_document id baseline)) ''''
      = (Some (content_document id desired), [], [])" for m
    by (rule no_drift_exact[OF wf desired(3) shaped_content])
  with live decode_content_document[OF desired(2)] desired(1) show ?thesis
    by (simp add: reconcile_designs_def Let_def)
qed

section \<open>Results without conflicts\<close>

lemma merged_field:
  assumes "mg_resolutions m = []" "map_of b k = Some (JList bs)" "map_of d k = Some (JList ds)" "map_of l k = Some (JList ls)"
    and "id_list (JList bs)" "id_list (JList ds)" "id_list (JList ls)" "merge m (Some (JObj b)) (Some (JObj d)) (Some (JObj l)) '''' = (doc, ext, [])"
  shows "\<exists>kvs ms. doc = Some (JObj kvs) \<and> map_of kvs k = Some (JList ms) \<and> set (ids ms) = set (ids ds) \<union> set (ids ls)"
proof (cases "equivalent_doc m '''' (Some (JObj d)) (Some (JObj l))")
  case True
  then have f: "\<forall>kv\<in>set d. case map_of l (fst kv) of None \<Rightarrow> False | Some r \<Rightarrow> equivalent_value m (dotted '''' (fst kv)) (snd kv) r"
    unfolding equivalent_doc.simps by (subst (asm) equivalent_value.simps) simp
  have "equivalent_value m (dotted '''' k) (JList ds) (JList ls)"
    using bspec[OF f map_of_SomeD[OF assms(3)]] assms(4) by simp
  from equivalent_ids[OF assms(6,7) this] assms(3,8) True show ?thesis by (auto simp: merge_same)
next
  case False
  let ?b = "Some (JObj b)" and ?d = "Some (JObj d)" and ?l = "Some (JObj l)"
  let ?f = "\<lambda>key. merge m (map_of (fields_of ?b) key) (map_of (fields_of ?d) key) (map_of (fields_of ?l) key) (dotted '''' key)"
  have c: "comparable m ?b ?d ?l ''''" "list_all object_or_missing [?b, ?d, ?l]" using False by (simp_all add: comparable_def)
  have k: "k \<in> set (merge_keys ?b ?d ?l)"
    using assms(3) by (force simp: merge_keys_def dict_keys_def dest: map_of_SomeD)
  have fk: "?f k = merge m (Some (JList bs)) (Some (JList ds)) (Some (JList ls)) (dotted '''' k)" using assms(2-4) by simp
  have "snd (gather (field_parts m ?b ?d ?l '''')) = []" using assms(8) unfolding merge_objects[OF c] by simp
  then have "snd (snd (?f k)) = []" using k unfolding field_parts_def gather_conflicts by (rule bspec)
  then have q: "snd (snd (merge m (Some (JList bs)) (Some (JList ds)) (Some (JList ls)) (dotted '''' k))) = []" unfolding fk .
  obtain ms where "fst (merge m (Some (JList bs)) (Some (JList ds)) (Some (JList ls)) (dotted '''' k)) = Some (JList ms)"
    and s: "set (ids ms) = set (ids ds) \<union> set (ids ls)"
    by (rule merge_objects_kept[OF assms(1,5-7) q]) (rule that; assumption)
  then have "fst (?f k) = Some (JList ms)" unfolding fk by simp
  moreover note s
  moreover have "map_of (present (field_parts m ?b ?d ?l '''')) k = fst (?f k)"
    unfolding field_parts_def by (rule map_of_present[OF _ k]) (simp add: merge_keys_def)
  ultimately show ?thesis using assms(8) unfolding merge_objects[OF c] by auto
qed

lemma decode_each_ids:
  "(\<And>v x. f v = Some x \<Longrightarrow> label x = item_id v) \<Longrightarrow> decode_each f vs = Some xs \<Longrightarrow> map label xs = map item_id vs"
  by (induction vs arbitrary: xs) (auto split: option.splits)

lemma required_id: "required kvs ''id'' decode_string = Some i \<Longrightarrow> item_id (JObj kvs) = i"
  by (auto simp: required_def bind_eq_Some_conv elim!: decode_string.elims)

lemma object_fields_Some: "object_fields names v = Some kvs \<Longrightarrow> v = JObj kvs"
  by (auto simp: object_fields_def split: json.splits if_splits)

lemma derived_contract_id: "derived_contract analyze names v = Some (i, source, contract) \<Longrightarrow> item_id v = i"
  by (auto simp: derived_contract_def bind_eq_Some_conv dest!: object_fields_Some required_id)

lemma decoded_ids:
  "decode_type im v = Some t \<Longrightarrow> ty_id t = item_id v" "decode_table v = Some b \<Longrightarrow> tbl_id b = item_id v"
  "decode_relationship v = Some r \<Longrightarrow> rel_id r = item_id v" "decode_function im v = Some f \<Longrightarrow> fn_id f = item_id v"
  "decode_view v = Some w \<Longrightarrow> view_id w = item_id v" "decode_trigger im v = Some g \<Longrightarrow> trg_id g = item_id v"
  by (auto simp: decode_type_def decode_table_def decode_relationship_def decode_function_def decode_view_def decode_trigger_def
      bind_eq_Some_conv valid_population_intent_def split: sum.splits if_splits dest!: object_fields_Some required_id derived_contract_id)

text \<open>The fields of the document of a design.\<close>

definition design_fields :: "design_content \<Rightarrow> (string \<times> json) list" where
  "design_fields c =
     [(''types'', JList (map (type_document id) (content_types c))), (''tables'', JList (map (table_document id) (content_tables c))),
      (''relationships'', JList (map (relationship_document id) (content_relationships c))),
      (''functions'', JList (map (function_document id) (content_functions c))), (''views'', JList (map (view_document id) (content_views c))),
      (''triggers'', JList (map (trigger_document id) (content_triggers c)))]"

lemma content_document_fields: "content_document id c = JObj (design_fields c)"
  by (simp add: content_document_def design_fields_def)

lemma design_fields_lists:
  "id_list (JList (map (type_document id) (content_types c)))" "id_list (JList (map (table_document id) (content_tables c)))"
  "id_list (JList (map (relationship_document id) (content_relationships c)))" "id_list (JList (map (function_document id) (content_functions c)))"
  "id_list (JList (map (view_document id) (content_views c)))" "id_list (JList (map (trigger_document id) (content_triggers c)))"
  by (auto simp: list_all_iff)

lemma design_fields_at:
  "map_of (design_fields c) ''types'' = Some (JList (map (type_document id) (content_types c)))"
  "map_of (design_fields c) ''tables'' = Some (JList (map (table_document id) (content_tables c)))"
  "map_of (design_fields c) ''relationships'' = Some (JList (map (relationship_document id) (content_relationships c)))"
  "map_of (design_fields c) ''functions'' = Some (JList (map (function_document id) (content_functions c)))"
  "map_of (design_fields c) ''views'' = Some (JList (map (view_document id) (content_views c)))"
  "map_of (design_fields c) ''triggers'' = Some (JList (map (trigger_document id) (content_triggers c)))"
  by (simp_all add: design_fields_def)

text \<open>The objects of a content, by kind.\<close>

definition object_sets :: "design_content \<Rightarrow> string set list" where
  "object_sets c = [ty_id ` set (content_types c), tbl_id ` set (content_tables c), rel_id ` set (content_relationships c),
     fn_id ` set (content_functions c), view_id ` set (content_views c), trg_id ` set (content_triggers c)]"

lemma decoded_list_ids:
  assumes "defaulted kvs k (decode_list f) [] = Some xs" "map_of kvs k = Some (JList ms)" "\<And>v x. f v = Some x \<Longrightarrow> label x = item_id v"
  shows "label ` set xs = set (ids ms)"
proof -
  have "decode_each f ms = Some xs" using assms(1,2) by (simp add: defaulted_def decode_list_def)
  from decode_each_ids[OF assms(3) this] have "set (map label xs) = set (ids ms)" by (rule arg_cong)
  then show ?thesis by simp
qed

lemma merged_kind:
  assumes "mg_resolutions m = []" "map_of b k = Some (JList (map doc bs))" "map_of d k = Some (JList (map doc ds))" "map_of l k = Some (JList (map doc ls))"
    and "id_list (JList (map doc bs))" "id_list (JList (map doc ds))" "id_list (JList (map doc ls))"
    and "merge m (Some (JObj b)) (Some (JObj d)) (Some (JObj l)) '''' = (Some (JObj kvs), ext, [])" "defaulted kvs k (decode_list f) [] = Some xs"
    and "\<And>v x. f v = Some x \<Longrightarrow> label x = item_id v" "\<And>x. item_id (doc x) = label x"
  shows "label ` set xs = label ` set ds \<union> label ` set ls"
proof -
  obtain ms where ms: "map_of kvs k = Some (JList ms)" "set (ids ms) = set (ids (map doc ds)) \<union> set (ids (map doc ls))"
    using merged_field[OF assms(1-8)] unfolding option.inject json.inject by blast
  have "label ` set xs = set (ids ms)" by (rule decoded_list_ids[OF assms(9) ms(1) assms(10)])
  then show ?thesis using ms(2) assms(11) by (simp add: comp_def)
qed

lemma decoded_merge_objects:
  assumes "mg_resolutions m = []" "merge m (Some (content_document id b)) (Some (content_document id d)) (Some (content_document id l)) '''' = (doc, ext, [])"
    and "Option.bind doc (decode_content im) = Some c"
  shows "object_sets c = map2 (\<union>) (object_sets d) (object_sets l)"
proof -
  obtain v kvs where v: "doc = Some v" "v = JObj kvs"
    using assms(3) object_fields_Some unfolding decode_content_def bind_eq_Some_conv by blast
  then have kvs: "doc = Some (JObj kvs)" by simp
  note m = assms(2)[unfolded content_document_fields kvs]
  have dec: "decode_content im (JObj kvs) = Some c" using assms(3) kvs by simp
  then have fields: "defaulted kvs ''types'' (decode_list (decode_type im)) [] = Some (content_types c)"
    "defaulted kvs ''tables'' (decode_list decode_table) [] = Some (content_tables c)"
    "defaulted kvs ''relationships'' (decode_list decode_relationship) [] = Some (content_relationships c)"
    "defaulted kvs ''functions'' (decode_list (decode_function im)) [] = Some (content_functions c)"
    "defaulted kvs ''views'' (decode_list decode_view) [] = Some (content_views c)"
    "defaulted kvs ''triggers'' (decode_list (decode_trigger im)) [] = Some (content_triggers c)"
    by (auto simp: decode_content_def bind_eq_Some_conv dest!: object_fields_Some)
  note kind = merged_kind[OF assms(1) _ _ _ _ _ _ m]
  note at = design_fields_at and lists = design_fields_lists
  have "ty_id ` set (content_types c) = ty_id ` set (content_types d) \<union> ty_id ` set (content_types l)"
    by (rule kind[OF at(1) at(1) at(1) lists(1) lists(1) lists(1) fields(1) decoded_ids(1) item_documents(1)])
  moreover have "tbl_id ` set (content_tables c) = tbl_id ` set (content_tables d) \<union> tbl_id ` set (content_tables l)"
    by (rule kind[OF at(2) at(2) at(2) lists(2) lists(2) lists(2) fields(2) decoded_ids(2) item_documents(2)])
  moreover have "rel_id ` set (content_relationships c) = rel_id ` set (content_relationships d) \<union> rel_id ` set (content_relationships l)"
    by (rule kind[OF at(3) at(3) at(3) lists(3) lists(3) lists(3) fields(3) decoded_ids(3) item_documents(7)])
  moreover have "fn_id ` set (content_functions c) = fn_id ` set (content_functions d) \<union> fn_id ` set (content_functions l)"
    by (rule kind[OF at(4) at(4) at(4) lists(4) lists(4) lists(4) fields(4) decoded_ids(4) item_documents(8)])
  moreover have "view_id ` set (content_views c) = view_id ` set (content_views d) \<union> view_id ` set (content_views l)"
    by (rule kind[OF at(5) at(5) at(5) lists(5) lists(5) lists(5) fields(5) decoded_ids(5) item_documents(9)])
  moreover have "trg_id ` set (content_triggers c) = trg_id ` set (content_triggers d) \<union> trg_id ` set (content_triggers l)"
    by (rule kind[OF at(6) at(6) at(6) lists(6) lists(6) lists(6) fields(6) decoded_ids(6) item_documents(10)])
  ultimately show ?thesis by (simp add: object_sets_def)
qed

text \<open>
  C15. A reconciliation without resolutions and without conflicts is complete and lossless: the database
  was imported without issues, and the merged design passes validation and has exactly the types, tables, relationships,
  routines, views and triggers of the design and of the database.
\<close>

theorem conflict_free_reconciliation:
  assumes "reconcile_designs rc [] baseline desired catalog = Inr r" "rr_conflicts r = []"
  shows "\<exists>m. rr_merged r = Some m \<and> rr_import_complete r
    \<and> validate_design_content (sc_base_type_name (rc_source rc)) (sc_query_error (rc_source rc)) m = None
    \<and> object_sets m = map2 (\<union>) (object_sets desired) (object_sets (rr_live r))"
proof -
  obtain live warnings complete where l: "catalog_design (rc_source rc) catalog [baseline, desired] = Inr (live, warnings, complete)"
    using assms(1) by (cases "catalog_design (rc_source rc) catalog [baseline, desired]") (auto simp: reconcile_designs_def)
  let ?m = "\<lparr>mg_sha256 = sc_sha256 (rc_source rc), mg_normal = rc_normal rc, mg_resolutions = [], mg_check_column_types = check_column_types desired live\<rparr>"
  obtain doc ext conflicts where m: "merge ?m (Some (content_document id baseline)) (Some (content_document id desired)) (Some (content_document id live)) ''''
      = (doc, ext, conflicts)" by (metis prod.exhaust)
  note r = assms(1)[unfolded reconcile_designs_def Let_def l result_bind_Inr m prod.case]
  obtain c where c: "Option.bind doc (decode_content (rc_source rc)) = Some c" "conflicts = []" "complete"
    "validate_design_content (sc_base_type_name (rc_source rc)) (sc_query_error (rc_source rc)) c = None"
    "rr_merged r = Some c" "rr_live r = live" "rr_import_complete r"
    using r assms(2) by (auto simp: result_simps split: option.splits if_splits)
  from decoded_merge_objects[OF _ m[unfolded c(2)] c(1)] c show ?thesis by simp
qed

end
