(* ===== verification/Catalog_Import_Sample.thy ===== *)
theory Catalog_Import_Sample
  imports Catalog_Import_Properties
begin

text \<open>A concrete catalog with two tables, a relationship between them and a view, and its import.\<close>

definition shop_source :: import_source where
  "shop_source = \<lparr>sc_sha256 = (\<lambda>s. s),
     sc_parser = \<lparr>sp_parse_sql = (\<lambda>s. if s = ''i'' then Some [IndexStmt \<lparr>ix_idxname = Some ''a_x'', ix_relname = ''a'', ix_options = False,
         ix_table_space = False, ix_nulls_not_distinct = False,
         ix_params = [\<lparr>ip_name = Some ''x'', ip_expr = False, ip_collation = False, ip_opclass = False, ip_opclassopts = False,
           ip_default_ordering = True, ip_default_nulls_ordering = True, ip_text = ''x''\<rparr>],
         ix_including = [], ix_where = None, ix_access_method = None, ix_unique = False\<rparr>] else None), sp_columns = (\<lambda>s. Some [])\<rparr>,
     sc_analyze_type = (\<lambda>_. Inl ''no type''), sc_analyze_routine = (\<lambda>_. Inl ''no routine''), sc_analyze_trigger = (\<lambda>_. Inl ''no trigger''),
     sc_base_type_name = (\<lambda>_. None), sc_query_error = (\<lambda>_. None)\<rparr>"

definition shop_column :: "string \<Rightarrow> nat \<Rightarrow> pg_column" where
  "shop_column name ordinal = \<lparr>pgc_name = name, pgc_ordinal = ordinal, pgc_data_type = ''integer'', pgc_nullable = False,
     pgc_default_expression = None, pgc_identity = None, pgc_generated = None, pgc_collation_schema = None, pgc_collation_name = None\<rparr>"

definition shop_table :: "string \<Rightarrow> pg_column list \<Rightarrow> pg_key option \<Rightarrow> pg_index list \<Rightarrow> pg_table" where
  "shop_table name columns key indexes = \<lparr>pgb_namespace = ''n'', pgb_name = name, pgb_kind = OrdinaryTable, pgb_is_partition = False,
     pgb_partition_key = None, pgb_columns = columns, pgb_primary_key = key, pgb_unique_constraints = [], pgb_checks = [],
     pgb_not_null_constraints = [], pgb_exclusion_constraints = [], pgb_indexes = indexes, pgb_triggers = []\<rparr>"

definition shop_catalog :: pg_catalog where
  "shop_catalog = \<lparr>cat_database = ''d'', cat_namespace = ''n'', cat_server_version = ''17'', cat_server_version_num = 17,
     cat_server_timezone = ''UTC'', cat_types = [],
     cat_tables = [shop_table ''a'' [shop_column ''y'' 2, shop_column ''x'' 1]
         (Some \<lparr>pgk_name = ''k'', pgk_table = ''a'', pgk_columns = [''x''], pgk_definition = ''PRIMARY KEY (x)'', pgk_validated = True,
           pgk_deferrable = False, pgk_initially_deferred = False\<rparr>)
         [\<lparr>pgi_name = ''a_x'', pgi_table = ''a'', pgi_definition = ''i'', pgi_method = ''btree'', pgi_unique = False, pgi_valid = True, pgi_predicate = None\<rparr>],
       shop_table ''b'' [shop_column ''z'' 1] None []],
     cat_relationships = [\<lparr>pgr_name = ''f'', pgr_source_namespace = ''n'', pgr_source_table = ''b'', pgr_source_columns = [''z''],
       pgr_target_namespace = ''n'', pgr_target_table = ''a'', pgr_target_columns = [''x''], pgr_definition = ''FOREIGN KEY'', pgr_on_update = NoAction,
       pgr_on_delete = Cascade, pgr_match_type = MatchSimple, pgr_validated = True, pgr_deferrable = False, pgr_initially_deferred = False\<rparr>],
     cat_functions = [], cat_views = [\<lparr>pgv_namespace = ''n'', pgv_name = ''v'', pgv_columns = [], pgv_query_definition = ''SELECT 1''\<rparr>],
     cat_materialized_views = [], cat_captured_at = 0, cat_fingerprint = ''f''\<rparr>"

definition shop_content :: "(string \<times> string, design_content \<times> issues) result" where
  "shop_content = import_content shop_source shop_catalog"

lemma shop_imported:
  "(case shop_content of Inl e \<Rightarrow> False
    | Inr (content, issues) \<Rightarrow> issues = [] \<and> length (content_tables content) = 2
        \<and> validate_design_content (\<lambda>_. None) (\<lambda>_. None) content = None)"
  by code_simp

theorem complete_import_represents_catalog_witness:
  "\<exists>d. import_postgres_catalog shop_source shop_catalog = Inr d \<and> length (content_tables (id_content d)) = 2
     \<and> represents_catalog shop_source (id_content d) shop_catalog"
proof -
  obtain content where c: "import_content shop_source shop_catalog = Inr (content, [])" "length (content_tables content) = 2"
    "validate_design_content (sc_base_type_name shop_source) (sc_query_error shop_source) content = None"
    using shop_imported by (auto simp: shop_content_def shop_source_def split: sum.splits)
  obtain d where d: "import_postgres_catalog shop_source shop_catalog = Inr d" "id_content d = content" "im_complete (id_summary d)"
    using import_success[OF c(1,3)] by auto
  from complete_import_represents_catalog[OF d(1,3)] d c(2) show ?thesis by blast
qed

end
