(* ===== verification/Reconciliation_Sample.thy ===== *)
theory Reconciliation_Sample
  imports Reconciliation_Properties Catalog_Import_Sample
begin

text \<open>Concrete reconciliations of the sample catalog with designs that extend it.\<close>

definition shop_reconciler :: reconciler where
  "shop_reconciler = \<lparr>rc_source = shop_source, rc_normal = (\<lambda>_ s. Some s), rc_validation_text = (\<lambda>_. ''invalid'')\<rparr>"

text \<open>The saved baseline: the imported content under the identifiers of the workspace.\<close>

definition shop_baseline :: design_content where
  "shop_baseline = (case shop_content of Inr (content, _) \<Rightarrow> relabel (Cons CHR ''w'') content)"

definition notes_table :: design_table where
  "notes_table = \<lparr>tbl_id = ''t1'', tbl_name = ''notes'',
     tbl_columns = [\<lparr>col_id = ''c1'', col_name = ''body'', col_data_type = ''text'', col_nullable = True, col_default_expression = None,
       col_identity = None, col_generated_expression = None, col_generated_source_column_ids = []\<rparr>],
     tbl_keys = [], tbl_checks = [], tbl_indexes = []\<rparr>"

text \<open>The design adds a table.\<close>

definition shop_desired :: design_content where
  "shop_desired = shop_baseline\<lparr>content_tables := content_tables shop_baseline @ [notes_table]\<rparr>"

lemma shop_relabelled: "(case shop_content of Inl _ \<Rightarrow> False | Inr (content, _) \<Rightarrow> relabel tl shop_baseline = content)"
  by code_simp

lemma shop_baseline_labels:
  "distinct (map tl (all_object_ids shop_baseline))" "'''' \<notin> set (all_object_ids shop_baseline)"
  "\<forall>s\<in>design_texts shop_baseline. s \<notin> tl ` set (all_object_ids shop_baseline)"
  by code_simp+

lemma shop_designs_valid:
  "validate_design_content (\<lambda>_. None) (\<lambda>_. None) shop_baseline = None"
  "validate_design_content (\<lambda>_. None) (\<lambda>_. None) shop_desired = None"
  by code_simp+

lemma shop_kept: "kept (content_document id shop_baseline) (content_document id shop_desired)"
  by code_simp

lemma shop_built: "content_built shop_source shop_baseline" "content_built shop_source shop_desired"
proof -
  have c: "content_types shop_baseline = []" "content_functions shop_baseline = []" "content_triggers shop_baseline = []"
    "\<forall>t\<in>set (content_tables shop_desired). table_built t"
    "\<forall>r\<in>set (content_relationships shop_baseline). rel_source_column_ids r \<noteq> [] \<and> rel_target_column_ids r \<noteq> []"
    "\<forall>v\<in>set (content_views shop_baseline). valid_population_intent v = Inr v"
    by code_simp+
  then show "content_built shop_source shop_desired" by (simp add: content_built_def shop_desired_def)
  from c show "content_built shop_source shop_baseline" by (simp add: content_built_def shop_desired_def)
qed

text \<open>A smaller database whose second table the baseline does not know yet, while the design adds another table.\<close>

definition pair_source :: import_source where
  "pair_source = shop_source\<lparr>sc_sha256 := (\<lambda>s. drop (length s - 3) s)\<rparr>"

definition pair_reconciler :: reconciler where
  "pair_reconciler = shop_reconciler\<lparr>rc_source := pair_source\<rparr>"

definition pair_catalog :: pg_catalog where
  "pair_catalog = shop_catalog\<lparr>cat_tables := [shop_table ''a'' [shop_column ''x'' 1] None [], shop_table ''b'' [shop_column ''z'' 1] None []],
     cat_relationships := [], cat_views := []\<rparr>"

definition named_table :: "string \<Rightarrow> string \<Rightarrow> string \<Rightarrow> string \<Rightarrow> design_table" where
  "named_table i name ci column = \<lparr>tbl_id = i, tbl_name = name,
     tbl_columns = [\<lparr>col_id = ci, col_name = column, col_data_type = ''integer'', col_nullable = False, col_default_expression = None,
       col_identity = None, col_generated_expression = None, col_generated_source_column_ids = []\<rparr>],
     tbl_keys = [], tbl_checks = [], tbl_indexes = []\<rparr>"

definition pair_design :: "design_table list \<Rightarrow> design_content" where
  "pair_design tables = \<lparr>content_types = [], content_tables = tables, content_relationships = [], content_functions = [], content_views = [], content_triggers = []\<rparr>"

definition pair_baseline :: design_content where
  "pair_baseline = pair_design [named_table ''1'' ''a'' ''2'' ''x'']"

definition pair_desired :: design_content where
  "pair_desired = pair_design [named_table ''1'' ''a'' ''2'' ''x'', named_table ''3'' ''c'' ''4'' ''y'']"

definition pair_reconciled :: "(reconcile_error, reconciliation) result" where
  "pair_reconciled = reconcile_designs pair_reconciler [] pair_baseline pair_desired pair_catalog"

lemma pair_reconciled:
  "(case pair_reconciled of Inl _ \<Rightarrow> False
    | Inr r \<Rightarrow> rr_conflicts r = [] \<and> map tbl_name (content_tables (the (rr_merged r))) = [''a'', ''c'', ''b''])"
  by code_simp

text \<open>A design that adds a view under the name of a table which the database has got meanwhile.\<close>

definition clash_desired :: design_content where
  "clash_desired = pair_baseline\<lparr>content_views := [\<lparr>view_id = ''3'', view_name = ''b'', view_kind = OrdinaryView,
     view_definition = ''SELECT 1'', view_populate_on_create = None\<rparr>]\<rparr>"

text \<open>
  The combined schema of a table and a view with the same name is invalid, although the two sides are valid
  and nothing else conflicts. The failure of the validation is not turned into the \<open>schema.structure\<close>
  conflict: it aborts the reconciliation.
\<close>

lemma invalid_combination_aborts:
  "validate_design_content (\<lambda>_. None) (\<lambda>_. None) clash_desired = None"
  "(case reconcile_designs pair_reconciler [] pair_baseline clash_desired pair_catalog of Inl (ReconcileDesign e) \<Rightarrow> True | _ \<Rightarrow> False)"
  by code_simp+

section \<open>The properties at these inputs\<close>

lemma shop_import:
  "\<exists>d. import_postgres_catalog shop_source shop_catalog = Inr d \<and> id_content d = relabel tl shop_baseline \<and> im_complete (id_summary d)"
proof -
  obtain content where c: "import_content shop_source shop_catalog = Inr (content, [])" "relabel tl shop_baseline = content"
    "validate_design_content (sc_base_type_name shop_source) (sc_query_error shop_source) content = None"
    using shop_imported shop_relabelled by (auto simp: shop_content_def shop_source_def split: sum.splits)
  from import_success[OF c(1,3)] c(2) show ?thesis by auto
qed

lemma shop_labels: "inj_on tl (set (all_object_ids shop_baseline))"
  using shop_baseline_labels(1) by (simp add: distinct_map)

lemma shop_source_parsers: "sc_base_type_name shop_source = (\<lambda>_. None)" "sc_query_error shop_source = (\<lambda>_. None)"
  by (simp_all add: shop_source_def)

theorem unchanged_database_reconciles_witness:
  "reconcile_designs shop_reconciler [] shop_baseline shop_desired shop_catalog = Inr \<lparr>rr_merged = Some shop_desired, rr_live = shop_baseline,
    rr_external_changes = [], rr_conflicts = [], rr_warnings = [], rr_import_complete = True\<rparr>"
proof -
  obtain d where d: "import_postgres_catalog shop_source shop_catalog = Inr d" "id_content d = relabel tl shop_baseline" "im_complete (id_summary d)"
    using shop_import by blast
  show ?thesis
    by (rule unchanged_database_reconciles[where g = tl and d = d])
       (use d shop_designs_valid shop_built shop_labels shop_baseline_labels shop_kept in \<open>simp_all add: shop_reconciler_def shop_source_parsers\<close>)
qed

theorem conflict_free_reconciliation_witness:
  "\<exists>r m. reconcile_designs pair_reconciler [] pair_baseline pair_desired pair_catalog = Inr r \<and> rr_conflicts r = []
    \<and> rr_merged r = Some m \<and> object_sets m = map2 (\<union>) (object_sets pair_desired) (object_sets (rr_live r))"
proof -
  obtain r where r: "reconcile_designs pair_reconciler [] pair_baseline pair_desired pair_catalog = Inr r" "rr_conflicts r = []"
    using pair_reconciled by (auto simp: pair_reconciled_def split: sum.splits)
  from conflict_free_reconciliation[OF r] r show ?thesis by blast
qed

end
