(* ===== verification/Conversion_Analysis.thy ===== *)
theory Conversion_Analysis
  imports Migration_Steps Migration_Repository
begin

text \<open>
  Reviewed conversions of single columns, \<open>schemii/migrations/conversions.py\<close>: the user's USING expression is
  parsed, every node of its syntax tree is checked and every name in it is bound to \<open>pg_catalog\<close> or to the
  column, and the statements that validate and guard the conversion are written from the result.

  Syntax trees of pglast are values of a datatype with the attributes the code reads: names are the
  strings of their parts, a call has a flag for \<open>OVER\<close>, \<open>*\<close>, \<open>DISTINCT\<close>, \<open>ORDER BY\<close> and \<open>FILTER\<close>. Parsing and
  printing of trees are parameters. The code changes the nodes in place while it walks over them, each
  before its children; here the changed tree is the result.
\<close>

text \<open>Node classes without attributes the code reads; \<open>UnlistedNode\<close> is any class that is not in \<open>_NODES\<close>.\<close>

datatype syntax_kind =
    FloatNode | BooleanNode | BoolExpr | NullTest | BooleanTest | CaseExpr | CaseWhen | CoalesceExpr | MinMaxExpr | UnlistedNode

datatype sql_node =
    ColumnRef "sql_node list"
  | TypeName "string list" "sql_node list" bool bool
  | FuncCall "string list" bool "sql_node list"
  | AExpr "string list" "sql_node list"
  | TypeCast sql_node sql_node
  | AConst bool "sql_node list"
  | StringNode string
  | IntegerNode int
  | SyntaxNode syntax_kind "sql_node list"

record select_statement =
  sel_targets :: "sql_node list"
  sel_clauses :: "string list"

datatype parsed_statement = SelectStmt select_statement | OtherStmt

record sql_syntax =
  sx_parse :: "string \<Rightarrow> parsed_statement list option"
  sx_render :: "sql_node \<Rightarrow> string"

fun kind_name :: "syntax_kind \<Rightarrow> string" where
  "kind_name FloatNode = ''Float''"
| "kind_name BooleanNode = ''Boolean''"
| "kind_name BoolExpr = ''BoolExpr''"
| "kind_name NullTest = ''NullTest''"
| "kind_name BooleanTest = ''BooleanTest''"
| "kind_name CaseExpr = ''CaseExpr''"
| "kind_name CaseWhen = ''CaseWhen''"
| "kind_name CoalesceExpr = ''CoalesceExpr''"
| "kind_name MinMaxExpr = ''MinMaxExpr''"
| "kind_name UnlistedNode = ''unlisted''"

fun node_name :: "sql_node \<Rightarrow> string" where
  "node_name (ColumnRef _) = ''ColumnRef''"
| "node_name (TypeName _ _ _ _) = ''TypeName''"
| "node_name (FuncCall _ _ _) = ''FuncCall''"
| "node_name (AExpr _ _) = ''A_Expr''"
| "node_name (TypeCast _ _) = ''TypeCast''"
| "node_name (AConst _ _) = ''A_Const''"
| "node_name (StringNode _) = ''String''"
| "node_name (IntegerNode _) = ''Integer''"
| "node_name (SyntaxNode kind _) = kind_name kind"

section \<open>What is allowed\<close>

definition conversion_types :: "string list" where
  "conversion_types = [''int2'', ''int4'', ''int8'', ''smallint'', ''integer'', ''bigint'', ''numeric'', ''decimal'', ''float4'', ''float8'',
     ''real'', ''text'', ''varchar'', ''bpchar'', ''bool'', ''boolean'', ''date'', ''timestamp'', ''timestamptz'', ''time'', ''timetz'',
     ''interval'', ''uuid'', ''json'', ''jsonb'', ''bytea'']"

definition conversion_functions :: "string list" where
  "conversion_functions = [''lower'', ''upper'', ''btrim'', ''ltrim'', ''rtrim'', ''replace'', ''substring'', ''substr'', ''left'', ''right'',
     ''length'', ''char_length'', ''round'', ''trunc'', ''abs'', ''ceil'', ''ceiling'', ''floor'']"

definition conversion_nodes :: "string list" where
  "conversion_nodes = [''ColumnRef'', ''A_Const'', ''Integer'', ''Float'', ''String'', ''Boolean'', ''TypeCast'', ''TypeName'', ''A_Expr'',
     ''BoolExpr'', ''NullTest'', ''BooleanTest'', ''CaseExpr'', ''CaseWhen'', ''CoalesceExpr'', ''MinMaxExpr'', ''FuncCall'']"

definition conversion_operators :: "string list" where
  "conversion_operators = [''+'', ''-'', ''*'', ''/'', ''%'', ''^'', ''||'', ''='', ''<>'', ''<'', ''>'', ''<='', ''>='']"

text \<open>A plain or \<open>pg_catalog\<close>-qualified name that is allowed, bound to \<open>pg_catalog\<close>.\<close>

definition builtin_name :: "string list \<Rightarrow> string list \<Rightarrow> string list option" where
  "builtin_name allowed names =
     (if length names \<notin> {1, 2} \<or> (length names = 2 \<and> hd names \<noteq> ''pg_catalog'') \<or> last names \<notin> set allowed then None
      else Some [''pg_catalog'', last names])"

definition builtin_type :: "string list \<Rightarrow> bool \<Rightarrow> bool \<Rightarrow> (string, string list) result" where
  "builtin_type names array_bounds setof =
     (case builtin_name conversion_types names of
        Some bound \<Rightarrow> if array_bounds \<or> setof then Inl ''Reviewed conversions currently support PostgreSQL built-in scalar types only.'' else Inr bound
      | None \<Rightarrow> Inl ''Reviewed conversions currently support PostgreSQL built-in scalar types only.'')"

section \<open>Expressions\<close>

definition scalar_error :: string where
  "scalar_error = ''Enter one scalar USING expression, without statements or subqueries.''"

definition rejected_clauses :: "string list" where
  "rejected_clauses = [''fromClause'', ''whereClause'', ''withClause'', ''intoClause'', ''sortClause'', ''groupClause'', ''havingClause'',
     ''limitCount'', ''limitOffset'', ''larg'', ''rarg'']"

definition scalar_expression :: "sql_syntax \<Rightarrow> string \<Rightarrow> (string, sql_node) result" where
  "scalar_expression sx source =
     (case sx_parse sx (''SELECT ('' @ source @ '')'') of
        Some [SelectStmt s] \<Rightarrow>
          (case sel_targets s of
             [target] \<Rightarrow> if set (sel_clauses s) \<inter> set rejected_clauses \<noteq> {} then Inl scalar_error else Inr target
           | _ \<Rightarrow> Inl scalar_error)
      | _ \<Rightarrow> Inl scalar_error)"

fun bind_names :: "string \<Rightarrow> string option \<Rightarrow> sql_node \<Rightarrow> (string, sql_node) result"
  and bind_each :: "string \<Rightarrow> string option \<Rightarrow> sql_node list \<Rightarrow> (string, sql_node list) result" where
  "bind_names column renamed node =
     (if node_name node \<notin> set conversion_nodes
      then Inl ''Use a scalar expression of this column; queries, aggregates and window functions are not supported.''
      else case node of
          ColumnRef path \<Rightarrow>
            if path \<noteq> [StringNode column]
            then Inl (''The expression may reference only '' @ quote column @ ''. Use its desired column name.'')
            else Inr (ColumnRef [StringNode (or_else renamed column)])
        | TypeName names modifiers array_bounds setof \<Rightarrow>
            result_bind (builtin_type names array_bounds setof) (\<lambda>bound.
              result_bind (bind_each column renamed modifiers) (\<lambda>ms. Inr (TypeName bound ms array_bounds setof)))
        | FuncCall names special args \<Rightarrow>
            (case builtin_name conversion_functions names of
               Some bound \<Rightarrow>
                 if special
                 then Inl ''Use built-in scalar functions such as lower, trim, round or trunc; custom routines and aggregates are not supported.''
                 else result_bind (bind_each column renamed args) (\<lambda>as. Inr (FuncCall bound special as))
             | None \<Rightarrow> Inl ''Use built-in scalar functions such as lower, trim, round or trunc; custom routines and aggregates are not supported.'')
        | AExpr names args \<Rightarrow>
            (case builtin_name conversion_operators names of
               Some bound \<Rightarrow> result_bind (bind_each column renamed args) (\<lambda>as. Inr (AExpr bound as))
             | None \<Rightarrow> Inl ''This conversion operator is not supported.'')
        | TypeCast arg target \<Rightarrow>
            result_bind (bind_names column renamed arg) (\<lambda>a. result_bind (bind_names column renamed target) (\<lambda>t. Inr (TypeCast a t)))
        | AConst isnull v \<Rightarrow> result_bind (bind_each column renamed v) (\<lambda>w. Inr (AConst isnull w))
        | SyntaxNode kind children \<Rightarrow> result_bind (bind_each column renamed children) (\<lambda>cs. Inr (SyntaxNode kind cs))
        | _ \<Rightarrow> Inr node)"
| "bind_each column renamed [] = Inr []"
| "bind_each column renamed (n # ns) =
     result_bind (bind_names column renamed n) (\<lambda>m. result_bind (bind_each column renamed ns) (\<lambda>ms. Inr (m # ms)))"

declare bind_names.simps [simp del]

definition expression_sql :: "sql_syntax \<Rightarrow> string \<Rightarrow> string \<Rightarrow> string option \<Rightarrow> (string, string) result" where
  "expression_sql sx source column renamed =
     result_bind (scalar_expression sx source) (\<lambda>tree.
       result_bind (bind_names column renamed tree) (\<lambda>bound. Inr (sx_render sx bound)))"

fun integer_modifier :: "sql_node \<Rightarrow> bool" where
  "integer_modifier (AConst _ [IntegerNode _]) = True"
| "integer_modifier _ = False"

definition type_sql :: "sql_syntax \<Rightarrow> string \<Rightarrow> (string, string) result" where
  "type_sql sx value =
     result_bind (scalar_expression sx (''NULL::'' @ value)) (\<lambda>tree.
       case tree of
         TypeCast (AConst True _) (TypeName names modifiers array_bounds setof) \<Rightarrow>
           result_bind (builtin_type names array_bounds setof) (\<lambda>bound.
             if list_all integer_modifier modifiers then Inr (sx_render sx (TypeName bound modifiers array_bounds setof))
             else Inl ''Type modifiers must be integer constants.'')
       | _ \<Rightarrow> Inl ''The conversion type must be a PostgreSQL scalar type.'')"

section \<open>Conversions\<close>

text \<open>The compiled conversion with its review and the statement that validates it.\<close>

record reviewed_conversion =
  rv_review :: type_conversion
  rv_validation_sql :: string
  rv_compiled :: compiled_conversion

definition loss_query :: "string \<Rightarrow> string \<Rightarrow> string \<Rightarrow> string \<Rightarrow> string \<Rightarrow> string" where
  "loss_query source_type target_type table column expr =
     ''SELECT EXISTS (SELECT 1 FROM '' @ table @ '' WHERE ('' @ quote column @ ''::pg_catalog.text COLLATE '' @ quote ''C''
     @ '') IS DISTINCT FROM ((('' @ expr @ '')::'' @ target_type @ '')::'' @ source_type @ '')::pg_catalog.text COLLATE '' @ quote ''C'' @ '')''"

definition strict_guard :: "string \<Rightarrow> string" where
  "strict_guard query =
     ''DO '' @ sql_literal (''BEGIN IF ('' @ query @ '') THEN RAISE EXCEPTION USING ERRCODE = '' @ sql_literal ''SC001''
       @ '', MESSAGE = '' @ sql_literal ''Strict conversion would change existing values'' @ ''; END IF; END'') @ '';''"

definition conversion_source :: "conversion_choice \<Rightarrow> string \<Rightarrow> string" where
  "conversion_source choice default_value =
     (if cc_strategy choice = CustomConversion then case cc_expression choice of Some e \<Rightarrow> e | None \<Rightarrow> ''None'' else default_value)"

definition compile_conversion ::
  "sql_syntax \<Rightarrow> string \<Rightarrow> design_table \<Rightarrow> design_table \<Rightarrow> design_column \<Rightarrow> design_column \<Rightarrow> conversion_choice
     \<Rightarrow> (string, reviewed_conversion) result" where
  "compile_conversion sx namespace before_table after_table old new choice =
     result_bind (type_sql sx (col_data_type old)) (\<lambda>source_type.
     result_bind (type_sql sx (col_data_type new)) (\<lambda>target_type.
     let default_value = quote (col_name new) @ ''::'' @ target_type; source = conversion_source choice default_value in
     result_bind (expression_sql sx source (col_name new) None) (\<lambda>expression.
     result_bind (expression_sql sx source (col_name new) (Some (col_name old))) (\<lambda>live_expression.
     let live_table = qualified_name namespace (tbl_name before_table); target_table = qualified_name namespace (tbl_name after_table);
         strict = cc_strategy choice = StrictConversion in
       Inr \<lparr>rv_review = \<lparr>tc_column_id = col_id new, tc_table_id = tbl_id after_table, tc_table_name = tbl_name after_table,
              tc_column_name = col_name new, tc_source_type = col_data_type old, tc_target_type = col_data_type new,
              tc_reason = td_reason (classify_type_change (col_data_type old) (col_data_type new)), tc_default_expression = default_value,
              tc_strategy = Some (cc_strategy choice), tc_expression = Some expression, tc_validation_error = None\<rparr>,
            rv_validation_sql = (if strict then loss_query source_type target_type live_table (col_name old) live_expression @ '' AS invalid''
              else ''SELECT count(('' @ live_expression @ '')::'' @ target_type @ '') FROM '' @ live_table),
            rv_compiled = \<lparr>cv_strategy = Some (cc_strategy choice), cv_expression = ''('' @ expression @ '')::'' @ target_type,
              cv_target_type = target_type,
              cv_guard_sql = (if strict then Some (strict_guard (loss_query source_type target_type target_table (col_name new) expression))
                else None)\<rparr>\<rparr>))))"

definition conversion_candidates ::
  "design_content \<Rightarrow> design_content \<Rightarrow> (design_table \<times> design_table \<times> design_column \<times> design_column) list" where
  "conversion_candidates live desired =
     (let tables = dict_by tbl_id (content_tables live) in
      concat (map (\<lambda>after. case map_of tables (tbl_id after) of None \<Rightarrow> []
        | Some before \<Rightarrow>
            let columns = dict_by col_id (tbl_columns before) in
            concat (map (\<lambda>new. case map_of columns (col_id new) of None \<Rightarrow> []
              | Some old \<Rightarrow> if td_disposition (classify_type_change (col_data_type old) (col_data_type new)) = BlockedChange
                  then [(before, after, old, new)] else []) (tbl_columns after)))
        (content_tables desired)))"

section \<open>What an accepted expression can do\<close>

text \<open>
  A tree that evaluates one column with functions, operators and types of \<open>pg_catalog\<close> from the allowed
  ones: no other node, and no name that could be resolved through the search path.
\<close>

fun builtin_only :: "string \<Rightarrow> sql_node \<Rightarrow> bool" where
  "builtin_only column (ColumnRef path) = (path = [StringNode column])"
| "builtin_only column (TypeName names modifiers array_bounds setof) =
     ((\<exists>t\<in>set conversion_types. names = [''pg_catalog'', t]) \<and> \<not> array_bounds \<and> \<not> setof \<and> list_all (builtin_only column) modifiers)"
| "builtin_only column (FuncCall names special args) =
     ((\<exists>f\<in>set conversion_functions. names = [''pg_catalog'', f]) \<and> \<not> special \<and> list_all (builtin_only column) args)"
| "builtin_only column (AExpr names args) =
     ((\<exists>p\<in>set conversion_operators. names = [''pg_catalog'', p]) \<and> list_all (builtin_only column) args)"
| "builtin_only column (TypeCast arg target) = (builtin_only column arg \<and> builtin_only column target)"
| "builtin_only column (AConst _ v) = list_all (builtin_only column) v"
| "builtin_only column (SyntaxNode kind children) = (kind \<noteq> UnlistedNode \<and> list_all (builtin_only column) children)"
| "builtin_only column _ = True"

lemma builtin_name_Some: "builtin_name allowed names = Some bound \<Longrightarrow> \<exists>n\<in>set allowed. bound = [''pg_catalog'', n]"
  by (auto simp: builtin_name_def split: if_splits)

lemma builtin_type_Inr:
  "builtin_type names array_bounds setof = Inr bound \<Longrightarrow> (\<exists>t\<in>set conversion_types. bound = [''pg_catalog'', t]) \<and> \<not> array_bounds \<and> \<not> setof"
  by (auto simp: builtin_type_def dest: builtin_name_Some split: option.splits if_splits)

lemma kind_listed: "kind_name k \<in> set conversion_nodes \<longleftrightarrow> k \<noteq> UnlistedNode"
  by (cases k) (simp_all add: conversion_nodes_def)

lemma bind_names_builtin:
  "bind_names column renamed n = Inr m \<Longrightarrow> builtin_only (or_else renamed column) m"
  "bind_each column renamed ns = Inr ms \<Longrightarrow> list_all (builtin_only (or_else renamed column)) ms"
proof (induction column renamed n and column renamed ns arbitrary: m and ms rule: bind_names_bind_each.induct)
  case (1 column renamed node)
  note prem = 1(8)[unfolded bind_names.simps[of column renamed node]]
  from prem 1(1-7) show ?case
    by (cases node) (auto simp: result_simps kind_listed dest: builtin_name_Some dest!: builtin_type_Inr split: if_splits option.splits)
qed (auto simp: result_simps)

text \<open>
  C13. The expression of a reviewed conversion computes with the column alone: whatever the user submits,
  an accepted expression is printed from a tree whose column references all are the given column, whose
  functions, operators and types all are allowed ones of \<open>pg_catalog\<close>, named with their schema, and that has
  no subquery, aggregate, window or other node.
\<close>

theorem accepted_expression_builtin:
  assumes "expression_sql sx source column renamed = Inr text"
  shows "\<exists>tree. text = sx_render sx tree \<and> builtin_only (or_else renamed column) tree"
  using assms by (auto simp: expression_sql_def result_simps dest: bind_names_builtin(1))

text \<open>A parser that knows one expression, \<open>lower(x)\<close>, and a printer of names.\<close>

definition lower_syntax :: sql_syntax where
  "lower_syntax = \<lparr>sx_parse = (\<lambda>s. if s = ''SELECT (lower(x))''
       then Some [SelectStmt \<lparr>sel_targets = [FuncCall [''lower''] False [ColumnRef [StringNode ''x'']]], sel_clauses = []\<rparr>] else None),
     sx_render = (\<lambda>n. case n of FuncCall names _ _ \<Rightarrow> join ''.'' names | _ \<Rightarrow> '''')\<rparr>"

theorem accepted_expression_builtin_witness:
  "expression_sql lower_syntax ''lower(x)'' ''x'' None = Inr ''pg_catalog.lower''
    \<and> (\<exists>tree. ''pg_catalog.lower'' = sx_render lower_syntax tree \<and> builtin_only (or_else None ''x'') tree)"
proof -
  have e: "expression_sql lower_syntax ''lower(x)'' ''x'' None = Inr ''pg_catalog.lower''" by code_simp
  from e accepted_expression_builtin[OF e] show ?thesis by blast
qed

end
