(* ===== verification/Spec2Isabelle.thy ===== *)
theory Spec2Isabelle
  imports Application_Sample Connection_Properties Design_Revisions Planner_Merge_Properties Execution_Sample
    Migration_Steps_Sample Connection_Capacity Console_Sample Reconciliation_Sample
    Conversion_Analysis
begin

text \<open>
  \<^bold>\<open>Schemii\<close>: a shallow embedding of the server of the Schemii database designer
  (\<open>src/src/schemii\<close>). Users keep database designs in workspaces, save them with undo history, compare
  them with a live PostgreSQL schema, and apply the difference as a reviewed migration.

  \<^bold>\<open>Parts of the program and their theories\<close>

  \<^item> JSON deltas, \<open>common/json_delta.py\<close> and the applier of the browser
    (\<open>common/web/assets/json-delta.js\<close>): \<open>Json_Value\<close> (documents and Python equality) and \<open>Json_Delta\<close>.
  \<^item> Design documents and their validation, \<open>schemii/designs/models.py\<close>: \<open>Design_Model\<close> (one record per
    Pydantic model, validators as functions that return an error), \<open>Design_Validation\<close>.
    \<open>Design_Decoding\<close> reads designs back from their documents.
  \<^item> Import of a live schema as a design, \<open>schemii/designs/importer.py\<close> over
    \<open>common/postgres/schema_source.py\<close>: \<open>Schema_Source\<close>, \<open>Catalog_Import\<close>, \<open>Catalog_Import_Properties\<close>.
  \<^item> Change summaries and deletion impact, \<open>schemii/designs/history.py\<close> and \<open>deletion_impact.py\<close>:
    \<open>Design_History\<close>, \<open>Deletion_Impact\<close>.
  \<^item> History retention, \<open>schemii/designs/history_retention.py\<close>: \<open>History_Retention\<close> (the grouping and
    compaction functions) and \<open>History_Pruning\<close> (the SQL pruning of the durable tables, as its effect on rows).
  \<^item> The design repository, \<open>InMemoryDesignRepository\<close> of \<open>schemii/designs/store.py\<close>: \<open>Design_Store\<close> (every
    operation, one state record for the repository), \<open>Design_Store_Invariant\<close>, \<open>Design_Revisions\<close>.
  \<^item> Saved connections, \<open>common/connections\<close>: \<open>Connection_Store\<close>, \<open>Connection_Properties\<close>; workspaces,
    \<open>schemii/workspaces\<close>: \<open>Workspace_Store\<close>.
  \<^item> PostgreSQL catalog snapshots, \<open>common/postgres/models.py\<close>: \<open>Postgres_Catalog\<close>; the execution of a
    migration on a target, \<open>common/postgres/gateway.py\<close> and \<open>errors.py\<close>: \<open>Postgres_Gateway\<close>; the
    admission of connections in the same file: \<open>Connection_Capacity\<close>.
  \<^item> The repository of the SQL console, \<open>InMemoryConsoleRepository\<close> of \<open>schemii/console/repository.py\<close>:
    \<open>Console_Store\<close>, \<open>Console_Properties\<close>.
  \<^item> Migration planning, \<open>schemii/migrations/planner.py\<close>, \<open>type_changes.py\<close> and \<open>checks.py\<close>: \<open>Planner_Merge\<close> (the
    three-way merge of baseline, design and database), \<open>Reconciliation\<close> (the alignment of identifiers, the
    merge and the validation of its result), \<open>Type_Changes\<close>, \<open>Conversion_Analysis\<close>
    (reviewed column conversions, \<open>conversions.py\<close>), \<open>Ddl_Statements\<close> (the statements),
    \<open>Migration_Steps\<close> (the passes of \<open>compile_migration_steps\<close>).
  \<^item> Migration records, \<open>schemii/migrations/models.py\<close> and \<open>InMemoryMigrationRepository\<close> of \<open>repository.py\<close>:
    \<open>Migration_Model\<close>, \<open>Migration_Repository\<close>, \<open>Migration_Leases\<close>, \<open>Migration_Invariant\<close>,
    \<open>Migration_Properties\<close>.
  \<^item> The execution coordinator, \<open>schemii/migrations/execution.py\<close>: \<open>Stateful_Actions\<close> (actions on a state that
    may fail, with triples), \<open>Migration_Callbacks\<close>, \<open>Migration_Execution\<close>, \<open>Execution_Outcome\<close>,
    \<open>Execution_Recovery\<close>.
  \<^item> The composition of the repositories, with the guards \<open>schemii/migrations/service.py\<close> installs:
    \<open>Application\<close>. The theories whose names end in \<open>Sample\<close> hold concrete runs.

  \<open>Schemii_Prelude\<close> holds what they share: dictionaries as association lists in insertion order, Python's
  string and list operations, results, and the collections of rewrite rules.

  \<^bold>\<open>Conventions\<close>

  Strings are lists of UTF-8 bytes. A Python \<open>dict\<close> is an association list with distinct keys. An
  operation that raises returns \<^const>\<open>Inl\<close> of an error of the component, or \<^const>\<open>None\<close> where the only failure
  is a \<open>KeyError\<close>. An operation of a repository takes its state and returns the new one together with its
  result, so that what a failed operation leaves behind is part of the model. Clocks, random
  identifiers and hash functions are fields of an environment record. Loops are structural recursion or
  recursion with a measure. Only the three walks along parent links of the history (\<open>walk_parents\<close>,
  \<open>cte_chain\<close> and \<open>follow_known\<close>) run on fuel, the number of entries, which the theorems about them show
  to be enough. Code outside the repository (the SQL parsers pglast and
  sqlglot, sha256, the database server) is a parameter: the base type of a domain, the error of a query,
  the relations of a view, the parameters of a routine, the normal form of a CHECK expression, and for
  execution the behaviour of the target as a record of functions.

  \<^bold>\<open>Interfaces\<close>

  Locales state what one component relies on in another, and are interpreted on the model:
  \<open>Revision_Control\<close> (optimistic revisions, on designs, connections, executions and saved queries),
  \<open>Lease_Control\<close> (leases, on executions), \<open>Migration_Callbacks\<close> (the two callbacks the gateway
  calls inside its transaction, on those of the coordinator), and the guards of the composed repositories.

  \<^bold>\<open>What is shown\<close>

  \<^item> State: reachable design repositories are consistent (history, cursor, layout and memory agree);
    connections, baselines, executions and the composed application keep their invariants; lost updates
    are impossible under revision control; a leased execution is changed by its owner only. An editor of
    the console has one active execution and a workspace one unfinished transaction; the counters of
    connection admission are exact and bounded for every interleaving of threads.
  \<^item> Round trips: deltas reproduce the document; undo and redo are inverse; retention loses no undo.
  \<^item> Safety of migrations: at most one execution per workspace that is not settled; the record of an execution
    tells what happened in the target, also after crashes and lost answers; recovery follows the target;
    a plan without destructive steps keeps every object; safe type changes keep every value;
    an accepted conversion expression computes with its column and built-ins only.
  \<^item> Planning: an import without issues represents the whole catalog; aligning a relabelled design
    restores its identifiers; reconciling with an unchanged database gives the design when it deletes
    nothing; a reconciliation
    without conflicts is valid and holds exactly the objects of both sides; planning succeeds for every
    validated design, gives nothing for equal schemas and orders steps.
  \<^item> Where the code does not do what it means to, a theorem states what it does:
    a deletion is always a conflict of the merge, reconciling a settled execution restores its old
    baseline, a plan that renames a table and changes its key addresses it by a name it does not have yet,
    an invalid combination of design and database aborts planning instead of being a conflict, the kind of
    a generated column is lost in an import, recording a query after a pruning of the console history evicts the newest entry, and an
    interrupted console execution can still be recorded as succeeded.

  \<^bold>\<open>Not modelled\<close>

  The PostgreSQL adapters of the repositories (their behaviour is that of SQL statements, except history
  pruning), introspection queries, the HTTP routes and the field patterns and
  length limits Pydantic checks there, the SQL analysis on syntax trees of third-party parsers, SQL export, the asyncio
  worker around the coordinator, the sessions and threads of the SQL console, AI assistants, accounts, the browser application beyond
  the delta applier, and the separate products Schemoo and Schemer.
\<close>

end
